(* ===== verification/Prelude.thy ===== *)
theory Prelude
  imports Main
begin

text \<open>
  Shared vocabulary of the development: computations that may raise or may not return,
  the generic facts on lists and maps that the components use, and the rule
  collections \<open>comp_simps\<close>, \<open>ret_iff\<close> and \<open>heap_simps\<close>.
\<close>

named_theorems comp_simps \<open>evaluation of computations\<close>
named_theorems ret_iff \<open>when a computation returns\<close>
named_theorems heap_simps \<open>unfolding of the heap operations\<close>

subsection \<open>Computations that raise or do not return\<close>

text \<open>
  A call of the source returns a value, raises an exception or never returns:
  \<open>Some (Inr x)\<close>, \<open>Some (Inl e)\<close> and \<open>None\<close>.
\<close>

type_synonym ('e, 'a) comp = "('e + 'a) option"

definition ret :: "'a \<Rightarrow> ('e, 'a) comp" where
  "ret x = Some (Inr x)"

definition raise :: "'e \<Rightarrow> ('e, 'a) comp" where
  "raise e = Some (Inl e)"

definition bind :: "('e, 'a) comp \<Rightarrow> ('a \<Rightarrow> ('e, 'b) comp) \<Rightarrow> ('e, 'b) comp" where
  "bind m f = (case m of None \<Rightarrow> None | Some (Inl e) \<Rightarrow> Some (Inl e) | Some (Inr x) \<Rightarrow> f x)"

definition assert :: "'e \<Rightarrow> bool \<Rightarrow> ('e, unit) comp" where
  "assert e b = (if b then ret () else raise e)"

fun fold_comp :: "('x \<Rightarrow> 's \<Rightarrow> ('e, 's) comp) \<Rightarrow> 'x list \<Rightarrow> 's \<Rightarrow> ('e, 's) comp" where
  "fold_comp f [] s = ret s"
| "fold_comp f (x # xs) s = bind (f x s) (fold_comp f xs)"

lemma bind_ret [simp, comp_simps]: "bind (ret x) f = f x"
  by (simp add: bind_def ret_def)

lemma bind_raise [simp, comp_simps]: "bind (raise e) f = raise e"
  by (simp add: bind_def raise_def)

lemma bind_assert [simp, comp_simps]: "bind (assert e b) f = (if b then f () else raise e)"
  by (simp add: assert_def)

lemma ret_inject [simp, comp_simps]: "ret x = ret y \<longleftrightarrow> x = y"
  by (simp add: ret_def)

lemma raise_inject [simp, comp_simps]: "raise x = raise y \<longleftrightarrow> x = y"
  by (simp add: raise_def)

lemma ret_raise [simp, comp_simps]: "ret x \<noteq> raise e" "raise e \<noteq> ret x"
  by (simp_all add: ret_def raise_def)

lemma bind_eq_ret:
  "bind m f = ret y \<longleftrightarrow> (\<exists>x. m = ret x \<and> f x = ret y)"
  by (auto simp: bind_def ret_def split: option.splits sum.splits)

lemma bind_eq_retE [elim!]:
  assumes "bind m f = ret y"
  obtains x where "m = ret x" "f x = ret y"
  using assms by (auto simp: bind_eq_ret)

lemma assert_eq_ret: "assert e b = ret u \<longleftrightarrow> b"
  by (simp add: assert_def)

lemma if_raise_ret: "(if b then m else raise e) = ret y \<longleftrightarrow> b \<and> m = ret y"
  by simp

lemma raise_if_ret: "(if b then raise e else m) = ret y \<longleftrightarrow> \<not> b \<and> m = ret y"
  by simp

lemmas [ret_iff] = bind_eq_ret assert_eq_ret if_raise_ret raise_if_ret

lemma comp_cases:
  obtains (raises) e where "m = raise e" | (returned) x where "m = ret x" | (never) "m = None"
  by (cases m) (auto simp: ret_def raise_def split: sum.splits intro: sum.exhaust [of "the m"])

definition returns :: "('e, 'a) comp \<Rightarrow> bool" where
  "returns m \<longleftrightarrow> (case m of Some (Inr _) \<Rightarrow> True | _ \<Rightarrow> False)"

lemma returnsE:
  assumes "returns m"
  obtains x where "m = ret x"
  using assms by (auto simp: returns_def ret_def split: option.splits sum.splits)

text \<open>A loop that only checks returns exactly when every check does.\<close>

lemma fold_comp_checks:
  "fold_comp (\<lambda>x (_ :: unit). f x) xs u = ret v \<longleftrightarrow> (\<forall>x\<in>set xs. f x = ret ())"
  by (induction xs arbitrary: u) (auto simp: bind_eq_ret)

text \<open>An invariant of the loop body is an invariant of the loop.\<close>

lemma fold_comp_inv:
  assumes "fold_comp f xs s = ret t" and "P s"
    and "\<And>x s t. x \<in> set xs \<Longrightarrow> P s \<Longrightarrow> f x s = ret t \<Longrightarrow> P t"
  shows "P t"
  using assms
proof (induction xs arbitrary: s)
  case (Cons x xs)
  from Cons.prems(1) obtain u where u: "f x s = ret u" "fold_comp f xs u = ret t"
    by auto
  from Cons.prems(2,3) u(1) have "P u" by auto
  from Cons.IH [OF u(2) this] Cons.prems(3) show ?case by auto
qed simp

subsection \<open>Maps\<close>

text \<open>\<open>links xs\<close> maps every element of \<open>xs\<close> but the last to its successor.\<close>

fun links :: "'a list \<Rightarrow> ('a \<rightharpoonup> 'a)" where
  "links (a # b # r) = (links (b # r))(a \<mapsto> b)"
| "links _ = Map.empty"

lemma links_notin [simp]: "x \<notin> set xs \<Longrightarrow> links xs x = None"
  by (induction xs rule: links.induct) auto

lemma links_step:
  "distinct (P @ a # b # S) \<Longrightarrow> links (P @ a # b # S) a = Some b"
proof (induction P)
  case (Cons c P)
  then show ?case by (cases P) auto
qed simp

lemma links_last: "distinct (P @ [z]) \<Longrightarrow> links (P @ [z]) z = None"
proof (induction P)
  case (Cons c P)
  then show ?case by (cases P) auto
qed simp

lemma links_Cons: "ys \<noteq> [] \<Longrightarrow> links (c # ys) = (links ys)(c \<mapsto> hd ys)"
  by (cases ys) auto

lemma links_delete:
  "distinct (P @ p # x # n # S) \<Longrightarrow>
   (links (P @ p # x # n # S))(p \<mapsto> n, x := None) = links (P @ p # n # S)"
proof (induction P)
  case Nil
  then show ?case by (auto simp: fun_upd_twist fun_eq_iff)
next
  case (Cons c P)
  then have ne: "c \<noteq> p" "c \<noteq> x" and d: "distinct (P @ p # x # n # S)" by auto
  have hd: "hd (P @ p # x # n # S) = hd (P @ p # n # S)" by (cases P) auto
  have "(links ((c # P) @ p # x # n # S))(p \<mapsto> n, x := None)
      = (links (P @ p # x # n # S))(p \<mapsto> n, x := None, c \<mapsto> hd (P @ p # n # S))"
    using ne by (simp add: links_Cons hd fun_upd_twist)
  also have "\<dots> = links (c # P @ p # n # S)"
    by (simp only: Cons.IH [OF d]) (simp add: links_Cons)
  finally show ?case by (simp only: append_Cons)
qed

lemma links_snoc_None [simp]: "distinct (X @ [p]) \<Longrightarrow> x \<notin> set X \<Longrightarrow> links (X @ [p]) x = None"
  using links_last [of X p] by (cases "x = p") auto

lemma links_append:
  "distinct (A @ z # B) \<Longrightarrow> links (A @ z # B) = links (A @ [z]) ++ links (z # B)"
proof (induction A)
  case (Cons c A)
  have "hd (A @ z # B) = hd (A @ [z])" by (cases A) auto
  moreover have "links (z # B) c = None" using Cons.prems by (intro links_notin) auto
  ultimately show ?case
    using Cons by (auto simp: links_Cons fun_eq_iff map_add_def split: option.splits)
qed (simp add: map_add_def)

text \<open>
  Splicing \<open>X\<close> in between two neighbours, forwards (the new links start at \<open>p\<close>) and backwards
  (they end at \<open>p\<close>).
\<close>

lemma links_splice:
  assumes "distinct (P @ p # X @ n # S)"
  shows "(links (P @ p # n # S) ++ links (p # X))(last (p # X) \<mapsto> n) = links (P @ p # X @ n # S)"
proof (cases X rule: rev_cases)
  case Nil
  with assms show ?thesis
    using links_step [of P p n S] by (auto simp: fun_eq_iff)
next
  case (snoc Y y)
  have a: "links (P @ p # X @ n # S) = links (P @ [p]) ++ (links (p # Y @ [y]) ++ (links (n # S))(y \<mapsto> n))"
  proof -
    have "distinct ((p # Y) @ y # n # S)" using assms snoc by auto
    then have "links ((p # Y) @ y # n # S) = links ((p # Y) @ [y]) ++ links (y # n # S)"
      by (rule links_append)
    then show ?thesis using links_append [OF assms] snoc by simp
  qed
  have b: "links (P @ p # n # S) = links (P @ [p]) ++ (links (n # S))(p \<mapsto> n)"
    using assms by (subst links_append) (auto simp: links_Cons)
  have d: "distinct ((p # Y) @ [y])" using assms snoc by auto
  have last: "last (p # X) = y" "y \<noteq> p" using snoc assms by auto
  show ?thesis
  proof (rule ext)
    fix x
    have out: "links (n # S) x = None" if "x \<in> set (p # Y)"
      using assms snoc that by (intro links_notin) auto
    show "((links (P @ p # n # S) ++ links (p # X))(last (p # X) \<mapsto> n)) x = links (P @ p # X @ n # S) x"
      unfolding a b last
      using assms snoc d out links_step [of "[]" p "hd (Y @ [y])"] links_snoc_None [OF d, of x]
        links_Cons [of "Y @ [y]" p]
      by (cases "x \<in> set (p # Y)") (auto simp: map_add_def split: option.splits)
  qed
qed

lemma links_splice_back:
  assumes "distinct (A @ n # X @ p # B)"
  shows "(links (A @ n # p # B) ++ links (X @ [p]))(n \<mapsto> hd (X @ [p])) = links (A @ n # X @ p # B)"
proof -
  have a: "links (A @ n # X @ p # B)
      = links (A @ [n]) ++ (links (X @ [p]) ++ links (p # B))(n \<mapsto> hd (X @ [p]))"
  proof -
    have "distinct (X @ p # B)" using assms by auto
    then have "links (X @ p # B) = links (X @ [p]) ++ links (p # B)" by (rule links_append)
    moreover have "hd (X @ p # B) = hd (X @ [p])" by (cases X) auto
    ultimately have "links (n # X @ p # B) = (links (X @ [p]) ++ links (p # B))(n \<mapsto> hd (X @ [p]))"
      by (simp add: links_Cons)
    then show ?thesis using links_append [OF assms] by simp
  qed
  have b: "links (A @ n # p # B) = links (A @ [n]) ++ (links (p # B))(n \<mapsto> p)"
    using assms by (subst links_append) (auto simp: links_Cons)
  have d: "distinct (X @ [p])" using assms by auto
  show ?thesis
  proof (rule ext)
    fix x
    have out: "links (p # B) x = None" if "x \<in> set X"
      using assms that by (intro links_notin) auto
    show "((links (A @ n # p # B) ++ links (X @ [p]))(n \<mapsto> hd (X @ [p]))) x = links (A @ n # X @ p # B) x"
      unfolding a b
      using assms out links_snoc_None [OF d, of x]
      by (cases "x \<in> set X") (auto simp: map_add_def split: option.splits)
  qed
qed


subsection \<open>Lists\<close>

lemma length_filter_out:
  assumes "distinct xs" "distinct t" "set t \<subseteq> set xs"
  shows "length (filter (\<lambda>x. x \<notin> set t) xs) + length t = length xs"
proof -
  have "set (filter (\<lambda>x. x \<in> set t) xs) = set t" using assms(3) by auto
  then have "length (filter (\<lambda>x. x \<in> set t) xs) = length t"
    using assms(1,2) by (metis distinct_card distinct_filter)
  with sum_length_filter_compl [of "\<lambda>x. x \<notin> set t" xs] show ?thesis by simp
qed

lemma set_take_filter: "set (take n (filter p xs)) \<subseteq> {x \<in> set xs. p x}"
  using set_take_subset [of n "filter p xs"] by auto

lemma count_list_pos: "x \<in> set xs \<Longrightarrow> 0 < count_list xs x"
  by (induction xs) auto

lemma count_list_distinct: "distinct xs \<Longrightarrow> count_list xs x = (if x \<in> set xs then 1 else 0)"
  by (induction xs) auto

end
