(* ===== verification/KV_Queue.thy ===== *)
theory KV_Queue
  imports Prelude
begin

text \<open>
  \<open>FreeKVCacheBlockQueue\<close> of \<^verbatim>\<open>vllm/v1/core/kv_cache_utils.py\<close>: the free blocks as a doubly
  linked list threaded through the blocks, with a fake head and a fake tail.
  The attributes \<^verbatim>\<open>prev_free_block\<close> and \<^verbatim>\<open>next_free_block\<close> of all block objects form the heap
  of \<open>qheap\<close>; an object is named by a \<open>node\<close>.  Every operation writes the pointers in
  the order the source writes them, and refines an operation on lists of nodes.
\<close>

subsection \<open>State\<close>

datatype node = HeadN | TailN | Blk nat

datatype qexn = ValueError | RuntimeError | AssertionError | OverflowError | StopIteration
  | IndexError

record qheap =
  nxt :: "node \<Rightarrow> node option"
  prv :: "node \<Rightarrow> node option"
  num_free :: int

definition set_nxt :: "node \<Rightarrow> node option \<Rightarrow> qheap \<Rightarrow> qheap" where
  [heap_simps]: "set_nxt a b h = h\<lparr>nxt := (nxt h)(a := b)\<rparr>"

definition set_prv :: "node \<Rightarrow> node option \<Rightarrow> qheap \<Rightarrow> qheap" where
  [heap_simps]: "set_prv a b h = h\<lparr>prv := (prv h)(a := b)\<rparr>"

definition add_free :: "int \<Rightarrow> qheap \<Rightarrow> qheap" where
  [heap_simps]: "add_free k h = h\<lparr>num_free := num_free h + k\<rparr>"

subsection \<open>Operations\<close>

text \<open>The constructor links consecutive blocks, then connects the two fake ends.\<close>

definition link_index :: "node list \<Rightarrow> nat \<Rightarrow> qheap \<Rightarrow> qheap" where
  "link_index bs i h =
     (let h1 = (if i > 0 then set_prv (bs ! i) (Some (bs ! (i - 1))) h else h)
      in if i + 1 < length bs then set_nxt (bs ! i) (Some (bs ! (i + 1))) h1 else h1)"

definition q_init :: "node list \<Rightarrow> qheap" where
  "q_init bs =
     (let h0 = \<lparr>nxt = Map.empty, prv = Map.empty, num_free = int (length bs)\<rparr>;
          h1 = fold (link_index bs) [0..<length bs] h0
      in if bs \<noteq> []
         then set_nxt (last bs) (Some TailN) (set_prv TailN (Some (last bs))
                (set_prv (hd bs) (Some HeadN) (set_nxt HeadN (Some (hd bs)) h1)))
         else set_prv TailN (Some HeadN) (set_nxt HeadN (Some TailN) h1))"

definition unlink :: "node \<Rightarrow> node \<Rightarrow> node \<Rightarrow> qheap \<Rightarrow> qheap" where
  [heap_simps]: "unlink p b n h =
     set_nxt b None (set_prv b None (set_prv n (Some p) (set_nxt p (Some n) h)))"

definition q_popleft :: "qheap \<Rightarrow> (qexn, node \<times> qheap) comp" where
  "q_popleft h =
     (case nxt h HeadN of
        None \<Rightarrow> bind (assert AssertionError (num_free h = 0)) (\<lambda>_. raise ValueError)
      | Some b \<Rightarrow>
          if b = TailN
          then bind (assert AssertionError (num_free h = 0)) (\<lambda>_. raise ValueError)
          else case nxt h b of
                 None \<Rightarrow> raise RuntimeError
               | Some n \<Rightarrow> ret (b, add_free (- 1) (unlink HeadN b n h)))"

fun pop_loop :: "nat \<Rightarrow> node option \<Rightarrow> node list \<Rightarrow> qheap
    \<Rightarrow> (qexn, node list \<times> node option \<times> qheap) comp" where
  "pop_loop 0 c acc h = ret (acc, c, h)"
| "pop_loop (Suc k) c acc h =
     (case c of
        None \<Rightarrow> raise AssertionError
      | Some b \<Rightarrow> pop_loop k (nxt h b) (acc @ [b]) (set_nxt b None (set_prv b None h)))"

definition q_popleft_n :: "nat \<Rightarrow> qheap \<Rightarrow> (qexn, node list \<times> qheap) comp" where
  "q_popleft_n n h =
     (if n = 0 then ret ([], h)
      else bind (assert AssertionError (num_free h \<ge> int n)) (\<lambda>_.
           bind (pop_loop n (nxt h HeadN) [] (add_free (- int n) h)) (\<lambda>(bs, c, h).
             ret (bs, case c of None \<Rightarrow> h
                      | Some b \<Rightarrow> set_prv b (Some HeadN) (set_nxt HeadN (Some b) h)))))"

text \<open>
  The walk of \<^verbatim>\<open>popleft_n_where\<close>: nothing in the loop itself bounds it, so not returning is
  a possible outcome of the model.
\<close>

partial_function (option) scan_pop :: "(node \<Rightarrow> bool) \<Rightarrow> nat \<Rightarrow> node option \<Rightarrow> node list \<Rightarrow> qheap
    \<Rightarrow> (qexn, node list \<times> qheap) comp" where
  [code]: "scan_pop p n c acc h =
     (if c = Some TailN \<or> n \<le> length acc then ret (acc, h)
      else case c of
             None \<Rightarrow> raise AssertionError
           | Some b \<Rightarrow>
               if p b
               then (case prv h b of
                       None \<Rightarrow> raise AssertionError
                     | Some pv \<Rightarrow>
                        (case nxt h b of
                           None \<Rightarrow> raise AssertionError
                         | Some nn \<Rightarrow> scan_pop p n (nxt h b) (acc @ [b]) (unlink pv b nn h)))
               else scan_pop p n (nxt h b) acc h)"

definition q_popleft_n_where :: "nat \<Rightarrow> (node \<Rightarrow> bool) \<Rightarrow> qheap \<Rightarrow> (qexn, node list \<times> qheap) comp" where
  "q_popleft_n_where n p h =
     (if n = 0 then ret ([], h)
      else bind (scan_pop p n (nxt h HeadN) [] h) (\<lambda>(bs, h).
             ret (bs, add_free (- int (length bs)) h)))"

definition q_remove :: "node \<Rightarrow> qheap \<Rightarrow> (qexn, qheap) comp" where
  "q_remove b h =
     (case prv h b of
        None \<Rightarrow> raise RuntimeError
      | Some p \<Rightarrow> (case nxt h b of
            None \<Rightarrow> raise RuntimeError
          | Some n \<Rightarrow> ret (add_free (- 1) (unlink p b n h))))"

definition q_append :: "node \<Rightarrow> qheap \<Rightarrow> (qexn, qheap) comp" where
  "q_append b h =
     (case prv h TailN of
        None \<Rightarrow> raise RuntimeError
      | Some l \<Rightarrow> ret (add_free 1 (set_prv TailN (Some b) (set_nxt b (Some TailN)
                   (set_prv b (Some l) (set_nxt l (Some b) h))))))"

text \<open>The loop that \<^verbatim>\<open>prepend_n\<close> and \<^verbatim>\<open>append_n\<close> share: link each block after the previous one.\<close>

fun link_loop :: "node list \<Rightarrow> node \<Rightarrow> qheap \<Rightarrow> node \<times> qheap" where
  "link_loop [] p h = (p, h)"
| "link_loop (b # bs) p h = link_loop bs b (set_nxt p (Some b) (set_prv b (Some p) h))"

definition q_prepend_n :: "node list \<Rightarrow> qheap \<Rightarrow> (qexn, qheap) comp" where
  "q_prepend_n bs h =
     (if bs = [] then ret h
      else case nxt h HeadN of
             None \<Rightarrow> raise AssertionError
           | Some f \<Rightarrow> (case link_loop bs HeadN h of
               (p, h) \<Rightarrow> ret (add_free (int (length bs))
                           (set_prv f (Some p) (set_nxt p (Some f) h)))))"

definition q_append_n :: "node list \<Rightarrow> qheap \<Rightarrow> (qexn, qheap) comp" where
  "q_append_n bs h =
     (if bs = [] then ret h
      else case prv h TailN of
             None \<Rightarrow> raise AssertionError
           | Some l \<Rightarrow> (case link_loop bs l h of
               (p, h) \<Rightarrow> ret (add_free (int (length bs))
                           (set_prv TailN (Some p) (set_nxt p (Some TailN) h)))))"

partial_function (option) walk_all :: "qheap \<Rightarrow> node \<Rightarrow> node list \<Rightarrow> (qexn, node list) comp" where
  [code]: "walk_all h c acc =
     (case nxt h c of None \<Rightarrow> ret acc | Some d \<Rightarrow> walk_all h d (acc @ [c]))"

definition q_get_all_free_blocks :: "qheap \<Rightarrow> (qexn, node list) comp" where
  "q_get_all_free_blocks h =
     (case nxt h HeadN of None \<Rightarrow> raise RuntimeError | Some c \<Rightarrow> walk_all h c [])"

partial_function (option) iter_walk :: "qheap \<Rightarrow> node option \<Rightarrow> node list \<Rightarrow> (qexn, node list) comp" where
  [code]: "iter_walk h c acc =
     (case c of
        None \<Rightarrow> ret acc
      | Some b \<Rightarrow> if b = TailN then ret acc else iter_walk h (nxt h b) (acc @ [b]))"

definition q_iter_blocks_after :: "node option \<Rightarrow> qheap \<Rightarrow> (qexn, node list) comp" where
  "q_iter_blocks_after cursor h =
     iter_walk h (case cursor of None \<Rightarrow> nxt h HeadN | Some b \<Rightarrow> nxt h b) []"

subsection \<open>The list a heap represents\<close>

text \<open>
  \<open>ends xs\<close> is the whole chain from fake head to fake tail; a heap represents \<open>xs\<close>
  (\<open>dll h xs\<close>) when its pointers are exactly the links of that chain, so that a block outside
  the queue has both pointers \<^verbatim>\<open>None\<close>, and the counter is the length.
\<close>

abbreviation ends :: "node list \<Rightarrow> node list" where
  "ends xs \<equiv> HeadN # xs @ [TailN]"

definition chain :: "qheap \<Rightarrow> node list \<Rightarrow> bool" where
  "chain h xs \<longleftrightarrow> distinct (ends xs) \<and> nxt h = links (ends xs) \<and> prv h = links (rev (ends xs))"

definition dll :: "qheap \<Rightarrow> node list \<Rightarrow> bool" where
  "dll h xs \<longleftrightarrow> chain h xs \<and> num_free h = int (length xs)"

lemma chain_distinct: "chain h xs \<Longrightarrow> distinct xs \<and> HeadN \<notin> set xs \<and> TailN \<notin> set xs"
  by (auto simp: chain_def)

lemma chain_add_free [simp]: "chain (add_free k h) xs = chain h xs"
  by (simp add: chain_def add_free_def)

definition left_of :: "node list \<Rightarrow> node" where
  "left_of pre = last (HeadN # pre)"

definition right_of :: "node list \<Rightarrow> node" where
  "right_of suf = hd (suf @ [TailN])"

lemma left_of_simps [simp]: "left_of [] = HeadN" "left_of (pre @ [b]) = b"
  by (simp_all add: left_of_def)

lemma right_of_simps [simp]: "right_of [] = TailN" "right_of (b # suf) = b"
  by (simp_all add: right_of_def)

lemma chain_num_free [simp]: "chain (h\<lparr>num_free := k\<rparr>) xs = chain h xs"
  by (simp add: chain_def)

lemma split_left: "HeadN # pre = butlast (HeadN # pre) @ [left_of pre]"
  unfolding left_of_def by (rule append_butlast_last_id [symmetric]) simp

lemma split_right: "suf @ [TailN] = right_of suf # tl (suf @ [TailN])"
  unfolding right_of_def by (rule hd_Cons_tl [symmetric]) simp

lemma ends_split:
  obtains P S where
    "\<And>bs. ends (pre @ bs @ suf) = P @ left_of pre # bs @ right_of suf # S"
proof
  fix bs
  have "ends (pre @ bs @ suf) = (HeadN # pre) @ bs @ (suf @ [TailN])" by simp
  also have "\<dots> = (butlast (HeadN # pre) @ [left_of pre]) @ bs @ right_of suf # tl (suf @ [TailN])"
    by (simp only: split_left [symmetric] split_right [symmetric])
  finally show "ends (pre @ bs @ suf)
      = butlast (HeadN # pre) @ left_of pre # bs @ right_of suf # tl (suf @ [TailN])"
    by (simp only: append.assoc append_Cons append_Nil)
qed

lemma chain_splitE:
  assumes "chain h (pre @ bs @ suf)"
  obtains P S where
    "\<And>bs. ends (pre @ bs @ suf) = P @ left_of pre # bs @ right_of suf # S"
    "distinct (P @ left_of pre # bs @ right_of suf # S)"
    "distinct (rev S @ right_of suf # rev bs @ left_of pre # rev P)"
    "nxt h = links (P @ left_of pre # bs @ right_of suf # S)"
    "prv h = links (rev S @ right_of suf # rev bs @ left_of pre # rev P)"
proof -
  obtain P S where e: "\<And>bs. ends (pre @ bs @ suf) = P @ left_of pre # bs @ right_of suf # S"
    using ends_split [of pre suf] by blast
  have "distinct (rev (ends (pre @ bs @ suf)))"
    using assms unfolding chain_def distinct_rev by blast
  moreover have r: "rev (ends (pre @ bs @ suf)) = rev S @ right_of suf # rev bs @ left_of pre # rev P"
    unfolding e by simp
  ultimately show thesis
    using assms e that unfolding chain_def r e by metis
qed

lemma chain_nxt: "chain h (pre @ b # suf) \<Longrightarrow> nxt h b = Some (right_of suf)"
  using chain_splitE [of h pre "[b]" suf] links_step [of "_ @ [_]" b]
  by (metis append.assoc append_Cons append_Nil)

lemma chain_prv: "chain h (pre @ b # suf) \<Longrightarrow> prv h b = Some (left_of pre)"
  using chain_splitE [of h pre "[b]" suf] links_step [of "_ @ [_]" b]
  by (metis append.assoc append_Cons append_Nil rev_singleton_conv)

lemma chain_head: "chain h xs \<Longrightarrow> nxt h HeadN = Some (right_of xs)"
  using chain_splitE [of h "[]" "[]" xs] links_step [of _ HeadN]
  by (metis append_Nil left_of_simps(1))

lemma chain_tail: "chain h xs \<Longrightarrow> prv h TailN = Some (left_of xs)"
  using chain_splitE [of h xs "[]" "[]"] links_step [of _ TailN]
  by (metis append_Nil append_Nil2 rev.simps(1) right_of_simps(1))

lemma chain_tail_nxt: "chain h xs \<Longrightarrow> nxt h TailN = None"
  using links_last [of "HeadN # xs" TailN] by (simp add: chain_def)

lemma chain_out: "chain h xs \<Longrightarrow> b \<notin> set xs \<Longrightarrow> b \<noteq> HeadN \<Longrightarrow> b \<noteq> TailN
    \<Longrightarrow> nxt h b = None \<and> prv h b = None"
  by (simp add: chain_def)


subsection \<open>Every operation refines an operation on lists\<close>

lemma chain_unlink:
  assumes "chain h (pre @ b # suf)"
  shows "chain (unlink (left_of pre) b (right_of suf) h) (pre @ suf)"
proof -
  from assms have "chain h (pre @ [b] @ suf)" by simp
  then obtain P S where e: "\<And>bs. ends (pre @ bs @ suf) = P @ left_of pre # bs @ right_of suf # S"
    and d: "distinct (P @ left_of pre # b # right_of suf # S)"
      "distinct (rev S @ right_of suf # b # left_of pre # rev P)"
    and n: "nxt h = links (P @ left_of pre # b # right_of suf # S)"
      "prv h = links (rev S @ right_of suf # b # left_of pre # rev P)"
    by (rule chain_splitE) auto
  have e0: "ends (pre @ suf) = P @ left_of pre # right_of suf # S"
    using e [of "[]"] by simp
  have "distinct (P @ left_of pre # right_of suf # S)" using d(1) by auto
  moreover have "nxt (unlink (left_of pre) b (right_of suf) h) = links (P @ left_of pre # right_of suf # S)"
    using links_delete [OF d(1)] n(1) by (simp add: heap_simps)
  moreover have "prv (unlink (left_of pre) b (right_of suf) h)
      = links (rev S @ right_of suf # left_of pre # rev P)"
    using links_delete [OF d(2)] n(2) by (simp add: heap_simps)
  ultimately show ?thesis
    unfolding chain_def e0 by simp
qed

text \<open>Linking \<open>bs\<close> between two neighbours, as \<^verbatim>\<open>append_n\<close> and \<^verbatim>\<open>prepend_n\<close> do.\<close>

lemma link_loop:
  "link_loop bs p h = (last (p # bs),
     h\<lparr>nxt := nxt h ++ links (p # bs), prv := prv h ++ links (rev (p # bs))\<rparr>)"
  if "distinct (p # bs)"
  using that
proof (induction bs arbitrary: p h)
  case (Cons b bs)
  have n: "nxt h ++ links (p # b # bs) = (nxt h)(p \<mapsto> b) ++ links (b # bs)"
    using Cons.prems by (auto simp: fun_eq_iff map_add_def split: option.splits)
  have d: "distinct (rev bs @ [b, p])" using Cons.prems by auto
  have "links (rev bs @ [b, p]) = (links (rev bs @ [b]))(b \<mapsto> p)"
    using links_append [of "rev bs" b "[p]"] d by simp
  then have "prv h ++ links (rev (p # b # bs)) = (prv h)(b \<mapsto> p) ++ links (rev (b # bs))"
    using d links_last [of "rev bs" b] by (auto simp: fun_eq_iff map_add_def split: option.splits)
  moreover have "distinct (b # bs)" using Cons.prems by auto
  ultimately show ?case
    unfolding link_loop.simps Cons.IH [OF \<open>distinct (b # bs)\<close>] n heap_simps by simp
qed (simp add: map_add_def)

lemma chain_splice:
  assumes c: "chain h (pre @ suf)"
    and d: "distinct bs" "set bs \<inter> set (ends (pre @ suf)) = {}"
  shows "chain (set_prv (right_of suf) (Some (last (left_of pre # bs)))
      (set_nxt (last (left_of pre # bs)) (Some (right_of suf))
        (snd (link_loop bs (left_of pre) h)))) (pre @ bs @ suf)"
proof -
  from c have "chain h (pre @ [] @ suf)" by simp
  then obtain P S where e: "\<And>bs. ends (pre @ bs @ suf) = P @ left_of pre # bs @ right_of suf # S"
    and dd: "distinct (P @ left_of pre # right_of suf # S)"
    and n: "nxt h = links (P @ left_of pre # right_of suf # S)"
      "prv h = links (rev S @ right_of suf # left_of pre # rev P)"
    by (rule chain_splitE) auto
  have e0: "ends (pre @ suf) = P @ left_of pre # right_of suf # S"
    using e [of "[]"] by simp
  have df: "distinct (P @ left_of pre # bs @ right_of suf # S)"
    using dd d unfolding e0 by auto
  then have dr: "distinct (rev S @ right_of suf # rev bs @ left_of pre # rev P)"
    by auto
  have db: "distinct (left_of pre # bs)" using df by auto
  have "last (left_of pre # bs) = hd (rev bs @ [left_of pre])"
    by (cases bs rule: rev_cases) auto
  with links_splice_back [OF dr]
  have "(links (rev S @ right_of suf # left_of pre # rev P) ++ links (rev (left_of pre # bs)))
        (right_of suf \<mapsto> last (left_of pre # bs))
      = links (rev S @ right_of suf # rev bs @ left_of pre # rev P)"
    by simp
  with links_splice [OF df] n df show ?thesis
    unfolding chain_def e by (simp add: link_loop [OF db] heap_simps del: last.simps)
qed


lemma chain_append: "chain h xs \<Longrightarrow> distinct bs \<Longrightarrow> set bs \<inter> set (ends xs) = {} \<Longrightarrow>
    link_loop bs (left_of xs) h = (l, g) \<Longrightarrow>
    chain (set_prv TailN (Some l) (set_nxt l (Some TailN) g)) (xs @ bs)"
  using chain_splice [of h xs "[]" bs] link_loop [of "left_of xs" bs h]
  by (cases xs rule: rev_cases) (auto simp del: last.simps)

lemma chain_prepend: "chain h xs \<Longrightarrow> distinct bs \<Longrightarrow> set bs \<inter> set (ends xs) = {} \<Longrightarrow>
    link_loop bs HeadN h = (l, g) \<Longrightarrow>
    chain (set_prv (right_of xs) (Some l) (set_nxt l (Some (right_of xs)) g)) (bs @ xs)"
  using chain_splice [of h "[]" xs bs] link_loop [of HeadN bs h] by auto

lemma q_remove_dll:
  assumes "dll h xs" and "b \<in> set xs"
  shows "\<exists>h'. q_remove b h = ret h' \<and> dll h' (remove1 b xs)"
proof -
  from assms(2) obtain pre suf where xs: "xs = pre @ b # suf" and "b \<notin> set pre"
    by (meson split_list_first)
  then have r: "remove1 b xs = pre @ suf" by (simp add: remove1_append)
  from assms xs have c: "chain h (pre @ b # suf)" by (simp add: dll_def)
  show ?thesis
    using assms xs chain_unlink [OF c] unfolding r
    by (auto simp: q_remove_def chain_prv [OF c] chain_nxt [OF c] dll_def)
       (simp_all add: heap_simps)
qed

lemma q_remove_invalid:
  "dll h xs \<Longrightarrow> b \<notin> set xs \<Longrightarrow> b \<noteq> HeadN \<Longrightarrow> b \<noteq> TailN \<Longrightarrow> q_remove b h = raise RuntimeError"
  using chain_out [of h xs b] by (simp add: q_remove_def dll_def)

lemma q_popleft_dll:
  assumes "dll h xs"
  shows "case xs of [] \<Rightarrow> q_popleft h = raise ValueError
    | b # bs \<Rightarrow> \<exists>h'. q_popleft h = ret (b, h') \<and> dll h' bs"
proof (cases xs)
  case Nil
  then show ?thesis
    using assms chain_head [of h xs] by (simp add: q_popleft_def dll_def)
next
  case (Cons b bs)
  with assms have c: "chain h ([] @ b # bs)" by (simp add: dll_def)
  from Cons assms have "b \<noteq> TailN" using chain_distinct [of h xs] by (auto simp: dll_def)
  then show ?thesis
    using Cons assms chain_head [OF c] chain_nxt [OF c] chain_unlink [OF c]
    by (auto simp: q_popleft_def dll_def) (simp_all add: heap_simps)
qed

lemma q_append_n_dll:
  assumes "dll h xs" "distinct bs" "set bs \<inter> set (ends xs) = {}"
  shows "\<exists>h'. q_append_n bs h = ret h' \<and> dll h' (xs @ bs)"
proof (cases "bs = []")
  case False
  from assms have c: "chain h xs" by (simp add: dll_def)
  obtain l g where lg: "link_loop bs (left_of xs) h = (l, g)" by fastforce
  from assms(3) chain_distinct [OF c] have "distinct (left_of xs # bs)"
    using assms(2) by (cases xs rule: rev_cases) auto
  from link_loop [OF this, of h] lg have "num_free g = num_free h" by auto
  with chain_append [OF c assms(2,3) lg] assms(1) lg False chain_tail [OF c] show ?thesis
    by (auto simp: q_append_n_def dll_def) (simp add: heap_simps)
qed (use assms in \<open>simp add: q_append_n_def\<close>)

lemma q_append_dll:
  assumes "dll h xs" "b \<notin> set (ends xs)"
  shows "\<exists>h'. q_append b h = ret h' \<and> dll h' (xs @ [b])"
proof -
  from assms have "chain h xs" by (simp add: dll_def)
  then have "q_append b h = q_append_n [b] h"
    by (simp add: q_append_def q_append_n_def chain_tail heap_simps)
  with q_append_n_dll [OF assms(1), of "[b]"] assms(2) show ?thesis by auto
qed

lemma q_prepend_n_dll:
  assumes "dll h xs" "distinct bs" "set bs \<inter> set (ends xs) = {}"
  shows "\<exists>h'. q_prepend_n bs h = ret h' \<and> dll h' (bs @ xs)"
proof (cases "bs = []")
  case False
  from assms have c: "chain h xs" by (simp add: dll_def)
  obtain l g where lg: "link_loop bs HeadN h = (l, g)" by fastforce
  from assms(2,3) have "distinct (HeadN # bs)" by auto
  from link_loop [OF this, of h] lg have "num_free g = num_free h" by auto
  with chain_prepend [OF c assms(2,3) lg] assms(1) lg False chain_head [OF c] show ?thesis
    by (auto simp: q_prepend_n_def dll_def) (simp add: heap_simps)
qed (use assms in \<open>simp add: q_prepend_n_def\<close>)


subsection \<open>Walks along the chain\<close>

fun walkp :: "(node \<Rightarrow> node option) \<Rightarrow> node option \<Rightarrow> node list \<Rightarrow> node option \<Rightarrow> bool" where
  "walkp m c [] d \<longleftrightarrow> c = d"
| "walkp m c (y # ys) d \<longleftrightarrow> c = Some y \<and> walkp m (m y) ys d"

lemma walkp_upd [simp]: "y \<notin> set ys \<Longrightarrow> walkp (m(y := v)) c ys d = walkp m c ys d"
  by (induction ys arbitrary: c) auto

lemma chain_walkp:
  "chain h (pre @ ys @ zs) \<Longrightarrow> walkp (nxt h) (Some (right_of (ys @ zs))) ys (Some (right_of zs))"
proof (induction ys arbitrary: pre)
  case (Cons y ys)
  with Cons.IH [of "pre @ [y]"] chain_nxt [of h pre y "ys @ zs"] show ?case by simp
qed simp

lemma pop_loop_walkp:
  "walkp (nxt h) c ys d \<Longrightarrow> distinct ys \<Longrightarrow>
   pop_loop (length ys) c acc h =
     ret (acc @ ys, d, h\<lparr>nxt := nxt h |` (- set ys), prv := prv h |` (- set ys)\<rparr>)"
proof (induction ys arbitrary: c acc h)
  case (Cons y ys)
  let ?h = "set_nxt y None (set_prv y None h)"
  have "walkp (nxt ?h) (nxt h y) ys d" using Cons.prems by (simp add: heap_simps)
  from Cons.IH [OF this] Cons.prems show ?case
    by (auto simp: heap_simps restrict_map_def fun_eq_iff)
qed (simp add: restrict_map_def)

lemma chain_drop:
  assumes c: "chain h (ys @ zs)"
  shows "chain (set_prv (right_of zs) (Some HeadN) (set_nxt HeadN (Some (right_of zs))
      (h\<lparr>nxt := nxt h |` (- set ys), prv := prv h |` (- set ys)\<rparr>))) zs"
proof -
  define S where "S = tl (zs @ [TailN])"
  have z: "zs @ [TailN] = right_of zs # S" using split_right S_def by simp
  have e: "ends (ys @ zs) = (HeadN # ys) @ right_of zs # S" and e0: "ends zs = HeadN # right_of zs # S"
    using z by simp_all
  have r: "rev (ends (ys @ zs)) = rev S @ right_of zs # rev ys @ [HeadN]" unfolding e by simp
  have d: "distinct ((HeadN # ys) @ right_of zs # S)"
    using c unfolding chain_def e by blast
  then have d': "distinct (rev S @ right_of zs # rev ys @ [HeadN])" by auto
  have nx: "nxt h = links ((HeadN # ys) @ [right_of zs]) ++ links (right_of zs # S)"
    using c links_append [OF d] unfolding chain_def e by simp
  have pv: "prv h = links (rev S @ [right_of zs]) ++ links (right_of zs # rev ys @ [HeadN])"
    using c links_append [OF d'] unfolding chain_def r by simp
  have dz: "distinct (ends zs)" unfolding e0 using d by auto
  have 1: "(nxt h |` (- set ys))(HeadN \<mapsto> right_of zs) = links (HeadN # right_of zs # S)"
  proof (rule ext)
    fix x
    have "links (right_of zs # S) x = None" if "x \<in> set ys"
      using d that by (intro links_notin) auto
    then show "((nxt h |` (- set ys))(HeadN \<mapsto> right_of zs)) x = links (HeadN # right_of zs # S) x"
      using d links_snoc_None [of "HeadN # ys" "right_of zs" x] unfolding nx by (cases "x \<in> set ys") (auto simp: restrict_map_def map_add_def split: option.splits)
  qed
  have 2: "(prv h |` (- set ys))(right_of zs \<mapsto> HeadN) = links (rev S @ [right_of zs, HeadN])"
  proof (rule ext)
    fix x
    have s: "links (rev S @ [right_of zs, HeadN]) = (links (rev S @ [right_of zs]))(right_of zs \<mapsto> HeadN)"
      using links_append [of "rev S" "right_of zs" "[HeadN]"] d' by simp
    have "links (rev S @ [right_of zs]) x = None" if "x \<in> set ys"
      using d that by (intro links_notin) auto
    moreover have "links (right_of zs # rev ys @ [HeadN]) x = None" if "x \<notin> set ys" "x \<noteq> right_of zs"
      using links_snoc_None [of "right_of zs # rev ys" HeadN x] d that by auto
    ultimately show "((prv h |` (- set ys))(right_of zs \<mapsto> HeadN)) x = links (rev S @ [right_of zs, HeadN]) x"
      using d unfolding pv s by (cases "x \<in> set ys") (auto simp: restrict_map_def map_add_def split: option.splits)
  qed
  from dz 1 2 show ?thesis
    unfolding chain_def e0 by (simp add: heap_simps)
qed

lemma q_popleft_n_dll:
  assumes "dll h xs" and n: "n \<le> length xs"
  shows "\<exists>h'. q_popleft_n n h = ret (take n xs, h') \<and> dll h' (drop n xs)"
proof (cases "n = 0")
  case False
  define ys zs where yz: "ys = take n xs" "zs = drop n xs"
  then have xs: "xs = ys @ zs" and len: "length ys = n" using n by auto
  from assms xs have c: "chain (add_free (- int n) h) ([] @ ys @ zs)" by (simp add: dll_def)
  have w: "walkp (nxt (add_free (- int n) h)) (nxt h HeadN) ys (Some (right_of zs))"
    using chain_walkp [OF c] chain_head [of h "ys @ zs"] c by simp
  from pop_loop_walkp [OF w, of "[]"] chain_distinct [OF c] len
  have p: "pop_loop n (nxt h HeadN) [] (add_free (- int n) h) = ret (ys, Some (right_of zs),
      (add_free (- int n) h)\<lparr>nxt := nxt (add_free (- int n) h) |` (- set ys),
        prv := prv (add_free (- int n) h) |` (- set ys)\<rparr>)"
    by simp
  have "num_free h \<ge> int n" using assms by (simp add: dll_def)
  then show ?thesis
    using False p chain_drop [of "add_free (- int n) h" ys zs] c assms(1) len xs
    unfolding yz [symmetric]
    by (auto simp: q_popleft_n_def dll_def) (simp add: heap_simps)
qed (use assms in \<open>simp add: q_popleft_n_def\<close>)

lemma scan_pop_stop: "n \<le> length acc \<Longrightarrow> scan_pop p n c acc h = ret (acc, h)"
  by (simp add: scan_pop.simps)

lemma scan_pop_chain:
  "chain h (pre @ rest) \<Longrightarrow>
   \<exists>h'. scan_pop p n (Some (right_of rest)) acc h
          = ret (acc @ take (n - length acc) (filter p rest), h')
     \<and> chain h' (pre @ filter (\<lambda>x. x \<notin> set (take (n - length acc) (filter p rest))) rest)
     \<and> num_free h' = num_free h"
proof (induction rest arbitrary: pre acc h)
  case Nil
  then show ?case by (subst scan_pop.simps) simp
next
  case (Cons b suf)
  from Cons.prems have bt: "b \<noteq> TailN" and bs: "b \<notin> set suf" and nx: "nxt h b = Some (right_of suf)"
    and pv: "prv h b = Some (left_of pre)"
    using chain_distinct [OF Cons.prems] chain_nxt [OF Cons.prems] chain_prv [OF Cons.prems] by auto
  show ?case
  proof (cases "n \<le> length acc")
    case True
    then show ?thesis using Cons.prems by (auto simp: scan_pop_stop)
  next
    case False
    then have n: "n - length acc = Suc (n - length (acc @ [b]))" by simp
    show ?thesis
    proof (cases "p b")
      case True
      let ?g = "unlink (left_of pre) b (right_of suf) h"
      have "scan_pop p n (Some (right_of (b # suf))) acc h = scan_pop p n (Some (right_of suf)) (acc @ [b]) ?g"
        using True False bt nx pv by (subst scan_pop.simps) simp
      moreover have "num_free ?g = num_free h" by (simp add: heap_simps)
      moreover have "filter (\<lambda>x. x \<noteq> b \<and> x \<notin> Y) suf = filter (\<lambda>x. x \<notin> Y) suf" for Y
        using bs by (auto intro: filter_cong)
      ultimately show ?thesis
        using Cons.IH [OF chain_unlink [OF Cons.prems], of "acc @ [b]"] True by (auto simp: n)
    next
      case F: False
      have "scan_pop p n (Some (right_of (b # suf))) acc h = scan_pop p n (Some (right_of suf)) acc h"
        using F False bt nx by (subst scan_pop.simps) simp
      moreover have "chain h ((pre @ [b]) @ suf)" using Cons.prems by simp
      moreover have "b \<notin> set (take k (filter p suf))" for k
        using bs set_take_subset [of k "filter p suf"] by auto
      ultimately show ?thesis
        using Cons.IH [of h "pre @ [b]" acc] F by auto
    qed
  qed
qed

lemma q_popleft_n_where_dll:
  assumes "dll h xs"
  shows "\<exists>h'. q_popleft_n_where n p h = ret (take n (filter p xs), h')
    \<and> dll h' (filter (\<lambda>x. x \<notin> set (take n (filter p xs))) xs)"
proof -
  from assms have c: "chain h ([] @ xs)" and d: "distinct xs"
    using chain_distinct [of h xs] by (auto simp: dll_def)
  let ?t = "take n (filter p xs)"
  have "length (filter (\<lambda>x. x \<notin> set ?t) xs) + length ?t = length xs"
    using d set_take_filter [of n p xs] by (intro length_filter_out) auto
  with scan_pop_chain [OF c, of p n "[]"] chain_head [of h xs] c assms show ?thesis
    by (cases "n = 0") (auto simp: q_popleft_n_where_def dll_def heap_simps)
qed


lemma walk_all_chain:
  "chain h (pre @ suf) \<Longrightarrow> walk_all h (right_of suf) acc = ret (acc @ suf)"
proof (induction suf arbitrary: pre acc)
  case Nil
  then show ?case using chain_tail_nxt [of h pre] by (subst walk_all.simps) simp
next
  case (Cons b suf)
  with chain_nxt [of h pre b suf] Cons.IH [of "pre @ [b]"] show ?case
    by (subst walk_all.simps) simp
qed

lemma iter_walk_chain:
  "chain h (pre @ suf) \<Longrightarrow> iter_walk h (Some (right_of suf)) acc = ret (acc @ suf)"
proof (induction suf arbitrary: pre acc)
  case Nil
  then show ?case by (subst iter_walk.simps) simp
next
  case (Cons b suf)
  from chain_distinct [OF Cons.prems] have "b \<noteq> TailN" by auto
  with Cons chain_nxt [of h pre b suf] Cons.IH [of "pre @ [b]"] show ?case
    by (subst iter_walk.simps) simp
qed

lemma q_get_all_free_blocks_dll: "dll h xs \<Longrightarrow> q_get_all_free_blocks h = ret xs"
  using walk_all_chain [of h "[]" xs "[]"] chain_head [of h xs]
  by (simp add: q_get_all_free_blocks_def dll_def)

lemma q_iter_blocks_dll: "dll h xs \<Longrightarrow> q_iter_blocks_after None h = ret xs"
  using iter_walk_chain [of h "[]" xs "[]"] chain_head [of h xs]
  by (simp add: q_iter_blocks_after_def dll_def)

lemma q_iter_blocks_after_dll:
  "dll h (pre @ b # suf) \<Longrightarrow> q_iter_blocks_after (Some b) h = ret suf"
  using iter_walk_chain [of h "pre @ [b]" suf "[]"] chain_nxt [of h pre b suf]
  by (simp add: q_iter_blocks_after_def dll_def)

subsection \<open>The constructor\<close>

lemma fold_link_index:
  assumes "distinct bs" "k \<le> length bs"
  shows "fold (link_index bs) [0..<k] \<lparr>nxt = Map.empty, prv = Map.empty, num_free = c\<rparr>
    = \<lparr>nxt = links (take (Suc k) bs), prv = links (rev (take k bs)), num_free = c\<rparr>"
  using assms(2)
proof (induction k)
  case 0
  then show ?case by (cases bs) auto
next
  case (Suc k)
  then have k: "take (Suc k) bs = take k bs @ [bs ! k]" by (simp add: take_Suc_conv_app_nth)
  have d: "distinct (take (Suc k) bs)" using assms(1) by simp
  have p: "links (rev (take (Suc k) bs))
      = (if k > 0 then (links (rev (take k bs)))(bs ! k \<mapsto> bs ! (k - 1)) else links (rev (take k bs)))"
  proof (cases k)
    case (Suc j)
    with Suc.prems have "rev (take k bs) = bs ! j # rev (take j bs)" by (simp add: take_Suc_conv_app_nth)
    then show ?thesis using k Suc by simp
  qed (cases bs, simp_all)
  have n: "links (take (Suc (Suc k)) bs)
      = (if k + 1 < length bs then (links (take (Suc k) bs))(bs ! k \<mapsto> bs ! (k + 1)) else links (take (Suc k) bs))"
  proof (cases "k + 1 < length bs")
    case True
    then have e: "take (Suc (Suc k)) bs = take k bs @ bs ! k # [bs ! Suc k]"
      by (simp add: take_Suc_conv_app_nth k)
    have "distinct (take k bs @ bs ! k # [bs ! Suc k])" using assms(1) by (simp only: e [symmetric] distinct_take)
    from links_append [OF this] True show ?thesis unfolding e by (simp add: k)
  qed (use Suc.prems in simp)
  have "fold (link_index bs) [0..<Suc k] \<lparr>nxt = Map.empty, prv = Map.empty, num_free = c\<rparr>
      = link_index bs k \<lparr>nxt = links (take (Suc k) bs), prv = links (rev (take k bs)), num_free = c\<rparr>"
    using Suc by simp
  also have "\<dots> = \<lparr>nxt = links (take (Suc (Suc k)) bs), prv = links (rev (take (Suc k) bs)), num_free = c\<rparr>"
    unfolding p n link_index_def Let_def heap_simps by simp
  finally show ?case .
qed

lemma q_init_dll:
  assumes "distinct (ends bs)"
  shows "dll (q_init bs) bs"
proof (cases bs rule: rev_cases)
  case Nil
  then show ?thesis
    by (auto simp: q_init_def dll_def chain_def heap_simps fun_eq_iff)
next
  case (snoc cs z)
  have d: "distinct bs" using assms by auto
  have nb: "links (bs @ [TailN]) = (links bs)(z \<mapsto> TailN)"
    using links_append [of cs z "[TailN]"] assms snoc by auto
  have pb: "links (rev bs @ [HeadN]) = (links (rev bs))(hd bs \<mapsto> HeadN)"
  proof -
    have "bs \<noteq> []" using snoc by simp
    then obtain b bs' where b: "bs = b # bs'" by (meson neq_Nil_conv)
    with assms have "distinct (rev bs' @ b # [HeadN])" by auto
    from links_append [OF this] b show ?thesis by simp
  qed
  have "hd (bs @ [TailN]) = hd bs" "hd (rev bs @ [HeadN]) = last bs"
    using snoc by (simp_all add: hd_append)
  with fold_link_index [OF d, of "length bs" "int (length bs)"] assms snoc nb pb show ?thesis
    unfolding q_init_def Let_def dll_def chain_def
    by (auto simp: heap_simps links_Cons fun_upd_twist)
qed


subsection \<open>The interface the block pool relies on\<close>

text \<open>
  What a queue of free blocks promises, over the list it represents; the two facts proved from
  it are the two ways the pool uses several operations in a row: taking victims in two passes,
  and taking chosen blocks out one by one.
\<close>

locale free_queue =
  fixes repr :: "'h \<Rightarrow> 'b list \<Rightarrow> bool"
    and valid :: "'b \<Rightarrow> bool"
    and pop_where :: "nat \<Rightarrow> ('b \<Rightarrow> bool) \<Rightarrow> 'h \<Rightarrow> ('e, 'b list \<times> 'h) comp"
    and remove :: "'b \<Rightarrow> 'h \<Rightarrow> ('e, 'h) comp"
    and append_n :: "'b list \<Rightarrow> 'h \<Rightarrow> ('e, 'h) comp"
    and prepend_n :: "'b list \<Rightarrow> 'h \<Rightarrow> ('e, 'h) comp"
    and items :: "'h \<Rightarrow> ('e, 'b list) comp"
    and size_of :: "'h \<Rightarrow> int"
  assumes repr_wf: "repr h xs \<Longrightarrow> distinct xs \<and> (\<forall>b\<in>set xs. valid b)"
    and repr_items: "repr h xs \<Longrightarrow> items h = ret xs"
    and repr_size: "repr h xs \<Longrightarrow> size_of h = int (length xs)"
    and repr_pop_where: "repr h xs \<Longrightarrow> \<exists>h'. pop_where n p h = ret (take n (filter p xs), h')
          \<and> repr h' (filter (\<lambda>x. x \<notin> set (take n (filter p xs))) xs)"
    and repr_remove: "repr h xs \<Longrightarrow> b \<in> set xs \<Longrightarrow> \<exists>h'. remove b h = ret h' \<and> repr h' (remove1 b xs)"
    and repr_append_n: "repr h xs \<Longrightarrow> distinct bs \<Longrightarrow> \<forall>b\<in>set bs. valid b \<and> b \<notin> set xs
          \<Longrightarrow> \<exists>h'. append_n bs h = ret h' \<and> repr h' (xs @ bs)"
    and repr_prepend_n: "repr h xs \<Longrightarrow> distinct bs \<Longrightarrow> \<forall>b\<in>set bs. valid b \<and> b \<notin> set xs
          \<Longrightarrow> \<exists>h'. prepend_n bs h = ret h' \<and> repr h' (bs @ xs)"
begin

text \<open>First the blocks that satisfy \<open>p\<close>, then, when they are not enough, the rest in queue order.\<close>

lemma two_passes:
  assumes r: "repr h xs" and n: "n \<le> length xs"
  obtains t1 t2 h1 h2 where
    "pop_where n p h = ret (t1, h1)" "t1 = take n (filter p xs)"
    "pop_where (n - length t1) (\<lambda>_. True) h1 = ret (t2, h2)"
    "repr h1 (filter (\<lambda>x. x \<notin> set t1) xs)"
    "repr h2 (filter (\<lambda>x. x \<notin> set (t1 @ t2)) xs)"
    "t2 = take (n - length t1) (filter (\<lambda>x. x \<notin> set t1) xs)"
    "length (t1 @ t2) = n" "distinct (t1 @ t2)" "set (t1 @ t2) \<subseteq> set xs"
    "t2 \<noteq> [] \<longrightarrow> (\<forall>x\<in>set xs - set t1. \<not> p x)"
proof -
  define t1 where "t1 = take n (filter p xs)"
  from repr_pop_where [OF r, of n p] obtain h1 where 1: "pop_where n p h = ret (t1, h1)"
    and r1: "repr h1 (filter (\<lambda>x. x \<notin> set t1) xs)"
    by (auto simp: t1_def)
  let ?ys = "filter (\<lambda>x. x \<notin> set t1) xs"
  define t2 where "t2 = take (n - length t1) ?ys"
  from repr_pop_where [OF r1, of "n - length t1" "\<lambda>_. True"]
  obtain h2 where 2: "pop_where (n - length t1) (\<lambda>_. True) h1 = ret (t2, h2)"
    and r2: "repr h2 (filter (\<lambda>x. x \<notin> set t2) ?ys)"
    by (auto simp: t2_def)
  have d: "distinct xs" using repr_wf [OF r] by simp
  have s1: "set t1 \<subseteq> set xs" using set_take_filter [of n p xs] by (auto simp: t1_def)
  have d1: "distinct t1" using d by (simp add: t1_def)
  have l: "length ?ys + length t1 = length xs" using length_filter_out [OF d d1 s1] .
  have s2: "set t2 \<subseteq> set xs - set t1" using set_take_subset [of "n - length t1" ?ys] by (auto simp: t2_def)
  have "length t1 \<le> n" by (simp add: t1_def)
  with l n have len: "length (t1 @ t2) = n" by (simp add: t2_def)
  have last: "\<forall>x\<in>set xs - set t1. \<not> p x" if "t2 \<noteq> []"
  proof -
    from that have "length t1 < n" by (auto simp: t2_def)
    then have "t1 = filter p xs" by (auto simp: t1_def)
    then show ?thesis by auto
  qed
  have "filter (\<lambda>x. x \<notin> set t2) ?ys = filter (\<lambda>x. x \<notin> set (t1 @ t2)) xs"
    by (simp add: conj_commute)
  with r2 have "repr h2 (filter (\<lambda>x. x \<notin> set (t1 @ t2)) xs)" by simp
  moreover have "distinct (t1 @ t2)" using d d1 s2 by (auto simp: t2_def)
  moreover have "set (t1 @ t2) \<subseteq> set xs" using s1 s2 by auto
  ultimately show thesis
    using that [OF 1 t1_def 2 r1] len last t2_def by blast
qed

lemma remove_all:
  "repr h xs \<Longrightarrow> distinct bs \<Longrightarrow> set bs \<subseteq> set xs \<Longrightarrow>
   \<exists>h'. fold_comp remove bs h = ret h' \<and> repr h' (filter (\<lambda>x. x \<notin> set bs) xs)"
proof (induction bs arbitrary: h xs)
  case (Cons b bs)
  from Cons.prems repr_remove [of h xs b] obtain h1
    where h1: "remove b h = ret h1" "repr h1 (remove1 b xs)" by auto
  have d: "distinct xs" using repr_wf [OF Cons.prems(1)] by simp
  with Cons.prems have "set bs \<subseteq> set (remove1 b xs)" by auto
  with Cons.IH [OF h1(2)] Cons.prems obtain h2 where
    "fold_comp remove bs h1 = ret h2" "repr h2 (filter (\<lambda>x. x \<notin> set bs) (remove1 b xs))" by auto
  moreover have "filter (\<lambda>x. x \<notin> set bs) (remove1 b xs) = filter (\<lambda>x. x \<notin> set (b # bs)) xs"
    using d by (simp add: distinct_remove1_removeAll removeAll_filter_not_eq conj_commute)
      (rule filter_cong, auto)
  ultimately show ?case using h1 by auto
qed simp

end

definition real_node :: "node \<Rightarrow> bool" where
  "real_node b \<longleftrightarrow> b \<noteq> HeadN \<and> b \<noteq> TailN"

interpretation fq: free_queue dll real_node q_popleft_n_where q_remove q_append_n q_prepend_n
    "q_iter_blocks_after None" num_free
proof unfold_locales
  fix h xs
  assume "dll h xs"
  then show "distinct xs \<and> (\<forall>b\<in>set xs. real_node b)"
    using chain_distinct [of h xs] by (auto simp: dll_def real_node_def)
next
  fix h xs bs
  assume "dll h xs" "distinct bs" "\<forall>b\<in>set bs. real_node b \<and> b \<notin> set xs"
  then show "\<exists>h'. q_append_n bs h = ret h' \<and> dll h' (xs @ bs)"
    by (intro q_append_n_dll) (auto simp: real_node_def)
next
  fix h xs bs
  assume "dll h xs" "distinct bs" "\<forall>b\<in>set bs. real_node b \<and> b \<notin> set xs"
  then show "\<exists>h'. q_prepend_n bs h = ret h' \<and> dll h' (bs @ xs)"
    by (intro q_prepend_n_dll) (auto simp: real_node_def)
qed (simp_all add: q_iter_blocks_dll q_popleft_n_where_dll q_remove_dll, simp add: dll_def)

end
