(* ===== verification/KV_Index.thy ===== *)
theory KV_Index
  imports KV_Queue "HOL-Library.AList" "HOL-Library.Word"
begin

text \<open>
  The keys of the prefix cache (\<^verbatim>\<open>vllm/v1/core/kv_cache_utils.py\<close>) and
  \<open>BlockHashToBlockMap\<close> of \<^verbatim>\<open>vllm/v1/core/block_pool.py\<close>: a map from a key to one block or to
  a dictionary of blocks by block id.
\<close>

subsection \<open>Keys: a block hash and a group id packed into bytes\<close>

type_synonym bytes = "8 word list"

fun be_bytes :: "nat \<Rightarrow> int \<Rightarrow> bytes" where
  "be_bytes 0 v = []"
| "be_bytes (Suc n) v = be_bytes n (v div 256) @ [word_of_int v]"

definition to_bytes_be :: "nat \<Rightarrow> int \<Rightarrow> (qexn, bytes) comp" where
  "to_bytes_be n v = bind (assert OverflowError (0 \<le> v \<and> v < 256 ^ n)) (\<lambda>_. ret (be_bytes n v))"

definition from_bytes_be :: "bytes \<Rightarrow> int" where
  "from_bytes_be bs = foldl (\<lambda>a b. a * 256 + uint b) 0 bs"

definition make_block_hash_with_group_id :: "bytes \<Rightarrow> int \<Rightarrow> (qexn, bytes) comp" where
  "make_block_hash_with_group_id block_hash group_id =
     bind (to_bytes_be 4 group_id) (\<lambda>g. ret (block_hash @ g))"

definition get_block_hash :: "bytes \<Rightarrow> bytes" where
  "get_block_hash key = take (length key - 4) key"

definition get_group_id :: "bytes \<Rightarrow> int" where
  "get_group_id key = from_bytes_be (drop (length key - 4) key)"

text \<open>The external form of a block hash, chosen by \<^verbatim>\<open>VLLM_KV_EVENTS_USE_INT_BLOCK_HASHES\<close>.\<close>

datatype ext_hash = ExtBytes bytes | ExtInt int

definition maybe_convert_block_hash :: "bool \<Rightarrow> bytes \<Rightarrow> ext_hash" where
  "maybe_convert_block_hash use_int h =
     (if \<not> use_int then ExtBytes h else ExtInt (from_bytes_be h mod 2 ^ 64))"

lemma length_be_bytes [simp]: "length (be_bytes n v) = n"
  by (induction n arbitrary: v) auto

lemma div_int_pos_less: "(v :: int) < a * 256 \<Longrightarrow> v div 256 < a"
  by presburger

lemma from_be_bytes: "0 \<le> v \<Longrightarrow> v < 256 ^ n \<Longrightarrow> from_bytes_be (be_bytes n v) = v"
proof (induction n arbitrary: v)
  case (Suc n)
  have "v < 256 ^ n * 256" using Suc.prems by (simp add: mult.commute)
  then have "v div 256 < 256 ^ n" by (rule div_int_pos_less)
  with Suc have "from_bytes_be (be_bytes n (v div 256)) = v div 256" by simp
  then show ?case by (simp add: from_bytes_be_def unsigned_of_int take_bit_eq_mod)
qed (simp add: from_bytes_be_def)

text \<open>
  Packing a block hash with a group id that fits four bytes succeeds, and both parts are
  read back unchanged.
\<close>

theorem group_key_roundtrip:
  assumes "0 \<le> g" and "g < 2 ^ 32"
  shows "\<exists>k. make_block_hash_with_group_id h g = ret k \<and> get_block_hash k = h \<and> get_group_id k = g"
  using assms from_be_bytes [of g 4]
  by (simp add: make_block_hash_with_group_id_def to_bytes_be_def get_block_hash_def get_group_id_def)

theorem group_key_roundtrip_witness:
  "\<exists>k. make_block_hash_with_group_id [1, 2] 7 = ret k \<and> get_block_hash k = [1, 2] \<and> get_group_id k = 7"
  by (rule group_key_roundtrip) simp_all

subsection \<open>The map from a key to its blocks\<close>

text \<open>A block's id is fixed when the block is made; the two fake ends carry \<open>-1\<close>.\<close>

fun block_id :: "node \<Rightarrow> int" where
  "block_id (Blk i) = int i"
| "block_id HeadN = - 1"
| "block_id TailN = - 1"

datatype slot = One node | Many "(int \<times> node) list"

type_synonym hmap = "bytes \<rightharpoonup> slot"

definition m_get_one_block :: "bytes \<Rightarrow> hmap \<Rightarrow> (qexn, node option) comp" where
  "m_get_one_block key m =
     (case m key of
        None \<Rightarrow> ret None
      | Some (One b) \<Rightarrow> ret (Some b)
      | Some (Many d) \<Rightarrow> (case d of [] \<Rightarrow> raise StopIteration | x # _ \<Rightarrow> ret (Some (snd x))))"

definition m_contain :: "bytes \<Rightarrow> int \<Rightarrow> hmap \<Rightarrow> bool" where
  "m_contain key i m =
     (case m key of
        None \<Rightarrow> False
      | Some (One b) \<Rightarrow> block_id b = i
      | Some (Many d) \<Rightarrow> i \<in> fst ` set d)"

definition m_insert :: "bytes \<Rightarrow> node \<Rightarrow> hmap \<Rightarrow> hmap" where
  "m_insert key b m =
     (case m key of
        None \<Rightarrow> m(key \<mapsto> One b)
      | Some (One c) \<Rightarrow> m(key \<mapsto> Many (AList.update (block_id b) b [(block_id c, c)]))
      | Some (Many d) \<Rightarrow> m(key \<mapsto> Many (AList.update (block_id b) b d)))"

definition m_pop :: "bytes \<Rightarrow> int \<Rightarrow> hmap \<Rightarrow> node option \<times> hmap" where
  "m_pop key i m =
     (let blocks = m key; m0 = m(key := None)
      in case blocks of
           None \<Rightarrow> (None, m0)
         | Some (One b) \<Rightarrow> if block_id b = i then (Some b, m0) else (None, m0(key \<mapsto> One b))
         | Some (Many d) \<Rightarrow>
             (let d' = AList.delete i d
              in (map_of d i, if length d' > 0 then m0(key \<mapsto> Many d') else m0)))"

text \<open>
  Every dictionary the program builds is \<open>tagged bs\<close> for a nonempty list of distinct blocks;
  \<open>members m key\<close> are the blocks a key leads to.
\<close>

definition tagged :: "node list \<Rightarrow> (int \<times> node) list" where
  "tagged bs = map (\<lambda>b. (block_id b, b)) bs"

definition members :: "hmap \<Rightarrow> bytes \<Rightarrow> node set" where
  "members m key =
     (case m key of None \<Rightarrow> {} | Some (One b) \<Rightarrow> {b} | Some (Many d) \<Rightarrow> snd ` set d)"

fun slot_ok :: "slot option \<Rightarrow> bool" where
  "slot_ok None \<longleftrightarrow> True"
| "slot_ok (Some (One b)) \<longleftrightarrow> real_node b"
| "slot_ok (Some (Many d)) \<longleftrightarrow> (\<exists>bs. bs \<noteq> [] \<and> distinct bs \<and> (\<forall>b\<in>set bs. real_node b) \<and> d = tagged bs)"

definition hmap_ok :: "hmap \<Rightarrow> bool" where
  "hmap_ok m \<longleftrightarrow> (\<forall>key. slot_ok (m key))"

lemma hmap_okD: "hmap_ok m \<Longrightarrow> slot_ok (m key)"
  by (simp add: hmap_ok_def)

lemma hmap_ok_upd: "hmap_ok m \<Longrightarrow> slot_ok v \<Longrightarrow> hmap_ok (m(key := v))"
  by (simp add: hmap_ok_def)

lemma block_id_inject: "real_node b \<Longrightarrow> real_node c \<Longrightarrow> block_id b = block_id c \<longleftrightarrow> b = c"
  by (cases b; cases c) (auto simp: real_node_def)

lemma tagged_simps [simp]:
  "tagged [] = []" "tagged (b # bs) = (block_id b, b) # tagged bs"
  "snd ` set (tagged bs) = set bs" "length (tagged bs) = length bs"
  "(i, c) \<in> set (tagged bs) \<longleftrightarrow> i = block_id c \<and> c \<in> set bs" "tagged bs = [] \<longleftrightarrow> bs = []"
  by (auto simp: tagged_def image_iff)

lemma slot_ok_tagged: "bs \<noteq> [] \<Longrightarrow> distinct bs \<Longrightarrow> \<forall>b\<in>set bs. real_node b \<Longrightarrow> slot_ok (Some (Many (tagged bs)))"
  by auto

lemma fst_tagged: "real_node b \<Longrightarrow> \<forall>c\<in>set bs. real_node c \<Longrightarrow> block_id b \<in> fst ` set (tagged bs) \<longleftrightarrow> b \<in> set bs"
  by (auto simp: tagged_def image_iff block_id_inject)

lemma update_tagged: "real_node b \<Longrightarrow> \<forall>c\<in>set bs. real_node c \<Longrightarrow>
    AList.update (block_id b) b (tagged bs) = tagged (if b \<in> set bs then bs else bs @ [b])"
  by (induction bs) (auto simp: block_id_inject tagged_def)

lemma delete_tagged: "real_node b \<Longrightarrow> \<forall>c\<in>set bs. real_node c \<Longrightarrow>
    AList.delete (block_id b) (tagged bs) = tagged (removeAll b bs)"
  by (induction bs) (auto simp: block_id_inject)

lemma map_of_tagged: "real_node b \<Longrightarrow> \<forall>c\<in>set bs. real_node c \<Longrightarrow>
    map_of (tagged bs) (block_id b) = (if b \<in> set bs then Some b else None)"
  by (induction bs) (auto simp: block_id_inject)

lemma members_upd_other [simp]: "k \<noteq> key \<Longrightarrow> members (m(key := v)) k = members m k"
  by (simp add: members_def)

lemma m_contain_iff:
  "hmap_ok m \<Longrightarrow> real_node b \<Longrightarrow> m_contain key (block_id b) m \<longleftrightarrow> b \<in> members m key"
  using hmap_okD [of m key]
  by (auto simp: m_contain_def members_def block_id_inject fst_tagged split: option.splits slot.splits)

lemma m_get_one_block_members:
  assumes "hmap_ok m"
  shows "\<exists>r. m_get_one_block key m = ret r
    \<and> (case r of None \<Rightarrow> members m key = {} | Some b \<Rightarrow> b \<in> members m key)"
proof (cases "m key")
  case (Some s)
  then show ?thesis
    using hmap_okD [OF assms, of key]
    by (cases s) (auto simp: m_get_one_block_def members_def neq_Nil_conv)
qed (simp add: m_get_one_block_def members_def)

lemma hmap_slotE:
  assumes "hmap_ok m"
  obtains "m key = None"
  | c where "m key = Some (One c)" "real_node c"
  | bs where "m key = Some (Many (tagged bs))" "bs \<noteq> []" "distinct bs" "\<forall>c\<in>set bs. real_node c"
  using hmap_okD [OF assms, of key] by (cases "m key" rule: slot_ok.cases) auto

lemma update_tagged_ok:
  assumes "real_node b" "bs \<noteq> []" "distinct bs" "\<forall>c\<in>set bs. real_node c"
  shows "slot_ok (Some (Many (AList.update (block_id b) b (tagged bs))))
    \<and> snd ` set (AList.update (block_id b) b (tagged bs)) = insert b (set bs)"
  using assms slot_ok_tagged [of bs] slot_ok_tagged [of "bs @ [b]"]
  unfolding update_tagged [OF assms(1,4)] by (auto simp del: slot_ok.simps simp: image_iff)

lemma m_insert_spec:
  assumes "hmap_ok m" "real_node b"
  shows "hmap_ok (m_insert key b m)
    \<and> members (m_insert key b m) k = (if k = key then insert b (members m key) else members m k)"
  using assms(1)
proof (cases rule: hmap_slotE [where key = key])
  case 1
  with assms show ?thesis
    by (auto simp: m_insert_def members_def intro!: hmap_ok_upd)
next
  case (2 c)
  with assms update_tagged_ok [of b "[c]"] show ?thesis
    by (auto simp: m_insert_def members_def simp del: slot_ok.simps AList.update.simps intro!: hmap_ok_upd)
next
  case (3 bs)
  with assms update_tagged_ok [of b bs] show ?thesis
    by (auto simp: m_insert_def members_def simp del: slot_ok.simps AList.update.simps intro!: hmap_ok_upd)
qed

lemma m_pop_spec:
  assumes m: "hmap_ok m" and b: "real_node b"
  shows "\<exists>m'. m_pop key (block_id b) m = (if b \<in> members m key then Some b else None, m')
    \<and> hmap_ok m' \<and> (\<forall>k. members m' k = (if k = key then members m key - {b} else members m k))"
proof -
  have m0: "hmap_ok (m(key := None))" using m by (intro hmap_ok_upd) auto
  show ?thesis
    using m
  proof (cases rule: hmap_slotE [where key = key])
    case 1
    with m0 show ?thesis by (auto simp: m_pop_def members_def)
  next
    case (2 c)
    with b have "block_id c = block_id b \<longleftrightarrow> c = b" by (simp add: block_id_inject)
    with 2 m m0 show ?thesis
      by (auto simp: m_pop_def members_def fun_upd_idem)
  next
    case (3 bs)
    show ?thesis
    proof (cases "removeAll b bs = []")
      case True
      then have "set bs \<subseteq> {b}" by (metis Diff_eq_empty_iff empty_set set_removeAll)
      with True 3 m0 b show ?thesis
        by (auto simp: m_pop_def members_def delete_tagged map_of_tagged)
    next
      case False
      then have "slot_ok (Some (Many (tagged (removeAll b bs))))"
        using 3 by (intro slot_ok_tagged) (auto simp: distinct_removeAll)
      then have "hmap_ok (m(key \<mapsto> Many (tagged (removeAll b bs))))"
        using m by (rule hmap_ok_upd [rotated])
      with False 3 b show ?thesis
        by (simp add: m_pop_def members_def delete_tagged map_of_tagged)
    qed
  qed
qed

subsection \<open>The index as an interface\<close>

text \<open>The loop of \<^verbatim>\<open>_remove_cached_block_hashes\<close>: the keys that were really removed.\<close>

fun pop_each :: "('k \<Rightarrow> 'm \<Rightarrow> 'v option \<times> 'm) \<Rightarrow> 'k list \<Rightarrow> 'm \<Rightarrow> 'k list \<times> 'm" where
  "pop_each f [] m = ([], m)"
| "pop_each f (k # ks) m =
     (case f k m of (r, m1) \<Rightarrow> case pop_each f ks m1 of (rs, m2) \<Rightarrow>
        (if r \<noteq> None then k # rs else rs, m2))"

text \<open>
  What the block pool relies on: an insertion adds one member under one key, a removal takes one
  away and reports whether it was there.
\<close>

locale hash_index =
  fixes ok :: "'m \<Rightarrow> bool"
    and mem :: "'m \<Rightarrow> 'k \<Rightarrow> 'b set"
    and ins :: "'k \<Rightarrow> 'b \<Rightarrow> 'm \<Rightarrow> 'm"
    and pop :: "'k \<Rightarrow> int \<Rightarrow> 'm \<Rightarrow> 'b option \<times> 'm"
    and contains :: "'k \<Rightarrow> int \<Rightarrow> 'm \<Rightarrow> bool"
    and tag :: "'b \<Rightarrow> int"
    and valid :: "'b \<Rightarrow> bool"
  assumes contains_iff: "ok m \<Longrightarrow> valid b \<Longrightarrow> contains k (tag b) m \<longleftrightarrow> b \<in> mem m k"
    and ins_ok: "ok m \<Longrightarrow> valid b \<Longrightarrow> ok (ins k b m)"
    and ins_mem: "ok m \<Longrightarrow> valid b \<Longrightarrow>
      mem (ins k b m) k' = (if k' = k then insert b (mem m k) else mem m k')"
    and pop_law: "ok m \<Longrightarrow> valid b \<Longrightarrow> \<exists>m'. pop k (tag b) m = (if b \<in> mem m k then Some b else None, m')
      \<and> ok m' \<and> (\<forall>k'. mem m' k' = (if k' = k then mem m k - {b} else mem m k'))"
begin

lemma pop_all:
  "ok m \<Longrightarrow> valid b \<Longrightarrow> distinct ks \<Longrightarrow>
   \<exists>m'. pop_each (\<lambda>k. pop k (tag b)) ks m = (filter (\<lambda>k. b \<in> mem m k) ks, m')
     \<and> ok m' \<and> (\<forall>k. mem m' k = (if k \<in> set ks then mem m k - {b} else mem m k))"
proof (induction ks arbitrary: m)
  case (Cons k ks)
  from pop_law [OF Cons.prems(1,2), of k] obtain m1 where
    m1: "pop k (tag b) m = (if b \<in> mem m k then Some b else None, m1)" "ok m1"
      "\<forall>k'. mem m1 k' = (if k' = k then mem m k - {b} else mem m k')" by auto
  from Cons.prems have "distinct ks" "k \<notin> set ks" by auto
  from Cons.IH [OF m1(2) Cons.prems(2) this(1)] obtain m2 where
    m2: "pop_each (\<lambda>k. pop k (tag b)) ks m1 = (filter (\<lambda>k. b \<in> mem m1 k) ks, m2)" "ok m2"
      "\<forall>k. mem m2 k = (if k \<in> set ks then mem m1 k - {b} else mem m1 k)" by auto
  have "filter (\<lambda>k. b \<in> mem m1 k) ks = filter (\<lambda>k. b \<in> mem m k) ks"
    using m1(3) \<open>k \<notin> set ks\<close> by (auto intro: filter_cong)
  with m1 m2 \<open>k \<notin> set ks\<close> show ?case by auto
qed simp

lemma ins_contains: "ok m \<Longrightarrow> valid b \<Longrightarrow> contains k (tag b) (ins k b m)"
  by (simp add: contains_iff ins_ok ins_mem)

end

interpretation hi: hash_index hmap_ok members m_insert m_pop m_contain block_id real_node
proof unfold_locales
  fix m b k
  assume "hmap_ok m" "real_node b"
  from m_pop_spec [OF this, of k] show "\<exists>m'. m_pop k (block_id b) m = (if b \<in> members m k then Some b else None, m')
      \<and> hmap_ok m' \<and> (\<forall>k'. members m' k' = (if k' = k then members m k - {b} else members m k'))"
    by auto
qed (use m_insert_spec m_contain_iff in blast)+

end
