(* ===== verification/KV_Request.thy ===== *)
theory KV_Request
  imports KV_Index
begin

text \<open>
  The hashed view of a request: the extra keys of a block, the chained block hashes
  (\<^verbatim>\<open>vllm/v1/core/kv_cache_utils.py\<close>) and the two operations of \<^verbatim>\<open>vllm/v1/request.py\<close> that
  extend them.  The hash function, the seed \<^verbatim>\<open>NONE_HASH\<close> and the digest of a slice of prompt
  embeddings come from outside the repository and are parameters.
\<close>

subsection \<open>Requests\<close>

record mm_feature =
  mm_identifier :: "string option"
  mm_offset :: int
  mm_length :: int

record lora_request =
  adapter_id :: int
  lora_label :: string
  lora_name :: string

record request =
  block_hashes :: "bytes list"
  all_token_ids :: "int list"
  mm_features :: "mm_feature list"
  lora :: "lora_request option"
  cache_salt :: "string option"
  prompt_embeds :: "(nat \<Rightarrow> nat \<Rightarrow> bytes) option"

datatype extra_key = KLora string | KMM string int | KSalt string | KEmbeds bytes

type_synonym hash_input = "bytes \<times> int list \<times> extra_key list option"

subsection \<open>Extra keys\<close>

text \<open>The loop over the features from \<open>curr_mm_idx\<close> on; \<open>fs\<close> are the features not yet passed.\<close>

fun mm_loop :: "int \<Rightarrow> int \<Rightarrow> int \<Rightarrow> mm_feature list \<Rightarrow> extra_key list
    \<Rightarrow> (qexn, extra_key list \<times> int) comp" where
  "mm_loop st en idx [] ks = ret (ks, idx)"
| "mm_loop st en idx (f # fs) ks =
     (case mm_identifier f of
        None \<Rightarrow> raise AssertionError
      | Some ident \<Rightarrow>
          if en > mm_offset f
          then if st \<ge> mm_offset f + mm_length f
               then mm_loop st en (idx + 1) fs ks
               else let ks' = ks @ [KMM ident (mm_offset f - st)]
                    in if en \<ge> mm_offset f + mm_length f
                       then mm_loop st en (idx + 1) fs ks'
                       else ret (ks', idx)
          else ret (ks, idx))"

definition gen_mm_extra_hash_keys :: "request \<Rightarrow> nat \<Rightarrow> nat \<Rightarrow> int
    \<Rightarrow> (qexn, extra_key list \<times> int) comp" where
  "gen_mm_extra_hash_keys r start_token_idx end_token_idx start_mm_idx =
     (let fs = mm_features r
      in if fs = [] then ret ([], start_mm_idx)
         else if mm_offset (last fs) + mm_length (last fs) \<le> int start_token_idx
         then ret ([], start_mm_idx)
         else bind (assert AssertionError (start_mm_idx < 0 \<longrightarrow> - start_mm_idx \<le> int (length fs)))
           (\<lambda>_. let i = (if start_mm_idx < 0 then int (length fs) + start_mm_idx else start_mm_idx)
                in mm_loop (int start_token_idx) (int end_token_idx) i (drop (nat i) fs) []))"

definition gen_lora_extra_hash_keys :: "request \<Rightarrow> extra_key list" where
  "gen_lora_extra_hash_keys r = (case lora r of None \<Rightarrow> [] | Some l \<Rightarrow> [KLora (lora_name l)])"

definition gen_prompt_embeds_extra_hash_keys :: "request \<Rightarrow> nat \<Rightarrow> nat \<Rightarrow> extra_key list" where
  "gen_prompt_embeds_extra_hash_keys r st en =
     (case prompt_embeds r of None \<Rightarrow> [] | Some digest \<Rightarrow> [KEmbeds (digest st en)])"

definition generate_block_hash_extra_keys :: "request \<Rightarrow> nat \<Rightarrow> nat \<Rightarrow> int
    \<Rightarrow> (qexn, extra_key list option \<times> int) comp" where
  "generate_block_hash_extra_keys r st en start_mm_idx =
     bind (gen_mm_extra_hash_keys r st en start_mm_idx) (\<lambda>(mm, idx).
       let salt = (case cache_salt r of None \<Rightarrow> [] | Some s \<Rightarrow> if st = 0 \<and> s \<noteq> [] then [KSalt s] else []);
           ks = gen_lora_extra_hash_keys r @ mm @ salt @ gen_prompt_embeds_extra_hash_keys r st en
       in ret (if ks = [] then None else Some ks, idx))"

subsection \<open>Chained block hashes\<close>

definition hash_block_tokens :: "(hash_input \<Rightarrow> bytes) \<Rightarrow> bytes \<Rightarrow> bytes option \<Rightarrow> int list
    \<Rightarrow> extra_key list option \<Rightarrow> bytes" where
  "hash_block_tokens H NONE_HASH parent tokens extra =
     (let p = (case parent of None \<Rightarrow> NONE_HASH | Some h \<Rightarrow> if h = [] then NONE_HASH else h)
      in H (p, tokens, extra))"

text \<open>
  The \<^verbatim>\<open>while True\<close> of \<^verbatim>\<open>request_block_hasher\<close>.  With a block size of zero it would not stop,
  so it is a partial function.
\<close>

partial_function (option) hasher_loop :: "(hash_input \<Rightarrow> bytes) \<Rightarrow> bytes \<Rightarrow> nat \<Rightarrow> request \<Rightarrow> nat
    \<Rightarrow> int \<Rightarrow> bytes option \<Rightarrow> bytes list \<Rightarrow> (qexn, bytes list) comp" where
  [code]: "hasher_loop H NONE_HASH bs r st mm prev acc =
     (let en = st + bs
      in if en > length (all_token_ids r) then ret acc
         else case generate_block_hash_extra_keys r st en mm of
                None \<Rightarrow> None
              | Some (Inl e) \<Rightarrow> raise e
              | Some (Inr (extra, mm')) \<Rightarrow>
                  let h = hash_block_tokens H NONE_HASH prev (take bs (drop st (all_token_ids r))) extra
                  in hasher_loop H NONE_HASH bs r en mm' (Some h) (acc @ [h]))"

definition request_block_hasher :: "(hash_input \<Rightarrow> bytes) \<Rightarrow> bytes \<Rightarrow> nat \<Rightarrow> request
    \<Rightarrow> (qexn, bytes list) comp" where
  "request_block_hasher H NONE_HASH bs r =
     (let st = length (block_hashes r) * bs
      in if st + bs > length (all_token_ids r) then ret []
         else hasher_loop H NONE_HASH bs r st (if st > 0 then - 1 else 0)
                (if block_hashes r = [] then None else Some (last (block_hashes r))) [])"

text \<open>A request may have no hasher (prefix caching off); then nothing is hashed.\<close>

definition update_block_hashes_by :: "(request \<Rightarrow> (qexn, bytes list) comp) option \<Rightarrow> request
    \<Rightarrow> (qexn, request) comp" where
  "update_block_hashes_by hasher r = (case hasher of
     None \<Rightarrow> ret r
   | Some f \<Rightarrow> bind (f r) (\<lambda>hs. ret (r\<lparr>block_hashes := block_hashes r @ hs\<rparr>)))"

definition update_block_hashes :: "(hash_input \<Rightarrow> bytes) \<Rightarrow> bytes \<Rightarrow> nat \<Rightarrow> request
    \<Rightarrow> (qexn, request) comp" where
  "update_block_hashes H NONE_HASH bs r = update_block_hashes_by (Some (request_block_hasher H NONE_HASH bs)) r"

definition append_output_token_ids :: "(hash_input \<Rightarrow> bytes) \<Rightarrow> bytes \<Rightarrow> nat \<Rightarrow> int list \<Rightarrow> request
    \<Rightarrow> (qexn, request) comp" where
  "append_output_token_ids H NONE_HASH bs ids r =
     update_block_hashes H NONE_HASH bs (r\<lparr>all_token_ids := all_token_ids r @ ids\<rparr>)"

subsection \<open>Views of the hashes at a coarser block size\<close>

datatype hash_list = Raw "bytes list" | View "bytes list" nat

definition resolve_block_hashes :: "hash_list \<Rightarrow> nat \<Rightarrow> nat \<Rightarrow> bool \<Rightarrow> nat option
    \<Rightarrow> (qexn, hash_list) comp" where
  "resolve_block_hashes hs hash_block_size block_size fine alignment =
     (if block_size = hash_block_size then ret hs
      else case hs of
             View l scale \<Rightarrow> bind (assert AssertionError (scale = block_size div hash_block_size)) (\<lambda>_. ret hs)
           | Raw l \<Rightarrow>
               if fine \<and> (case alignment of None \<Rightarrow> False | Some a \<Rightarrow> a < block_size \<and> block_size mod a = 0)
               then ret hs
               else bind (assert AssertionError (block_size mod hash_block_size = 0)) (\<lambda>_.
                      ret (View l (block_size div hash_block_size))))"

fun hl_length :: "hash_list \<Rightarrow> nat" where
  "hl_length (Raw l) = length l"
| "hl_length (View l scale) = length l div scale"

fun hl_get :: "hash_list \<Rightarrow> nat \<Rightarrow> (qexn, bytes) comp" where
  "hl_get (Raw l) i = (if i < length l then ret (l ! i) else raise IndexError)"
| "hl_get (View l scale) i =
     (let j = (i + 1) * scale - 1 in if j < length l then ret (l ! j) else raise IndexError)"

fun hl_from :: "hash_list \<Rightarrow> nat \<Rightarrow> bytes list" where
  "hl_from (Raw l) st = drop st l"
| "hl_from (View l scale) st = map (\<lambda>i. l ! ((i + 1) * scale - 1)) [st..<length l div scale]"

end
