(* ===== verification/KV_Hash.thy ===== *)
theory KV_Hash
  imports KV_Request
begin

text \<open>
  What the block hashes of a request mean: hashing as tokens arrive gives the same chain as hashing
  the whole request at once if the request has no multimodal inputs, equal hashes mean equal prefixes with
  equal extra keys when the hash function does not collide, a coarser view selects the hashes at the coarser block ends, and the extra keys of a
  block name exactly the multimodal inputs that overlap it.
\<close>

subsection \<open>The chain of block hashes\<close>

definition block_tokens :: "nat \<Rightarrow> int list \<Rightarrow> nat \<Rightarrow> int list" where
  "block_tokens bs toks i = take bs (drop (i * bs) toks)"

definition plain_extra :: "request \<Rightarrow> nat \<Rightarrow> nat \<Rightarrow> extra_key list option" where
  "plain_extra r st en =
     (let ks = gen_lora_extra_hash_keys r
           @ (case cache_salt r of None \<Rightarrow> [] | Some s \<Rightarrow> if st = 0 \<and> s \<noteq> [] then [KSalt s] else [])
           @ gen_prompt_embeds_extra_hash_keys r st en
      in if ks = [] then None else Some ks)"

lemma plain_extra_eq:
  "mm_features r = [] \<Longrightarrow> generate_block_hash_extra_keys r st en mm = ret (plain_extra r st en, mm)"
  by (simp add: generate_block_hash_extra_keys_def gen_mm_extra_hash_keys_def plain_extra_def Let_def)

primrec chain_hashes :: "(hash_input \<Rightarrow> bytes) \<Rightarrow> bytes \<Rightarrow> nat \<Rightarrow> request \<Rightarrow> nat \<Rightarrow> bytes list" where
  "chain_hashes H N bs r 0 = []"
| "chain_hashes H N bs r (Suc n) =
     (let l = chain_hashes H N bs r n
      in l @ [hash_block_tokens H N (if l = [] then None else Some (last l))
           (block_tokens bs (all_token_ids r) n) (plain_extra r (n * bs) (Suc n * bs))])"

lemma length_chain [simp]: "length (chain_hashes H N bs r n) = n"
  by (induction n) (simp_all add: Let_def)

lemma chain_nonempty [simp]: "chain_hashes H N bs r n = [] \<longleftrightarrow> n = 0"
  by (metis length_0_conv length_chain)

lemma block_tokens_append:
  "Suc i * bs \<le> length toks \<Longrightarrow> block_tokens bs (toks @ ys) i = block_tokens bs toks i"
  by (simp add: block_tokens_def)

lemma chain_hashes_append:
  "n * bs \<le> length (all_token_ids r) \<Longrightarrow>
   chain_hashes H N bs (r\<lparr>all_token_ids := all_token_ids r @ ids\<rparr>) n = chain_hashes H N bs r n"
proof (induction n)
  case (Suc n)
  then have "block_tokens bs (all_token_ids r @ ids) n = block_tokens bs (all_token_ids r) n"
    by (intro block_tokens_append) simp
  with Suc show ?case
    by (simp add: Let_def plain_extra_def gen_lora_extra_hash_keys_def gen_prompt_embeds_extra_hash_keys_def)
qed simp

lemma hasher_loop_chain:
  assumes bs: "0 < bs" and mm: "mm_features r = []"
  shows "k * bs \<le> length (all_token_ids r) \<Longrightarrow>
    hasher_loop H N bs r (k * bs) m (if k = 0 then None else Some (last (chain_hashes H N bs r k))) acc
      = ret (acc @ drop k (chain_hashes H N bs r (length (all_token_ids r) div bs)))"
proof (induction "length (all_token_ids r) div bs - k" arbitrary: k acc)
  case 0
  let ?n = "length (all_token_ids r)"
  have "k \<le> ?n div bs" using 0(2) bs by (simp add: less_eq_div_iff_mult_less_eq)
  with 0(1) have k: "k = ?n div bs" by simp
  have "?n < Suc k * bs" unfolding k using bs by (metis dividend_less_times_div add.commute mult.commute mult_Suc)
  then show ?case using k by (subst hasher_loop.simps) (simp add: Let_def)
next
  case (Suc d)
  let ?n = "length (all_token_ids r)"
  from Suc(2) have lt: "Suc k \<le> ?n div bs" by simp
  then have fits: "Suc k * bs \<le> ?n" using bs by (simp add: less_eq_div_iff_mult_less_eq)
  let ?l = "chain_hashes H N bs r k"
  let ?h = "hash_block_tokens H N (if k = 0 then None else Some (last ?l)) (take bs (drop (k * bs) (all_token_ids r)))
      (plain_extra r (k * bs) (k * bs + bs))"
  have c: "chain_hashes H N bs r (Suc k) = ?l @ [?h]"
    by (simp add: Let_def block_tokens_def add.commute)
  have "hasher_loop H N bs r (k * bs) m (if k = 0 then None else Some (last ?l)) acc
      = hasher_loop H N bs r (Suc k * bs) m (Some ?h) (acc @ [?h])"
    using fits by (subst hasher_loop.simps)
      (simp add: Let_def plain_extra_eq [OF mm] ret_def add.commute del: chain_hashes.simps)
  also have "\<dots> = hasher_loop H N bs r (Suc k * bs) m
       (if Suc k = 0 then None else Some (last (chain_hashes H N bs r (Suc k)))) (acc @ [?h])"
    unfolding c by simp
  also have "\<dots> = ret ((acc @ [?h]) @ drop (Suc k) (chain_hashes H N bs r (?n div bs)))"
    using Suc(1) [of "Suc k"] Suc(2) fits by (simp del: chain_hashes.simps)
  also have "(acc @ [?h]) @ drop (Suc k) (chain_hashes H N bs r (?n div bs))
      = acc @ drop k (chain_hashes H N bs r (?n div bs))"
  proof -
    have tail: "?h # drop (Suc k) (chain_hashes H N bs r (?n div bs)) = drop k (chain_hashes H N bs r (?n div bs))"
  proof -
    have pre: "take n (chain_hashes H N bs r m) = chain_hashes H N bs r n" if "n \<le> m" for n m
      using that by (induction m) (auto simp: Let_def le_Suc_eq)
    have "chain_hashes H N bs r (?n div bs) ! k = ?h"
      using pre [OF lt] c by (metis length_chain lessI nth_append_length nth_take)
    moreover have "k < length (chain_hashes H N bs r (?n div bs))" using lt by simp
    ultimately show ?thesis by (metis Cons_nth_drop_Suc)
    qed
    then show ?thesis by simp
  qed
  finally show ?case .
qed

definition hashed_upto :: "(hash_input \<Rightarrow> bytes) \<Rightarrow> bytes \<Rightarrow> nat \<Rightarrow> request \<Rightarrow> bool" where
  "hashed_upto H N bs r \<longleftrightarrow> (\<exists>k. k * bs \<le> length (all_token_ids r) \<and> block_hashes r = chain_hashes H N bs r k)"

lemma chain_take: "n \<le> m \<Longrightarrow> take n (chain_hashes H N bs r m) = chain_hashes H N bs r n"
  by (induction m) (auto simp: Let_def le_Suc_eq)

lemma update_hashes_chain:
  assumes bs: "0 < bs" and mm: "mm_features r = []" and h: "hashed_upto H N bs r"
  shows "update_block_hashes H N bs r
    = ret (r\<lparr>block_hashes := chain_hashes H N bs r (length (all_token_ids r) div bs)\<rparr>)"
proof -
  let ?n = "length (all_token_ids r)"
  from h obtain k where k: "k * bs \<le> ?n" "block_hashes r = chain_hashes H N bs r k" by (auto simp: hashed_upto_def)
  have kn: "k \<le> ?n div bs" using k(1) bs by (simp add: less_eq_div_iff_mult_less_eq)
  have app: "chain_hashes H N bs r k @ drop k (chain_hashes H N bs r (?n div bs)) = chain_hashes H N bs r (?n div bs)"
    by (metis append_take_drop_id chain_take [OF kn])
  have "request_block_hasher H N bs r = ret (drop k (chain_hashes H N bs r (?n div bs)))"
  proof (cases "k * bs + bs > ?n")
    case True
    then have "?n div bs < Suc k" using bs by (simp add: div_less_iff_less_mult add.commute)
    with kn have "drop k (chain_hashes H N bs r (?n div bs)) = []" by simp
    with True show ?thesis by (simp add: request_block_hasher_def k(2) Let_def)
  next
    case False
    with hasher_loop_chain [OF bs mm k(1), of H N "if k * bs > 0 then - 1 else 0" "[]"] bs show ?thesis
      by (cases "k = 0") (simp_all add: request_block_hasher_def k(2) Let_def)
  qed
  then show ?thesis by (simp add: update_block_hashes_def update_block_hashes_by_def k(2) app)
qed

text \<open>
  C7. For a request without multimodal inputs, hashing block by block as output tokens arrive never
  fails and leaves exactly the hashes that hashing the whole token sequence at once would give.
\<close>

theorem incremental_hashing:
  assumes "0 < bs" and "mm_features r = []" and "hashed_upto H N bs r"
  shows "\<exists>r'. append_output_token_ids H N bs ids r = ret r' \<and> hashed_upto H N bs r'
    \<and> all_token_ids r' = all_token_ids r @ ids
    \<and> length (block_hashes r') = length (all_token_ids r') div bs
    \<and> update_block_hashes H N bs (r'\<lparr>block_hashes := []\<rparr>) = ret r'"
proof -
  let ?a = "r\<lparr>all_token_ids := all_token_ids r @ ids\<rparr>"
  let ?n = "length (all_token_ids r @ ids) div bs"
  let ?r = "?a\<lparr>block_hashes := chain_hashes H N bs ?a ?n\<rparr>"
  have cong: "chain_hashes H N bs (x\<lparr>block_hashes := hs\<rparr>) n = chain_hashes H N bs x n" for x :: request and hs n
    by (induction n) (simp_all add: Let_def plain_extra_def gen_lora_extra_hash_keys_def
        gen_prompt_embeds_extra_hash_keys_def)
  from assms(3) obtain k where k: "k * bs \<le> length (all_token_ids r)" "block_hashes r = chain_hashes H N bs r k"
    by (auto simp: hashed_upto_def)
  then have "hashed_upto H N bs ?a" by (auto simp: hashed_upto_def chain_hashes_append intro!: exI [of _ k])
  from update_hashes_chain [OF assms(1) _ this] assms(2)
  have a: "append_output_token_ids H N bs ids r = ret ?r" by (simp add: append_output_token_ids_def)
  have h: "hashed_upto H N bs ?r" unfolding hashed_upto_def cong by (rule exI [of _ ?n]) simp
  have "hashed_upto H N bs (?r\<lparr>block_hashes := []\<rparr>)" unfolding hashed_upto_def by (rule exI [of _ 0]) simp
  from update_hashes_chain [OF assms(1) _ this] assms(2)
  have "update_block_hashes H N bs (?r\<lparr>block_hashes := []\<rparr>) = ret ?r" by (simp add: cong)
  with a h show ?thesis by (intro exI [of _ ?r]) simp
qed

definition demo_H :: "hash_input \<Rightarrow> bytes" where
  "demo_H x = (case x of (p, toks, ks) \<Rightarrow>
     1 # (case ks of None \<Rightarrow> 0 | Some l \<Rightarrow> of_nat (length l)) # map of_int toks @ p)"

definition demo_request :: "int list \<Rightarrow> mm_feature list \<Rightarrow> request" where
  "demo_request toks fs = \<lparr>block_hashes = [], all_token_ids = toks, mm_features = fs, lora = None,
     cache_salt = None, prompt_embeds = None\<rparr>"

theorem incremental_hashing_witness:
  "\<exists>r'. append_output_token_ids demo_H [9] 2 [4, 5, 6] (demo_request [1, 2, 3] []) = ret r'
     \<and> length (block_hashes r') = 3"
proof -
  have "hashed_upto demo_H [9] 2 (demo_request [1, 2, 3] [])"
    unfolding hashed_upto_def by (rule exI [of _ 0]) (simp add: demo_request_def)
  moreover have "mm_features (demo_request [1, 2, 3] []) = []" "all_token_ids (demo_request [1, 2, 3] []) = [1, 2, 3]"
    by (simp_all add: demo_request_def)
  ultimately show ?thesis using incremental_hashing [of 2 "demo_request [1, 2, 3] []" demo_H "[9]" "[4, 5, 6]"]
    by auto
qed

subsection \<open>Coarser views\<close>

text \<open>
  The view of the hashes at a coarser block size has one entry per full coarse block, the entry
  \<open>i\<close> is the chained hash at the end of that block, so it stands for the whole prefix of
  \<open>(i + 1) * block_size\<close> tokens, slices agree with single accesses, and an index past the end raises.
\<close>

theorem coarse_view:
  assumes "0 < hbs" and "1 < s" and "block_hashes r = chain_hashes H N hbs r (length (all_token_ids r) div hbs)"
  shows "\<exists>v. resolve_block_hashes (Raw (block_hashes r)) hbs (s * hbs) False None = ret v
    \<and> hl_length v = length (all_token_ids r) div (s * hbs)
    \<and> (\<forall>i. hl_get v i = (if i < hl_length v then ret (last (chain_hashes H N hbs r (Suc i * s))) else raise IndexError))
    \<and> (\<forall>i st. st \<le> i \<and> i < hl_length v \<longrightarrow> hl_get v i = ret (hl_from v st ! (i - st)))"
proof -
  let ?l = "block_hashes r" and ?n = "length (all_token_ids r) div hbs"
  have res: "resolve_block_hashes (Raw ?l) hbs (s * hbs) False None = ret (View ?l s)"
    using assms(1,2) by (simp add: resolve_block_hashes_def)
  have len: "length ?l = ?n" by (simp add: assms(3))
  have hl: "hl_length (View ?l s) = length (all_token_ids r) div (s * hbs)"
    by (simp add: len div_mult2_eq mult.commute)
  have idx: "Suc i * s - 1 < length ?l \<longleftrightarrow> i < length ?l div s" for i
  proof -
    have "Suc i * s - 1 < length ?l \<longleftrightarrow> Suc i * s \<le> length ?l" using assms(2) by auto
    also have "\<dots> \<longleftrightarrow> Suc i \<le> length ?l div s" using assms(2) by (simp add: less_eq_div_iff_mult_less_eq)
    finally show ?thesis by auto
  qed
  have val: "?l ! (Suc i * s - 1) = last (chain_hashes H N hbs r (Suc i * s))" if "i < length ?l div s" for i
  proof -
    have p: "0 < Suc i * s" using assms(2) by simp
    have le: "Suc i * s \<le> ?n" using that idx [of i] len p by linarith
    have "last (chain_hashes H N hbs r (Suc i * s)) = chain_hashes H N hbs r (Suc i * s) ! (Suc i * s - 1)"
      using p by (subst last_conv_nth) auto
    also have "\<dots> = take (Suc i * s) (chain_hashes H N hbs r ?n) ! (Suc i * s - 1)" by (simp only: chain_take [OF le])
    also have "\<dots> = chain_hashes H N hbs r ?n ! (Suc i * s - 1)" using p by (intro nth_take) simp
    finally show ?thesis by (simp only: assms(3))
  qed
  have get: "hl_get (View ?l s) i = (if i < hl_length (View ?l s) then ret (last (chain_hashes H N hbs r (Suc i * s)))
      else raise IndexError)" for i
    using idx [of i] val [of i] by (auto simp: Let_def)
  have slice: "hl_get (View ?l s) i = ret (hl_from (View ?l s) st ! (i - st))"
    if "st \<le> i" "i < hl_length (View ?l s)" for i st
  proof -
    have "[st..<length ?l div s] ! (i - st) = i" using that by simp
    then have "hl_from (View ?l s) st ! (i - st) = ?l ! (Suc i * s - 1)" using that by simp
    with that val [of i] show ?thesis unfolding get by simp
  qed
  show ?thesis
    by (intro exI [of _ "View ?l s"] conjI allI impI res hl get slice) auto
qed

theorem coarse_view_witness:
  "\<exists>v. resolve_block_hashes (Raw (chain_hashes demo_H [9] 2 (demo_request [1, 2, 3, 4, 5, 6, 7] []) 3)) 2 4 False None = ret v
     \<and> hl_length v = 1 \<and> hl_get v 1 = raise IndexError"
proof -
  let ?r = "demo_request [1, 2, 3, 4, 5, 6, 7] []"
  let ?h = "chain_hashes demo_H [9] 2 ?r 3"
  have c: "chain_hashes demo_H [9] 2 (?r\<lparr>block_hashes := ?h\<rparr>) n = chain_hashes demo_H [9] 2 ?r n" for n
    by (induction n) (simp_all add: Let_def plain_extra_def gen_lora_extra_hash_keys_def
        gen_prompt_embeds_extra_hash_keys_def)
  have l: "all_token_ids ?r = [1, 2, 3, 4, 5, 6, 7]" by (simp add: demo_request_def)
  have "block_hashes (?r\<lparr>block_hashes := ?h\<rparr>)
      = chain_hashes demo_H [9] 2 (?r\<lparr>block_hashes := ?h\<rparr>) (length (all_token_ids (?r\<lparr>block_hashes := ?h\<rparr>)) div 2)"
    unfolding c by (simp add: l numeral_3_eq_3 del: chain_hashes.simps)
  from coarse_view [OF _ _ this, of 2] obtain v where
    "resolve_block_hashes (Raw ?h) 2 (2 * 2) False None = ret v" "hl_length v = 7 div (2 * 2)"
    "\<forall>i. hl_get v i = (if i < hl_length v then ret (last (chain_hashes demo_H [9] 2 (?r\<lparr>block_hashes := ?h\<rparr>) (Suc i * 2))) else raise IndexError)"
    by (auto simp: l simp del: chain_hashes.simps)
  then show ?thesis by (intro exI [of _ v]) (simp del: chain_hashes.simps)
qed

subsection \<open>Extra keys of multimodal inputs\<close>

definition mm_end :: "mm_feature \<Rightarrow> int" where
  "mm_end f = mm_offset f + mm_length f"

definition mm_sorted :: "mm_feature list \<Rightarrow> bool" where
  "mm_sorted fs \<longleftrightarrow> sorted_wrt (\<lambda>f g. mm_end f \<le> mm_offset g) fs
     \<and> (\<forall>f\<in>set fs. 0 \<le> mm_offset f \<and> 0 < mm_length f \<and> mm_identifier f \<noteq> None)"

definition mm_passed :: "int \<Rightarrow> mm_feature list \<Rightarrow> nat" where
  "mm_passed pos fs = length (takeWhile (\<lambda>f. mm_end f \<le> pos) fs)"

definition mm_keys :: "int \<Rightarrow> int \<Rightarrow> mm_feature list \<Rightarrow> extra_key list" where
  "mm_keys st en fs = map (\<lambda>f. KMM (the (mm_identifier f)) (mm_offset f - st))
     (filter (\<lambda>f. mm_offset f < en \<and> st < mm_end f) fs)"

lemma mm_sorted_Cons: "mm_sorted (f # fs) \<longleftrightarrow> mm_sorted fs \<and> (\<forall>g\<in>set fs. mm_end f \<le> mm_offset g)
    \<and> 0 \<le> mm_offset f \<and> 0 < mm_length f \<and> mm_identifier f \<noteq> None"
  by (auto simp: mm_sorted_def)

lemma mm_loop_spec:
  "mm_sorted fs \<Longrightarrow> st < en \<Longrightarrow>
   mm_loop st en idx fs ks = ret (ks @ mm_keys st en fs, idx + int (mm_passed en fs))"
proof (induction fs arbitrary: idx ks)
  case (Cons f fs)
  then obtain i where i: "mm_identifier f = Some i" by (auto simp: mm_sorted_Cons)
  have far: "mm_keys st en fs = []" if "en \<le> mm_end f"
    using Cons.prems that by (auto simp: mm_keys_def mm_sorted_Cons filter_empty_conv)
  have IH: "mm_loop st en j fs l = ret (l @ mm_keys st en fs, j + int (mm_passed en fs))" for j l
    using Cons by (simp add: mm_sorted_Cons)
  have le: "mm_offset f < mm_end f" using Cons.prems by (simp add: mm_end_def mm_sorted_Cons)
  consider "en \<le> mm_offset f" | "mm_offset f < en" "mm_end f \<le> st" | "mm_offset f < en" "st < mm_end f" "mm_end f \<le> en"
    | "mm_offset f < en" "st < mm_end f" "en < mm_end f" by linarith
  then show ?case
  proof cases
    case 1
    then show ?thesis using i le far by (simp add: mm_end_def mm_passed_def mm_keys_def)
  next
    case 2
    then show ?thesis using i IH Cons.prems(2) by (simp add: mm_end_def mm_passed_def mm_keys_def)
  next
    case 3
    then show ?thesis using i IH by (simp add: mm_end_def mm_passed_def mm_keys_def Let_def)
  next
    case 4
    then show ?thesis using i far by (simp add: mm_end_def mm_passed_def mm_keys_def Let_def)
  qed
qed (simp add: mm_keys_def mm_passed_def)

lemma mm_passed_all: "\<forall>f\<in>set fs. mm_end f \<le> pos \<Longrightarrow> mm_passed pos fs = length fs"
  by (induction fs) (simp_all add: mm_passed_def)

lemma mm_passed_split: "a \<le> b \<Longrightarrow> mm_passed b fs = mm_passed a fs + mm_passed b (drop (mm_passed a fs) fs)"
  by (induction fs) (simp_all add: mm_passed_def)

lemma mm_all_passed:
  assumes "mm_sorted fs" "fs \<noteq> []" "mm_end (last fs) \<le> pos"
  shows "\<forall>f\<in>set fs. mm_end f \<le> pos"
  using assms
proof (induction fs)
  case (Cons f fs)
  show ?case
  proof (cases "fs = []")
    case True
    with Cons.prems show ?thesis by simp
  next
    case False
    have s: "mm_sorted fs" "\<forall>g\<in>set fs. mm_end f \<le> mm_offset g"
      using Cons.prems(1) by (simp_all add: mm_sorted_Cons)
    have all: "\<forall>g\<in>set fs. mm_end g \<le> pos" by (rule Cons.IH [OF s(1) False]) (use Cons.prems(3) False in simp)
    have l: "last fs \<in> set fs" using False by simp
    have "0 < mm_length (last fs)" using s(1) l unfolding mm_sorted_def by blast
    moreover have "mm_end f \<le> mm_offset (last fs)" "mm_end (last fs) \<le> pos" using s(2) all l by blast+
    ultimately have "mm_end f \<le> pos" by (simp add: mm_end_def)
    with all show ?thesis by simp
  qed
qed simp

text \<open>
  When the multimodal inputs of a request are in order and do not overlap, and the caller passes
  the index of the first input that does not end before the block, the keys of the block name
  exactly the inputs that overlap it, with their offsets in the block, and the index returned is
  the right one for the next block.
\<close>

theorem mm_keys_exact:
  assumes "mm_sorted (mm_features r)" and "st < en"
  shows "gen_mm_extra_hash_keys r st en (int (mm_passed (int st) (mm_features r)))
    = ret (mm_keys (int st) (int en) (mm_features r), int (mm_passed (int en) (mm_features r)))"
proof -
  let ?fs = "mm_features r"
  let ?k = "mm_passed (int st) ?fs"
  show ?thesis
  proof (cases "?fs = [] \<or> mm_end (last ?fs) \<le> int st")
    case True
    then have all: "\<forall>f\<in>set ?fs. mm_end f \<le> int st"
      using mm_all_passed [OF assms(1), of "int st"] by (cases "?fs = []") simp_all
    then have "mm_keys (int st) (int en) ?fs = []" by (auto simp: mm_keys_def filter_empty_conv)
    moreover have "\<forall>f\<in>set ?fs. mm_end f \<le> int en" using all assms(2) by auto
    then have "mm_passed (int en) ?fs = length ?fs" by (rule mm_passed_all)
    moreover have "?k = length ?fs" using all by (rule mm_passed_all)
    ultimately show ?thesis using True by (auto simp: gen_mm_extra_hash_keys_def mm_end_def Let_def)
  next
    case False
    let ?tl = "drop ?k ?fs"
    have tl: "?tl = dropWhile (\<lambda>f. mm_end f \<le> int st) ?fs" by (simp add: mm_passed_def dropWhile_eq_drop)
    have split: "?fs = takeWhile (\<lambda>f. mm_end f \<le> int st) ?fs @ ?tl" by (simp add: tl)
    have "mm_sorted ?tl" using assms(1) by (auto simp: mm_sorted_def sorted_wrt_drop dest: in_set_dropD)
    from mm_loop_spec [OF this, of "int st" "int en" "int ?k" "[]"] assms(2)
    have l: "mm_loop (int st) (int en) (int ?k) ?tl []
      = ret (mm_keys (int st) (int en) ?tl, int ?k + int (mm_passed (int en) ?tl))" by simp
    have keys: "mm_keys (int st) (int en) ?fs = mm_keys (int st) (int en) ?tl"
      by (subst (1) split) (auto simp: mm_keys_def filter_empty_conv dest: set_takeWhileD)
    have pass: "mm_passed (int en) ?fs = ?k + mm_passed (int en) ?tl"
      using assms(2) by (intro mm_passed_split) simp
    from False l keys pass show ?thesis by (simp add: gen_mm_extra_hash_keys_def mm_end_def Let_def)
  qed
qed

theorem mm_keys_exact_witness:
  "\<exists>k. gen_mm_extra_hash_keys (demo_request [] [\<lparr>mm_identifier = Some ''a'', mm_offset = 2, mm_length = 4\<rparr>]) 4 8 0
     = ret ([KMM ''a'' (- 2)], k)"
proof -
  let ?r = "demo_request [] [\<lparr>mm_identifier = Some ''a'', mm_offset = 2, mm_length = 4\<rparr>]"
  have "mm_sorted (mm_features ?r)" by (simp add: mm_sorted_def demo_request_def)
  from mm_keys_exact [OF this, of 4 8] show ?thesis
    by (simp add: mm_passed_def mm_keys_def demo_request_def mm_end_def)
qed

subsection \<open>The hashes of a whole request\<close>

definition full_keys :: "request \<Rightarrow> nat \<Rightarrow> nat \<Rightarrow> extra_key list" where
  "full_keys r st en = gen_lora_extra_hash_keys r @ mm_keys (int st) (int en) (mm_features r)
     @ (case cache_salt r of None \<Rightarrow> [] | Some s \<Rightarrow> if st = 0 \<and> s \<noteq> [] then [KSalt s] else [])
     @ gen_prompt_embeds_extra_hash_keys r st en"

definition full_extra :: "request \<Rightarrow> nat \<Rightarrow> nat \<Rightarrow> extra_key list option" where
  "full_extra r st en = (if full_keys r st en = [] then None else Some (full_keys r st en))"

definition first_mm :: "request \<Rightarrow> nat \<Rightarrow> int" where
  "first_mm r st = int (mm_passed (int st) (mm_features r))"

lemma generate_full:
  assumes "mm_sorted (mm_features r)" and "st < en"
  shows "generate_block_hash_extra_keys r st en (first_mm r st) = ret (full_extra r st en, first_mm r en)"
  using mm_keys_exact [OF assms]
  by (simp add: generate_block_hash_extra_keys_def full_extra_def full_keys_def first_mm_def Let_def)

lemma full_extra_eq:
  assumes "full_extra r st en = full_extra r' st en"
  shows "gen_lora_extra_hash_keys r = gen_lora_extra_hash_keys r'"
    and "mm_keys (int st) (int en) (mm_features r) = mm_keys (int st) (int en) (mm_features r')"
proof -
  let ?mm = "\<lambda>k. case k of KMM _ _ \<Rightarrow> True | _ \<Rightarrow> False" and ?lo = "\<lambda>k. case k of KLora _ \<Rightarrow> True | _ \<Rightarrow> False"
  have m: "filter ?mm (full_keys r st en) = mm_keys (int st) (int en) (mm_features r)"
    and l: "filter ?lo (full_keys r st en) = gen_lora_extra_hash_keys r" for r
    by (auto simp: full_keys_def mm_keys_def gen_lora_extra_hash_keys_def gen_prompt_embeds_extra_hash_keys_def comp_def
      split: option.split)
  from assms have k: "full_keys r st en = full_keys r' st en" by (auto simp: full_extra_def split: if_splits)
  from m [of r] m [of r'] k show "mm_keys (int st) (int en) (mm_features r) = mm_keys (int st) (int en) (mm_features r')" by simp
  from l [of r] l [of r'] k show "gen_lora_extra_hash_keys r = gen_lora_extra_hash_keys r'" by simp
qed

lemma hasher_loop_blocks:
  assumes bs: "0 < bs" and mm: "mm_sorted (mm_features r)"
  shows "k * bs \<le> length (all_token_ids r) \<Longrightarrow>
    \<exists>hs. hasher_loop H N bs r (k * bs) (first_mm r (k * bs)) prev acc = ret (acc @ hs)
      \<and> length hs = length (all_token_ids r) div bs - k
      \<and> (\<forall>i<length hs. hs ! i = hash_block_tokens H N (if i = 0 then prev else Some (hs ! (i - 1)))
          (block_tokens bs (all_token_ids r) (k + i)) (full_extra r ((k + i) * bs) (Suc (k + i) * bs)))"
proof (induction "length (all_token_ids r) div bs - k" arbitrary: k prev acc)
  case 0
  let ?n = "length (all_token_ids r)"
  have "k \<le> ?n div bs" using 0(2) bs by (simp add: less_eq_div_iff_mult_less_eq)
  with 0(1) have k: "k = ?n div bs" by simp
  have "?n < Suc k * bs" unfolding k using bs by (metis dividend_less_times_div add.commute mult.commute mult_Suc)
  then show ?case using k by (subst hasher_loop.simps) (simp add: Let_def)
next
  case (Suc d)
  let ?n = "length (all_token_ids r)"
  from Suc(2) have lt: "Suc k \<le> ?n div bs" by simp
  then have fits: "Suc k * bs \<le> ?n" using bs by (simp add: less_eq_div_iff_mult_less_eq)
  let ?h = "hash_block_tokens H N prev (block_tokens bs (all_token_ids r) k) (full_extra r (k * bs) (Suc k * bs))"
  have "generate_block_hash_extra_keys r (k * bs) (Suc k * bs) (first_mm r (k * bs))
      = ret (full_extra r (k * bs) (Suc k * bs), first_mm r (Suc k * bs))"
    using bs by (intro generate_full [OF mm]) simp
  then have g: "generate_block_hash_extra_keys r (k * bs) (Suc k * bs) (first_mm r (k * bs))
      = Some (Inr (full_extra r (k * bs) (Suc k * bs), first_mm r (Suc k * bs)))" by (simp only: ret_def)
  have en: "k * bs + bs = Suc k * bs" by simp
  have nf: "\<not> length (all_token_ids r) < Suc k * bs" using fits by simp
  have step: "hasher_loop H N bs r (k * bs) (first_mm r (k * bs)) prev acc
      = hasher_loop H N bs r (Suc k * bs) (first_mm r (Suc k * bs)) (Some ?h) (acc @ [?h])"
    by (subst hasher_loop.simps) (simp only: en, simp add: Let_def g nf block_tokens_def del: mult_Suc)
  have d: "d = ?n div bs - Suc k" using Suc(2) by linarith
  from Suc(1) [OF d fits, of "Some ?h" "acc @ [?h]"] obtain hs where
    hs: "hasher_loop H N bs r (Suc k * bs) (first_mm r (Suc k * bs)) (Some ?h) (acc @ [?h]) = ret ((acc @ [?h]) @ hs)"
    "length hs = ?n div bs - Suc k"
    "\<forall>i<length hs. hs ! i = hash_block_tokens H N (if i = 0 then Some ?h else Some (hs ! (i - 1)))
          (block_tokens bs (all_token_ids r) (Suc k + i)) (full_extra r ((Suc k + i) * bs) (Suc (Suc k + i) * bs))" by blast
  have "(?h # hs) ! i = hash_block_tokens H N (if i = 0 then prev else Some ((?h # hs) ! (i - 1)))
          (block_tokens bs (all_token_ids r) (k + i)) (full_extra r ((k + i) * bs) (Suc (k + i) * bs))"
    if "i < length (?h # hs)" for i
    using that hs(3) by (cases i) (auto simp: nth_Cons')
  then show ?case using hs(1,2) lt unfolding step by (intro exI [of _ "?h # hs"]) auto
qed

lemma first_mm_0: "mm_sorted (mm_features r) \<Longrightarrow> first_mm r 0 = 0"
  by (cases "mm_features r") (auto simp: first_mm_def mm_passed_def mm_sorted_def mm_end_def)

text \<open>A request without hashes is hashed block by block, each with the keys of exactly what overlaps it.\<close>

lemma hasher_blocks:
  assumes "0 < bs" and "mm_sorted (mm_features r)" and "block_hashes r = []"
  shows "\<exists>hs. request_block_hasher H N bs r = ret hs \<and> length hs = length (all_token_ids r) div bs
    \<and> (\<forall>i<length hs. hs ! i = hash_block_tokens H N (if i = 0 then None else Some (hs ! (i - 1)))
          (block_tokens bs (all_token_ids r) i) (full_extra r (i * bs) (Suc i * bs)))"
proof (cases "bs \<le> length (all_token_ids r)")
  case True
  from hasher_loop_blocks [OF assms(1,2), of 0 H N None "[]"] True show ?thesis
    by (simp add: request_block_hasher_def assms(3) first_mm_0 [OF assms(2)] Let_def)
next
  case False
  then show ?thesis by (simp add: request_block_hasher_def assms(3) Let_def)
qed

definition block_input :: "bytes \<Rightarrow> nat \<Rightarrow> request \<Rightarrow> bytes list \<Rightarrow> nat \<Rightarrow> hash_input" where
  "block_input N bs r hs i = (if i = 0 then N else hs ! (i - 1),
     block_tokens bs (all_token_ids r) i, full_extra r (i * bs) (Suc i * bs))"

lemma hashes_inputs:
  assumes "0 < bs" and "mm_sorted (mm_features r)" and "block_hashes r = []" and "request_block_hasher H N bs r = ret hs"
    and "[] \<notin> set hs" and "i < length hs"
  shows "hs ! i = H (block_input N bs r hs i)"
proof -
  from hasher_blocks [OF assms(1-3), of H N] assms(4,6)
  have h: "hs ! i = hash_block_tokens H N (if i = 0 then None else Some (hs ! (i - 1)))
          (block_tokens bs (all_token_ids r) i) (full_extra r (i * bs) (Suc i * bs))" by auto
  have "i \<noteq> 0 \<Longrightarrow> hs ! (i - 1) \<in> set hs" using assms(6) by simp
  with assms(5) have "i \<noteq> 0 \<Longrightarrow> hs ! (i - 1) \<noteq> []" by auto
  with h show ?thesis by (cases "i = 0") (simp_all add: hash_block_tokens_def block_input_def)
qed

subsection \<open>Equal hashes mean equal prefixes\<close>

lemma take_Suc_block: "take (Suc n * bs) toks = take (n * bs) toks @ block_tokens bs toks n"
  using take_add [of "n * bs" bs toks] by (simp add: block_tokens_def add.commute)

lemma equal_hash_blocks:
  assumes i: "\<forall>i<length hs. hs ! i = H (block_input N bs r hs i)" "\<forall>i<length hs'. hs' ! i = H (block_input N bs r' hs' i)"
    and inj: "inj_on H (block_input N bs r hs ` {..<length hs} \<union> block_input N bs r' hs' ` {..<length hs'})"
    and N: "N \<notin> set hs" "N \<notin> set hs'"
  shows "m < length hs \<Longrightarrow> n < length hs' \<Longrightarrow> hs ! m = hs' ! n \<Longrightarrow> m = n
    \<and> take (Suc m * bs) (all_token_ids r) = take (Suc m * bs) (all_token_ids r')
    \<and> (\<forall>k\<le>m. full_extra r (k * bs) (Suc k * bs) = full_extra r' (k * bs) (Suc k * bs))"
proof (induction m arbitrary: n)
  case 0
  with i have "H (block_input N bs r hs 0) = H (block_input N bs r' hs' n)" by auto
  with inj 0 have e: "block_input N bs r hs 0 = block_input N bs r' hs' n" by (auto dest!: inj_onD)
  have "n = 0" using e N(2) 0(2) by (cases n) (auto simp: block_input_def)
  with e show ?case by (simp add: block_input_def block_tokens_def)
next
  case (Suc m)
  with i have "H (block_input N bs r hs (Suc m)) = H (block_input N bs r' hs' n)" by auto
  with inj Suc.prems have e: "block_input N bs r hs (Suc m) = block_input N bs r' hs' n" by (auto dest!: inj_onD)
  then obtain n' where n: "n = Suc n'" using N(1) Suc.prems(1) by (cases n) (auto simp: block_input_def)
  have "hs ! m = hs' ! n'" "m < length hs" "n' < length hs'" using e Suc.prems(1,2) by (simp_all add: block_input_def n)
  from Suc.IH [OF this(2,3,1)] have IH: "m = n'" "take (Suc m * bs) (all_token_ids r) = take (Suc m * bs) (all_token_ids r')"
    "\<forall>k\<le>m. full_extra r (k * bs) (Suc k * bs) = full_extra r' (k * bs) (Suc k * bs)" by blast+
  have b: "block_tokens bs (all_token_ids r) (Suc m) = block_tokens bs (all_token_ids r') (Suc m)"
    "full_extra r (Suc m * bs) (Suc (Suc m) * bs) = full_extra r' (Suc m * bs) (Suc (Suc m) * bs)"
    using e IH(1) n by (simp_all add: block_input_def)
  show ?case using IH b n unfolding take_Suc_block [of "Suc m"] by (auto simp: le_Suc_eq)
qed



text \<open>
  A consequence the source does not intend: completing a block with generated tokens starts at the
  last multimodal input, so an earlier input in the same block leaves no key.
\<close>

definition key_count_H :: "hash_input \<Rightarrow> bytes" where
  "key_count_H x = (case x of (p, toks, ks) \<Rightarrow> [case ks of None \<Rightarrow> 0 | Some l \<Rightarrow> of_nat (length l)])"

definition two_images :: request where
  "two_images = demo_request (replicate 6 1)
     [\<lparr>mm_identifier = Some ''a'', mm_offset = 4, mm_length = 1\<rparr>,
      \<lparr>mm_identifier = Some ''b'', mm_offset = 5, mm_length = 1\<rparr>]"

text \<open>
  C32. Completing a block with generated tokens drops keys: if the last two multimodal inputs of a request both overlap its
  partial block, the hash of the completed block is made of the keys of the last input only, while hashing the same
  tokens at once uses all of them, so that without a collision the two hashes differ and the prefix is not found.
\<close>

theorem mm_incremental_gap:
  fixes r bs
  defines "k \<equiv> length (block_hashes r)"
  defines "st \<equiv> k * bs" and "en \<equiv> Suc k * bs"
  assumes bs: "0 < bs" and mm: "mm_sorted (mm_features r)" "mm_features r = fs @ [f, g]"
    and toks: "0 < k" "en \<le> length (all_token_ids r)" "length (all_token_ids r) < en + bs"
    and f: "mm_offset f < int en" "int st < mm_end f" and g: "mm_offset g < int en" "int st < mm_end g"
    and hs: "request_block_hasher H N bs (r\<lparr>block_hashes := []\<rparr>) = ret hs" "take k hs = block_hashes r" "last (block_hashes r) \<noteq> []"
    and inj: "inj_on H {(last (block_hashes r), block_tokens bs (all_token_ids r) k, ks) | ks.
        ks \<in> {full_extra r st en, full_extra (r\<lparr>mm_features := [g]\<rparr>) st en}}"
  shows "request_block_hasher H N bs r = ret [H (last (block_hashes r), block_tokens bs (all_token_ids r) k,
        full_extra (r\<lparr>mm_features := [g]\<rparr>) st en)]
    \<and> hs = block_hashes r @ [H (last (block_hashes r), block_tokens bs (all_token_ids r) k, full_extra r st en)]
    \<and> request_block_hasher H N bs r \<noteq> ret (drop k hs)"
proof -
  let ?p = "last (block_hashes r)" and ?t = "block_tokens bs (all_token_ids r) k" and ?n = "length (all_token_ids r)"
  have en: "en = st + bs" by (simp add: st_def en_def)
  have ne: "block_hashes r \<noteq> []" using toks(1) by (auto simp: k_def)
  obtain i where i: "mm_identifier g = Some i" using mm by (auto simp: mm_sorted_def)
  have n: "nat (1 + int (length fs)) = Suc (length fs)" by simp
  have "\<exists>m. gen_mm_extra_hash_keys r st en (- 1) = ret (mm_keys (int st) (int en) [g], m)"
    using g i by (simp add: gen_mm_extra_hash_keys_def mm(2) mm_end_def mm_keys_def Let_def n)
  then obtain m where m: "gen_mm_extra_hash_keys r st en (- 1) = ret (mm_keys (int st) (int en) [g], m)" by blast
  have gen: "generate_block_hash_extra_keys r st en (- 1) = ret (full_extra (r\<lparr>mm_features := [g]\<rparr>) st en, m)"
    by (simp add: generate_block_hash_extra_keys_def m full_extra_def full_keys_def Let_def gen_lora_extra_hash_keys_def
      gen_prompt_embeds_extra_hash_keys_def)
  let ?h = "H (?p, ?t, full_extra (r\<lparr>mm_features := [g]\<rparr>) st en)"
  have "hasher_loop H N bs r st (- 1) (Some ?p) [] = hasher_loop H N bs r en m (Some ?h) [?h]"
    using toks(2) gen hs(3) unfolding en
    by (subst hasher_loop.simps) (simp add: Let_def ret_def hash_block_tokens_def block_tokens_def st_def)
  also have "\<dots> = ret [?h]" using toks(3) by (subst hasher_loop.simps) simp
  finally have r: "request_block_hasher H N bs r = ret [?h]"
    using toks(1,2) bs ne unfolding en by (simp add: request_block_hasher_def k_def [symmetric] st_def [symmetric] Let_def) (simp add: st_def)
  have cong: "full_extra (r\<lparr>block_hashes := []\<rparr>) a b = full_extra r a b" for a b
    by (simp add: full_extra_def full_keys_def gen_lora_extra_hash_keys_def gen_prompt_embeds_extra_hash_keys_def)
  from hasher_blocks [OF bs, of "r\<lparr>block_hashes := []\<rparr>" H N] mm(1) hs(1)
  have b: "length hs = ?n div bs" "\<forall>i<length hs. hs ! i = hash_block_tokens H N (if i = 0 then None else Some (hs ! (i - 1)))
          (block_tokens bs (all_token_ids r) i) (full_extra r (i * bs) (Suc i * bs))" by (auto simp: cong)
  have "?n div bs = Suc k"
    using toks(2,3) bs unfolding en_def by (intro div_nat_eqI) (simp_all add: mult.commute add.commute)
  with b(1) have l: "length hs = Suc k" by simp
  have "hs ! (k - 1) = block_hashes r ! (k - 1)" using toks(1) hs(2) by (metis diff_less nth_take zero_less_one)
  also have "\<dots> = ?p" using ne by (simp add: last_conv_nth k_def)
  finally have last: "hs ! (k - 1) = ?p" .
  have "hs ! k = hash_block_tokens H N (Some ?p) ?t (full_extra r st en)"
    using b(2) [rule_format, of k] l toks(1) last by (simp add: st_def en_def)
  then have "hs ! k = H (?p, ?t, full_extra r st en)" using hs(3) by (simp add: hash_block_tokens_def)
  then have hs': "hs = block_hashes r @ [H (?p, ?t, full_extra r st en)]"
    using hs(2) l take_Suc_conv_app_nth [of k hs] by simp
  have "mm_keys (int st) (int en) (mm_features r) \<noteq> mm_keys (int st) (int en) [g]"
    using f g by (simp add: mm(2) mm_keys_def)
  then have "full_extra r st en \<noteq> full_extra (r\<lparr>mm_features := [g]\<rparr>) st en"
    using full_extra_eq(2) [of r st en "r\<lparr>mm_features := [g]\<rparr>"] by auto
  with inj have "H (?p, ?t, full_extra r st en) \<noteq> ?h" by (auto dest!: inj_onD)
  moreover have "drop k hs = [H (?p, ?t, full_extra r st en)]" unfolding hs' by (simp add: k_def)
  ultimately show ?thesis using r hs' by auto
qed

theorem mm_incremental_gap_witness:
  "request_block_hasher key_count_H [9] 4 (two_images\<lparr>all_token_ids := replicate 6 1 @ [2, 3], block_hashes := [[0]]\<rparr>) \<noteq> ret [[2]]"
proof -
  let ?r = "two_images\<lparr>all_token_ids := replicate 6 1 @ [2, 3], block_hashes := [[0]]\<rparr>"
  let ?f = "\<lparr>mm_identifier = Some ''a'', mm_offset = 4, mm_length = 1\<rparr>" and ?g = "\<lparr>mm_identifier = Some ''b'', mm_offset = 5, mm_length = 1\<rparr>"
  note defs = two_images_def demo_request_def
  have f: "mm_features ?r = [] @ [?f, ?g]" "length (block_hashes ?r) = 1" "length (all_token_ids ?r) = 8"
    "take 1 [[0], [2]] = block_hashes ?r" "last (block_hashes ?r) = [0]" by (simp_all add: defs)
  have mm: "mm_sorted (mm_features ?r)" by (simp add: defs mm_sorted_def mm_end_def)
  have h: "request_block_hasher key_count_H [9] 4 (?r\<lparr>block_hashes := []\<rparr>) = ret [[0], [2]]"
    by (simp add: request_block_hasher_def hasher_loop.simps generate_block_hash_extra_keys_def gen_mm_extra_hash_keys_def
        gen_lora_extra_hash_keys_def gen_prompt_embeds_extra_hash_keys_def defs hash_block_tokens_def key_count_H_def Let_def ret_def
        assert_def raise_def bind_def split: option.split sum.split)
  have k: "full_extra ?r 4 8 = Some [KMM ''a'' 0, KMM ''b'' 1]" "full_extra (?r\<lparr>mm_features := [?g]\<rparr>) 4 8 = Some [KMM ''b'' 1]"
    by (simp_all add: defs full_extra_def full_keys_def mm_keys_def mm_end_def gen_lora_extra_hash_keys_def
        gen_prompt_embeds_extra_hash_keys_def)
  have "inj_on key_count_H {(last (block_hashes ?r), block_tokens 4 (all_token_ids ?r) 1, ks) | ks.
      ks \<in> {full_extra ?r 4 8, full_extra (?r\<lparr>mm_features := [?g]\<rparr>) 4 8}}"
    unfolding k by (auto simp: inj_on_def key_count_H_def)
  with mm_incremental_gap [of 4 ?r "[]" ?f ?g, OF _ mm f(1), of key_count_H "[9]" "[[0], [2]]"] h f show ?thesis
    by (simp add: mm_end_def k key_count_H_def)
qed

end
