(* ===== verification/Py_Text.thy ===== *)
theory Py_Text
  imports Prelude Complex_Main "HOL-Library.List_Lexorder" "HOL-Library.Char_ord"
begin

text \<open>
  The part of Python's strings, numbers and POSIX paths that the deployment code uses, on
  Latin-1 text: a string is a list of characters, each standing for its code point below 256.
\<close>

subsection \<open>Numbers\<close>

text \<open>Python's \<^verbatim>\<open>round\<close>: to the nearest integer, halves to the even one.\<close>

definition py_round :: "rat \<Rightarrow> int" where
  "py_round x =
     (let f = \<lfloor>x\<rfloor>; d = x - of_int f
      in if d < 1/2 then f else if d > 1/2 then f + 1 else if even f then f else f + 1)"

fun digits :: "nat \<Rightarrow> string" where
  "digits n = (if n < 10 then [char_of (48 + n)] else digits (n div 10) @ [char_of (48 + n mod 10)])"

declare digits.simps [simp del]

definition show_int :: "int \<Rightarrow> string" where
  "show_int i = (if i < 0 then ''-'' @ digits (nat (- i)) else digits (nat i))"

definition code :: "char \<Rightarrow> nat" where
  "code c = of_char c"

definition is_digit :: "char \<Rightarrow> bool" where
  "is_digit c \<longleftrightarrow> 48 \<le> code c \<and> code c \<le> 57"

text \<open>\<^verbatim>\<open>str.isdecimal\<close> and \<^verbatim>\<open>int\<close> of a string of digits.\<close>

definition isdecimal :: "string \<Rightarrow> bool" where
  "isdecimal s \<longleftrightarrow> s \<noteq> [] \<and> (\<forall>c\<in>set s. is_digit c)"

definition parse_nat :: "string \<Rightarrow> nat" where
  "parse_nat s = foldl (\<lambda>a c. a * 10 + (code c - 48)) 0 s"

lemma code_char_of: "n < 256 \<Longrightarrow> code (char_of n) = n"
  by (simp add: code_def)

lemma parse_nat_snoc: "parse_nat (s @ [c]) = parse_nat s * 10 + (code c - 48)"
  by (simp add: parse_nat_def)

lemma isdecimal_digits: "isdecimal (digits n)"
proof (induction n rule: digits.induct)
  case (1 n)
  have d: "is_digit (char_of (48 + k))" if "k < 10" for k :: nat
    using that by (simp add: is_digit_def code_char_of)
  show ?case
  proof (cases "n < 10")
    case True
    then show ?thesis using d by (subst digits.simps) (simp add: isdecimal_def)
  next
    case False
    with 1 d [of "n mod 10"] show ?thesis by (subst digits.simps) (auto simp: isdecimal_def)
  qed
qed

lemma parse_digits [simp]: "parse_nat (digits n) = n"
proof (induction n rule: digits.induct)
  case (1 n)
  show ?case
  proof (cases "n < 10")
    case True
    then show ?thesis by (subst digits.simps) (simp add: parse_nat_def code_char_of)
  next
    case False
    with 1 show ?thesis by (subst digits.simps) (simp add: parse_nat_snoc code_char_of)
  qed
qed

lemma digits_inject [simp]: "digits m = digits n \<longleftrightarrow> m = n"
  by (metis parse_digits)

subsection \<open>Character classes\<close>

definition is_upper :: "char \<Rightarrow> bool" where
  "is_upper c \<longleftrightarrow> 65 \<le> code c \<and> code c \<le> 90"

definition is_lower :: "char \<Rightarrow> bool" where
  "is_lower c \<longleftrightarrow> 97 \<le> code c \<and> code c \<le> 122"

definition is_alnum :: "char \<Rightarrow> bool" where
  "is_alnum c \<longleftrightarrow> is_upper c \<or> is_lower c \<or> is_digit c"

definition is_word :: "char \<Rightarrow> bool" where
  "is_word c \<longleftrightarrow> is_alnum c \<or> c = CHR ''_'' \<or> 192 \<le> code c \<and> code c \<noteq> 215 \<and> code c \<noteq> 247
     \<or> code c \<in> {170, 178, 179, 181, 185, 186, 188, 189, 190}"

definition is_space :: "char \<Rightarrow> bool" where
  "is_space c \<longleftrightarrow> 9 \<le> code c \<and> code c \<le> 13 \<or> 28 \<le> code c \<and> code c \<le> 32
     \<or> code c = 133 \<or> code c = 160"

definition is_control :: "char \<Rightarrow> bool" where
  "is_control c \<longleftrightarrow> code c < 32 \<or> code c = 127"

definition is_lhex :: "char \<Rightarrow> bool" where
  "is_lhex c \<longleftrightarrow> is_digit c \<or> 97 \<le> code c \<and> code c \<le> 102"

definition is_hex :: "char \<Rightarrow> bool" where
  "is_hex c \<longleftrightarrow> is_lhex c \<or> 65 \<le> code c \<and> code c \<le> 70"

definition lower_char :: "char \<Rightarrow> char" where
  "lower_char c = (if is_upper c \<or> 192 \<le> code c \<and> code c \<le> 222 \<and> code c \<noteq> 215
     then char_of (code c + 32) else c)"

definition lower :: "string \<Rightarrow> string" where
  "lower s = map lower_char s"

subsection \<open>Strings\<close>

definition lstrip :: "string \<Rightarrow> string" where
  "lstrip s = dropWhile is_space s"

definition strip :: "string \<Rightarrow> string" where
  "strip s = rev (dropWhile is_space (rev (dropWhile is_space s)))"

definition rstrip_char :: "char \<Rightarrow> string \<Rightarrow> string" where
  "rstrip_char c s = rev (dropWhile (\<lambda>x. x = c) (rev s))"

fun starts_with :: "string \<Rightarrow> string \<Rightarrow> bool" where
  "starts_with [] s = True"
| "starts_with (c # p) [] = False"
| "starts_with (c # p) (d # s) = (c = d \<and> starts_with p s)"

fun contains :: "string \<Rightarrow> string \<Rightarrow> bool" where
  "contains p [] = (p = [])"
| "contains p (c # s) = (starts_with p (c # s) \<or> contains p s)"

text \<open>\<^verbatim>\<open>str.split\<close> at a character; \<^verbatim>\<open>str.splitlines\<close>, which also splits at form feeds and separators.\<close>

fun split_on :: "char \<Rightarrow> string \<Rightarrow> string list" where
  "split_on c [] = [[]]"
| "split_on c (d # s) =
     (if c = d then [] # split_on c s
      else case split_on c s of [] \<Rightarrow> [[d]] | w # ws \<Rightarrow> (d # w) # ws)"

definition is_line_break :: "char \<Rightarrow> bool" where
  "is_line_break c \<longleftrightarrow> 10 \<le> code c \<and> code c \<le> 13 \<or> 28 \<le> code c \<and> code c \<le> 30 \<or> code c = 133"

fun lines_from :: "string \<Rightarrow> string \<Rightarrow> string list" where
  "lines_from acc [] = (if acc = [] then [] else [rev acc])"
| "lines_from acc (c # s) =
     (if is_line_break c
      then rev acc # (case s of d # r \<Rightarrow> if c = CHR 0x0D \<and> d = CHR 0x0A then lines_from [] r else lines_from [] s
                       | [] \<Rightarrow> [])
      else lines_from (c # acc) s)"

definition splitlines :: "string \<Rightarrow> string list" where
  "splitlines s = lines_from [] s"

fun join :: "string \<Rightarrow> string list \<Rightarrow> string" where
  "join sep [] = []"
| "join sep [s] = s"
| "join sep (s # ss) = s @ sep @ join sep ss"

lemma starts_with_iff: "starts_with p s \<longleftrightarrow> (\<exists>r. s = p @ r)"
  by (induction p s rule: starts_with.induct) auto

lemma contains_iff: "contains p s \<longleftrightarrow> (\<exists>a b. s = a @ p @ b)"
proof (induction s)
  case (Cons c s)
  show ?case (is "?l \<longleftrightarrow> ?r")
  proof
    assume ?l
    then consider r where "c # s = p @ r" | a b where "s = a @ p @ b"
      using Cons by (auto simp: starts_with_iff)
    then show ?r
    proof cases
      case 1
      then show ?thesis by (metis append_Nil)
    next
      case 2
      then show ?thesis by (metis append_Cons)
    qed
  next
    assume ?r
    then obtain a b where ab: "c # s = a @ p @ b" by auto
    show ?l
    proof (cases a)
      case Nil
      with ab have "starts_with p (c # s)" unfolding starts_with_iff by auto
      then show ?thesis by simp
    next
      case (Cons x a')
      with ab Cons.IH show ?thesis by auto
    qed
  qed
qed auto

lemma split_on_nonempty [simp]: "split_on c s \<noteq> []"
  by (induction s) (auto split: list.splits)

lemma split_on_no: "c \<notin> set s \<Longrightarrow> split_on c s = [s]"
  by (induction s) auto

lemma split_on_append: "c \<notin> set a \<Longrightarrow> split_on c (a @ c # b) = a # split_on c b"
  by (induction a) auto

lemma split_on_parts: "w \<in> set (split_on c s) \<Longrightarrow> c \<notin> set w"
proof (induction s arbitrary: w)
  case (Cons d s)
  then show ?case by (cases "split_on c s") (auto split: if_splits)
qed simp

lemma lines_from_line: "\<forall>c\<in>set l. \<not> is_line_break c \<Longrightarrow>
    lines_from acc (l @ CHR 0x0A # s) = (rev acc @ l) # lines_from [] s"
proof (induction l arbitrary: acc)
  case Nil
  then show ?case by (cases s) (auto simp: is_line_break_def code_def)
next
  case (Cons c l)
  then show ?case by simp
qed

text \<open>Line-wise text: every line ends with a newline.\<close>

lemma splitlines_unlines: "\<forall>l\<in>set ls. \<forall>c\<in>set l. \<not> is_line_break c \<Longrightarrow>
    splitlines (concat (map (\<lambda>l. l @ [CHR 0x0A]) ls)) = ls"
proof -
  assume "\<forall>l\<in>set ls. \<forall>c\<in>set l. \<not> is_line_break c"
  then have "lines_from [] (concat (map (\<lambda>l. l @ [CHR 0x0A]) ls)) = ls"
    by (induction ls) (simp_all add: lines_from_line)
  then show ?thesis by (simp add: splitlines_def)
qed

text \<open>\<^verbatim>\<open>int\<close> of any text: blanks around it, a sign, and single underscores between digits are allowed.\<close>

definition py_int :: "string \<Rightarrow> int option" where
  "py_int s =
     (let t = strip s;
          neg = (t \<noteq> [] \<and> hd t = CHR ''-'');
          d = (if t \<noteq> [] \<and> (hd t = CHR ''-'' \<or> hd t = CHR ''+'') then tl t else t)
      in if \<forall>w\<in>set (split_on CHR ''_'' d). isdecimal w
         then Some ((if neg then - 1 else 1) * int (parse_nat (filter (\<lambda>c. c \<noteq> CHR ''_'') d)))
         else None)"

lemma strip_none: "\<forall>c\<in>set s. \<not> is_space c \<Longrightarrow> strip s = s"
  unfolding strip_def by (subst (1 2) dropWhile_eq_self_iff [THEN iffD2]) (auto simp: hd_rev)

lemma strip_head:
  assumes "\<not> is_space c"
  obtains t where "strip (c # s) = c # t"
proof -
  have "strip (c # s) = c # rev (dropWhile is_space (rev s))"
    using assms by (auto simp: strip_def dropWhile_append)
  then show ?thesis by (rule that)
qed

lemma py_int_decimal:
  assumes "isdecimal s"
  shows "py_int s = Some (int (parse_nat s))"
proof -
  have d: "\<forall>c\<in>set s. is_digit c" "s \<noteq> []" using assms by (auto simp: isdecimal_def)
  then have "strip s = s" by (intro strip_none) (auto simp: is_digit_def is_space_def)
  moreover have n: "CHR ''-'' \<notin> set s" "CHR ''+'' \<notin> set s" "CHR ''_'' \<notin> set s"
    using d(1) by (auto simp: is_digit_def code_def)
  moreover have "hd s \<noteq> CHR ''-''" "hd s \<noteq> CHR ''+''" using n(1,2) hd_in_set [OF d(2)] by metis+
  moreover from n(3) have "filter (\<lambda>c. c \<noteq> CHR ''_'') s = s" by (auto intro: filter_True)
  ultimately show ?thesis using assms by (simp add: py_int_def Let_def split_on_no)
qed

subsection \<open>POSIX paths\<close>

text \<open>
  \<^verbatim>\<open>pathlib.PurePosixPath\<close>: the root is empty, one slash, or exactly two slashes; empty parts and
  single dots are dropped, double dots stay.
\<close>

type_synonym path = "string \<times> string list"

definition path_of :: "string \<Rightarrow> path" where
  "path_of s =
     (let r = (if starts_with ''//'' s \<and> \<not> starts_with ''///'' s then ''//''
               else if starts_with ''/'' s then ''/'' else [])
      in (r, filter (\<lambda>p. p \<noteq> [] \<and> p \<noteq> ''.'') (split_on CHR ''/'' s)))"

definition is_absolute :: "path \<Rightarrow> bool" where
  "is_absolute p \<longleftrightarrow> fst p \<noteq> []"

definition root_dir :: path where
  "root_dir = (''/'', [])"

definition has_dotdot :: "path \<Rightarrow> bool" where
  "has_dotdot p \<longleftrightarrow> ''..'' \<in> set (snd p)"

definition is_prefix :: "'a list \<Rightarrow> 'a list \<Rightarrow> bool" where
  "is_prefix xs ys \<longleftrightarrow> take (length xs) ys = xs"

text \<open>\<^verbatim>\<open>repo in path.parents\<close>.\<close>

definition in_parents :: "path \<Rightarrow> path \<Rightarrow> bool" where
  "in_parents repo p \<longleftrightarrow> fst repo = fst p \<and> length (snd repo) < length (snd p) \<and> is_prefix (snd repo) (snd p)"

definition path_str :: "path \<Rightarrow> string" where
  "path_str p = (if fst p = [] \<and> snd p = [] then ''.'' else fst p @ join ''/'' (snd p))"

definition path_join :: "path \<Rightarrow> string \<Rightarrow> path" where
  "path_join p s = (let q = path_of s in if is_absolute q then q else (fst p, snd p @ snd q))"

end
