(* ===== verification/KV_Pool.thy ===== *)
theory KV_Pool
  imports KV_Request Py_Text
begin

text \<open>
  \<open>BlockPool\<close> of \<^verbatim>\<open>vllm/v1/core/block_pool.py\<close>, with the idle expiry and the session
  protection this repository adds.  A block object is a \<open>node\<close>; its attributes other than the
  two queue pointers are the record \<open>kv_block\<close>.  The monotonic clock is an argument \<open>now_ns\<close>,
  read once per operation as in the source.  An operation that raises leaves no state behind.
\<close>

subsection \<open>State\<close>

record kv_block =
  ref_cnt :: int
  block_hash :: "bytes option"
  block_hash_num_tokens :: "int option"
  cache_idle_since_ns :: "int option"
  protected_until_ns :: int
  is_null :: bool

definition new_block :: kv_block where
  "new_block = \<lparr>ref_cnt = 0, block_hash = None, block_hash_num_tokens = None,
     cache_idle_since_ns = None, protected_until_ns = 0, is_null = False\<rparr>"

datatype kv_event =
    BlockStored "ext_hash list option" "ext_hash option" "int list" nat "int option" "string option"
      "extra_key list option list option" int
  | BlockRemoved "ext_hash list" int
  | AllBlocksCleared

datatype metric_call = OnAllocated node | OnEvicted node | OnAccessed node | ResetMetrics

record pool =
  num_gpu_blocks :: nat
  enable_caching :: bool
  hash_block_size :: nat
  prefix_cache_idle_timeout_ns :: "int option"
  next_prefix_cache_expiry_ns :: "int option"
  blocks :: "node \<Rightarrow> kv_block"
  free_block_queue :: qheap
  cached_block_hash_to_block :: hmap
  cached_block_hashes_by_block :: "int \<rightharpoonup> bytes list"
  null_block :: node
  enable_kv_cache_events :: bool
  kv_event_queue :: "kv_event list"
  metrics_collector :: "metric_call list option"
  use_int_block_hashes :: bool

definition upd_block :: "node \<Rightarrow> (kv_block \<Rightarrow> kv_block) \<Rightarrow> pool \<Rightarrow> pool" where
  "upd_block b f p = p\<lparr>blocks := (blocks p)(b := f (blocks p b))\<rparr>"

definition log_metric :: "metric_call \<Rightarrow> pool \<Rightarrow> pool" where
  "log_metric c p = p\<lparr>metrics_collector := map_option (\<lambda>l. l @ [c]) (metrics_collector p)\<rparr>"

definition reset_hash :: "kv_block \<Rightarrow> kv_block" where
  "reset_hash k = k\<lparr>block_hash := None, block_hash_num_tokens := None,
     cache_idle_since_ns := None, protected_until_ns := 0\<rparr>"

definition set_block_hash :: "bytes \<Rightarrow> int option \<Rightarrow> kv_block \<Rightarrow> (qexn, kv_block) comp" where
  "set_block_hash h n k =
     bind (assert AssertionError (block_hash k = None \<and> block_hash_num_tokens k = None)) (\<lambda>_.
       ret (k\<lparr>block_hash := Some h, block_hash_num_tokens := n\<rparr>))"

definition pool_init :: "nat \<Rightarrow> bool \<Rightarrow> nat \<Rightarrow> bool \<Rightarrow> bool \<Rightarrow> bool \<Rightarrow> rat option
    \<Rightarrow> (qexn, pool) comp" where
  "pool_init n caching hbs kv_events metrics int_hashes timeout_seconds =
     bind (assert AssertionError (n > 0)) (\<lambda>_.
     bind (case timeout_seconds of
             None \<Rightarrow> ret None
           | Some s \<Rightarrow>
               if \<not> caching then raise ValueError
               else if s \<le> 0 then raise ValueError
               else ret (Some (max 1 (py_round (s * 10 ^ 9))))) (\<lambda>timeout.
     let bs = map Blk [0..<n] in
     bind (q_popleft (q_init bs)) (\<lambda>(null, q).
       ret \<lparr>num_gpu_blocks = n, enable_caching = caching, hash_block_size = hbs,
         prefix_cache_idle_timeout_ns = timeout, next_prefix_cache_expiry_ns = None,
         blocks = (\<lambda>_. new_block)(null := new_block\<lparr>is_null := True\<rparr>), free_block_queue = q,
         cached_block_hash_to_block = Map.empty, cached_block_hashes_by_block = Map.empty,
         null_block = null, enable_kv_cache_events = kv_events, kv_event_queue = [],
         metrics_collector = (if metrics then Some [] else None), use_int_block_hashes = int_hashes\<rparr>)))"

subsection \<open>Hashes of a block\<close>

fun get_cached_block :: "bytes \<Rightarrow> int list \<Rightarrow> pool \<Rightarrow> (qexn, node list option) comp" where
  "get_cached_block h [] p = ret (Some [])"
| "get_cached_block h (g # gs) p =
     bind (make_block_hash_with_group_id h g) (\<lambda>key.
     bind (m_get_one_block key (cached_block_hash_to_block p)) (\<lambda>r.
       case r of
         None \<Rightarrow> ret None
       | Some b \<Rightarrow> bind (get_cached_block h gs p) (\<lambda>rest. ret (map_option (\<lambda>bs. b # bs) rest))))"

definition own_hashes :: "pool \<Rightarrow> node \<Rightarrow> bytes list" where
  "own_hashes p b =
     (case block_hash (blocks p b) of None \<Rightarrow> [] | Some h \<Rightarrow> [h])
     @ (case cached_block_hashes_by_block p (block_id b) of None \<Rightarrow> [] | Some l \<Rightarrow> l)"

definition remove_cached_block_hashes :: "node \<Rightarrow> pool \<Rightarrow> bytes list \<times> pool" where
  "remove_cached_block_hashes b p =
     (let hs = own_hashes p b;
          p1 = p\<lparr>cached_block_hashes_by_block := (cached_block_hashes_by_block p)(block_id b := None)\<rparr>
      in if hs = [] then ([], p1)
         else case pop_each (\<lambda>k. m_pop k (block_id b)) hs (cached_block_hash_to_block p1) of (rs, m) \<Rightarrow>
           (rs, upd_block b reset_hash (p1\<lparr>cached_block_hash_to_block := m\<rparr>)))"

definition emit_block_removed_events :: "bytes list \<Rightarrow> pool \<Rightarrow> pool" where
  "emit_block_removed_events hs p =
     (if \<not> enable_kv_cache_events p then p
      else p\<lparr>kv_event_queue := kv_event_queue p @ map (\<lambda>k.
          BlockRemoved [maybe_convert_block_hash (use_int_block_hashes p) (get_block_hash k)]
            (get_group_id k)) hs\<rparr>)"

definition insert_block_hash :: "bytes \<Rightarrow> node \<Rightarrow> int option \<Rightarrow> pool \<Rightarrow> (qexn, pool) comp" where
  "insert_block_hash key b num_tokens p =
     (if block_hash (blocks p b) = Some key then ret p
      else if m_contain key (block_id b) (cached_block_hash_to_block p) then ret p
      else
        bind (if block_hash (blocks p b) = None
              then bind (set_block_hash key num_tokens (blocks p b)) (\<lambda>k. ret (upd_block b (\<lambda>_. k) p))
              else let l = (case cached_block_hashes_by_block p (block_id b) of None \<Rightarrow> [] | Some l \<Rightarrow> l)
                   in ret (p\<lparr>cached_block_hashes_by_block :=
                        (cached_block_hashes_by_block p)(block_id b \<mapsto> (if key \<in> set l then l else l @ [key]))\<rparr>))
          (\<lambda>p. ret (p\<lparr>cached_block_hash_to_block := m_insert key b (cached_block_hash_to_block p)\<rparr>)))"

definition maybe_evict_cached_block :: "node \<Rightarrow> pool \<Rightarrow> bool \<times> pool" where
  "maybe_evict_cached_block b p =
     (case remove_cached_block_hashes b (log_metric (OnEvicted b) p) of (hs, p) \<Rightarrow>
        if hs = [] then (False, p) else (True, emit_block_removed_events hs p))"

definition move_block_hashes :: "node \<Rightarrow> node \<Rightarrow> pool \<Rightarrow> (qexn, pool) comp" where
  "move_block_hashes src dst p =
     bind (assert AssertionError (block_hash (blocks p dst) = None)) (\<lambda>_.
     bind (assert AssertionError (cached_block_hashes_by_block p (block_id dst) = None)) (\<lambda>_.
       let num_tokens = block_hash_num_tokens (blocks p src)
       in case remove_cached_block_hashes src p of (hs, p) \<Rightarrow>
            fold_comp (\<lambda>h. insert_block_hash h dst num_tokens) hs p))"

subsection \<open>Allocation, touching and freeing\<close>

definition get_num_free_blocks :: "pool \<Rightarrow> int" where
  "get_num_free_blocks p = num_free (free_block_queue p)"

definition alloc_one :: "node \<Rightarrow> pool \<Rightarrow> (qexn, pool) comp" where
  "alloc_one b p =
     (let p1 = (if enable_caching p then snd (maybe_evict_cached_block b p) else p)
      in bind (assert AssertionError (ref_cnt (blocks p1 b) = 0)) (\<lambda>_.
           ret (log_metric (OnAllocated b) (upd_block b (\<lambda>k. k\<lparr>ref_cnt := ref_cnt k + 1\<rparr>) p1))))"

definition get_new_blocks :: "nat \<Rightarrow> int \<Rightarrow> pool \<Rightarrow> (qexn, node list \<times> pool) comp" where
  "get_new_blocks num_blocks now_ns p =
     (if int num_blocks > get_num_free_blocks p then raise ValueError
      else
        bind (q_popleft_n_where num_blocks (\<lambda>b. protected_until_ns (blocks p b) \<le> now_ns)
                (free_block_queue p)) (\<lambda>(bs1, q1).
        bind (if length bs1 < num_blocks
              then bind (q_popleft_n_where (num_blocks - length bs1) (\<lambda>_. True) q1) (\<lambda>(bs2, q2).
                     ret (bs1 @ bs2, q2))
              else ret (bs1, q1)) (\<lambda>(bs, q).
          let p1 = fold (\<lambda>b. upd_block b (\<lambda>k. k\<lparr>protected_until_ns := 0\<rparr>)) bs (p\<lparr>free_block_queue := q\<rparr>)
          in bind (fold_comp alloc_one bs p1) (\<lambda>p2. ret (bs, p2)))))"

definition touch_one :: "node \<Rightarrow> pool \<Rightarrow> (qexn, pool) comp" where
  "touch_one b p =
     bind (if ref_cnt (blocks p b) = 0 \<and> \<not> is_null (blocks p b)
           then bind (q_remove b (free_block_queue p)) (\<lambda>q.
                  ret (upd_block b (\<lambda>k. k\<lparr>cache_idle_since_ns := None\<rparr>) (p\<lparr>free_block_queue := q\<rparr>)))
           else ret p)
       (\<lambda>p. ret (log_metric (OnAccessed b) (upd_block b (\<lambda>k. k\<lparr>ref_cnt := ref_cnt k + 1\<rparr>) p)))"

definition touch :: "node list \<Rightarrow> pool \<Rightarrow> (qexn, pool) comp" where
  "touch bs = fold_comp touch_one bs"

text \<open>The first loop of \<^verbatim>\<open>free_blocks\<close>: the blocks that became free, with and without a hash.\<close>

fun drop_refs :: "node list \<Rightarrow> pool \<Rightarrow> node list \<times> node list \<times> pool" where
  "drop_refs [] p = ([], [], p)"
| "drop_refs (b # bs) p =
     (let p1 = upd_block b (\<lambda>k. k\<lparr>ref_cnt := ref_cnt k - 1\<rparr>) p; k = blocks p1 b
      in case drop_refs bs p1 of (with, without, p2) \<Rightarrow>
           if ref_cnt k = 0 \<and> \<not> is_null k
           then if block_hash k = None \<and> enable_caching p then (with, b # without, p2)
                else (b # with, without, p2)
           else (with, without, p2))"

definition start_idle :: "node list \<Rightarrow> int \<Rightarrow> pool \<Rightarrow> pool" where
  "start_idle bs now_ns p =
     (case prefix_cache_idle_timeout_ns p of
        None \<Rightarrow> p
      | Some t \<Rightarrow>
          if bs = [] then p
          else let p1 = fold (\<lambda>b. upd_block b (\<lambda>k. k\<lparr>cache_idle_since_ns := Some now_ns\<rparr>)) bs p;
                   e = now_ns + t
               in if (case next_prefix_cache_expiry_ns p of None \<Rightarrow> True | Some n \<Rightarrow> e < n)
                  then p1\<lparr>next_prefix_cache_expiry_ns := Some e\<rparr> else p1)"

definition free_blocks :: "node list \<Rightarrow> int \<Rightarrow> pool \<Rightarrow> (qexn, pool) comp" where
  "free_blocks ordered_blocks now_ns p =
     (case drop_refs ordered_blocks p of (with, without, p1) \<Rightarrow>
        let p2 = start_idle with now_ns p1
        in bind (q_prepend_n without (free_block_queue p2)) (\<lambda>q.
           bind (q_append_n with q) (\<lambda>q. ret (p2\<lparr>free_block_queue := q\<rparr>))))"


subsection \<open>Idle expiry\<close>

definition earlier :: "int option \<Rightarrow> int \<Rightarrow> int option" where
  "earlier next t = (case next of None \<Rightarrow> Some t | Some n \<Rightarrow> if t < n then Some t else next)"

text \<open>The scan of \<^verbatim>\<open>expire_cached_blocks\<close> over the free blocks.\<close>

fun expiry_scan :: "pool \<Rightarrow> int \<Rightarrow> int \<Rightarrow> node list \<Rightarrow> node list \<Rightarrow> int option
    \<Rightarrow> (qexn, node list \<times> int option) comp" where
  "expiry_scan p timeout now_ns [] expired next = ret (expired, next)"
| "expiry_scan p timeout now_ns (b # bs) expired next =
     (let k = blocks p b
      in if block_hash k = None then expiry_scan p timeout now_ns bs expired next
         else if protected_until_ns k > now_ns
         then expiry_scan p timeout now_ns bs expired (earlier next (protected_until_ns k))
         else case cache_idle_since_ns k of
                None \<Rightarrow> raise AssertionError
              | Some idle \<Rightarrow>
                  if idle + timeout \<le> now_ns
                  then expiry_scan p timeout now_ns bs (expired @ [b]) next
                  else expiry_scan p timeout now_ns bs expired (earlier next (idle + timeout)))"

definition expire_one :: "node \<Rightarrow> bytes list \<times> pool \<Rightarrow> (qexn, bytes list \<times> pool) comp" where
  "expire_one b s =
     (case s of (removed, p) \<Rightarrow>
        bind (q_remove b (free_block_queue p)) (\<lambda>q.
          case remove_cached_block_hashes b (log_metric (OnEvicted b) (p\<lparr>free_block_queue := q\<rparr>)) of
            (hs, p) \<Rightarrow> ret (removed @ hs, p)))"

definition expire_cached_blocks :: "int \<Rightarrow> pool \<Rightarrow> (qexn, nat \<times> pool) comp" where
  "expire_cached_blocks now_ns p =
     (case (prefix_cache_idle_timeout_ns p, next_prefix_cache_expiry_ns p) of
        (Some timeout, Some next) \<Rightarrow>
          if now_ns < next then ret (0, p)
          else
            bind (q_iter_blocks_after None (free_block_queue p)) (\<lambda>free.
            bind (expiry_scan p timeout now_ns free [] None) (\<lambda>(expired, next).
            bind (fold_comp expire_one expired ([], p)) (\<lambda>(removed, p).
            bind (q_prepend_n expired (free_block_queue p)) (\<lambda>q.
              ret (length expired,
                (emit_block_removed_events removed (p\<lparr>free_block_queue := q\<rparr>))
                  \<lparr>next_prefix_cache_expiry_ns := next\<rparr>)))))
      | _ \<Rightarrow> ret (0, p))"

subsection \<open>Eviction, reset and events\<close>

text \<open>
  \<^verbatim>\<open>evict_blocks\<close> indexes the block list by the reported ids; the assertion stops ids past the
  end, and a negative id counts from the end, as Python lists do.
\<close>

definition nth_block :: "int \<Rightarrow> pool \<Rightarrow> (qexn, node) comp" where
  "nth_block i p =
     (let n = int (num_gpu_blocks p)
      in if 0 \<le> i \<and> i < n then ret (Blk (nat i))
         else if - n \<le> i \<and> i < 0 then ret (Blk (nat (n + i)))
         else raise IndexError)"

definition evict_one :: "int \<Rightarrow> pool \<Rightarrow> (qexn, pool) comp" where
  "evict_one i p =
     bind (assert AssertionError (i < int (num_gpu_blocks p))) (\<lambda>_.
     bind (nth_block i p) (\<lambda>b. ret (snd (maybe_evict_cached_block b p))))"

definition evict_blocks :: "int list \<Rightarrow> pool \<Rightarrow> (qexn, pool) comp" where
  "evict_blocks ids = fold_comp evict_one ids"

definition reset_prefix_cache :: "pool \<Rightarrow> bool \<times> pool" where
  "reset_prefix_cache p =
     (if int (num_gpu_blocks p) - get_num_free_blocks p \<noteq> 1 then (False, p)
      else
        let p1 = p\<lparr>cached_block_hash_to_block := Map.empty, cached_block_hashes_by_block := Map.empty\<rparr>;
            p2 = fold (\<lambda>i. upd_block (Blk i) reset_hash) [0..<num_gpu_blocks p] p1;
            p3 = p2\<lparr>next_prefix_cache_expiry_ns := None\<rparr>;
            p4 = log_metric ResetMetrics p3
        in (True, if enable_kv_cache_events p4
                  then p4\<lparr>kv_event_queue := kv_event_queue p4 @ [AllBlocksCleared]\<rparr> else p4))"

definition take_events :: "pool \<Rightarrow> kv_event list \<times> pool" where
  "take_events p =
     (if \<not> enable_kv_cache_events p then ([], p)
      else (kv_event_queue p, p\<lparr>kv_event_queue := []\<rparr>))"

subsection \<open>Caching full and partial blocks\<close>

definition build_block_stored_event :: "request \<Rightarrow> ext_hash list option \<Rightarrow> ext_hash option
    \<Rightarrow> nat \<Rightarrow> nat \<Rightarrow> nat \<Rightarrow> int \<Rightarrow> extra_key list option list \<Rightarrow> kv_event" where
  "build_block_stored_event r hs parent st en block_size group_id extra =
     BlockStored hs parent (take (en - st) (drop st (all_token_ids r))) block_size
       (map_option adapter_id (lora r)) (map_option lora_label (lora r))
       (if extra = [] then None else Some extra) group_id"

definition cache_one_full :: "nat \<Rightarrow> nat \<Rightarrow> int \<Rightarrow> bool list option \<Rightarrow> bytes list \<Rightarrow> nat \<times> node
    \<Rightarrow> ext_hash list \<times> pool \<Rightarrow> (qexn, ext_hash list \<times> pool) comp" where
  "cache_one_full num_cached block_size group_id block_mask hs ib s =
     (case (ib, s) of ((i, b), (new_hashes, p)) \<Rightarrow>
        if is_null (blocks p b) \<or> (case block_mask of None \<Rightarrow> False | Some m \<Rightarrow> \<not> m ! i)
        then ret (new_hashes, p)
        else if i \<ge> length hs then raise IndexError
        else
          let h = hs ! i; num_hash_tokens = int ((num_cached + i + 1) * block_size) in
          bind (make_block_hash_with_group_id h group_id) (\<lambda>key.
          bind (case block_hash (blocks p b) of
                  None \<Rightarrow> ret p
                | Some old \<Rightarrow> (case block_hash_num_tokens (blocks p b) of
                      None \<Rightarrow> raise AssertionError
                    | Some n \<Rightarrow>
                        if n < num_hash_tokens
                        then (case remove_cached_block_hashes b p of (removed, p) \<Rightarrow>
                               ret (emit_block_removed_events removed p))
                        else bind (assert AssertionError (n = num_hash_tokens)) (\<lambda>_.
                             bind (assert AssertionError (get_block_hash old = h)) (\<lambda>_.
                             bind (assert AssertionError (get_group_id old \<noteq> group_id)) (\<lambda>_. ret p))))) (\<lambda>p.
          bind (insert_block_hash key b (Some num_hash_tokens) p) (\<lambda>p.
            ret (new_hashes @ [maybe_convert_block_hash (use_int_block_hashes p) h], p)))))"

text \<open>The extra keys of every block that was not skipped, threading the multimodal index.\<close>

fun stored_extra_keys :: "request \<Rightarrow> nat \<Rightarrow> (nat \<Rightarrow> (qexn, bool) comp) \<Rightarrow> nat list \<Rightarrow> int
    \<Rightarrow> (qexn, extra_key list option list) comp" where
  "stored_extra_keys r block_size skip [] mm = ret []"
| "stored_extra_keys r block_size skip (i # is) mm =
     bind (skip i) (\<lambda>skipped.
       if skipped then stored_extra_keys r block_size skip is mm
       else bind (generate_block_hash_extra_keys r (i * block_size) (i * block_size + block_size) mm)
              (\<lambda>(ks, mm'). bind (stored_extra_keys r block_size skip is mm') (\<lambda>rest. ret (ks # rest))))"

definition cache_full_blocks :: "request \<Rightarrow> node list \<Rightarrow> nat \<Rightarrow> nat \<Rightarrow> nat \<Rightarrow> int \<Rightarrow> bool list option
    \<Rightarrow> pool \<Rightarrow> (qexn, pool) comp" where
  "cache_full_blocks r bs num_cached num_full block_size group_id block_mask p =
     (if num_cached \<ge> num_full then ret p
      else
        let new_full = take (num_full - num_cached) (drop num_cached bs) in
        bind (assert AssertionError (case block_mask of None \<Rightarrow> True | Some m \<Rightarrow> length m = length new_full)) (\<lambda>_.
        bind (resolve_block_hashes (Raw (block_hashes r)) (hash_block_size p) block_size False None) (\<lambda>hl.
        bind (fold_comp (cache_one_full num_cached block_size group_id block_mask (hl_from hl num_cached))
                (enumerate 0 new_full) ([], p)) (\<lambda>(new_hashes, p).
          if \<not> enable_kv_cache_events p then ret p
          else
            bind (if num_cached = 0 then ret None
                  else bind (hl_get hl (num_cached - 1)) (\<lambda>h.
                         ret (Some (maybe_convert_block_hash (use_int_block_hashes p) h)))) (\<lambda>parent.
            bind (stored_extra_keys r block_size
                    (\<lambda>i. if i < length bs
                         then ret (is_null (blocks p (bs ! i))
                               \<or> (case block_mask of None \<Rightarrow> False | Some m \<Rightarrow> \<not> m ! (i - num_cached)))
                         else raise IndexError)
                    [num_cached..<num_full] 0) (\<lambda>extra.
              ret (p\<lparr>kv_event_queue := kv_event_queue p @
                [build_block_stored_event r (Some new_hashes) parent (num_cached * block_size)
                   (num_full * block_size) block_size group_id extra]\<rparr>)))))))"

fun get_hashes :: "hash_list \<Rightarrow> nat list \<Rightarrow> (qexn, bytes list) comp" where
  "get_hashes hl [] = ret []"
| "get_hashes hl (i # is) = bind (hl_get hl i) (\<lambda>h. bind (get_hashes hl is) (\<lambda>hs. ret (h # hs)))"

definition emit_cached_block_events :: "request \<Rightarrow> nat \<Rightarrow> nat \<Rightarrow> int \<Rightarrow> pool \<Rightarrow> (qexn, pool) comp" where
  "emit_cached_block_events r num_cached block_size group_id p =
     (if \<not> enable_kv_cache_events p \<or> num_cached = 0 then ret p
      else
        bind (resolve_block_hashes (Raw (block_hashes r)) (hash_block_size p) block_size False None) (\<lambda>hl.
        bind (get_hashes hl [0..<num_cached]) (\<lambda>hs.
        bind (stored_extra_keys r block_size (\<lambda>_. ret False) [0..<num_cached] 0) (\<lambda>extra.
          ret (p\<lparr>kv_event_queue := kv_event_queue p @
            [build_block_stored_event r
               (Some (map (maybe_convert_block_hash (use_int_block_hashes p)) hs)) None 0
               (num_cached * block_size) block_size group_id extra]\<rparr>)))))"

definition get_partial_block_hash :: "request \<Rightarrow> nat \<Rightarrow> nat \<Rightarrow> (qexn, bytes) comp" where
  "get_partial_block_hash r num_tokens hbs =
     bind (assert AssertionError (num_tokens mod hbs = 0)) (\<lambda>_.
     let n = num_tokens div hbs in
     bind (assert AssertionError (0 < n \<and> n \<le> length (block_hashes r))) (\<lambda>_.
       ret (block_hashes r ! (n - 1))))"

definition partial_block_parent :: "request \<Rightarrow> nat \<Rightarrow> nat \<Rightarrow> bytes option \<times> nat" where
  "partial_block_parent r num_tokens hbs =
     (let n = num_tokens div hbs
      in (if n > 1 then Some (block_hashes r ! (n - 2)) else None, (n - 1) * hbs))"

definition cache_partial_block :: "request \<Rightarrow> node \<Rightarrow> nat \<Rightarrow> int \<Rightarrow> nat \<Rightarrow> pool
    \<Rightarrow> (qexn, bytes option \<times> pool) comp" where
  "cache_partial_block r b num_tokens group_id block_size p =
     (let hbs = hash_block_size p in
      if is_null (blocks p b) then ret (None, p)
      else
        bind (assert AssertionError (block_size > hbs)) (\<lambda>_.
        bind (assert AssertionError (block_size mod hbs = 0)) (\<lambda>_.
        bind (assert AssertionError (num_tokens mod block_size \<noteq> 0)) (\<lambda>_.
        bind (get_partial_block_hash r num_tokens hbs) (\<lambda>h.
        let covered = int (num_tokens div hbs * hbs) in
        bind (make_block_hash_with_group_id h group_id) (\<lambda>key.
        let already = (block_hash (blocks p b) = Some key
              \<or> m_contain key (block_id b) (cached_block_hash_to_block p));
            p1 = (if \<not> already \<and> block_hash (blocks p b) \<noteq> None
                    \<and> (case block_hash_num_tokens (blocks p b) of None \<Rightarrow> False | Some n \<Rightarrow> n < covered)
                  then (case remove_cached_block_hashes b p of (removed, p) \<Rightarrow> emit_block_removed_events removed p)
                  else p) in
        bind (insert_block_hash key b (Some covered) p1) (\<lambda>p2.
          if enable_kv_cache_events p2 \<and> \<not> already
          then case partial_block_parent r num_tokens hbs of (parent, st) \<Rightarrow>
            bind (generate_block_hash_extra_keys r st num_tokens (if st > 0 then - 1 else 0)) (\<lambda>(ks, _).
              ret (Some key, p2\<lparr>kv_event_queue := kv_event_queue p2 @
                [BlockStored (Some [maybe_convert_block_hash (use_int_block_hashes p2) h])
                   (map_option (maybe_convert_block_hash (use_int_block_hashes p2)) parent)
                   (take (num_tokens - st) (drop st (all_token_ids r))) (num_tokens - st)
                   (map_option adapter_id (lora r)) (map_option lora_label (lora r)) (Some [ks]) group_id]\<rparr>))
          else ret (Some key, p2))))))))"

text \<open>
  Session protection (\<^verbatim>\<open>_stamp_session_block_protection\<close> of the scheduler): the blocks of a
  request that carries a session id are protected for the configured time, never for less than
  they already are.
\<close>

definition stamp_session_block_protection :: "string option \<Rightarrow> rat \<Rightarrow> int \<Rightarrow> node list list \<Rightarrow> pool \<Rightarrow> pool" where
  "stamp_session_block_protection session_id protect_seconds now_ns groups p =
     (if session_id = None \<or> protect_seconds \<le> 0 then p
      else let until_ns = now_ns + \<lfloor>protect_seconds * 10 ^ 9\<rfloor>
           in fold (\<lambda>b. upd_block b (\<lambda>k. k\<lparr>protected_until_ns := max (protected_until_ns k) until_ns\<rparr>))
                (concat groups) p)"

end
