(* ===== verification/KV_Pool_Inv.thy ===== *)
theory KV_Pool_Inv
  imports KV_Pool
begin

text \<open>
  The invariant of the block pool and the operations that keep it.  \<open>pool_inv p xs\<close> says that the
  free queue represents the list \<open>xs\<close> of exactly the blocks nobody refers to (\<open>free_inv\<close>), that
  the hash index and the hashes recorded in the blocks agree (\<open>index_inv\<close>), and that the next
  expiry time bounds the idle deadline of every free cached block (\<open>idle_inv\<close>).
\<close>

subsection \<open>The invariant\<close>

definition valid_block :: "pool \<Rightarrow> node \<Rightarrow> bool" where
  "valid_block p b \<longleftrightarrow> (\<exists>i<num_gpu_blocks p. b = Blk i)"

definition is_free :: "pool \<Rightarrow> node \<Rightarrow> bool" where
  "is_free p b \<longleftrightarrow> valid_block p b \<and> b \<noteq> Blk 0 \<and> ref_cnt (blocks p b) = 0"

definition free_inv :: "pool \<Rightarrow> node list \<Rightarrow> bool" where
  "free_inv p xs \<longleftrightarrow> dll (free_block_queue p) xs \<and> set xs = {b. is_free p b}
     \<and> 0 < num_gpu_blocks p \<and> null_block p = Blk 0 \<and> (\<forall>b. is_null (blocks p b) \<longleftrightarrow> b = Blk 0)
     \<and> (\<forall>b. b \<noteq> Blk 0 \<longrightarrow> 0 \<le> ref_cnt (blocks p b))"

definition index_inv :: "pool \<Rightarrow> bool" where
  "index_inv p \<longleftrightarrow> hmap_ok (cached_block_hash_to_block p)
     \<and> (\<forall>k. members (cached_block_hash_to_block p) k = {b. real_node b \<and> k \<in> set (own_hashes p b)})
     \<and> (\<forall>b. real_node b \<longrightarrow> distinct (own_hashes p b)
          \<and> (block_hash (blocks p b) = None \<longrightarrow>
               block_hash_num_tokens (blocks p b) = None \<and> cached_block_hashes_by_block p (block_id b) = None)
          \<and> (block_hash (blocks p b) \<noteq> None \<longrightarrow> valid_block p b))"

definition deadline :: "int \<Rightarrow> kv_block \<Rightarrow> int option" where
  "deadline t k = map_option (\<lambda>s. max (s + t) (protected_until_ns k)) (cache_idle_since_ns k)"

definition idle_inv :: "pool \<Rightarrow> bool" where
  "idle_inv p \<longleftrightarrow> (case prefix_cache_idle_timeout_ns p of None \<Rightarrow> True | Some t \<Rightarrow>
     0 < t \<and> (\<forall>b. is_free p b \<and> block_hash (blocks p b) \<noteq> None \<longrightarrow>
       (\<exists>d e. deadline t (blocks p b) = Some d \<and> next_prefix_cache_expiry_ns p = Some e \<and> e \<le> d)))"

definition pool_inv :: "pool \<Rightarrow> node list \<Rightarrow> bool" where
  "pool_inv p xs \<longleftrightarrow> free_inv p xs \<and> index_inv p \<and> idle_inv p"

lemmas pool_inv_defs = pool_inv_def free_inv_def

lemma valid_real: "valid_block p b \<Longrightarrow> real_node b"
  by (auto simp: valid_block_def real_node_def)

lemma own_hashes_None: "index_inv p \<Longrightarrow> real_node b \<Longrightarrow>
    own_hashes p b = [] \<longleftrightarrow> block_hash (blocks p b) = None"
  by (auto simp: index_inv_def own_hashes_def split: option.splits)

subsection \<open>Changes that leave references and free blocks alone\<close>

text \<open>
  \<open>quiet p p' B\<close>: nothing changes in the queue, in the reference counts or in the expiry time, and
  only blocks in \<open>B\<close> may gain a hash or lose idle time or protection.
\<close>

definition same_config :: "pool \<Rightarrow> pool \<Rightarrow> bool" where
  "same_config p p' \<longleftrightarrow> num_gpu_blocks p' = num_gpu_blocks p \<and> enable_caching p' = enable_caching p
     \<and> hash_block_size p' = hash_block_size p \<and> null_block p' = null_block p
     \<and> prefix_cache_idle_timeout_ns p' = prefix_cache_idle_timeout_ns p
     \<and> enable_kv_cache_events p' = enable_kv_cache_events p
     \<and> use_int_block_hashes p' = use_int_block_hashes p"

definition quiet :: "pool \<Rightarrow> pool \<Rightarrow> node set \<Rightarrow> bool" where
  "quiet p p' B \<longleftrightarrow> same_config p p' \<and> free_block_queue p' = free_block_queue p
     \<and> next_prefix_cache_expiry_ns p' = next_prefix_cache_expiry_ns p
     \<and> (\<forall>b. ref_cnt (blocks p' b) = ref_cnt (blocks p b) \<and> is_null (blocks p' b) = is_null (blocks p b))
     \<and> (\<forall>b. b \<notin> B \<and> block_hash (blocks p' b) \<noteq> None \<longrightarrow> block_hash (blocks p b) \<noteq> None
          \<and> cache_idle_since_ns (blocks p' b) = cache_idle_since_ns (blocks p b)
          \<and> protected_until_ns (blocks p b) \<le> protected_until_ns (blocks p' b))"

lemma same_config_refl [simp]: "same_config p p"
  by (simp add: same_config_def)

lemma same_config_trans: "same_config p q \<Longrightarrow> same_config q r \<Longrightarrow> same_config p r"
  by (simp add: same_config_def)

lemma quiet_refl [simp]: "quiet p p B"
  by (simp add: quiet_def)

lemma quiet_trans: "quiet p q B \<Longrightarrow> quiet q r B \<Longrightarrow> quiet p r B"
  unfolding quiet_def same_config_def by (fastforce intro: order_trans)

lemma quiet_mono: "quiet p q B \<Longrightarrow> B \<subseteq> C \<Longrightarrow> quiet p q C"
  unfolding quiet_def by blast

lemma quiet_valid: "quiet p p' B \<Longrightarrow> valid_block p' b = valid_block p b"
  by (simp add: quiet_def same_config_def valid_block_def)

lemma quiet_is_free: "quiet p p' B \<Longrightarrow> is_free p' b = is_free p b"
  by (simp add: quiet_valid is_free_def) (simp add: quiet_def)

lemma quiet_free_inv: "quiet p p' B \<Longrightarrow> free_inv p xs \<Longrightarrow> free_inv p' xs"
  by (simp add: free_inv_def quiet_is_free) (simp add: quiet_def same_config_def)

lemma quiet_idle_inv:
  assumes q: "quiet p p' B" and i: "idle_inv p" and B: "\<forall>b\<in>B. \<not> is_free p b"
  shows "idle_inv p'"
proof (cases "prefix_cache_idle_timeout_ns p")
  case None
  with q show ?thesis by (simp add: idle_inv_def quiet_def same_config_def)
next
  case (Some t)
  with q have t: "prefix_cache_idle_timeout_ns p' = Some t" by (simp add: quiet_def same_config_def)
  have "\<exists>d e. deadline t (blocks p' b) = Some d \<and> next_prefix_cache_expiry_ns p' = Some e \<and> e \<le> d"
    if b: "is_free p' b" "block_hash (blocks p' b) \<noteq> None" for b
  proof -
    from b(1) q have f: "is_free p b" by (simp add: quiet_is_free)
    with B have "b \<notin> B" by auto
    with b(2) q have h: "block_hash (blocks p b) \<noteq> None"
      "cache_idle_since_ns (blocks p' b) = cache_idle_since_ns (blocks p b)"
      "protected_until_ns (blocks p b) \<le> protected_until_ns (blocks p' b)"
      "next_prefix_cache_expiry_ns p' = next_prefix_cache_expiry_ns p"
      by (auto simp: quiet_def)
    from i Some f h(1) obtain d e where
      "deadline t (blocks p b) = Some d" "next_prefix_cache_expiry_ns p = Some e" "e \<le> d"
      by (auto simp: idle_inv_def)
    with h show ?thesis by (auto simp: deadline_def)
  qed
  with t i Some show ?thesis by (simp add: idle_inv_def)
qed

lemma free_inv_set: "free_inv p xs \<Longrightarrow> set xs = {b. is_free p b}"
  by (simp add: free_inv_def)

lemma quiet_pool_inv:
  "quiet p p' B \<Longrightarrow> pool_inv p xs \<Longrightarrow> index_inv p' \<Longrightarrow> B \<inter> set xs = {} \<Longrightarrow> pool_inv p' xs"
  unfolding pool_inv_def
  using quiet_free_inv [of p p' B xs] quiet_idle_inv [of p p' B] free_inv_set [of p xs] by auto

subsection \<open>The hash index\<close>

lemma index_inv_cong:
  assumes "index_inv p" "cached_block_hash_to_block p' = cached_block_hash_to_block p"
    "cached_block_hashes_by_block p' = cached_block_hashes_by_block p"
    "num_gpu_blocks p' = num_gpu_blocks p"
    "\<And>b. block_hash (blocks p' b) = block_hash (blocks p b)"
    "\<And>b. block_hash_num_tokens (blocks p' b) = block_hash_num_tokens (blocks p b)"
  shows "index_inv p'"
proof -
  have "own_hashes p' = own_hashes p" using assms by (simp add: own_hashes_def fun_eq_iff)
  with assms show ?thesis by (simp add: index_inv_def valid_block_def)
qed

lemma remove_cached_spec:
  assumes i: "index_inv p" and b: "real_node b"
  obtains p' where "remove_cached_block_hashes b p = (own_hashes p b, p')" "index_inv p'"
    "quiet p p' {}" "own_hashes p' b = []" "\<And>c. c \<noteq> b \<Longrightarrow> real_node c \<Longrightarrow> own_hashes p' c = own_hashes p c"
    "\<And>c. c \<noteq> b \<Longrightarrow> blocks p' c = blocks p c"
proof -
  have m: "hmap_ok (cached_block_hash_to_block p)"
    "members (cached_block_hash_to_block p) k = {b. real_node b \<and> k \<in> set (own_hashes p b)}" for k
    using i by (auto simp: index_inv_def)
  have d: "distinct (own_hashes p b)" using i b by (simp add: index_inv_def)
  let ?p1 = "p\<lparr>cached_block_hashes_by_block := (cached_block_hashes_by_block p)(block_id b := None)\<rparr>"
  show ?thesis
  proof (cases "own_hashes p b = []")
    case True
    then have "block_hash (blocks p b) = None" using own_hashes_None [OF i b] by simp
    with i b have "cached_block_hashes_by_block p (block_id b) = None" by (simp add: index_inv_def)
    then have "?p1 = p" by (simp add: fun_upd_idem)
    with True have "remove_cached_block_hashes b p = (own_hashes p b, p)"
      by (simp add: remove_cached_block_hashes_def Let_def)
    then show ?thesis using i True by (intro that [of p]) auto
  next
    case False
    from hi.pop_all [OF m(1) b d] obtain m' where
      m': "pop_each (\<lambda>k. m_pop k (block_id b)) (own_hashes p b) (cached_block_hash_to_block p)
         = (filter (\<lambda>k. b \<in> members (cached_block_hash_to_block p) k) (own_hashes p b), m')" "hmap_ok m'"
        "\<forall>k. members m' k = (if k \<in> set (own_hashes p b) then members (cached_block_hash_to_block p) k - {b}
           else members (cached_block_hash_to_block p) k)" by auto
    let ?p = "upd_block b reset_hash (?p1\<lparr>cached_block_hash_to_block := m'\<rparr>)"
    have "filter (\<lambda>k. b \<in> members (cached_block_hash_to_block p) k) (own_hashes p b) = own_hashes p b"
      using b by (auto simp: m(2))
    with m'(1) False have e: "remove_cached_block_hashes b p = (own_hashes p b, ?p)"
      by (simp add: remove_cached_block_hashes_def Let_def)
    have o: "own_hashes ?p b = []" by (simp add: own_hashes_def upd_block_def reset_hash_def)
    have o': "own_hashes ?p c = own_hashes p c" if "c \<noteq> b" "real_node c" for c
      using that b by (simp add: own_hashes_def upd_block_def block_id_inject)
    have "members m' k = {c. real_node c \<and> k \<in> set (own_hashes ?p c)}" for k
    proof -
      have "c \<in> members m' k \<longleftrightarrow> real_node c \<and> k \<in> set (own_hashes ?p c)" for c
      proof (cases "c = b")
        case True
        then show ?thesis unfolding True o using m'(3) b by (simp add: m(2))
      next
        case F: False
        then show ?thesis using m'(3) o' [of c] by (auto simp: m(2))
      qed
      then show ?thesis by blast
    qed
    moreover have "cached_block_hash_to_block ?p = m'" by (simp add: upd_block_def)
    moreover have "distinct (own_hashes ?p c)
          \<and> (block_hash (blocks ?p c) = None \<longrightarrow>
               block_hash_num_tokens (blocks ?p c) = None \<and> cached_block_hashes_by_block ?p (block_id c) = None)
          \<and> (block_hash (blocks ?p c) \<noteq> None \<longrightarrow> valid_block ?p c)" if c: "real_node c" for c
    proof (cases "c = b")
      case True
      then show ?thesis unfolding True o by (simp add: upd_block_def reset_hash_def)
    next
      case F: False
      with c b i show ?thesis
        unfolding o' [OF F c] by (auto simp: index_inv_def upd_block_def valid_block_def block_id_inject)
    qed
    ultimately have "index_inv ?p" using m'(2) unfolding index_inv_def by auto
    moreover have "quiet p ?p {}"
      by (simp add: quiet_def same_config_def upd_block_def reset_hash_def)
    ultimately show ?thesis using e o o' by (intro that [of ?p]) (auto simp: upd_block_def)
  qed
qed

lemma emit_removed_simps [simp]:
  "free_block_queue (emit_block_removed_events hs p) = free_block_queue p"
  "blocks (emit_block_removed_events hs p) = blocks p"
  "cached_block_hash_to_block (emit_block_removed_events hs p) = cached_block_hash_to_block p"
  "cached_block_hashes_by_block (emit_block_removed_events hs p) = cached_block_hashes_by_block p"
  "num_gpu_blocks (emit_block_removed_events hs p) = num_gpu_blocks p"
  "enable_caching (emit_block_removed_events hs p) = enable_caching p"
  "next_prefix_cache_expiry_ns (emit_block_removed_events hs p) = next_prefix_cache_expiry_ns p"
  "same_config q (emit_block_removed_events hs p) = same_config q p"
  by (simp_all add: emit_block_removed_events_def same_config_def)

lemma log_metric_simps [simp]:
  "free_block_queue (log_metric c p) = free_block_queue p" "blocks (log_metric c p) = blocks p"
  "cached_block_hash_to_block (log_metric c p) = cached_block_hash_to_block p"
  "cached_block_hashes_by_block (log_metric c p) = cached_block_hashes_by_block p"
  "num_gpu_blocks (log_metric c p) = num_gpu_blocks p"
  "enable_caching (log_metric c p) = enable_caching p"
  "next_prefix_cache_expiry_ns (log_metric c p) = next_prefix_cache_expiry_ns p"
  "same_config q (log_metric c p) = same_config q p"
  by (simp_all add: log_metric_def same_config_def)

lemma upd_block_simps [simp]:
  "free_block_queue (upd_block b f p) = free_block_queue p"
  "blocks (upd_block b f p) = (blocks p)(b := f (blocks p b))"
  "cached_block_hash_to_block (upd_block b f p) = cached_block_hash_to_block p"
  "cached_block_hashes_by_block (upd_block b f p) = cached_block_hashes_by_block p"
  "num_gpu_blocks (upd_block b f p) = num_gpu_blocks p"
  "enable_caching (upd_block b f p) = enable_caching p"
  "prefix_cache_idle_timeout_ns (upd_block b f p) = prefix_cache_idle_timeout_ns p"
  "next_prefix_cache_expiry_ns (upd_block b f p) = next_prefix_cache_expiry_ns p"
  "same_config q (upd_block b f p) = same_config q p"
  by (simp_all add: upd_block_def same_config_def)

lemma same_config_upd [simp]:
  "same_config q (p\<lparr>free_block_queue := h\<rparr>) = same_config q p"
  "same_config q (p\<lparr>blocks := bs\<rparr>) = same_config q p"
  "same_config q (p\<lparr>next_prefix_cache_expiry_ns := e\<rparr>) = same_config q p"
  "same_config q (p\<lparr>cached_block_hash_to_block := m\<rparr>) = same_config q p"
  "same_config q (p\<lparr>cached_block_hashes_by_block := d\<rparr>) = same_config q p"
  "same_config q (p\<lparr>kv_event_queue := ev\<rparr>) = same_config q p"
  by (simp_all add: same_config_def)

lemma emit_quiet [simp]: "quiet p (emit_block_removed_events hs q) B = quiet p q B"
  by (simp add: quiet_def)

lemma log_quiet [simp]: "quiet p (log_metric c q) B = quiet p q B"
  by (simp add: quiet_def)

lemma emit_index_inv [simp]: "index_inv p \<Longrightarrow> index_inv (emit_block_removed_events hs p)"
  by (rule index_inv_cong) auto

lemma log_index_inv [simp]: "index_inv p \<Longrightarrow> index_inv (log_metric c p)"
  by (rule index_inv_cong) auto

lemma own_hashes_emit [simp]: "own_hashes (emit_block_removed_events hs p) = own_hashes p"
  by (simp add: own_hashes_def fun_eq_iff)

lemma own_hashes_log [simp]: "own_hashes (log_metric c p) = own_hashes p"
  by (simp add: own_hashes_def fun_eq_iff)

lemma maybe_evict_spec:
  assumes i: "index_inv p" and b: "real_node b"
  obtains p' where "maybe_evict_cached_block b p = (block_hash (blocks p b) \<noteq> None, p')" "index_inv p'"
    "quiet p p' {}" "own_hashes p' b = []" "\<And>c. c \<noteq> b \<Longrightarrow> real_node c \<Longrightarrow> own_hashes p' c = own_hashes p c"
    "\<And>c. c \<noteq> b \<Longrightarrow> blocks p' c = blocks p c"
proof -
  from remove_cached_spec [OF log_index_inv [OF i] b] obtain q where q:
    "remove_cached_block_hashes b (log_metric (OnEvicted b) p) = (own_hashes p b, q)" "index_inv q"
    "quiet (log_metric (OnEvicted b) p) q {}" "own_hashes q b = []"
    "\<And>c. c \<noteq> b \<Longrightarrow> real_node c \<Longrightarrow> own_hashes q c = own_hashes p c" "\<And>c. c \<noteq> b \<Longrightarrow> blocks q c = blocks p c"
    by (metis own_hashes_log log_metric_simps(2))
  have l: "quiet p (log_metric (OnEvicted b) p) {}" by simp
  let ?r = "if own_hashes p b = [] then q else emit_block_removed_events (own_hashes p b) q"
  show ?thesis
    by (rule that [of ?r])
      (use q quiet_trans [OF l q(3)] own_hashes_None [OF i b] in
        \<open>auto simp: maybe_evict_cached_block_def\<close>)
qed

lemma insert_hash_spec:
  assumes i: "index_inv p" and b: "valid_block p b"
  obtains p' where "insert_block_hash k b n p = ret p'" "index_inv p'" "quiet p p' {b}"
    "set (own_hashes p' b) = insert k (set (own_hashes p b))"
    "\<And>c. c \<noteq> b \<Longrightarrow> real_node c \<Longrightarrow> own_hashes p' c = own_hashes p c"
    "\<And>c. c \<noteq> b \<Longrightarrow> blocks p' c = blocks p c"
    "enable_kv_cache_events p' = enable_kv_cache_events p"
proof -
  from b have r: "real_node b" by (rule valid_real)
  have m: "hmap_ok (cached_block_hash_to_block p)"
    "members (cached_block_hash_to_block p) k = {b. real_node b \<and> k \<in> set (own_hashes p b)}" for k
    using i by (auto simp: index_inv_def)
  have c: "m_contain k (block_id b) (cached_block_hash_to_block p) \<longleftrightarrow> k \<in> set (own_hashes p b)"
    using r by (simp add: hi.contains_iff [OF m(1) r] m(2))
  show ?thesis
  proof (cases "k \<in> set (own_hashes p b)")
    case True
    with c have "insert_block_hash k b n p = ret p" by (simp add: insert_block_hash_def)
    with True i show ?thesis by (intro that [of p]) (auto simp: insert_absorb)
  next
    case False
    then have hk: "block_hash (blocks p b) \<noteq> Some k" by (auto simp: own_hashes_def)
    define q where "q = (if block_hash (blocks p b) = None
       then upd_block b (\<lambda>_. (blocks p b)\<lparr>block_hash := Some k, block_hash_num_tokens := n\<rparr>) p
       else p\<lparr>cached_block_hashes_by_block := (cached_block_hashes_by_block p)(block_id b \<mapsto>
          (case cached_block_hashes_by_block p (block_id b) of None \<Rightarrow> [] | Some l \<Rightarrow> l) @ [k])\<rparr>)"
    define p' where "p' = q\<lparr>cached_block_hash_to_block := m_insert k b (cached_block_hash_to_block p)\<rparr>"
    have e: "insert_block_hash k b n p = ret p'"
    proof (cases "block_hash (blocks p b) = None")
      case True
      with i r have "block_hash_num_tokens (blocks p b) = None" by (simp add: index_inv_def)
      with True False c show ?thesis
        by (simp add: insert_block_hash_def set_block_hash_def p'_def q_def upd_block_def)
    next
      case F: False
      from False have "k \<notin> set (case cached_block_hashes_by_block p (block_id b) of None \<Rightarrow> [] | Some l \<Rightarrow> l)"
        by (simp add: own_hashes_def)
      with F False c hk show ?thesis
        by (cases "cached_block_hashes_by_block p (block_id b)")
          (auto simp: insert_block_hash_def p'_def q_def Let_def)
    qed
    have o: "own_hashes p' b = own_hashes p b @ [k]"
      using i r by (auto simp: p'_def q_def own_hashes_def upd_block_def index_inv_def)
    have o': "own_hashes p' c = own_hashes p c" if "c \<noteq> b" "real_node c" for c
      using that r by (auto simp: p'_def q_def own_hashes_def upd_block_def block_id_inject)
    have "members (m_insert k b (cached_block_hash_to_block p)) k'
        = {c. real_node c \<and> k' \<in> set (own_hashes p' c)}" for k'
    proof -
      have "c \<in> members (m_insert k b (cached_block_hash_to_block p)) k'
          \<longleftrightarrow> real_node c \<and> k' \<in> set (own_hashes p' c)" for c
        by (cases "c = b") (use o o' [of c] r in \<open>auto simp: hi.ins_mem [OF m(1) r] m(2)\<close>)
      then show ?thesis by blast
    qed
    moreover have "cached_block_hash_to_block p' = m_insert k b (cached_block_hash_to_block p)"
      by (simp add: p'_def)
    moreover have "distinct (own_hashes p' c)
          \<and> (block_hash (blocks p' c) = None \<longrightarrow>
               block_hash_num_tokens (blocks p' c) = None \<and> cached_block_hashes_by_block p' (block_id c) = None)
          \<and> (block_hash (blocks p' c) \<noteq> None \<longrightarrow> valid_block p' c)" if c: "real_node c" for c
    proof (cases "c = b")
      case True
      have "distinct (own_hashes p b)" using i r by (simp add: index_inv_def)
      with False b show ?thesis unfolding True o
        by (auto simp: p'_def q_def upd_block_def valid_block_def)
    next
      case F: False
      with c r i show ?thesis
        unfolding o' [OF F c] by (auto simp: index_inv_def p'_def q_def upd_block_def valid_block_def block_id_inject)
    qed
    ultimately have "index_inv p'" using hi.ins_ok [OF m(1) r] unfolding index_inv_def by auto
    moreover have "quiet p p' {b}"
      by (auto simp: quiet_def same_config_def p'_def q_def upd_block_def)
    ultimately show ?thesis
      by (intro that [OF e]) (use o o' in \<open>auto simp: p'_def q_def upd_block_def\<close>)
  qed
qed

end
