(* ===== verification/KV_Pool_Ops.thy ===== *)
theory KV_Pool_Ops
  imports KV_Pool_Inv
begin

text \<open>
  Every operation of \<open>BlockPool\<close> keeps \<open>pool_inv\<close>, with what it does to the free list, the
  reference counts and the hashes.
\<close>

subsection \<open>The constructor\<close>

lemma pool_init_spec:
  assumes "pool_init n caching hbs ev met ints timeout = ret p"
  shows "pool_inv p (map Blk [1..<n])"
proof -
  from assms have n: "n > 0" by (auto simp: pool_init_def split: if_splits)
  then have m: "map Blk [0..<n] = Blk 0 # map Blk [1..<n]" by (simp add: upt_conv_Cons)
  have "distinct (ends (map Blk [0..<n]))" by (auto simp: distinct_map inj_on_def)
  then have "dll (q_init (map Blk [0..<n])) (Blk 0 # map Blk [1..<n])"
    using q_init_dll [of "map Blk [0..<n]"] m by simp
  from q_popleft_dll [OF this] obtain q where
    q: "q_popleft (q_init (map Blk [0..<n])) = ret (Blk 0, q)" "dll q (map Blk [1..<n])" by auto
  from assms n obtain t where p: "p = \<lparr>num_gpu_blocks = n, enable_caching = caching, hash_block_size = hbs,
         prefix_cache_idle_timeout_ns = t, next_prefix_cache_expiry_ns = None,
         blocks = (\<lambda>_. new_block)(Blk 0 := new_block\<lparr>is_null := True\<rparr>), free_block_queue = q,
         cached_block_hash_to_block = Map.empty, cached_block_hashes_by_block = Map.empty,
         null_block = Blk 0, enable_kv_cache_events = ev, kv_event_queue = [],
         metrics_collector = (if met then Some [] else None), use_int_block_hashes = ints\<rparr>"
     and t: "\<And>s. t = Some s \<Longrightarrow> 0 < s"
    by (auto simp: pool_init_def Let_def q(1) max_def split: option.splits if_splits)
  have ref: "ref_cnt (blocks p b) = 0" for b by (simp add: p new_block_def)
  have N: "num_gpu_blocks p = n" by (simp add: p)
  have nu: "is_null (blocks p b) \<longleftrightarrow> b = Blk 0" for b by (simp add: p new_block_def)
  have h: "block_hash (blocks p b) = None" "block_hash_num_tokens (blocks p b) = None" for b
    by (simp_all add: p new_block_def)
  have o: "own_hashes p b = []" for b by (simp add: own_hashes_def h) (simp add: p)
  have "is_free p b \<longleftrightarrow> b \<in> set (map Blk [1..<n])" for b
    by (cases b) (auto simp: is_free_def valid_block_def ref N simp del: upt_Suc)
  moreover have "dll (free_block_queue p) (map Blk [1..<n])" using q(2) by (simp add: p)
  moreover have "null_block p = Blk 0" by (simp add: p)
  ultimately have "free_inv p (map Blk [1..<n])"
    unfolding free_inv_def using n ref nu N by auto
  moreover have "index_inv p"
    unfolding index_inv_def o h by (auto simp: p hmap_ok_def members_def)
  moreover have "idle_inv p"
    using t by (auto simp: idle_inv_def h split: option.splits) (simp add: p)
  ultimately show ?thesis by (simp add: pool_inv_def)
qed

subsection \<open>Blocks leaving the free list\<close>

lemma leave_free:
  assumes p: "pool_inv p xs" and i: "index_inv p'" and c: "same_config p p'"
    and n: "next_prefix_cache_expiry_ns p' = next_prefix_cache_expiry_ns p"
    and q: "dll (free_block_queue p') ys" "set ys = set xs - A"
    and o: "\<And>b. b \<notin> A \<Longrightarrow> blocks p' b = blocks p b"
    and A: "\<And>b. b \<in> A \<Longrightarrow> is_null (blocks p' b) = is_null (blocks p b) \<and> (b \<noteq> Blk 0 \<longrightarrow> 0 < ref_cnt (blocks p' b))"
  shows "pool_inv p' ys"
proof -
  have v: "valid_block p' b = valid_block p b" for b
    using c by (simp add: same_config_def valid_block_def)
  have f: "is_free p' b \<longleftrightarrow> is_free p b \<and> b \<notin> A" for b
    using o [of b] A [of b] by (cases "b \<in> A") (auto simp: is_free_def v)
  have nul: "is_null (blocks p' b) = is_null (blocks p b)" for b
    using o [of b] A [of b] by (cases "b \<in> A") auto
  have ref: "b \<noteq> Blk 0 \<Longrightarrow> 0 \<le> ref_cnt (blocks p' b)" for b
    using o [of b] A [of b] p by (cases "b \<in> A") (auto simp: pool_inv_defs)
  have "free_inv p' ys"
    using p q c ref unfolding pool_inv_defs by (auto simp: f nul same_config_def)
  moreover have "idle_inv p'"
    using p c n o by (auto simp: pool_inv_def idle_inv_def same_config_def f split: option.splits)
  ultimately show ?thesis using i by (simp add: pool_inv_def)
qed

subsection \<open>Allocation\<close>

lemma remove_protected:
  assumes "remove_cached_block_hashes b p = (hs, q)" and "protected_until_ns (blocks p b) = 0"
  shows "protected_until_ns (blocks q b) = 0"
  using assms by (auto simp: remove_cached_block_hashes_def upd_block_def reset_hash_def Let_def split: prod.splits if_splits)

lemma evict_protected:
  assumes "protected_until_ns (blocks p b) = 0"
  shows "protected_until_ns (blocks (snd (maybe_evict_cached_block b p)) b) = 0"
proof -
  obtain hs q where q: "remove_cached_block_hashes b (log_metric (OnEvicted b) p) = (hs, q)" by force
  from remove_protected [OF this] assms have "protected_until_ns (blocks q b) = 0" by simp
  then show ?thesis by (simp add: maybe_evict_cached_block_def q emit_block_removed_events_def)
qed

lemma alloc_one_spec:
  assumes i: "index_inv p" and b: "real_node b" "ref_cnt (blocks p b) = 0"
  obtains p' where "alloc_one b p = ret p'" "index_inv p'" "same_config p p'"
    "free_block_queue p' = free_block_queue p"
    "next_prefix_cache_expiry_ns p' = next_prefix_cache_expiry_ns p"
    "\<And>c. c \<noteq> b \<Longrightarrow> blocks p' c = blocks p c" "ref_cnt (blocks p' b) = 1"
    "is_null (blocks p' b) = is_null (blocks p b)"
    "enable_caching p \<Longrightarrow> block_hash (blocks p' b) = None"
    "protected_until_ns (blocks p b) = 0 \<Longrightarrow> protected_until_ns (blocks p' b) = 0"
proof -
  obtain q where q: "snd (maybe_evict_cached_block b p) = q" "index_inv q" "quiet p q {}" "own_hashes q b = []"
     "\<And>c. c \<noteq> b \<Longrightarrow> blocks q c = blocks p c"
    by (rule maybe_evict_spec [OF i b(1)]) auto
  define r where "r = (if enable_caching p then q else p)"
  have r: "index_inv r" "quiet p r {}" "\<And>c. c \<noteq> b \<Longrightarrow> blocks r c = blocks p c"
    using q i by (auto simp: r_def)
  then have ref: "ref_cnt (blocks r b) = 0" using b(2) by (simp add: quiet_def)
  let ?s = "log_metric (OnAllocated b) (upd_block b (\<lambda>k. k\<lparr>ref_cnt := ref_cnt k + 1\<rparr>) r)"
  have e: "alloc_one b p = ret ?s"
    using ref by (cases "enable_caching p") (simp_all add: alloc_one_def Let_def r_def q(1))
  have "index_inv (upd_block b (\<lambda>k. k\<lparr>ref_cnt := ref_cnt k + 1\<rparr>) r)"
    by (rule index_inv_cong [OF r(1)]) (auto simp: upd_block_def)
  then have "index_inv ?s" by simp
  moreover have "block_hash (blocks q b) = None" using own_hashes_None [OF q(2) b(1)] q(4) by simp
  moreover have "protected_until_ns (blocks p b) = 0 \<Longrightarrow> protected_until_ns (blocks r b) = 0"
    using evict_protected [of p b] q(1) by (simp add: r_def)
  ultimately show ?thesis
    using r ref by (intro that [OF e]) (simp_all add: quiet_def r_def)
qed

lemma alloc_all_spec:
  "index_inv p \<Longrightarrow> distinct bs \<Longrightarrow> \<forall>b\<in>set bs. real_node b \<and> ref_cnt (blocks p b) = 0 \<Longrightarrow>
   \<exists>p'. fold_comp alloc_one bs p = ret p' \<and> index_inv p' \<and> same_config p p'
     \<and> free_block_queue p' = free_block_queue p
     \<and> next_prefix_cache_expiry_ns p' = next_prefix_cache_expiry_ns p
     \<and> (\<forall>c. c \<notin> set bs \<longrightarrow> blocks p' c = blocks p c)
     \<and> (\<forall>b\<in>set bs. ref_cnt (blocks p' b) = 1 \<and> is_null (blocks p' b) = is_null (blocks p b)
          \<and> (enable_caching p \<longrightarrow> block_hash (blocks p' b) = None)
          \<and> (protected_until_ns (blocks p b) = 0 \<longrightarrow> protected_until_ns (blocks p' b) = 0))"
proof (induction bs arbitrary: p)
  case (Cons b bs)
  then have "real_node b" "ref_cnt (blocks p b) = 0" by auto
  from alloc_one_spec [OF Cons.prems(1) this] obtain q where
    q: "alloc_one b p = ret q" "index_inv q" "same_config p q" "free_block_queue q = free_block_queue p"
    "next_prefix_cache_expiry_ns q = next_prefix_cache_expiry_ns p"
    "\<And>c. c \<noteq> b \<Longrightarrow> blocks q c = blocks p c" "ref_cnt (blocks q b) = 1"
    "is_null (blocks q b) = is_null (blocks p b)"
    "enable_caching p \<Longrightarrow> block_hash (blocks q b) = None"
    "protected_until_ns (blocks p b) = 0 \<Longrightarrow> protected_until_ns (blocks q b) = 0" by metis
  from Cons.prems have "\<forall>c\<in>set bs. c \<noteq> b" by auto
  with Cons.prems q(6) have "\<forall>c\<in>set bs. real_node c \<and> ref_cnt (blocks q c) = 0" by auto
  with Cons.IH [OF q(2)] Cons.prems(2) obtain r where
    r: "fold_comp alloc_one bs q = ret r" "index_inv r" "same_config q r" "free_block_queue r = free_block_queue q"
    "next_prefix_cache_expiry_ns r = next_prefix_cache_expiry_ns q"
    "\<forall>c. c \<notin> set bs \<longrightarrow> blocks r c = blocks q c"
    "\<forall>b\<in>set bs. ref_cnt (blocks r b) = 1 \<and> is_null (blocks r b) = is_null (blocks q b)
          \<and> (enable_caching q \<longrightarrow> block_hash (blocks r b) = None)
          \<and> (protected_until_ns (blocks q b) = 0 \<longrightarrow> protected_until_ns (blocks r b) = 0)" by auto
  have ec: "enable_caching q = enable_caching p" using q(3) by (simp add: same_config_def)
  have "blocks q c = blocks p c" if "c \<in> set bs" for c
    using Cons.prems(2) that by (intro q(6)) auto
  moreover have "blocks r b = blocks q b" using Cons.prems(2) r(6) by simp
  ultimately have "\<forall>c\<in>set (b # bs). ref_cnt (blocks r c) = 1 \<and> is_null (blocks r c) = is_null (blocks p c)
          \<and> (enable_caching p \<longrightarrow> block_hash (blocks r c) = None)
          \<and> (protected_until_ns (blocks p c) = 0 \<longrightarrow> protected_until_ns (blocks r c) = 0)"
    using q(7-10) r(7) unfolding ec by simp
  moreover have "\<forall>c. c \<notin> set (b # bs) \<longrightarrow> blocks r c = blocks p c" using q(6) r(6) by simp
  ultimately show ?case
    using q(1,4,5) r(1,2,4,5) same_config_trans [OF q(3) r(3)] by (intro exI [of _ r]) simp
qed simp

lemma take_two_passes:
  assumes "t1 = take n (filter p xs)" "t2 = take (n - length t1) (filter (\<lambda>x. x \<notin> set t1) xs)"
  shows "t1 @ t2 = take n (filter p xs @ filter (\<lambda>x. \<not> p x) xs)"
proof (cases "n \<le> length (filter p xs)")
  case True
  with assms show ?thesis by simp
next
  case False
  with assms(1) have t1: "t1 = filter p xs" by simp
  have "filter (\<lambda>x. x \<notin> set t1) xs = filter (\<lambda>x. \<not> p x) xs"
    unfolding t1 by (rule filter_cong) auto
  with False assms(2) t1 show ?thesis by simp
qed

lemma fold_unprotect:
  "fold (\<lambda>b. upd_block b (\<lambda>k. k\<lparr>protected_until_ns := 0\<rparr>)) bs p
   = p\<lparr>blocks := (\<lambda>b. if b \<in> set bs then (blocks p b)\<lparr>protected_until_ns := 0\<rparr> else blocks p b)\<rparr>"
  by (induction bs arbitrary: p) (auto simp: upd_block_def fun_eq_iff)

definition victims :: "pool \<Rightarrow> int \<Rightarrow> node list \<Rightarrow> node list" where
  "victims p now_ns xs =
     filter (\<lambda>b. protected_until_ns (blocks p b) \<le> now_ns) xs
     @ filter (\<lambda>b. now_ns < protected_until_ns (blocks p b)) xs"

lemma get_new_blocks_fail:
  "pool_inv p xs \<Longrightarrow> n > length xs \<Longrightarrow> get_new_blocks n now p = raise ValueError"
  by (simp add: get_new_blocks_def get_num_free_blocks_def pool_inv_defs dll_def)

lemma get_new_blocks_spec:
  assumes p: "pool_inv p xs" and n: "n \<le> length xs"
  obtains p' where "get_new_blocks n now p = ret (take n (victims p now xs), p')"
    "pool_inv p' (filter (\<lambda>b. b \<notin> set (take n (victims p now xs))) xs)"
    "\<forall>b\<in>set (take n (victims p now xs)). ref_cnt (blocks p' b) = 1 \<and> (enable_caching p \<longrightarrow> block_hash (blocks p' b) = None)
       \<and> protected_until_ns (blocks p' b) = 0"
    "\<forall>b. b \<notin> set (take n (victims p now xs)) \<longrightarrow> blocks p' b = blocks p b" "same_config p p'"
proof -
  from p have d: "dll (free_block_queue p) xs" by (simp add: pool_inv_defs)
  then have nf: "num_free (free_block_queue p) = int (length xs)" by (simp add: dll_def)
  let ?P = "\<lambda>b. protected_until_ns (blocks p b) \<le> now"
  from fq.two_passes [OF d n, of ?P] obtain t1 t2 q1 q2 where
    t: "q_popleft_n_where n ?P (free_block_queue p) = ret (t1, q1)" "t1 = take n (filter ?P xs)"
      "q_popleft_n_where (n - length t1) (\<lambda>_. True) q1 = ret (t2, q2)"
      "dll q1 (filter (\<lambda>x. x \<notin> set t1) xs)" "dll q2 (filter (\<lambda>x. x \<notin> set (t1 @ t2)) xs)"
      "t2 = take (n - length t1) (filter (\<lambda>x. x \<notin> set t1) xs)"
      "length (t1 @ t2) = n" "distinct (t1 @ t2)" "set (t1 @ t2) \<subseteq> set xs"
    by metis
  define bs where "bs = t1 @ t2"
  have bs: "bs = take n (victims p now xs)"
    using take_two_passes [OF t(2,6)] by (simp add: bs_def victims_def not_le)
  define q where "q = (if length t1 < n then q2 else q1)"
  have q: "dll q (filter (\<lambda>x. x \<notin> set bs) xs)"
  proof (cases "length t1 < n")
    case False
    with t(7) have "length t2 = 0" unfolding length_append by arith
    then have "t2 = []" by simp
    with False t(4) show ?thesis by (simp add: q_def bs_def)
  qed (use t(5) in \<open>simp add: q_def bs_def\<close>)
  let ?p1 = "p\<lparr>free_block_queue := q, blocks := (\<lambda>b. if b \<in> set bs then (blocks p b)\<lparr>protected_until_ns := 0\<rparr> else blocks p b)\<rparr>"
  have free: "\<forall>b\<in>set bs. is_free p b" using t(9) p by (auto simp: bs_def pool_inv_defs)
  have "index_inv ?p1"
    by (rule index_inv_cong [of p]) (use p in \<open>auto simp: pool_inv_def\<close>)
  moreover have "distinct bs" using t(8) by (simp add: bs_def)
  moreover have "\<forall>b\<in>set bs. real_node b \<and> ref_cnt (blocks ?p1 b) = 0"
    using free by (auto simp: is_free_def intro: valid_real)
  ultimately obtain r where r: "fold_comp alloc_one bs ?p1 = ret r" "index_inv r" "same_config ?p1 r"
    "free_block_queue r = q" "next_prefix_cache_expiry_ns r = next_prefix_cache_expiry_ns p"
    "\<forall>c. c \<notin> set bs \<longrightarrow> blocks r c = blocks ?p1 c"
    "\<forall>b\<in>set bs. ref_cnt (blocks r b) = 1 \<and> is_null (blocks r b) = is_null (blocks ?p1 b)
          \<and> (enable_caching ?p1 \<longrightarrow> block_hash (blocks r b) = None) \<and> protected_until_ns (blocks r b) = 0"
    using alloc_all_spec [of ?p1 bs] by auto
  have e: "get_new_blocks n now p = ret (bs, r)"
  proof (cases "length t1 < n")
    case True
    with t(1,3) r(1) n show ?thesis
      by (simp add: get_new_blocks_def get_num_free_blocks_def nf fold_unprotect q_def bs_def [symmetric] cong: if_cong)
  next
    case False
    with t(7) have "length t2 = 0" unfolding length_append by arith
    then have "t2 = []" by simp
    with False t(1) r(1) n show ?thesis
      by (simp add: get_new_blocks_def get_num_free_blocks_def nf fold_unprotect q_def bs_def cong: if_cong)
  qed
  have c: "same_config p r" using r(3) by (simp add: same_config_def)
  have "pool_inv r (filter (\<lambda>b. b \<notin> set bs) xs)"
    by (rule leave_free [OF p r(2) c r(5), of _ "set bs"]) (use r q in auto)
  with e r c show ?thesis by (intro that) (auto simp: bs [symmetric])
qed


subsection \<open>Touching\<close>

lemma upd_block_index_inv:
  "index_inv p \<Longrightarrow> block_hash (f (blocks p b)) = block_hash (blocks p b) \<Longrightarrow>
   block_hash_num_tokens (f (blocks p b)) = block_hash_num_tokens (blocks p b) \<Longrightarrow> index_inv (upd_block b f p)"
  by (rule index_inv_cong [of p]) auto

lemma touch_one_spec:
  assumes p: "pool_inv p xs" and b: "valid_block p b"
  obtains p' where "touch_one b p = ret p'" "pool_inv p' (removeAll b xs)" "same_config p p'"
    "\<forall>c. ref_cnt (blocks p' c) = ref_cnt (blocks p c) + (if c = b then 1 else 0)"
    "\<forall>c. block_hash (blocks p' c) = block_hash (blocks p c)"
proof -
  have d: "dll (free_block_queue p) xs" and sx: "set xs = {b. is_free p b}"
    and nu: "\<forall>b. is_null (blocks p b) \<longleftrightarrow> b = Blk 0"
    using p by (auto simp: pool_inv_defs)
  have dx: "distinct xs" using fq.repr_wf [OF d] by simp
  have i: "index_inv p" using p by (simp add: pool_inv_def)
  have pos: "b \<noteq> Blk 0 \<Longrightarrow> 0 \<le> ref_cnt (blocks p b)" using p by (simp add: pool_inv_defs)
  let ?inc = "\<lambda>k. k\<lparr>ref_cnt := ref_cnt k + 1\<rparr>" and ?idle = "\<lambda>k. k\<lparr>cache_idle_since_ns := None\<rparr>"
  have bx: "b \<in> set xs \<longleftrightarrow> ref_cnt (blocks p b) = 0 \<and> \<not> is_null (blocks p b)"
    using b by (auto simp: sx is_free_def nu)
  show ?thesis
  proof (cases "b \<in> set xs")
    case True
    from fq.repr_remove [OF d True] obtain q where q: "q_remove b (free_block_queue p) = ret q" "dll q (remove1 b xs)"
      by auto
    let ?r = "upd_block b ?inc (upd_block b ?idle (p\<lparr>free_block_queue := q\<rparr>))"
    have "index_inv (p\<lparr>free_block_queue := q\<rparr>)" by (rule index_inv_cong [OF i]) auto
    then have "index_inv ?r" by (simp add: upd_block_index_inv)
    then have "pool_inv (log_metric (OnAccessed b) ?r) (removeAll b xs)"
      by (intro leave_free [OF p, of _ _ "{b}"])
        (use q dx True pos in \<open>auto simp: distinct_remove1_removeAll bx\<close>)
    moreover have "touch_one b p = ret (log_metric (OnAccessed b) ?r)"
      using True q by (simp add: touch_one_def bx)
    ultimately show ?thesis by (intro that) auto
  next
    case False
    let ?r = "log_metric (OnAccessed b) (upd_block b ?inc p)"
    have "index_inv ?r" using i by (simp add: upd_block_index_inv)
    then have "pool_inv ?r (removeAll b xs)"
      by (intro leave_free [OF p, of _ _ "{b}"])
        (use d False pos b in \<open>auto simp: bx nu\<close>)
    moreover have "touch_one b p = ret ?r"
      using False by (auto simp: touch_one_def bx)
    ultimately show ?thesis by (intro that) auto
  qed
qed

lemma touch_spec:
  "pool_inv p xs \<Longrightarrow> \<forall>b\<in>set bs. valid_block p b \<Longrightarrow>
   \<exists>p'. touch bs p = ret p' \<and> pool_inv p' (filter (\<lambda>b. b \<notin> set bs) xs) \<and> same_config p p'
     \<and> (\<forall>c. ref_cnt (blocks p' c) = ref_cnt (blocks p c) + int (count_list bs c))
     \<and> (\<forall>c. block_hash (blocks p' c) = block_hash (blocks p c))"
proof (induction bs arbitrary: p xs)
  case Nil
  then show ?case by (simp add: touch_def)
next
  case (Cons b bs)
  then have "valid_block p b" by simp
  from touch_one_spec [OF Cons.prems(1) this] obtain q where
    q: "touch_one b p = ret q" "pool_inv q (removeAll b xs)" "same_config p q"
    "\<forall>c. ref_cnt (blocks q c) = ref_cnt (blocks p c) + (if c = b then 1 else 0)"
    "\<forall>c. block_hash (blocks q c) = block_hash (blocks p c)" by metis
  have "\<forall>c\<in>set bs. valid_block q c"
    using Cons.prems(2) q(3) by (simp add: valid_block_def same_config_def)
  from Cons.IH [OF q(2) this] obtain r where
    r: "touch bs q = ret r" "pool_inv r (filter (\<lambda>b. b \<notin> set bs) (removeAll b xs))" "same_config q r"
    "\<forall>c. ref_cnt (blocks r c) = ref_cnt (blocks q c) + int (count_list bs c)"
    "\<forall>c. block_hash (blocks r c) = block_hash (blocks q c)" by auto
  have "filter (\<lambda>b. b \<notin> set bs) (removeAll b xs) = filter (\<lambda>c. c \<notin> set (b # bs)) xs"
    by (simp add: removeAll_filter_not_eq) (rule filter_cong, auto)
  with q r same_config_trans [OF q(3) r(3)] show ?case by (auto simp: touch_def)
qed

subsection \<open>Freeing\<close>

definition keeps_hash :: "pool \<Rightarrow> node \<Rightarrow> bool" where
  "keeps_hash p b \<longleftrightarrow> \<not> (block_hash (blocks p b) = None \<and> enable_caching p)"

definition less_refs :: "node list \<Rightarrow> pool \<Rightarrow> pool" where
  "less_refs bs p = p\<lparr>blocks := (\<lambda>b. (blocks p b)\<lparr>ref_cnt := ref_cnt (blocks p b) - int (count_list bs b)\<rparr>)\<rparr>"

lemma less_refs_Cons:
  "less_refs bs (upd_block b (\<lambda>k. k\<lparr>ref_cnt := ref_cnt k - 1\<rparr>) p) = less_refs (b # bs) p"
  by (auto simp: less_refs_def upd_block_def fun_eq_iff)

lemma drop_refs_spec:
  "\<forall>b. b \<noteq> Blk 0 \<longrightarrow> int (count_list bs b) \<le> ref_cnt (blocks p b) \<Longrightarrow> \<forall>b. is_null (blocks p b) \<longleftrightarrow> b = Blk 0 \<Longrightarrow>
   \<exists>rs. drop_refs bs p = (filter (keeps_hash p) rs, filter (\<lambda>b. \<not> keeps_hash p b) rs, less_refs bs p)
     \<and> distinct rs \<and> set rs = {b \<in> set bs. b \<noteq> Blk 0 \<and> ref_cnt (blocks p b) = int (count_list bs b)}
     \<and> (distinct bs \<longrightarrow> rs = filter (\<lambda>b. b \<noteq> Blk 0 \<and> ref_cnt (blocks p b) = 1) bs)"
proof (induction bs arbitrary: p)
  case Nil
  then show ?case by (simp add: less_refs_def)
next
  case (Cons b bs)
  let ?q = "upd_block b (\<lambda>k. k\<lparr>ref_cnt := ref_cnt k - 1\<rparr>) p"
  have "\<forall>c. c \<noteq> Blk 0 \<longrightarrow> int (count_list bs c) \<le> ref_cnt (blocks ?q c)"
    using Cons.prems(1) by (auto split: if_splits)
  moreover have nu: "\<forall>c. is_null (blocks ?q c) \<longleftrightarrow> c = Blk 0" using Cons.prems(2) by simp
  ultimately obtain rs where rs:
    "drop_refs bs ?q = (filter (keeps_hash ?q) rs, filter (\<lambda>b. \<not> keeps_hash ?q b) rs, less_refs bs ?q)"
    "distinct rs" "set rs = {c \<in> set bs. c \<noteq> Blk 0 \<and> ref_cnt (blocks ?q c) = int (count_list bs c)}"
    "distinct bs \<longrightarrow> rs = filter (\<lambda>c. c \<noteq> Blk 0 \<and> ref_cnt (blocks ?q c) = 1) bs"
    using Cons.IH [of ?q] by blast
  have k: "keeps_hash ?q = keeps_hash p" by (auto simp: keeps_hash_def fun_eq_iff)
  let ?here = "ref_cnt (blocks p b) = 1 \<and> b \<noteq> Blk 0"
  define ts where "ts = (if ?here then b # rs else rs)"
  have none: "count_list bs b = 0" if ?here using Cons.prems(1) that by (auto dest: spec [of _ b])
  then have nb: "b \<notin> set bs" if ?here using that by (simp add: count_list_0_iff)
  have "drop_refs (b # bs) p = (filter (keeps_hash p) ts, filter (\<lambda>b. \<not> keeps_hash p b) ts, less_refs (b # bs) p)"
    using rs(1) Cons.prems(2) unfolding k
    by (auto simp: Let_def ts_def keeps_hash_def less_refs_Cons)
  moreover have "distinct ts" using rs(2,3) nb by (auto simp: ts_def)
  moreover have "c \<in> set ts \<longleftrightarrow> c \<in> set (b # bs) \<and> c \<noteq> Blk 0
      \<and> ref_cnt (blocks p c) = int (count_list (b # bs) c)" for c
  proof (cases "c = b")
    case True
    have r: "b \<in> set rs \<longleftrightarrow> b \<in> set bs \<and> b \<noteq> Blk 0 \<and> ref_cnt (blocks p b) = 1 + int (count_list bs b)"
      unfolding rs(3) by auto
    show ?thesis
    proof (cases ?here)
      case here: True
      with none have "count_list bs b = 0" by blast
      with here show ?thesis by (simp add: ts_def True)
    next
      case not_here: False
      then have "b \<in> set ts \<longleftrightarrow> b \<in> set rs" by (auto simp: ts_def)
      moreover have "b \<in> set bs" if "b \<noteq> Blk 0" "ref_cnt (blocks p b) = 1 + int (count_list bs b)"
      proof (rule ccontr)
        assume "b \<notin> set bs"
        then have "count_list bs b = 0" by (simp add: count_list_0_iff)
        with that not_here show False by simp
      qed
      ultimately show ?thesis using r by (auto simp: True)
    qed
  next
    case False
    with rs(3) show ?thesis by (auto simp: ts_def)
  qed
  then have "set ts = {c \<in> set (b # bs). c \<noteq> Blk 0 \<and> ref_cnt (blocks p c) = int (count_list (b # bs) c)}"
    by blast
  moreover have "ts = filter (\<lambda>c. c \<noteq> Blk 0 \<and> ref_cnt (blocks p c) = 1) (b # bs)" if "distinct (b # bs)"
  proof -
    have "rs = filter (\<lambda>c. c \<noteq> Blk 0 \<and> ref_cnt (blocks ?q c) = 1) bs" using rs(4) that by simp
    also have "\<dots> = filter (\<lambda>c. c \<noteq> Blk 0 \<and> ref_cnt (blocks p c) = 1) bs"
      using that by (intro filter_cong) auto
    finally show ?thesis by (auto simp: ts_def)
  qed
  ultimately show ?case by blast
qed

end
