(* ===== verification/KV_Pool_Idle.thy ===== *)
theory KV_Pool_Idle
  imports KV_Pool_Ops
begin

text \<open>
  Freeing blocks and the idle expiry: the order in which freed blocks join the queue, the
  bookkeeping of idle times, and what \<open>expire_cached_blocks\<close> takes out of the cache.
\<close>

subsection \<open>Freeing\<close>

lemma fold_idle:
  "fold (\<lambda>b. upd_block b (\<lambda>k. k\<lparr>cache_idle_since_ns := Some now\<rparr>)) bs p
   = p\<lparr>blocks := (\<lambda>b. (blocks p b)\<lparr>cache_idle_since_ns := if b \<in> set bs then Some now
        else cache_idle_since_ns (blocks p b)\<rparr>)\<rparr>"
  by (induction bs arbitrary: p) (auto simp: upd_block_def fun_eq_iff)

lemma start_idle_simps [simp]:
  "free_block_queue (start_idle bs now p) = free_block_queue p"
  "ref_cnt (blocks (start_idle bs now p) b) = ref_cnt (blocks p b)"
  "is_null (blocks (start_idle bs now p) b) = is_null (blocks p b)"
  "block_hash (blocks (start_idle bs now p) b) = block_hash (blocks p b)"
  "block_hash_num_tokens (blocks (start_idle bs now p) b) = block_hash_num_tokens (blocks p b)"
  "protected_until_ns (blocks (start_idle bs now p) b) = protected_until_ns (blocks p b)"
  "cached_block_hash_to_block (start_idle bs now p) = cached_block_hash_to_block p"
  "cached_block_hashes_by_block (start_idle bs now p) = cached_block_hashes_by_block p"
  "num_gpu_blocks (start_idle bs now p) = num_gpu_blocks p"
  "same_config q (start_idle bs now p) = same_config q p"
  by (auto simp: start_idle_def fold_idle Let_def same_config_def split: option.split)

lemma start_idle_since:
  "prefix_cache_idle_timeout_ns p = Some t \<Longrightarrow> cache_idle_since_ns (blocks (start_idle bs now p) b)
    = (if b \<in> set bs then Some now else cache_idle_since_ns (blocks p b))"
  by (simp add: start_idle_def fold_idle Let_def cong: if_cong)

lemma start_idle_next:
  "prefix_cache_idle_timeout_ns p = Some t \<Longrightarrow> next_prefix_cache_expiry_ns (start_idle bs now p)
    = (if bs = [] then next_prefix_cache_expiry_ns p else earlier (next_prefix_cache_expiry_ns p) (now + t))"
  by (simp add: start_idle_def fold_idle Let_def earlier_def split: option.split)

lemma earlier_le: "\<exists>e. earlier n x = Some e \<and> e \<le> x \<and> (\<forall>y. n = Some y \<longrightarrow> e \<le> y)"
  by (simp add: earlier_def split: option.split)

text \<open>What \<open>free_blocks\<close> is given: the client gives back no more references than it holds.\<close>

definition owns :: "pool \<Rightarrow> node list \<Rightarrow> bool" where
  "owns p bs \<longleftrightarrow> (\<forall>b\<in>set bs. valid_block p b)
     \<and> (\<forall>b. b \<noteq> Blk 0 \<longrightarrow> int (count_list bs b) \<le> ref_cnt (blocks p b))"

lemma free_blocks_spec:
  assumes p: "pool_inv p xs" and o: "owns p bs"
  obtains rs p' where "free_blocks bs now p = ret p'"
    "pool_inv p' (filter (\<lambda>b. \<not> keeps_hash p b) rs @ xs @ filter (keeps_hash p) rs)" "distinct rs"
    "set rs = {b \<in> set bs. b \<noteq> Blk 0 \<and> ref_cnt (blocks p b) = int (count_list bs b)}"
    "distinct bs \<Longrightarrow> rs = filter (\<lambda>b. b \<noteq> Blk 0 \<and> ref_cnt (blocks p b) = 1) bs"
    "\<forall>b. ref_cnt (blocks p' b) = ref_cnt (blocks p b) - int (count_list bs b)"
    "\<forall>b. block_hash (blocks p' b) = block_hash (blocks p b)" "same_config p p'"
proof -
  have d: "dll (free_block_queue p) xs" and sx: "set xs = {b. is_free p b}"
    and nu: "\<forall>b. is_null (blocks p b) \<longleftrightarrow> b = Blk 0" and i: "index_inv p" and idle: "idle_inv p"
    using p by (auto simp: pool_inv_defs)
  from drop_refs_spec [OF _ nu, of bs] o obtain rs where rs:
    "drop_refs bs p = (filter (keeps_hash p) rs, filter (\<lambda>b. \<not> keeps_hash p b) rs, less_refs bs p)"
    "distinct rs" "set rs = {b \<in> set bs. b \<noteq> Blk 0 \<and> ref_cnt (blocks p b) = int (count_list bs b)}"
    "distinct bs \<longrightarrow> rs = filter (\<lambda>b. b \<noteq> Blk 0 \<and> ref_cnt (blocks p b) = 1) bs"
    unfolding owns_def by blast
  define with_hash where "with_hash = filter (keeps_hash p) rs"
  define without where "without = filter (\<lambda>b. \<not> keeps_hash p b) rs"
  define p2 where "p2 = start_idle with_hash now (less_refs bs p)"
  have val: "valid_block p b" if "b \<in> set rs" for b using that rs(3) o by (auto simp: owns_def)
  have used: "b \<notin> set xs" if "b \<in> set rs" for b
  proof -
    from that rs(3) have "0 < count_list bs b" "ref_cnt (blocks p b) = int (count_list bs b)"
      by (auto dest: count_list_pos)
    then show ?thesis by (simp add: sx is_free_def)
  qed
  have "dll (free_block_queue p2) xs" using d by (simp add: p2_def less_refs_def)
  moreover have "distinct without" "\<forall>b\<in>set without. real_node b \<and> b \<notin> set xs"
    using rs(2) used by (auto simp: without_def intro: valid_real [OF val])
  ultimately obtain q1 where q1: "q_prepend_n without (free_block_queue p2) = ret q1" "dll q1 (without @ xs)"
    using fq.repr_prepend_n by blast
  have "distinct with_hash" "\<forall>b\<in>set with_hash. real_node b \<and> b \<notin> set (without @ xs)"
    using rs(2) used by (auto simp: without_def with_hash_def intro: valid_real [OF val])
  with fq.repr_append_n [OF q1(2)] obtain q2 where
    q2: "q_append_n with_hash q1 = ret q2" "dll q2 (without @ xs @ with_hash)" by auto
  define p' where "p' = p2\<lparr>free_block_queue := q2\<rparr>"
  have e: "free_blocks bs now p = ret p'"
    using rs(1) q1(1) q2(1) by (simp add: free_blocks_def with_hash_def without_def p'_def p2_def Let_def)
  have ref: "ref_cnt (blocks p' b) = ref_cnt (blocks p b) - int (count_list bs b)" for b
    by (simp add: p'_def p2_def less_refs_def)
  have h: "block_hash (blocks p' b) = block_hash (blocks p b)" for b by (simp add: p'_def p2_def less_refs_def)
  have c: "same_config p p'" by (simp add: p'_def p2_def less_refs_def)
  have nu': "\<forall>b. is_null (blocks p' b) \<longleftrightarrow> b = Blk 0" using nu by (simp add: p'_def p2_def less_refs_def)
  have val': "valid_block p' b = valid_block p b" for b by (simp add: valid_block_def p'_def p2_def less_refs_def)
  have freed: "is_free p' b \<longleftrightarrow> b \<in> set rs \<or> is_free p b" for b
  proof (cases "b \<in> set bs")
    case True
    then have cnt: "0 < count_list bs b" by (rule count_list_pos)
    have "b \<noteq> Blk 0 \<longrightarrow> int (count_list bs b) \<le> ref_cnt (blocks p b)" using o by (simp add: owns_def)
    with cnt have "b \<noteq> Blk 0 \<longrightarrow> ref_cnt (blocks p b) \<noteq> 0" by auto
    moreover have "valid_block p b" using True o by (simp add: owns_def)
    moreover have "b \<in> set rs \<longleftrightarrow> b \<noteq> Blk 0 \<and> ref_cnt (blocks p b) = int (count_list bs b)"
      using True unfolding rs(3) by simp
    ultimately show ?thesis unfolding is_free_def val' ref by auto
  next
    case False
    then have "count_list bs b = 0" by (simp add: count_list_0_iff)
    moreover have "b \<notin> set rs" using False unfolding rs(3) by simp
    ultimately show ?thesis unfolding is_free_def val' ref by simp
  qed
  have "free_inv p' (without @ xs @ with_hash)"
    unfolding free_inv_def
  proof (intro conjI)
    show "set (without @ xs @ with_hash) = {b. is_free p' b}"
      by (auto simp: freed sx without_def with_hash_def)
    show "\<forall>b. b \<noteq> Blk 0 \<longrightarrow> 0 \<le> ref_cnt (blocks p' b)" unfolding ref using o by (simp add: owns_def)
  qed (use q2 nu' p in \<open>auto simp: pool_inv_defs p'_def p2_def less_refs_def start_idle_def fold_idle Let_def split: option.splits\<close>)
  moreover have "index_inv p'"
    by (rule index_inv_cong [OF i]) (simp_all add: p'_def p2_def less_refs_def)
  moreover have "idle_inv p'"
  proof (cases "prefix_cache_idle_timeout_ns p")
    case None
    with c show ?thesis by (simp add: idle_inv_def same_config_def)
  next
    case (Some t)
    then have t: "prefix_cache_idle_timeout_ns (less_refs bs p) = Some t" by (simp add: less_refs_def)
    have since: "cache_idle_since_ns (blocks p' b)
        = (if b \<in> set with_hash then Some now else cache_idle_since_ns (blocks p b))" for b
      by (simp add: p'_def p2_def start_idle_since [OF t]) (simp add: less_refs_def)
    have nextt: "next_prefix_cache_expiry_ns p' = (if with_hash = [] then next_prefix_cache_expiry_ns p
        else earlier (next_prefix_cache_expiry_ns p) (now + t))"
      by (simp add: p'_def p2_def start_idle_next [OF t]) (simp add: less_refs_def)
    have prot: "protected_until_ns (blocks p' b) = protected_until_ns (blocks p b)" for b
      by (simp add: p'_def p2_def less_refs_def)
    have "\<exists>d e. deadline t (blocks p' b) = Some d \<and> next_prefix_cache_expiry_ns p' = Some e \<and> e \<le> d"
      if b: "is_free p' b" "block_hash (blocks p' b) \<noteq> None" for b
    proof (cases "b \<in> set rs")
      case True
      with b(2) [unfolded h] have "b \<in> set with_hash" by (simp add: with_hash_def keeps_hash_def)
      moreover from this have "with_hash \<noteq> []" by auto
      ultimately show ?thesis
        using earlier_le [of "next_prefix_cache_expiry_ns p" "now + t"]
        by (auto simp: deadline_def since nextt prot)
    next
      case False
      with b [unfolded freed h] have "is_free p b" "block_hash (blocks p b) \<noteq> None" by auto
      with idle Some obtain d e where
        "deadline t (blocks p b) = Some d" "next_prefix_cache_expiry_ns p = Some e" "e \<le> d"
        by (auto simp: idle_inv_def)
      moreover from False have "b \<notin> set with_hash" by (simp add: with_hash_def)
      ultimately show ?thesis
        using earlier_le [of "next_prefix_cache_expiry_ns p" "now + t"]
        by (fastforce simp: deadline_def since nextt prot)
    qed
    moreover have "0 < t" using idle Some by (simp add: idle_inv_def)
    ultimately show ?thesis using c Some by (simp add: idle_inv_def same_config_def)
  qed
  ultimately have "pool_inv p' (without @ xs @ with_hash)" by (simp add: pool_inv_def)
  with e rs(2-4) ref h c show ?thesis
    by (intro that [of p' rs]) (auto simp: with_hash_def without_def)
qed

subsection \<open>Expiry\<close>

definition past_deadline :: "int \<Rightarrow> int \<Rightarrow> kv_block \<Rightarrow> bool" where
  "past_deadline t now_ns k \<longleftrightarrow> block_hash k \<noteq> None
     \<and> (case deadline t k of None \<Rightarrow> False | Some d \<Rightarrow> d \<le> now_ns)"

definition due :: "pool \<Rightarrow> int \<Rightarrow> node \<Rightarrow> bool" where
  "due p now_ns b \<longleftrightarrow> (case prefix_cache_idle_timeout_ns p of None \<Rightarrow> False
     | Some t \<Rightarrow> past_deadline t now_ns (blocks p b))"

lemma expiry_scan_spec:
  "\<forall>b\<in>set bs. block_hash (blocks p b) \<noteq> None \<longrightarrow> cache_idle_since_ns (blocks p b) \<noteq> None \<Longrightarrow>
   \<exists>n'. expiry_scan p t now bs acc n = ret (acc @ filter (\<lambda>b. past_deadline t now (blocks p b)) bs, n')
     \<and> (\<forall>b\<in>set bs. block_hash (blocks p b) \<noteq> None \<and> \<not> past_deadline t now (blocks p b) \<longrightarrow>
          (\<exists>d e. deadline t (blocks p b) = Some d \<and> n' = Some e \<and> e \<le> d))
     \<and> (\<forall>x. n = Some x \<longrightarrow> (\<exists>e. n' = Some e \<and> e \<le> x))"
proof (induction bs arbitrary: acc n)
  case (Cons b bs)
  let ?k = "blocks p b"
  have IH: "\<exists>n'. expiry_scan p t now bs acc n = ret (acc @ filter (\<lambda>b. past_deadline t now (blocks p b)) bs, n')
     \<and> (\<forall>b\<in>set bs. block_hash (blocks p b) \<noteq> None \<and> \<not> past_deadline t now (blocks p b) \<longrightarrow>
          (\<exists>d e. deadline t (blocks p b) = Some d \<and> n' = Some e \<and> e \<le> d))
     \<and> (\<forall>x. n = Some x \<longrightarrow> (\<exists>e. n' = Some e \<and> e \<le> x))" for acc n
    using Cons.IH [of acc n] Cons.prems by auto
  have late: ?case if step: "expiry_scan p t now (b # bs) acc n = expiry_scan p t now bs acc (earlier n x)"
    and d: "deadline t ?k = Some d" "x \<le> d" "\<not> past_deadline t now ?k" for x d
  proof -
    from IH [of acc "earlier n x"] obtain n' where
      n': "expiry_scan p t now bs acc (earlier n x) = ret (acc @ filter (\<lambda>b. past_deadline t now (blocks p b)) bs, n')"
      "\<forall>b\<in>set bs. block_hash (blocks p b) \<noteq> None \<and> \<not> past_deadline t now (blocks p b) \<longrightarrow>
          (\<exists>d e. deadline t (blocks p b) = Some d \<and> n' = Some e \<and> e \<le> d)"
      "\<forall>y. earlier n x = Some y \<longrightarrow> (\<exists>e. n' = Some e \<and> e \<le> y)" by (elim exE conjE) (rule that)
    from earlier_le [of n x] n'(3) obtain e where "n' = Some e" "e \<le> x" "\<forall>y. n = Some y \<longrightarrow> e \<le> y"
      by (fastforce intro: order_trans)
    with n'(1,2) d show ?thesis unfolding step by (intro exI [of _ n']) auto
  qed
  consider (bare) "block_hash ?k = None" | (idle) s where "block_hash ?k \<noteq> None" "cache_idle_since_ns ?k = Some s"
    using Cons.prems by auto
  then show ?case
  proof cases
    case bare
    with IH [of acc n] show ?thesis by (auto simp: past_deadline_def Let_def)
  next
    case idle
    then have d: "deadline t ?k = Some (max (s + t) (protected_until_ns ?k))" by (simp add: deadline_def)
    consider "protected_until_ns ?k > now" | "protected_until_ns ?k \<le> now" "s + t \<le> now"
      | "protected_until_ns ?k \<le> now" "s + t > now" by linarith
    then show ?thesis
    proof cases
      case 1
      then show ?thesis
        by (intro late [OF _ d, of "protected_until_ns ?k"]) (use idle d in \<open>auto simp: past_deadline_def Let_def\<close>)
    next
      case 2
      with idle d have "past_deadline t now ?k" by (simp add: past_deadline_def)
      with 2 idle IH [of "acc @ [b]" n] show ?thesis by (auto simp: Let_def)
    next
      case 3
      then show ?thesis
        by (intro late [OF _ d, of "s + t"]) (use idle d in \<open>auto simp: past_deadline_def Let_def\<close>)
    qed
  qed
qed simp

lemma expire_one_spec:
  assumes i: "index_inv p" and d: "dll (free_block_queue p) ys" and b: "b \<in> set ys"
  obtains p' where "expire_one b (rm, p) = ret (rm @ own_hashes p b, p')"
    "index_inv p'" "dll (free_block_queue p') (remove1 b ys)" "same_config p p'"
    "next_prefix_cache_expiry_ns p' = next_prefix_cache_expiry_ns p"
    "\<forall>c. ref_cnt (blocks p' c) = ref_cnt (blocks p c) \<and> is_null (blocks p' c) = is_null (blocks p c)"
    "\<forall>c. c \<noteq> b \<longrightarrow> blocks p' c = blocks p c" "block_hash (blocks p' b) = None"
    "\<forall>c. c \<noteq> b \<longrightarrow> real_node c \<longrightarrow> own_hashes p' c = own_hashes p c"
proof -
  from fq.repr_remove [OF d b] obtain q where q: "q_remove b (free_block_queue p) = ret q" "dll q (remove1 b ys)"
    by auto
  have r: "real_node b" using fq.repr_wf [OF d] b by simp
  let ?p = "log_metric (OnEvicted b) (p\<lparr>free_block_queue := q\<rparr>)"
  have "index_inv ?p" by (rule index_inv_cong [OF i]) auto
  then obtain p' where p': "remove_cached_block_hashes b ?p = (own_hashes ?p b, p')" "index_inv p'"
    "quiet ?p p' {}" "own_hashes p' b = []" "\<And>c. c \<noteq> b \<Longrightarrow> real_node c \<Longrightarrow> own_hashes p' c = own_hashes ?p c"
    "\<And>c. c \<noteq> b \<Longrightarrow> blocks p' c = blocks ?p c"
    using remove_cached_spec [OF _ r] by metis
  have o: "own_hashes ?p c = own_hashes p c" for c by (simp add: own_hashes_def)
  have "same_config ?p p'" using p'(3) by (simp only: quiet_def)
  then have c: "same_config p p'" by (rule same_config_trans [rotated]) simp
  have e: "expire_one b (rm, p) = ret (rm @ own_hashes p b, p')"
    using q(1) p'(1) unfolding o by (simp add: expire_one_def)
  have "block_hash (blocks p' b) = None" using own_hashes_None [OF p'(2) r] p'(4) by simp
  then show ?thesis
    by (intro that [OF e]) (use q p' c o in \<open>auto simp: quiet_def\<close>)
qed

lemma expire_all_spec:
  "index_inv p \<Longrightarrow> dll (free_block_queue p) ys \<Longrightarrow> distinct bs \<Longrightarrow> set bs \<subseteq> set ys \<Longrightarrow>
   \<exists>p'. fold_comp expire_one bs (rm, p) = ret (rm @ concat (map (own_hashes p) bs), p')
     \<and> index_inv p' \<and> dll (free_block_queue p') (filter (\<lambda>b. b \<notin> set bs) ys) \<and> same_config p p'
     \<and> next_prefix_cache_expiry_ns p' = next_prefix_cache_expiry_ns p
     \<and> (\<forall>c. ref_cnt (blocks p' c) = ref_cnt (blocks p c) \<and> is_null (blocks p' c) = is_null (blocks p c))
     \<and> (\<forall>c. c \<notin> set bs \<longrightarrow> blocks p' c = blocks p c) \<and> (\<forall>b\<in>set bs. block_hash (blocks p' b) = None)"
proof (induction bs arbitrary: p ys rm)
  case (Cons b bs)
  have wf: "distinct ys" "\<forall>c\<in>set ys. real_node c" using fq.repr_wf [OF Cons.prems(2)] by auto
  from Cons.prems have b: "b \<in> set ys" by simp
  from expire_one_spec [OF Cons.prems(1,2) b, of rm] obtain q where
    q: "expire_one b (rm, p) = ret (rm @ own_hashes p b, q)"
    "index_inv q" "dll (free_block_queue q) (remove1 b ys)" "same_config p q"
    "next_prefix_cache_expiry_ns q = next_prefix_cache_expiry_ns p"
    "\<forall>c. ref_cnt (blocks q c) = ref_cnt (blocks p c) \<and> is_null (blocks q c) = is_null (blocks p c)"
    "\<forall>c. c \<noteq> b \<longrightarrow> blocks q c = blocks p c" "block_hash (blocks q b) = None"
    "\<forall>c. c \<noteq> b \<longrightarrow> real_node c \<longrightarrow> own_hashes q c = own_hashes p c" by metis
  have "set bs \<subseteq> set (remove1 b ys)" using Cons.prems wf by auto
  with Cons.IH [OF q(2,3)] Cons.prems(3) obtain r where
    r: "fold_comp expire_one bs (rm @ own_hashes p b, q)
        = ret ((rm @ own_hashes p b) @ concat (map (own_hashes q) bs), r)"
    "index_inv r" "dll (free_block_queue r) (filter (\<lambda>b. b \<notin> set bs) (remove1 b ys))" "same_config q r"
    "next_prefix_cache_expiry_ns r = next_prefix_cache_expiry_ns q"
    "\<forall>c. ref_cnt (blocks r c) = ref_cnt (blocks q c) \<and> is_null (blocks r c) = is_null (blocks q c)"
    "\<forall>c. c \<notin> set bs \<longrightarrow> blocks r c = blocks q c" "\<forall>b\<in>set bs. block_hash (blocks r b) = None"
    by (metis distinct.simps(2))
  have "concat (map (own_hashes q) bs) = concat (map (own_hashes p) bs)"
    using Cons.prems(3,4) wf(2) q(9) by (intro arg_cong [of _ _ concat] map_cong) auto
  moreover have "filter (\<lambda>b. b \<notin> set bs) (remove1 b ys) = filter (\<lambda>c. c \<notin> set (b # bs)) ys"
    using wf(1) by (simp add: distinct_remove1_removeAll removeAll_filter_not_eq) (rule filter_cong, auto)
  moreover have "block_hash (blocks r b) = None" using Cons.prems(3) r(7) q(8) by simp
  ultimately show ?case
    using q r same_config_trans [OF q(4) r(4)] by (intro exI [of _ r]) (simp del: map_eq_conv)
qed simp

lemma no_due:
  assumes p: "pool_inv p xs"
    and n: "case next_prefix_cache_expiry_ns p of None \<Rightarrow> True | Some e \<Rightarrow> now < e"
  shows "filter (due p now) xs = []"
proof -
  have "\<not> due p now b" if b: "b \<in> set xs" for b
  proof
    assume du: "due p now b"
    then obtain t where t: "prefix_cache_idle_timeout_ns p = Some t" by (auto simp: due_def split: option.splits)
    with du have pd: "past_deadline t now (blocks p b)" by (simp add: due_def)
    from b p have "is_free p b" by (simp add: pool_inv_defs)
    with p t pd obtain d e where
      "deadline t (blocks p b) = Some d" "next_prefix_cache_expiry_ns p = Some e" "e \<le> d"
      by (auto simp: pool_inv_def idle_inv_def past_deadline_def)
    with n pd show False by (simp add: past_deadline_def)
  qed
  then show ?thesis by simp
qed

lemma expire_cached_blocks_spec:
  fixes now :: int
  assumes p: "pool_inv p xs"
  defines "ex \<equiv> filter (due p now) xs"
  obtains p' where "expire_cached_blocks now p = ret (length ex, p')"
    "pool_inv p' (ex @ filter (\<lambda>b. \<not> due p now b) xs)"
    "\<forall>b\<in>set ex. block_hash (blocks p' b) = None" "\<forall>b. b \<notin> set ex \<longrightarrow> blocks p' b = blocks p b"
    "\<forall>b. ref_cnt (blocks p' b) = ref_cnt (blocks p b)" "same_config p p'"
proof (cases "case (prefix_cache_idle_timeout_ns p, next_prefix_cache_expiry_ns p) of
      (Some t, Some e) \<Rightarrow> now < e | _ \<Rightarrow> True")
  case True
  have d0: "prefix_cache_idle_timeout_ns p = None \<Longrightarrow> filter (due p now) xs = []" by (simp add: due_def)
  have ex: "ex = []"
  proof (cases "prefix_cache_idle_timeout_ns p")
    case (Some t)
    with True show ?thesis unfolding ex_def by (intro no_due [OF p]) (auto split: option.splits)
  qed (simp add: ex_def d0)
  then have "filter (\<lambda>b. \<not> due p now b) xs = xs" by (simp add: ex_def filter_empty_conv filter_id_conv)
  moreover have "expire_cached_blocks now p = ret (0, p)"
    using True by (auto simp: expire_cached_blocks_def split: option.splits)
  ultimately show ?thesis using p by (intro that [of p]) (auto simp: ex)
next
  case False
  then obtain t e where t: "prefix_cache_idle_timeout_ns p = Some t" "next_prefix_cache_expiry_ns p = Some e" "e \<le> now"
    by (auto split: option.splits)
  have d: "dll (free_block_queue p) xs" and sx: "set xs = {b. is_free p b}" and i: "index_inv p" and idle: "idle_inv p"
    using p by (auto simp: pool_inv_defs)
  have wf: "distinct xs" "\<forall>b\<in>set xs. real_node b" using fq.repr_wf [OF d] by auto
  have since: "\<forall>b\<in>set xs. block_hash (blocks p b) \<noteq> None \<longrightarrow> cache_idle_since_ns (blocks p b) \<noteq> None"
    using idle t by (auto simp: idle_inv_def sx deadline_def)
  have ex': "ex = filter (\<lambda>b. past_deadline t now (blocks p b)) xs" unfolding ex_def by (rule filter_cong) (simp_all add: due_def t)
  from expiry_scan_spec [OF since, of t now "[]" None] obtain n' where
    n': "expiry_scan p t now xs [] None = ret (ex, n')"
      "\<forall>b\<in>set xs. block_hash (blocks p b) \<noteq> None \<and> \<not> past_deadline t now (blocks p b) \<longrightarrow>
          (\<exists>d e. deadline t (blocks p b) = Some d \<and> n' = Some e \<and> e \<le> d)"
    by (auto simp: ex')
  have "distinct ex" "set ex \<subseteq> set xs" using wf by (auto simp: ex_def)
  from expire_all_spec [OF i d this, of "[]"] obtain q where
    q: "fold_comp expire_one ex ([], p) = ret (concat (map (own_hashes p) ex), q)"
     "index_inv q" "dll (free_block_queue q) (filter (\<lambda>b. b \<notin> set ex) xs)" "same_config p q"
     "next_prefix_cache_expiry_ns q = next_prefix_cache_expiry_ns p"
     "\<forall>c. ref_cnt (blocks q c) = ref_cnt (blocks p c) \<and> is_null (blocks q c) = is_null (blocks p c)"
     "\<forall>c. c \<notin> set ex \<longrightarrow> blocks q c = blocks p c" "\<forall>b\<in>set ex. block_hash (blocks q b) = None"
    by auto
  have rest: "filter (\<lambda>b. b \<notin> set ex) xs = filter (\<lambda>b. \<not> due p now b) xs"
    unfolding ex_def by (rule filter_cong) auto
  have "\<forall>b\<in>set ex. real_node b \<and> b \<notin> set (filter (\<lambda>b. b \<notin> set ex) xs)" using wf by (auto simp: ex_def)
  with fq.repr_prepend_n [OF q(3) \<open>distinct ex\<close>] obtain h where
    h: "q_prepend_n ex (free_block_queue q) = ret h" "dll h (ex @ filter (\<lambda>b. \<not> due p now b) xs)"
    by (auto simp: rest)
  define p' where "p' = (emit_block_removed_events (concat (map (own_hashes p) ex)) (q\<lparr>free_block_queue := h\<rparr>))
      \<lparr>next_prefix_cache_expiry_ns := n'\<rparr>"
  have e: "expire_cached_blocks now p = ret (length ex, p')"
    using t n'(1) q(1) h(1) by (simp add: expire_cached_blocks_def fq.repr_items [OF d] p'_def)
  have c: "same_config p p'" using q(4) by (simp add: p'_def)
  have v: "is_free p' b = is_free p b" for b
    using c q(6) by (simp add: is_free_def valid_block_def same_config_def p'_def)
  have b': "blocks p' = blocks q" by (simp add: p'_def)
  have "set (ex @ filter (\<lambda>b. \<not> due p now b) xs) = {b. is_free p' b}" using sx by (auto simp: v ex_def)
  moreover have "free_block_queue p' = h" by (simp add: p'_def)
  ultimately have "free_inv p' (ex @ filter (\<lambda>b. \<not> due p now b) xs)"
    using p h(2) q(6) c by (simp add: pool_inv_defs b' same_config_def)
  moreover have "index_inv p'"
    by (rule index_inv_cong [OF q(2)]) (simp_all add: p'_def)
  moreover have "idle_inv p'"
  proof -
    have "\<exists>d e. deadline t (blocks p' b) = Some d \<and> next_prefix_cache_expiry_ns p' = Some e \<and> e \<le> d"
      if b: "is_free p' b" "block_hash (blocks p' b) \<noteq> None" for b
    proof -
      from b(2) q(8) have ne: "b \<notin> set ex" by (auto simp: b')
      with q(7) have bb: "blocks p' b = blocks p b" by (simp add: b')
      from b(1) have "b \<in> set xs" by (simp add: v sx)
      moreover from this ne have "\<not> past_deadline t now (blocks p b)" by (simp add: ex')
      moreover have "next_prefix_cache_expiry_ns p' = n'" by (simp add: p'_def)
      ultimately show ?thesis using n'(2) b(2) by (auto simp: bb)
    qed
    moreover have "0 < t" using idle t by (simp add: idle_inv_def)
    ultimately show ?thesis using c t by (simp add: idle_inv_def same_config_def)
  qed
  ultimately have "pool_inv p' (ex @ filter (\<lambda>b. \<not> due p now b) xs)" by (simp add: pool_inv_def)
  then show ?thesis using q(6-8) c by (intro that [OF e]) (auto simp: b')
qed

end
