(* ===== verification/KV_Pool_Cache.thy ===== *)
theory KV_Pool_Cache
  imports KV_Pool_Idle
begin

text \<open>
  The operations on the prefix cache: eviction, reset, moving and recording hashes, session
  protection; each keeps \<open>pool_inv\<close>.
\<close>

subsection \<open>Eviction and reset\<close>

lemma evict_blocks_spec:
  "pool_inv p xs \<Longrightarrow> \<forall>i\<in>set is. 0 \<le> i \<and> i < int (num_gpu_blocks p) \<Longrightarrow>
   \<exists>p'. evict_blocks is p = ret p' \<and> pool_inv p' xs \<and> quiet p p' {}
     \<and> (\<forall>i\<in>set is. block_hash (blocks p' (Blk (nat i))) = None)
     \<and> (\<forall>b. (\<forall>i\<in>set is. b \<noteq> Blk (nat i)) \<longrightarrow> blocks p' b = blocks p b)"
proof (induction "is" arbitrary: p)
  case Nil
  then show ?case by (simp add: evict_blocks_def)
next
  case (Cons i "is")
  let ?b = "Blk (nat i)"
  have i: "index_inv p" "real_node ?b" using Cons.prems(1) by (simp_all add: pool_inv_def real_node_def)
  from maybe_evict_spec [OF this] obtain q where
    q: "maybe_evict_cached_block ?b p = (block_hash (blocks p ?b) \<noteq> None, q)" "index_inv q" "quiet p q {}"
    "own_hashes q ?b = []" "\<And>c. c \<noteq> ?b \<Longrightarrow> blocks q c = blocks p c" by metis
  from q(3) Cons.prems(1) q(2) have inv: "pool_inv q xs" by (rule quiet_pool_inv) simp
  have N: "num_gpu_blocks q = num_gpu_blocks p" using q(3) by (simp add: quiet_def same_config_def)
  have e: "evict_one i p = ret q" using Cons.prems(2) q(1) by (simp add: evict_one_def nth_block_def Let_def)
  from Cons.IH [OF inv] Cons.prems(2) N obtain r where
    r: "evict_blocks is q = ret r" "pool_inv r xs" "quiet q r {}"
    "\<forall>i\<in>set is. block_hash (blocks r (Blk (nat i))) = None"
    "\<forall>b. (\<forall>i\<in>set is. b \<noteq> Blk (nat i)) \<longrightarrow> blocks r b = blocks q b" by auto
  have "block_hash (blocks q ?b) = None" using own_hashes_None [OF q(2) i(2)] q(4) by simp
  then have "block_hash (blocks r ?b) = None" using r(3) by (auto simp: quiet_def)
  then show ?case
    using e q(5) r quiet_trans [OF q(3) r(3)] by (intro exI [of _ r]) (simp add: evict_blocks_def)
qed

lemma evict_blocks_bad_id:
  "pool_inv p xs \<Longrightarrow> \<forall>j\<in>set is. 0 \<le> j \<and> j < int (num_gpu_blocks p) \<Longrightarrow> int (num_gpu_blocks p) \<le> i
   \<Longrightarrow> evict_blocks (is @ i # js) p = raise AssertionError"
proof (induction "is" arbitrary: p)
  case Nil
  then show ?case by (simp add: evict_blocks_def evict_one_def)
next
  case (Cons j "is")
  from evict_blocks_spec [of p xs "[j]"] Cons.prems obtain q where
    q: "evict_one j p = ret q" "pool_inv q xs" "quiet p q {}" by (auto simp: evict_blocks_def)
  with Cons.IH [OF q(2)] Cons.prems show ?case
    by (simp add: evict_blocks_def quiet_def same_config_def)
qed

lemma fold_reset:
  "fold (\<lambda>i. upd_block (Blk i) reset_hash) is p
   = p\<lparr>blocks := (\<lambda>b. if b \<in> Blk ` set is then reset_hash (blocks p b) else blocks p b)\<rparr>"
  by (induction "is" arbitrary: p) (auto simp: upd_block_def reset_hash_def fun_eq_iff)

lemma all_free_iff:
  assumes p: "pool_inv p xs"
  shows "int (num_gpu_blocks p) - get_num_free_blocks p = 1 \<longleftrightarrow> (\<forall>b. valid_block p b \<and> b \<noteq> Blk 0 \<longrightarrow> ref_cnt (blocks p b) = 0)"
proof -
  have d: "dll (free_block_queue p) xs" and sx: "set xs = {b. is_free p b}" and N: "0 < num_gpu_blocks p"
    using p by (auto simp: pool_inv_defs)
  let ?V = "{b. valid_block p b \<and> b \<noteq> Blk 0}"
  have V: "?V = Blk ` {1..<num_gpu_blocks p}" by (auto simp: valid_block_def)
  then have cV: "card ?V = num_gpu_blocks p - 1" and fV: "finite ?V"
    by (simp_all add: card_image inj_on_def)
  have sub: "set xs \<subseteq> ?V" by (auto simp: sx is_free_def)
  have "distinct xs" using fq.repr_wf [OF d] by simp
  then have "length xs = card (set xs)" by (simp add: distinct_card)
  moreover have "get_num_free_blocks p = int (length xs)"
    using fq.repr_size [OF d] by (simp add: get_num_free_blocks_def)
  ultimately have "int (num_gpu_blocks p) - get_num_free_blocks p = 1 \<longleftrightarrow> card (set xs) = card ?V"
    using N by (auto simp: cV)
  also have "\<dots> \<longleftrightarrow> set xs = ?V"
    by (rule iffI) (rule card_subset_eq [OF fV sub], assumption, simp only:)
  also have "\<dots> \<longleftrightarrow> (\<forall>b. valid_block p b \<and> b \<noteq> Blk 0 \<longrightarrow> ref_cnt (blocks p b) = 0)"
    by (auto simp: sx is_free_def)
  finally show ?thesis .
qed

lemma reset_prefix_cache_spec:
  assumes p: "pool_inv p xs"
  obtains p' where "reset_prefix_cache p = ((\<forall>b. valid_block p b \<and> b \<noteq> Blk 0 \<longrightarrow> ref_cnt (blocks p b) = 0), p')"
    "pool_inv p' xs" "same_config p p'" "fst (reset_prefix_cache p) \<Longrightarrow> \<forall>k. members (cached_block_hash_to_block p') k = {}"
    "\<not> fst (reset_prefix_cache p) \<Longrightarrow> p' = p"
proof (cases "int (num_gpu_blocks p) - get_num_free_blocks p = 1")
  case False
  with all_free_iff [OF p] p show ?thesis by (intro that [of p]) (auto simp: reset_prefix_cache_def)
next
  case True
  define p' where "p' = snd (reset_prefix_cache p)"
  have r: "reset_prefix_cache p = (True, p')" using True by (simp add: p'_def reset_prefix_cache_def Let_def)
  define R where "R = (\<lambda>b. if b \<in> Blk ` {0..<num_gpu_blocks p} then reset_hash (blocks p b) else blocks p b)"
  have B: "blocks p' = R" "cached_block_hash_to_block p' = Map.empty" "cached_block_hashes_by_block p' = Map.empty"
    "free_block_queue p' = free_block_queue p" "same_config p p'" "next_prefix_cache_expiry_ns p' = None"
    using True by (simp_all add: p'_def reset_prefix_cache_def Let_def fold_reset R_def log_metric_def same_config_def cong: if_cong)
  have i: "index_inv p" using p by (simp add: pool_inv_def)
  have h: "block_hash (R b) = None \<and> block_hash_num_tokens (R b) = None" if "real_node b" for b
  proof (cases "b \<in> Blk ` {0..<num_gpu_blocks p}")
    case F: False
    then have "\<not> valid_block p b" by (auto simp: valid_block_def)
    with i that F show ?thesis by (auto simp: index_inv_def R_def)
  qed (simp add: R_def reset_hash_def)
  have same: "ref_cnt (R b) = ref_cnt (blocks p b)" "is_null (R b) = is_null (blocks p b)" for b
    by (simp_all add: R_def reset_hash_def)
  have f: "is_free p' b = is_free p b" for b
    using B(5) by (simp add: is_free_def valid_block_def B(1) same same_config_def)
  have "free_inv p' xs"
    using p B(4,5) unfolding pool_inv_defs f B(1) same by (simp add: same_config_def)
  moreover have o: "own_hashes p' b = []" if "real_node b" for b
    using h [OF that] by (simp add: own_hashes_def B)
  then have "index_inv p'"
    unfolding index_inv_def B(1,2,3) using h by (auto simp: hmap_ok_def members_def)
  moreover have "idle_inv p'"
  proof -
    have "block_hash (blocks p' b) = None" if "is_free p' b" for b
      using that h [of b] by (auto simp: B(1) f is_free_def dest: valid_real)
    moreover have "idle_inv p" using p by (simp add: pool_inv_def)
    ultimately show ?thesis using B(5) by (auto simp: idle_inv_def same_config_def split: option.splits)
  qed
  ultimately have "pool_inv p' xs" by (simp add: pool_inv_def)
  with r B all_free_iff [OF p] True show ?thesis by (intro that [of p']) (auto simp: members_def)
qed

subsection \<open>Moving hashes\<close>

lemma insert_all_spec:
  "index_inv p \<Longrightarrow> valid_block p b \<Longrightarrow>
   \<exists>p'. fold_comp (\<lambda>h. insert_block_hash h b n) hs p = ret p' \<and> index_inv p' \<and> quiet p p' {b}
     \<and> set (own_hashes p' b) = set (own_hashes p b) \<union> set hs
     \<and> (\<forall>c. c \<noteq> b \<longrightarrow> real_node c \<longrightarrow> own_hashes p' c = own_hashes p c)
     \<and> (\<forall>c. c \<noteq> b \<longrightarrow> blocks p' c = blocks p c)"
proof (induction hs arbitrary: p)
  case (Cons h hs)
  from insert_hash_spec [OF Cons.prems, of h n] obtain q where
    q: "insert_block_hash h b n p = ret q" "index_inv q" "quiet p q {b}"
    "set (own_hashes q b) = insert h (set (own_hashes p b))"
    "\<And>c. c \<noteq> b \<Longrightarrow> real_node c \<Longrightarrow> own_hashes q c = own_hashes p c"
    "\<And>c. c \<noteq> b \<Longrightarrow> blocks q c = blocks p c" by metis
  have "valid_block q b" using q(3) Cons.prems(2) by (simp add: quiet_valid)
  from Cons.IH [OF q(2) this] obtain r where
    r: "fold_comp (\<lambda>h. insert_block_hash h b n) hs q = ret r" "index_inv r" "quiet q r {b}"
    "set (own_hashes r b) = set (own_hashes q b) \<union> set hs"
    "\<forall>c. c \<noteq> b \<longrightarrow> real_node c \<longrightarrow> own_hashes r c = own_hashes q c"
    "\<forall>c. c \<noteq> b \<longrightarrow> blocks r c = blocks q c" by auto
  show ?case using q r quiet_trans [OF q(3) r(3)] by (intro exI [of _ r]) auto
qed simp

lemma move_block_hashes_spec:
  assumes p: "pool_inv p xs" and s: "real_node src" and d: "valid_block p dst" "dst \<notin> set xs" "dst \<noteq> src"
    and h: "block_hash (blocks p dst) = None"
  obtains p' where "move_block_hashes src dst p = ret p'" "pool_inv p' xs" "quiet p p' {dst}"
    "set (own_hashes p' dst) = set (own_hashes p src)" "own_hashes p' src = []"
    "\<forall>c. real_node c \<longrightarrow> c \<noteq> src \<longrightarrow> c \<noteq> dst \<longrightarrow> own_hashes p' c = own_hashes p c"
proof -
  have i: "index_inv p" using p by (simp add: pool_inv_def)
  have rd: "real_node dst" using d(1) by (rule valid_real)
  have none: "cached_block_hashes_by_block p (block_id dst) = None" using i rd h by (simp add: index_inv_def)
  from remove_cached_spec [OF i s] obtain q where
    q: "remove_cached_block_hashes src p = (own_hashes p src, q)" "index_inv q"
    "quiet p q {}" "own_hashes q src = []" "\<And>c. c \<noteq> src \<Longrightarrow> real_node c \<Longrightarrow> own_hashes q c = own_hashes p c"
    by metis
  have "valid_block q dst" using q(3) d(1) by (simp add: quiet_valid)
  from insert_all_spec [OF q(2) this] obtain r where
    r: "fold_comp (\<lambda>h. insert_block_hash h dst (block_hash_num_tokens (blocks p src))) (own_hashes p src) q = ret r"
     "index_inv r" "quiet q r {dst}" "set (own_hashes r dst) = set (own_hashes q dst) \<union> set (own_hashes p src)"
     "\<forall>c. c \<noteq> dst \<longrightarrow> real_node c \<longrightarrow> own_hashes r c = own_hashes q c" by blast
  have "own_hashes q dst = []" using q(5) [OF d(3) rd] h none by (simp add: own_hashes_def)
  moreover have e: "move_block_hashes src dst p = ret r"
    using h none q(1) r(1) by (simp add: move_block_hashes_def Let_def)
  moreover have qr: "quiet p r {dst}" by (rule quiet_trans [OF quiet_mono [OF q(3)] r(3)]) simp
  moreover have "pool_inv r xs" using d(2) by (intro quiet_pool_inv [OF qr p r(2)]) simp
  moreover have "own_hashes r src = []" using r(5) q(4) d(3) s by metis
  moreover have "\<forall>c. real_node c \<longrightarrow> c \<noteq> src \<longrightarrow> c \<noteq> dst \<longrightarrow> own_hashes r c = own_hashes p c"
    using r(5) q(5) by metis
  ultimately show ?thesis using r(4) by (intro that [OF e]) simp_all
qed

subsection \<open>Session protection\<close>

lemma fold_protect:
  "blocks (fold (\<lambda>b. upd_block b (\<lambda>k. k\<lparr>protected_until_ns := max (protected_until_ns k) u\<rparr>)) bs p) b
     = (blocks p b)\<lparr>protected_until_ns := if b \<in> set bs then max (protected_until_ns (blocks p b)) u
          else protected_until_ns (blocks p b)\<rparr>"
  "same_config p' (fold (\<lambda>b. upd_block b (\<lambda>k. k\<lparr>protected_until_ns := max (protected_until_ns k) u\<rparr>)) bs p)
     = same_config p' p"
  "free_block_queue (fold (\<lambda>b. upd_block b (\<lambda>k. k\<lparr>protected_until_ns := max (protected_until_ns k) u\<rparr>)) bs p)
     = free_block_queue p"
  "next_prefix_cache_expiry_ns (fold (\<lambda>b. upd_block b (\<lambda>k. k\<lparr>protected_until_ns := max (protected_until_ns k) u\<rparr>)) bs p)
     = next_prefix_cache_expiry_ns p"
  "cached_block_hash_to_block (fold (\<lambda>b. upd_block b (\<lambda>k. k\<lparr>protected_until_ns := max (protected_until_ns k) u\<rparr>)) bs p)
     = cached_block_hash_to_block p"
  "cached_block_hashes_by_block (fold (\<lambda>b. upd_block b (\<lambda>k. k\<lparr>protected_until_ns := max (protected_until_ns k) u\<rparr>)) bs p)
     = cached_block_hashes_by_block p"
  "num_gpu_blocks (fold (\<lambda>b. upd_block b (\<lambda>k. k\<lparr>protected_until_ns := max (protected_until_ns k) u\<rparr>)) bs p)
     = num_gpu_blocks p"
  by (induction bs arbitrary: p) auto

lemma stamp_spec:
  fixes sid :: "string option" and secs :: rat and now :: int and groups :: "node list list"
  assumes p: "pool_inv p xs"
  defines "p' \<equiv> stamp_session_block_protection sid secs now groups p"
  shows "pool_inv p' xs" "protected_until_ns (blocks p b) \<le> protected_until_ns (blocks p' b)"
    "sid \<noteq> None \<Longrightarrow> 0 < secs \<Longrightarrow> b \<in> set (concat groups) \<Longrightarrow>
       now + \<lfloor>secs * 10 ^ 9\<rfloor> \<le> protected_until_ns (blocks p' b)"
proof -
  define f where "f = (\<lambda>b. upd_block b (\<lambda>k. k\<lparr>protected_until_ns := max (protected_until_ns k) (now + \<lfloor>secs * 10 ^ 9\<rfloor>)\<rparr>))"
  have p': "p' = (if sid = None \<or> secs \<le> 0 then p else fold f (concat groups) p)"
    by (simp add: p'_def stamp_session_block_protection_def f_def Let_def)
  have "quiet p (fold f (concat groups) p) {}" by (simp add: quiet_def f_def fold_protect)
  then have "quiet p p' {}" by (simp add: p')
  moreover have i: "index_inv p" using p by (simp add: pool_inv_def)
  have "index_inv (fold f (concat groups) p)"
    by (rule index_inv_cong [OF i]) (simp_all add: f_def fold_protect)
  with i have "index_inv p'" by (simp add: p')
  ultimately show "pool_inv p' xs" by (intro quiet_pool_inv [OF _ p, of _ "{}"]) simp_all
  show "protected_until_ns (blocks p b) \<le> protected_until_ns (blocks p' b)"
    by (simp add: p' f_def fold_protect)
  show "now + \<lfloor>secs * 10 ^ 9\<rfloor> \<le> protected_until_ns (blocks p' b)"
    if "sid \<noteq> None" "0 < secs" "b \<in> set (concat groups)"
    using that by (cases sid) (simp_all add: p' f_def fold_protect del: set_concat)
qed

subsection \<open>Recording hashes\<close>

text \<open>The client only records hashes in blocks that it holds, or skips the null block.\<close>

definition held :: "pool \<Rightarrow> node list \<Rightarrow> node \<Rightarrow> bool" where
  "held p xs b \<longleftrightarrow> b = Blk 0 \<or> valid_block p b \<and> b \<notin> set xs"

lemma drop_stale_spec:
  assumes p: "pool_inv p xs" and b: "real_node b"
  obtains p' where "remove_cached_block_hashes b p = (own_hashes p b, p')"
    "pool_inv (emit_block_removed_events (own_hashes p b) p') xs"
    "quiet p (emit_block_removed_events (own_hashes p b) p') {}"
proof -
  have "index_inv p" using p by (simp add: pool_inv_def)
  from remove_cached_spec [OF this b] obtain q where
    q: "remove_cached_block_hashes b p = (own_hashes p b, q)" "index_inv q" "quiet p q {}" by metis
  then have "quiet p (emit_block_removed_events (own_hashes p b) q) {}" by simp
  moreover from this have "pool_inv (emit_block_removed_events (own_hashes p b) q) xs"
    by (rule quiet_pool_inv [OF _ p]) (use q(2) in simp_all)
  ultimately show ?thesis by (intro that [OF q(1)])
qed

lemma insert_held_spec:
  assumes p: "pool_inv p xs" and b: "valid_block p b" "b \<notin> set xs"
  obtains p' where "insert_block_hash k b n p = ret p'" "pool_inv p' xs" "quiet p p' {b}"
    "set (own_hashes p' b) = insert k (set (own_hashes p b))"
    "\<And>c. c \<noteq> b \<Longrightarrow> real_node c \<Longrightarrow> own_hashes p' c = own_hashes p c"
    "\<And>c. c \<noteq> b \<Longrightarrow> blocks p' c = blocks p c"
proof -
  have "index_inv p" using p by (simp add: pool_inv_def)
  from insert_hash_spec [OF this b(1), of k n] obtain q where
    q: "insert_block_hash k b n p = ret q" "index_inv q" "quiet p q {b}"
    "set (own_hashes q b) = insert k (set (own_hashes p b))"
    "\<And>c. c \<noteq> b \<Longrightarrow> real_node c \<Longrightarrow> own_hashes q c = own_hashes p c"
    "\<And>c. c \<noteq> b \<Longrightarrow> blocks q c = blocks p c" by metis
  moreover from this p b(2) have "pool_inv q xs" by (intro quiet_pool_inv [OF q(3)]) simp_all
  ultimately show ?thesis by (intro that [of q])
qed

lemma cache_one_full_inv:
  assumes r: "cache_one_full nc sz g mask' hs (i, b) (ns, p) = ret (ns', p')"
    and p: "pool_inv p xs" and b: "held p xs b"
  shows "pool_inv p' xs \<and> quiet p p' {b}"
proof (cases "b = Blk 0")
  case True
  with p have "is_null (blocks p b)" by (simp add: pool_inv_defs)
  with r p show ?thesis by (simp add: cache_one_full_def)
next
  case False
  with b have v: "valid_block p b" "b \<notin> set xs" by (simp_all add: held_def)
  from drop_stale_spec [OF p valid_real [OF v(1)]] obtain q where
    q: "remove_cached_block_hashes b p = (own_hashes p b, q)"
    "pool_inv (emit_block_removed_events (own_hashes p b) q) xs"
    "quiet p (emit_block_removed_events (own_hashes p b) q) {}" .
  let ?q = "emit_block_removed_events (own_hashes p b) q"
  from r q(1) consider "p' = p" | k n p1 where "p1 = p \<or> p1 = ?q" "insert_block_hash k b n p1 = ret p'"
    by (auto simp: cache_one_full_def Let_def split: if_splits option.splits) blast+
  then show ?thesis
  proof cases
    case 2
    have p1: "pool_inv p1 xs" "quiet p p1 {b}" using 2(1) p q quiet_mono [OF q(3)] by auto
    have "valid_block p1 b" using p1(2) v(1) by (simp add: quiet_valid)
    from insert_held_spec [OF p1(1) this v(2), of k n] 2(2) obtain r where
      "ret p' = (ret r :: (qexn, pool) comp)" "pool_inv r xs" "quiet p1 r {b}" by metis
    then show ?thesis using quiet_trans [OF p1(2)] by auto
  qed (use p in simp)
qed

lemma held_quiet: "quiet p q B \<Longrightarrow> held q xs b = held p xs b"
  by (simp add: held_def quiet_valid)

lemma cache_full_fold_inv:
  assumes "fold_comp (cache_one_full nc sz g mask' hs) ibs (ns, p) = ret (ns', p')"
    and p: "pool_inv p xs" and b: "\<forall>b\<in>snd ` set ibs. held p xs b"
  shows "pool_inv p' xs \<and> quiet p p' (snd ` set ibs)"
proof -
  let ?P = "\<lambda>(ns, q). pool_inv q xs \<and> quiet p q (snd ` set ibs)"
  have "?P (ns', p')"
  proof (rule fold_comp_inv [OF assms(1)])
    fix x s t
    assume x: "x \<in> set ibs" and s: "?P s" and st: "cache_one_full nc sz g mask' hs x s = ret t"
    obtain i c m q m' q' where e: "x = (i, c)" "s = (m, q)" "t = (m', q')" by (cases x; cases s; cases t)
    from s e have q: "pool_inv q xs" "quiet p q (snd ` set ibs)" by auto
    have c: "c \<in> snd ` set ibs" using x e by force
    then have "held q xs c" using b held_quiet [OF q(2)] by auto
    from cache_one_full_inv [OF st [unfolded e] q(1) this] c have "pool_inv q' xs" "quiet q q' (snd ` set ibs)"
      by (auto intro: quiet_mono)
    with q(2) e show "?P t" by (auto intro: quiet_trans)
  qed (use p in simp)
  then show ?thesis by simp
qed

lemma event_pool_inv: "pool_inv p xs \<Longrightarrow> pool_inv (p\<lparr>kv_event_queue := es\<rparr>) xs"
  by (rule quiet_pool_inv [of p _ "{}"]) (auto simp: quiet_def pool_inv_def intro: index_inv_cong)

lemma event_quiet: "quiet p q B \<Longrightarrow> quiet p (q\<lparr>kv_event_queue := es\<rparr>) B"
  by (simp add: quiet_def)

lemma cache_full_blocks_spec:
  assumes r: "cache_full_blocks r bs nc nf sz g mask' p = ret p'"
    and p: "pool_inv p xs" and b: "\<forall>b\<in>set bs. held p xs b"
  shows "pool_inv p' xs \<and> quiet p p' (set bs)"
proof (cases "nf \<le> nc")
  case True
  with r p show ?thesis by (simp add: cache_full_blocks_def)
next
  case False
  define new_full where "new_full = take (nf - nc) (drop nc bs)"
  from r False obtain hs ns q where
    q: "fold_comp (cache_one_full nc sz g mask' hs) (enumerate 0 new_full) ([], p) = ret (ns, q)"
    and p': "p' = q \<or> (\<exists>es. p' = q\<lparr>kv_event_queue := es\<rparr>)"
    by (auto simp: cache_full_blocks_def new_full_def [symmetric] Let_def split: if_splits) blast+
  have sub: "snd ` set (enumerate 0 new_full) \<subseteq> set bs"
    by (auto simp: new_full_def in_set_enumerate_eq dest!: in_set_takeD in_set_dropD nth_mem)
  then have "\<forall>b\<in>snd ` set (enumerate 0 new_full). held p xs b" using b by blast
  from cache_full_fold_inv [OF q p this] sub have "pool_inv q xs" "quiet p q (set bs)"
    by (auto intro: quiet_mono)
  with p' show ?thesis by (auto intro: event_pool_inv event_quiet)
qed

lemma emit_cached_block_events_spec:
  "emit_cached_block_events r nc sz g p = ret p' \<Longrightarrow> pool_inv p xs \<Longrightarrow> pool_inv p' xs \<and> quiet p p' {}"
  by (auto simp: emit_cached_block_events_def split: if_splits intro: event_pool_inv event_quiet [OF quiet_refl])

lemma cache_partial_block_spec:
  assumes r: "cache_partial_block r b n g sz p = ret (k, p')" and p: "pool_inv p xs" and b: "held p xs b"
  shows "pool_inv p' xs \<and> quiet p p' {b} \<and> (k = None \<longleftrightarrow> b = Blk 0)
    \<and> (\<forall>key. k = Some key \<longrightarrow> key \<in> set (own_hashes p' b))"
proof (cases "b = Blk 0")
  case True
  with p have "is_null (blocks p b)" by (simp add: pool_inv_defs)
  with r p True show ?thesis by (simp add: cache_partial_block_def)
next
  case False
  with p have nn: "\<not> is_null (blocks p b)" by (simp add: pool_inv_defs)
  from False b have v: "valid_block p b" "b \<notin> set xs" by (simp_all add: held_def)
  from drop_stale_spec [OF p valid_real [OF v(1)]] obtain q where
    q: "remove_cached_block_hashes b p = (own_hashes p b, q)"
    "pool_inv (emit_block_removed_events (own_hashes p b) q) xs"
    "quiet p (emit_block_removed_events (own_hashes p b) q) {}" .
  let ?q = "emit_block_removed_events (own_hashes p b) q"
  from r q(1) nn obtain key m p1 p2 where p1: "p1 = p \<or> p1 = ?q"
    and p2: "insert_block_hash key b m p1 = ret p2" and k: "k = Some key"
    and p': "p' = p2 \<or> (\<exists>es. p' = p2\<lparr>kv_event_queue := es\<rparr>)"
    by (auto simp: cache_partial_block_def Let_def split: if_splits prod.splits) blast+
  have i1: "pool_inv p1 xs" "quiet p p1 {b}" using p1 p q quiet_mono [OF q(3)] by auto
  have "valid_block p1 b" using i1(2) v(1) by (simp add: quiet_valid)
  from insert_held_spec [OF i1(1) this v(2), of key m] p2 obtain r where
    "ret p2 = (ret r :: (qexn, pool) comp)" "pool_inv r xs" "quiet p1 r {b}"
    "set (own_hashes r b) = insert key (set (own_hashes p1 b))" by metis
  then have "pool_inv p2 xs" "quiet p p2 {b}" "key \<in> set (own_hashes p2 b)"
    using quiet_trans [OF i1(2)] by auto
  with p' k False show ?thesis by (auto intro: event_pool_inv event_quiet simp: own_hashes_def)
qed

end
