(* ===== verification/KV_Pool_Props.thy ===== *)
theory KV_Pool_Props
  imports KV_Pool_Cache
begin

text \<open>
  The block pool as its clients see it: lookups, caching followed by a lookup, the life of a pool
  as a step relation, and the properties of \<open>BlockPool\<close>.
\<close>

subsection \<open>Lookups\<close>

definition group_key :: "bytes \<Rightarrow> int \<Rightarrow> bytes" where
  "group_key h g = h @ be_bytes 4 g"

lemma make_key: "0 \<le> g \<Longrightarrow> g < 2 ^ 32 \<Longrightarrow> make_block_hash_with_group_id h g = ret (group_key h g)"
  by (simp add: make_block_hash_with_group_id_def to_bytes_be_def group_key_def)

lemma get_one_spec:
  assumes "index_inv p"
  obtains r where "m_get_one_block k (cached_block_hash_to_block p) = ret r"
    "case r of None \<Rightarrow> \<forall>b. real_node b \<longrightarrow> k \<notin> set (own_hashes p b)
       | Some b \<Rightarrow> valid_block p b \<and> k \<in> set (own_hashes p b)"
proof -
  from assms have m: "hmap_ok (cached_block_hash_to_block p)"
    "members (cached_block_hash_to_block p) k = {b. real_node b \<and> k \<in> set (own_hashes p b)}"
    by (auto simp: index_inv_def)
  from m_get_one_block_members [OF m(1), of k] obtain r where
    r: "m_get_one_block k (cached_block_hash_to_block p) = ret r"
      "case r of None \<Rightarrow> members (cached_block_hash_to_block p) k = {}
        | Some b \<Rightarrow> b \<in> members (cached_block_hash_to_block p) k" by blast
  have "valid_block p b" if "real_node b" "k \<in> set (own_hashes p b)" for b
  proof -
    from that(2) have "own_hashes p b \<noteq> []" by auto
    with own_hashes_None [OF assms that(1)] assms that(1) show ?thesis by (simp add: index_inv_def)
  qed
  with r m(2) show ?thesis by (intro that [OF r(1)]) (auto split: option.splits)
qed

lemma get_cached_block_spec:
  assumes i: "index_inv p"
  shows "\<forall>g\<in>set gs. 0 \<le> g \<and> g < 2 ^ 32 \<Longrightarrow>
    (\<exists>bs. get_cached_block h gs p = ret (Some bs)
       \<and> list_all2 (\<lambda>g b. valid_block p b \<and> group_key h g \<in> set (own_hashes p b)) gs bs)
    \<or> get_cached_block h gs p = ret None
       \<and> (\<exists>g\<in>set gs. \<forall>b. real_node b \<longrightarrow> group_key h g \<notin> set (own_hashes p b))"
proof (induction gs)
  case (Cons g gs)
  have k: "make_block_hash_with_group_id h g = ret (group_key h g)" using Cons.prems by (simp add: make_key)
  obtain r where r: "m_get_one_block (group_key h g) (cached_block_hash_to_block p) = ret r"
    "case r of None \<Rightarrow> \<forall>b. real_node b \<longrightarrow> group_key h g \<notin> set (own_hashes p b)
       | Some b \<Rightarrow> valid_block p b \<and> group_key h g \<in> set (own_hashes p b)"
    by (rule get_one_spec [OF i])
  from Cons show ?case
    by (cases r) (use r in \<open>auto simp: k\<close>)
qed simp

subsection \<open>Caching, then looking up\<close>

text \<open>The blocks that \<^verbatim>\<open>block_mask\<close> selects.\<close>

definition chosen :: "bool list option \<Rightarrow> nat \<Rightarrow> bool" where
  "chosen block_mask i \<longleftrightarrow> (case block_mask of None \<Rightarrow> True | Some m \<Rightarrow> m ! i)"

lemma cache_one_skips:
  "\<not> chosen block_mask i \<Longrightarrow> cache_one_full nc sz g block_mask hs (i, b) (ns, p) = ret (ns, p)"
  by (auto simp: cache_one_full_def chosen_def split: option.splits)

lemma emit_own_hashes [simp]: "own_hashes (emit_block_removed_events hs p) b = own_hashes p b"
  by (simp add: emit_block_removed_events_def own_hashes_def)

text \<open>A block that is recorded has its key afterwards, whatever it was recorded under before; the others keep theirs.\<close>

lemma cache_one_key:
  assumes r: "cache_one_full nc sz g block_mask hs (i, b) (ns, p) = ret (ns', p')"
    and p: "pool_inv p xs" and b: "held p xs b" and g: "0 \<le> g" "g < 2 ^ 32"
  shows "chosen block_mask i \<and> b \<noteq> Blk 0 \<longrightarrow> i < length hs \<and> group_key (hs ! i) g \<in> set (own_hashes p' b)"
    and "\<And>c. c \<noteq> b \<Longrightarrow> real_node c \<Longrightarrow> own_hashes p' c = own_hashes p c"
proof -
  have "(chosen block_mask i \<and> b \<noteq> Blk 0 \<longrightarrow> i < length hs \<and> group_key (hs ! i) g \<in> set (own_hashes p' b))
      \<and> (\<forall>c. c \<noteq> b \<longrightarrow> real_node c \<longrightarrow> own_hashes p' c = own_hashes p c)"
  proof (cases "b = Blk 0 \<or> \<not> chosen block_mask i")
    case True
    with p have "is_null (blocks p b) \<or> \<not> chosen block_mask i" by (auto simp: pool_inv_defs)
    with r have "p' = p" by (auto simp: cache_one_full_def chosen_def split: option.splits)
    with True show ?thesis by auto
  next
    case False
    with p have nn: "\<not> is_null (blocks p b)" by (simp add: pool_inv_defs)
    from False b have v: "valid_block p b" "b \<notin> set xs" by (simp_all add: held_def)
    have "index_inv p" using p by (simp add: pool_inv_def)
    from remove_cached_spec [OF this valid_real [OF v(1)]] obtain q where
      q: "remove_cached_block_hashes b p = (own_hashes p b, q)" "index_inv q" "quiet p q {}"
      "\<And>c. c \<noteq> b \<Longrightarrow> real_node c \<Longrightarrow> own_hashes q c = own_hashes p c" by metis
    let ?q = "emit_block_removed_events (own_hashes p b) q"
    have qq: "quiet p ?q {b}" using quiet_mono [OF q(3)] by simp
    have iq: "pool_inv ?q xs" by (rule quiet_pool_inv [OF qq p]) (use q(2) v(2) in simp_all)
    from r q(1) nn False obtain n p1 where p1: "p1 = p \<or> p1 = ?q" and i: "i < length hs"
      and ins: "insert_block_hash (group_key (hs ! i) g) b n p1 = ret p'"
      by (auto simp: cache_one_full_def chosen_def Let_def make_key [OF g] split: if_splits option.splits) blast+
    have "pool_inv p1 xs" "quiet p p1 {b}" using p1 p iq qq by auto
    moreover from this have "valid_block p1 b" using v(1) by (simp add: quiet_valid)
    ultimately obtain q' where "insert_block_hash (group_key (hs ! i) g) b n p1 = ret q'"
      "set (own_hashes q' b) = insert (group_key (hs ! i) g) (set (own_hashes p1 b))"
      "\<And>c. c \<noteq> b \<Longrightarrow> real_node c \<Longrightarrow> own_hashes q' c = own_hashes p1 c"
      using insert_held_spec [of p1 xs b "group_key (hs ! i) g" n] v(2) by metis
    moreover have "own_hashes p1 c = own_hashes p c" if "c \<noteq> b" "real_node c" for c
      using p1 q(4) [OF that] by auto
    ultimately show ?thesis using ins i by auto
  qed
  then show "chosen block_mask i \<and> b \<noteq> Blk 0 \<longrightarrow> i < length hs \<and> group_key (hs ! i) g \<in> set (own_hashes p' b)"
    and "\<And>c. c \<noteq> b \<Longrightarrow> real_node c \<Longrightarrow> own_hashes p' c = own_hashes p c" by blast+
qed

lemma cache_fold_keys:
  "fold_comp (cache_one_full nc sz g block_mask hs) (enumerate k bs) (ns, p) = ret (ns', p') \<Longrightarrow>
   pool_inv p xs \<Longrightarrow> distinct bs \<Longrightarrow> \<forall>b\<in>set bs. held p xs b \<Longrightarrow> 0 \<le> g \<Longrightarrow> g < 2 ^ 32 \<Longrightarrow>
   pool_inv p' xs
     \<and> (\<forall>j<length bs. chosen block_mask (k + j) \<and> bs ! j \<noteq> Blk 0 \<longrightarrow> k + j < length hs \<and> group_key (hs ! (k + j)) g \<in> set (own_hashes p' (bs ! j)))
     \<and> (\<forall>c. c \<notin> set bs \<longrightarrow> real_node c \<longrightarrow> own_hashes p' c = own_hashes p c)"
proof (induction bs arbitrary: k ns p)
  case (Cons b bs)
  from Cons.prems(1) obtain ms q where q: "cache_one_full nc sz g block_mask hs (k, b) (ns, p) = ret (ms, q)"
    and r: "fold_comp (cache_one_full nc sz g block_mask hs) (enumerate (Suc k) bs) (ms, q) = ret (ns', p')" by auto
  have hb: "held p xs b" using Cons.prems(4) by simp
  from cache_one_full_inv [OF q Cons.prems(2) hb] have i: "pool_inv q xs" "quiet p q {b}" by auto
  note k = cache_one_key [OF q Cons.prems(2) hb Cons.prems(5,6)]
  have IH: "pool_inv p' xs"
    "\<forall>j<length bs. chosen block_mask (Suc k + j) \<and> bs ! j \<noteq> Blk 0 \<longrightarrow>
       Suc k + j < length hs \<and> group_key (hs ! (Suc k + j)) g \<in> set (own_hashes p' (bs ! j))"
    "\<forall>c. c \<notin> set bs \<longrightarrow> real_node c \<longrightarrow> own_hashes p' c = own_hashes q c"
    using Cons.IH [OF r i(1)] Cons.prems(3-6) held_quiet [OF i(2)] by auto
  have rb: "b \<noteq> Blk 0 \<Longrightarrow> real_node b" using hb by (auto simp: held_def intro: valid_real)
  have "chosen block_mask (k + j) \<and> (b # bs) ! j \<noteq> Blk 0 \<longrightarrow>
      k + j < length hs \<and> group_key (hs ! (k + j)) g \<in> set (own_hashes p' ((b # bs) ! j))" if "j < length (b # bs)" for j
    using that IH(2,3) k(1) rb Cons.prems(3) by (cases j) auto
  with IH k(2) show ?case by auto
qed simp

lemma cache_one_fresh:
  assumes p: "pool_inv p xs" and b: "valid_block p b" "b \<noteq> Blk 0" "b \<notin> set xs" "block_hash (blocks p b) = None"
    and i: "i < length hs" and g: "0 \<le> g" "g < 2 ^ 32"
  obtains ns' p' where "cache_one_full nc sz g block_mask hs (i, b) (ns, p) = ret (ns', p')" "pool_inv p' xs" "quiet p p' {b}"
    "\<And>c. c \<noteq> b \<Longrightarrow> blocks p' c = blocks p c"
proof (cases "chosen block_mask i")
  case False
  with p show ?thesis by (intro that [of ns p]) (simp_all add: cache_one_skips)
next
  case True
  have nn: "\<not> is_null (blocks p b)" using p b(2) by (simp add: pool_inv_defs)
  from insert_held_spec [OF p b(1,3), of "group_key (hs ! i) g" "Some (int ((nc + i + 1) * sz))"] obtain q where
    q: "insert_block_hash (group_key (hs ! i) g) b (Some (int ((nc + i + 1) * sz))) p = ret q"
    "pool_inv q xs" "quiet p q {b}" "\<And>c. c \<noteq> b \<Longrightarrow> blocks q c = blocks p c" by metis
  have "cache_one_full nc sz g block_mask hs (i, b) (ns, p)
      = ret (ns @ [maybe_convert_block_hash (use_int_block_hashes q) (hs ! i)], q)"
    using nn i b(4) q(1) True by (auto simp: cache_one_full_def chosen_def Let_def make_key [OF g] split: option.splits)
  then show ?thesis by (rule that) (use q in auto)
qed

lemma cache_fold_fresh:
  "pool_inv p xs \<Longrightarrow> distinct bs \<Longrightarrow>
   \<forall>b\<in>set bs. valid_block p b \<and> b \<noteq> Blk 0 \<and> b \<notin> set xs \<and> block_hash (blocks p b) = None \<Longrightarrow>
   k + length bs \<le> length hs \<Longrightarrow> 0 \<le> g \<Longrightarrow> g < 2 ^ 32 \<Longrightarrow>
   \<exists>ns' p'. fold_comp (cache_one_full nc sz g block_mask hs) (enumerate k bs) (ns, p) = ret (ns', p') \<and> quiet p p' (set bs)"
proof (induction bs arbitrary: k ns p)
  case (Cons b bs)
  then have b: "valid_block p b" "b \<noteq> Blk 0" "b \<notin> set xs" "block_hash (blocks p b) = None" "k < length hs"
    and g: "0 \<le> g" "g < 2 ^ 32" by auto
  from cache_one_fresh [OF Cons.prems(1) b g, of nc sz block_mask ns] obtain ms q where
    q: "cache_one_full nc sz g block_mask hs (k, b) (ns, p) = ret (ms, q)" "pool_inv q xs" "quiet p q {b}"
    "\<And>c. c \<noteq> b \<Longrightarrow> blocks q c = blocks p c" by metis
  have "\<forall>c\<in>set bs. valid_block q c \<and> c \<noteq> Blk 0 \<and> c \<notin> set xs \<and> block_hash (blocks q c) = None"
  proof
    fix c
    assume c: "c \<in> set bs"
    with Cons.prems(2) have "blocks q c = blocks p c" by (intro q(4)) auto
    with c Cons.prems(3) show "valid_block q c \<and> c \<noteq> Blk 0 \<and> c \<notin> set xs \<and> block_hash (blocks q c) = None"
      by (simp add: quiet_valid [OF q(3)])
  qed
  with Cons.IH [OF q(2), of "Suc k" ms] Cons.prems g obtain ns' r where
    r: "fold_comp (cache_one_full nc sz g block_mask hs) (enumerate (Suc k) bs) (ms, q) = ret (ns', r)" "quiet q r (set bs)" by auto
  have "quiet p r (set (b # bs))"
    by (rule quiet_trans [OF quiet_mono [OF q(3)] quiet_mono [OF r(2)]]) auto
  with q(1) r(1) show ?case by auto
qed simp

definition in_use :: "pool \<Rightarrow> node \<Rightarrow> bool" where
  "in_use p b \<longleftrightarrow> b = Blk 0 \<or> valid_block p b \<and> ref_cnt (blocks p b) \<noteq> 0"

lemma in_use_held: "pool_inv p xs \<Longrightarrow> in_use p b \<Longrightarrow> held p xs b"
  by (auto simp: in_use_def held_def pool_inv_defs is_free_def)

lemma hl_from_nth:
  "length (hl_from hl st) = hl_length hl - st"
  "st + i < hl_length hl \<Longrightarrow> hl_get hl (st + i) = ret (hl_from hl st ! i)"
proof -
  show "length (hl_from hl st) = hl_length hl - st" by (cases hl) auto
  show "hl_get hl (st + i) = ret (hl_from hl st ! i)" if i: "st + i < hl_length hl"
  proof (cases hl)
    case (View l scale)
    with i have lt: "st + i < length l div scale" by simp
    then have "Suc (st + i) * scale \<le> (length l div scale) * scale" by (intro mult_le_mono1) simp
    also have "\<dots> \<le> length l" by (rule div_times_less_eq_dividend)
    finally have "Suc (st + i) * scale \<le> length l" .
    moreover have "0 < scale" using lt by (cases scale) auto
    ultimately have "Suc (st + i) * scale - 1 < length l" by (cases scale) simp_all
    moreover have "[st..<length l div scale] ! i = st + i" using lt by (rule nth_upt)
    ultimately show ?thesis using View lt by (simp add: Let_def)
  qed (use i in auto)
qed

text \<open>
  C5. Recording the hashes of full blocks that the request holds, at the granularity of the hashes or at a coarser one, with
  or without a mask and with events on or off: whenever it returns, each chosen block of the range that is not the
  null block can be looked up by the hash of its position, and the lookup gives a valid block that carries this key.  With
  events off it does return if the blocks carry no hash yet, the mask has the length of the range and there is a hash
  for each block.
\<close>

theorem cache_then_lookup:
  assumes p: "pool_inv p xs" and bs: "distinct bs" "nf \<le> length bs" "\<forall>b\<in>set bs. in_use p b"
    and g: "0 \<le> g" "g < 2 ^ 32" and hl: "resolve_block_hashes (Raw (block_hashes r)) (hash_block_size p) sz False None = ret hl"
  shows "(\<forall>p'. cache_full_blocks r bs nc nf sz g block_mask p = ret p' \<longrightarrow> pool_inv p' xs
      \<and> (\<forall>i. nc \<le> i \<and> i < nf \<and> chosen block_mask (i - nc) \<and> bs ! i \<noteq> Blk 0 \<longrightarrow> (\<exists>h b. hl_get hl i = ret h
          \<and> get_cached_block h [g] p' = ret (Some [b]) \<and> valid_block p' b \<and> group_key h g \<in> set (own_hashes p' b))))
    \<and> (\<not> enable_kv_cache_events p \<and> nf \<le> hl_length hl \<and> (\<forall>b\<in>set bs. b \<noteq> Blk 0 \<and> block_hash (blocks p b) = None)
        \<and> (case block_mask of None \<Rightarrow> True | Some m \<Rightarrow> length m = nf - nc)
      \<longrightarrow> (\<exists>p'. cache_full_blocks r bs nc nf sz g block_mask p = ret p'))"
proof (cases "nf \<le> nc")
  case True
  with p show ?thesis by (auto simp: cache_full_blocks_def)
next
  case False
  define cs where "cs = take (nf - nc) (drop nc bs)"
  let ?hs = "hl_from hl nc"
  have len: "length cs = nf - nc" using bs(2) by (simp add: cs_def)
  have sub: "set cs \<subseteq> set bs" by (auto simp: cs_def dest!: in_set_takeD in_set_dropD)
  have d: "distinct cs" using bs(1) by (simp add: cs_def)
  have held: "\<forall>b\<in>set cs. held p xs b" using sub bs(3) in_use_held [OF p] by blast
  show ?thesis
  proof (intro conjI allI impI)
    fix p'
    assume "cache_full_blocks r bs nc nf sz g block_mask p = ret p'"
    with False hl obtain ns q where q: "fold_comp (cache_one_full nc sz g block_mask ?hs) (enumerate 0 cs) ([], p) = ret (ns, q)"
      and p': "p' = q \<or> (\<exists>es. p' = q\<lparr>kv_event_queue := es\<rparr>)"
      by (auto simp: cache_full_blocks_def cs_def [symmetric] Let_def split: if_splits) blast+
    note k = cache_fold_keys [OF q p d held g]
    from k p' show inv: "pool_inv p' xs" by (auto intro: event_pool_inv)
    have own: "own_hashes p' b = own_hashes q b" for b using p' by (auto simp: own_hashes_def)
    fix i
    assume i: "nc \<le> i \<and> i < nf \<and> chosen block_mask (i - nc) \<and> bs ! i \<noteq> Blk 0"
    then have le: "nc \<le> i" "i < nf" by blast+
    with len have j: "i - nc < length cs" "cs ! (i - nc) = bs ! i" using bs(2) by (simp_all add: cs_def)
    with k i have key: "i - nc < length ?hs" "group_key (?hs ! (i - nc)) g \<in> set (own_hashes p' (bs ! i))" by (auto simp: own)
    then have get: "hl_get hl i = ret (?hs ! (i - nc))"
      using hl_from_nth(2) [of nc "i - nc" hl] i by (simp add: hl_from_nth(1))
    have "bs ! i \<in> set bs" using i bs(2) by simp
    then have "held p xs (bs ! i)" using bs(3) in_use_held [OF p] by blast
    then have "real_node (bs ! i)" using i by (auto simp: held_def intro: valid_real)
    moreover have "index_inv p'" using inv by (simp add: pool_inv_def)
    ultimately show "\<exists>h b. hl_get hl i = ret h
          \<and> get_cached_block h [g] p' = ret (Some [b]) \<and> valid_block p' b \<and> group_key h g \<in> set (own_hashes p' b)"
      using get_cached_block_spec [of p' "[g]" "?hs ! (i - nc)"] key(2) g get by (auto simp: list_all2_Cons1)
  next
    assume f: "\<not> enable_kv_cache_events p \<and> nf \<le> hl_length hl \<and> (\<forall>b\<in>set bs. b \<noteq> Blk 0 \<and> block_hash (blocks p b) = None)
        \<and> (case block_mask of None \<Rightarrow> True | Some m \<Rightarrow> length m = nf - nc)"
    with sub held have "\<forall>b\<in>set cs. valid_block p b \<and> b \<noteq> Blk 0 \<and> b \<notin> set xs \<and> block_hash (blocks p b) = None"
      by (auto simp: held_def)
    moreover have "0 + length cs \<le> length ?hs"
      unfolding hl_from_nth(1) add_0 len using f by (intro diff_le_mono) blast
    ultimately obtain ns q where
      q: "fold_comp (cache_one_full nc sz g block_mask ?hs) (enumerate 0 cs) ([], p) = ret (ns, q)" "quiet p q (set cs)"
      using cache_fold_fresh [OF p d _ _ g, of 0 ?hs nc sz block_mask "[]"] by auto
    have "\<not> enable_kv_cache_events q" using q(2) f by (simp add: quiet_def same_config_def)
    with q(1) False f hl len show "\<exists>p'. cache_full_blocks r bs nc nf sz g block_mask p = ret p'"
      by (auto simp: cache_full_blocks_def cs_def [symmetric] split: option.splits)
  qed
qed

subsection \<open>The life of a pool\<close>

text \<open>
  One call of a client that keeps to the contract: it touches blocks of the pool, gives back no
  more references than there are, and records hashes only in blocks that are in use.
\<close>

inductive pool_step :: "pool \<Rightarrow> pool \<Rightarrow> bool" where
  step_alloc: "get_new_blocks n now p = ret (bs, p') \<Longrightarrow> pool_step p p'"
| step_touch: "\<forall>b\<in>set bs. valid_block p b \<Longrightarrow> touch bs p = ret p' \<Longrightarrow> pool_step p p'"
| step_free: "owns p bs \<Longrightarrow> free_blocks bs now p = ret p' \<Longrightarrow> pool_step p p'"
| step_expire: "expire_cached_blocks now p = ret (k, p') \<Longrightarrow> pool_step p p'"
| step_evict: "\<forall>i\<in>set is. 0 \<le> i \<and> i < int (num_gpu_blocks p) \<Longrightarrow> evict_blocks is p = ret p' \<Longrightarrow> pool_step p p'"
| step_reset: "reset_prefix_cache p = (ok, p') \<Longrightarrow> pool_step p p'"
| step_move: "valid_block p src \<Longrightarrow> in_use p dst \<Longrightarrow> dst \<noteq> Blk 0 \<Longrightarrow> dst \<noteq> src \<Longrightarrow>
    move_block_hashes src dst p = ret p' \<Longrightarrow> pool_step p p'"
| step_cache: "\<forall>b\<in>set bs. in_use p b \<Longrightarrow> cache_full_blocks r bs nc nf sz g m p = ret p' \<Longrightarrow> pool_step p p'"
| step_partial: "in_use p b \<Longrightarrow> cache_partial_block r b n g sz p = ret (key, p') \<Longrightarrow> pool_step p p'"
| step_emit: "emit_cached_block_events r nc sz g p = ret p' \<Longrightarrow> pool_step p p'"
| step_stamp: "pool_step p (stamp_session_block_protection sid secs now groups p)"
| step_take: "take_events p = (es, p') \<Longrightarrow> pool_step p p'"

inductive pool_reachable :: "pool \<Rightarrow> bool" where
  reach_init: "pool_init n caching hbs ev met ints timeout = ret p \<Longrightarrow> pool_reachable p"
| reach_step: "pool_reachable p \<Longrightarrow> pool_step p p' \<Longrightarrow> pool_reachable p'"

lemma move_asserts:
  "move_block_hashes src dst p = ret p' \<Longrightarrow> block_hash (blocks p dst) = None"
  by (auto simp: move_block_hashes_def split: if_splits)

lemma pool_step_inv:
  assumes "pool_step p p'" and p: "pool_inv p xs"
  shows "\<exists>ys. pool_inv p' ys"
  using assms(1)
proof cases
  case (step_alloc n now bs)
  show ?thesis
  proof (cases "n \<le> length xs")
    case True
    from get_new_blocks_spec [OF p this, of now] step_alloc show ?thesis by (metis ret_inject prod.inject)
  next
    case False
    with get_new_blocks_fail [OF p, of n now] step_alloc show ?thesis by simp
  qed
next
  case (step_touch bs)
  with touch_spec [OF p, of bs] show ?thesis by auto
next
  case (step_free bs now)
  from free_blocks_spec [OF p step_free(1), of now] step_free(2) show ?thesis by (metis ret_inject)
next
  case (step_expire now k)
  from expire_cached_blocks_spec [OF p, of now] step_expire show ?thesis by (metis ret_inject prod.inject)
next
  case (step_evict "is")
  with evict_blocks_spec [OF p, of "is"] show ?thesis by auto
next
  case (step_reset ok)
  from reset_prefix_cache_spec [OF p] step_reset show ?thesis by (metis prod.inject)
next
  case (step_move src dst)
  have "valid_block p dst" "dst \<notin> set xs"
    using in_use_held [OF p step_move(2)] step_move(3) by (auto simp: held_def)
  from move_block_hashes_spec [OF p valid_real [OF step_move(1)] this step_move(4) move_asserts [OF step_move(5)]]
    step_move(5) show ?thesis by (metis ret_inject)
next
  case (step_cache bs r nc nf sz g m)
  with cache_full_blocks_spec [OF step_cache(2) p] in_use_held [OF p] show ?thesis by auto
next
  case (step_partial b r n g sz key)
  with cache_partial_block_spec [OF step_partial(2) p] in_use_held [OF p] show ?thesis by auto
next
  case (step_emit r nc sz g)
  with emit_cached_block_events_spec [OF step_emit p] show ?thesis by auto
next
  case (step_stamp sid secs now groups)
  show ?thesis unfolding step_stamp using stamp_spec(1) [OF p] by blast
next
  case (step_take es)
  with p show ?thesis by (auto simp: take_events_def split: if_splits intro: event_pool_inv)
qed

text \<open>
  C1. Whatever calls a well-behaved client makes, the free list, the reference counts, the hash
  index and the expiry time stay consistent: the invariant holds in every reachable pool.
\<close>

theorem pool_reachable_inv:
  assumes "pool_reachable p"
  shows "\<exists>xs. pool_inv p xs"
  using assms
proof induction
  case (reach_init n caching hbs ev met ints timeout p)
  from pool_init_spec [OF this] show ?case by blast
next
  case (reach_step p p')
  then show ?case using pool_step_inv by blast
qed

subsection \<open>Concrete pools\<close>

text \<open>A pool that a deployment starts with: its first block is the null block, the rest are free.\<close>

lemma pool_init_ok:
  assumes "0 < n" "case timeout of None \<Rightarrow> True | Some s \<Rightarrow> caching \<and> 0 < s"
  obtains p where "pool_init n caching hbs ev met ints timeout = ret p"
    "pool_inv p (map Blk [1..<n])" "num_gpu_blocks p = n" "hash_block_size p = hbs"
    "enable_kv_cache_events p = ev" "enable_caching p = caching" "\<forall>b. b \<noteq> Blk 0 \<longrightarrow> blocks p b = new_block"
proof -
  from assms(1) have m: "map Blk [0..<n] = Blk 0 # map Blk [1..<n]" by (simp add: upt_conv_Cons)
  have "distinct (ends (map Blk [0..<n]))" by (auto simp: distinct_map inj_on_def)
  then have "dll (q_init (map Blk [0..<n])) (Blk 0 # map Blk [1..<n])"
    using q_init_dll [of "map Blk [0..<n]"] m by simp
  from q_popleft_dll [OF this] obtain q where "q_popleft (q_init (map Blk [0..<n])) = ret (Blk 0, q)" by auto
  with assms obtain p where p: "pool_init n caching hbs ev met ints timeout = ret p"
    "num_gpu_blocks p = n" "hash_block_size p = hbs" "enable_kv_cache_events p = ev" "enable_caching p = caching"
    "\<forall>b. b \<noteq> Blk 0 \<longrightarrow> blocks p b = new_block"
    by (auto simp: pool_init_def Let_def not_le split: option.splits)
  with pool_init_spec [OF p(1)] show ?thesis by (intro that)
qed

text \<open>
  The constructor: it fails with an assertion for no blocks and with a \<open>ValueError\<close> for an
  idle timeout without prefix caching or one that is not positive; otherwise every block but the
  null block is free, in the order of the block ids.
\<close>

theorem pool_init_correct:
  "(case pool_init n caching hbs ev met ints timeout of
      Some (Inr p) \<Rightarrow> 0 < n \<and> pool_inv p (map Blk [1..<n]) \<and> get_num_free_blocks p = int n - 1
    | Some (Inl AssertionError) \<Rightarrow> n = 0
    | Some (Inl ValueError) \<Rightarrow> (\<exists>s. timeout = Some s \<and> (\<not> caching \<or> s \<le> 0))
    | _ \<Rightarrow> False)"
proof (cases "0 < n \<and> (case timeout of None \<Rightarrow> True | Some s \<Rightarrow> caching \<and> 0 < s)")
  case True
  then obtain p where p: "pool_init n caching hbs ev met ints timeout = ret p" "pool_inv p (map Blk [1..<n])"
    using pool_init_ok by metis
  moreover have "get_num_free_blocks p = int n - 1"
    using p(2) True by (simp add: pool_inv_defs get_num_free_blocks_def dll_def of_nat_diff)
  ultimately show ?thesis using True by (simp add: ret_def)
next
  case False
  then show ?thesis by (auto simp: pool_init_def raise_def assert_def bind_def ret_def split: option.splits if_splits)
qed

text \<open>
  In a reachable pool the free list enumerates, without repetition, exactly the blocks of the
  pool that nobody refers to, and the counter of free blocks is their number.
\<close>

theorem free_list_exact:
  assumes "pool_reachable p"
  shows "\<exists>xs. q_get_all_free_blocks (free_block_queue p) = ret xs \<and> distinct xs
    \<and> set xs = {b. valid_block p b \<and> b \<noteq> null_block p \<and> ref_cnt (blocks p b) = 0}
    \<and> get_num_free_blocks p = int (length xs)"
proof -
  from pool_reachable_inv [OF assms] obtain xs where xs: "pool_inv p xs" ..
  then have d: "dll (free_block_queue p) xs" by (simp add: pool_inv_defs)
  with xs show ?thesis
    using fq.repr_wf [OF d] fq.repr_size [OF d] q_get_all_free_blocks_dll [OF d]
    by (auto simp: pool_inv_defs get_num_free_blocks_def is_free_def)
qed

text \<open>
  C2. Allocation takes the unprotected free blocks first, in queue order, then the protected ones,
  and fails with a \<open>ValueError\<close> exactly when there are fewer free blocks than asked for.  The
  blocks returned have one reference, carry no hash when caching is on, and have left the free
  list; every other block is as before.
\<close>

theorem get_new_blocks_order:
  assumes "pool_inv p xs"
  shows "if length xs < n then get_new_blocks n now p = raise ValueError
    else \<exists>p'. get_new_blocks n now p = ret (take n (filter (\<lambda>b. protected_until_ns (blocks p b) \<le> now) xs
            @ filter (\<lambda>b. now < protected_until_ns (blocks p b)) xs), p')
        \<and> (let bs = take n (victims p now xs) in pool_inv p' (filter (\<lambda>b. b \<notin> set bs) xs)
             \<and> (\<forall>b\<in>set bs. ref_cnt (blocks p' b) = 1 \<and> (enable_caching p \<longrightarrow> block_hash (blocks p' b) = None)
                  \<and> protected_until_ns (blocks p' b) = 0)
             \<and> (\<forall>b. b \<notin> set bs \<longrightarrow> blocks p' b = blocks p b))"
proof (cases "length xs < n")
  case False
  then have "n \<le> length xs" by simp
  from get_new_blocks_spec [OF assms this, of now] obtain p' where
    "get_new_blocks n now p = ret (take n (victims p now xs), p')"
    "pool_inv p' (filter (\<lambda>b. b \<notin> set (take n (victims p now xs))) xs)"
    "\<forall>b\<in>set (take n (victims p now xs)). ref_cnt (blocks p' b) = 1 \<and> (enable_caching p \<longrightarrow> block_hash (blocks p' b) = None)
       \<and> protected_until_ns (blocks p' b) = 0"
    "\<forall>b. b \<notin> set (take n (victims p now xs)) \<longrightarrow> blocks p' b = blocks p b" by metis
  with False show ?thesis unfolding victims_def [symmetric] by (auto simp: Let_def)
qed (simp add: get_new_blocks_fail [OF assms])

theorem get_new_blocks_order_witness:
  "\<exists>p p'. pool_init 4 True 16 False False False (Some 3600) = ret p
     \<and> get_new_blocks 2 7 p = ret ([Blk 1, Blk 2], p') \<and> get_new_blocks 5 7 p = raise ValueError"
proof -
  obtain p where p: "pool_init 4 True 16 False False False (Some 3600) = ret p" "pool_inv p (map Blk [1..<4])"
    "\<forall>b. b \<noteq> Blk 0 \<longrightarrow> blocks p b = new_block"
    by (rule pool_init_ok [of 4 True "Some 3600" 16 False False False]) auto
  have m: "map Blk [1..<4] = [Blk 1, Blk 2, Blk 3]" by (simp add: upt_rec)
  show ?thesis
    using get_new_blocks_order [OF p(2) [unfolded m], of 2 7] get_new_blocks_order [OF p(2) [unfolded m], of 5 7] p(1,3)
    by (auto simp: new_block_def)
qed

text \<open>
  Session protection is honoured while another victim is left: when the unprotected free
  blocks suffice, no block that a session stamped and that is still protected is taken.
\<close>

theorem protected_blocks_spared:
  assumes "pool_inv p xs"
    and "n \<le> length (filter (\<lambda>b. protected_until_ns (blocks p b) \<le> now) xs)"
  shows "\<exists>bs p'. get_new_blocks n now p = ret (bs, p') \<and> length bs = n \<and> set bs \<subseteq> set xs
    \<and> (\<forall>b\<in>set bs. protected_until_ns (blocks p b) \<le> now)"
proof -
  let ?u = "filter (\<lambda>b. protected_until_ns (blocks p b) \<le> now) xs"
  have "n \<le> length xs" using assms(2) length_filter_le order_trans by blast
  from get_new_blocks_spec [OF assms(1) this, of now] obtain p' where
    "get_new_blocks n now p = ret (take n (victims p now xs), p')" by metis
  moreover have "take n (victims p now xs) = take n ?u" using assms(2) by (simp add: victims_def)
  moreover have "set (take n ?u) \<subseteq> set ?u" by (rule set_take_subset)
  ultimately show ?thesis using assms(2) by (intro exI [of _ "take n ?u"] exI [of _ p']) auto
qed

theorem protected_blocks_spared_witness:
  "\<exists>p bs p'. pool_init 4 True 16 False False False None = ret p
     \<and> get_new_blocks 3 0 p = ret (bs, p') \<and> length bs = 3"
proof -
  obtain p where p: "pool_init 4 True 16 False False False None = ret p" "pool_inv p (map Blk [1..<4])"
    "\<forall>b. b \<noteq> Blk 0 \<longrightarrow> blocks p b = new_block"
    by (rule pool_init_ok [of 4 True None 16 False False False]) auto
  have "filter (\<lambda>b. protected_until_ns (blocks p b) \<le> 0) (map Blk [1..<4]) = map Blk [1..<4]"
    using p(3) by (auto simp: filter_id_conv new_block_def)
  then have "3 \<le> length (filter (\<lambda>b. protected_until_ns (blocks p b) \<le> 0) (map Blk [1..<4]))"
    by (simp only: length_map length_upt)
  from protected_blocks_spared [OF p(2) this] p(1) show ?thesis by blast
qed

text \<open>
  C4. Giving references back: each count drops by the number of times the block is listed, and
  the blocks that reach zero join the free list, those whose hash cannot serve a hit in front,
  so they are evicted first, and those that stay cached at the end.  The null block never joins.
\<close>

theorem free_blocks_order:
  assumes "pool_inv p xs" and "owns p bs" and "distinct bs"
  shows "\<exists>p'. free_blocks bs now p = ret p'
    \<and> pool_inv p' (filter (\<lambda>b. b \<noteq> null_block p \<and> ref_cnt (blocks p b) = 1 \<and> \<not> keeps_hash p b) bs @ xs
         @ filter (\<lambda>b. b \<noteq> null_block p \<and> ref_cnt (blocks p b) = 1 \<and> keeps_hash p b) bs)
    \<and> (\<forall>b. ref_cnt (blocks p' b) = ref_cnt (blocks p b) - (if b \<in> set bs then 1 else 0))
    \<and> (\<forall>b. block_hash (blocks p' b) = block_hash (blocks p b))"
proof -
  obtain rs p' where r: "free_blocks bs now p = ret p'"
    "pool_inv p' (filter (\<lambda>b. \<not> keeps_hash p b) rs @ xs @ filter (keeps_hash p) rs)"
    "rs = filter (\<lambda>b. b \<noteq> Blk 0 \<and> ref_cnt (blocks p b) = 1) bs"
    "\<forall>b. ref_cnt (blocks p' b) = ref_cnt (blocks p b) - int (count_list bs b)"
    "\<forall>b. block_hash (blocks p' b) = block_hash (blocks p b)"
    by (rule free_blocks_spec [OF assms(1,2), of now]) (rule that, (assumption | simp only: assms(3))+)
  have cnt: "int (count_list bs b) = (if b \<in> set bs then 1 else 0)" for b
    using count_list_distinct [OF assms(3), of b] by simp
  have refs: "\<forall>b. ref_cnt (blocks p' b) = ref_cnt (blocks p b) - (if b \<in> set bs then 1 else 0)"
    using r(4) unfolding cnt .
  have n: "null_block p = Blk 0" using assms(1) by (simp add: pool_inv_defs)
  have "pool_inv p' (filter (\<lambda>b. b \<noteq> null_block p \<and> ref_cnt (blocks p b) = 1 \<and> \<not> keeps_hash p b) bs @ xs
         @ filter (\<lambda>b. b \<noteq> null_block p \<and> ref_cnt (blocks p b) = 1 \<and> keeps_hash p b) bs)"
    using r(2) unfolding r(3) n by (simp add: conj_assoc)
  with r(1,5) refs show ?thesis by blast
qed

text \<open>
  Touching a block of the pool always succeeds: it adds one reference per mention, takes the
  block out of the free list when it was there, and keeps the order of the remaining free blocks
  and every hash.
\<close>

theorem touch_correct:
  assumes "pool_inv p xs" and "\<forall>b\<in>set bs. valid_block p b"
  shows "\<exists>p'. touch bs p = ret p' \<and> pool_inv p' (filter (\<lambda>b. b \<notin> set bs) xs)
    \<and> (\<forall>b. ref_cnt (blocks p' b) = ref_cnt (blocks p b) + int (count_list bs b))
    \<and> (\<forall>b. block_hash (blocks p' b) = block_hash (blocks p b))"
  using touch_spec [OF assms] by blast

text \<open>
  C3. Idle expiry is exact: it takes the hash away from precisely the free cached blocks whose
  idle timeout and session protection have both passed, moves them to the front of the free list
  and returns their number; no other block and no reference count changes.  Skipping the scan
  before the recorded next expiry loses none.
\<close>

theorem expiry_exact:
  assumes "pool_inv p xs"
  shows "\<exists>p'. expire_cached_blocks now p = ret (length (filter (due p now) xs), p')
    \<and> pool_inv p' (filter (due p now) xs @ filter (\<lambda>b. \<not> due p now b) xs)
    \<and> (\<forall>b. if b \<in> set xs \<and> due p now b then block_hash (blocks p' b) = None else blocks p' b = blocks p b)
    \<and> (\<forall>b. ref_cnt (blocks p' b) = ref_cnt (blocks p b))
    \<and> (\<forall>b\<in>set xs. \<not> due p' now b)"
proof -
  from expire_cached_blocks_spec [OF assms, of now] obtain p' where
    e: "expire_cached_blocks now p = ret (length (filter (due p now) xs), p')"
    "pool_inv p' (filter (due p now) xs @ filter (\<lambda>b. \<not> due p now b) xs)"
    "\<forall>b\<in>set (filter (due p now) xs). block_hash (blocks p' b) = None"
    "\<forall>b. b \<notin> set (filter (due p now) xs) \<longrightarrow> blocks p' b = blocks p b"
    "\<forall>b. ref_cnt (blocks p' b) = ref_cnt (blocks p b)" "same_config p p'" by metis
  have "\<not> due p' now b" if "b \<in> set xs" for b
  proof (cases "due p now b")
    case True
    with that e(3) show ?thesis by (simp add: due_def past_deadline_def split: option.split)
  next
    case False
    then have "blocks p' b = blocks p b" using e(4) by simp
    with False e(6) show ?thesis by (auto simp: due_def same_config_def split: option.splits)
  qed
  with e show ?thesis by auto
qed

text \<open>
  Evicting reported ids takes the hash away from those blocks, referenced or not, and changes
  neither the free list nor any other block; an id past the end of the pool is an assertion
  failure.
\<close>

theorem evict_blocks_correct:
  assumes "pool_inv p xs" and "\<forall>i\<in>set is. 0 \<le> i \<and> i < int (num_gpu_blocks p)"
  shows "(\<exists>p'. evict_blocks is p = ret p' \<and> pool_inv p' xs
      \<and> (\<forall>i\<in>set is. block_hash (blocks p' (Blk (nat i))) = None)
      \<and> (\<forall>b. ref_cnt (blocks p' b) = ref_cnt (blocks p b))
      \<and> (\<forall>b. (\<forall>i\<in>set is. b \<noteq> Blk (nat i)) \<longrightarrow> blocks p' b = blocks p b))
    \<and> (\<forall>i js. int (num_gpu_blocks p) \<le> i \<longrightarrow> evict_blocks (is @ i # js) p = raise AssertionError)"
  using evict_blocks_spec [OF assms] evict_blocks_bad_id [OF assms] by (auto simp: quiet_def)

text \<open>
  Resetting the prefix cache succeeds exactly when no block but the null block is referenced,
  and then no key leads to a block any more; otherwise nothing changes.
\<close>

theorem reset_correct:
  assumes "pool_inv p xs"
  shows "\<exists>p'. reset_prefix_cache p = ((\<forall>b. valid_block p b \<and> b \<noteq> null_block p \<longrightarrow> ref_cnt (blocks p b) = 0), p')
    \<and> pool_inv p' xs
    \<and> (if \<forall>b. valid_block p b \<and> b \<noteq> null_block p \<longrightarrow> ref_cnt (blocks p b) = 0
       then \<forall>h g gs. 0 \<le> g \<and> g < 2 ^ 32 \<longrightarrow> get_cached_block h (g # gs) p' = ret None else p' = p)"
proof -
  have n: "null_block p = Blk 0" using assms by (simp add: pool_inv_defs)
  from reset_prefix_cache_spec [OF assms] obtain p' where
    r: "reset_prefix_cache p = ((\<forall>b. valid_block p b \<and> b \<noteq> Blk 0 \<longrightarrow> ref_cnt (blocks p b) = 0), p')" "pool_inv p' xs"
    "fst (reset_prefix_cache p) \<Longrightarrow> \<forall>k. members (cached_block_hash_to_block p') k = {}"
    "\<not> fst (reset_prefix_cache p) \<Longrightarrow> p' = p" by metis
  have "get_cached_block h (g # gs) p' = ret None" if "fst (reset_prefix_cache p)" "0 \<le> g" "g < 2 ^ 32" for h g gs
  proof -
    have "hmap_ok (cached_block_hash_to_block p')" using r(2) by (simp add: pool_inv_def index_inv_def)
    from m_get_one_block_members [OF this, of "group_key h g"] r(3) [OF that(1)]
    have "m_get_one_block (group_key h g) (cached_block_hash_to_block p') = ret None" by (auto split: option.splits)
    then show ?thesis by (simp add: make_key [OF that(2,3)])
  qed
  with r show ?thesis by (auto simp: n)
qed

text \<open>
  Lookups are sound and complete: when every group has a block that carries the key of the
  hash, one such block per group is returned in order; otherwise the lookup is a miss.
\<close>

theorem lookup_correct:
  assumes "pool_inv p xs" and "\<forall>g\<in>set gs. 0 \<le> g \<and> g < 2 ^ 32"
  shows "(\<exists>bs. get_cached_block h gs p = ret (Some bs)
       \<and> list_all2 (\<lambda>g b. valid_block p b \<and> group_key h g \<in> set (own_hashes p b)) gs bs)
    \<or> get_cached_block h gs p = ret None
       \<and> (\<exists>g\<in>set gs. \<forall>b. valid_block p b \<longrightarrow> group_key h g \<notin> set (own_hashes p b))"
  using get_cached_block_spec [of p gs h] assms by (fastforce simp: pool_inv_def intro: valid_real)

text \<open>
  Moving the hashes of a block to a held block without one leaves every key reachable: the
  destination carries exactly the keys of the source, the source none, and no other block changes
  its keys.
\<close>

theorem move_hashes_correct:
  assumes "pool_inv p xs" and "valid_block p src" and "in_use p dst" and "dst \<noteq> null_block p" and "dst \<noteq> src"
    and "block_hash (blocks p dst) = None"
  shows "\<exists>p'. move_block_hashes src dst p = ret p' \<and> pool_inv p' xs
    \<and> set (own_hashes p' dst) = set (own_hashes p src) \<and> own_hashes p' src = []
    \<and> (\<forall>b. valid_block p b \<and> b \<noteq> src \<and> b \<noteq> dst \<longrightarrow> own_hashes p' b = own_hashes p b)
    \<and> (\<forall>b. ref_cnt (blocks p' b) = ref_cnt (blocks p b))"
proof -
  have "dst \<noteq> Blk 0" using assms(1,4) by (simp add: pool_inv_defs)
  with in_use_held [OF assms(1,3)] have "valid_block p dst" "dst \<notin> set xs" by (auto simp: held_def)
  from move_block_hashes_spec [OF assms(1) valid_real [OF assms(2)] this assms(5,6)] obtain p' where
    "move_block_hashes src dst p = ret p'" "pool_inv p' xs" "quiet p p' {dst}"
    "set (own_hashes p' dst) = set (own_hashes p src)" "own_hashes p' src = []"
    "\<forall>c. real_node c \<longrightarrow> c \<noteq> src \<longrightarrow> c \<noteq> dst \<longrightarrow> own_hashes p' c = own_hashes p c" by metis
  then show ?thesis by (intro exI [of _ p']) (auto simp: quiet_def dest: valid_real)
qed

subsection \<open>The properties at work\<close>

text \<open>A pool of four blocks after the first two were allocated.\<close>

definition demo_trace :: "pool \<Rightarrow> pool \<Rightarrow> bool" where
  "demo_trace p0 p \<longleftrightarrow> pool_init 4 True 16 False False False (Some 3600) = ret p0
     \<and> get_new_blocks 2 7 p0 = ret ([Blk 1, Blk 2], p)"

lemma demo_pool:
  obtains p0 p where "demo_trace p0 p" "pool_inv p [Blk 3]" "pool_reachable p" "num_gpu_blocks p = 4"
    "ref_cnt (blocks p (Blk 1)) = 1" "ref_cnt (blocks p (Blk 2)) = 1"
    "block_hash (blocks p (Blk 1)) = None" "block_hash (blocks p (Blk 2)) = None" "null_block p = Blk 0"
    "\<not> enable_kv_cache_events p" "hash_block_size p = 16" "enable_caching p"
    "block_hash (blocks p (Blk 3)) = None"
proof -
  obtain p0 where p0: "pool_init 4 True 16 False False False (Some 3600) = ret p0" "pool_inv p0 (map Blk [1..<4])"
    "num_gpu_blocks p0 = 4" "hash_block_size p0 = 16" "enable_kv_cache_events p0 = False" "enable_caching p0 = True"
    "\<forall>b. b \<noteq> Blk 0 \<longrightarrow> blocks p0 b = new_block"
    by (rule pool_init_ok [of 4 True "Some 3600" 16 False False False]) auto
  have m: "map Blk [1..<4] = [Blk 1, Blk 2, Blk 3]" by (simp add: upt_rec)
  have v: "take 2 (victims p0 7 [Blk 1, Blk 2, Blk 3]) = [Blk 1, Blk 2]"
    using p0(7) by (simp add: victims_def new_block_def)
  have l: "2 \<le> length [Blk 1, Blk 2, Blk 3]" by simp
  from get_new_blocks_spec [OF p0(2) [unfolded m] l, of 7, unfolded v] obtain p where
    p: "get_new_blocks 2 7 p0 = ret ([Blk 1, Blk 2], p)"
    "pool_inv p (filter (\<lambda>b. b \<notin> set [Blk 1, Blk 2]) [Blk 1, Blk 2, Blk 3])"
    "\<forall>b\<in>set [Blk 1, Blk 2]. ref_cnt (blocks p b) = 1 \<and> (enable_caching p0 \<longrightarrow> block_hash (blocks p b) = None)"
    "\<forall>b. b \<notin> set [Blk 1, Blk 2] \<longrightarrow> blocks p b = blocks p0 b" "same_config p0 p" by metis
  have h: "block_hash (blocks p (Blk 3)) = None" using p(4) p0(7) by (simp add: new_block_def)
  have r: "pool_reachable p" using reach_step [OF reach_init [OF p0(1)] step_alloc [OF p(1)]] .
  have n: "null_block p = Blk 0" using p(2) by (simp add: pool_inv_defs)
  show ?thesis
    by (rule that [of p0 p]) (use p0 p r n h in \<open>simp_all add: demo_trace_def same_config_def\<close>)
qed

theorem pool_reachable_inv_witness:
  "\<exists>p0 p. demo_trace p0 p \<and> (\<exists>xs. pool_inv p xs)"
proof -
  obtain p0 p where "demo_trace p0 p" "pool_reachable p" by (rule demo_pool)
  with pool_reachable_inv [of p] show ?thesis by blast
qed

theorem free_list_exact_witness:
  "\<exists>p0 p xs. demo_trace p0 p \<and> q_get_all_free_blocks (free_block_queue p) = ret xs \<and> distinct xs
    \<and> get_num_free_blocks p = int (length xs)"
proof -
  obtain p0 p where "demo_trace p0 p" "pool_reachable p" by (rule demo_pool)
  with free_list_exact [of p] show ?thesis by blast
qed

theorem cache_then_lookup_witness:
  "\<exists>p0 p p' b. demo_trace p0 p
     \<and> cache_full_blocks \<lparr>block_hashes = [[1], [2], [3], [4]], all_token_ids = [], mm_features = [], lora = None,
          cache_salt = None, prompt_embeds = None\<rparr> [Blk 1, Blk 2] 0 2 32 0 (Some [False, True]) p = ret p'
     \<and> get_cached_block [4] [0] p' = ret (Some [b])"
proof -
  obtain p0 p where p: "demo_trace p0 p" "pool_inv p [Blk 3]" "num_gpu_blocks p = 4"
    "ref_cnt (blocks p (Blk 1)) = 1" "ref_cnt (blocks p (Blk 2)) = 1"
    "block_hash (blocks p (Blk 1)) = None" "block_hash (blocks p (Blk 2)) = None"
    "\<not> enable_kv_cache_events p" "hash_block_size p = 16" by (rule demo_pool)
  let ?r = "\<lparr>block_hashes = [[1], [2], [3], [4]], all_token_ids = [], mm_features = [], lora = None,
          cache_salt = None, prompt_embeds = None\<rparr>"
  have pre: "\<forall>b\<in>set [Blk 1, Blk 2]. in_use p b" using p(3-7) by (auto simp: in_use_def valid_block_def)
  have hl: "resolve_block_hashes (Raw (block_hashes ?r)) (hash_block_size p) 32 False None = ret (View [[1], [2], [3], [4]] 2)"
    using p(9) by (simp add: resolve_block_hashes_def assert_def)
  have d: "distinct [Blk 1, Blk 2]" "2 \<le> length [Blk 1, Blk 2]" "(0::int) \<le> 0" "(0::int) < 2 ^ 32" by simp_all
  note c = cache_then_lookup [OF p(2) d(1,2) pre d(3,4) hl, of 0 "Some [False, True]"]
  from c p(6-8) obtain p' where r: "cache_full_blocks ?r [Blk 1, Blk 2] 0 2 32 0 (Some [False, True]) p = ret p'" by auto
  from c r have "\<forall>i. 0 \<le> i \<and> i < 2 \<and> chosen (Some [False, True]) (i - 0) \<and> [Blk 1, Blk 2] ! i \<noteq> Blk 0 \<longrightarrow>
      (\<exists>h b. hl_get (View [[1], [2], [3], [4]] 2) i = ret h \<and> get_cached_block h [0] p' = ret (Some [b])
        \<and> valid_block p' b \<and> group_key h 0 \<in> set (own_hashes p' b))" by blast
  from this [rule_format, of 1] obtain b where "get_cached_block [4] [0] p' = ret (Some [b])"
    by (auto simp: chosen_def Let_def simp del: get_cached_block.simps)
  with r p(1) show ?thesis by blast
qed

theorem free_blocks_order_witness:
  "\<exists>p0 p p'. demo_trace p0 p \<and> free_blocks [Blk 2, Blk 1] 9 p = ret p' \<and> pool_inv p' [Blk 2, Blk 1, Blk 3]"
proof -
  obtain p0 p where p: "demo_trace p0 p" "pool_inv p [Blk 3]" "num_gpu_blocks p = 4"
    "ref_cnt (blocks p (Blk 1)) = 1" "ref_cnt (blocks p (Blk 2)) = 1"
    "block_hash (blocks p (Blk 1)) = None" "block_hash (blocks p (Blk 2)) = None" "null_block p = Blk 0"
    "enable_caching p" by (rule demo_pool)
  have "owns p [Blk 2, Blk 1]"
    using p(2-5) by (auto simp: owns_def valid_block_def pool_inv_defs)
  from free_blocks_order [OF p(2) this, of 9] show ?thesis
    using p by (auto simp: keeps_hash_def)
qed

theorem touch_correct_witness:
  "\<exists>p0 p p'. demo_trace p0 p \<and> touch [Blk 1, Blk 3, Blk 1] p = ret p'
     \<and> pool_inv p' [] \<and> ref_cnt (blocks p' (Blk 1)) = 3"
proof -
  obtain p0 p where p: "demo_trace p0 p" "pool_inv p [Blk 3]" "num_gpu_blocks p = 4"
    "ref_cnt (blocks p (Blk 1)) = 1" by (rule demo_pool)
  have "\<forall>b\<in>set [Blk 1, Blk 3, Blk 1]. valid_block p b" using p(3) by (simp add: valid_block_def)
  from touch_correct [OF p(2) this] obtain p' where
    t: "touch [Blk 1, Blk 3, Blk 1] p = ret p'" "pool_inv p' []"
    "ref_cnt (blocks p' (Blk 1)) = ref_cnt (blocks p (Blk 1)) + int (count_list [Blk 1, Blk 3, Blk 1] (Blk 1))"
    by auto
  have "ref_cnt (blocks p' (Blk 1)) = 3" using t(3) unfolding p(4) by simp
  with t p(1) show ?thesis by blast
qed

theorem expiry_exact_witness:
  "\<exists>p0 p p'. demo_trace p0 p \<and> expire_cached_blocks 10 p = ret (0, p') \<and> pool_inv p' [Blk 3]"
proof -
  obtain p0 p where p: "demo_trace p0 p" "pool_inv p [Blk 3]" "block_hash (blocks p (Blk 3)) = None"
    by (rule demo_pool)
  from p(3) have "\<not> due p 10 (Blk 3)" by (simp add: due_def past_deadline_def split: option.split)
  with expiry_exact [OF p(2), of 10] p(1) show ?thesis by auto
qed

theorem evict_blocks_correct_witness:
  "\<exists>p0 p p'. demo_trace p0 p \<and> evict_blocks [1, 3] p = ret p' \<and> pool_inv p' [Blk 3]
     \<and> evict_blocks [1, 3, 4] p = raise AssertionError"
proof -
  obtain p0 p where p: "demo_trace p0 p" "pool_inv p [Blk 3]" "num_gpu_blocks p = 4" by (rule demo_pool)
  with evict_blocks_correct [OF p(2), of "[1, 3]"] show ?thesis by fastforce
qed

theorem reset_correct_witness:
  "\<exists>p0 p. demo_trace p0 p \<and> reset_prefix_cache p = (False, p)"
proof -
  obtain p0 p where p: "demo_trace p0 p" "pool_inv p [Blk 3]" "num_gpu_blocks p = 4"
    "ref_cnt (blocks p (Blk 1)) = 1" "null_block p = Blk 0" by (rule demo_pool)
  have "\<not> (\<forall>b. valid_block p b \<and> b \<noteq> null_block p \<longrightarrow> ref_cnt (blocks p b) = 0)"
    using p(3-5) by (auto simp: valid_block_def intro!: exI [of _ "Blk 1"])
  with reset_correct [OF p(2)] p(1) show ?thesis by auto
qed

theorem lookup_correct_witness:
  "\<exists>p0 p. demo_trace p0 p \<and> (get_cached_block [5] [0] p = ret None
     \<or> (\<exists>b. get_cached_block [5] [0] p = ret (Some [b]) \<and> valid_block p b))"
proof -
  obtain p0 p where p: "demo_trace p0 p" "pool_inv p [Blk 3]" by (rule demo_pool)
  with lookup_correct [OF p(2), of "[0]" "[5]"] show ?thesis
    by (auto simp: list_all2_Cons1 simp del: get_cached_block.simps)
qed

theorem move_hashes_correct_witness:
  "\<exists>p0 p p'. demo_trace p0 p \<and> move_block_hashes (Blk 1) (Blk 2) p = ret p' \<and> pool_inv p' [Blk 3]"
proof -
  obtain p0 p where p: "demo_trace p0 p" "pool_inv p [Blk 3]" "num_gpu_blocks p = 4"
    "ref_cnt (blocks p (Blk 2)) = 1" "block_hash (blocks p (Blk 2)) = None" "null_block p = Blk 0"
    by (rule demo_pool)
  have "valid_block p (Blk 1)" "in_use p (Blk 2)" using p(3,4) by (auto simp: valid_block_def in_use_def)
  from move_hashes_correct [OF p(2) this] p show ?thesis by auto
qed

theorem pool_init_correct_witness:
  "\<exists>p. pool_init 4 True 16 False False False (Some 3600) = ret p \<and> get_num_free_blocks p = 3"
proof -
  obtain p where p: "pool_init 4 True 16 False False False (Some 3600) = ret p"
    by (rule pool_init_ok [of 4 True "Some 3600" 16 False False False]) auto
  from pool_init_correct [where n = 4 and caching = True and hbs = 16 and ev = False and met = False
      and ints = False and timeout = "Some 3600"] p show ?thesis by (simp add: ret_def)
qed

end
