(* ===== verification/L2_Cache.thy ===== *)
theory L2_Cache
  imports Py_Text
begin

text \<open>
  \<open>L2Lifecycle\<close> of \<^verbatim>\<open>dgx_deploy/lmcache_lifecycle.py\<close>: the marked cache root, the scan that
  removes idle files and trims the rest to its size bound, and the metrics and health it serves.
  The LMCache server writes to the same directory while a scan runs, so the file system is a world
  in which another process may act before every system call; a directory is listed when it is
  opened.  Sizes and times are integers as in the source; the trim ratio is a rational number.
\<close>

subsection \<open>The file system\<close>

datatype fkind = KReg | KDir | KLink | KOther

record fstat =
  st_kind :: fkind
  st_dev :: int
  st_ino :: int
  st_mtime_ns :: int
  st_size :: int

datatype oserr = ENOENT | EOTHER

type_synonym files = "string \<rightharpoonup> fstat"

text \<open>
  \<open>meddle\<close> holds what the other process does before each of the coming system calls, \<open>broken\<close> the
  paths on which calls fail, and \<open>unlinked\<close> the files removed so far.
\<close>

record world =
  fs :: files
  broken :: "string \<Rightarrow> bool"
  meddle :: "(files \<Rightarrow> files) list"
  unlinked :: "(string \<times> fstat) list"

definition tick :: "world \<Rightarrow> world" where
  "tick w = (case meddle w of [] \<Rightarrow> w | f # r \<Rightarrow> w\<lparr>fs := f (fs w), meddle := r\<rparr>)"

definition os_stat :: "string \<Rightarrow> world \<Rightarrow> (oserr + fstat) \<times> world" where
  "os_stat p w =
     (let w = tick w
      in if broken w p then (Inl EOTHER, w)
         else case fs w p of None \<Rightarrow> (Inl ENOENT, w) | Some s \<Rightarrow> (Inr s, w))"

definition os_unlink :: "string \<Rightarrow> world \<Rightarrow> (oserr + unit) \<times> world" where
  "os_unlink p w =
     (let w = tick w
      in if broken w p then (Inl EOTHER, w)
         else case fs w p of
                None \<Rightarrow> (Inl ENOENT, w)
              | Some s \<Rightarrow> if st_kind s = KDir then (Inl EOTHER, w)
                  else (Inr (), w\<lparr>fs := (fs w)(p := None), unlinked := unlinked w @ [(p, s)]\<rparr>))"

subsection \<open>Preparing the root\<close>

definition MARKER_NAME :: string where "MARKER_NAME = ''.dgx-spark-lmcache-l2''"
definition MARKER_CONTENT :: string where "MARKER_CONTENT = ''dgx-spark-lmcache-l2-v1'' @ [CHR 0x0A]"
definition TEMP_DIR_NAME :: string where "TEMP_DIR_NAME = ''.tmp''"

text \<open>The root as the constructor finds it; \<open>temp\<close> is \<^verbatim>\<open>.tmp\<close> with its entries if it is a directory.\<close>

datatype temp_state = NoTemp | TempDir "(string \<times> fkind) list" | TempOther fkind

record l2root =
  root_kind :: "fkind option"
  marker :: "string option"
  temp :: temp_state
  others :: "string list"

datatype l2err = LifecycleError | ValueError | OSError

text \<open>The entries of \<^verbatim>\<open>.tmp\<close> are removed one by one until one of them is not a file.\<close>

fun clear_temp :: "(string \<times> fkind) list \<Rightarrow> bool \<times> (string \<times> fkind) list" where
  "clear_temp [] = (True, [])"
| "clear_temp ((n, k) # es) = (if k \<noteq> KReg then (False, (n, k) # es) else clear_temp es)"

definition prepare_temp_dir :: "l2root \<Rightarrow> (l2err + unit) \<times> l2root" where
  "prepare_temp_dir r =
     (case temp r of
        NoTemp \<Rightarrow> (Inr (), r\<lparr>temp := TempDir []\<rparr>)
      | TempOther k \<Rightarrow> (Inl LifecycleError, r)
      | TempDir es \<Rightarrow> (case clear_temp es of (ok, rest) \<Rightarrow>
          (if ok then Inr () else Inl LifecycleError, r\<lparr>temp := TempDir rest\<rparr>)))"

definition prepare_root :: "bool \<Rightarrow> l2root \<Rightarrow> (l2err + unit) \<times> l2root" where
  "prepare_root initialize_root r0 =
     (let r = (if root_kind r0 = None then r0\<lparr>root_kind := Some KDir\<rparr> else r0)
      in if root_kind r \<in> {Some KReg, Some KOther} then (Inl OSError, r)
         else if root_kind r \<noteq> Some KDir then (Inl LifecycleError, r)
         else case marker r of
                None \<Rightarrow>
                  if \<not> initialize_root then (Inl LifecycleError, r)
                  else if others r \<noteq> [] \<or> temp r \<noteq> NoTemp then (Inl LifecycleError, r)
                  else prepare_temp_dir (r\<lparr>marker := Some MARKER_CONTENT\<rparr>)
              | Some c \<Rightarrow> if c \<noteq> MARKER_CONTENT then (Inl LifecycleError, r) else prepare_temp_dir r)"

subsection \<open>The state of a lifecycle\<close>

record l2 =
  ttl_ns :: int
  max_bytes :: "int option"
  capacity_trim_ratio :: rat
  m_entries :: int
  m_bytes :: int
  expired_entries_total :: int
  expired_bytes_total :: int
  capacity_evicted_entries_total :: int
  capacity_evicted_bytes_total :: int
  scan_errors_total :: int
  last_scan_timestamp_seconds :: rat
  healthy :: bool

definition l2_init :: "rat \<Rightarrow> int option \<Rightarrow> rat \<Rightarrow> bool \<Rightarrow> l2root \<Rightarrow> (l2err + l2) \<times> l2root" where
  "l2_init ttl_seconds maxb ratio initialize_root r =
     (if ttl_seconds \<le> 0 then (Inl ValueError, r)
      else if (case maxb of None \<Rightarrow> False | Some b \<Rightarrow> b \<le> 0) then (Inl ValueError, r)
      else if \<not> (0 < ratio \<and> ratio < 1) then (Inl ValueError, r)
      else case prepare_root initialize_root r of
             (Inl e, r) \<Rightarrow> (Inl e, r)
           | (Inr _, r) \<Rightarrow>
               (Inr \<lparr>ttl_ns = max 1 (py_round (ttl_seconds * 10 ^ 9)), max_bytes = maxb,
                  capacity_trim_ratio = ratio, m_entries = 0, m_bytes = 0, expired_entries_total = 0,
                  expired_bytes_total = 0, capacity_evicted_entries_total = 0,
                  capacity_evicted_bytes_total = 0, scan_errors_total = 0,
                  last_scan_timestamp_seconds = 0, healthy = False\<rparr>, r))"

subsection \<open>Listing the files\<close>

text \<open>
  The directory tree as \<^verbatim>\<open>scandir\<close> reports it; a directory without entries to show is one whose
  listing fails.
\<close>

datatype dnode = DFile string | DDir string "dnode list option" | DUnsafe string

text \<open>One directory: the files to yield, the subdirectories to push, and whether it went through.\<close>

fun scan_dir :: "string \<Rightarrow> bool \<Rightarrow> dnode list \<Rightarrow> string list \<times> (string \<times> dnode list option) list \<times> bool" where
  "scan_dir parent at_root [] = ([], [], True)"
| "scan_dir parent at_root (DFile n # es) =
     (if at_root \<and> (n = MARKER_NAME \<or> n = TEMP_DIR_NAME) then scan_dir parent at_root es
      else case scan_dir parent at_root es of (ys, ds, ok) \<Rightarrow> ((parent @ ''/'' @ n) # ys, ds, ok))"
| "scan_dir parent at_root (DDir n sub # es) =
     (if at_root \<and> (n = MARKER_NAME \<or> n = TEMP_DIR_NAME) then scan_dir parent at_root es
      else case scan_dir parent at_root es of (ys, ds, ok) \<Rightarrow> (ys, (parent @ ''/'' @ n, sub) # ds, ok))"
| "scan_dir parent at_root (DUnsafe n # es) =
     (if at_root \<and> (n = MARKER_NAME \<or> n = TEMP_DIR_NAME) then scan_dir parent at_root es else ([], [], False))"

definition sub_size :: "(string \<times> dnode list option) list \<Rightarrow> nat" where
  "sub_size ds = sum_list (map (\<lambda>(_, s). Suc (case s of None \<Rightarrow> 0 | Some es \<Rightarrow> size_list size es)) ds)"

lemma scan_dir_size: "scan_dir parent at_root es = (ys, ds, ok) \<Longrightarrow> sub_size ds \<le> size_list size es"
proof (induction parent at_root es arbitrary: ys ds ok rule: scan_dir.induct)
  case (3 parent at_root n sub es)
  then show ?case
    by (cases sub) (fastforce simp: sub_size_def split: if_splits prod.splits)+
qed (fastforce simp: sub_size_def split: if_splits prod.splits)+

text \<open>
  \<^verbatim>\<open>_iter_files\<close>: the stack of pending directories, the last one pushed first; the flag says
  whether the walk ended without an error.
\<close>

function iter_files :: "bool \<Rightarrow> (string \<times> dnode list option) list \<Rightarrow> string list \<times> bool" where
  "iter_files at_root [] = ([], True)"
| "iter_files at_root ((parent, None) # pending) = ([], False)"
| "iter_files at_root ((parent, Some es) # pending) =
     (case scan_dir parent at_root es of (ys, ds, ok) \<Rightarrow>
        if \<not> ok then (ys, False)
        else case iter_files False (rev ds @ pending) of (zs, ok) \<Rightarrow> (ys @ zs, ok))"
  by pat_completeness auto

termination
proof (relation "measure (\<lambda>(_, ds). sub_size ds)")
  fix at_root parent es pending ys ds ok y ok'
  assume "(ys, ok') = scan_dir parent at_root es" "(ds, ok) = ok'"
  then have "sub_size ds \<le> size_list size es" using scan_dir_size [of parent at_root es ys ds ok] by simp
  moreover have "sub_size (rev ds @ pending) = sub_size ds + sub_size pending"
    by (simp add: sub_size_def rev_map [symmetric])
  ultimately show "((False, rev ds @ pending), (at_root, (parent, Some es) # pending)) \<in> measure (\<lambda>(_, ds). sub_size ds)"
    by (simp add: sub_size_def)
qed simp

subsection \<open>The scan\<close>

record scan_acc =
  entries :: int
  bytes_used :: int
  expired_entries :: int
  expired_bytes :: int
  capacity_evicted_entries :: int
  capacity_evicted_bytes :: int
  errors :: int
  retained :: "(string \<times> fstat) list"

definition acc0 :: scan_acc where
  "acc0 = \<lparr>entries = 0, bytes_used = 0, expired_entries = 0, expired_bytes = 0,
     capacity_evicted_entries = 0, capacity_evicted_bytes = 0, errors = 0, retained = []\<rparr>"

definition os_error :: "oserr \<Rightarrow> scan_acc \<Rightarrow> scan_acc" where
  "os_error e a = (if e = ENOENT then a else a\<lparr>errors := errors a + 1\<rparr>)"

definition retain :: "string \<Rightarrow> fstat \<Rightarrow> scan_acc \<Rightarrow> scan_acc" where
  "retain p s a = a\<lparr>entries := entries a + 1, bytes_used := bytes_used a + st_size s,
     retained := retained a @ [(p, s)]\<rparr>"

text \<open>The checks before a file is removed: still a regular file, and still the same one.\<close>

definition unchanged :: "fstat \<Rightarrow> fstat \<Rightarrow> bool" where
  "unchanged cur before \<longleftrightarrow> st_kind cur = KReg \<and> st_dev cur = st_dev before
     \<and> st_ino cur = st_ino before \<and> st_mtime_ns cur = st_mtime_ns before"

definition ttl_step :: "int \<Rightarrow> int \<Rightarrow> string \<Rightarrow> scan_acc \<times> world \<Rightarrow> scan_acc \<times> world" where
  "ttl_step ttl now_ns p s =
     (case s of (a, w) \<Rightarrow>
      case os_stat p w of
        (Inl e, w) \<Rightarrow> (os_error e a, w)
      | (Inr before, w) \<Rightarrow>
          if now_ns - st_mtime_ns before \<ge> ttl
          then case os_stat p w of
                 (Inl e, w) \<Rightarrow> (os_error e a, w)
               | (Inr cur, w) \<Rightarrow>
                   if unchanged cur before
                   then case os_unlink p w of
                          (Inl e, w) \<Rightarrow> (os_error e a, w)
                        | (Inr _, w) \<Rightarrow> (a\<lparr>expired_entries := expired_entries a + 1,
                            expired_bytes := expired_bytes a + st_size cur\<rparr>, w)
                   else (retain p cur a, w)
          else (retain p before a, w))"

fun trim_loop :: "int \<Rightarrow> (string \<times> fstat) list \<Rightarrow> scan_acc \<times> world \<Rightarrow> scan_acc \<times> world" where
  "trim_loop target [] s = s"
| "trim_loop target ((p, before) # rs) (a, w) =
     (if bytes_used a \<le> target then (a, w)
      else case os_stat p w of
             (Inl ENOENT, w) \<Rightarrow> trim_loop target rs
               (a\<lparr>entries := entries a - 1, bytes_used := bytes_used a - st_size before\<rparr>, w)
           | (Inl EOTHER, w) \<Rightarrow> trim_loop target rs (a\<lparr>errors := errors a + 1\<rparr>, w)
           | (Inr cur, w) \<Rightarrow>
               if \<not> unchanged cur before then trim_loop target rs (a, w)
               else case os_unlink p w of
                      (Inl ENOENT, w) \<Rightarrow> trim_loop target rs
                        (a\<lparr>entries := entries a - 1, bytes_used := bytes_used a - st_size before\<rparr>, w)
                    | (Inl EOTHER, w) \<Rightarrow> trim_loop target rs (a\<lparr>errors := errors a + 1\<rparr>, w)
                    | (Inr _, w) \<Rightarrow> trim_loop target rs
                        (a\<lparr>entries := entries a - 1, bytes_used := bytes_used a - st_size cur,
                           capacity_evicted_entries := capacity_evicted_entries a + 1,
                           capacity_evicted_bytes := capacity_evicted_bytes a + st_size cur\<rparr>, w))"

definition trim_target :: "int \<Rightarrow> rat \<Rightarrow> int" where
  "trim_target maxb ratio = \<lfloor>of_int maxb * ratio\<rfloor>"

definition scan_files :: "l2 \<Rightarrow> string \<Rightarrow> dnode list option \<Rightarrow> int \<Rightarrow> world \<Rightarrow> scan_acc \<times> world" where
  "scan_files l root_path tree now_ns w =
     (case iter_files True [(root_path, tree)] of (paths, ok) \<Rightarrow>
      case fold (ttl_step (ttl_ns l) now_ns) paths (acc0, w) of (a, w) \<Rightarrow>
      let a = (if ok then a else a\<lparr>errors := errors a + 1\<rparr>)
      in case max_bytes l of
           None \<Rightarrow> (a, w)
         | Some m \<Rightarrow>
             if bytes_used a > m
             then trim_loop (trim_target m (capacity_trim_ratio l))
                    (sort_key (\<lambda>c. st_mtime_ns (snd c)) (retained a)) (a, w)
             else (a, w))"

definition record_scan :: "scan_acc \<Rightarrow> int \<Rightarrow> l2 \<Rightarrow> l2" where
  "record_scan a now_ns l = l\<lparr>m_entries := entries a, m_bytes := bytes_used a,
     expired_entries_total := expired_entries_total l + expired_entries a,
     expired_bytes_total := expired_bytes_total l + expired_bytes a,
     capacity_evicted_entries_total := capacity_evicted_entries_total l + capacity_evicted_entries a,
     capacity_evicted_bytes_total := capacity_evicted_bytes_total l + capacity_evicted_bytes a,
     scan_errors_total := scan_errors_total l + errors a,
     last_scan_timestamp_seconds := of_int now_ns / 10 ^ 9,
     healthy := errors a = 0\<rparr>"

definition scan_once :: "string \<Rightarrow> dnode list option \<Rightarrow> int \<Rightarrow> l2 \<times> world \<Rightarrow> scan_acc \<times> l2 \<times> world" where
  "scan_once root_path tree now_ns s =
     (case s of (l, w) \<Rightarrow> case scan_files l root_path tree now_ns w of (a, w) \<Rightarrow> (a, record_scan a now_ns l, w))"

subsection \<open>Metrics and health\<close>

definition metric :: "string \<Rightarrow> string \<Rightarrow> string \<Rightarrow> string \<Rightarrow> string list" where
  "metric n help kind v = [''# HELP '' @ n @ '' '' @ help, ''# TYPE '' @ n @ '' '' @ kind, n @ '' '' @ v]"

text \<open>\<open>show_float\<close> is Python's text of a float.\<close>

definition prometheus_metrics :: "(rat \<Rightarrow> string) \<Rightarrow> l2 \<Rightarrow> string" where
  "prometheus_metrics show_float l = join [CHR 0x0A]
     (metric ''dgx_lmcache_l2_entries'' ''Current persistent L2 cache files.'' ''gauge'' (show_int (m_entries l))
      @ metric ''dgx_lmcache_l2_bytes'' ''Current persistent L2 cache bytes.'' ''gauge'' (show_int (m_bytes l))
      @ metric ''dgx_lmcache_l2_expired_entries_total'' ''Files removed by TTL.'' ''counter''
          (show_int (expired_entries_total l))
      @ metric ''dgx_lmcache_l2_expired_bytes_total'' ''Bytes removed by TTL.'' ''counter''
          (show_int (expired_bytes_total l))
      @ metric ''dgx_lmcache_l2_capacity_evicted_entries_total'' ''Files removed by size-bounded LRU.'' ''counter''
          (show_int (capacity_evicted_entries_total l))
      @ metric ''dgx_lmcache_l2_capacity_evicted_bytes_total'' ''Bytes removed by size-bounded LRU.'' ''counter''
          (show_int (capacity_evicted_bytes_total l))
      @ metric ''dgx_lmcache_l2_scan_errors_total'' ''Lifecycle scan errors.'' ''counter''
          (show_int (scan_errors_total l))
      @ metric ''dgx_lmcache_l2_last_scan_timestamp_seconds'' ''Last completed scan.'' ''gauge''
          (show_float (last_scan_timestamp_seconds l))
      @ [''''])"

record response =
  status :: nat
  content_type :: string
  body :: string

definition do_GET :: "(rat \<Rightarrow> string) \<Rightarrow> string \<Rightarrow> l2 \<Rightarrow> response" where
  "do_GET show_float path l =
     (if path = ''/metrics''
      then \<lparr>status = 200, content_type = ''text/plain; version=0.0.4; charset=utf-8'',
             body = prometheus_metrics show_float l\<rparr>
      else if path = ''/health''
      then \<lparr>status = if healthy l then 200 else 503, content_type = ''text/plain; charset=utf-8'',
             body = (if healthy l then ''ok'' else ''unhealthy'') @ [CHR 0x0A]\<rparr>
      else \<lparr>status = 404, content_type = ''text/plain; charset=utf-8'', body = ''not found'' @ [CHR 0x0A]\<rparr>)"

end
