(* ===== verification/L2_Scan.thy ===== *)
theory L2_Scan
  imports L2_Cache "HOL-Library.Multiset"
begin

text \<open>
  What a scan of the L2 cache does: its accounting under any interference, which files it can
  touch at all, and, when nobody interferes, exactly which files go and why.
\<close>

subsection \<open>System calls\<close>

lemma tick_simps [simp]: "unlinked (tick w) = unlinked w" "broken (tick w) = broken w"
  by (simp_all add: tick_def split: list.split)

lemma os_stat_unlinked [simp]: "unlinked (snd (os_stat p w)) = unlinked w"
  by (simp add: os_stat_def Let_def split: option.split)

lemma os_stat_unlinked' : "os_stat p w = (r, w') \<Longrightarrow> unlinked w' = unlinked w"
  using os_stat_unlinked [of p w] by simp

lemma os_unlink_log: "os_unlink p w = (r, w') \<Longrightarrow>
    (case r of Inl _ \<Rightarrow> unlinked w' = unlinked w | Inr _ \<Rightarrow> \<exists>s. unlinked w' = unlinked w @ [(p, s)])"
  by (auto simp: os_unlink_def Let_def split: option.splits if_splits)

subsection \<open>Accounting under interference\<close>

text \<open>\<open>logged ps\<close>: removals so far are the counted ones, and all of them are of paths in \<open>ps\<close>.\<close>

definition logged :: "string set \<Rightarrow> (string \<times> fstat) list \<Rightarrow> scan_acc \<times> world \<Rightarrow> bool" where
  "logged ps old s \<longleftrightarrow> (case s of (a, w) \<Rightarrow> \<exists>new. unlinked w = old @ new \<and> (\<forall>x\<in>set new. fst x \<in> ps)
     \<and> int (length new) = expired_entries a + capacity_evicted_entries a
     \<and> (\<forall>x\<in>set (retained a). fst x \<in> ps)
     \<and> 0 \<le> expired_entries a \<and> 0 \<le> capacity_evicted_entries a \<and> 0 \<le> errors a)"

lemma logged_same: "logged ps old (a, w) \<Longrightarrow> unlinked w' = unlinked w \<Longrightarrow> retained b = retained a \<Longrightarrow>
    expired_entries b = expired_entries a \<Longrightarrow> capacity_evicted_entries b = capacity_evicted_entries a \<Longrightarrow>
    errors a \<le> errors b \<Longrightarrow> logged ps old (b, w')"
  by (auto simp: logged_def)

lemma logged_one:
  assumes "logged ps old (a, w)" "unlinked w' = unlinked w @ [(p, s)]" "p \<in> ps"
    "expired_entries b + capacity_evicted_entries b = expired_entries a + capacity_evicted_entries a + 1"
    "expired_entries a \<le> expired_entries b" "capacity_evicted_entries a \<le> capacity_evicted_entries b"
    "retained b = retained a" "errors b = errors a"
  shows "logged ps old (b, w')"
proof -
  from assms(1) obtain new where "unlinked w = old @ new" "\<forall>x\<in>set new. fst x \<in> ps"
    "int (length new) = expired_entries a + capacity_evicted_entries a" "\<forall>x\<in>set (retained a). fst x \<in> ps"
    "0 \<le> expired_entries a" "0 \<le> capacity_evicted_entries a" "0 \<le> errors a" by (auto simp: logged_def)
  with assms(2-) show ?thesis unfolding logged_def by (auto intro!: exI [of _ "new @ [(p, s)]"])
qed

lemma logged_retained: "logged ps old (a, w) \<Longrightarrow> \<forall>x\<in>set (retained a). fst x \<in> ps"
  by (auto simp: logged_def)

lemma logged_retain: "logged ps old (a, w) \<Longrightarrow> unlinked w' = unlinked w \<Longrightarrow> p \<in> ps \<Longrightarrow>
    logged ps old (retain p s a, w')"
  by (auto simp: logged_def retain_def)

lemma os_error_simps [simp]:
  "retained (os_error e a) = retained a" "expired_entries (os_error e a) = expired_entries a"
  "capacity_evicted_entries (os_error e a) = capacity_evicted_entries a" "errors a \<le> errors (os_error e a)"
  by (simp_all add: os_error_def)

lemma retain_simps [simp]:
  "retained (retain p s a) = retained a @ [(p, s)]" "expired_entries (retain p s a) = expired_entries a"
  "capacity_evicted_entries (retain p s a) = capacity_evicted_entries a" "errors (retain p s a) = errors a"
  "entries (retain p s a) = entries a + 1" "bytes_used (retain p s a) = bytes_used a + st_size s"
  "expired_bytes (retain p s a) = expired_bytes a" "capacity_evicted_bytes (retain p s a) = capacity_evicted_bytes a"
  by (simp_all add: retain_def)

lemma ttl_step_logged:
  assumes l: "logged ps old (a, w)" and p: "p \<in> ps"
  shows "logged ps old (ttl_step ttl now p (a, w))"
proof -
  obtain r1 w1 where 1: "os_stat p w = (r1, w1)" by fastforce
  note u1 = os_stat_unlinked' [OF 1]
  show ?thesis
  proof (cases r1)
    case (Inl e)
    with 1 show ?thesis by (auto simp: ttl_step_def intro!: logged_same [OF l u1])
  next
    case r1: (Inr before)
    show ?thesis
    proof (cases "now - st_mtime_ns before \<ge> ttl")
      case False
      with 1 r1 p show ?thesis by (auto simp: ttl_step_def intro!: logged_retain [OF l u1])
    next
      case True
      obtain r2 w2 where 2: "os_stat p w1 = (r2, w2)" by fastforce
      have u2: "unlinked w2 = unlinked w" using os_stat_unlinked' [OF 2] u1 by simp
      show ?thesis
      proof (cases r2)
        case (Inl e)
        with 1 2 r1 True show ?thesis
          by (auto simp: ttl_step_def intro!: logged_same [OF l u2])
      next
        case r2: (Inr cur)
        obtain r3 w3 where 3: "os_unlink p w2 = (r3, w3)" by fastforce
        note log = os_unlink_log [OF 3, unfolded u2]
        show ?thesis
        proof (cases "unchanged cur before")
          case False
          with 1 2 r1 r2 True p u2 show ?thesis by (auto simp: ttl_step_def intro!: logged_retain [OF l])
        next
          case same: True
          show ?thesis
          proof (cases r3)
            case (Inl e)
            with log same 1 2 3 r1 r2 True show ?thesis by (auto simp: ttl_step_def intro!: logged_same [OF l])
          next
            case (Inr u)
            with log obtain s where "unlinked w3 = unlinked w @ [(p, s)]" by auto
            with Inr same 1 2 3 r1 r2 True p show ?thesis by (auto simp: ttl_step_def intro: logged_one [OF l])
          qed
        qed
      qed
    qed
  qed
qed

lemma ttl_fold_logged:
  "logged ps old s \<Longrightarrow> set paths \<subseteq> ps \<Longrightarrow> logged ps old (fold (ttl_step ttl now) paths s)"
proof (induction paths arbitrary: s)
  case (Cons p paths)
  obtain a w where s: "s = (a, w)" by fastforce
  from Cons.prems have "logged ps old (ttl_step ttl now p s)" unfolding s by (intro ttl_step_logged) auto
  with Cons show ?case by simp
qed simp

lemma trim_loop_logged:
  "logged ps old s \<Longrightarrow> \<forall>x\<in>set rs. fst x \<in> ps \<Longrightarrow> logged ps old (trim_loop target rs s)"
proof (induction target rs s rule: trim_loop.induct)
  case (2 target p before rs a w)
  let ?gone = "a\<lparr>entries := entries a - 1, bytes_used := bytes_used a - st_size before\<rparr>"
  have p: "p \<in> ps" "\<forall>x\<in>set rs. fst x \<in> ps" using 2(8) by auto
  show ?case
  proof (cases "bytes_used a \<le> target")
    case False
    obtain r1 w1 where 1: "os_stat p w = (r1, w1)" by fastforce
    note u1 = os_stat_unlinked' [OF 1]
    show ?thesis
    proof (cases r1)
      case (Inl e)
      have "logged ps old (?gone, w1)" "logged ps old (a\<lparr>errors := errors a + 1\<rparr>, w1)"
        by (auto intro!: logged_same [OF 2(7) u1])
      with 2(1,2) [OF False] 1 Inl p False show ?thesis by (cases e) auto
    next
      case r1: (Inr cur)
      show ?thesis
      proof (cases "unchanged cur before")
        case F: False
        have "logged ps old (a, w1)" by (auto intro!: logged_same [OF 2(7) u1])
        with 2(3) [OF False 1 [symmetric]] 1 r1 F False p show ?thesis by auto
      next
        case True
        obtain r2 w2 where 3: "os_unlink p w1 = (r2, w2)" by fastforce
        note log = os_unlink_log [OF 3, unfolded u1]
        show ?thesis
        proof (cases r2)
          case (Inl e)
          with log have "logged ps old (?gone, w2)" "logged ps old (a\<lparr>errors := errors a + 1\<rparr>, w2)"
            by (auto intro!: logged_same [OF 2(7)])
          with 2(4,5) [OF False 1 [symmetric] r1] Inl 1 3 r1 True False p show ?thesis by (cases e) auto
        next
          case (Inr _)
          with log obtain s where "unlinked w2 = unlinked w @ [(p, s)]" by auto
          then have "logged ps old (a\<lparr>entries := entries a - 1, bytes_used := bytes_used a - st_size cur,
                           capacity_evicted_entries := capacity_evicted_entries a + 1,
                           capacity_evicted_bytes := capacity_evicted_bytes a + st_size cur\<rparr>, w2)"
            by (rule logged_one [OF 2(7)]) (use p in auto)
          with 2(6) [OF False 1 [symmetric] r1] Inr 1 3 r1 True False p show ?thesis by auto
        qed
      qed
    qed
  qed (use 2(7) in simp)
qed simp

lemma scan_files_logged:
  "logged (set (fst (iter_files True [(root_path, tree)]))) (unlinked w) (scan_files l root_path tree now w)"
proof -
  obtain paths ok where i: "iter_files True [(root_path, tree)] = (paths, ok)" by fastforce
  obtain a w1 where f: "fold (ttl_step (ttl_ns l) now) paths (acc0, w) = (a, w1)" by fastforce
  have "logged (set paths) (unlinked w) (acc0, w)" by (simp add: logged_def acc0_def)
  from ttl_fold_logged [OF this, of paths "ttl_ns l" now] f
  have la: "logged (set paths) (unlinked w) (a, w1)" by simp
  define b where "b = (if ok then a else a\<lparr>errors := errors a + 1\<rparr>)"
  have lb: "logged (set paths) (unlinked w) (b, w1)"
    by (rule logged_same [OF la refl]) (simp_all add: b_def)
  show ?thesis
  proof (cases "max_bytes l")
    case None
    with lb show ?thesis by (simp add: scan_files_def i f b_def [symmetric] Let_def)
  next
    case (Some m)
    have "logged (set paths) (unlinked w) (trim_loop t (sort_key (\<lambda>c. st_mtime_ns (snd c)) (retained b)) (b, w1))" for t
      by (rule trim_loop_logged [OF lb]) (use logged_retained [OF lb] in simp)
    with Some lb show ?thesis by (simp add: scan_files_def i f b_def [symmetric] Let_def)
  qed
qed

subsection \<open>Without interference\<close>

lemma restrict_map_UNIV [simp]: "m |` UNIV = m"
  by (simp add: restrict_map_def)

definition calm :: "world \<Rightarrow> bool" where
  "calm w \<longleftrightarrow> meddle w = [] \<and> (\<forall>p. \<not> broken w p)"

definition regular :: "files \<Rightarrow> string \<Rightarrow> bool" where
  "regular F p \<longleftrightarrow> (\<exists>s. F p = Some s \<and> st_kind s = KReg)"

lemma calm_stat: "calm w \<Longrightarrow> os_stat p w = (case fs w p of None \<Rightarrow> Inl ENOENT | Some s \<Rightarrow> Inr s, w)"
  by (simp add: calm_def os_stat_def tick_def Let_def split: option.split)

lemma calm_unlink: "calm w \<Longrightarrow> fs w p = Some s \<Longrightarrow> st_kind s = KReg \<Longrightarrow>
    os_unlink p w = (Inr (), w\<lparr>fs := (fs w)(p := None), unlinked := unlinked w @ [(p, s)]\<rparr>)"
  by (simp add: calm_def os_unlink_def tick_def Let_def)

lemma calm_upd [simp]: "calm (w\<lparr>fs := F, unlinked := u\<rparr>) = calm w"
  by (simp add: calm_def)

lemma unchanged_refl [simp]: "unchanged s s \<longleftrightarrow> st_kind s = KReg"
  by (simp add: unchanged_def)

definition stat_of :: "files \<Rightarrow> string \<Rightarrow> string \<times> fstat" where
  "stat_of F p = (p, the (F p))"

definition idle :: "int \<Rightarrow> int \<Rightarrow> files \<Rightarrow> string \<Rightarrow> bool" where
  "idle ttl now_ns F p \<longleftrightarrow> ttl \<le> now_ns - st_mtime_ns (the (F p))"

definition sizes :: "(string \<times> fstat) list \<Rightarrow> int" where
  "sizes rs = sum_list (map (\<lambda>r. st_size (snd r)) rs)"

lemma sizes_simps [simp]: "sizes [] = 0" "sizes (r # rs) = st_size (snd r) + sizes rs"
  "sizes (rs @ ts) = sizes rs + sizes ts"
  by (simp_all add: sizes_def)

definition after_ttl :: "(string \<times> fstat) list \<Rightarrow> (string \<times> fstat) list \<Rightarrow> scan_acc \<Rightarrow> scan_acc" where
  "after_ttl gone keep a = a\<lparr>entries := entries a + int (length keep), bytes_used := bytes_used a + sizes keep,
     expired_entries := expired_entries a + int (length gone), expired_bytes := expired_bytes a + sizes gone,
     retained := retained a @ keep\<rparr>"

lemma ttl_step_calm:
  assumes "calm w" "fs w p = Some s" "st_kind s = KReg"
  shows "ttl_step ttl now p (a, w) =
    (if idle ttl now (fs w) p then (after_ttl [stat_of (fs w) p] [] a,
        w\<lparr>fs := (fs w)(p := None), unlinked := unlinked w @ [stat_of (fs w) p]\<rparr>)
     else (after_ttl [] [stat_of (fs w) p] a, w))"
  using assms by (simp add: ttl_step_def calm_stat calm_unlink idle_def stat_of_def after_ttl_def retain_def)

lemma after_ttl_after_ttl: "after_ttl g2 k2 (after_ttl g1 k1 a) = after_ttl (g1 @ g2) (k1 @ k2) a"
  by (simp add: after_ttl_def)

lemma after_ttl_Nil [simp]: "after_ttl [] [] a = a"
  by (simp add: after_ttl_def)

lemma ttl_fold_calm:
  "calm w \<Longrightarrow> distinct ps \<Longrightarrow> \<forall>p\<in>set ps. regular (fs w) p \<Longrightarrow>
   fold (ttl_step ttl now) ps (a, w) =
     (let gone = filter (idle ttl now (fs w)) ps; keep = filter (\<lambda>p. \<not> idle ttl now (fs w) p) ps
      in (after_ttl (map (stat_of (fs w)) gone) (map (stat_of (fs w)) keep) a,
          w\<lparr>fs := fs w |` (- set gone), unlinked := unlinked w @ map (stat_of (fs w)) gone\<rparr>))"
proof (induction ps arbitrary: a w)
  case (Cons p ps)
  then obtain s where s: "fs w p = Some s" "st_kind s = KReg" by (auto simp: regular_def)
  show ?case
  proof (cases "idle ttl now (fs w) p")
    case False
    with Cons s show ?thesis by (simp add: ttl_step_calm Let_def after_ttl_after_ttl)
  next
    case True
    let ?w = "w\<lparr>fs := (fs w)(p := None), unlinked := unlinked w @ [stat_of (fs w) p]\<rparr>"
    have same: "(fs ?w) q = fs w q" if "q \<in> set ps" for q using Cons.prems(2) that by auto
    have reg: "\<forall>q\<in>set ps. regular (fs ?w) q" using Cons.prems(3) same by (simp add: regular_def)
    have IH: "fold (ttl_step ttl now) ps (b, ?w) =
     (let gone = filter (idle ttl now (fs ?w)) ps; keep = filter (\<lambda>p. \<not> idle ttl now (fs ?w) p) ps
      in (after_ttl (map (stat_of (fs ?w)) gone) (map (stat_of (fs ?w)) keep) b,
          ?w\<lparr>fs := fs ?w |` (- set gone), unlinked := unlinked ?w @ map (stat_of (fs ?w)) gone\<rparr>))" for b
      by (rule Cons.IH [OF _ _ reg]) (use Cons.prems(1,2) in auto)
    have f: "filter (idle ttl now (fs ?w)) ps = filter (idle ttl now (fs w)) ps"
      "filter (\<lambda>p. \<not> idle ttl now (fs ?w) p) ps = filter (\<lambda>p. \<not> idle ttl now (fs w) p) ps"
      using Cons.prems(2) by (auto intro!: filter_cong simp: idle_def split: if_splits)
    have m: "map (stat_of ((fs w)(p := None))) (filter P ps) = map (stat_of (fs w)) (filter P ps)" for P
      using Cons.prems(2) by (auto simp: stat_of_def)
    have "(fs w)(p := None) |` (- set gone) = fs w |` (- insert p (set gone))" for gone
      by (auto simp: restrict_map_def fun_eq_iff)
    then show ?thesis
      using Cons.prems(1) s True IH [unfolded f]
      by (simp add: ttl_step_calm Let_def after_ttl_after_ttl m)
  qed
qed (simp add: Let_def)

text \<open>How many files the capacity trim removes: as many as it takes to get down to the target.\<close>

fun evict_count :: "int \<Rightarrow> int \<Rightarrow> (string \<times> fstat) list \<Rightarrow> nat" where
  "evict_count target used [] = 0"
| "evict_count target used (r # rs) =
     (if used \<le> target then 0 else Suc (evict_count target (used - st_size (snd r)) rs))"

definition after_trim :: "(string \<times> fstat) list \<Rightarrow> scan_acc \<Rightarrow> scan_acc" where
  "after_trim gone a = a\<lparr>entries := entries a - int (length gone), bytes_used := bytes_used a - sizes gone,
     capacity_evicted_entries := capacity_evicted_entries a + int (length gone),
     capacity_evicted_bytes := capacity_evicted_bytes a + sizes gone\<rparr>"

lemma trim_calm:
  "calm w \<Longrightarrow> distinct (map fst rs) \<Longrightarrow> \<forall>(p, s)\<in>set rs. fs w p = Some s \<and> st_kind s = KReg \<Longrightarrow>
   trim_loop target rs (a, w) =
     (let gone = take (evict_count target (bytes_used a) rs) rs
      in (after_trim gone a, w\<lparr>fs := fs w |` (- fst ` set gone), unlinked := unlinked w @ gone\<rparr>))"
proof (induction rs arbitrary: a w)
  case (Cons r rs)
  obtain p s where r: "r = (p, s)" by fastforce
  with Cons.prems have s: "fs w p = Some s" "st_kind s = KReg" by auto
  show ?case
  proof (cases "bytes_used a \<le> target")
    case False
    let ?w = "w\<lparr>fs := (fs w)(p := None), unlinked := unlinked w @ [(p, s)]\<rparr>"
    let ?a = "a\<lparr>entries := entries a - 1, bytes_used := bytes_used a - st_size s,
                           capacity_evicted_entries := capacity_evicted_entries a + 1,
                           capacity_evicted_bytes := capacity_evicted_bytes a + st_size s\<rparr>"
    have "trim_loop target (r # rs) (a, w) = trim_loop target rs (?a, ?w)"
      using Cons.prems(1) s False by (simp add: r calm_stat calm_unlink)
    also have "\<dots> = (let gone = take (evict_count target (bytes_used ?a) rs) rs
      in (after_trim gone ?a, ?w\<lparr>fs := fs ?w |` (- fst ` set gone), unlinked := unlinked ?w @ gone\<rparr>))"
    proof (rule Cons.IH)
      show "\<forall>(q, t)\<in>set rs. fs ?w q = Some t \<and> st_kind t = KReg"
        using Cons.prems(2,3) by (force simp: r)
    qed (use Cons.prems in auto)
    moreover have "(fs w)(p := None) |` (- A) = fs w |` (- insert p A)" for A
      by (auto simp: restrict_map_def fun_eq_iff)
    ultimately show ?thesis using False by (simp add: r Let_def after_trim_def)
  qed (simp add: r Let_def after_trim_def)
qed (simp add: Let_def after_trim_def)

lemma evict_count_reaches:
  assumes "\<forall>r\<in>set rs. 0 \<le> st_size (snd r)" "used = sizes rs" "0 \<le> target"
  shows "used - sizes (take (evict_count target used rs) rs) \<le> target"
  using assms by (induction rs arbitrary: used) auto

lemma evict_count_needed:
  "i < evict_count target used rs \<Longrightarrow> target < used - sizes (take i rs)"
proof (induction rs arbitrary: used i)
  case (Cons r rs)
  then show ?case by (cases i) (auto split: if_splits simp: algebra_simps dest: Cons.IH)
qed simp

definition oldest_first :: "files \<Rightarrow> string list \<Rightarrow> (string \<times> fstat) list" where
  "oldest_first F ps = sort_key (\<lambda>c. st_mtime_ns (snd c)) (map (stat_of F) ps)"

definition evicted :: "l2 \<Rightarrow> files \<Rightarrow> string list \<Rightarrow> (string \<times> fstat) list" where
  "evicted l F ps = (case max_bytes l of None \<Rightarrow> [] | Some m \<Rightarrow>
     if sizes (map (stat_of F) ps) > m
     then take (evict_count (trim_target m (capacity_trim_ratio l)) (sizes (map (stat_of F) ps)) (oldest_first F ps))
            (oldest_first F ps)
     else [])"

lemma scan_files_calm:
  fixes l :: l2 and now :: int
  assumes c: "calm w" and i: "iter_files True [(root_path, tree)] = (ps, ok)"
    and d: "distinct ps" and r: "\<forall>p\<in>set ps. regular (fs w) p"
  defines "gone \<equiv> filter (idle (ttl_ns l) now (fs w)) ps" and "keep \<equiv> filter (\<lambda>p. \<not> idle (ttl_ns l) now (fs w) p) ps"
  shows "\<exists>a w'. scan_files l root_path tree now w = (a, w')
    \<and> fs w' = fs w |` (- (set gone \<union> fst ` set (evicted l (fs w) keep)))
    \<and> unlinked w' = unlinked w @ map (stat_of (fs w)) gone @ evicted l (fs w) keep
    \<and> expired_entries a = int (length gone) \<and> capacity_evicted_entries a = int (length (evicted l (fs w) keep))
    \<and> entries a = int (length keep) - int (length (evicted l (fs w) keep))
    \<and> bytes_used a = sizes (map (stat_of (fs w)) keep) - sizes (evicted l (fs w) keep)
    \<and> expired_bytes a = sizes (map (stat_of (fs w)) gone) \<and> capacity_evicted_bytes a = sizes (evicted l (fs w) keep)
    \<and> errors a = (if ok then 0 else 1)"
proof -
  define a where "a = after_ttl (map (stat_of (fs w)) gone) (map (stat_of (fs w)) keep) acc0"
  define w1 where "w1 = w\<lparr>fs := fs w |` (- set gone), unlinked := unlinked w @ map (stat_of (fs w)) gone\<rparr>"
  have f: "fold (ttl_step (ttl_ns l) now) ps (acc0, w) = (a, w1)"
    unfolding ttl_fold_calm [OF c d r] by (simp add: Let_def a_def w1_def gone_def keep_def)
  define b where "b = (if ok then a else a\<lparr>errors := errors a + 1\<rparr>)"
  have b: "bytes_used b = sizes (map (stat_of (fs w)) keep)" "retained b = map (stat_of (fs w)) keep"
    "entries b = int (length keep)" "expired_entries b = int (length gone)"
    "expired_bytes b = sizes (map (stat_of (fs w)) gone)" "capacity_evicted_entries b = 0"
    "capacity_evicted_bytes b = 0" "errors b = (if ok then 0 else 1)"
    by (simp_all add: b_def a_def after_ttl_def acc0_def)
  have sf: "scan_files l root_path tree now w = (case max_bytes l of None \<Rightarrow> (b, w1)
      | Some m \<Rightarrow> if bytes_used b > m then trim_loop (trim_target m (capacity_trim_ratio l))
          (oldest_first (fs w) keep) (b, w1) else (b, w1))"
    unfolding oldest_first_def b(2) [symmetric]
    by (cases ok) (simp_all add: scan_files_def i f Let_def b_def split: option.split)
  show ?thesis
  proof (cases "evicted l (fs w) keep = [] \<and> (\<forall>m. max_bytes l = Some m \<longrightarrow> bytes_used b \<le> m)")
    case True
    then have sc: "scan_files l root_path tree now w = (b, w1)"
      by (auto simp: sf split: option.splits)
    from True have ev: "evicted l (fs w) keep = []" by blast
    show ?thesis unfolding ev
      by (intro exI [of _ b] exI [of _ w1]) (simp add: sc b w1_def)
  next
    case False
    then obtain m where m: "max_bytes l = Some m" "bytes_used b > m"
      by (auto simp: evicted_def b(1) split: option.splits if_splits)
    let ?t = "trim_target m (capacity_trim_ratio l)" and ?rs = "oldest_first (fs w) keep"
    have e: "evicted l (fs w) keep = take (evict_count ?t (bytes_used b) ?rs) ?rs"
      using m by (simp add: evicted_def b(1))
    have "distinct (map fst (map (stat_of (fs w)) keep))"
      using d by (simp add: stat_of_def comp_def keep_def)
    then have "distinct (map fst ?rs)"
      unfolding oldest_first_def distinct_map distinct_sort set_sort .
    moreover have "\<forall>(p, s)\<in>set ?rs. fs w1 p = Some s \<and> st_kind s = KReg"
    proof -
      have "fs w1 p = Some s \<and> st_kind s = KReg" if "(p, s) \<in> set ?rs" for p s
      proof -
        from that have p: "p \<in> set keep" "s = the (fs w p)" by (auto simp: oldest_first_def stat_of_def)
        then have "p \<notin> set gone" "regular (fs w) p" using r by (auto simp: keep_def gone_def)
        with p show ?thesis by (auto simp: w1_def regular_def)
      qed
      then show ?thesis by auto
    qed
    moreover have "calm w1" using c by (simp add: w1_def)
    ultimately have t: "trim_loop ?t ?rs (b, w1) = (after_trim (evicted l (fs w) keep) b,
        w1\<lparr>fs := fs w1 |` (- fst ` set (evicted l (fs w) keep)), unlinked := unlinked w1 @ evicted l (fs w) keep\<rparr>)"
      by (simp add: trim_calm e Let_def)
    have "scan_files l root_path tree now w = trim_loop ?t ?rs (b, w1)"
      using m by (simp add: sf)
    moreover have "fs w1 |` (- fst ` set (evicted l (fs w) keep))
        = fs w |` (- (set gone \<union> fst ` set (evicted l (fs w) keep)))"
      by (auto simp: w1_def Int_commute)
    ultimately show ?thesis using b t by (simp add: after_trim_def w1_def)
  qed
qed

subsection \<open>Properties of the L2 lifecycle\<close>

text \<open>
  The root is accepted exactly when it is a directory with the right marker, or a fresh empty one
  that may be initialised, and its temporary directory holds nothing but files; then the marker is
  in place and the temporary directory is empty.  A refusal never writes a marker and never
  touches an entry outside the temporary directory.
\<close>

theorem prepare_root_correct:
  "(fst (prepare_root ini r) = Inr () \<longleftrightarrow>
      root_kind r \<in> {None, Some KDir}
      \<and> (marker r = Some MARKER_CONTENT \<or> marker r = None \<and> ini \<and> others r = [] \<and> temp r = NoTemp)
      \<and> (temp r = NoTemp \<or> (\<exists>es. temp r = TempDir es \<and> (\<forall>e\<in>set es. snd e = KReg))))
   \<and> (if fst (prepare_root ini r) = Inr ()
      then snd (prepare_root ini r) = r\<lparr>root_kind := Some KDir, marker := Some MARKER_CONTENT, temp := TempDir []\<rparr>
      else marker (snd (prepare_root ini r)) = marker r \<and> others (snd (prepare_root ini r)) = others r)"
proof -
  have clear: "clear_temp es = (if \<forall>e\<in>set es. snd e = KReg then (True, []) else (False, dropWhile (\<lambda>e. snd e = KReg) es))" for es
    by (induction es rule: clear_temp.induct) auto
  obtain rk mk tm os where r: "r = \<lparr>root_kind = rk, marker = mk, temp = tm, others = os\<rparr>" by (cases r)
  show ?thesis
    unfolding r
    by (cases rk; cases "the rk"; cases mk; cases tm)
      (simp_all add: prepare_root_def prepare_temp_dir_def Let_def clear)
qed

text \<open>
  C26. Whatever the cache server does between the system calls of a scan, every file the scan removes
  was listed under the root in this scan, and the numbers it reports as expired and as evicted are
  together exactly the number of files it removed.
\<close>

theorem scan_accounts_for_removals:
  "\<exists>new. unlinked (snd (snd (scan_once root_path tree now (l, w)))) = unlinked w @ new
    \<and> fst ` set new \<subseteq> set (fst (iter_files True [(root_path, tree)]))
    \<and> int (length new) = expired_entries (fst (scan_once root_path tree now (l, w)))
        + capacity_evicted_entries (fst (scan_once root_path tree now (l, w)))"
proof -
  obtain a w' where s: "scan_files l root_path tree now w = (a, w')" by fastforce
  from scan_files_logged [of root_path tree w l now] s show ?thesis
    by (auto simp: scan_once_def logged_def)
qed

lemma sorted_prefix_le:
  assumes "x \<in> set (take k (sort_key f xs))" "y \<in> set (drop k (sort_key f xs))"
  shows "f x \<le> f y"
proof -
  have "sorted (map f (take k (sort_key f xs) @ drop k (sort_key f xs)))"
    by (simp only: append_take_drop_id sorted_sort_key)
  with assms show ?thesis unfolding map_append sorted_append by auto
qed





text \<open>
  The second look before a removal protects files in use: a file that was rewritten, replaced or
  touched between the two looks is not removed but kept with its new size and time.
\<close>

theorem refreshed_file_survives:
  assumes "os_stat p w = (Inr before, w1)" and "os_stat p w1 = (Inr cur, w2)" and "\<not> unchanged cur before"
  shows "ttl_step ttl now p (a, w) = (if ttl \<le> now - st_mtime_ns before then (retain p cur a, w2) else (retain p before a, w1))
    \<and> unlinked (snd (ttl_step ttl now p (a, w))) = unlinked w"
  using assms os_stat_unlinked' [OF assms(1)] os_stat_unlinked' [OF assms(2)] by (simp add: ttl_step_def)

theorem refreshed_file_survives_witness:
  "\<exists>w w2. ttl_step 50 100 ''r/a'' (acc0, w) = (retain ''r/a''
      \<lparr>st_kind = KReg, st_dev = 1, st_ino = 1, st_mtime_ns = 99, st_size = 5\<rparr> acc0, w2) \<and> unlinked w2 = []"
proof -
  define old where "old = \<lparr>st_kind = KReg, st_dev = 1, st_ino = 1, st_mtime_ns = 0, st_size = 5\<rparr>"
  define new where "new = \<lparr>st_kind = KReg, st_dev = 1, st_ino = 1, st_mtime_ns = 99, st_size = 5\<rparr>"
  define w :: world where "w = \<lparr>fs = [''r/a'' \<mapsto> old], broken = (\<lambda>_. False),
     meddle = [id, \<lambda>F. F(''r/a'' \<mapsto> new)], unlinked = []\<rparr>"
  define w1 where "w1 = w\<lparr>meddle := [\<lambda>F. F(''r/a'' \<mapsto> new)]\<rparr>"
  define w2 where "w2 = w\<lparr>fs := [''r/a'' \<mapsto> new], meddle := []\<rparr>"
  have s1: "os_stat ''r/a'' w = (Inr old, w1)" by (simp add: os_stat_def tick_def w_def w1_def Let_def)
  have s2: "os_stat ''r/a'' w1 = (Inr new, w2)" by (simp add: os_stat_def tick_def w_def w1_def w2_def Let_def)
  have u: "\<not> unchanged new old" by (simp add: unchanged_def new_def old_def)
  show ?thesis
    using refreshed_file_survives [OF s1 s2 u, of 50 100 acc0]
    by (intro exI [of _ w] exI [of _ w2]) (simp add: new_def old_def w2_def w_def)
qed

subsection \<open>What a scan may touch\<close>

lemma scan_dir_yields:
  "scan_dir d t es = (ys, ds, ok) \<Longrightarrow>
   (\<forall>y\<in>set ys. \<exists>n. DFile n \<in> set es \<and> y = d @ ''/'' @ n \<and> (t \<longrightarrow> n \<noteq> MARKER_NAME \<and> n \<noteq> TEMP_DIR_NAME))
   \<and> (\<forall>e\<in>set ds. \<exists>n sub. DDir n sub \<in> set es \<and> e = (d @ ''/'' @ n, sub) \<and> (t \<longrightarrow> n \<noteq> MARKER_NAME \<and> n \<noteq> TEMP_DIR_NAME))"
  by (induction d t es arbitrary: ys ds ok rule: scan_dir.induct)
    (auto split: if_splits prod.splits; fastforce)+

lemma iter_files_below:
  "iter_files t pending = (ys, ok) \<Longrightarrow> y \<in> set ys \<Longrightarrow> \<exists>e\<in>set pending. \<exists>x. y = fst e @ ''/'' @ x"
proof (induction t pending arbitrary: ys ok rule: iter_files.induct)
  case (3 t d es pending)
  obtain zs ds o1 where s: "scan_dir d t es = (zs, ds, o1)" by (metis prod_cases3)
  note sp = scan_dir_yields [OF s]
  show ?case
  proof (cases "y \<in> set zs")
    case True
    with sp show ?thesis by auto
  next
    case False
    with 3(2,3) s obtain us o2 where u: "o1" "iter_files False (rev ds @ pending) = (us, o2)" "y \<in> set us"
      by (auto split: if_splits prod.splits)
    from 3(1) [OF s [symmetric] refl _ u(2,3)] u(1) obtain e x where
      e: "e \<in> set (rev ds @ pending)" "y = fst e @ ''/'' @ x" by auto
    show ?thesis
    proof (cases "e \<in> set ds")
      case True
      with sp obtain n sub where "e = (d @ ''/'' @ n, sub)" by auto
      with e(2) show ?thesis by auto
    qed (use e in auto)
  qed
qed auto

text \<open>
  No scan, disturbed or not, removes the marker or anything in the temporary directory, where the
  cache server writes its unfinished files.
\<close>

theorem marker_and_temp_spared:
  assumes "\<forall>es n. tree = Some es \<and> (DFile n \<in> set es \<or> (\<exists>sub. DDir n sub \<in> set es)) \<longrightarrow> CHR ''/'' \<notin> set n"
  shows "\<exists>new. unlinked (snd (snd (scan_once root_path tree now (l, w)))) = unlinked w @ new
    \<and> (\<forall>(p, s)\<in>set new. p \<noteq> root_path @ ''/'' @ MARKER_NAME \<and> (\<forall>x. p \<noteq> root_path @ ''/'' @ TEMP_DIR_NAME @ ''/'' @ x))"
proof -
  have key: "p \<noteq> root_path @ ''/'' @ MARKER_NAME \<and> (\<forall>x. p \<noteq> root_path @ ''/'' @ TEMP_DIR_NAME @ ''/'' @ x)"
    if "p \<in> set (fst (iter_files True [(root_path, tree)]))" for p
  proof (cases tree)
    case None
    with that show ?thesis by simp
  next
    case (Some es)
    obtain zs ds o1 where s: "scan_dir root_path True es = (zs, ds, o1)" by (metis prod_cases3)
    note sp = scan_dir_yields [OF s]
    have slash: "n = takeWhile (\<lambda>c. c \<noteq> CHR ''/'') (n @ CHR ''/'' # x)" if "CHR ''/'' \<notin> set n" for n x :: string
      using that by (induction n) auto
    have nm: "CHR ''/'' \<notin> set MARKER_NAME" "CHR ''/'' \<notin> set TEMP_DIR_NAME"
      by (simp_all add: MARKER_NAME_def TEMP_DIR_NAME_def)
    show ?thesis
    proof (cases "p \<in> set zs")
      case True
      with sp obtain n where n: "DFile n \<in> set es" "p = root_path @ ''/'' @ n" "n \<noteq> MARKER_NAME" by auto
      with assms Some have "CHR ''/'' \<notin> set n" by auto
      with n show ?thesis by auto
    next
      case False
      with that Some s have "p \<in> set (fst (iter_files False (rev ds @ [])))"
        by (auto split: if_splits prod.splits)
      then obtain e x where e: "e \<in> set ds" "p = fst e @ ''/'' @ x"
        using iter_files_below [of False "rev ds @ []"] by (metis append_Nil2 prod.collapse set_rev)
      with sp obtain n sub where n: "DDir n sub \<in> set es" "p = root_path @ ''/'' @ n @ ''/'' @ x" "n \<noteq> TEMP_DIR_NAME"
        by auto
      with assms Some have ns: "CHR ''/'' \<notin> set n" by auto
      have "n @ CHR ''/'' # x \<noteq> TEMP_DIR_NAME @ CHR ''/'' # z" for z
        using slash [OF ns, of x] slash [OF nm(2), of z] n(3) by metis
      moreover have "n @ CHR ''/'' # x \<noteq> MARKER_NAME" using nm(1) by (metis in_set_conv_decomp)
      ultimately show ?thesis using n(2) by auto
    qed
  qed
  obtain a w' where sc: "scan_files l root_path tree now w = (a, w')" by fastforce
  from scan_files_logged [of root_path tree w l now] sc obtain new where
    "unlinked w' = unlinked w @ new" "\<forall>x\<in>set new. fst x \<in> set (fst (iter_files True [(root_path, tree)]))"
    by (auto simp: logged_def)
  with sc key show ?thesis by (fastforce simp: scan_once_def)
qed

theorem marker_and_temp_spared_witness:
  "\<exists>l w new. unlinked (snd (snd (scan_once ''r'' (Some [DFile ''a'', DUnsafe ''b'']) 100 (l, w)))) = unlinked w @ new
    \<and> (\<forall>(p, s)\<in>set new. p \<noteq> ''r'' @ ''/'' @ MARKER_NAME)"
proof -
  obtain l :: l2 and w :: world where True by simp
  have "\<forall>es n. Some [DFile ''a'', DUnsafe ''b''] = Some es \<and> (DFile n \<in> set es \<or> (\<exists>sub. DDir n sub \<in> set es))
      \<longrightarrow> CHR ''/'' \<notin> set n" by auto
  from marker_and_temp_spared [OF this, of "''r''" 100 l w] show ?thesis by fast
qed

theorem prepare_root_correct_witness:
  "fst (prepare_root True \<lparr>root_kind = None, marker = None, temp = NoTemp, others = []\<rparr>) = Inr ()
   \<and> fst (prepare_root True \<lparr>root_kind = Some KDir, marker = None, temp = NoTemp, others = [''x'']\<rparr>) \<noteq> Inr ()"
  using prepare_root_correct [of True "\<lparr>root_kind = None, marker = None, temp = NoTemp, others = []\<rparr>"]
    prepare_root_correct [of True "\<lparr>root_kind = Some KDir, marker = None, temp = NoTemp, others = [''x'']\<rparr>"]
  by simp

end
