(* ===== verification/Json.thy ===== *)
theory Json
  imports Py_Text "HOL-Library.Multiset"
begin

text \<open>
  JSON values as Python sees them after \<^verbatim>\<open>json.loads\<close>, Python's equality on them, and
  \<^verbatim>\<open>canonical_json\<close> of \<^verbatim>\<open>dgx_deploy/config.py\<close>.  An object is the list of its entries in insertion
  order, with distinct keys.
\<close>

datatype json =
    JNull
  | JBool bool
  | JInt int
  | JFloat rat
  | JStr string
  | JArr "json list"
  | JObj "(string \<times> json) list"

definition jget :: "json \<Rightarrow> string \<Rightarrow> json option" where
  "jget j k = (case j of JObj es \<Rightarrow> map_of es k | _ \<Rightarrow> None)"

subsection \<open>Python's equality\<close>

text \<open>Booleans are numbers: \<^verbatim>\<open>True == 1 == 1.0\<close>.\<close>

definition num_of :: "json \<Rightarrow> rat option" where
  "num_of j = (case j of JBool b \<Rightarrow> Some (if b then 1 else 0) | JInt i \<Rightarrow> Some (of_int i)
     | JFloat r \<Rightarrow> Some r | _ \<Rightarrow> None)"

fun py_eq :: "json \<Rightarrow> json \<Rightarrow> bool" where
  "py_eq (JArr xs) y =
     (case y of JArr ys \<Rightarrow> length xs = length ys \<and> list_all id (map2 (\<lambda>p y. p y) (map py_eq xs) ys) | _ \<Rightarrow> False)"
| "py_eq (JObj es) y =
     (case y of JObj fs \<Rightarrow> length es = length fs
          \<and> list_all (\<lambda>(k, p). case map_of fs k of None \<Rightarrow> False | Some v \<Rightarrow> p v)
               (map (\<lambda>(k, v). (k, py_eq v)) es)
      | _ \<Rightarrow> False)"
| "py_eq JNull y = (y = JNull)"
| "py_eq (JStr s) y = (y = JStr s)"
| "py_eq x y = (num_of x = num_of y)"

subsection \<open>Canonical text\<close>

definition hex_digit :: "nat \<Rightarrow> char" where
  "hex_digit n = char_of (if n < 10 then 48 + n else 87 + n)"

definition escape_char :: "char \<Rightarrow> string" where
  "escape_char c =
     (if c = CHR 0x22 then [CHR 0x5C, CHR 0x22]
      else if c = CHR 0x5C then [CHR 0x5C, CHR 0x5C]
      else if code c = 10 then [CHR 0x5C, CHR ''n'']
      else if code c = 13 then [CHR 0x5C, CHR ''r'']
      else if code c = 9 then [CHR 0x5C, CHR ''t'']
      else if code c = 12 then [CHR 0x5C, CHR ''f'']
      else if code c = 8 then [CHR 0x5C, CHR ''b'']
      else if code c < 32 \<or> 126 < code c
      then [CHR 0x5C, CHR ''u'', CHR ''0'', CHR ''0'', hex_digit (code c div 16), hex_digit (code c mod 16)]
      else [c])"

definition json_string :: "string \<Rightarrow> string" where
  "json_string s = [CHR 0x22] @ concat (map escape_char s) @ [CHR 0x22]"

text \<open>
  \<^verbatim>\<open>json.dumps(value, sort_keys=True, separators=(",", ":"), ensure_ascii=True)\<close>; \<open>show_float\<close> is
  Python's text of a float.
\<close>

fun canonical_json :: "(rat \<Rightarrow> string) \<Rightarrow> json \<Rightarrow> string" where
  "canonical_json sf JNull = ''null''"
| "canonical_json sf (JBool b) = (if b then ''true'' else ''false'')"
| "canonical_json sf (JInt i) = show_int i"
| "canonical_json sf (JFloat r) = sf r"
| "canonical_json sf (JStr s) = json_string s"
| "canonical_json sf (JArr xs) = ''['' @ join '','' (map (canonical_json sf) xs) @ '']''"
| "canonical_json sf (JObj es) = ''{'' @ join '','' (map (\<lambda>(k, t). json_string k @ '':'' @ t)
     (sort_key fst (map (\<lambda>(k, v). (k, canonical_json sf v)) es))) @ ''}''"

definition config_sha256 :: "(string \<Rightarrow> string) \<Rightarrow> (rat \<Rightarrow> string) \<Rightarrow> json \<Rightarrow> string" where
  "config_sha256 sha256 sf j = sha256 (canonical_json sf j)"

subsection \<open>The text does not depend on the order of entries\<close>

text \<open>\<open>reordered x y\<close>: the same value up to the order of entries at any depth.\<close>

inductive reordered :: "json \<Rightarrow> json \<Rightarrow> bool" where
  re_null: "reordered JNull JNull"
| re_bool: "reordered (JBool b) (JBool b)"
| re_int: "reordered (JInt i) (JInt i)"
| re_float: "reordered (JFloat r) (JFloat r)"
| re_str: "reordered (JStr s) (JStr s)"
| re_arr: "list_all2 reordered xs ys \<Longrightarrow> reordered (JArr xs) (JArr ys)"
| re_obj: "distinct (map fst es) \<Longrightarrow> list_all2 (rel_prod (=) reordered) es gs \<Longrightarrow> mset gs = mset fs \<Longrightarrow>
    reordered (JObj es) (JObj fs)"

lemma sort_entries_cong:
  assumes "mset es = mset fs" and "distinct (map fst es)"
  shows "sort_key fst es = sort_key fst fs"
proof (rule sort_key_inj_key_eq [OF _ _ sorted_sort_key])
  show "mset es = mset (sort_key fst fs)" using assms(1) by simp
  show "inj_on fst (set es)" using assms(2) by (simp add: distinct_map)
qed

text \<open>
  The canonical text, and so the digest of a configuration, does not depend on the order in which
  the entries of its objects were inserted, at any depth.
\<close>

theorem canonical_json_order:
  assumes "reordered x y"
  shows "canonical_json sf x = canonical_json sf y"
  using assms
proof induction
  case (re_arr xs ys)
  then have "map (canonical_json sf) xs = map (canonical_json sf) ys"
    by (auto simp: list_all2_conv_all_nth intro: nth_equalityI)
  then show ?case by simp
next
  case (re_obj es gs fs)
  let ?c = "map (\<lambda>(k, v). (k, canonical_json sf v))"
  have eq: "?c es = ?c gs"
  proof (rule nth_equalityI)
    show "length (?c es) = length (?c gs)" using list_all2_lengthD [OF re_obj.IH] by simp
    fix i
    assume "i < length (?c es)"
    then have "i < length es" by simp
    with re_obj.IH have "rel_prod (=) (\<lambda>x y. reordered x y \<and> canonical_json sf x = canonical_json sf y) (es ! i) (gs ! i)"
      "i < length gs" by (auto simp: list_all2_conv_all_nth)
    then show "?c es ! i = ?c gs ! i" using \<open>i < length es\<close> by (auto elim!: rel_prod.cases)
  qed
  have "mset (?c gs) = mset (?c fs)" using re_obj.hyps(2) by simp
  moreover have "distinct (map fst (?c gs))"
    using re_obj.hyps(1) eq [symmetric] by (simp add: comp_def case_prod_beta)
  ultimately have "sort_key fst (?c es) = sort_key fst (?c fs)" unfolding eq by (rule sort_entries_cong)
  then show ?case by simp
qed simp_all

theorem canonical_json_order_witness:
  "canonical_json (\<lambda>_. []) (JObj [(''a'', JInt 1), (''b'', JNull)]) = canonical_json (\<lambda>_. []) (JObj [(''b'', JNull), (''a'', JInt 1)])"
proof (rule canonical_json_order)
  show "reordered (JObj [(''a'', JInt 1), (''b'', JNull)]) (JObj [(''b'', JNull), (''a'', JInt 1)])"
    by (rule re_obj [where gs = "[(''a'', JInt 1), (''b'', JNull)]"]) (auto intro: reordered.intros)
qed

end
