(* ===== verification/Config_Env.thy ===== *)
theory Config_Env
  imports Py_Text
begin

text \<open>
  \<^verbatim>\<open>parse_env_file\<close> and the single-value checks of \<^verbatim>\<open>dgx_deploy/config.py\<close>.  The values of an env
  file are a list of distinct keys with their values, in file order.  Every rejection is the
  exception \<open>ConfigError\<close>; its message is not modelled.  \<open>PlainValueError\<close> is the \<^verbatim>\<open>ValueError\<close> of
  Python's \<^verbatim>\<open>int\<close>, of which \<^verbatim>\<open>ConfigError\<close> is a subclass.
\<close>

datatype config_error = ConfigError | PlainValueError

type_synonym env = "(string \<times> string) list"

subsection \<open>Keys\<close>

definition ALLOWED_KEYS :: "string list" where
  "ALLOWED_KEYS = [''DEPLOYMENT_MODE'', ''FABRIC_PROFILE'', ''HEAD_FABRIC_CIDR'', ''WORKER_FABRIC_CIDR'',
     ''HEAD_FABRIC_PEER'', ''WORKER_FABRIC_PEER'', ''HEAD_FABRIC_CONNECTION'', ''WORKER_FABRIC_CONNECTION'',
     ''HEAD_ROCE_GID_INDEX'', ''WORKER_ROCE_GID_INDEX'', ''HEAD_SSH_HOST'', ''WORKER_SSH_HOST'',
     ''IMAGE_LOCK_FILE'', ''HEAD_IMAGE_REF'', ''WORKER_IMAGE_REF'', ''MODEL_CONTAINER_PATH'', ''HEAD_HOST'',
     ''WORKER_HOST'', ''SSH_USER'', ''HEAD_SSH_USER'', ''WORKER_SSH_USER'', ''SSH_PORT'',
     ''SSH_KNOWN_HOSTS_FILE'', ''SSH_IDENTITY_FILE'', ''REMOTE_ROOT'', ''MODEL_ROOT'', ''MODEL_MANIFEST_SHA256'',
     ''STATE_ROOT'', ''CACHE_ROOT'', ''LOG_ROOT'', ''RESULT_ROOT'', ''REGISTRY'', ''IMAGE_REF'', ''MASTER_ADDR'',
     ''MASTER_PORT'', ''API_PORT'', ''HEAD_NODE_ADDR'', ''WORKER_NODE_ADDR'', ''HEAD_NET_IFACE'',
     ''WORKER_NET_IFACE'', ''HEAD_HCA'', ''WORKER_HCA'', ''HEAD_CUDA_VISIBLE_DEVICES'',
     ''WORKER_CUDA_VISIBLE_DEVICES'', ''ROCE_GID_INDEX'', ''ROCE_MTU'', ''API_BIND_ADDR'', ''ALLOW_PUBLIC_API'',
     ''FORWARD_LOCAL_PORT'', ''MAX_NUM_SEQS'', ''MAX_NUM_BATCHED_TOKENS'',
     ''ALLOW_PRODUCTION_IMAGES_IN_CANDIDATE'', ''PRODUCTION_CHANGE_ALLOWED'', ''BASE_IMAGE_REF'',
     ''BUILD_CONTEXT'', ''CONTAINERFILE'', ''IMAGE_REPOSITORY'', ''IMAGE_TAG'', ''IMAGE_ARCHIVE'',
     ''IMAGE_ARCHIVE_SHA256'', ''REMOTE_IMAGE_ARCHIVE'', ''PERF_MIN_TOKENS_PER_SECOND'',
     ''PERF_MAX_TTFT_SECONDS'', ''PERF_MAX_P95_ITL_MS'']"

definition REQUIRED_KEYS :: "string list" where
  "REQUIRED_KEYS = [''HEAD_HOST'', ''WORKER_HOST'', ''SSH_PORT'', ''SSH_KNOWN_HOSTS_FILE'', ''REMOTE_ROOT'',
     ''MODEL_ROOT'', ''MODEL_MANIFEST_SHA256'', ''STATE_ROOT'', ''CACHE_ROOT'', ''RESULT_ROOT'', ''IMAGE_REF'',
     ''MASTER_ADDR'', ''FORWARD_LOCAL_PORT'']"

definition OPTIONAL_EMPTY_KEYS :: "string list" where
  "OPTIONAL_EMPTY_KEYS = filter (\<lambda>k. k \<notin> set REQUIRED_KEYS) ALLOWED_KEYS"

subsection \<open>Patterns\<close>

definition safe_value :: "string \<Rightarrow> bool" where
  "safe_value s \<longleftrightarrow> s \<noteq> [] \<and> (\<forall>c\<in>set s. \<not> is_control c)"

definition safe_host :: "string \<Rightarrow> bool" where
  "safe_host s \<longleftrightarrow> (case s of [] \<Rightarrow> False | c # r \<Rightarrow> is_alnum c
     \<and> (\<forall>d\<in>set r. is_alnum d \<or> d \<in> {CHR ''_'', CHR ''.'', CHR '':'', CHR ''-''}))"

definition safe_id :: "string \<Rightarrow> bool" where
  "safe_id s \<longleftrightarrow> (case s of [] \<Rightarrow> False | c # r \<Rightarrow> (is_upper c \<or> is_lower c \<or> c = CHR ''_'')
     \<and> (\<forall>d\<in>set r. is_alnum d \<or> d \<in> {CHR ''_'', CHR ''.'', CHR ''-''}))"

definition safe_list :: "string \<Rightarrow> bool" where
  "safe_list s \<longleftrightarrow> (\<forall>w\<in>set (split_on CHR '','' s). w \<noteq> []
     \<and> (\<forall>d\<in>set w. is_alnum d \<or> d \<in> {CHR ''_'', CHR ''.'', CHR ''-''}))"

definition is_sha256 :: "string \<Rightarrow> bool" where
  "is_sha256 s \<longleftrightarrow> length s = 64 \<and> (\<forall>c\<in>set s. is_lhex c)"

text \<open>The part before the \<^verbatim>\<open>@\<close>, when there is one, is a repository; the digest itself has no \<^verbatim>\<open>@\<close>.\<close>

definition bare_digest :: "string \<Rightarrow> bool" where
  "bare_digest s \<longleftrightarrow> starts_with ''sha256:'' s \<and> is_sha256 (drop 7 s)"

definition image_digest :: "string \<Rightarrow> bool" where
  "image_digest s \<longleftrightarrow>
     (case split_on CHR ''@'' s of
        [d] \<Rightarrow> bare_digest d
      | [r, d] \<Rightarrow> r \<noteq> [] \<and> bare_digest d
          \<and> (\<forall>c\<in>set r. is_alnum c \<or> c \<in> {CHR ''.'', CHR ''_'', CHR ''/'', CHR ''-''})
      | _ \<Rightarrow> False)"

text \<open>\<open>words\<close> are the maximal runs of word characters, \<open>angled\<close> finds \<^verbatim>\<open><[^>]+>\<close>.\<close>

fun words :: "string \<Rightarrow> string \<Rightarrow> string list" where
  "words acc [] = (if acc = [] then [] else [rev acc])"
| "words acc (c # s) = (if is_word c then words (c # acc) s
     else if acc = [] then words [] s else rev acc # words [] s)"

fun angled :: "string \<Rightarrow> bool" where
  "angled [] = False"
| "angled (c # s) =
     ((c = CHR ''<'' \<and> (let b = takeWhile (\<lambda>d. d \<noteq> CHR ''>'') s in b \<noteq> [] \<and> length b < length s)) \<or> angled s)"

definition PLACEHOLDER_WORDS :: "string list" where
  "PLACEHOLDER_WORDS = [''replace'', ''replace_with'', ''changeme'', ''example_value'', ''your_value'']"

definition placeholder :: "string \<Rightarrow> bool" where
  "placeholder s \<longleftrightarrow> angled s \<or> (\<exists>w\<in>set (words [] s). lower w \<in> set PLACEHOLDER_WORDS)"

definition shell_syntax :: "string \<Rightarrow> bool" where
  "shell_syntax s \<longleftrightarrow> contains ''$('' s \<or> contains ''${'' s \<or> CHR 0x60 \<in> set s \<or> CHR '';'' \<in> set s
     \<or> contains ''||'' s \<or> contains ''&&'' s \<or> CHR 0x0A \<in> set s \<or> CHR 0x0D \<in> set s"

definition is_key :: "string \<Rightarrow> bool" where
  "is_key s \<longleftrightarrow> (case s of [] \<Rightarrow> False | c # r \<Rightarrow> is_upper c
     \<and> (\<forall>d\<in>set r. is_upper d \<or> is_digit d \<or> d = CHR ''_''))"

subsection \<open>The env file\<close>

definition partition_eq :: "string \<Rightarrow> string \<times> string" where
  "partition_eq l = (takeWhile (\<lambda>c. c \<noteq> CHR ''='') l, tl (dropWhile (\<lambda>c. c \<noteq> CHR ''='') l))"

definition parse_line :: "string \<Rightarrow> env \<Rightarrow> (config_error, env) comp" where
  "parse_line line vs =
     (let stripped = strip line
      in if stripped = [] \<or> starts_with ''#'' stripped then ret vs
         else bind (assert ConfigError (CHR ''='' \<in> set line)) (\<lambda>_.
           case partition_eq line of (key, value) \<Rightarrow>
             bind (assert ConfigError (is_key key)) (\<lambda>_.
             bind (assert ConfigError (key \<in> set ALLOWED_KEYS)) (\<lambda>_.
             bind (assert ConfigError (map_of vs key = None)) (\<lambda>_.
             bind (assert ConfigError (value = strip value)) (\<lambda>_.
             bind (if value \<noteq> [] then assert ConfigError (safe_value value)
                   else assert ConfigError (key \<in> set OPTIONAL_EMPTY_KEYS)) (\<lambda>_.
             bind (assert ConfigError (\<not> shell_syntax value)) (\<lambda>_.
             bind (assert ConfigError (\<not> placeholder value)) (\<lambda>_.
               ret (vs @ [(key, value)]))))))))))"

text \<open>\<open>None\<close> is a file that cannot be read as UTF-8 text.\<close>

definition parse_env_file :: "string option \<Rightarrow> (config_error, env) comp" where
  "parse_env_file text =
     (case text of None \<Rightarrow> raise ConfigError | Some t \<Rightarrow> fold_comp parse_line (splitlines t) [])"

subsection \<open>Single values\<close>

definition vget :: "env \<Rightarrow> string \<Rightarrow> string" where
  "vget vs k = (case map_of vs k of None \<Rightarrow> [] | Some v \<Rightarrow> v)"

definition nonempty :: "env \<Rightarrow> string \<Rightarrow> (config_error, string) comp" where
  "nonempty vs k = bind (assert ConfigError (vget vs k \<noteq> [])) (\<lambda>_. ret (vget vs k))"

definition port :: "env \<Rightarrow> string \<Rightarrow> (config_error, nat) comp" where
  "port vs k =
     bind (nonempty vs k) (\<lambda>raw.
     bind (assert ConfigError (isdecimal raw)) (\<lambda>_.
     bind (assert ConfigError (1 \<le> parse_nat raw \<and> parse_nat raw \<le> 65535)) (\<lambda>_. ret (parse_nat raw))))"

definition runtime_limit :: "env \<Rightarrow> string \<Rightarrow> nat \<Rightarrow> string \<Rightarrow> bool \<Rightarrow> (config_error, nat) comp" where
  "runtime_limit vs k dflt mode production_allowed =
     (let raw = vget vs k
      in if raw = [] then ret dflt
         else
           bind (assert ConfigError (mode = ''candidate'' \<or> mode = ''production'' \<and> production_allowed)) (\<lambda>_.
           bind (assert ConfigError (isdecimal raw \<and> 1 \<le> parse_nat raw)) (\<lambda>_. ret (parse_nat raw))))"

subsection \<open>IP addresses\<close>

text \<open>\<^verbatim>\<open>ipaddress\<close>: strict dotted quads; eight groups of hexadecimal digits with one \<^verbatim>\<open>::\<close>.\<close>

definition octet :: "string \<Rightarrow> nat option" where
  "octet s = (if isdecimal s \<and> length s \<le> 3 \<and> (s = ''0'' \<or> hd s \<noteq> CHR ''0'') \<and> parse_nat s \<le> 255
     then Some (parse_nat s) else None)"

definition ipv4 :: "string \<Rightarrow> int option" where
  "ipv4 s =
     (case map octet (split_on CHR ''.'' s) of
        [Some a, Some b, Some c, Some d] \<Rightarrow> Some (((int a * 256 + int b) * 256 + int c) * 256 + int d)
      | _ \<Rightarrow> None)"

definition hextet :: "string \<Rightarrow> bool" where
  "hextet s \<longleftrightarrow> s \<noteq> [] \<and> length s \<le> 4 \<and> (\<forall>c\<in>set s. is_hex c)"

definition ipv6 :: "string \<Rightarrow> bool" where
  "ipv6 s =
     (let parts0 = split_on CHR '':'' s;
          v4 = CHR ''.'' \<in> set (last parts0);
          parts = (if v4 then butlast parts0 @ [''0'', ''0''] else parts0);
          n = length parts;
          gaps = filter (\<lambda>i. parts ! i = []) [1..<n - 1]
      in 3 \<le> length parts0 \<and> (v4 \<longrightarrow> ipv4 (last parts0) \<noteq> None) \<and> n \<le> 9 \<and>
         (case gaps of
            [] \<Rightarrow> n = 8 \<and> (\<forall>p\<in>set parts. hextet p)
          | [g] \<Rightarrow>
              (let hi = (if hd parts = [] then g - 1 else g);
                   lo = (if last parts = [] then n - g - 2 else n - g - 1)
               in (hd parts = [] \<longrightarrow> hi = 0) \<and> (last parts = [] \<longrightarrow> lo = 0) \<and> hi + lo < 8
                  \<and> (\<forall>p\<in>set (take hi parts). hextet p) \<and> (\<forall>p\<in>set (drop (n - lo) parts). hextet p))
          | _ \<Rightarrow> False))"

definition ip_address :: "string \<Rightarrow> bool" where
  "ip_address s \<longleftrightarrow> ipv4 s \<noteq> None \<or> ipv6 s"

definition address :: "env \<Rightarrow> string \<Rightarrow> (config_error, string) comp" where
  "address vs k =
     bind (nonempty vs k) (\<lambda>v.
     bind (assert ConfigError (safe_host v)) (\<lambda>_.
     bind (assert ConfigError (CHR ''@'' \<notin> set v \<and> CHR ''/'' \<notin> set v)) (\<lambda>_.
     bind (assert ConfigError (ip_address v)) (\<lambda>_. ret v))))"

text \<open>
  The prefix length of an IPv4 interface: a number, a netmask or a host mask; 32 when there is none.
\<close>

definition mask_prefix :: "int \<Rightarrow> nat option" where
  "mask_prefix m =
     (case filter (\<lambda>p. m = 2 ^ 32 - 2 ^ (32 - p)) [0..<33] of
        p # _ \<Rightarrow> Some p
      | [] \<Rightarrow> (case filter (\<lambda>p. m = 2 ^ (32 - p) - 1) [0..<33] of p # _ \<Rightarrow> Some p | [] \<Rightarrow> None))"

definition prefix_len :: "string \<Rightarrow> nat option" where
  "prefix_len s =
     (if isdecimal s \<and> parse_nat s \<le> 32 then Some (parse_nat s)
      else case ipv4 s of None \<Rightarrow> None | Some m \<Rightarrow> mask_prefix m)"

text \<open>
  \<^verbatim>\<open>_cidr\<close>.  The expected address is an IPv4 address; an IPv6 interface is rejected either way.
\<close>

definition cidr :: "env \<Rightarrow> string \<Rightarrow> string \<Rightarrow> (config_error, string) comp" where
  "cidr vs k expected_ip =
     bind (nonempty vs k) (\<lambda>raw.
     bind (case split_on CHR ''/'' raw of
             [a] \<Rightarrow> if ipv4 a \<noteq> None then ret (a, 32) else raise ConfigError
           | [a, m] \<Rightarrow> (case prefix_len m of
               Some p \<Rightarrow> if ipv4 a \<noteq> None then ret (a, p) else raise ConfigError
             | None \<Rightarrow> raise ConfigError)
           | _ \<Rightarrow> raise ConfigError) (\<lambda>(ip, plen).
     bind (assert ConfigError (ip = expected_ip)) (\<lambda>_.
     bind (assert ConfigError (plen = 24)) (\<lambda>_. ret raw))))"

subsection \<open>Paths\<close>

definition absolute_root :: "env \<Rightarrow> string \<Rightarrow> (config_error, string) comp" where
  "absolute_root vs k =
     bind (nonempty vs k) (\<lambda>v.
     let p = path_of v in
     bind (assert ConfigError (is_absolute p)) (\<lambda>_.
     bind (assert ConfigError (p \<noteq> root_dir)) (\<lambda>_.
     bind (assert ConfigError (\<not> has_dotdot p)) (\<lambda>_.
     bind (assert ConfigError (safe_value v)) (\<lambda>_.
       let r = rstrip_char CHR ''/'' v in ret (if r = [] then ''/'' else r))))))"

text \<open>\<open>repo\<close> is the resolved path of the repository.\<close>

definition external_path :: "path \<Rightarrow> env \<Rightarrow> string \<Rightarrow> (config_error, string) comp" where
  "external_path repo vs k =
     bind (absolute_root vs k) (\<lambda>v.
     bind (assert ConfigError (path_of v \<noteq> repo \<and> \<not> in_parents repo (path_of v))) (\<lambda>_. ret v))"

definition lock_file :: "path \<Rightarrow> env \<Rightarrow> (config_error, string) comp" where
  "lock_file repo vs =
     (let raw = vget vs ''IMAGE_LOCK_FILE''; p = path_of raw
      in if raw = [] then ret (path_str (path_join repo ''image.lock.json''))
         else
           bind (assert ConfigError (is_absolute p)) (\<lambda>_.
           bind (assert ConfigError (p \<noteq> root_dir \<and> \<not> has_dotdot p)) (\<lambda>_.
           bind (assert ConfigError (safe_value raw)) (\<lambda>_. ret (path_str p)))))"

definition get_safe_list :: "env \<Rightarrow> string \<Rightarrow> (config_error, string) comp" where
  "get_safe_list vs k =
     bind (nonempty vs k) (\<lambda>v. bind (assert ConfigError (safe_list v)) (\<lambda>_. ret v))"

end
