(* ===== verification/Config_Check.thy ===== *)
theory Config_Check
  imports Config_Env Json
begin

text \<open>
  \<^verbatim>\<open>validate\<close> of \<^verbatim>\<open>dgx_deploy/config.py\<close>: one definition per group of checks, in the order of the
  code, and the structured object it returns.  \<open>vs\<close> are the values of the env file, \<open>repo\<close> is the
  resolved path of the repository.
\<close>

subsection \<open>Flags and modes\<close>

definition DEFAULT_MAX_NUM_SEQS :: nat where "DEFAULT_MAX_NUM_SEQS = 5"
definition DEFAULT_MAX_NUM_BATCHED_TOKENS :: nat where "DEFAULT_MAX_NUM_BATCHED_TOKENS = 1024"

definition DEFAULT_PROFILE_ID :: string where
  "DEFAULT_PROFILE_ID = ''dsv4-native432-b12x-tp2''"

definition CANDIDATE_SEQ10_PROFILE_ID :: string where
  "CANDIDATE_SEQ10_PROFILE_ID = ''dsv4-native432-b12x-tp2-seq10''"

definition DEFAULT_MODEL_CONTAINER_PATH :: string where
  "DEFAULT_MODEL_CONTAINER_PATH = ''/models/DeepSeek-V4-Flash-0731''"

text \<open>\<^verbatim>\<open>values.get(key, "") or dflt\<close> and \<^verbatim>\<open>x or None\<close>.\<close>

definition or_else :: "string \<Rightarrow> string \<Rightarrow> string" where
  "or_else s dflt = (if s = [] then dflt else s)"

definition or_none :: "string \<Rightarrow> string option" where
  "or_none s = (if s = [] then None else Some s)"

definition reviewed :: "string \<Rightarrow> bool" where
  "reviewed mode \<longleftrightarrow> mode \<in> {''production'', ''candidate''}"

record modes =
  md_mode :: string
  md_max_num_seqs :: nat
  md_max_num_batched_tokens :: nat
  md_allow_production_images :: bool
  md_production_change :: bool

definition deployment_mode :: "env \<Rightarrow> string" where
  "deployment_mode vs = or_else (lower (strip (vget vs ''DEPLOYMENT_MODE''))) ''generic''"

definition check_modes :: "env \<Rightarrow> json option \<Rightarrow> (config_error, modes) comp" where
  "check_modes vs profile_id =
     bind (assert ConfigError (\<forall>(k, v)\<in>set vs. k \<in> set ALLOWED_KEYS)) (\<lambda>_.
     bind (assert ConfigError (\<forall>k\<in>set REQUIRED_KEYS. vget vs k \<noteq> [])) (\<lambda>_.
     let mode = deployment_mode vs in
     bind (assert ConfigError (mode \<in> {''generic'', ''production'', ''candidate''})) (\<lambda>_.
     bind (assert ConfigError ((vget vs ''MAX_NUM_SEQS'' \<noteq> []) = (vget vs ''MAX_NUM_BATCHED_TOKENS'' \<noteq> []))) (\<lambda>_.
     let change = or_else (vget vs ''PRODUCTION_CHANGE_ALLOWED'') ''0'' in
     bind (assert ConfigError (change \<in> {''0'', ''1''})) (\<lambda>_.
     bind (assert ConfigError (\<not> (mode \<noteq> ''production'' \<and> change = ''1''))) (\<lambda>_.
     bind (runtime_limit vs ''MAX_NUM_SEQS'' DEFAULT_MAX_NUM_SEQS mode (change = ''1'')) (\<lambda>seqs.
     bind (runtime_limit vs ''MAX_NUM_BATCHED_TOKENS'' DEFAULT_MAX_NUM_BATCHED_TOKENS mode (change = ''1'')) (\<lambda>batch.
     let images = or_else (vget vs ''ALLOW_PRODUCTION_IMAGES_IN_CANDIDATE'') ''0'' in
     bind (assert ConfigError (images \<in> {''0'', ''1''})) (\<lambda>_.
     bind (assert ConfigError (\<not> (mode \<noteq> ''candidate'' \<and> images = ''1''))) (\<lambda>_.
     bind (assert ConfigError (\<not> (profile_id = Some (JStr CANDIDATE_SEQ10_PROFILE_ID) \<and> mode \<noteq> ''candidate''))) (\<lambda>_.
       ret \<lparr>md_mode = mode, md_max_num_seqs = seqs, md_max_num_batched_tokens = batch,
         md_allow_production_images = (images = ''1''), md_production_change = (change = ''1'')\<rparr>)))))))))))"

subsection \<open>The fabric profile\<close>

record fabric_cfg =
  fb_profile :: string
  fb_head_cidr :: string
  fb_worker_cidr :: string
  fb_head_peer :: string
  fb_worker_peer :: string
  fb_head_connection :: string
  fb_worker_connection :: string
  fb_head_gid :: string
  fb_worker_gid :: string

text \<open>An optional GID index: empty, or a number of at most 255.\<close>

definition gid_ok :: "string \<Rightarrow> bool" where
  "gid_ok s \<longleftrightarrow> (s \<noteq> [] \<longrightarrow> isdecimal s \<and> parse_nat s \<le> 255)"

definition check_f1 :: "env \<Rightarrow> string \<Rightarrow> (config_error, string \<times> string) comp" where
  "check_f1 vs mode =
     bind (assert ConfigError (reviewed mode)) (\<lambda>_.
     bind (assert ConfigError (map_of vs ''HEAD_NET_IFACE'' = Some ''enp1s0f1np1''
         \<and> map_of vs ''WORKER_NET_IFACE'' = Some ''enp1s0f1np1'')) (\<lambda>_.
     bind (assert ConfigError (map_of vs ''HEAD_HCA'' = Some ''rocep1s0f1''
         \<and> map_of vs ''WORKER_HCA'' = Some ''rocep1s0f1'')) (\<lambda>_.
     bind (cidr vs ''HEAD_FABRIC_CIDR'' ''192.168.100.10'') (\<lambda>hc.
     bind (cidr vs ''WORKER_FABRIC_CIDR'' ''192.168.100.11'') (\<lambda>wc.
     bind (assert ConfigError (vget vs ''HEAD_FABRIC_PEER'' = ''192.168.100.11'')) (\<lambda>_.
     bind (assert ConfigError (vget vs ''WORKER_FABRIC_PEER'' = ''192.168.100.10'')) (\<lambda>_.
     bind (assert ConfigError (safe_id (vget vs ''HEAD_FABRIC_CONNECTION'')
         \<and> safe_id (vget vs ''WORKER_FABRIC_CONNECTION''))) (\<lambda>_.
     bind (assert ConfigError (gid_ok (vget vs ''HEAD_ROCE_GID_INDEX'')
         \<and> gid_ok (vget vs ''WORKER_ROCE_GID_INDEX''))) (\<lambda>_. ret (hc, wc))))))))))"

definition check_fabric :: "env \<Rightarrow> string \<Rightarrow> (config_error, fabric_cfg) comp" where
  "check_fabric vs mode =
     (let fp = or_else (lower (strip (vget vs ''FABRIC_PROFILE''))) ''auto'';
          hc0 = vget vs ''HEAD_FABRIC_CIDR''; wc0 = vget vs ''WORKER_FABRIC_CIDR''
      in bind (assert ConfigError (fp \<in> {''f0'', ''f1'', ''auto''})) (\<lambda>_.
         bind (if fp = ''f1'' then check_f1 vs mode
               else if fp = ''auto''
               then bind (assert ConfigError (hc0 = [] \<and> wc0 = [] \<and> vget vs ''HEAD_FABRIC_PEER'' = []
                        \<and> vget vs ''WORKER_FABRIC_PEER'' = [])) (\<lambda>_.
                    bind (assert ConfigError (vget vs ''HEAD_ROCE_GID_INDEX'' = []
                        \<and> vget vs ''WORKER_ROCE_GID_INDEX'' = [])) (\<lambda>_. ret (hc0, wc0)))
               else ret (hc0, wc0)) (\<lambda>(hc, wc).
           ret \<lparr>fb_profile = fp, fb_head_cidr = hc, fb_worker_cidr = wc,
             fb_head_peer = vget vs ''HEAD_FABRIC_PEER'', fb_worker_peer = vget vs ''WORKER_FABRIC_PEER'',
             fb_head_connection = vget vs ''HEAD_FABRIC_CONNECTION'',
             fb_worker_connection = vget vs ''WORKER_FABRIC_CONNECTION'',
             fb_head_gid = vget vs ''HEAD_ROCE_GID_INDEX'', fb_worker_gid = vget vs ''WORKER_ROCE_GID_INDEX''\<rparr>)))"

text \<open>The addresses and ports that production and candidate deployments are pinned to.\<close>

definition check_pinned :: "env \<Rightarrow> string \<Rightarrow> (config_error, unit) comp" where
  "check_pinned vs mode =
     (if \<not> reviewed mode then ret ()
      else
        let expected = (if mode = ''production'' then (29619, 8101) else (29621, 18101)) :: int \<times> int in
        bind (assert ConfigError (map_of vs ''MASTER_ADDR'' = Some ''192.168.100.10'')) (\<lambda>_.
        bind (assert ConfigError (map_of vs ''HEAD_NODE_ADDR'' = Some ''192.168.100.10'')) (\<lambda>_.
        bind (assert ConfigError (map_of vs ''WORKER_NODE_ADDR'' = Some ''192.168.100.11'')) (\<lambda>_.
        bind (assert ConfigError (map_of vs ''MASTER_PORT'' = Some (show_int (fst expected)))) (\<lambda>_.
        bind (assert ConfigError (map_of vs ''API_PORT'' = Some (show_int (snd expected)))) (\<lambda>_.
          assert ConfigError (vget vs ''HEAD_IMAGE_REF'' \<noteq> [] \<and> vget vs ''WORKER_IMAGE_REF'' \<noteq> [])))))))"

subsection \<open>Hosts, paths and images\<close>

record hosts =
  ho_head :: string
  ho_worker :: string
  ho_ssh_user :: string
  ho_head_user :: string
  ho_worker_user :: string
  ho_head_ssh :: string
  ho_worker_ssh :: string

definition ssh_host_ok :: "string \<Rightarrow> bool" where
  "ssh_host_ok s \<longleftrightarrow> safe_host s \<and> CHR ''@'' \<notin> set s \<and> CHR ''/'' \<notin> set s"

definition check_hosts :: "env \<Rightarrow> (config_error, hosts) comp" where
  "check_hosts vs =
     bind (address vs ''HEAD_HOST'') (\<lambda>head.
     bind (address vs ''WORKER_HOST'') (\<lambda>worker.
     bind (assert ConfigError (head \<noteq> worker)) (\<lambda>_.
     let user = vget vs ''SSH_USER'';
         hs = or_else (vget vs ''HEAD_SSH_HOST'') head; ws = or_else (vget vs ''WORKER_SSH_HOST'') worker in
     bind (assert ConfigError (ssh_host_ok hs)) (\<lambda>_.
     bind (assert ConfigError (ssh_host_ok ws)) (\<lambda>_.
       ret \<lparr>ho_head = head, ho_worker = worker, ho_ssh_user = user,
         ho_head_user = or_else (vget vs ''HEAD_SSH_USER'') user,
         ho_worker_user = or_else (vget vs ''WORKER_SSH_USER'') user, ho_head_ssh = hs, ho_worker_ssh = ws\<rparr>)))))"

record roots =
  ro_known_hosts :: string
  ro_identity :: string
  ro_remote :: string
  ro_model :: string
  ro_state :: string
  ro_cache :: string
  ro_result :: string
  ro_log :: string

definition opt_external :: "path \<Rightarrow> env \<Rightarrow> string \<Rightarrow> (config_error, string) comp" where
  "opt_external repo vs k = (if vget vs k = [] then ret [] else external_path repo vs k)"

definition check_roots :: "path \<Rightarrow> env \<Rightarrow> string \<Rightarrow> (config_error, roots) comp" where
  "check_roots repo vs mode =
     bind (assert ConfigError (vget vs ''SSH_KNOWN_HOSTS_FILE'' \<noteq> [])) (\<lambda>_.
     bind (external_path repo vs ''SSH_KNOWN_HOSTS_FILE'') (\<lambda>kh.
     bind (opt_external repo vs ''SSH_IDENTITY_FILE'') (\<lambda>ident.
     bind (external_path repo vs ''REMOTE_ROOT'') (\<lambda>remote.
     bind (external_path repo vs ''MODEL_ROOT'') (\<lambda>model.
     bind (external_path repo vs ''STATE_ROOT'') (\<lambda>state.
     bind (external_path repo vs ''CACHE_ROOT'') (\<lambda>cache.
     bind (external_path repo vs ''RESULT_ROOT'') (\<lambda>result.
     bind (opt_external repo vs ''LOG_ROOT'') (\<lambda>log.
     bind (nonempty vs ''MODEL_MANIFEST_SHA256'') (\<lambda>manifest.
     let rs = [remote, cache, state, result, log] in
     bind (assert ConfigError (reviewed mode \<longrightarrow> log \<noteq> [])) (\<lambda>_.
     bind (assert ConfigError (reviewed mode \<longrightarrow> distinct rs)) (\<lambda>_.
     bind (assert ConfigError (mode = ''candidate'' \<longrightarrow> (\<forall>r\<in>set rs. contains ''candidate'' (lower r)))) (\<lambda>_.
     bind (assert ConfigError (is_sha256 manifest)) (\<lambda>_.
       ret \<lparr>ro_known_hosts = kh, ro_identity = ident, ro_remote = remote, ro_model = model,
         ro_state = state, ro_cache = cache, ro_result = result, ro_log = log\<rparr>))))))))))))))"

record images =
  im_ref :: string
  im_head :: string
  im_worker :: string

definition check_images :: "env \<Rightarrow> string \<Rightarrow> (config_error, images) comp" where
  "check_images vs mode =
     bind (nonempty vs ''IMAGE_REF'') (\<lambda>image.
     bind (assert ConfigError (image_digest image)) (\<lambda>_.
     let hi = or_else (vget vs ''HEAD_IMAGE_REF'') image; wi = or_else (vget vs ''WORKER_IMAGE_REF'') image in
     bind (assert ConfigError (image_digest hi)) (\<lambda>_.
     bind (assert ConfigError (image_digest wi)) (\<lambda>_.
     bind (assert ConfigError (reviewed mode \<longrightarrow> hi \<noteq> wi)) (\<lambda>_.
     bind (assert ConfigError (or_else (vget vs ''MODEL_CONTAINER_PATH'') DEFAULT_MODEL_CONTAINER_PATH
         = DEFAULT_MODEL_CONTAINER_PATH)) (\<lambda>_.
       ret \<lparr>im_ref = image, im_head = hi, im_worker = wi\<rparr>))))))"

subsection \<open>Network and devices\<close>

record network =
  nw_master_addr :: string
  nw_head_node :: string
  nw_worker_node :: string
  nw_master_port :: nat
  nw_api_port :: nat
  nw_forward_port :: nat
  nw_api_bind :: string
  nw_public :: bool

definition check_network :: "env \<Rightarrow> string \<Rightarrow> (config_error, network) comp" where
  "check_network vs mode =
     bind (address vs ''MASTER_ADDR'') (\<lambda>ma.
     bind (address vs ''HEAD_NODE_ADDR'') (\<lambda>hn.
     bind (address vs ''WORKER_NODE_ADDR'') (\<lambda>wn.
     bind (assert ConfigError (ma = hn)) (\<lambda>_.
     bind (assert ConfigError (hn \<noteq> wn)) (\<lambda>_.
     bind (port vs ''MASTER_PORT'') (\<lambda>mp.
     bind (port vs ''API_PORT'') (\<lambda>ap.
     bind (port vs ''FORWARD_LOCAL_PORT'') (\<lambda>fp.
     bind (assert ConfigError (mp \<noteq> ap)) (\<lambda>_.
     bind (assert ConfigError (fp \<noteq> ap)) (\<lambda>_.
     bind (assert ConfigError (reviewed mode \<longrightarrow> fp \<notin> {mp, ap})) (\<lambda>_.
     bind (nonempty vs ''API_BIND_ADDR'') (\<lambda>ab.
     let public = or_else (vget vs ''ALLOW_PUBLIC_API'') ''0'' in
     bind (assert ConfigError (public \<in> {''0'', ''1''})) (\<lambda>_.
     bind (if mode = ''production'' \<and> ab = ''0.0.0.0'' then assert ConfigError (public = ''1'')
           else assert ConfigError (ab \<in> {''127.0.0.1'', ''::1''})) (\<lambda>_.
       ret \<lparr>nw_master_addr = ma, nw_head_node = hn, nw_worker_node = wn, nw_master_port = mp,
         nw_api_port = ap, nw_forward_port = fp, nw_api_bind = ab, nw_public = (public = ''1'')\<rparr>))))))))))))))"

record devices =
  de_head_iface :: string
  de_worker_iface :: string
  de_head_hca :: string
  de_worker_hca :: string
  de_head_cuda :: string
  de_worker_cuda :: string
  de_gid :: "nat option"
  de_mtu :: nat

definition check_devices :: "env \<Rightarrow> (config_error, devices) comp" where
  "check_devices vs =
     bind (get_safe_list vs ''HEAD_NET_IFACE'') (\<lambda>hi.
     bind (get_safe_list vs ''WORKER_NET_IFACE'') (\<lambda>wi.
     bind (get_safe_list vs ''HEAD_HCA'') (\<lambda>hh.
     bind (get_safe_list vs ''WORKER_HCA'') (\<lambda>wh.
     bind (get_safe_list vs ''HEAD_CUDA_VISIBLE_DEVICES'') (\<lambda>hd.
     bind (get_safe_list vs ''WORKER_CUDA_VISIBLE_DEVICES'') (\<lambda>wd.
     let gid = vget vs ''ROCE_GID_INDEX'' in
     bind (assert ConfigError (gid = ''auto'' \<or> gid_ok gid)) (\<lambda>_.
     bind (nonempty vs ''ROCE_MTU'') (\<lambda>mtu.
     bind (assert ConfigError (isdecimal mtu \<and> 576 \<le> parse_nat mtu \<and> parse_nat mtu \<le> 65535)) (\<lambda>_.
       ret \<lparr>de_head_iface = hi, de_worker_iface = wi, de_head_hca = hh, de_worker_hca = wh,
         de_head_cuda = hd, de_worker_cuda = wd,
         de_gid = (if gid \<noteq> [] \<and> gid \<noteq> ''auto'' then Some (parse_nat gid) else None),
         de_mtu = parse_nat mtu\<rparr>)))))))))"

subsection \<open>The deployment object\<close>

text \<open>The entry \<^verbatim>\<open>deployment\<close> of the result, with the source's names.\<close>

record deployment =
  mode :: string
  fabric_profile :: string
  head_fabric_cidr :: "string option"
  worker_fabric_cidr :: "string option"
  head_fabric_peer :: "string option"
  worker_fabric_peer :: "string option"
  head_fabric_connection :: "string option"
  worker_fabric_connection :: "string option"
  head_roce_gid_index :: "int option"
  worker_roce_gid_index :: "int option"
  head_host :: string
  worker_host :: string
  head_ssh_host :: string
  worker_ssh_host :: string
  ssh_user :: "string option"
  head_ssh_user :: string
  worker_ssh_user :: string
  ssh_port :: nat
  ssh_known_hosts_file :: string
  ssh_identity_file :: "string option"
  remote_root :: string
  model_root :: string
  model_container_path :: string
  model_manifest_sha256 :: string
  state_root :: string
  cache_root :: string
  log_root :: "string option"
  result_root :: string
  registry :: "string option"
  image_ref :: string
  head_image_ref :: string
  worker_image_ref :: string
  image_lock_file :: string
  runtime_max_num_seqs :: nat
  runtime_max_num_batched_tokens :: nat
  allow_production_images_in_candidate :: bool
  production_change_allowed :: bool
  master_addr :: string
  master_port :: nat
  api_port :: nat
  head_node_addr :: string
  worker_node_addr :: string
  head_net_iface :: string
  worker_net_iface :: string
  head_hca :: string
  worker_hca :: string
  head_cuda_visible_devices :: string
  worker_cuda_visible_devices :: string
  roce_gid_index :: "nat option"
  roce_mtu :: nat
  api_bind_addr :: string
  allow_public_api :: bool
  forward_local_port :: nat

record config =
  profile :: "(string \<times> json) list"
  deployment :: deployment

text \<open>
  \<^verbatim>\<open>int(raw) if raw else gid_index\<close>.  Under the profile \<^verbatim>\<open>f0\<close> nothing has checked \<open>raw\<close>, so it may be
  any text.
\<close>

definition role_gid :: "string \<Rightarrow> nat option \<Rightarrow> (config_error, int option) comp" where
  "role_gid raw dflt =
     (if raw = [] then ret (map_option int dflt)
      else case py_int raw of None \<Rightarrow> raise PlainValueError | Some i \<Rightarrow> ret (Some i))"

definition manifest_of :: "env \<Rightarrow> string" where
  "manifest_of vs = vget vs ''MODEL_MANIFEST_SHA256''"

definition make_deployment :: "env \<Rightarrow> modes \<Rightarrow> fabric_cfg \<Rightarrow> hosts \<Rightarrow> roots \<Rightarrow> images \<Rightarrow> network \<Rightarrow> devices
    \<Rightarrow> int option \<Rightarrow> int option \<Rightarrow> nat \<Rightarrow> string \<Rightarrow> deployment" where
  "make_deployment vs md fb ho ro im nw de hgid wgid sshp lockf =
     \<lparr>mode = md_mode md, fabric_profile = fb_profile fb,
      head_fabric_cidr = or_none (fb_head_cidr fb), worker_fabric_cidr = or_none (fb_worker_cidr fb),
      head_fabric_peer = or_none (fb_head_peer fb), worker_fabric_peer = or_none (fb_worker_peer fb),
      head_fabric_connection = or_none (fb_head_connection fb),
      worker_fabric_connection = or_none (fb_worker_connection fb),
      head_roce_gid_index = hgid, worker_roce_gid_index = wgid,
      head_host = ho_head ho, worker_host = ho_worker ho,
      head_ssh_host = ho_head_ssh ho, worker_ssh_host = ho_worker_ssh ho,
      ssh_user = or_none (ho_ssh_user ho), head_ssh_user = ho_head_user ho, worker_ssh_user = ho_worker_user ho,
      ssh_port = sshp, ssh_known_hosts_file = ro_known_hosts ro, ssh_identity_file = or_none (ro_identity ro),
      remote_root = ro_remote ro, model_root = ro_model ro,
      model_container_path = DEFAULT_MODEL_CONTAINER_PATH, model_manifest_sha256 = manifest_of vs,
      state_root = ro_state ro, cache_root = ro_cache ro, log_root = or_none (ro_log ro),
      result_root = ro_result ro, registry = or_none (vget vs ''REGISTRY''),
      image_ref = im_ref im, head_image_ref = im_head im, worker_image_ref = im_worker im,
      image_lock_file = lockf, runtime_max_num_seqs = md_max_num_seqs md,
      runtime_max_num_batched_tokens = md_max_num_batched_tokens md,
      allow_production_images_in_candidate = md_allow_production_images md,
      production_change_allowed = md_production_change md,
      master_addr = nw_master_addr nw, master_port = nw_master_port nw, api_port = nw_api_port nw,
      head_node_addr = nw_head_node nw, worker_node_addr = nw_worker_node nw,
      head_net_iface = de_head_iface de, worker_net_iface = de_worker_iface de,
      head_hca = de_head_hca de, worker_hca = de_worker_hca de,
      head_cuda_visible_devices = de_head_cuda de, worker_cuda_visible_devices = de_worker_cuda de,
      roce_gid_index = de_gid de, roce_mtu = de_mtu de, api_bind_addr = nw_api_bind nw,
      allow_public_api = nw_public nw, forward_local_port = nw_forward_port nw\<rparr>"

definition validate :: "path \<Rightarrow> env \<Rightarrow> (string \<times> json) list \<Rightarrow> (config_error, config) comp" where
  "validate repo vs prof =
     bind (check_modes vs (map_of prof ''profile_id'')) (\<lambda>md.
     bind (check_fabric vs (md_mode md)) (\<lambda>fb.
     bind (check_pinned vs (md_mode md)) (\<lambda>_.
     bind (check_hosts vs) (\<lambda>ho.
     bind (check_roots repo vs (md_mode md)) (\<lambda>ro.
     bind (check_images vs (md_mode md)) (\<lambda>im.
     bind (check_network vs (md_mode md)) (\<lambda>nw.
     bind (check_devices vs) (\<lambda>de.
     bind (assert ConfigError (case map_of prof ''profile_id'' of Some (JStr s) \<Rightarrow> s \<noteq> [] | _ \<Rightarrow> False)) (\<lambda>_.
     bind (role_gid (fb_head_gid fb) (de_gid de)) (\<lambda>hgid.
     bind (role_gid (fb_worker_gid fb) (de_gid de)) (\<lambda>wgid.
     bind (port vs ''SSH_PORT'') (\<lambda>sshp.
     bind (lock_file repo vs) (\<lambda>lockf.
       ret \<lparr>profile = prof, deployment = make_deployment vs md fb ho ro im nw de hgid wgid sshp lockf\<rparr>)))))))))))))"

end
