(* ===== verification/Config_Profile.thy ===== *)
theory Config_Profile
  imports Config_Check
begin

text \<open>
  The reviewed service profiles of \<^verbatim>\<open>dgx_deploy/config.py\<close>: the tables of the allowed keys and the fixed
  values, \<^verbatim>\<open>_validate_profile\<close>, \<^verbatim>\<open>load_profile\<close> and \<^verbatim>\<open>load_config\<close>.
\<close>

subsection \<open>The tables\<close>

text \<open>The double that Python reads from \<^verbatim>\<open>0.85\<close>.\<close>

definition FLOAT_085 :: rat where "FLOAT_085 = 7656119366529843 / 9007199254740992"

definition PROFILE_KEYS :: "(string list \<times> string list) list" where
  "PROFILE_KEYS =
    [([],
       [''schema_version'', ''profile_id'', ''release_gated_manifest_fields'', ''platform'', ''topology'',
        ''model'', ''service'', ''limits'', ''parsing'', ''container'', ''image'', ''security'']),
     ([''image''],
       [''lock_path'', ''candidate_id'', ''source_refs'', ''required_labels'']),
     ([''image'', ''source_refs''],
       [''vllm'', ''b12x'']),
     ([''platform''],
       [''architecture'', ''accelerator'', ''nodes'']),
     ([''topology''],
       [''tensor_parallel_size'', ''pipeline_parallel_size'', ''nnodes'', ''head_rank'', ''worker_rank'',
        ''worker_first'']),
     ([''model''],
       [''family'', ''served_model_name'', ''container_path'', ''model_path'']),
     ([''service''],
       [''attention_backend'', ''moe_backend'', ''linear_backend'', ''distributed_executor_backend'',
        ''target_kv_cache_dtype'', ''block_size'', ''gpu_memory_utilization'', ''enable_chunked_prefill'',
        ''long_prefill_token_threshold'', ''compact_layout'', ''draft_config_json'', ''reasoning_config_json'',
        ''load_format'', ''prefix_caching'', ''async_scheduling'', ''cuda_graph'', ''max_cudagraph_capture_size'',
        ''compilation_config_json'']),
     ([''service'', ''compact_layout''],
       [''abi'', ''record_bytes'']),
     ([''service'', ''prefix_caching''],
       [''enabled'', ''hash_algorithm'']),
     ([''service'', ''cuda_graph''],
       [''enabled'', ''mode'']),
     ([''limits''],
       [''max_model_len'', ''max_num_seqs'', ''max_num_batched_tokens'']),
     ([''parsing''],
       [''tokenizer_mode'', ''tool_call_parser'', ''reasoning_parser'']),
     ([''container''],
       [''name_prefix'', ''read_only_root'', ''no_new_privileges'']),
     ([''security''],
       [''production_change_allowed'', ''api_bind_default'', ''model_mount_read_only''])]"

definition PROFILE_VALUES :: "(string list \<times> json) list" where
  \<open>PROFILE_VALUES =
    [([''schema_version''], JInt 1),
     ([''profile_id''], JStr ''dsv4-native432-b12x-tp2''),
     ([''image'', ''lock_path''], JStr ''image.lock.json''),
     ([''image'', ''candidate_id''], JStr ''dsv4-0731-native432-b12x''),
     ([''image'', ''source_refs'', ''vllm''], JStr ''release/dsv4-0731-native432-b12x''),
     ([''image'', ''source_refs'', ''b12x''], JStr ''release/dsv4-0731-native432''),
     ([''image'', ''required_labels''], JArr (map JStr [''org.opencontainers.image.revision'', ''com.dgx-spark.architecture'', ''com.dgx-spark.profile_sha256'',
        ''com.dgx-spark.service_contract_sha256'', ''com.dgx-spark.image_lock_sha256'',
        ''com.dgx-spark.vllm.commit'', ''com.dgx-spark.b12x.commit''])),
     ([''release_gated_manifest_fields''], JArr (map JStr [''chat_template'', ''reasoning_config'', ''load_format'', ''linear_backend'', ''cuda_graph_capture_sizes'',
        ''compact_block_stride''])),
     ([''model'', ''family''], JStr ''DeepSeek-V4-Flash''),
     ([''model'', ''served_model_name''], JStr ''deepseek-v4-flash-0731-native432''),
     ([''model'', ''container_path''], JStr ''/models''),
     ([''model'', ''model_path''], JStr ''/models/DeepSeek-V4-Flash-0731''),
     ([''service'', ''attention_backend''], JStr ''B12X_MLA_SPARSE''),
     ([''service'', ''moe_backend''], JStr ''b12x''),
     ([''service'', ''linear_backend''], JStr ''b12x''),
     ([''service'', ''distributed_executor_backend''], JStr ''mp''),
     ([''service'', ''target_kv_cache_dtype''], JStr ''nvfp4_ds_mla''),
     ([''service'', ''block_size''], JInt 256),
     ([''service'', ''gpu_memory_utilization''], JFloat FLOAT_085),
     ([''service'', ''enable_chunked_prefill''], JBool True),
     ([''service'', ''long_prefill_token_threshold''], JInt 0),
     ([''service'', ''compact_layout'', ''abi''], JStr ''dsv4-native432-compact-v1''),
     ([''service'', ''compact_layout'', ''record_bytes''], JInt 432),
     ([''service'', ''draft_config_json''], JStr ''{"method":"dspark","num_speculative_tokens":5,"draft_sample_method":"probabilistic","attention_backend":"B12X_MLA_SPARSE","kv_cache_dtype":"fp8"}''),
     ([''service'', ''reasoning_config_json''], JStr ''{"reasoning_parser":"deepseek_v4","reasoning_start_str":"","reasoning_end_str":""}''),
     ([''service'', ''load_format''], JStr ''instanttensor''),
     ([''service'', ''prefix_caching'', ''enabled''], JBool True),
     ([''service'', ''prefix_caching'', ''hash_algorithm''], JStr ''sha256''),
     ([''service'', ''async_scheduling''], JBool False),
     ([''service'', ''cuda_graph'', ''enabled''], JBool True),
     ([''service'', ''cuda_graph'', ''mode''], JStr ''FULL_AND_PIECEWISE''),
     ([''service'', ''max_cudagraph_capture_size''], JInt 64),
     ([''service'', ''compilation_config_json''], JStr ''{"cudagraph_mode":"FULL_AND_PIECEWISE","custom_ops":["all"]}''),
     ([''limits'', ''max_model_len''], JInt 327680),
     ([''limits'', ''max_num_seqs''], JInt 5),
     ([''limits'', ''max_num_batched_tokens''], JInt 1024),
     ([''parsing'', ''tokenizer_mode''], JStr ''deepseek_v4''),
     ([''parsing'', ''tool_call_parser''], JStr ''deepseek_v4''),
     ([''parsing'', ''reasoning_parser''], JStr ''deepseek_v4''),
     ([''container'', ''name_prefix''], JStr ''dsv4-candidate-''),
     ([''container'', ''read_only_root''], JBool True),
     ([''container'', ''no_new_privileges''], JBool True),
     ([''security'', ''production_change_allowed''], JBool False),
     ([''security'', ''api_bind_default''], JStr ''127.0.0.1''),
     ([''security'', ''model_mount_read_only''], JBool True)]\<close>

definition PROFILE_VARIANT_VALUES :: "(string \<times> (string list \<times> json) list) list" where
  "PROFILE_VARIANT_VALUES =
    [(CANDIDATE_SEQ10_PROFILE_ID,
      [([''profile_id''], JStr CANDIDATE_SEQ10_PROFILE_ID),
       ([''limits'', ''max_num_seqs''], JInt 10),
       ([''limits'', ''max_num_batched_tokens''], JInt 8192),
       ([''image'', ''candidate_id''], JStr ''dsv4-0731-native432-b12x-seq10'')])]"


subsection \<open>Checking a profile\<close>

text \<open>\<^verbatim>\<open>_profile_at\<close>: the value at a path of keys; every step needs an object with that key.\<close>

fun profile_at :: "json \<Rightarrow> string list \<Rightarrow> (config_error, json) comp" where
  "profile_at cur [] = ret cur"
| "profile_at cur (k # ks) = (case jget cur k of None \<Rightarrow> raise ConfigError | Some v \<Rightarrow> profile_at v ks)"

definition same_keys :: "json \<Rightarrow> string list \<Rightarrow> bool" where
  "same_keys j ks \<longleftrightarrow> (case j of JObj es \<Rightarrow> set (map fst es) = set ks | _ \<Rightarrow> False)"

text \<open>\<^verbatim>\<open>dict.update\<close> on the expected values.\<close>

definition override :: "('k \<times> 'v) list \<Rightarrow> ('k \<times> 'v) list \<Rightarrow> ('k \<times> 'v) list" where
  "override xs ys = map (\<lambda>(k, v). (k, case map_of ys k of None \<Rightarrow> v | Some w \<Rightarrow> w)) xs
     @ filter (\<lambda>(k, _). k \<notin> fst ` set xs) ys"

definition expected_values :: "json \<Rightarrow> (string list \<times> json) list" where
  "expected_values prof =
     (case jget prof ''profile_id'' of
        Some (JStr s) \<Rightarrow> (case map_of PROFILE_VARIANT_VALUES s of
            None \<Rightarrow> PROFILE_VALUES | Some vs \<Rightarrow> override PROFILE_VALUES vs)
      | _ \<Rightarrow> PROFILE_VALUES)"

definition validate_profile :: "json \<Rightarrow> (config_error, unit) comp" where
  "validate_profile prof =
     bind (fold_comp (\<lambda>(path, ks) _. bind (profile_at prof path) (\<lambda>cur. assert ConfigError (same_keys cur ks)))
             PROFILE_KEYS ()) (\<lambda>_.
       fold_comp (\<lambda>(path, expected) _. bind (profile_at prof path) (\<lambda>v. assert ConfigError (py_eq v expected)))
         (expected_values prof) ())"

subsection \<open>Loading\<close>

definition DEFAULT_PROFILE :: "path \<Rightarrow> path" where
  "DEFAULT_PROFILE repo = path_join repo ''config/profiles/dsv4-native432-b12x-tp2.json''"

definition CANDIDATE_SEQ10_PROFILE :: "path \<Rightarrow> path" where
  "CANDIDATE_SEQ10_PROFILE repo = path_join repo ''config/profiles/dsv4-native432-b12x-tp2-seq10.json''"

text \<open>
  \<open>resolve\<close> is \<^verbatim>\<open>Path.resolve\<close>, \<open>read\<close> the text of a file (\<open>None\<close> when it cannot be read as UTF-8) and
  \<open>loads\<close> is \<^verbatim>\<open>json.loads\<close> (\<open>None\<close> when the text is not JSON); \<open>repo\<close> is the resolved \<^verbatim>\<open>ROOT\<close>.
\<close>

definition load_profile :: "(path \<Rightarrow> path) \<Rightarrow> (path \<Rightarrow> string option) \<Rightarrow> (string \<Rightarrow> json option) \<Rightarrow> path \<Rightarrow> path
    \<Rightarrow> (config_error, (string \<times> json) list) comp" where
  "load_profile resolve read loads repo file =
     (case read file of
        None \<Rightarrow> raise ConfigError
      | Some t \<Rightarrow> (case loads t of
          None \<Rightarrow> raise ConfigError
        | Some v \<Rightarrow>
            bind (assert ConfigError (resolve file \<in> {resolve (DEFAULT_PROFILE repo),
                resolve (CANDIDATE_SEQ10_PROFILE repo)})) (\<lambda>_.
              case v of
                JObj es \<Rightarrow> bind (validate_profile v) (\<lambda>_. ret es)
              | _ \<Rightarrow> raise ConfigError)))"

definition load_config :: "(path \<Rightarrow> path) \<Rightarrow> (path \<Rightarrow> string option) \<Rightarrow> (string \<Rightarrow> json option) \<Rightarrow> path
    \<Rightarrow> path \<Rightarrow> path \<Rightarrow> (config_error, config) comp" where
  "load_config resolve read loads repo env_file profile_file =
     bind (parse_env_file (read env_file)) (\<lambda>vs.
     bind (load_profile resolve read loads repo profile_file) (\<lambda>prof.
       validate repo vs prof))"

end
