(* ===== verification/Config_Props.thy ===== *)
theory Config_Props
  imports Config_Profile "HOL-Library.Code_Target_Nat"
begin

text \<open>
  What an accepted configuration guarantees: safe addresses, ports, roots and images, the separation
  of production from candidates, the gates on runtime limits, and the env file round trip.
\<close>

subsection \<open>What each group of checks establishes\<close>

definition outside :: "path \<Rightarrow> string \<Rightarrow> bool" where
  "outside repo s \<longleftrightarrow> starts_with ''/'' s \<and> path_of s \<noteq> repo \<and> \<not> in_parents repo (path_of s)"

lemmas value_defs = nonempty_def address_def port_def get_safe_list_def runtime_limit_def Let_def ret_iff

lemma nonempty_ret: "nonempty vs k = ret v \<longleftrightarrow> v = vget vs k \<and> v \<noteq> []"
  by (auto simp: nonempty_def ret_iff)

lemma address_ret: "address vs k = ret v \<Longrightarrow> v = vget vs k \<and> ip_address v \<and> ssh_host_ok v"
  by (auto simp: value_defs ssh_host_ok_def)

lemma port_ret: "port vs k = ret n \<Longrightarrow> 1 \<le> n \<and> n \<le> 65535 \<and> n = parse_nat (vget vs k) \<and> isdecimal (vget vs k)"
  by (auto simp: value_defs)

lemma runtime_limit_ret:
  "runtime_limit vs k d m allowed = ret n \<Longrightarrow> (n = d \<or> m = ''candidate'' \<or> m = ''production'' \<and> allowed) \<and> (1 \<le> d \<longrightarrow> 1 \<le> n)"
  by (auto simp: value_defs split: if_splits)

lemma absolute_of_slash: "is_absolute (path_of v) \<longleftrightarrow> starts_with ''/'' v"
  by (auto simp: is_absolute_def path_of_def Let_def starts_with_iff)

lemma rstrip_slash:
  assumes "starts_with ''/'' v"
  shows "starts_with ''/'' (let r = rstrip_char CHR ''/'' v in if r = [] then ''/'' else r)"
proof -
  from assms obtain w where v: "v = CHR ''/'' # w" by (auto simp: starts_with_iff)
  have "rstrip_char c (d # s) = [] \<or> (\<exists>t. rstrip_char c (d # s) = d # t)" for c d s
    by (auto simp: rstrip_char_def dropWhile_append intro: exI [of _ "rev (dropWhile (\<lambda>x. x = c) (rev s))"])
  with v show ?thesis by (auto simp: Let_def) (metis list.distinct(1) starts_with.simps(1,3))
qed

lemma external_ret:
  assumes "external_path repo vs k = ret v"
  shows "outside repo v"
proof -
  from assms have "absolute_root vs k = ret v" "path_of v \<noteq> repo" "\<not> in_parents repo (path_of v)"
    by (auto simp: external_path_def ret_iff)
  moreover from this(1) have "starts_with ''/'' v"
    using rstrip_slash [of "vget vs k"]
    by (auto simp: absolute_root_def nonempty_def Let_def ret_iff absolute_of_slash)
  ultimately show ?thesis by (simp add: outside_def)
qed

lemma opt_external_ret: "opt_external repo vs k = ret v \<Longrightarrow> v = [] \<or> outside repo v"
  by (auto simp: opt_external_def external_ret split: if_splits)

lemma check_modes_ret:
  assumes "check_modes vs pid = ret md"
  shows "md_mode md = deployment_mode vs" "md_mode md \<in> {''generic'', ''production'', ''candidate''}"
    "md_production_change md \<Longrightarrow> md_mode md = ''production''"
    "md_allow_production_images md \<Longrightarrow> md_mode md = ''candidate''"
    "pid = Some (JStr CANDIDATE_SEQ10_PROFILE_ID) \<Longrightarrow> md_mode md = ''candidate''"
    "md_max_num_seqs md = DEFAULT_MAX_NUM_SEQS \<or> md_mode md = ''candidate'' \<or> md_production_change md"
    "md_max_num_batched_tokens md = DEFAULT_MAX_NUM_BATCHED_TOKENS \<or> md_mode md = ''candidate'' \<or> md_production_change md"
    "\<forall>(k, v)\<in>set vs. k \<in> set ALLOWED_KEYS"
proof -
  let ?change = "or_else (vget vs ''PRODUCTION_CHANGE_ALLOWED'') ''0'' = ''1''"
  let ?m = "deployment_mode vs"
  from assms obtain seqs batch where
    md: "md = \<lparr>md_mode = ?m, md_max_num_seqs = seqs, md_max_num_batched_tokens = batch,
      md_allow_production_images = (or_else (vget vs ''ALLOW_PRODUCTION_IMAGES_IN_CANDIDATE'') ''0'' = ''1''),
      md_production_change = ?change\<rparr>"
    and c: "\<forall>(k, v)\<in>set vs. k \<in> set ALLOWED_KEYS" "?m \<in> {''generic'', ''production'', ''candidate''}"
      "\<not> (?m \<noteq> ''production'' \<and> ?change)"
      "\<not> (?m \<noteq> ''candidate'' \<and> or_else (vget vs ''ALLOW_PRODUCTION_IMAGES_IN_CANDIDATE'') ''0'' = ''1'')"
      "\<not> (pid = Some (JStr CANDIDATE_SEQ10_PROFILE_ID) \<and> ?m \<noteq> ''candidate'')"
    and l: "runtime_limit vs ''MAX_NUM_SEQS'' DEFAULT_MAX_NUM_SEQS ?m ?change = ret seqs"
      "runtime_limit vs ''MAX_NUM_BATCHED_TOKENS'' DEFAULT_MAX_NUM_BATCHED_TOKENS ?m ?change = ret batch"
    unfolding check_modes_def Let_def ret_iff by (elim exE conjE) (rule that; (assumption | simp only: ret_inject))
  show "md_mode md = ?m" "\<forall>(k, v)\<in>set vs. k \<in> set ALLOWED_KEYS"
    using md c(1) by simp_all
  show "md_mode md \<in> {''generic'', ''production'', ''candidate''}" using md c(2) by simp
  show "md_production_change md \<Longrightarrow> md_mode md = ''production''" using md c(3) by simp
  show "md_allow_production_images md \<Longrightarrow> md_mode md = ''candidate''" using md c(4) by simp
  show "pid = Some (JStr CANDIDATE_SEQ10_PROFILE_ID) \<Longrightarrow> md_mode md = ''candidate''" using md c(5) by simp
  show "md_max_num_seqs md = DEFAULT_MAX_NUM_SEQS \<or> md_mode md = ''candidate'' \<or> md_production_change md"
    "md_max_num_batched_tokens md = DEFAULT_MAX_NUM_BATCHED_TOKENS \<or> md_mode md = ''candidate'' \<or> md_production_change md"
    using runtime_limit_ret [OF l(1)] runtime_limit_ret [OF l(2)] md by auto
qed

lemma check_fabric_ret:
  assumes "check_fabric vs m = ret fb"
  shows "fb_profile fb \<in> {''f0'', ''f1'', ''auto''}"
    "fb_profile fb = ''f1'' \<Longrightarrow> check_f1 vs m = ret (fb_head_cidr fb, fb_worker_cidr fb)
       \<and> fb_head_peer fb = vget vs ''HEAD_FABRIC_PEER'' \<and> fb_worker_peer fb = vget vs ''WORKER_FABRIC_PEER''"
    "fb_head_gid fb = vget vs ''HEAD_ROCE_GID_INDEX'' \<and> fb_worker_gid fb = vget vs ''WORKER_ROCE_GID_INDEX''"
    "fb_head_connection fb = vget vs ''HEAD_FABRIC_CONNECTION'' \<and> fb_worker_connection fb = vget vs ''WORKER_FABRIC_CONNECTION''"
  using assms unfolding check_fabric_def Let_def ret_iff
  by (auto split: if_splits prod.splits)

lemma check_pinned_ret:
  assumes "check_pinned vs m = ret u" and "reviewed m"
  shows "vget vs ''MASTER_PORT'' = show_int (if m = ''production'' then 29619 else 29621)"
    "vget vs ''API_PORT'' = show_int (if m = ''production'' then 8101 else 18101)"
    "vget vs ''MASTER_ADDR'' = ''192.168.100.10''" "vget vs ''HEAD_NODE_ADDR'' = ''192.168.100.10''"
    "vget vs ''WORKER_NODE_ADDR'' = ''192.168.100.11''"
  using assms unfolding check_pinned_def Let_def by (simp_all add: ret_iff vget_def split: if_splits)

lemma check_hosts_ret:
  assumes "check_hosts vs = ret ho"
  shows "ip_address (ho_head ho)" "ip_address (ho_worker ho)" "ho_head ho \<noteq> ho_worker ho"
    "ssh_host_ok (ho_head_ssh ho)" "ssh_host_ok (ho_worker_ssh ho)"
  using assms unfolding check_hosts_def Let_def ret_iff by (auto dest: address_ret)

lemma check_roots_ret:
  assumes "check_roots repo vs m = ret ro"
  shows "outside repo (ro_known_hosts ro)" "ro_identity ro = [] \<or> outside repo (ro_identity ro)"
    "\<forall>r\<in>{ro_remote ro, ro_model ro, ro_state ro, ro_cache ro, ro_result ro}. outside repo r"
    "ro_log ro = [] \<or> outside repo (ro_log ro)"
    "reviewed m \<Longrightarrow> ro_log ro \<noteq> [] \<and> distinct [ro_remote ro, ro_cache ro, ro_state ro, ro_result ro, ro_log ro]"
    "m = ''candidate'' \<Longrightarrow> \<forall>r\<in>set [ro_remote ro, ro_cache ro, ro_state ro, ro_result ro, ro_log ro]. contains ''candidate'' (lower r)"
    "is_sha256 (manifest_of vs)"
proof -
  from assms obtain kh ident remote model state cache result log mf where
    ro: "ro = \<lparr>ro_known_hosts = kh, ro_identity = ident, ro_remote = remote, ro_model = model,
         ro_state = state, ro_cache = cache, ro_result = result, ro_log = log\<rparr>"
    and p: "external_path repo vs ''SSH_KNOWN_HOSTS_FILE'' = ret kh" "opt_external repo vs ''SSH_IDENTITY_FILE'' = ret ident"
      "external_path repo vs ''REMOTE_ROOT'' = ret remote" "external_path repo vs ''MODEL_ROOT'' = ret model"
      "external_path repo vs ''STATE_ROOT'' = ret state" "external_path repo vs ''CACHE_ROOT'' = ret cache"
      "external_path repo vs ''RESULT_ROOT'' = ret result" "opt_external repo vs ''LOG_ROOT'' = ret log"
      "nonempty vs ''MODEL_MANIFEST_SHA256'' = ret mf"
    and c: "reviewed m \<longrightarrow> log \<noteq> []" "reviewed m \<longrightarrow> distinct [remote, cache, state, result, log]"
      "m = ''candidate'' \<longrightarrow> (\<forall>r\<in>set [remote, cache, state, result, log]. contains ''candidate'' (lower r))"
      "is_sha256 mf"
    unfolding check_roots_def Let_def ret_iff by (elim exE conjE) (rule that; (assumption | simp only: ret_inject))
  note o = p(1,3-7) [THEN external_ret] p(2,8) [THEN opt_external_ret]
  show "outside repo (ro_known_hosts ro)" "ro_identity ro = [] \<or> outside repo (ro_identity ro)"
    "\<forall>r\<in>{ro_remote ro, ro_model ro, ro_state ro, ro_cache ro, ro_result ro}. outside repo r"
    "ro_log ro = [] \<or> outside repo (ro_log ro)"
    using o by (simp_all add: ro)
  show "reviewed m \<Longrightarrow> ro_log ro \<noteq> [] \<and> distinct [ro_remote ro, ro_cache ro, ro_state ro, ro_result ro, ro_log ro]"
    "m = ''candidate'' \<Longrightarrow> \<forall>r\<in>set [ro_remote ro, ro_cache ro, ro_state ro, ro_result ro, ro_log ro]. contains ''candidate'' (lower r)"
    using c(1-3) by (simp_all add: ro)
  show "is_sha256 (manifest_of vs)" using p(9) c(4) by (simp add: manifest_of_def nonempty_ret)
qed

lemma check_images_ret:
  assumes "check_images vs m = ret im"
  shows "image_digest (im_ref im)" "image_digest (im_head im)" "image_digest (im_worker im)"
    "reviewed m \<Longrightarrow> im_head im \<noteq> im_worker im"
  using assms unfolding check_images_def Let_def ret_iff by auto

lemma check_network_ret:
  assumes "check_network vs m = ret nw"
  shows "nw_master_addr nw = nw_head_node nw" "nw_head_node nw \<noteq> nw_worker_node nw"
    "port vs ''MASTER_PORT'' = ret (nw_master_port nw)" "port vs ''API_PORT'' = ret (nw_api_port nw)"
    "port vs ''FORWARD_LOCAL_PORT'' = ret (nw_forward_port nw)"
    "nw_master_port nw \<noteq> nw_api_port nw" "nw_forward_port nw \<noteq> nw_api_port nw"
    "reviewed m \<Longrightarrow> nw_forward_port nw \<noteq> nw_master_port nw"
    "nw_api_bind nw \<in> {''127.0.0.1'', ''::1''} \<or> m = ''production'' \<and> nw_api_bind nw = ''0.0.0.0'' \<and> nw_public nw"
    "ip_address (nw_head_node nw)" "ip_address (nw_worker_node nw)"
proof -
  from assms obtain ma hn wn mp ap fp ab u where
    nw: "nw = \<lparr>nw_master_addr = ma, nw_head_node = hn, nw_worker_node = wn, nw_master_port = mp,
         nw_api_port = ap, nw_forward_port = fp, nw_api_bind = ab,
         nw_public = (or_else (vget vs ''ALLOW_PUBLIC_API'') ''0'' = ''1'')\<rparr>"
    and a: "address vs ''HEAD_NODE_ADDR'' = ret hn" "address vs ''WORKER_NODE_ADDR'' = ret wn"
    and p: "port vs ''MASTER_PORT'' = ret mp" "port vs ''API_PORT'' = ret ap" "port vs ''FORWARD_LOCAL_PORT'' = ret fp"
    and c: "ma = hn" "hn \<noteq> wn" "mp \<noteq> ap" "fp \<noteq> ap" "reviewed m \<longrightarrow> fp \<notin> {mp, ap}"
      "(if m = ''production'' \<and> ab = ''0.0.0.0'' then assert ConfigError (or_else (vget vs ''ALLOW_PUBLIC_API'') ''0'' = ''1'')
        else assert ConfigError (ab \<in> {''127.0.0.1'', ''::1''})) = ret u"
    unfolding check_network_def Let_def bind_eq_ret assert_eq_ret
    by (elim exE conjE) (rule that; (assumption | simp only: ret_inject))
  show "nw_master_addr nw = nw_head_node nw" "nw_head_node nw \<noteq> nw_worker_node nw"
    "port vs ''MASTER_PORT'' = ret (nw_master_port nw)" "port vs ''API_PORT'' = ret (nw_api_port nw)"
    "port vs ''FORWARD_LOCAL_PORT'' = ret (nw_forward_port nw)"
    "nw_master_port nw \<noteq> nw_api_port nw" "nw_forward_port nw \<noteq> nw_api_port nw"
    "reviewed m \<Longrightarrow> nw_forward_port nw \<noteq> nw_master_port nw"
    using p c(1-5) by (simp_all add: nw)
  show "nw_api_bind nw \<in> {''127.0.0.1'', ''::1''} \<or> m = ''production'' \<and> nw_api_bind nw = ''0.0.0.0'' \<and> nw_public nw"
    using c(6) by (auto simp: nw assert_eq_ret split: if_splits)
  show "ip_address (nw_head_node nw)" "ip_address (nw_worker_node nw)"
    using a by (auto simp: nw dest: address_ret)
qed

subsection \<open>Accepted configurations\<close>

text \<open>The parts of an accepted configuration.\<close>

lemma validate_parts:
  assumes "validate repo vs prof = ret c"
  obtains md fb ho ro im nw de hg wg sp lf u where
    "c = \<lparr>profile = prof, deployment = make_deployment vs md fb ho ro im nw de hg wg sp lf\<rparr>"
    "check_modes vs (map_of prof ''profile_id'') = ret md" "check_fabric vs (md_mode md) = ret fb"
    "check_pinned vs (md_mode md) = ret u" "check_hosts vs = ret ho" "check_roots repo vs (md_mode md) = ret ro"
    "check_images vs (md_mode md) = ret im" "check_network vs (md_mode md) = ret nw" "check_devices vs = ret de"
    "role_gid (fb_head_gid fb) (de_gid de) = ret hg" "role_gid (fb_worker_gid fb) (de_gid de) = ret wg"
    "port vs ''SSH_PORT'' = ret sp" "lock_file repo vs = ret lf"
  using assms unfolding validate_def bind_eq_ret assert_eq_ret
  by (elim exE conjE) (rule that; (assumption | simp only: ret_inject))

text \<open>
  C33. Every accepted configuration has two different hosts and two different node addresses that are
  IP addresses, ports in range that do not clash, and an API that listens on the loopback unless a
  production deployment asked for a public one.
\<close>

theorem accepted_network:
  assumes "validate repo vs prof = ret c"
  shows "let d = deployment c in
      ip_address (head_host d) \<and> ip_address (worker_host d) \<and> head_host d \<noteq> worker_host d
    \<and> ssh_host_ok (head_ssh_host d) \<and> ssh_host_ok (worker_ssh_host d)
    \<and> ip_address (head_node_addr d) \<and> ip_address (worker_node_addr d) \<and> head_node_addr d \<noteq> worker_node_addr d
    \<and> master_addr d = head_node_addr d
    \<and> {master_port d, api_port d, forward_local_port d, ssh_port d} \<subseteq> {1..65535}
    \<and> master_port d \<noteq> api_port d \<and> forward_local_port d \<noteq> api_port d
    \<and> (reviewed (mode d) \<longrightarrow> forward_local_port d \<noteq> master_port d)
    \<and> (api_bind_addr d \<in> {''127.0.0.1'', ''::1''}
       \<or> mode d = ''production'' \<and> api_bind_addr d = ''0.0.0.0'' \<and> allow_public_api d)"
  using assms
proof (rule validate_parts)
  fix md fb ho ro im nw de hg wg sp lf
  assume c: "c = \<lparr>profile = prof, deployment = make_deployment vs md fb ho ro im nw de hg wg sp lf\<rparr>"
    and h: "check_hosts vs = ret ho" and n: "check_network vs (md_mode md) = ret nw" and s: "port vs ''SSH_PORT'' = ret sp"
  note n' = check_network_ret [OF n]
  have "{nw_master_port nw, nw_api_port nw, nw_forward_port nw, sp} \<subseteq> {1..65535}"
    using n'(3-5) [THEN port_ret] port_ret [OF s] by simp
  then show ?thesis using check_hosts_ret [OF h] n' by (auto simp: c make_deployment_def Let_def)
qed

text \<open>
  C34. The model root, the remote, cache, state, result and log roots, the file of known hosts and the SSH identity of an
  accepted configuration are absolute and lie, as path texts, outside the repository; in production and candidate
  deployments the log root is given, the writable roots are pairwise different, and those of a candidate name it.  The
  file of the image lock is not one of them: by default it lies in the repository.
\<close>

theorem accepted_roots:
  assumes "validate repo vs prof = ret c"
  shows "let d = deployment c; writable = [remote_root d, cache_root d, state_root d, result_root d] @ (case log_root d of None \<Rightarrow> [] | Some l \<Rightarrow> [l]) in
      (\<forall>r\<in>{ssh_known_hosts_file d, model_root d} \<union> set writable \<union> set_option (ssh_identity_file d). outside repo r)
    \<and> (reviewed (mode d) \<longrightarrow> log_root d \<noteq> None \<and> distinct writable)
    \<and> (mode d = ''candidate'' \<longrightarrow> (\<forall>r\<in>set writable. contains ''candidate'' (lower r)))"
  using assms
proof (rule validate_parts)
  fix md fb ho ro im nw de hg wg sp lf
  assume c: "c = \<lparr>profile = prof, deployment = make_deployment vs md fb ho ro im nw de hg wg sp lf\<rparr>"
    and r: "check_roots repo vs (md_mode md) = ret ro"
  note r' = check_roots_ret [OF r]
  show ?thesis
    using r'(1-4) r'(5,6) by (auto simp: c make_deployment_def Let_def or_none_def)
qed

text \<open>
  Every image of an accepted configuration is named by an immutable digest, the model by a
  manifest digest, and production and candidate deployments use different images on the two nodes.
\<close>

theorem accepted_images:
  assumes "validate repo vs prof = ret c"
  shows "let d = deployment c in image_digest (image_ref d) \<and> image_digest (head_image_ref d)
    \<and> image_digest (worker_image_ref d) \<and> is_sha256 (model_manifest_sha256 d)
    \<and> model_container_path d = DEFAULT_MODEL_CONTAINER_PATH
    \<and> (reviewed (mode d) \<longrightarrow> head_image_ref d \<noteq> worker_image_ref d)"
  using assms
proof (rule validate_parts)
  fix md fb ho ro im nw de hg wg sp lf
  assume c: "c = \<lparr>profile = prof, deployment = make_deployment vs md fb ho ro im nw de hg wg sp lf\<rparr>"
    and r: "check_roots repo vs (md_mode md) = ret ro" and i: "check_images vs (md_mode md) = ret im"
  show ?thesis
    using check_roots_ret(7) [OF r] check_images_ret [OF i] by (simp add: c make_deployment_def Let_def)
qed

lemma parse_show [simp]: "0 \<le> i \<Longrightarrow> int (parse_nat (show_int i)) = i"
  by (simp add: show_int_def parse_digits)

text \<open>
  A production and a candidate deployment on the same machines never contend for a service port:
  their rendezvous and API ports are fixed, and the four are different.
\<close>

theorem production_candidate_ports:
  assumes "validate repo vs prof = ret c" and "mode (deployment c) = ''production''"
    and "validate repo' vs' prof' = ret c'" and "mode (deployment c') = ''candidate''"
  shows "(master_port (deployment c), api_port (deployment c)) = (29619, 8101)
    \<and> (master_port (deployment c'), api_port (deployment c')) = (29621, 18101)
    \<and> head_node_addr (deployment c) = head_node_addr (deployment c')
    \<and> worker_node_addr (deployment c) = worker_node_addr (deployment c')"
proof -
  have pinned: "int (master_port (deployment c)) = (if mode (deployment c) = ''production'' then 29619 else 29621)
      \<and> int (api_port (deployment c)) = (if mode (deployment c) = ''production'' then 8101 else 18101)
      \<and> head_node_addr (deployment c) = ''192.168.100.10'' \<and> worker_node_addr (deployment c) = ''192.168.100.11''"
    if v: "validate repo vs prof = ret c" and m: "reviewed (mode (deployment c))" for repo vs prof c
    using v
  proof (rule validate_parts)
    fix md fb ho ro im nw de hg wg sp lf u
    assume c: "c = \<lparr>profile = prof, deployment = make_deployment vs md fb ho ro im nw de hg wg sp lf\<rparr>"
      and p: "check_pinned vs (md_mode md) = ret u" and n: "check_network vs (md_mode md) = ret nw"
    have r: "reviewed (md_mode md)" using m by (simp add: c make_deployment_def)
    note n' = check_network_ret [OF n]
    have a: "nw_head_node nw = vget vs ''HEAD_NODE_ADDR'' \<and> nw_worker_node nw = vget vs ''WORKER_NODE_ADDR''"
      using n unfolding check_network_def bind_eq_ret assert_eq_ret Let_def
      by (elim exE conjE) (auto dest: address_ret)
    show ?thesis
      using n'(3,4) [THEN port_ret] check_pinned_ret [OF p r] a
      by (simp add: c make_deployment_def)
  qed
  from pinned [OF assms(1)] pinned [OF assms(3)] assms(2,4) show ?thesis
    by (simp add: reviewed_def)
qed

lemma cidr_ret:
  assumes "cidr vs k ip = ret v"
  shows "v = vget vs k \<and> v \<noteq> [] \<and> hd (split_on CHR ''/'' v) = ip"
proof -
  let ?parse = "\<lambda>raw. case split_on CHR ''/'' raw of
        [a] \<Rightarrow> if ipv4 a \<noteq> None then ret (a, 32) else raise ConfigError
      | [a, m] \<Rightarrow> (case prefix_len m of
          Some p \<Rightarrow> if ipv4 a \<noteq> None then ret (a, p) else raise ConfigError
        | None \<Rightarrow> raise ConfigError)
      | _ \<Rightarrow> raise ConfigError"
  have hd: "hd (split_on CHR ''/'' raw) = fst x" if "?parse raw = ret x" for raw x
    using that by (auto split: list.splits option.splits if_splits)
  from assms obtain x where "vget vs k \<noteq> []" "?parse (vget vs k) = ret x" "fst x = ip" "v = vget vs k"
    unfolding cidr_def bind_eq_ret assert_eq_ret nonempty_ret
    by (elim exE conjE) (auto simp: ret_iff split: prod.splits)
  with hd show ?thesis by simp
qed

lemma check_f1_ret:
  assumes "check_f1 vs m = ret (hc, wc)"
  shows "reviewed m" "vget vs ''HEAD_NET_IFACE'' = ''enp1s0f1np1''" "vget vs ''WORKER_NET_IFACE'' = ''enp1s0f1np1''"
    "vget vs ''HEAD_HCA'' = ''rocep1s0f1''" "vget vs ''WORKER_HCA'' = ''rocep1s0f1''"
    "vget vs ''HEAD_FABRIC_PEER'' = ''192.168.100.11''" "vget vs ''WORKER_FABRIC_PEER'' = ''192.168.100.10''"
    "cidr vs ''HEAD_FABRIC_CIDR'' ''192.168.100.10'' = ret hc" "cidr vs ''WORKER_FABRIC_CIDR'' ''192.168.100.11'' = ret wc"
    "gid_ok (vget vs ''HEAD_ROCE_GID_INDEX'')" "gid_ok (vget vs ''WORKER_ROCE_GID_INDEX'')"
    "vget vs ''HEAD_FABRIC_CONNECTION'' \<noteq> []" "vget vs ''WORKER_FABRIC_CONNECTION'' \<noteq> []"
  using assms unfolding check_f1_def ret_iff by (elim exE conjE; auto simp: vget_def safe_id_def)+

lemma check_devices_ret:
  assumes "check_devices vs = ret de"
  shows "de_head_iface de = vget vs ''HEAD_NET_IFACE''" "de_worker_iface de = vget vs ''WORKER_NET_IFACE''"
    "de_head_hca de = vget vs ''HEAD_HCA''" "de_worker_hca de = vget vs ''WORKER_HCA''"
    "case de_gid de of None \<Rightarrow> True | Some g \<Rightarrow> g \<le> 255"
    "576 \<le> de_mtu de" "de_mtu de \<le> 65535" "de_mtu de = parse_nat (vget vs ''ROCE_MTU'')"
  using assms unfolding check_devices_def get_safe_list_def nonempty_def Let_def ret_iff
  by (elim exE conjE; auto simp: gid_ok_def)+

lemma role_gid_le:
  assumes "role_gid raw d = ret (Some g)" and "gid_ok raw" and "case d of None \<Rightarrow> True | Some n \<Rightarrow> n \<le> 255"
  shows "g \<le> 255"
  using assms by (auto simp: role_gid_def gid_ok_def py_int_decimal split: if_splits option.splits)

lemma role_gid_pos: "role_gid raw d = ret (Some g) \<Longrightarrow> gid_ok raw \<Longrightarrow> 0 \<le> g"
  by (auto simp: role_gid_def gid_ok_def py_int_decimal split: if_splits)

lemma role_gid_None: "role_gid raw d = ret None \<Longrightarrow> d = None"
  by (auto simp: role_gid_def split: if_splits option.splits)

text \<open>Everything that the checks of a direct link establish.\<close>

lemma f1_facts:
  assumes "validate repo vs prof = ret c" and "fabric_profile (deployment c) = ''f1''"
  shows "let d = deployment c in mode d \<in> {''production'', ''candidate''}
    \<and> head_net_iface d = ''enp1s0f1np1'' \<and> worker_net_iface d = ''enp1s0f1np1''
    \<and> head_hca d = ''rocep1s0f1'' \<and> worker_hca d = ''rocep1s0f1''
    \<and> head_fabric_peer d = Some ''192.168.100.11'' \<and> worker_fabric_peer d = Some ''192.168.100.10''
    \<and> (\<exists>h w. head_fabric_cidr d = Some h \<and> worker_fabric_cidr d = Some w
         \<and> cidr vs ''HEAD_FABRIC_CIDR'' ''192.168.100.10'' = ret h \<and> cidr vs ''WORKER_FABRIC_CIDR'' ''192.168.100.11'' = ret w)
    \<and> (\<forall>g\<in>set_option (head_roce_gid_index d) \<union> set_option (worker_roce_gid_index d). 0 \<le> g \<and> g \<le> 255)
    \<and> (head_roce_gid_index d = None \<or> worker_roce_gid_index d = None \<longrightarrow> roce_gid_index d = None)
    \<and> head_fabric_connection d \<noteq> None \<and> worker_fabric_connection d \<noteq> None"
  using assms(1)
proof (rule validate_parts)
  fix md fb ho ro im nw de hg wg sp lf u
  assume c: "c = \<lparr>profile = prof, deployment = make_deployment vs md fb ho ro im nw de hg wg sp lf\<rparr>"
    and f: "check_fabric vs (md_mode md) = ret fb" and d: "check_devices vs = ret de"
    and g: "role_gid (fb_head_gid fb) (de_gid de) = ret hg" "role_gid (fb_worker_gid fb) (de_gid de) = ret wg"
  from assms(2) have "fb_profile fb = ''f1''" by (simp add: c make_deployment_def)
  note f' = check_fabric_ret(2) [OF f this] check_fabric_ret(3,4) [OF f]
  from f'(1) have f1: "check_f1 vs (md_mode md) = ret (fb_head_cidr fb, fb_worker_cidr fb)" by simp
  note ps = check_f1_ret [OF f1]
  note ds = check_devices_ret [OF d]
  have "\<forall>g\<in>set_option hg \<union> set_option wg. 0 \<le> g \<and> g \<le> 255"
    using g role_gid_le [OF _ _ ds(5)] role_gid_pos ps(10,11) f'(2) by (auto simp: elem_set)
  moreover have "hg = None \<or> wg = None \<longrightarrow> de_gid de = None"
    using g role_gid_None by auto
  moreover have "fb_head_cidr fb \<noteq> []" "fb_worker_cidr fb \<noteq> []"
    using cidr_ret [OF ps(8)] cidr_ret [OF ps(9)] by auto
  ultimately show ?thesis
    using ps(1-9) ps(12,13) ds(1-4) f' by (simp add: c make_deployment_def Let_def reviewed_def or_none_def)
qed

text \<open>
  The direct link profile is pinned: it is accepted only for production and candidate
  deployments, with the reviewed interface, adapter and addresses on both roles.
\<close>

theorem f1_pinned:
  assumes "validate repo vs prof = ret c" and "fabric_profile (deployment c) = ''f1''"
  shows "let d = deployment c in mode d \<in> {''production'', ''candidate''}
    \<and> head_net_iface d = ''enp1s0f1np1'' \<and> worker_net_iface d = ''enp1s0f1np1''
    \<and> head_hca d = ''rocep1s0f1'' \<and> worker_hca d = ''rocep1s0f1''
    \<and> head_fabric_peer d = Some ''192.168.100.11'' \<and> worker_fabric_peer d = Some ''192.168.100.10''
    \<and> (\<exists>h w. head_fabric_cidr d = Some h \<and> worker_fabric_cidr d = Some w
         \<and> hd (split_on CHR ''/'' h) = ''192.168.100.10'' \<and> hd (split_on CHR ''/'' w) = ''192.168.100.11'')
    \<and> (\<forall>g\<in>set_option (head_roce_gid_index d) \<union> set_option (worker_roce_gid_index d). g \<le> 255)"
proof -
  from f1_facts [OF assms] obtain h w where "head_fabric_cidr (deployment c) = Some h" "worker_fabric_cidr (deployment c) = Some w"
    "cidr vs ''HEAD_FABRIC_CIDR'' ''192.168.100.10'' = ret h" "cidr vs ''WORKER_FABRIC_CIDR'' ''192.168.100.11'' = ret w"
    unfolding Let_def by blast
  with cidr_ret [OF this(3)] cidr_ret [OF this(4)] f1_facts [OF assms] show ?thesis unfolding Let_def by blast
qed

subsection \<open>The env file\<close>

definition clean :: "string \<times> string \<Rightarrow> bool" where
  "clean e \<longleftrightarrow> (case e of (k, v) \<Rightarrow> is_key k \<and> k \<in> set ALLOWED_KEYS \<and> v = strip v \<and> \<not> shell_syntax v \<and> \<not> placeholder v
     \<and> (if v = [] then k \<in> set OPTIONAL_EMPTY_KEYS else safe_value v))"

lemma parse_line_ret:
  "parse_line l vs = ret vs' \<Longrightarrow> vs' = vs \<or> (\<exists>k v. vs' = vs @ [(k, v)] \<and> clean (k, v) \<and> k \<notin> fst ` set vs)"
  unfolding parse_line_def Let_def partition_eq_def prod.case if_raise_ret
  by (auto simp: ret_iff clean_def map_of_eq_None_iff split: if_splits)

text \<open>
  Whatever an env file says, the values that come out of it are values of known keys, each
  given once, without control characters, surrounding blanks, shell syntax or placeholders, and
  only an optional key may be empty.
\<close>

theorem env_values_clean:
  assumes "parse_env_file text = ret vs"
  shows "distinct (map fst vs) \<and> list_all clean vs"
proof -
  from assms obtain t where t: "fold_comp parse_line (splitlines t) [] = ret vs"
    by (auto simp: parse_env_file_def split: option.splits)
  show ?thesis
    by (rule fold_comp_inv [OF t, where P = "\<lambda>vs. distinct (map fst vs) \<and> list_all clean vs"])
      (auto dest!: parse_line_ret)
qed

definition env_line :: "string \<times> string \<Rightarrow> string" where
  "env_line e = fst e @ ''='' @ snd e"

lemma key_chars: "is_key k \<Longrightarrow> k \<noteq> [] \<and> is_upper (hd k) \<and> (\<forall>c\<in>set k. is_upper c \<or> is_digit c \<or> c = CHR ''_'')"
  by (cases k) (auto simp: is_key_def)

lemma partition_env_line: "CHR ''='' \<notin> set k \<Longrightarrow> partition_eq (env_line (k, v)) = (k, v)"
  by (induction k) (auto simp: env_line_def partition_eq_def)

lemma parse_env_line:
  assumes "clean (k, v)" and "k \<notin> fst ` set vs"
  shows "parse_line (env_line (k, v)) vs = ret (vs @ [(k, v)])"
proof -
  from assms(1) have k: "k \<noteq> []" "is_upper (hd k)" "\<forall>c\<in>set k. is_upper c \<or> is_digit c \<or> c = CHR ''_''"
    using key_chars [of k] by (auto simp: clean_def)
  obtain c r where l: "env_line (k, v) = c # r" "c = hd k" using k(1) by (cases k) (auto simp: env_line_def)
  have "\<not> is_space c" "c \<noteq> CHR ''#''" using k(2) l(2) by (auto simp: is_upper_def is_space_def code_def)
  then obtain t where t: "strip (env_line (k, v)) = c # t" "\<not> starts_with ''#'' (c # t)"
    using strip_head [of c r] l(1) by (metis starts_with.simps(3))
  have "CHR ''='' \<notin> set k" using k(3) by (auto simp: is_upper_def is_digit_def code_def)
  then have p: "partition_eq (env_line (k, v)) = (k, v)" by (rule partition_env_line)
  have e: "CHR ''='' \<in> set (env_line (k, v))" by (simp add: env_line_def)
  show ?thesis
    using assms p t e unfolding parse_line_def Let_def clean_def
    by (cases "v = []") (simp_all add: map_of_eq_None_iff)
qed

lemma clean_line_break:
  assumes "clean e" and "CHR 0x85 \<notin> set (snd e)"
  shows "\<forall>c\<in>set (env_line e). \<not> is_line_break c"
proof -
  obtain k v where e: "e = (k, v)" by (cases e)
  have "\<not> is_line_break c" if "c \<in> set k" for c
    using assms(1) key_chars [of k] that by (auto simp: e clean_def is_line_break_def is_upper_def is_digit_def code_def)
  moreover have "\<not> is_line_break c" if c: "c \<in> set v" for c
  proof -
    have "\<not> is_control c" using assms(1) c by (auto simp: e clean_def safe_value_def split: if_splits)
    moreover have "code c \<noteq> 133"
    proof
      assume "code c = 133"
      then have "c = char_of (133 :: nat)" by (metis code_def char_of_char)
      also have "\<dots> = CHR 0x85" by (simp add: char_of_def bit_0)
      finally show False using assms(2) c by (simp add: e)
    qed
    ultimately show ?thesis by (auto simp: is_line_break_def is_control_def)
  qed
  moreover have "\<not> is_line_break CHR ''=''" by (simp add: is_line_break_def code_def)
  ultimately show ?thesis by (auto simp: e env_line_def)
qed

lemma parse_env_lines:
  assumes "distinct (map fst vs)" and "\<forall>e\<in>set vs. clean e" and "\<forall>e\<in>set vs. CHR 0x85 \<notin> set (snd e)"
  shows "parse_env_file (Some (concat (map (\<lambda>e. env_line e @ [CHR 0x0A]) vs))) = ret vs"
proof -
  have "fold_comp parse_line (map env_line vs) acc = ret (acc @ vs)"
    if "distinct (map fst (acc @ vs))" "\<forall>e\<in>set vs. clean e" for acc
    using that
  proof (induction vs arbitrary: acc)
    case (Cons e vs)
    obtain k v where e: "e = (k, v)" by (cases e)
    have "parse_line (env_line e) acc = ret (acc @ [e])"
      using Cons.prems unfolding e by (intro parse_env_line) auto
    then show ?case using Cons.IH [of "acc @ [e]"] Cons.prems by simp
  qed simp
  moreover have "\<forall>l\<in>set (map env_line vs). \<forall>c\<in>set l. \<not> is_line_break c"
    using clean_line_break assms(2,3) unfolding set_map by blast
  ultimately show ?thesis
    using splitlines_unlines [of "map env_line vs"] assms(1,2) by (simp add: parse_env_file_def comp_def)
qed

text \<open>
  C35. Writing values as \<^verbatim>\<open>KEY=VALUE\<close> lines and parsing them gives the values back, in order, whenever
  they are clean and no key is given twice.
\<close>

theorem env_roundtrip:
  assumes "distinct (map fst vs)" and "\<forall>e\<in>set vs. clean e" and "\<forall>e\<in>set vs. CHR 0x85 \<notin> set (snd e)"
  shows "parse_env_file (Some (concat (map (\<lambda>e. env_line e @ [CHR 0x0A]) vs))) = ret vs"
  using assms by (rule parse_env_lines)

subsection \<open>Profiles and runtime limits\<close>

lemma validate_profile_ret:
  assumes "validate_profile j = ret u" and "(p, v) \<in> set (expected_values j)"
  obtains w where "profile_at j p = ret w" "py_eq w v"
proof -
  have "fold_comp (\<lambda>x _. bind (profile_at j (fst x)) (\<lambda>w. assert ConfigError (py_eq w (snd x))))
      (expected_values j) () = ret u"
    using assms(1) by (auto simp: validate_profile_def bind_eq_ret case_prod_unfold)
  then have "bind (profile_at j p) (\<lambda>w. assert ConfigError (py_eq w v)) = ret ()"
    using assms(2) by (auto simp: fold_comp_checks)
  then show ?thesis using that by (auto simp: bind_eq_ret assert_eq_ret)
qed

lemma py_eq_str: "py_eq w (JStr s) \<longleftrightarrow> w = JStr s"
  by (cases w) (auto simp: num_of_def)

lemma expected_default:
  "(p, v) \<in> set PROFILE_VALUES \<Longrightarrow> \<forall>s. jget j ''profile_id'' = Some (JStr s) \<longrightarrow> s \<noteq> CANDIDATE_SEQ10_PROFILE_ID \<Longrightarrow>
    (p, v) \<in> set (expected_values j)"
  by (auto simp: expected_values_def PROFILE_VARIANT_VALUES_def split: option.splits json.splits)

lemma override_new: "distinct (map fst ys) \<Longrightarrow> fst ` set ys \<subseteq> fst ` set xs \<Longrightarrow> (k, v) \<in> set ys \<Longrightarrow> (k, v) \<in> set (override xs ys)"
  by (force simp: override_def image_iff)

lemma default_limits:
  "{([''profile_id''], JStr DEFAULT_PROFILE_ID), ([''limits'', ''max_num_seqs''], JInt 5),
    ([''limits'', ''max_num_batched_tokens''], JInt 1024)} \<subseteq> set PROFILE_VALUES"
  by (simp add: PROFILE_VALUES_def DEFAULT_PROFILE_ID_def)

lemma seq10_limits:
  assumes "jget j ''profile_id'' = Some (JStr CANDIDATE_SEQ10_PROFILE_ID)"
  shows "{([''limits'', ''max_num_seqs''], JInt 10), ([''limits'', ''max_num_batched_tokens''], JInt 8192)}
    \<subseteq> set (expected_values j)"
  using assms
  by (simp add: expected_values_def PROFILE_VARIANT_VALUES_def override_def PROFILE_VALUES_def)

text \<open>
  The limits of a loaded configuration are gated: the profile is one of the two reviewed ones with
  its own limits, the larger one only for candidates, and the env file changes the limits only for
  a candidate or an explicitly authorised production change.
\<close>

theorem limits_gated:
  assumes "load_config resolve read loads repo env_file profile_file = ret c"
  shows "\<exists>pid seqs batch. let d = deployment c; p = profile_at (JObj (profile c)) in
      p [''profile_id''] = ret (JStr pid) \<and> p [''limits'', ''max_num_seqs''] = ret seqs
    \<and> p [''limits'', ''max_num_batched_tokens''] = ret batch
    \<and> (pid = DEFAULT_PROFILE_ID \<and> py_eq seqs (JInt 5) \<and> py_eq batch (JInt 1024)
       \<or> pid = CANDIDATE_SEQ10_PROFILE_ID \<and> mode d = ''candidate'' \<and> py_eq seqs (JInt 10) \<and> py_eq batch (JInt 8192))
    \<and> (runtime_max_num_seqs d = DEFAULT_MAX_NUM_SEQS \<and> runtime_max_num_batched_tokens d = DEFAULT_MAX_NUM_BATCHED_TOKENS
       \<or> mode d = ''candidate'' \<or> mode d = ''production'' \<and> production_change_allowed d)"
proof -
  from assms obtain vs prof where l: "load_profile resolve read loads repo profile_file = ret prof"
    and v: "validate repo vs prof = ret c"
    by (auto simp: load_config_def bind_eq_ret)
  from l have vp: "validate_profile (JObj prof) = ret ()"
    by (auto simp: load_profile_def ret_iff split: option.splits json.splits)
  from v obtain md fb ho ro im nw de hg wg sp lf where
    c: "c = \<lparr>profile = prof, deployment = make_deployment vs md fb ho ro im nw de hg wg sp lf\<rparr>"
    and m: "check_modes vs (map_of prof ''profile_id'') = ret md"
    by (rule validate_parts)
  note m' = check_modes_ret [OF m]
  have gate: "md_max_num_seqs md = DEFAULT_MAX_NUM_SEQS \<and> md_max_num_batched_tokens md = DEFAULT_MAX_NUM_BATCHED_TOKENS
      \<or> md_mode md = ''candidate'' \<or> md_mode md = ''production'' \<and> md_production_change md"
    using m'(3,6,7) by blast
  show ?thesis
  proof (cases "map_of prof ''profile_id'' = Some (JStr CANDIDATE_SEQ10_PROFILE_ID)")
    case True
    then have e: "{([''limits'', ''max_num_seqs''], JInt 10), ([''limits'', ''max_num_batched_tokens''], JInt 8192)}
        \<subseteq> set (expected_values (JObj prof))"
      by (intro seq10_limits) (simp add: jget_def)
    obtain a where a: "profile_at (JObj prof) [''limits'', ''max_num_seqs''] = ret a" "py_eq a (JInt 10)"
      by (rule validate_profile_ret [OF vp, of "[''limits'', ''max_num_seqs'']" "JInt 10"]) (use e that in blast)+
    obtain b where b: "profile_at (JObj prof) [''limits'', ''max_num_batched_tokens''] = ret b" "py_eq b (JInt 8192)"
      by (rule validate_profile_ret [OF vp, of "[''limits'', ''max_num_batched_tokens'']" "JInt 8192"]) (use e that in blast)+
    show ?thesis
      using True a b m'(5) gate unfolding Let_def
      by (intro exI [of _ CANDIDATE_SEQ10_PROFILE_ID] exI [of _ a] exI [of _ b])
        (simp add: c make_deployment_def jget_def)
  next
    case False
    have e: "(p, v) \<in> set (expected_values (JObj prof))" if "(p, v) \<in> set PROFILE_VALUES" for p v
      using that by (rule expected_default) (use False in \<open>auto simp: jget_def\<close>)
    obtain i where i: "profile_at (JObj prof) [''profile_id''] = ret i" "i = JStr DEFAULT_PROFILE_ID"
      by (rule validate_profile_ret [OF vp e, of "[''profile_id'']" "JStr DEFAULT_PROFILE_ID"])
        (use default_limits that in \<open>blast dest: py_eq_str [THEN iffD1]\<close>)+
    obtain a where a: "profile_at (JObj prof) [''limits'', ''max_num_seqs''] = ret a" "py_eq a (JInt 5)"
      by (rule validate_profile_ret [OF vp e, of "[''limits'', ''max_num_seqs'']" "JInt 5"])
        (use default_limits that in blast)+
    obtain b where b: "profile_at (JObj prof) [''limits'', ''max_num_batched_tokens''] = ret b" "py_eq b (JInt 1024)"
      by (rule validate_profile_ret [OF vp e, of "[''limits'', ''max_num_batched_tokens'']" "JInt 1024"])
        (use default_limits that in blast)+
    show ?thesis
      using i a b gate unfolding Let_def
      by (intro exI [of _ DEFAULT_PROFILE_ID] exI [of _ a] exI [of _ b])
        (simp add: c make_deployment_def)
  qed
qed

subsection \<open>What the checks let through\<close>

text \<open>
  Two leading slashes are a root of their own to \<^verbatim>\<open>pathlib\<close>, so the file system root is accepted, and
  a path below the repository is taken to be outside it.
\<close>

theorem double_slash_roots:
  "absolute_root [(''K'', ''//'')] ''K'' = ret ''/''
   \<and> external_path (path_of ''/opt/dgx'') [(''K'', ''//opt/dgx/state'')] ''K'' = ret ''//opt/dgx/state''
   \<and> external_path (path_of ''/opt/dgx'') [(''K'', ''/opt/dgx/state'')] ''K'' = raise ConfigError"
  unfolding ret_def raise_def by (intro conjI) code_simp+

text \<open>
  The fabric profile \<^verbatim>\<open>f0\<close> leaves the GID indexes of the roles unchecked: a negative one is accepted,
  and one that is not a number is not reported as a configuration error.
\<close>

theorem f0_gid_unchecked:
  "map_option (map_sum id fb_head_gid) (check_fabric [(''FABRIC_PROFILE'', ''f0''), (''HEAD_ROCE_GID_INDEX'', ''-5'')] ''generic'')
     = ret ''-5''
   \<and> role_gid ''-5'' None = ret (Some (- 5)) \<and> role_gid ''five'' None = raise PlainValueError"
  unfolding ret_def raise_def by (intro conjI) code_simp+

end
