(* ===== verification/Config_Demo.thy ===== *)
theory Config_Demo
  imports Config_Props
begin

text \<open>
  The committed profile, a production and a candidate env file that are accepted with it, and the
  instances of the properties of \<^verbatim>\<open>Config_Props\<close> on them.
\<close>

text \<open>\<^verbatim>\<open>config/profiles/dsv4-native432-b12x-tp2.json\<close>.\<close>

definition committed_profile :: "(string \<times> json) list" where
  \<open>committed_profile = [
      (''schema_version'', JInt 1),
      (''profile_id'', JStr ''dsv4-native432-b12x-tp2''),
      (''release_gated_manifest_fields'', JArr [JStr ''chat_template'', JStr ''reasoning_config'', JStr ''load_format'', JStr ''linear_backend'', JStr ''cuda_graph_capture_sizes'', JStr ''compact_block_stride'']),
      (''platform'', JObj [
        (''architecture'', JStr ''linux/arm64''),
        (''accelerator'', JStr ''GB10''),
        (''nodes'', JInt 2)]),
      (''topology'', JObj [
        (''tensor_parallel_size'', JInt 2),
        (''pipeline_parallel_size'', JInt 1),
        (''nnodes'', JInt 2),
        (''head_rank'', JInt 0),
        (''worker_rank'', JInt 1),
        (''worker_first'', JBool True)]),
      (''model'', JObj [
        (''family'', JStr ''DeepSeek-V4-Flash''),
        (''served_model_name'', JStr ''deepseek-v4-flash-0731-native432''),
        (''container_path'', JStr ''/models''),
        (''model_path'', JStr ''/models/DeepSeek-V4-Flash-0731'')]),
      (''service'', JObj [
        (''attention_backend'', JStr ''B12X_MLA_SPARSE''),
        (''moe_backend'', JStr ''b12x''),
        (''linear_backend'', JStr ''b12x''),
        (''distributed_executor_backend'', JStr ''mp''),
        (''target_kv_cache_dtype'', JStr ''nvfp4_ds_mla''),
        (''block_size'', JInt 256),
        (''gpu_memory_utilization'', JFloat FLOAT_085),
        (''enable_chunked_prefill'', JBool True),
        (''long_prefill_token_threshold'', JInt 0),
        (''compact_layout'', JObj [
          (''abi'', JStr ''dsv4-native432-compact-v1''),
          (''record_bytes'', JInt 432)]),
        (''draft_config_json'', JStr ''{"method":"dspark","num_speculative_tokens":5,"draft_sample_method":"probabilistic","attention_backend":"B12X_MLA_SPARSE","kv_cache_dtype":"fp8"}''),
        (''reasoning_config_json'', JStr ''{"reasoning_parser":"deepseek_v4","reasoning_start_str":"","reasoning_end_str":""}''),
        (''load_format'', JStr ''instanttensor''),
        (''prefix_caching'', JObj [
          (''enabled'', JBool True),
          (''hash_algorithm'', JStr ''sha256'')]),
        (''async_scheduling'', JBool False),
        (''cuda_graph'', JObj [
          (''enabled'', JBool True),
          (''mode'', JStr ''FULL_AND_PIECEWISE'')]),
        (''max_cudagraph_capture_size'', JInt 64),
        (''compilation_config_json'', JStr ''{"cudagraph_mode":"FULL_AND_PIECEWISE","custom_ops":["all"]}'')]),
      (''limits'', JObj [
        (''max_model_len'', JInt 327680),
        (''max_num_seqs'', JInt 5),
        (''max_num_batched_tokens'', JInt 1024)]),
      (''parsing'', JObj [
        (''tokenizer_mode'', JStr ''deepseek_v4''),
        (''tool_call_parser'', JStr ''deepseek_v4''),
        (''reasoning_parser'', JStr ''deepseek_v4'')]),
      (''container'', JObj [
        (''name_prefix'', JStr ''dsv4-candidate-''),
        (''read_only_root'', JBool True),
        (''no_new_privileges'', JBool True)]),
      (''image'', JObj [
        (''lock_path'', JStr ''image.lock.json''),
        (''candidate_id'', JStr ''dsv4-0731-native432-b12x''),
        (''source_refs'', JObj [
          (''vllm'', JStr ''release/dsv4-0731-native432-b12x''),
          (''b12x'', JStr ''release/dsv4-0731-native432'')]),
        (''required_labels'', JArr [JStr ''org.opencontainers.image.revision'', JStr ''com.dgx-spark.architecture'', JStr ''com.dgx-spark.profile_sha256'', JStr ''com.dgx-spark.service_contract_sha256'', JStr ''com.dgx-spark.image_lock_sha256'', JStr ''com.dgx-spark.vllm.commit'', JStr ''com.dgx-spark.b12x.commit''])]),
      (''security'', JObj [
        (''production_change_allowed'', JBool False),
        (''api_bind_default'', JStr ''127.0.0.1''),
        (''model_mount_read_only'', JBool True)])]\<close>

definition demo_env :: env where
  "demo_env = [(''DEPLOYMENT_MODE'', ''production''), (''FABRIC_PROFILE'', ''f1''),
    (''HEAD_FABRIC_CIDR'', ''192.168.100.10/24''), (''WORKER_FABRIC_CIDR'', ''192.168.100.11/24''),
    (''HEAD_FABRIC_PEER'', ''192.168.100.11''), (''WORKER_FABRIC_PEER'', ''192.168.100.10''),
    (''HEAD_FABRIC_CONNECTION'', ''f1-head''), (''WORKER_FABRIC_CONNECTION'', ''f1-worker''),
    (''HEAD_HOST'', ''192.168.100.10''), (''WORKER_HOST'', ''192.168.100.11''), (''SSH_PORT'', ''22''),
    (''SSH_KNOWN_HOSTS_FILE'', ''/etc/dgx/hosts''), (''REMOTE_ROOT'', ''/srv/dgx''), (''MODEL_ROOT'', ''/srv/models''),
    (''MODEL_MANIFEST_SHA256'', replicate 64 CHR ''a''), (''STATE_ROOT'', ''/var/state''),
    (''CACHE_ROOT'', ''/var/cache''), (''LOG_ROOT'', ''/var/log/dgx''), (''RESULT_ROOT'', ''/var/results/''),
    (''IMAGE_REF'', ''sha256:'' @ replicate 64 CHR ''a''), (''HEAD_IMAGE_REF'', ''sha256:'' @ replicate 64 CHR ''b''),
    (''WORKER_IMAGE_REF'', ''sha256:'' @ replicate 64 CHR ''c''), (''MASTER_ADDR'', ''192.168.100.10''),
    (''MASTER_PORT'', ''29619''), (''API_PORT'', ''8101''), (''HEAD_NODE_ADDR'', ''192.168.100.10''),
    (''WORKER_NODE_ADDR'', ''192.168.100.11''), (''HEAD_NET_IFACE'', ''enp1s0f1np1''),
    (''WORKER_NET_IFACE'', ''enp1s0f1np1''), (''HEAD_HCA'', ''rocep1s0f1''), (''WORKER_HCA'', ''rocep1s0f1''),
    (''HEAD_CUDA_VISIBLE_DEVICES'', ''0''), (''WORKER_CUDA_VISIBLE_DEVICES'', ''0''), (''ROCE_MTU'', ''9000''),
    (''API_BIND_ADDR'', ''127.0.0.1''), (''FORWARD_LOCAL_PORT'', ''18080'')]"

definition candidate_env :: env where
  "candidate_env = override demo_env [(''DEPLOYMENT_MODE'', ''candidate''), (''MASTER_PORT'', ''29621''), (''API_PORT'', ''18101''),
    (''REMOTE_ROOT'', ''/srv/candidate''), (''STATE_ROOT'', ''/var/candidate/state''), (''CACHE_ROOT'', ''/var/candidate/cache''),
    (''LOG_ROOT'', ''/var/candidate/log''), (''RESULT_ROOT'', ''/var/candidate/results'')]"

definition demo_repo :: path where
  "demo_repo = (''/'', [''opt'', ''dgx''])"

lemma committed_profile_valid: "returns (validate_profile (JObj committed_profile))"
  by code_simp

lemma demo_modes:
  "returns (check_modes demo_env (Some (JStr DEFAULT_PROFILE_ID)))"
  by code_simp

lemma demo_mode: "deployment_mode demo_env = ''production''"
  by code_simp

lemma demo_checks:
  "returns (check_fabric demo_env ''production'')"
  "returns (check_pinned demo_env ''production'')"
  "returns (check_hosts demo_env)"
  "returns (check_roots demo_repo demo_env ''production'')"
  "returns (check_images demo_env ''production'')"
  "returns (check_network demo_env ''production'')"
  "returns (check_devices demo_env)"
  "returns (port demo_env ''SSH_PORT'')"
  "returns (lock_file demo_repo demo_env)"
  by code_simp+

lemma candidate_modes:
  "returns (check_modes candidate_env (Some (JStr DEFAULT_PROFILE_ID)))"
  by code_simp

lemma candidate_mode: "deployment_mode candidate_env = ''candidate''"
  by code_simp

lemma candidate_checks:
  "returns (check_fabric candidate_env ''candidate'')"
  "returns (check_pinned candidate_env ''candidate'')"
  "returns (check_hosts candidate_env)"
  "returns (check_roots demo_repo candidate_env ''candidate'')"
  "returns (check_images candidate_env ''candidate'')"
  "returns (check_network candidate_env ''candidate'')"
  "returns (check_devices candidate_env)"
  "returns (port candidate_env ''SSH_PORT'')"
  "returns (lock_file demo_repo candidate_env)"
  by code_simp+

lemma no_gids:
  "vget demo_env ''HEAD_ROCE_GID_INDEX'' = []" "vget demo_env ''WORKER_ROCE_GID_INDEX'' = []"
  "vget candidate_env ''HEAD_ROCE_GID_INDEX'' = []" "vget candidate_env ''WORKER_ROCE_GID_INDEX'' = []"
  by code_simp+

lemma committed_id: "map_of committed_profile ''profile_id'' = Some (JStr DEFAULT_PROFILE_ID)"
  by (simp add: committed_profile_def DEFAULT_PROFILE_ID_def)

lemma validate_returns:
  assumes "returns (check_modes vs (Some (JStr DEFAULT_PROFILE_ID)))" "deployment_mode vs = m"
    and "returns (check_fabric vs m)" "returns (check_pinned vs m)" "returns (check_hosts vs)"
    and "returns (check_roots repo vs m)" "returns (check_images vs m)" "returns (check_network vs m)"
    and "returns (check_devices vs)" "returns (port vs ''SSH_PORT'')" "returns (lock_file repo vs)"
    and g: "vget vs ''HEAD_ROCE_GID_INDEX'' = []" "vget vs ''WORKER_ROCE_GID_INDEX'' = []"
  obtains c where "validate repo vs committed_profile = ret c" "mode (deployment c) = m"
    "\<exists>fb. check_fabric vs m = ret fb \<and> fabric_profile (deployment c) = fb_profile fb"
    "roce_mtu (deployment c) = parse_nat (vget vs ''ROCE_MTU'')"
proof -
  from assms(1) obtain md where md: "check_modes vs (Some (JStr DEFAULT_PROFILE_ID)) = ret md" by (rule returnsE)
  have m: "md_mode md = m" using check_modes_ret(1) [OF md] assms(2) by simp
  from assms(3) obtain fb where fb: "check_fabric vs m = ret fb" by (rule returnsE)
  note g' = check_fabric_ret(3) [OF fb]
  from assms(4) obtain u where u: "check_pinned vs m = ret u" by (rule returnsE)
  from assms(5) obtain ho where ho: "check_hosts vs = ret ho" by (rule returnsE)
  from assms(6) obtain ro where ro: "check_roots repo vs m = ret ro" by (rule returnsE)
  from assms(7) obtain im where im: "check_images vs m = ret im" by (rule returnsE)
  from assms(8) obtain nw where nw: "check_network vs m = ret nw" by (rule returnsE)
  from assms(9) obtain de where de: "check_devices vs = ret de" by (rule returnsE)
  from assms(10) obtain sp where sp: "port vs ''SSH_PORT'' = ret sp" by (rule returnsE)
  from assms(11) obtain lf where lf: "lock_file repo vs = ret lf" by (rule returnsE)
  have "validate repo vs committed_profile = ret \<lparr>profile = committed_profile,
      deployment = make_deployment vs md fb ho ro im nw de (map_option int (de_gid de)) (map_option int (de_gid de)) sp lf\<rparr>"
    using md fb u ho ro im nw de sp lf g g'
    by (simp add: validate_def committed_id m role_gid_def DEFAULT_PROFILE_ID_def)
  then show thesis by (rule that) (simp_all add: make_deployment_def m fb check_devices_ret(8) [OF de])
qed

lemmas demo_valid = validate_returns [OF demo_modes demo_mode demo_checks no_gids(1,2)]
lemmas candidate_valid = validate_returns [OF candidate_modes candidate_mode candidate_checks no_gids(3,4)]

subsection \<open>The properties on the demonstration files\<close>

theorem accepted_network_witness:
  "\<exists>c. validate demo_repo demo_env committed_profile = ret c \<and> head_host (deployment c) \<noteq> worker_host (deployment c)"
  by (rule demo_valid) (auto dest: accepted_network simp: Let_def)

theorem accepted_roots_witness:
  "\<exists>c. validate demo_repo candidate_env committed_profile = ret c \<and> log_root (deployment c) \<noteq> None
     \<and> contains ''candidate'' (lower (state_root (deployment c)))"
  by (rule candidate_valid) (use accepted_roots in \<open>fastforce simp: Let_def reviewed_def\<close>)

theorem accepted_images_witness:
  "\<exists>c. validate demo_repo demo_env committed_profile = ret c \<and> head_image_ref (deployment c) \<noteq> worker_image_ref (deployment c)"
  by (rule demo_valid) (auto dest: accepted_images simp: Let_def reviewed_def)

theorem production_candidate_ports_witness:
  "\<exists>c c'. validate demo_repo demo_env committed_profile = ret c \<and> validate demo_repo candidate_env committed_profile = ret c'
     \<and> api_port (deployment c) = 8101 \<and> api_port (deployment c') = 18101"
proof (rule demo_valid, rule candidate_valid)
  fix c c'
  assume "validate demo_repo demo_env committed_profile = ret c" "mode (deployment c) = ''production''"
    "validate demo_repo candidate_env committed_profile = ret c'" "mode (deployment c') = ''candidate''"
  with production_candidate_ports [OF this] show ?thesis by auto
qed

theorem f1_pinned_witness:
  "\<exists>c. validate demo_repo demo_env committed_profile = ret c \<and> head_fabric_peer (deployment c) = Some ''192.168.100.11''"
proof (rule demo_valid)
  fix c
  assume c: "validate demo_repo demo_env committed_profile = ret c"
    and "\<exists>fb. check_fabric demo_env ''production'' = ret fb \<and> fabric_profile (deployment c) = fb_profile fb"
  moreover have "map_option (map_sum id fb_profile) (check_fabric demo_env ''production'') = Some (Inr ''f1'')"
    by code_simp
  ultimately have "fabric_profile (deployment c) = ''f1''" by (auto simp: ret_def)
  from f1_pinned [OF c this] c show ?thesis by (auto simp: Let_def)
qed

theorem env_values_clean_witness:
  "\<exists>vs. parse_env_file (Some (''# mode'' @ [CHR 0x0A] @ ''API_PORT=8101'')) = ret vs \<and> list_all clean vs"
proof -
  have "parse_env_file (Some (''# mode'' @ [CHR 0x0A] @ ''API_PORT=8101'')) = ret [(''API_PORT'', ''8101'')]"
    unfolding ret_def by code_simp
  with env_values_clean [OF this] show ?thesis by blast
qed

theorem env_roundtrip_witness:
  "parse_env_file (Some (''API_PORT=8101'' @ [CHR 0x0A] @ ''LOG_ROOT='' @ [CHR 0x0A]))
     = ret [(''API_PORT'', ''8101''), (''LOG_ROOT'', [])]"
proof -
  have "\<forall>e\<in>set [(''API_PORT'', ''8101''), (''LOG_ROOT'', [])]. clean e"
    by code_simp
  from env_roundtrip [OF _ this] show ?thesis by (simp add: env_line_def)
qed

lemma demo_clean: "\<forall>e\<in>set demo_env. clean e"
  by code_simp

theorem limits_gated_witness:
  "\<exists>c. load_config id (\<lambda>p. Some (if snd p = [''env''] then concat (map (\<lambda>e. env_line e @ [CHR 0x0A]) demo_env) else ''{}''))
         (\<lambda>_. Some (JObj committed_profile)) demo_repo (''/'', [''env'']) (DEFAULT_PROFILE demo_repo) = ret c
     \<and> (runtime_max_num_seqs (deployment c) = 5 \<or> production_change_allowed (deployment c))"
proof -
  let ?read = "\<lambda>p :: path. Some (if snd p = [''env''] then concat (map (\<lambda>e. env_line e @ [CHR 0x0A]) demo_env) else ''{}'')"
  have "distinct (map fst demo_env)" "\<forall>e\<in>set demo_env. CHR 0x85 \<notin> set (snd e)"
    by (simp_all add: demo_env_def)
  with demo_clean have e: "parse_env_file (?read (''/'', [''env''])) = ret demo_env"
    by (simp add: parse_env_lines)
  obtain u where "validate_profile (JObj committed_profile) = ret u"
    using committed_profile_valid by (rule returnsE)
  then have p: "load_profile id ?read (\<lambda>_. Some (JObj committed_profile)) demo_repo (DEFAULT_PROFILE demo_repo) = ret committed_profile"
    by (simp add: load_profile_def)
  show ?thesis
  proof (rule demo_valid)
    fix c
    assume v: "validate demo_repo demo_env committed_profile = ret c" and m: "mode (deployment c) = ''production''"
    have l: "load_config id ?read (\<lambda>_. Some (JObj committed_profile)) demo_repo (''/'', [''env'']) (DEFAULT_PROFILE demo_repo) = ret c"
      unfolding load_config_def e p bind_ret by (rule v)
    from limits_gated [OF l] m show ?thesis
      using l by (auto simp: Let_def DEFAULT_MAX_NUM_SEQS_def)
  qed
qed

text \<open>Python's equality lets a profile write \<^verbatim>\<open>true\<close> for the number 1.\<close>

theorem profile_true_for_one:
  "returns (validate_profile (JObj ((''schema_version'', JBool True) # tl committed_profile)))"
  by code_simp

end
