(* ===== verification/Fabric.thy ===== *)
theory Fabric
  imports Config_Check
begin

text \<open>
  \<^verbatim>\<open>dgx_deploy/fabric.py\<close>: the fabric specification of a role, the commands that read and apply it,
  and the parsers of what the hosts report.  \<open>loads\<close> is \<^verbatim>\<open>json.loads\<close>, \<open>None\<close> for text that is not JSON.
\<close>

subsection \<open>Errors and Python values\<close>

datatype exn = FabricError | FabricNotReady | RenderError | ContractError | LockError
  | KeyError | TypeError | IndexError | IntError
  | AttributeError | JsonError

text \<open>\<^verbatim>\<open>d.get(k)\<close>, \<^verbatim>\<open>int(v)\<close> and \<^verbatim>\<open>for x in v\<close> on JSON values.\<close>

definition get_or_null :: "json \<Rightarrow> string \<Rightarrow> json" where
  "get_or_null j k = (case jget j k of None \<Rightarrow> JNull | Some v \<Rightarrow> v)"

definition int_of :: "json \<Rightarrow> (exn, int) comp" where
  "int_of j = (case j of JInt i \<Rightarrow> ret i | JBool b \<Rightarrow> ret (if b then 1 else 0)
     | JFloat r \<Rightarrow> ret (if r < 0 then - \<lfloor>- r\<rfloor> else \<lfloor>r\<rfloor>)
     | JStr s \<Rightarrow> (case py_int s of None \<Rightarrow> raise IntError | Some i \<Rightarrow> ret i)
     | _ \<Rightarrow> raise TypeError)"

definition iterate :: "json \<Rightarrow> (exn, json list) comp" where
  "iterate j = (case j of JArr xs \<Rightarrow> ret xs | JObj es \<Rightarrow> ret (map (\<lambda>e. JStr (fst e)) es)
     | JStr s \<Rightarrow> ret (map (\<lambda>c. JStr [c]) s) | _ \<Rightarrow> raise TypeError)"

definition is_obj :: "json \<Rightarrow> bool" where
  "is_obj j \<longleftrightarrow> (case j of JObj _ \<Rightarrow> True | _ \<Rightarrow> False)"

definition upper_char :: "char \<Rightarrow> char" where
  "upper_char c = (if is_lower c then char_of (code c - 32) else c)"

text \<open>
  \<^verbatim>\<open>str(v).upper() == w\<close> for a word \<open>w\<close> of capital letters: no value but a string prints as one of
  those used here, and only ASCII letters have an ASCII capital among the letters of \<open>w\<close>.
\<close>

definition upper_is :: "string \<Rightarrow> json \<Rightarrow> bool" where
  "upper_is w j \<longleftrightarrow> (case j of JStr s \<Rightarrow> map upper_char s = w | _ \<Rightarrow> False)"

subsection \<open>The specification of a role\<close>

definition F1_IFACE :: string where "F1_IFACE = ''enp1s0f1np1''"
definition F1_HCA :: string where "F1_HCA = ''rocep1s0f1''"
definition F1_MTU :: nat where "F1_MTU = 9000"

record fspec =
  fs_profile :: string
  fs_role :: string
  fs_interface :: string
  fs_hca :: string
  fs_address :: string
  fs_peer :: "string option"
  fs_cidr :: "string option"
  fs_connection :: "string option"
  fs_gid_index :: "int option"
  fs_mtu :: nat

text \<open>The entry of the deployment whose key starts with the role; \<^verbatim>\<open>_role_value\<close> rejects other roles.\<close>

definition for_role :: "exn \<Rightarrow> string \<Rightarrow> 'a \<Rightarrow> 'a \<Rightarrow> (exn, 'a) comp" where
  "for_role e role h w = (if role = ''head'' then ret h else if role = ''worker'' then ret w else raise e)"

definition fabric_profile_of :: "deployment \<Rightarrow> (exn, string) comp" where
  "fabric_profile_of d =
     bind (assert FabricError (fabric_profile d \<in> {''f0'', ''f1'', ''auto''})) (\<lambda>_. ret (fabric_profile d))"

text \<open>The network and the prefix length of an IPv4 interface text; 32 without a prefix.\<close>

definition ipv4_interface :: "string \<Rightarrow> (int \<times> nat) option" where
  "ipv4_interface s =
     (case split_on CHR ''/'' s of
        [a] \<Rightarrow> map_option (\<lambda>v. (v, 32)) (ipv4 a)
      | [a, m] \<Rightarrow> (case (ipv4 a, prefix_len m) of (Some v, Some p) \<Rightarrow> Some (v, p) | _ \<Rightarrow> None)
      | _ \<Rightarrow> None)"

text \<open>
  The address checks of a direct link.  Only IPv4 texts are modelled: \<^verbatim>\<open>validate\<close> lets no other
  through for the profile \<^verbatim>\<open>f1\<close>.
\<close>

definition check_link :: "string option \<Rightarrow> string option \<Rightarrow> (exn, unit) comp" where
  "check_link net peer =
     (case (net, peer) of
        (Some c, Some p) \<Rightarrow>
          (case (ipv4_interface c, ipv4 p) of
             (Some (v, plen), Some w) \<Rightarrow>
               bind (assert FabricError (plen = 24)) (\<lambda>_.
                 assert FabricError (w div 2 ^ (32 - plen) = v div 2 ^ (32 - plen)))
           | _ \<Rightarrow> raise FabricError)
      | _ \<Rightarrow> raise FabricError)"

definition fabric_spec :: "deployment \<Rightarrow> string \<Rightarrow> (exn, fspec) comp" where
  "fabric_spec d role =
     bind (fabric_profile_of d) (\<lambda>prof.
     bind (for_role FabricError role (head_net_iface d) (worker_net_iface d)) (\<lambda>iface.
     bind (for_role FabricError role (head_hca d) (worker_hca d)) (\<lambda>hca.
     bind (for_role FabricError role (head_node_addr d) (worker_node_addr d)) (\<lambda>addr.
     bind (for_role FabricError role (head_fabric_peer d) (worker_fabric_peer d)) (\<lambda>peer.
     bind (for_role FabricError role (head_fabric_cidr d) (worker_fabric_cidr d)) (\<lambda>net.
     bind (for_role FabricError role (head_fabric_connection d) (worker_fabric_connection d)) (\<lambda>conn.
     bind (for_role FabricError role (head_roce_gid_index d) (worker_roce_gid_index d)) (\<lambda>role_gid.
     let gid = (case role_gid of None \<Rightarrow> map_option int (roce_gid_index d) | Some g \<Rightarrow> Some g);
         spec = \<lparr>fs_profile = prof, fs_role = role, fs_interface = iface, fs_hca = hca, fs_address = addr,
           fs_peer = peer, fs_cidr = net, fs_connection = conn, fs_gid_index = gid, fs_mtu = roce_mtu d\<rparr> in
     bind (if prof = ''f1''
           then bind (assert FabricError (iface = F1_IFACE)) (\<lambda>_.
                bind (assert FabricError (hca = F1_HCA)) (\<lambda>_.
                bind (assert FabricError (net \<noteq> None \<and> peer \<noteq> None)) (\<lambda>_.
                bind (assert FabricError (conn \<noteq> None)) (\<lambda>_.
                bind (assert FabricError (roce_mtu d = F1_MTU)) (\<lambda>_.
                bind (check_link net peer) (\<lambda>_.
                  assert FabricError (case gid of None \<Rightarrow> True | Some g \<Rightarrow> 0 \<le> g \<and> g \<le> 255)))))))
           else ret ()) (\<lambda>_. ret spec)))))))))"

subsection \<open>Commands\<close>

definition nm_connection_state_command :: "deployment \<Rightarrow> string \<Rightarrow> (exn, string list) comp" where
  "nm_connection_state_command d role =
     bind (fabric_spec d role) (\<lambda>s.
     bind (assert FabricError (fs_profile s = ''f1'')) (\<lambda>_.
       ret [''nmcli'', ''-t'', ''-f'', ''NAME,UUID,DEVICE,ACTIVE'', ''connection'', ''show'']))"

definition helper_argv :: "string \<Rightarrow> string list \<Rightarrow> bool \<Rightarrow> (exn, string list) comp" where
  "helper_argv img command writable =
     bind (assert FabricError (img \<noteq> [] \<and> (\<forall>t\<in>set command. CHR 0x00 \<notin> set t))) (\<lambda>_.
       ret ([''docker'', ''run'', ''--rm'', ''--privileged'', ''--network'', ''host'', ''--entrypoint'',
         ''/usr/sbin/chroot'', ''--volume'', ''/:/host:'' @ (if writable then ''rw'' else ''ro''),
         img, ''/host''] @ command))"

definition gid_discovery_script :: "string \<Rightarrow> string \<Rightarrow> string" where
  \<open>gid_discovery_script hca interface =
     ''for i in $(seq 0 31); do ''
     @ ''p=/sys/class/infiniband/'' @ hca @ ''/ports/1/gids/$i; ''
     @ ''n=/sys/class/infiniband/'' @ hca @ ''/ports/1/gid_attrs/ndevs/$i; ''
     @ ''t=/sys/class/infiniband/'' @ hca @ ''/ports/1/gid_attrs/types/$i; ''
     @ ''if test -r "$p" && test -r "$n" && test -r "$t"; then ''
     @ ''g=$(cat "$p"); ndev=$(cat "$n"); typ=$(cat "$t"); ''
     @ ''if test "$ndev" = "'' @ interface @ ''" && test "$typ" = "RoCE v2"; then ''
     @ ''case "$g" in 0000:0000:0000:0000:0000:ffff:*) printf '' @ [CHR 0x27] @ ''%s=%s'' @ [CHR 0x5C] @ ''n'' @ [CHR 0x27]
     @ '' "$i" "$g"; exit 0 ;; esac; ''
     @ ''fi; fi; ''
     @ ''done; exit 0''\<close>

definition gid_discovery_command :: "deployment \<Rightarrow> string \<Rightarrow> string \<Rightarrow> (exn, string list) comp" where
  "gid_discovery_command d role img =
     bind (fabric_spec d role) (\<lambda>s.
       helper_argv img [''/bin/sh'', ''-c'', gid_discovery_script (fs_hca s) (fs_interface s)] False)"

definition discovery_commands :: "deployment \<Rightarrow> string \<Rightarrow> string \<Rightarrow> (exn, string list list) comp" where
  "discovery_commands d role img =
     bind (fabric_spec d role) (\<lambda>s.
     let iface = fs_interface s;
         base = [[''ip'', ''-json'', ''address'', ''show'', ''dev'', iface],
                 [''ip'', ''-json'', ''link'', ''show'', ''dev'', iface],
                 [''rdma'', ''-j'', ''link''], [''ibdev2netdev'', ''-v'']];
         ping = (case fs_peer s of None \<Rightarrow> []
                 | Some p \<Rightarrow> if p = [] then [] else [[''ping'', ''-I'', iface, ''-c'', ''3'', ''-W'', ''1'', p]]) in
     bind (case fs_gid_index s of
             Some g \<Rightarrow> helper_argv img [''/bin/cat'',
               ''/sys/class/infiniband/'' @ fs_hca s @ ''/ports/1/gids/'' @ show_int g] False
           | None \<Rightarrow> gid_discovery_command d role img) (\<lambda>gid. ret (base @ ping @ [gid])))"

definition gid_attribute_commands :: "deployment \<Rightarrow> string \<Rightarrow> string \<Rightarrow> int \<Rightarrow> (exn, string list list) comp" where
  "gid_attribute_commands d role img gid_index =
     bind (fabric_spec d role) (\<lambda>s.
     let base = ''/sys/class/infiniband/'' @ fs_hca s @ ''/ports/1/gid_attrs'' in
     bind (helper_argv img [''/bin/cat'', base @ ''/ndevs/'' @ show_int gid_index] False) (\<lambda>n.
     bind (helper_argv img [''/bin/cat'', base @ ''/types/'' @ show_int gid_index] False) (\<lambda>t. ret [n, t])))"

definition ENSURE_SCRIPT :: string where
  \<open>ENSURE_SCRIPT =
     ''if /usr/bin/nmcli connection show "$1" >/dev/null 2>&1; then exit 0; ''
     @ ''else /usr/bin/nmcli connection add type ethernet ifname "$2" con-name "$1"; fi''\<close>

fun all_helpers :: "string \<Rightarrow> string list list \<Rightarrow> bool \<Rightarrow> (exn, string list list) comp" where
  "all_helpers img [] w = ret []"
| "all_helpers img (c # cs) w =
     bind (helper_argv img c w) (\<lambda>h. bind (all_helpers img cs w) (\<lambda>hs. ret (h # hs)))"

definition opt_str :: "string option \<Rightarrow> string" where
  "opt_str s = (case s of None \<Rightarrow> ''None'' | Some t \<Rightarrow> t)"

definition apply_commands :: "deployment \<Rightarrow> string \<Rightarrow> string \<Rightarrow> (exn, string list list) comp" where
  "apply_commands d role img =
     bind (fabric_spec d role) (\<lambda>s.
     bind (assert FabricError (fs_profile s = ''f1'')) (\<lambda>_.
     let iface = fs_interface s; net = opt_str (fs_cidr s); conn = opt_str (fs_connection s);
         mtu = show_int (int (fs_mtu s)) in
       all_helpers img
         [[''/bin/sh'', ''-c'', ENSURE_SCRIPT, ''dgx-fabric'', conn, iface],
          [''/bin/ip'', ''link'', ''set'', ''dev'', iface, ''mtu'', mtu],
          [''/bin/ip'', ''addr'', ''replace'', net, ''dev'', iface],
          [''/bin/ip'', ''link'', ''set'', ''dev'', iface, ''up''],
          [''/usr/bin/nmcli'', ''connection'', ''modify'', conn, ''ipv4.method'', ''manual'', ''ipv4.addresses'', net,
           ''ipv4.never-default'', ''yes'', ''ipv6.method'', ''disabled'', ''connection.autoconnect'', ''yes'',
           ''802-3-ethernet.mtu'', mtu],
          [''/usr/bin/nmcli'', ''connection'', ''up'', conn]] True))"

subsection \<open>What the hosts report\<close>

text \<open>The rows of \<^verbatim>\<open>nmcli -t -f NAME,UUID,DEVICE,ACTIVE\<close>.\<close>

record nm_profile =
  np_name :: string
  np_uuid :: string
  np_device :: string
  np_active :: bool

record nm_state =
  nm_interface :: string
  nm_target_connection :: string
  nm_target_existed :: bool
  nm_target_uuid :: "string option"
  nm_target_device :: "string option"
  nm_target_active :: bool
  nm_active_connection :: "string option"
  nm_active_uuid :: "string option"
  nm_active_device :: "string option"

fun nm_rows :: "string list \<Rightarrow> (exn, nm_profile list) comp" where
  "nm_rows [] = ret []"
| "nm_rows (l # ls) =
     (if strip l = [] then nm_rows ls
      else case split_on CHR '':'' l of
        [n, u, d, a] \<Rightarrow>
          bind (assert FabricError (strip n \<noteq> [] \<and> strip u \<noteq> [])) (\<lambda>_.
          bind (nm_rows ls) (\<lambda>ps.
            ret (\<lparr>np_name = strip n, np_uuid = strip u, np_device = strip d,
                np_active = (lower (strip a) \<in> {''yes'', ''true'', ''activated''})\<rparr> # ps)))
      | _ \<Rightarrow> raise FabricError)"

definition parse_nm_connection_state :: "string \<Rightarrow> fspec \<Rightarrow> (exn, nm_state) comp" where
  "parse_nm_connection_state out s =
     (let name = opt_str (fs_connection s)
      in bind (nm_rows (splitlines out)) (\<lambda>ps.
         let targets = filter (\<lambda>p. np_name p = name) ps;
             active = filter (\<lambda>p. np_active p \<and> np_device p = fs_interface s) ps in
         bind (assert FabricError (length targets \<le> 1)) (\<lambda>_.
         bind (assert FabricError (length active \<le> 1)) (\<lambda>_.
           let t = (case targets of [] \<Rightarrow> None | p # _ \<Rightarrow> Some p);
               a = (case active of [] \<Rightarrow> None | p # _ \<Rightarrow> Some p)
           in ret \<lparr>nm_interface = fs_interface s, nm_target_connection = name, nm_target_existed = (t \<noteq> None),
                nm_target_uuid = map_option np_uuid t, nm_target_device = map_option np_device t,
                nm_target_active = (case t of None \<Rightarrow> False | Some p \<Rightarrow> np_active p),
                nm_active_connection = map_option np_name a, nm_active_uuid = map_option np_uuid a,
                nm_active_device = map_option np_device a\<rparr>))))"

text \<open>GIDs: eight groups of four hexadecimal digits, in either case.\<close>

definition is_gid :: "string \<Rightarrow> bool" where
  "is_gid s \<longleftrightarrow> length (split_on CHR '':'' s) = 8
     \<and> (\<forall>w\<in>set (split_on CHR '':'' s). length w = 4 \<and> (\<forall>c\<in>set w. is_hex c))"

definition is_mapped_gid :: "string \<Rightarrow> bool" where
  "is_mapped_gid s \<longleftrightarrow> is_gid s \<and> take 5 (split_on CHR '':'' s) = replicate 5 ''0000''
     \<and> lower (split_on CHR '':'' s ! 5) = ''ffff''"

fun find_gid :: "string list \<Rightarrow> (exn, nat \<times> string) comp" where
  "find_gid [] = raise FabricNotReady"
| "find_gid (l # ls) =
     (if CHR ''='' \<notin> set l then find_gid ls
      else let index = takeWhile (\<lambda>c. c \<noteq> CHR ''='') l;
               v = lower (strip (tl (dropWhile (\<lambda>c. c \<noteq> CHR ''='') l)))
           in if isdecimal index \<and> is_mapped_gid v then ret (parse_nat index, v) else find_gid ls)"

definition parse_gid_discovery_output :: "string \<Rightarrow> (exn, nat \<times> string) comp" where
  "parse_gid_discovery_output out = find_gid (splitlines out)"

definition parse_gid_attributes :: "string \<Rightarrow> string \<Rightarrow> fspec \<Rightarrow> (exn, unit) comp" where
  "parse_gid_attributes ndev typ s =
     bind (assert FabricNotReady (strip ndev \<noteq> [] \<and> strip typ \<noteq> [])) (\<lambda>_.
     bind (assert FabricError (strip ndev = fs_interface s)) (\<lambda>_.
       assert FabricError (lower (strip typ) \<in> {''rocev2'', ''roce v2''})))"

definition parse_gid_output :: "string \<Rightarrow> fspec \<Rightarrow> (exn, unit) comp" where
  "parse_gid_output out s =
     (let v = lower (strip out)
      in bind (assert FabricError (is_gid v)) (\<lambda>_.
           assert FabricNotReady (set (filter (\<lambda>c. c \<noteq> CHR '':'') v) \<noteq> {CHR ''0''})))"

text \<open>The prefix length that the reported address must have; \<^verbatim>\<open>None\<close> without a configured network.\<close>

definition expected_prefix :: "fspec \<Rightarrow> (exn, json) comp" where
  "expected_prefix s =
     (case fs_cidr s of
        None \<Rightarrow> ret JNull
      | Some c \<Rightarrow>
          if c = [] then ret JNull
          else if CHR ''/'' \<notin> set c then raise IndexError
          else case py_int (last (split_on CHR ''/'' c)) of None \<Rightarrow> raise IntError | Some i \<Rightarrow> ret (JInt i))"

definition parse_address_output :: "(string \<Rightarrow> json option) \<Rightarrow> string \<Rightarrow> fspec \<Rightarrow> (exn, unit) comp" where
  "parse_address_output loads out s =
     (case loads out of
        Some (JArr records) \<Rightarrow>
          bind (assert FabricError (records \<noteq> [])) (\<lambda>_.
          bind (expected_prefix s) (\<lambda>plen.
          bind (fold_comp (\<lambda>r found. if \<not> is_obj r then ret found
                  else bind (iterate (case jget r ''addr_info'' of None \<Rightarrow> JArr [] | Some v \<Rightarrow> v)) (\<lambda>as.
                    ret (found \<or> (\<exists>a\<in>set as. is_obj a \<and> py_eq (get_or_null a ''local'') (JStr (fs_address s))
                      \<and> py_eq (get_or_null a ''prefixlen'') plen)))) records False) (\<lambda>found.
            assert FabricError found)))
      | _ \<Rightarrow> raise FabricError)"

definition parse_link_output :: "(string \<Rightarrow> json option) \<Rightarrow> string \<Rightarrow> fspec \<Rightarrow> (exn, unit) comp" where
  "parse_link_output loads out s =
     (case loads out of
        Some (JArr [r]) \<Rightarrow>
          bind (assert FabricError (is_obj r)) (\<lambda>_.
          bind (assert FabricError (py_eq (get_or_null r ''ifname'') (JStr (fs_interface s)))) (\<lambda>_.
          bind (int_of (case jget r ''mtu'' of None \<Rightarrow> JInt 0 | Some v \<Rightarrow> v)) (\<lambda>mtu.
          bind (assert FabricError (mtu = int (fs_mtu s))) (\<lambda>_.
          bind (assert FabricError (upper_is ''UP'' (case jget r ''operstate'' of None \<Rightarrow> JStr [] | Some v \<Rightarrow> v))) (\<lambda>_.
          bind (iterate (case jget r ''flags'' of None \<Rightarrow> JArr [] | Some v \<Rightarrow> v)) (\<lambda>flags.
            if \<exists>f\<in>set flags. upper_is ''LOWER_UP'' f then ret ()
            else case get_or_null r ''link_detected'' of
                   JArr _ \<Rightarrow> raise TypeError
                 | JObj _ \<Rightarrow> raise TypeError
                 | v \<Rightarrow> assert FabricError (py_eq v (JInt 1))))))))
      | _ \<Rightarrow> raise FabricError)"

definition verify_rdma_output :: "string \<Rightarrow> fspec \<Rightarrow> (exn, unit) comp" where
  "verify_rdma_output out s =
     (let t = lower out
      in bind (assert FabricError (contains (lower (fs_hca s)) t)) (\<lambda>_.
           assert FabricError (contains (lower (fs_interface s)) t \<or> contains ''active'' t)))"

end
