(* ===== verification/Fabric_Props.thy ===== *)
theory Fabric_Props
  imports Fabric Config_Props
begin

text \<open>
  What the fabric commands may do to a host, and that the direct link of an accepted configuration has
  a specification.
\<close>

lemma helper_argv_ret:
  assumes "helper_argv img cmd w = ret c"
  shows "take 2 c = [''docker'', ''run''] \<and> c ! 9 = (if w then ''/:/host:rw'' else ''/:/host:ro'') \<and> drop 12 c = cmd"
  using assms by (auto simp: helper_argv_def ret_iff)

lemma all_helpers_ret:
  "all_helpers img cmds w = ret cs \<Longrightarrow> length cs = length cmds \<and> (\<forall>c\<in>set cs. c ! 9 = (if w then ''/:/host:rw'' else ''/:/host:ro''))"
  by (induction cmds arbitrary: cs) (fastforce simp: bind_eq_ret dest: helper_argv_ret)+

lemma fabric_spec_profile: "fabric_spec d role = ret s \<Longrightarrow> fs_profile s = fabric_profile d"
  unfolding fabric_spec_def fabric_profile_of_def Let_def bind_eq_ret assert_eq_ret ret_inject
  by (elim exE conjE) (metis fspec.select_convs(1))

text \<open>A command that only reads: a fixed read-out, a ping, or a helper with the host mounted read-only.\<close>

definition reads_only :: "string list \<Rightarrow> bool" where
  "reads_only c \<longleftrightarrow> take 4 c \<in> {[''ip'', ''-json'', ''address'', ''show''], [''ip'', ''-json'', ''link'', ''show'']}
     \<or> c \<in> {[''rdma'', ''-j'', ''link''], [''ibdev2netdev'', ''-v'']} \<or> c ! 0 = ''ping''
     \<or> take 2 c = [''docker'', ''run''] \<and> c ! 9 = ''/:/host:ro''"

lemma reads_only_fixed [simp]:
  "reads_only [''ip'', ''-json'', ''address'', ''show'', ''dev'', i]" "reads_only [''ip'', ''-json'', ''link'', ''show'', ''dev'', i]"
  "reads_only [''rdma'', ''-j'', ''link'']" "reads_only [''ibdev2netdev'', ''-v'']" "reads_only (''ping'' # as)"
  by (simp_all add: reads_only_def)

lemma discovery_reads_only:
  assumes "discovery_commands d role img = ret cs" and "c \<in> set cs"
  shows "reads_only c"
proof -
  from assms(1) obtain s gid where s: "fabric_spec d role = ret s"
    and g: "(case fs_gid_index s of
             Some g \<Rightarrow> helper_argv img [''/bin/cat'',
               ''/sys/class/infiniband/'' @ fs_hca s @ ''/ports/1/gids/'' @ show_int g] False
           | None \<Rightarrow> gid_discovery_command d role img) = ret gid"
    and cs: "[[''ip'', ''-json'', ''address'', ''show'', ''dev'', fs_interface s],
                 [''ip'', ''-json'', ''link'', ''show'', ''dev'', fs_interface s],
                 [''rdma'', ''-j'', ''link''], [''ibdev2netdev'', ''-v'']]
      @ (case fs_peer s of None \<Rightarrow> []
                 | Some p \<Rightarrow> if p = [] then [] else [[''ping'', ''-I'', fs_interface s, ''-c'', ''3'', ''-W'', ''1'', p]])
      @ [gid] = cs"
    unfolding discovery_commands_def Let_def bind_eq_ret ret_inject by (elim exE conjE) (rule that; assumption)
  from g obtain cmd where h: "helper_argv img cmd False = ret gid"
    by (auto simp: gid_discovery_command_def split: option.splits)
  have "reads_only gid" using helper_argv_ret [OF h] by (simp add: reads_only_def)
  then show ?thesis
    using assms(2) unfolding cs [symmetric] by (auto split: option.splits if_splits)
qed

lemma gid_attributes_read_only:
  assumes "gid_attribute_commands d role img g = ret cs" and "c \<in> set cs"
  shows "reads_only c"
proof -
  from assms(1) obtain m n a b where h: "helper_argv img m False = ret a" "helper_argv img n False = ret b"
    and "cs = [a, b]"
    unfolding gid_attribute_commands_def Let_def bind_eq_ret ret_inject by blast
  with assms(2) consider "c = a" | "c = b" by auto
  then show ?thesis by cases (use helper_argv_ret [OF h(1)] helper_argv_ret [OF h(2)] in \<open>simp_all add: reads_only_def\<close>)
qed

text \<open>
  Discovery only reads: every command it builds is a fixed read-out, a ping, or a helper that sees
  the host's files read-only.  The commands that mount them writable are built only by the apply step,
  and that refuses every profile but the direct link.
\<close>

theorem fabric_commands_by_purpose:
  assumes "discovery_commands d role img = ret cs" and "c \<in> set cs"
  shows "reads_only c \<and> (fabric_profile d \<noteq> ''f1'' \<longrightarrow> apply_commands d role img = raise FabricError)
    \<and> (\<forall>as. apply_commands d role img = ret as \<longrightarrow> length as = 6 \<and> (\<forall>a\<in>set as. a ! 9 = ''/:/host:rw''))"
proof -
  have n: "apply_commands d role img = raise FabricError" if "fabric_profile d \<noteq> ''f1''"
  proof -
    from assms(1) obtain s where s: "fabric_spec d role = ret s"
      unfolding discovery_commands_def bind_eq_ret by blast
    from that s fabric_spec_profile [OF s] show ?thesis by (simp add: apply_commands_def)
  qed
  have "length as = 6 \<and> (\<forall>a\<in>set as. a ! 9 = ''/:/host:rw'')" if "apply_commands d role img = ret as" for as
  proof -
    from that obtain cmds where "all_helpers img cmds True = ret as" "length cmds = 6"
      unfolding apply_commands_def Let_def bind_eq_ret by (elim exE conjE) (rule that, assumption, simp)
    from all_helpers_ret [OF this(1)] this(2) show ?thesis by simp
  qed
  with discovery_reads_only [OF assms] n show ?thesis by blast
qed

lemma cidr_interface:
  assumes "cidr vs k ip = ret v" and "ipv4 ip = Some w"
  shows "ipv4_interface v = Some (w, 24)"
proof -
  let ?parse = "\<lambda>raw. case split_on CHR ''/'' raw of
        [a] \<Rightarrow> if ipv4 a \<noteq> None then ret (a, 32) else raise ConfigError
      | [a, m] \<Rightarrow> (case prefix_len m of
          Some p \<Rightarrow> if ipv4 a \<noteq> None then ret (a, p) else raise ConfigError
        | None \<Rightarrow> raise ConfigError)
      | _ \<Rightarrow> raise ConfigError"
  have i: "ipv4_interface raw = map_option (\<lambda>v. (v, p)) (ipv4 a)" if "?parse raw = ret (a, p)" for raw a p
    using that by (auto simp: ipv4_interface_def split: list.splits option.splits if_splits)
  from assms(1) have "?parse (vget vs k) = ret (ip, 24) \<and> v = vget vs k"
    unfolding cidr_def bind_eq_ret assert_eq_ret nonempty_ret
    by (elim exE conjE) (auto simp: ret_iff split: prod.splits)
  with i [of "vget vs k" ip 24] assms(2) show ?thesis by simp
qed

lemma link_addresses:
  "ipv4 ''192.168.100.10'' = Some 3232261130" "ipv4 ''192.168.100.11'' = Some 3232261131"
  by code_simp+

text \<open>
  C40. The two components agree on the direct link up to one value: for an accepted configuration with
  the profile \<^verbatim>\<open>f1\<close>, both roles have a fabric specification exactly when the MTU is the reviewed one,
  which validation does not demand; otherwise the specification, and with it every contract, is
  refused with a \<open>FabricError\<close>.
\<close>

theorem accepted_link_has_spec:
  assumes "validate repo vs prof = ret c" and "fabric_profile (deployment c) = ''f1''" and "role = ''head'' \<or> role = ''worker''"
  shows "if roce_mtu (deployment c) = F1_MTU
    then \<exists>s. fabric_spec (deployment c) role = ret s \<and> fs_role s = role \<and> fs_interface s = F1_IFACE \<and> fs_hca s = F1_HCA
      \<and> fs_peer s = Some (if role = ''head'' then ''192.168.100.11'' else ''192.168.100.10'')
    else fabric_spec (deployment c) role = raise FabricError"
proof -
  let ?d = "deployment c"
  from f1_facts [OF assms(1,2)] obtain h w where
    d: "head_net_iface ?d = ''enp1s0f1np1''" "worker_net_iface ?d = ''enp1s0f1np1''"
    "head_hca ?d = ''rocep1s0f1''" "worker_hca ?d = ''rocep1s0f1''"
    "head_fabric_peer ?d = Some ''192.168.100.11''" "worker_fabric_peer ?d = Some ''192.168.100.10''"
    and n: "head_fabric_cidr ?d = Some h" "worker_fabric_cidr ?d = Some w"
      "cidr vs ''HEAD_FABRIC_CIDR'' ''192.168.100.10'' = ret h" "cidr vs ''WORKER_FABRIC_CIDR'' ''192.168.100.11'' = ret w"
    and g: "\<forall>g\<in>set_option (head_roce_gid_index ?d) \<union> set_option (worker_roce_gid_index ?d). 0 \<le> g \<and> g \<le> 255"
      "head_roce_gid_index ?d = None \<or> worker_roce_gid_index ?d = None \<longrightarrow> roce_gid_index ?d = None"
    and conn: "head_fabric_connection ?d \<noteq> None" "worker_fabric_connection ?d \<noteq> None"
    unfolding Let_def by (elim conjE exE) (rule that; assumption)
  have l: "check_link (Some h) (Some ''192.168.100.11'') = ret ()" "check_link (Some w) (Some ''192.168.100.10'') = ret ()"
    using cidr_interface [OF n(3) link_addresses(1)] cidr_interface [OF n(4) link_addresses(2)] link_addresses
    by (simp_all add: check_link_def assert_def)
  from assms(3) show ?thesis
  proof
    assume "role = ''head''"
    with d n(1) g conn(1) l(1) show ?thesis
      by (simp add: fabric_spec_def fabric_profile_of_def assms(2) for_role_def Let_def F1_IFACE_def F1_HCA_def split: option.split)
  next
    assume "role = ''worker''"
    with d n(2) g conn(2) l(2) show ?thesis
      by (simp add: fabric_spec_def fabric_profile_of_def assms(2) for_role_def Let_def F1_IFACE_def F1_HCA_def split: option.split)
  qed
qed

end
