(* ===== verification/Redact.thy ===== *)
theory Redact
  imports Json
begin

text \<open>
  \<^verbatim>\<open>dgx_deploy/redact.py\<close>, on a small backtracking matcher for the regular expressions it uses.
\<close>

subsection \<open>Regular expressions\<close>

text \<open>
  A match starts at a position of the text: the character before it, if any, and the rest.
  \<open>matches\<close> lists where a match can end, in the order in which Python's matcher tries them:
  alternatives from the left, repetitions greedily.
\<close>

datatype re =
    Cls "char \<Rightarrow> bool"
  | Cat re re
  | Alt re re
  | Rep re nat "nat option"
  | NotBehind "char \<Rightarrow> bool"
  | NotAhead "char \<Rightarrow> bool"

type_synonym pos = "char option \<times> string"

text \<open>\<open>lo\<close> more rounds are needed, \<open>k\<close> are allowed.\<close>

fun repeat :: "(pos \<Rightarrow> pos list) \<Rightarrow> nat \<Rightarrow> nat \<Rightarrow> pos \<Rightarrow> pos list" where
  "repeat f lo 0 p = (if lo = 0 then [p] else [])"
| "repeat f lo (Suc k) p = concat (map (repeat f (lo - 1) k) (f p)) @ (if lo = 0 then [p] else [])"

text \<open>The repeated expressions all consume, so the length of the rest bounds the rounds of a star.\<close>

fun matches :: "re \<Rightarrow> pos \<Rightarrow> pos list" where
  "matches (Cls f) (b, s) = (case s of [] \<Rightarrow> [] | c # r \<Rightarrow> if f c then [(Some c, r)] else [])"
| "matches (Cat x y) p = concat (map (matches y) (matches x p))"
| "matches (Alt x y) p = matches x p @ matches y p"
| "matches (Rep x lo hi) p = repeat (matches x) lo (case hi of None \<Rightarrow> length (snd p) | Some h \<Rightarrow> h) p"
| "matches (NotBehind f) (b, s) = (case b of Some c \<Rightarrow> if f c then [] else [(b, s)] | None \<Rightarrow> [(b, s)])"
| "matches (NotAhead f) (b, s) = (case s of c # _ \<Rightarrow> if f c then [] else [(b, s)] | [] \<Rightarrow> [(b, s)])"

text \<open>
  \<^verbatim>\<open>re.sub\<close> for an expression that never matches the empty text: the leftmost matches are replaced,
  each search going on behind the last one.  \<open>n\<close> bounds the number of steps; the length of the text
  is enough, since every step consumes.
\<close>

fun sub_from :: "re \<Rightarrow> string \<Rightarrow> nat \<Rightarrow> pos \<Rightarrow> string" where
  "sub_from r w 0 p = snd p"
| "sub_from r w (Suc n) (b, s) =
     (case matches r (b, s) of
        p # _ \<Rightarrow> w @ sub_from r w n p
      | [] \<Rightarrow> (case s of [] \<Rightarrow> [] | c # t \<Rightarrow> c # sub_from r w n (Some c, t)))"

definition re_sub :: "re \<Rightarrow> string \<Rightarrow> string \<Rightarrow> string" where
  "re_sub r w s = sub_from r w (length s) (None, s)"

text \<open>Building blocks: a text in either case, an optional part, one or more.\<close>

definition ci :: "char \<Rightarrow> re" where
  "ci c = Cls (\<lambda>d. lower_char d = c)"

fun word_ci :: "string \<Rightarrow> re" where
  "word_ci [] = Rep (Cls (\<lambda>_. False)) 0 (Some 0)"
| "word_ci (c # s) = Cat (ci c) (word_ci s)"

definition one :: "char \<Rightarrow> re" where "one c = Cls (\<lambda>d. d = c)"
definition opt :: "re \<Rightarrow> re" where "opt r = Rep r 0 (Some 1)"
definition star :: "re \<Rightarrow> re" where "star r = Rep r 0 None"
definition plus :: "re \<Rightarrow> re" where "plus r = Rep r 1 None"
definition sep :: re where "sep = opt (Cls (\<lambda>c. c = CHR ''_'' \<or> c = CHR ''-''))"
definition spaces :: re where "spaces = star (Cls is_space)"

subsection \<open>The patterns\<close>

definition SECRET_TEXT :: re where
  "SECRET_TEXT =
     Cat (Alt (Cat (word_ci ''bearer'') (plus (Cls is_space)))
              (Cat (Alt (Cat (word_ci ''api'') (Cat sep (word_ci ''key'')))
                   (Alt (Cat (word_ci ''access'') (Cat sep (word_ci ''token'')))
                        (word_ci ''password'')))
                   (Cat spaces (Cat (Cls (\<lambda>c. c = CHR ''='' \<or> c = CHR '':'')) spaces))))
         (plus (Cls (\<lambda>c. \<not> is_space c \<and> c \<noteq> CHR '','')))"

definition IP_TEXT :: re where
  "IP_TEXT =
     Alt (Cat (NotBehind is_alnum)
           (Cat (Rep (Cat (Rep (Cls is_digit) 1 (Some 3)) (one CHR ''.'')) 3 (Some 3))
                (Cat (Rep (Cls is_digit) 1 (Some 3)) (NotAhead is_alnum))))
         (Cat (NotBehind is_alnum)
           (Cat (Alt (Cat (one CHR ''['') (Cat (plus (Cls (\<lambda>c. is_hex c \<or> c = CHR '':'' \<or> c = CHR ''.''))) (one CHR '']'')))
                     (Cat (Rep (Cat (Rep (Cls is_hex) 0 (Some 4)) (one CHR '':'')) 2 (Some 7)) (Rep (Cls is_hex) 0 (Some 4))))
                (NotAhead is_alnum)))"

definition PATH_TEXT :: re where
  "PATH_TEXT =
     Cat (NotBehind (\<lambda>c. is_alnum c \<or> c = CHR '':'' \<or> c = CHR ''/''))
       (Cat (one CHR ''/'')
         (plus (Cls (\<lambda>c. c \<noteq> CHR '','' \<and> \<not> is_space c \<and> c \<noteq> CHR 0x22 \<and> c \<noteq> CHR 0x27))))"

subsection \<open>Redaction\<close>

definition SENSITIVE_KEYS :: "string list" where
  "SENSITIVE_KEYS = [''ssh_identity_file'', ''ssh_known_hosts_file'', ''ssh_user'', ''head_ssh_user'', ''worker_ssh_user'',
     ''head_host'', ''worker_host'', ''head_node_addr'', ''worker_node_addr'', ''model_root'',
     ''model_container_path'', ''remote_root'', ''state_root'', ''cache_root'', ''log_root'', ''result_root'',
     ''registry'', ''image_ref'', ''head_image_ref'', ''worker_image_ref'', ''image_lock_file'',
     ''model_manifest_sha256'']"

definition REDACTED :: string where "REDACTED = ''<redacted>''"

definition redact_text :: "string \<Rightarrow> string" where
  "redact_text s = re_sub PATH_TEXT REDACTED (re_sub IP_TEXT REDACTED (re_sub SECRET_TEXT REDACTED s))"

text \<open>
  \<^verbatim>\<open>redact_value\<close>; an object is redacted entry by entry (\<^verbatim>\<open>redact_mapping\<close>), and the items of a list
  under the key of the list.
\<close>

fun redact_value :: "string \<Rightarrow> json \<Rightarrow> json" where
  "redact_value key (JObj es) =
     (if key \<in> set SENSITIVE_KEYS then JStr REDACTED
      else JObj (map (\<lambda>(k, v). (k, redact_value k v)) es))"
| "redact_value key (JArr xs) =
     (if key \<in> set SENSITIVE_KEYS then JStr REDACTED else JArr (map (redact_value key) xs))"
| "redact_value key (JStr s) =
     (if key \<in> set SENSITIVE_KEYS then (if s = [] then JStr [] else JStr REDACTED) else JStr (redact_text s))"
| "redact_value key v = (if key \<in> set SENSITIVE_KEYS \<and> v \<noteq> JNull then JStr REDACTED else v)"

definition redact_mapping :: "(string \<times> json) list \<Rightarrow> (string \<times> json) list" where
  "redact_mapping es = map (\<lambda>(k, v). (k, redact_value k v)) es"

subsection \<open>Redaction hides\<close>

text \<open>
  \<open>public_eq key x y\<close>: two values under \<open>key\<close> that differ at most in what stands under sensitive
  keys, at any depth, and there only in non-empty values.
\<close>

inductive public_eq :: "string \<Rightarrow> json \<Rightarrow> json \<Rightarrow> bool" where
  pe_secret: "key \<in> set SENSITIVE_KEYS \<Longrightarrow> x \<notin> {JNull, JStr []} \<Longrightarrow> y \<notin> {JNull, JStr []} \<Longrightarrow> public_eq key x y"
| pe_same: "public_eq key x x"
| pe_list: "list_all2 (public_eq key) xs ys \<Longrightarrow> public_eq key (JArr xs) (JArr ys)"
| pe_obj: "list_all2 (\<lambda>e f. fst e = fst f \<and> public_eq (fst e) (snd e) (snd f)) es fs \<Longrightarrow> public_eq key (JObj es) (JObj fs)"

lemma redact_secret: "key \<in> set SENSITIVE_KEYS \<Longrightarrow> x \<notin> {JNull, JStr []} \<Longrightarrow> redact_value key x = JStr REDACTED"
  by (cases x) auto

text \<open>
  C36. What a redacted value shows does not depend on any non-empty sensitive value, at any depth: the
  redactions of two values that differ only there are the same.
\<close>

theorem redaction_noninterference:
  assumes "public_eq key x y"
  shows "redact_value key x = redact_value key y"
  using assms
proof induction
  case (pe_secret key x y)
  then show ?case by (simp add: redact_secret)
next
  case (pe_list key xs ys)
  then have "map (redact_value key) xs = map (redact_value key) ys"
    by (auto simp: list_all2_conv_all_nth intro: nth_equalityI)
  then show ?case by simp
next
  case (pe_obj es fs key)
  then have "map (\<lambda>(k, v). (k, redact_value k v)) es = map (\<lambda>(k, v). (k, redact_value k v)) fs"
    by (intro nth_equalityI) (auto simp: list_all2_conv_all_nth case_prod_unfold)
  then show ?case by simp
qed simp

theorem redaction_noninterference_witness:
  "redact_value ''deployment'' (JObj [(''mode'', JStr ''a''), (''model_root'', JStr ''/x'')])
     = redact_value ''deployment'' (JObj [(''mode'', JStr ''a''), (''model_root'', JInt 7)])"
proof (rule redaction_noninterference)
  show "public_eq ''deployment'' (JObj [(''mode'', JStr ''a''), (''model_root'', JStr ''/x'')])
      (JObj [(''mode'', JStr ''a''), (''model_root'', JInt 7)])"
    by (auto simp: SENSITIVE_KEYS_def intro!: public_eq.intros)
qed

end
