(* ===== verification/Manifest.thy ===== *)
theory Manifest
  imports Fabric Redact
begin

text \<open>
  The configuration as the dictionary that the code hashes and shows, and \<^verbatim>\<open>dgx_deploy/manifest.py\<close>:
  the identity of a deployment and its redacted manifest.  \<open>sha256\<close> is the hexadecimal SHA-256 of a
  text, \<open>show_float\<close> Python's text of a float.
\<close>

definition opt_json :: "('a \<Rightarrow> json) \<Rightarrow> 'a option \<Rightarrow> json" where
  "opt_json f x = (case x of None \<Rightarrow> JNull | Some v \<Rightarrow> f v)"

definition deployment_dict :: "deployment \<Rightarrow> (string \<times> json) list" where
  "deployment_dict d =
     [(''mode'', JStr (mode d)), (''fabric_profile'', JStr (fabric_profile d)),
      (''head_fabric_cidr'', opt_json JStr (head_fabric_cidr d)),
      (''worker_fabric_cidr'', opt_json JStr (worker_fabric_cidr d)),
      (''head_fabric_peer'', opt_json JStr (head_fabric_peer d)),
      (''worker_fabric_peer'', opt_json JStr (worker_fabric_peer d)),
      (''head_fabric_connection'', opt_json JStr (head_fabric_connection d)),
      (''worker_fabric_connection'', opt_json JStr (worker_fabric_connection d)),
      (''head_roce_gid_index'', opt_json JInt (head_roce_gid_index d)),
      (''worker_roce_gid_index'', opt_json JInt (worker_roce_gid_index d)),
      (''head_host'', JStr (head_host d)), (''worker_host'', JStr (worker_host d)),
      (''head_ssh_host'', JStr (head_ssh_host d)), (''worker_ssh_host'', JStr (worker_ssh_host d)),
      (''ssh_user'', opt_json JStr (ssh_user d)), (''head_ssh_user'', JStr (head_ssh_user d)),
      (''worker_ssh_user'', JStr (worker_ssh_user d)), (''ssh_port'', JInt (int (ssh_port d))),
      (''ssh_known_hosts_file'', JStr (ssh_known_hosts_file d)),
      (''ssh_identity_file'', opt_json JStr (ssh_identity_file d)), (''remote_root'', JStr (remote_root d)),
      (''model_root'', JStr (model_root d)), (''model_container_path'', JStr (model_container_path d)),
      (''model_manifest_sha256'', JStr (model_manifest_sha256 d)), (''state_root'', JStr (state_root d)),
      (''cache_root'', JStr (cache_root d)), (''log_root'', opt_json JStr (log_root d)),
      (''result_root'', JStr (result_root d)), (''registry'', opt_json JStr (registry d)),
      (''image_ref'', JStr (image_ref d)), (''head_image_ref'', JStr (head_image_ref d)),
      (''worker_image_ref'', JStr (worker_image_ref d)), (''image_lock_file'', JStr (image_lock_file d)),
      (''runtime_max_num_seqs'', JInt (int (runtime_max_num_seqs d))),
      (''runtime_max_num_batched_tokens'', JInt (int (runtime_max_num_batched_tokens d))),
      (''allow_production_images_in_candidate'', JBool (allow_production_images_in_candidate d)),
      (''production_change_allowed'', JBool (production_change_allowed d)),
      (''master_addr'', JStr (master_addr d)), (''master_port'', JInt (int (master_port d))),
      (''api_port'', JInt (int (api_port d))), (''head_node_addr'', JStr (head_node_addr d)),
      (''worker_node_addr'', JStr (worker_node_addr d)), (''head_net_iface'', JStr (head_net_iface d)),
      (''worker_net_iface'', JStr (worker_net_iface d)), (''head_hca'', JStr (head_hca d)),
      (''worker_hca'', JStr (worker_hca d)),
      (''head_cuda_visible_devices'', JStr (head_cuda_visible_devices d)),
      (''worker_cuda_visible_devices'', JStr (worker_cuda_visible_devices d)),
      (''roce_gid_index'', opt_json (\<lambda>n. JInt (int n)) (roce_gid_index d)),
      (''roce_mtu'', JInt (int (roce_mtu d))), (''api_bind_addr'', JStr (api_bind_addr d)),
      (''allow_public_api'', JBool (allow_public_api d)),
      (''forward_local_port'', JInt (int (forward_local_port d)))]"

definition config_json :: "config \<Rightarrow> json" where
  "config_json c = JObj [(''profile'', JObj (profile c)), (''deployment'', JObj (deployment_dict (deployment c)))]"

definition manifest_sha256 :: "(string \<Rightarrow> string) \<Rightarrow> (rat \<Rightarrow> string) \<Rightarrow> json \<Rightarrow> string" where
  "manifest_sha256 sha256 show_float v = sha256 (canonical_json show_float v)"

definition deployment_id :: "(string \<Rightarrow> string) \<Rightarrow> (rat \<Rightarrow> string) \<Rightarrow> config \<Rightarrow> string" where
  "deployment_id sha256 show_float c =
     ''deployment-'' @ take 16 (config_sha256 sha256 show_float (config_json c))"

definition redacted_manifest :: "(string \<Rightarrow> string) \<Rightarrow> (rat \<Rightarrow> string) \<Rightarrow> config \<Rightarrow> (exn, json) comp" where
  "redacted_manifest sha256 show_float c =
     (case map_of (profile c) ''profile_id'' of
        None \<Rightarrow> raise KeyError
      | Some pid \<Rightarrow> ret (JObj [(''schema_version'', JInt 1),
          (''deployment_id'', JStr (deployment_id sha256 show_float c)),
          (''config_sha256'', JStr (config_sha256 sha256 show_float (config_json c))),
          (''profile_id'', pid),
          (''deployment'', JObj (redact_mapping (deployment_dict (deployment c))))]))"

text \<open>\<^verbatim>\<open>json.dumps(value, sort_keys=True, indent=2)\<close> at a depth of indentation.\<close>

fun json_lines :: "(rat \<Rightarrow> string) \<Rightarrow> nat \<Rightarrow> json \<Rightarrow> string" where
  "json_lines sf n (JArr xs) =
     (if xs = [] then ''[]''
      else ''['' @ [CHR 0x0A] @ join ('','' @ [CHR 0x0A])
             (map (\<lambda>v. replicate (n + 2) CHR '' '' @ json_lines sf (n + 2) v) xs)
           @ [CHR 0x0A] @ replicate n CHR '' '' @ '']'')"
| "json_lines sf n (JObj es) =
     (if es = [] then ''{}''
      else ''{'' @ [CHR 0x0A] @ join ('','' @ [CHR 0x0A])
             (map (\<lambda>(k, t). replicate (n + 2) CHR '' '' @ json_string k @ '': '' @ t)
               (sort_key fst (map (\<lambda>(k, v). (k, json_lines sf (n + 2) v)) es)))
           @ [CHR 0x0A] @ replicate n CHR '' '' @ ''}'')"
| "json_lines sf n v = canonical_json sf v"

definition manifest_json :: "(string \<Rightarrow> string) \<Rightarrow> (rat \<Rightarrow> string) \<Rightarrow> config \<Rightarrow> (exn, string) comp" where
  "manifest_json sha256 show_float c =
     bind (redacted_manifest sha256 show_float c) (\<lambda>j. ret (json_lines show_float 0 j @ [CHR 0x0A]))"

end
