(* ===== verification/Render.thy ===== *)
theory Render
  imports Manifest "HOL-Library.AList"
begin

text \<open>
  \<^verbatim>\<open>dgx_deploy/render.py\<close>: the environment, the command lines and the contract of a role, and the
  plan.  A configuration is the typed result of \<^verbatim>\<open>load_config\<close>, so the checks that its two sections
  are there hold by type; the profile is JSON, and what the code reads of it may be missing.
\<close>

subsection \<open>Reading JSON as Python does\<close>

text \<open>
  What the code uses of Python's library: \<^verbatim>\<open>str\<close> of floats, lists and objects, the text of floats in
  JSON, \<^verbatim>\<open>json.loads\<close> and SHA-256.
\<close>

record python =
  py_str_other :: "json \<Rightarrow> string"
  py_float :: "rat \<Rightarrow> string"
  py_loads :: "string \<Rightarrow> json option"
  py_sha256 :: "string \<Rightarrow> string"

definition py_str :: "python \<Rightarrow> json \<Rightarrow> string" where
  "py_str P j = (case j of JStr s \<Rightarrow> s | JNull \<Rightarrow> ''None'' | JBool b \<Rightarrow> (if b then ''True'' else ''False'')
     | JInt i \<Rightarrow> show_int i | v \<Rightarrow> py_str_other P v)"

definition jitem :: "json \<Rightarrow> string \<Rightarrow> (exn, json) comp" where
  "jitem j k = (case j of
     JObj es \<Rightarrow> (case map_of es k of None \<Rightarrow> raise KeyError | Some v \<Rightarrow> ret v)
   | _ \<Rightarrow> raise TypeError)"

fun jpath :: "json \<Rightarrow> string list \<Rightarrow> (exn, json) comp" where
  "jpath j [] = ret j"
| "jpath j (k # ks) = bind (jitem j k) (\<lambda>v. jpath v ks)"

definition jget_or :: "json \<Rightarrow> string \<Rightarrow> json \<Rightarrow> (exn, json) comp" where
  "jget_or j k dflt = (case j of
     JObj es \<Rightarrow> ret (case map_of es k of None \<Rightarrow> dflt | Some v \<Rightarrow> v)
   | _ \<Rightarrow> raise AttributeError)"

text \<open>Arguments of a command: a text, or \<^verbatim>\<open>str\<close> of the value at a path.\<close>

datatype arg = Lit string | Of json "string list"

fun eval_args :: "python \<Rightarrow> arg list \<Rightarrow> (exn, string list) comp" where
  "eval_args P [] = ret []"
| "eval_args P (Lit s # as) = bind (eval_args P as) (\<lambda>ss. ret (s # ss))"
| "eval_args P (Of j ks # as) =
     bind (jpath j ks) (\<lambda>v. bind (eval_args P as) (\<lambda>ss. ret (py_str P v # ss)))"

definition dict_update :: "(string \<times> 'v) list \<Rightarrow> (string \<times> 'v) list \<Rightarrow> (string \<times> 'v) list" where
  "dict_update al kvs = fold (\<lambda>(k, v). AList.update k v) kvs al"

subsection \<open>Constants\<close>

definition REQUIRED_LABELS :: "string list" where
  "REQUIRED_LABELS = [''org.opencontainers.image.revision'', ''com.dgx-spark.architecture'',
     ''com.dgx-spark.vllm.commit'', ''com.dgx-spark.b12x.commit'', ''com.dgx-spark.runtime-file-sha256'']"

definition RUNTIME_ENV :: "(string \<times> string) list" where
  "RUNTIME_ENV =
    [(''NCCL_CROSS_NIC'', ''1''), (''NCCL_NET'', ''IB''), (''NCCL_IB_ADDR_FAMILY'', ''AF_INET''),
     (''NCCL_IB_DISABLE'', ''0''), (''NCCL_IB_ROCE_VERSION_NUM'', ''2''), (''VLLM_RPC_TIMEOUT'', ''600000''),
     (''VLLM_ENGINE_READY_TIMEOUT_S'', ''3600''), (''VLLM_ALLOW_LONG_MAX_MODEL_LEN'', ''1''),
     (''VLLM_MEMORY_PROFILE_INCLUDE_ATTN'', ''1''), (''VLLM_USE_B12X_MOE'', ''1''),
     (''VLLM_USE_B12X_SPARSE_INDEXER'', ''1''), (''VLLM_USE_B12X_FP8_GEMM'', ''1''),
     (''VLLM_USE_B12X_MHC'', ''1''), (''VLLM_USE_B12X_WO_PROJECTION'', ''1''),
     (''VLLM_USE_V2_MODEL_RUNNER'', ''1''), (''VLLM_USE_MEGA_AOT_ARTIFACT'', ''0''),
     (''VLLM_USE_AOT_COMPILE'', ''0''), (''VLLM_FORCE_AOT_LOAD'', ''0''),
     (''VLLM_NVFP4_MLA_DYNAMIC_SCALE'', ''0''), (''VLLM_MOE_SKIP_PADDING'', ''0''),
     (''VLLM_MOE_FORCE_A8'', ''1''), (''B12X_MOE_FORCE_A8'', ''1''), (''VLLM_MLA_SM120_UNIFIED'', ''1''),
     (''B12X_MLA_SM120_UNIFIED'', ''1''), (''VLLM_USE_FLASHINFER_SAMPLER'', ''1''),
     (''FLASHINFER_DISABLE_VERSION_CHECK'', ''1''), (''NCCL_CUMEM_ENABLE'', ''0''),
     (''NCCL_NVLS_ENABLE'', ''0''), (''NCCL_IGNORE_CPU_AFFINITY'', ''1''),
     (''VLLM_DSPARK_DYNAMIC_DRAFT_DEPTH'', ''0''), (''VLLM_DSPARK_SPS_DEBUG'', ''0''),
     (''VLLM_DSPARK_CAPTURE_SHARDED_MARKOV'', ''0''), (''KV_FP8_ROPE'', ''0''),
     (''CUDA_MODULE_LOADING'', ''LAZY''), (''TORCH_CUDA_ARCH_LIST'', ''12.1a''),
     (''CUTE_DSL_ARCH'', ''sm_121a''), (''DG_JIT_USE_NVRTC'', ''0''), (''USE_CUDNN'', ''1''),
     (''HF_HUB_OFFLINE'', ''1''), (''TRANSFORMERS_OFFLINE'', ''1''), (''PYTHONUNBUFFERED'', ''1'')]"

subsection \<open>Names and paths\<close>

definition render_mode :: "config \<Rightarrow> (exn, string) comp" where
  "render_mode c =
     (let m = mode (deployment c)
      in bind (assert RenderError (m \<in> {''generic'', ''production'', ''candidate''})) (\<lambda>_. ret m))"

definition path_name :: "path \<Rightarrow> string" where
  "path_name p = (if snd p = [] then [] else last (snd p))"

definition model_path :: "python \<Rightarrow> config \<Rightarrow> (exn, string) comp" where
  "model_path P c =
     bind (jitem (JObj (profile c)) ''model'') (\<lambda>m.
     bind (jget_or m ''model_path'' (JStr DEFAULT_MODEL_CONTAINER_PATH)) (\<lambda>v.
     let expected = py_str P v in
     bind (assert RenderError (model_container_path (deployment c) = expected)) (\<lambda>_. ret expected)))"

definition model_mount_destination :: "python \<Rightarrow> config \<Rightarrow> (exn, string) comp" where
  "model_mount_destination P c =
     bind (model_path P c) (\<lambda>m.
       ret (if path_name (path_of (model_root (deployment c))) = path_name (path_of m) then m else ''/models''))"

definition container_name :: "python \<Rightarrow> config \<Rightarrow> string \<Rightarrow> (exn, string) comp" where
  "container_name P c role =
     bind (render_mode c) (\<lambda>m.
       if m = ''production'' then ret (''dsv4-native432-dspark5-327k-seq5-'' @ role)
       else if m = ''candidate''
       then bind (jpath (JObj (profile c)) [''limits'', ''max_num_seqs'']) (\<lambda>_.
              ret (''dsv4-candidate-native432-dspark5-327k-seq''
                @ show_int (int (runtime_max_num_seqs (deployment c))) @ ''-'' @ role))
       else bind (jpath (JObj (profile c)) [''container'', ''name_prefix'']) (\<lambda>v. ret (py_str P v @ role)))"

definition remote_file :: "config \<Rightarrow> string \<Rightarrow> string \<Rightarrow> (exn, string) comp" where
  "remote_file c role ext =
     bind (render_mode c) (\<lambda>m.
       ret (path_str (path_join (path_join (path_of (remote_root (deployment c))) ''contracts'')
              (m @ ''-'' @ role @ ext))))"

definition remote_contract_path :: "config \<Rightarrow> string \<Rightarrow> (exn, string) comp" where
  "remote_contract_path c role = remote_file c role ''.json''"

definition remote_env_path :: "config \<Rightarrow> string \<Rightarrow> (exn, string) comp" where
  "remote_env_path c role = remote_file c role ''.env''"

definition role_cache_root :: "config \<Rightarrow> string \<Rightarrow> string" where
  "role_cache_root c role =
     path_str (path_join (path_of (cache_root (deployment c))) (if role = ''head'' then ''dgx0'' else ''dgx1''))"

subsection \<open>The environment\<close>

definition role_value :: "string \<Rightarrow> string \<Rightarrow> string \<Rightarrow> (exn, string) comp" where
  "role_value role h w = for_role RenderError role h w"

definition effective_gid :: "deployment \<Rightarrow> string \<Rightarrow> int option \<Rightarrow> int option" where
  "effective_gid d role gid_index =
     (case gid_index of Some g \<Rightarrow> Some g
      | None \<Rightarrow> (case (if role = ''head'' then head_roce_gid_index d else worker_roce_gid_index d) of
          Some g \<Rightarrow> Some g | None \<Rightarrow> map_option int (roce_gid_index d)))"

definition opt_entry :: "string \<Rightarrow> string option \<Rightarrow> (string \<times> string) list" where
  "opt_entry k v = (case v of None \<Rightarrow> [] | Some s \<Rightarrow> if s = [] then [] else [(k, s)])"

definition render_environment :: "config \<Rightarrow> string \<Rightarrow> int option \<Rightarrow> (exn, (string \<times> string) list) comp" where
  "render_environment c role gid_index =
     (let d = deployment c
      in bind (role_value role (head_node_addr d) (worker_node_addr d)) (\<lambda>addr.
         bind (role_value role (head_net_iface d) (worker_net_iface d)) (\<lambda>iface.
         bind (role_value role (head_hca d) (worker_hca d)) (\<lambda>hca.
         bind (role_value role (head_cuda_visible_devices d) (worker_cuda_visible_devices d)) (\<lambda>cuda.
         bind (for_role RenderError role (head_fabric_cidr d) (worker_fabric_cidr d)) (\<lambda>net.
         bind (for_role RenderError role (head_fabric_peer d) (worker_fabric_peer d)) (\<lambda>peer.
           ret (sort_key fst (dict_update RUNTIME_ENV (
             [(''VLLM_HOST_IP'', addr), (''NCCL_SOCKET_IFNAME'', iface), (''GLOO_SOCKET_IFNAME'', iface),
              (''TP_SOCKET_IFNAME'', iface), (''NCCL_IB_HCA'', hca), (''CUDA_VISIBLE_DEVICES'', cuda)]
             @ (case effective_gid d role gid_index of None \<Rightarrow> [] | Some g \<Rightarrow> [(''NCCL_IB_GID_INDEX'', show_int g)])
             @ [(''NCCL_IB_MTU'', show_int (int (roce_mtu d)))]
             @ (if fabric_profile d \<in> {''f0'', ''f1''} then [(''DGX_SPARK_FABRIC_PROFILE'', fabric_profile d)] else [])
             @ opt_entry ''DGX_SPARK_FABRIC_CIDR'' net @ opt_entry ''DGX_SPARK_FABRIC_PEER'' peer))))))))))"

subsection \<open>The service command\<close>

text \<open>\<^verbatim>\<open>json.dumps(json.loads(str(v)), sort_keys=True, separators=(",", ":"))\<close>\<close>

definition normalized_json :: "python \<Rightarrow> json \<Rightarrow> (exn, string) comp" where
  "normalized_json P v =
     (case py_loads P (py_str P v) of None \<Rightarrow> raise JsonError | Some j \<Rightarrow> ret (canonical_json (py_float P) j))"

definition head_or_headless :: "config \<Rightarrow> string \<Rightarrow> arg list" where
  "head_or_headless c role =
     (if role = ''head''
      then [Lit ''--host'', Lit (api_bind_addr (deployment c)),
            Lit ''--port'', Lit (show_int (int (api_port (deployment c))))]
      else [Lit ''--headless''])"

definition service_flags :: "config \<Rightarrow> json \<Rightarrow> json \<Rightarrow> json \<Rightarrow> string \<Rightarrow> string \<Rightarrow> string \<Rightarrow> arg list" where
  "service_flags c service limits parsing reasoning draft compilation =
     [Lit ''--master-addr'', Lit (master_addr (deployment c)),
      Lit ''--master-port'', Lit (show_int (int (master_port (deployment c)))),
      Lit ''--kv-cache-dtype'', Of service [''target_kv_cache_dtype''],
      Lit ''--block-size'', Of service [''block_size''],
      Lit ''--max-model-len'', Of limits [''max_model_len''],
      Lit ''--max-num-seqs'', Lit (show_int (int (runtime_max_num_seqs (deployment c)))),
      Lit ''--max-num-batched-tokens'', Lit (show_int (int (runtime_max_num_batched_tokens (deployment c)))),
      Lit ''--gpu-memory-utilization'', Of service [''gpu_memory_utilization''],
      Lit ''--enable-prefix-caching'',
      Lit ''--prefix-caching-hash-algo'', Of service [''prefix_caching'', ''hash_algorithm''],
      Lit ''--no-async-scheduling'', Lit ''--enable-chunked-prefill'',
      Lit ''--long-prefill-token-threshold'', Of service [''long_prefill_token_threshold''],
      Lit ''--tokenizer-mode'', Of parsing [''tokenizer_mode''],
      Lit ''--tool-call-parser'', Of parsing [''tool_call_parser''],
      Lit ''--enable-auto-tool-choice'',
      Lit ''--reasoning-parser'', Of parsing [''reasoning_parser''],
      Lit ''--reasoning-config'', Lit reasoning,
      Lit ''--default-chat-template-kwargs.thinking=true'',
      Lit ''--default-chat-template-kwargs.reasoning_effort=high'',
      Lit ''--load-format'', Of service [''load_format''],
      Lit ''--moe-backend'', Of service [''moe_backend''],
      Lit ''--linear-backend'', Of service [''linear_backend''],
      Lit ''--attention-backend'', Of service [''attention_backend''],
      Lit ''--speculative-config'', Lit draft,
      Lit ''--max-cudagraph-capture-size'', Of service [''max_cudagraph_capture_size''],
      Lit ''--compilation-config'', Lit compilation]"

definition render_service_argv :: "python \<Rightarrow> config \<Rightarrow> string \<Rightarrow> (exn, string list) comp" where
  "render_service_argv P c role =
     (let prof = JObj (profile c)
      in bind (jitem prof ''topology'') (\<lambda>topology.
         bind (jitem prof ''model'') (\<lambda>model.
         bind (jitem prof ''service'') (\<lambda>service.
         bind (jitem prof ''limits'') (\<lambda>limits.
         bind (jitem limits ''max_num_seqs'') (\<lambda>_.
         bind (jitem limits ''max_num_batched_tokens'') (\<lambda>_.
         bind (jitem prof ''parsing'') (\<lambda>parsing.
         bind (assert RenderError (role \<in> {''head'', ''worker''})) (\<lambda>_.
         bind (jitem topology (if role = ''head'' then ''head_rank'' else ''worker_rank'')) (\<lambda>r.
         bind (int_of r) (\<lambda>rank.
         bind (bind (jitem service ''reasoning_config_json'') (normalized_json P)) (\<lambda>reasoning.
         bind (bind (jitem service ''draft_config_json'') (normalized_json P)) (\<lambda>draft.
         bind (bind (jitem service ''compilation_config_json'') (normalized_json P)) (\<lambda>compilation.
         bind (model_path P c) (\<lambda>mp.
           eval_args P (
             [Lit ''vllm'', Lit ''serve'', Lit mp,
              Lit ''--served-model-name'', Of model [''served_model_name''],
              Lit ''--trust-remote-code'',
              Lit ''--tensor-parallel-size'', Of topology [''tensor_parallel_size''],
              Lit ''--pipeline-parallel-size'', Of topology [''pipeline_parallel_size''],
              Lit ''--distributed-executor-backend'', Of service [''distributed_executor_backend''],
              Lit ''--nnodes'', Of topology [''nnodes''],
              Lit ''--node-rank'', Lit (show_int rank)]
             @ head_or_headless c role
             @ service_flags c service limits parsing reasoning draft compilation))))))))))))))))"

subsection \<open>The container command\<close>

text \<open>\<^verbatim>\<open>_lock_image\<close>: the reference, the id and the labels of the image of a role.\<close>

definition UNLOCKED_LABELS :: "(string \<times> string) list" where
  "UNLOCKED_LABELS = [(''org.opencontainers.image.revision'', ''unlocked''),
     (''com.dgx-spark.architecture'', ''linux/arm64''), (''com.dgx-spark.vllm.commit'', ''unlocked''),
     (''com.dgx-spark.b12x.commit'', ''unlocked''), (''com.dgx-spark.runtime-file-sha256'', ''unlocked'')]"

definition lock_image :: "python \<Rightarrow> (string \<times> json) list option \<Rightarrow> string \<Rightarrow> config
    \<Rightarrow> (exn, string \<times> string option \<times> (string \<times> string) list) comp" where
  "lock_image P lock role c =
     bind (for_role KeyError role (head_image_ref (deployment c)) (worker_image_ref (deployment c))) (\<lambda>fallback.
       case lock of
         None \<Rightarrow> ret (fallback, None, UNLOCKED_LABELS)
       | Some es \<Rightarrow>
           (case map_of es ''images'' of
              Some (JObj ims) \<Rightarrow>
                (case map_of ims role of
                   Some (JObj im) \<Rightarrow>
                     bind (jitem (JObj im) ''reference'') (\<lambda>ref.
                     bind (jitem (JObj im) ''image_id'') (\<lambda>iid.
                     bind (jitem (JObj im) ''labels'') (\<lambda>labels.
                       case labels of
                         JObj ls \<Rightarrow> ret (py_str P ref, Some (py_str P iid), map (\<lambda>(k, v). (k, py_str P v)) ls)
                       | _ \<Rightarrow> raise AttributeError)))
                 | _ \<Rightarrow> raise RenderError)
            | _ \<Rightarrow> raise RenderError))"

fun label_args :: "(string \<times> string) list \<Rightarrow> string list \<Rightarrow> (exn, string list) comp" where
  "label_args labels [] = ret []"
| "label_args labels (k # ks) =
     (case map_of labels k of
        None \<Rightarrow> raise KeyError
      | Some v \<Rightarrow> bind (label_args labels ks) (\<lambda>r. ret (''--label'' # (k @ ''='' @ v) # r)))"

definition bind_mount :: "string \<Rightarrow> string \<Rightarrow> string" where
  "bind_mount source target = ''type=bind,src='' @ source @ '',dst='' @ target"

definition CACHE_MOUNTS :: "(string \<times> string) list" where
  "CACHE_MOUNTS = [(''vllm'', ''/root/.cache/vllm''), (''b12x'', ''/root/.cache/b12x''),
     (''flashinfer'', ''/root/.cache/flashinfer''), (''triton'', ''/root/.triton''), (''tilelang'', ''/root/.tilelang'')]"

definition security_args :: "string \<Rightarrow> string list" where
  "security_args m = (if reviewed m then [''--privileged'', ''--security-opt'', ''label=disable'']
     else [''--read-only'', ''--security-opt'', ''no-new-privileges:true''])"

definition create_prefix :: "string \<Rightarrow> string \<Rightarrow> string \<Rightarrow> string list" where
  "create_prefix name did role =
     [''docker'', ''container'', ''create'', ''--name'', name, ''--hostname'', name, ''--network'', ''host'',
      ''--ipc'', ''host'', ''--gpus'', ''all'', ''--shm-size'', ''68719476736'', ''--workdir'', ''/workspace/vllm'',
      ''--ulimit'', ''memlock=-1'', ''--ulimit'', ''nofile=1048576:1048576'',
      ''--label'', ''com.dgx-spark.deployment_id='' @ did, ''--label'', ''com.dgx-spark.role='' @ role]"

definition render_container_argv :: "python \<Rightarrow> config \<Rightarrow> string \<Rightarrow> (string \<times> json) list option \<Rightarrow> string option
    \<Rightarrow> int option \<Rightarrow> (exn, string list) comp" where
  "render_container_argv P c role lock contract_source gid_index =
     bind (lock_image P lock role c) (\<lambda>(img, _, labels).
     bind (container_name P c role) (\<lambda>name.
     bind (case contract_source of Some s \<Rightarrow> if s = [] then remote_contract_path c role else ret s
           | None \<Rightarrow> remote_contract_path c role) (\<lambda>csrc.
     bind (remote_env_path c role) (\<lambda>esrc.
     bind (render_mode c) (\<lambda>m.
     bind (label_args labels REQUIRED_LABELS) (\<lambda>ls.
     bind (render_environment c role gid_index) (\<lambda>env.
     bind (model_mount_destination P c) (\<lambda>dest.
     bind (render_service_argv P c role) (\<lambda>service.
       ret (create_prefix name (deployment_id (py_sha256 P) (py_float P) c) role @ security_args m @ ls
         @ concat (map (\<lambda>(k, v). [''--env'', k @ ''='' @ v]) env)
         @ [''--env-file'', esrc, ''--mount'', bind_mount (model_root (deployment c)) dest @ '',readonly'']
         @ concat (map (\<lambda>(sub, target). [''--mount'',
             bind_mount (role_cache_root c role @ ''/'' @ sub) target]) CACHE_MOUNTS)
         @ [''--mount'', bind_mount csrc ''/etc/dgx-spark/service-contract.json'' @ '',readonly'', img]
         @ service))))))))))"

subsection \<open>The contract of a role\<close>

definition fspec_json :: "fspec \<Rightarrow> json" where
  "fspec_json s = JObj [(''profile'', JStr (fs_profile s)), (''role'', JStr (fs_role s)),
     (''interface'', JStr (fs_interface s)), (''hca'', JStr (fs_hca s)), (''address'', JStr (fs_address s)),
     (''peer'', opt_json JStr (fs_peer s)), (''cidr'', opt_json JStr (fs_cidr s)),
     (''connection'', opt_json JStr (fs_connection s)), (''gid_index'', opt_json JInt (fs_gid_index s)),
     (''mtu'', JInt (int (fs_mtu s)))]"

definition str_dict :: "(string \<times> string) list \<Rightarrow> json" where
  "str_dict kvs = JObj (map (\<lambda>(k, v). (k, JStr v)) kvs)"

definition str_list :: "string list \<Rightarrow> json" where
  "str_list ss = JArr (map JStr ss)"

definition DIGEST_KEYS :: "string list" where
  "DIGEST_KEYS = [''schema_version'', ''mode'', ''role'', ''node_addr'', ''fabric'', ''api_port'', ''master_addr'',
     ''master_port'', ''model_path'', ''model_manifest_sha256'', ''environment'', ''service_argv'']"

definition pick :: "string list \<Rightarrow> (string \<times> json) list \<Rightarrow> (string \<times> json) list" where
  "pick ks es = concat (map (\<lambda>k. case map_of es k of None \<Rightarrow> [] | Some v \<Rightarrow> [(k, v)]) ks)"

definition render_base :: "python \<Rightarrow> config \<Rightarrow> string \<Rightarrow> (string \<times> json) list option \<Rightarrow> int option
    \<Rightarrow> (exn, (string \<times> json) list) comp" where
  "render_base P c role lock gid_index =
     (let d = deployment c
      in bind (lock_image P lock role c) (\<lambda>(ref, iid, labels).
         bind (fabric_spec d role) (\<lambda>spec.
         let spec = (case gid_index of None \<Rightarrow> spec | Some g \<Rightarrow> spec\<lparr>fs_gid_index := Some g\<rparr>) in
         bind (render_mode c) (\<lambda>m.
         bind (jitem (JObj (profile c)) ''profile_id'') (\<lambda>pid.
         bind (container_name P c role) (\<lambda>name.
         bind (role_value role (head_host d) (worker_host d)) (\<lambda>host.
         bind (role_value role (head_node_addr d) (worker_node_addr d)) (\<lambda>addr.
         bind (model_path P c) (\<lambda>mp.
         bind (render_environment c role gid_index) (\<lambda>env.
         bind (render_service_argv P c role) (\<lambda>service.
         bind (render_container_argv P c role lock None gid_index) (\<lambda>argv.
         bind (remote_contract_path c role) (\<lambda>cpath.
           ret [(''schema_version'', JInt 1),
             (''deployment_id'', JStr (deployment_id (py_sha256 P) (py_float P) c)),
             (''mode'', JStr m), (''profile_id'', pid), (''role'', JStr role), (''container'', JStr name),
             (''host'', JStr host), (''node_addr'', JStr addr), (''fabric'', fspec_json spec),
             (''api_port'', if role = ''head'' then JInt (int (api_port d)) else JNull),
             (''master_addr'', JStr (master_addr d)), (''master_port'', JInt (int (master_port d))),
             (''model_path'', JStr mp), (''model_root'', JStr (model_root d)),
             (''model_manifest_sha256'', JStr (model_manifest_sha256 d)),
             (''image'', JObj [(''reference'', JStr ref), (''image_id'', opt_json JStr iid), (''labels'', str_dict labels)]),
             (''environment'', str_dict env), (''service_argv'', str_list service),
             (''container_argv'', str_list argv), (''contract_path'', JStr cpath)])))))))))))))"

definition render_contract :: "python \<Rightarrow> config \<Rightarrow> string \<Rightarrow> (string \<times> json) list option \<Rightarrow> int option
    \<Rightarrow> (exn, (string \<times> json) list) comp" where
  "render_contract P c role lock gid_index =
     bind (render_base P c role lock gid_index) (\<lambda>base.
       ret (base @ [(''service_contract_sha256'',
         JStr (py_sha256 P (canonical_json (py_float P) (JObj (pick DIGEST_KEYS base)))))]))"

definition render_contract_json :: "python \<Rightarrow> config \<Rightarrow> string \<Rightarrow> (string \<times> json) list option \<Rightarrow> int option
    \<Rightarrow> (exn, string) comp" where
  "render_contract_json P c role lock gid_index =
     bind (render_contract P c role lock gid_index) (\<lambda>es. ret (json_lines (py_float P) 0 (JObj es) @ [CHR 0x0A]))"

subsection \<open>The plan\<close>

definition commands_json :: "string list list \<Rightarrow> json" where
  "commands_json cs = JArr (map str_list cs)"

definition role_commands :: "python \<Rightarrow> config \<Rightarrow> string \<Rightarrow> (string \<times> json) list \<Rightarrow> (exn, json) comp" where
  "role_commands P c role contract =
     bind (jpath (JObj contract) [''image'', ''reference'']) (\<lambda>r.
     bind (discovery_commands (deployment c) role (py_str P r)) (\<lambda>disc.
     bind (apply_commands (deployment c) role (py_str P r)) (\<lambda>app.
       ret (JObj [(''discovery'', commands_json disc), (''apply'', commands_json app)]))))"

definition plan_actions :: "config \<Rightarrow> string list" where
  "plan_actions c =
     (if fabric_profile (deployment c) = ''f1''
      then [''preflight'', ''capture-rollback'', ''fabric-apply-networkmanager'', ''fabric-discover'', ''fabric-verify'', ''preflight'']
      else [''preflight'', ''capture-rollback''])
     @ [''stage-contracts'', ''create-worker'', ''create-head'', ''start-worker'', ''start-head'', ''verify'']"

definition render_plan :: "python \<Rightarrow> config \<Rightarrow> (string \<times> json) list option \<Rightarrow> (exn, (string \<times> json) list) comp" where
  "render_plan P c lock =
     (let d = deployment c
      in bind (render_contract P c ''worker'' lock None) (\<lambda>wc.
         bind (render_contract P c ''head'' lock None) (\<lambda>hc.
         bind (if fabric_profile d = ''f1''
               then bind (role_commands P c ''worker'' wc) (\<lambda>wf.
                    bind (role_commands P c ''head'' hc) (\<lambda>hf. ret [(''worker'', wf), (''head'', hf)]))
               else ret []) (\<lambda>fabric.
         bind (jitem (JObj (profile c)) ''profile_id'') (\<lambda>pid.
         bind (render_mode c) (\<lambda>m.
           ret (redact_mapping
             [(''schema_version'', JInt 1), (''deployment_id'', JStr (deployment_id (py_sha256 P) (py_float P) c)),
              (''config_sha256'', JStr (config_sha256 (py_sha256 P) (py_float P) (config_json c))),
              (''profile_id'', pid), (''mode'', JStr m), (''fabric_profile'', JStr (fabric_profile d)),
              (''ports'', JObj [(''api'', JInt (int (api_port d))), (''master'', JInt (int (master_port d))),
                 (''forward'', JInt (int (forward_local_port d)))]),
              (''actions'', str_list (plan_actions c)), (''fabric_commands'', JObj fabric),
              (''roles'', JObj [(''worker'', JObj wc), (''head'', JObj hc)])])))))))"

end
