(* ===== verification/Locks.thy ===== *)
theory Locks
  imports Render
begin

text \<open>
  \<^verbatim>\<open>dgx_deploy/locks.py\<close>: the deployment lock, which pins the image of each role, and its binding to
  the configuration.
\<close>

definition OPTIONAL_IMAGE_LABELS :: "string list" where
  "OPTIONAL_IMAGE_LABELS = [''com.dgx-spark.profile_sha256'', ''com.dgx-spark.service_contract_sha256'',
     ''com.dgx-spark.image_lock_sha256'']"

subsection \<open>Patterns\<close>

definition is_image_ref :: "string \<Rightarrow> bool" where
  "is_image_ref s \<longleftrightarrow>
     (case split_on CHR ''@'' s of
        [d] \<Rightarrow> bare_digest d
      | [r, d] \<Rightarrow> r \<noteq> [] \<and> bare_digest d
          \<and> (\<forall>c\<in>set r. is_alnum c \<or> c \<in> {CHR ''.'', CHR ''_'', CHR '':'', CHR ''/'', CHR ''-''})
      | _ \<Rightarrow> False)"

definition is_git_commit :: "string \<Rightarrow> bool" where
  "is_git_commit s \<longleftrightarrow> length s = 40 \<and> (\<forall>c\<in>set s. is_lhex c)"

definition is_delim :: "char \<Rightarrow> bool" where
  "is_delim c \<longleftrightarrow> c \<in> {CHR ''/'', CHR '':'', CHR ''.'', CHR ''_'', CHR ''-''}"

text \<open>\<^verbatim>\<open>_CANDIDATE_REF\<close>: the word \<^verbatim>\<open>candidate\<close> between delimiters; \<open>b\<close> says that one was just passed.\<close>

fun candidate_from :: "bool \<Rightarrow> string \<Rightarrow> bool" where
  "candidate_from b [] = False"
| "candidate_from b (c # s) =
     ((b \<and> starts_with ''candidate'' (lower (c # s))
         \<and> (let r = drop 9 (c # s) in r = [] \<or> is_delim (hd r))) \<or> candidate_from (is_delim c) s)"

definition candidate_ref :: "string \<Rightarrow> bool" where
  "candidate_ref s = candidate_from True s"

definition lock_placeholder :: "string \<Rightarrow> bool" where
  "lock_placeholder s \<longleftrightarrow> angled s
     \<or> (\<exists>w\<in>set (words [] s). lower w \<in> {''replace'', ''changeme'', ''example'', ''your_value''})"

subsection \<open>The parts of a lock\<close>

definition expect :: "bool \<Rightarrow> (exn, unit) comp" where
  "expect b = assert LockError b"

definition mapping :: "json option \<Rightarrow> (exn, (string \<times> json) list) comp" where
  "mapping v = (case v of Some (JObj es) \<Rightarrow> ret es | _ \<Rightarrow> raise LockError)"

definition exact_keys :: "(string \<times> json) list \<Rightarrow> string list \<Rightarrow> (exn, unit) comp" where
  "exact_keys es ks =
     bind (expect (set ks \<subseteq> fst ` set es)) (\<lambda>_. expect (fst ` set es \<subseteq> set ks))"

definition read_lock :: "python \<Rightarrow> string option \<Rightarrow> (exn, (string \<times> json) list \<times> string) comp" where
  "read_lock P text =
     (case text of
        None \<Rightarrow> raise LockError
      | Some t \<Rightarrow> (case py_loads P t of
          Some (JObj es) \<Rightarrow> ret (es, py_sha256 P t)
        | _ \<Rightarrow> raise LockError))"

definition content_sha256 :: "python \<Rightarrow> (string \<times> json) list \<Rightarrow> string" where
  "content_sha256 P es =
     py_sha256 P (canonical_json (py_float P) (JObj (filter (\<lambda>e. fst e \<noteq> ''lock_sha256'') es)))"

fun read_labels :: "(string \<times> json) list \<Rightarrow> string list \<Rightarrow> (exn, (string \<times> string) list) comp" where
  "read_labels es [] = ret []"
| "read_labels es (k # ks) =
     (case map_of es k of
        None \<Rightarrow> if k \<in> set OPTIONAL_IMAGE_LABELS then read_labels es ks else raise LockError
      | Some (JStr v) \<Rightarrow>
          bind (expect (v \<noteq> [])) (\<lambda>_.
          bind (expect (\<not> lock_placeholder v)) (\<lambda>_.
          bind (read_labels es ks) (\<lambda>r. ret ((k, v) # r))))
      | _ \<Rightarrow> raise LockError)"

definition label_ok :: "(string \<Rightarrow> bool) \<Rightarrow> (string \<times> string) list \<Rightarrow> string \<Rightarrow> bool" where
  "label_ok ok ls k \<longleftrightarrow> (case map_of ls k of None \<Rightarrow> True | Some v \<Rightarrow> ok v)"

definition validate_labels :: "(string \<times> json) list \<Rightarrow> (exn, (string \<times> string) list) comp" where
  "validate_labels es =
     bind (exact_keys es (REQUIRED_LABELS @ OPTIONAL_IMAGE_LABELS)) (\<lambda>_.
     bind (read_labels es (REQUIRED_LABELS @ OPTIONAL_IMAGE_LABELS)) (\<lambda>ls.
     bind (expect (map_of ls ''com.dgx-spark.architecture'' = Some ''linux/arm64'')) (\<lambda>_.
     bind (expect (\<forall>k\<in>{''com.dgx-spark.image_lock_sha256'', ''com.dgx-spark.runtime-file-sha256''}. label_ok is_sha256 ls k)) (\<lambda>_.
     bind (expect (\<forall>k\<in>{''org.opencontainers.image.revision'', ''com.dgx-spark.vllm.commit'', ''com.dgx-spark.b12x.commit''}.
         label_ok is_git_commit ls k)) (\<lambda>_. ret ls)))))"

text \<open>One role of the lock: its entry and the reference that the configuration gives the role.\<close>

definition check_image :: "config \<Rightarrow> string \<Rightarrow> (string \<times> json) list \<Rightarrow> (exn, string \<times> json) comp" where
  "check_image c role ims =
     (let d = deployment c
      in bind (mapping (map_of ims role)) (\<lambda>im.
         bind (exact_keys im [''reference'', ''image_id'', ''labels'']) (\<lambda>_.
           case (map_of im ''reference'', map_of im ''image_id'') of
             (Some (JStr ref), Some (JStr iid)) \<Rightarrow>
               bind (expect (is_image_ref ref)) (\<lambda>_.
               bind (expect (bare_digest iid)) (\<lambda>_.
               bind (expect (ref = (if role = ''head'' then head_image_ref d else worker_image_ref d))) (\<lambda>_.
               bind (if mode d = ''candidate''
                     then if candidate_ref ref then ret ()
                          else bind (expect (allow_production_images_in_candidate d)) (\<lambda>_. expect (ref = iid))
                     else expect (\<not> candidate_ref ref)) (\<lambda>_.
               bind (mapping (map_of im ''labels'')) (\<lambda>labels.
               bind (validate_labels labels) (\<lambda>ls.
                 ret (role, JObj [(''reference'', JStr ref), (''image_id'', JStr iid), (''labels'', str_dict ls)])))))))
           | _ \<Rightarrow> raise LockError)))"

subsection \<open>The lock\<close>

definition LOCK_KEYS :: "string list" where
  "LOCK_KEYS = [''schema_version'', ''status'', ''mode'', ''profile_id'', ''model_manifest_sha256'', ''images'', ''lock_sha256'']"

definition item :: "(string \<times> json) list \<Rightarrow> string \<Rightarrow> json" where
  "item es k = (case map_of es k of None \<Rightarrow> JNull | Some v \<Rightarrow> v)"

definition load_deployment_lock :: "python \<Rightarrow> string option \<Rightarrow> config \<Rightarrow> (exn, (string \<times> json) list) comp" where
  "load_deployment_lock P text c =
     bind (read_lock P text) (\<lambda>(es, raw).
     bind (exact_keys es LOCK_KEYS) (\<lambda>_.
     bind (expect (case item es ''lock_sha256'' of JStr s \<Rightarrow> is_sha256 s | _ \<Rightarrow> False)) (\<lambda>_.
     bind (expect (item es ''lock_sha256'' = JStr (content_sha256 P es))) (\<lambda>_.
     bind (expect (py_eq (item es ''schema_version'') (JInt 1))) (\<lambda>_.
     bind (expect (item es ''status'' = JStr ''ready'')) (\<lambda>_.
     bind (expect (item es ''mode'' = JStr (mode (deployment c)))) (\<lambda>_.
     bind (expect (py_eq (item es ''profile_id'') (item (profile c) ''profile_id''))) (\<lambda>_.
     bind (expect (case item es ''model_manifest_sha256'' of JStr s \<Rightarrow> is_sha256 s | _ \<Rightarrow> False)) (\<lambda>_.
     bind (expect (item es ''model_manifest_sha256'' = JStr (model_manifest_sha256 (deployment c)))) (\<lambda>_.
     bind (mapping (map_of es ''images'')) (\<lambda>ims.
     bind (check_image c ''head'' ims) (\<lambda>h.
     bind (check_image c ''worker'' ims) (\<lambda>w.
       ret (AList.update ''raw_sha256'' (JStr raw) (AList.update ''images'' (JObj [h, w]) es)))))))))))))))"

end
