(* ===== verification/Contract.thy ===== *)
theory Contract
  imports Render
begin

text \<open>
  \<^verbatim>\<open>dgx_deploy/contract.py\<close>: the digest of a service contract and its validation.
\<close>

definition HASH_KEYS :: "string list" where
  "HASH_KEYS = [''schema_version'', ''mode'', ''node_addr'', ''fabric'', ''api_port'', ''master_addr'', ''master_port'',
     ''model_path'', ''model_manifest_sha256'', ''environment'', ''service_argv'']"

definition contract_hash_input :: "(string \<times> json) list \<Rightarrow> (string \<times> json) list" where
  "contract_hash_input contract = pick HASH_KEYS contract"

definition service_contract_sha256 :: "python \<Rightarrow> (string \<times> json) list \<Rightarrow> string" where
  "service_contract_sha256 P contract = py_sha256 P (canonical_json (py_float P) (JObj (contract_hash_input contract)))"

definition CONTRACT_KEYS :: "string list" where
  "CONTRACT_KEYS = [''schema_version'', ''deployment_id'', ''mode'', ''profile_id'', ''role'', ''container'', ''host'',
     ''node_addr'', ''fabric'', ''master_addr'', ''master_port'', ''model_path'', ''model_root'',
     ''model_manifest_sha256'', ''image'', ''environment'', ''service_argv'', ''container_argv'', ''contract_path'',
     ''service_contract_sha256'']"

definition nonempty_list :: "json option \<Rightarrow> bool" where
  "nonempty_list v \<longleftrightarrow> (case v of Some (JArr xs) \<Rightarrow> xs \<noteq> [] | _ \<Rightarrow> False)"

text \<open>\<^verbatim>\<open>contract.get("role") not in {"head", "worker"}\<close>; a list or an object cannot be looked up in a set.\<close>

definition check_role :: "json option \<Rightarrow> (exn, unit) comp" where
  "check_role v =
     (case v of
        Some (JArr _) \<Rightarrow> raise TypeError
      | Some (JObj _) \<Rightarrow> raise TypeError
      | _ \<Rightarrow> assert ContractError (v = Some (JStr ''head'') \<or> v = Some (JStr ''worker'')))"

definition validate_contract :: "python \<Rightarrow> (string \<times> json) list \<Rightarrow> (exn, (string \<times> json) list) comp" where
  "validate_contract P contract =
     bind (assert ContractError (\<forall>k\<in>set CONTRACT_KEYS. k \<in> fst ` set contract)) (\<lambda>_.
     bind (assert ContractError (case map_of contract ''schema_version'' of None \<Rightarrow> False | Some v \<Rightarrow> py_eq v (JInt 1))) (\<lambda>_.
     bind (check_role (map_of contract ''role'')) (\<lambda>_.
     bind (assert ContractError (nonempty_list (map_of contract ''service_argv''))) (\<lambda>_.
     bind (assert ContractError (nonempty_list (map_of contract ''container_argv''))) (\<lambda>_.
       case map_of contract ''service_contract_sha256'' of
         Some (JStr digest) \<Rightarrow>
           bind (assert ContractError (is_sha256 digest)) (\<lambda>_.
           bind (assert ContractError (digest = service_contract_sha256 P contract)) (\<lambda>_. ret contract))
       | _ \<Rightarrow> raise ContractError)))))"

definition contract_json :: "python \<Rightarrow> config \<Rightarrow> string \<Rightarrow> (string \<times> json) list option \<Rightarrow> int option
    \<Rightarrow> (exn, string) comp" where
  "contract_json P c role lock gid_index =
     bind (render_contract P c role lock gid_index) (\<lambda>v.
     let v = AList.update ''service_contract_sha256'' (JStr (service_contract_sha256 P v)) v in
     bind (validate_contract P v) (\<lambda>_. ret (json_lines (py_float P) 0 (JObj v) @ [CHR 0x0A])))"

end
