(* ===== verification/Contract_Props.thy ===== *)
theory Contract_Props
  imports Contract
begin

text \<open>
  What holds of rendered contracts: they are complete, the written contract validates, and the digest
  that the renderer computes itself is not the one the validator expects.
\<close>

subsection \<open>Length of canonical text\<close>

lemma length_join: "xs \<noteq> [] \<Longrightarrow> length (join [c] xs) + 1 = sum_list (map length xs) + length xs"
  by (induction "[c]" xs rule: join.induct) auto

definition entry_length :: "(rat \<Rightarrow> string) \<Rightarrow> string \<times> json \<Rightarrow> nat" where
  "entry_length sf e = length (json_string (fst e)) + 1 + length (canonical_json sf (snd e))"

lemma length_canonical_obj:
  assumes "es \<noteq> []"
  shows "length (canonical_json sf (JObj es)) = sum_list (map (entry_length sf) es) + length es + 1"
proof -
  let ?ts = "map (\<lambda>(k, v). (k, canonical_json sf v)) es"
  let ?show = "\<lambda>(k, t). json_string k @ '':'' @ t"
  let ?xs = "map ?show (sort_key fst ?ts)"
  have "length ?xs = length es" by simp
  with assms have "?xs \<noteq> []" by (metis length_0_conv)
  from length_join [OF this, of "CHR '',''"]
  have "length (join '','' ?xs) + 1 = sum_list (map (length \<circ> ?show) (sort_key fst ?ts)) + length es"
    by simp
  also have "sum_list (map (length \<circ> ?show) (sort_key fst ?ts)) = sum_list (map (length \<circ> ?show) ?ts)"
    by (simp only: sum_mset_sum_list [symmetric] mset_map mset_sort)
  also have "\<dots> = sum_list (map (entry_length sf) es)"
    by (intro arg_cong [where f = sum_list]) (simp add: entry_length_def split: prod.split)
  finally show ?thesis by simp
qed

lemma pick_append: "pick (xs @ ys) es = pick xs es @ pick ys es"
  by (simp add: pick_def)

lemma pick_cong: "(\<And>k. k \<in> set ks \<Longrightarrow> map_of es k = map_of fs k) \<Longrightarrow> pick ks es = pick ks fs"
  by (simp add: pick_def cong: map_cong)

subsection \<open>Shape of a rendered contract\<close>

lemma eval_args_length: "eval_args P as = ret ss \<Longrightarrow> length ss = length as"
proof (induction as arbitrary: ss)
  case (Cons a as)
  then show ?case by (cases a) auto
qed simp

lemma service_argv_nonempty:
  assumes "render_service_argv P c role = ret ss"
  shows "ss \<noteq> []"
proof -
  from assms obtain as where "eval_args P (Lit ''vllm'' # as) = ret ss"
    unfolding render_service_argv_def Let_def ret_iff append_Cons by (elim exE conjE) (rule that)
  from eval_args_length [OF this] show ?thesis by auto
qed

lemma container_argv_nonempty:
  assumes "render_container_argv P c role lock src gid = ret ss"
  shows "ss \<noteq> []"
  using assms unfolding render_container_argv_def create_prefix_def
  by (auto simp: bind_eq_ret)

lemma for_role_ret: "for_role e role h w = ret x \<longleftrightarrow> role = ''head'' \<and> x = h \<or> role = ''worker'' \<and> x = w"
  by (auto simp: for_role_def)

lemma render_baseE:
  assumes "render_base P c role lock gid = ret base"
  obtains ref iid labels spec m pid name host addr mp env service argv cpath where
    "lock_image P lock role c = ret (ref, iid, labels)"
    and "render_mode c = ret m" and "jitem (JObj (profile c)) ''profile_id'' = ret pid"
    and "container_name P c role = ret name"
    and "role_value role (head_host (deployment c)) (worker_host (deployment c)) = ret host"
    and "role_value role (head_node_addr (deployment c)) (worker_node_addr (deployment c)) = ret addr"
    and "model_path P c = ret mp" and "render_environment c role gid = ret env"
    and "render_service_argv P c role = ret service" "render_container_argv P c role lock None gid = ret argv"
    and "remote_contract_path c role = ret cpath"
    and "base = [(''schema_version'', JInt 1),
             (''deployment_id'', JStr (deployment_id (py_sha256 P) (py_float P) c)),
             (''mode'', JStr m), (''profile_id'', pid), (''role'', JStr role), (''container'', JStr name),
             (''host'', JStr host), (''node_addr'', JStr addr), (''fabric'', spec),
             (''api_port'', if role = ''head'' then JInt (int (api_port (deployment c))) else JNull),
             (''master_addr'', JStr (master_addr (deployment c))), (''master_port'', JInt (int (master_port (deployment c)))),
             (''model_path'', JStr mp), (''model_root'', JStr (model_root (deployment c))),
             (''model_manifest_sha256'', JStr (model_manifest_sha256 (deployment c))),
             (''image'', JObj [(''reference'', JStr ref), (''image_id'', opt_json JStr iid), (''labels'', str_dict labels)]),
             (''environment'', str_dict env), (''service_argv'', str_list service),
             (''container_argv'', str_list argv), (''contract_path'', JStr cpath)]"
  using assms unfolding render_base_def Let_def bind_eq_ret split_paired_Ex prod.case ret_inject
  by (elim exE conjE) (rule that; (assumption | erule sym))

lemma render_base_ret:
  assumes "render_base P c role lock gid = ret base"
  shows "map_of base ''role'' = Some (JStr role)" "role = ''head'' \<or> role = ''worker''"
    "map_of base ''schema_version'' = Some (JInt 1)"
    "nonempty_list (map_of base ''service_argv'')" "nonempty_list (map_of base ''container_argv'')"
    "insert ''service_contract_sha256'' (fst ` set base) \<supseteq> set CONTRACT_KEYS"
    "map_of base ''service_contract_sha256'' = None"
proof -
  show "map_of base ''role'' = Some (JStr role)" "map_of base ''schema_version'' = Some (JInt 1)"
    "map_of base ''service_contract_sha256'' = None"
    by (rule render_baseE [OF assms]; simp)+
  show "role = ''head'' \<or> role = ''worker''"
    by (rule render_baseE [OF assms]) (auto simp: role_value_def for_role_ret)
  show "nonempty_list (map_of base ''service_argv'')" "nonempty_list (map_of base ''container_argv'')"
    by (rule render_baseE [OF assms]; simp add: nonempty_list_def str_list_def service_argv_nonempty container_argv_nonempty)+
  show "insert ''service_contract_sha256'' (fst ` set base) \<supseteq> set CONTRACT_KEYS"
    by (rule render_baseE [OF assms]) (simp add: CONTRACT_KEYS_def)
qed

lemma digest_keys_split: "DIGEST_KEYS = take 2 HASH_KEYS @ [''role''] @ drop 2 HASH_KEYS"
  by (simp add: DIGEST_KEYS_def HASH_KEYS_def)

subsection \<open>Digests\<close>

lemma map_of_update: "map_of (AList.update k v al) k' = (if k' = k then Some v else map_of al k')"
  by (simp add: update_conv)

lemma contract_hash_input_update: "contract_hash_input (AList.update ''service_contract_sha256'' v es) = contract_hash_input es"
  unfolding contract_hash_input_def by (rule pick_cong) (auto simp: map_of_update HASH_KEYS_def)

lemma keys_map_of: "k \<in> fst ` set es \<longleftrightarrow> map_of es k \<noteq> None"
  by (auto simp: map_of_eq_None_iff)

text \<open>The two texts that are hashed differ: the renderer's has one more entry.\<close>

lemma digest_texts_differ:
  assumes "map_of base ''role'' = Some v"
  shows "canonical_json sf (JObj (pick DIGEST_KEYS base)) \<noteq> canonical_json sf (JObj (pick HASH_KEYS base))"
proof -
  have r: "pick [''role''] base = [(''role'', v)]" using assms by (simp add: pick_def)
  let ?a = "pick (take 2 HASH_KEYS) base" and ?b = "pick (drop 2 HASH_KEYS) base"
  have d: "pick DIGEST_KEYS base = ?a @ [(''role'', v)] @ ?b"
    by (simp only: digest_keys_split pick_append r)
  have h: "pick HASH_KEYS base = ?a @ ?b"
    by (metis append_take_drop_id pick_append)
  have "length (canonical_json sf (JObj (?a @ [(''role'', v)] @ ?b))) > length (canonical_json sf (JObj (?a @ ?b)))"
  proof (cases "?a @ ?b = []")
    case True
    then show ?thesis by (subst length_canonical_obj) (auto simp: entry_length_def)
  next
    case False
    then show ?thesis by (subst (1 2) length_canonical_obj) auto
  qed
  then show ?thesis unfolding d h by (metis less_irrefl)
qed

lemma validate_contract_iff:
  assumes "render_base P c role lock gid = ret base"
    and "\<forall>k. k \<noteq> ''service_contract_sha256'' \<longrightarrow> map_of es k = map_of base k"
    and "map_of es ''service_contract_sha256'' = Some (JStr digest)"
  shows "validate_contract P es
    = (if is_sha256 digest \<and> digest = service_contract_sha256 P es then ret es else raise ContractError)"
proof -
  note b = render_base_ret [OF assms(1)]
  have "\<forall>k\<in>set CONTRACT_KEYS. k \<in> fst ` set es"
  proof
    fix k
    assume "k \<in> set CONTRACT_KEYS"
    with b(6) have "k = ''service_contract_sha256'' \<or> map_of base k \<noteq> None" unfolding keys_map_of [symmetric] by blast
    with assms(2,3) show "k \<in> fst ` set es" unfolding keys_map_of by (metis option.distinct(1))
  qed
  moreover have "map_of es ''role'' = Some (JStr role)" "map_of es ''schema_version'' = Some (JInt 1)"
    "nonempty_list (map_of es ''service_argv'')" "nonempty_list (map_of es ''container_argv'')"
    using assms(2) b(1,3,4,5) by simp_all
  ultimately show ?thesis
    using b(2) assms(3) by (auto simp: validate_contract_def check_role_def num_of_def)
qed

lemma contract_json_ret:
  assumes "render_contract P c role lock gid = ret es" and "\<forall>t. is_sha256 (py_sha256 P t)"
  shows "\<exists>es'. contract_json P c role lock gid = ret (json_lines (py_float P) 0 (JObj es') @ [CHR 0x0A])
      \<and> validate_contract P es' = ret es' \<and> (\<forall>k. k \<noteq> ''service_contract_sha256'' \<longrightarrow> map_of es' k = map_of es k)
      \<and> map_of es' ''service_contract_sha256'' = Some (JStr (py_sha256 P (canonical_json (py_float P) (JObj (pick HASH_KEYS es)))))"
proof -
  let ?k = "''service_contract_sha256''"
  from assms(1) obtain base where b: "render_base P c role lock gid = ret base"
    and es: "es = base @ [(?k, JStr (py_sha256 P (canonical_json (py_float P) (JObj (pick DIGEST_KEYS base)))))]"
    by (auto simp: render_contract_def bind_eq_ret)
  have es_base: "\<forall>k. k \<noteq> ?k \<longrightarrow> map_of es k = map_of base k"
    by (auto simp: es map_add_def split: option.splits)
  let ?es' = "AList.update ?k (JStr (service_contract_sha256 P es)) es"
  have v: "validate_contract P ?es' = ret ?es'"
    using assms(2) es_base
    by (subst validate_contract_iff [OF b, of _ "service_contract_sha256 P es"])
      (auto simp: map_of_update service_contract_sha256_def contract_hash_input_update)
  then have "contract_json P c role lock gid = ret (json_lines (py_float P) 0 (JObj ?es') @ [CHR 0x0A])"
    using assms(1) by (simp add: contract_json_def)
  moreover have "\<forall>k. k \<noteq> ?k \<longrightarrow> map_of ?es' k = map_of es k" by (simp add: map_of_update)
  moreover have "map_of ?es' ?k = Some (JStr (py_sha256 P (canonical_json (py_float P) (JObj (pick HASH_KEYS es)))))"
    by (simp add: map_of_update service_contract_sha256_def contract_hash_input_def)
  ultimately show ?thesis using v by blast
qed

text \<open>
  C37. The contract that is written validates: with any digest function that yields lowercase SHA-256
  texts, \<^verbatim>\<open>contract_json\<close> succeeds whenever rendering does, and changes only the digest, to that of the fields that the
  validator hashes.  The contract as rendered carries the digest of another text, which also covers the role: validation
  accepts it exactly if the digests of these two texts, which always differ, are the same.
\<close>

theorem contract_digests:
  assumes "render_contract P c role lock gid = ret es" and "\<forall>t. is_sha256 (py_sha256 P t)"
  defines "hash_text \<equiv> \<lambda>ks. canonical_json (py_float P) (JObj (pick ks es))"
  shows "(\<exists>es'. contract_json P c role lock gid = ret (json_lines (py_float P) 0 (JObj es') @ [CHR 0x0A])
      \<and> validate_contract P es' = ret es'
      \<and> (\<forall>k. k \<noteq> ''service_contract_sha256'' \<longrightarrow> map_of es' k = map_of es k)
      \<and> map_of es' ''service_contract_sha256'' = Some (JStr (py_sha256 P (hash_text HASH_KEYS))))
    \<and> map_of es ''service_contract_sha256'' = Some (JStr (py_sha256 P (hash_text DIGEST_KEYS)))
    \<and> hash_text DIGEST_KEYS \<noteq> hash_text HASH_KEYS
    \<and> (returns (validate_contract P es) \<longleftrightarrow> py_sha256 P (hash_text DIGEST_KEYS) = py_sha256 P (hash_text HASH_KEYS))"
proof -
  let ?k = "''service_contract_sha256''"
  from assms(1) obtain base where b: "render_base P c role lock gid = ret base"
    and es: "es = base @ [(?k, JStr (py_sha256 P (canonical_json (py_float P) (JObj (pick DIGEST_KEYS base)))))]"
    by (auto simp: render_contract_def bind_eq_ret)
  have es_base: "\<forall>k. k \<noteq> ?k \<longrightarrow> map_of es k = map_of base k"
    by (auto simp: es map_add_def split: option.splits)
  have f: "pick DIGEST_KEYS es = pick DIGEST_KEYS base" "pick HASH_KEYS es = pick HASH_KEYS base"
    using es_base by (intro pick_cong; auto simp: HASH_KEYS_def DIGEST_KEYS_def)+
  have d: "map_of es ?k = Some (JStr (py_sha256 P (hash_text DIGEST_KEYS)))"
    unfolding hash_text_def f(1) using render_base_ret(7) [OF b] by (simp add: es map_add_def)
  have "service_contract_sha256 P es = py_sha256 P (hash_text HASH_KEYS)"
    by (simp add: service_contract_sha256_def contract_hash_input_def hash_text_def)
  then have v: "returns (validate_contract P es) \<longleftrightarrow> py_sha256 P (hash_text DIGEST_KEYS) = py_sha256 P (hash_text HASH_KEYS)"
    unfolding validate_contract_iff [OF b es_base d] using assms(2) by (auto simp: returns_def raise_def ret_def)
  have "hash_text DIGEST_KEYS \<noteq> hash_text HASH_KEYS"
    unfolding hash_text_def f using digest_texts_differ [OF render_base_ret(1) [OF b]] .
  with contract_json_ret [OF assms(1,2)] d v show ?thesis unfolding hash_text_def by blast
qed

end
