(* ===== verification/Locks_Props.thy ===== *)
theory Locks_Props
  imports Locks Contract_Props
begin

text \<open>
  What a loaded deployment lock guarantees, and that the rendered container command runs the image
  it pins.
\<close>

subsection \<open>Labels and images\<close>

lemma expect_ret: "expect b = ret u \<longleftrightarrow> b"
  by (simp add: expect_def assert_eq_ret)

lemma exact_keys_ret: "exact_keys es ks = ret u \<longleftrightarrow> fst ` set es = set ks"
  by (auto simp: exact_keys_def bind_eq_ret expect_ret)

lemma mapping_ret: "mapping v = ret es \<longleftrightarrow> v = Some (JObj es)"
  by (auto simp: mapping_def split: option.splits json.splits)

lemma read_labels_ret:
  "read_labels es ks = ret ls \<Longrightarrow> set ks \<subseteq> fst ` set es \<Longrightarrow> map fst ls = ks \<and> (\<forall>v\<in>snd ` set ls. v \<noteq> [] \<and> \<not> lock_placeholder v)"
proof (induction ks arbitrary: ls)
  case (Cons k ks)
  from Cons.prems(2) obtain j where j: "map_of es k = Some j"
    using keys_map_of [of k es] by auto
  with Cons.prems(1) obtain v r where "j = JStr v" "v \<noteq> []" "\<not> lock_placeholder v"
    "read_labels es ks = ret r" "ls = (k, v) # r"
    by (auto simp: bind_eq_ret expect_ret split: json.splits)
  with Cons.IH [of r] Cons.prems(2) show ?case by auto
qed simp

definition labels_ok :: "(string \<times> string) list \<Rightarrow> bool" where
  "labels_ok ls \<longleftrightarrow> map fst ls = REQUIRED_LABELS @ OPTIONAL_IMAGE_LABELS
     \<and> (\<forall>v\<in>snd ` set ls. v \<noteq> [] \<and> \<not> lock_placeholder v)
     \<and> map_of ls ''com.dgx-spark.architecture'' = Some ''linux/arm64''
     \<and> (\<forall>k\<in>{''org.opencontainers.image.revision'', ''com.dgx-spark.vllm.commit'', ''com.dgx-spark.b12x.commit''}.
          \<exists>v. map_of ls k = Some v \<and> is_git_commit v)"

lemma validate_labels_ret:
  assumes "validate_labels es = ret ls"
  shows "labels_ok ls"
proof -
  from assms have k: "fst ` set es = set (REQUIRED_LABELS @ OPTIONAL_IMAGE_LABELS)"
    and r: "read_labels es (REQUIRED_LABELS @ OPTIONAL_IMAGE_LABELS) = ret ls"
    and a: "map_of ls ''com.dgx-spark.architecture'' = Some ''linux/arm64''"
    and g: "\<forall>k\<in>{''org.opencontainers.image.revision'', ''com.dgx-spark.vllm.commit'', ''com.dgx-spark.b12x.commit''}.
         label_ok is_git_commit ls k"
    unfolding validate_labels_def bind_eq_ret expect_ret exact_keys_ret ret_inject by (elim exE conjE; simp)+
  from read_labels_ret [OF r] k have m: "map fst ls = REQUIRED_LABELS @ OPTIONAL_IMAGE_LABELS"
    "\<forall>v\<in>snd ` set ls. v \<noteq> [] \<and> \<not> lock_placeholder v" by auto
  have "\<exists>v. map_of ls k = Some v \<and> is_git_commit v"
    if "k \<in> {''org.opencontainers.image.revision'', ''com.dgx-spark.vllm.commit'', ''com.dgx-spark.b12x.commit''}" for k
  proof -
    have "k \<in> set (map fst ls)" unfolding m(1) using that by (auto simp: REQUIRED_LABELS_def)
    then obtain v where "map_of ls k = Some v" using keys_map_of [of k "map (\<lambda>(k, v). (k, JStr v)) ls"]
      by (cases "map_of ls k") (auto simp: map_of_eq_None_iff)
    then show ?thesis using g that by (auto simp: label_ok_def)
  qed
  then show ?thesis unfolding labels_ok_def using m a by blast
qed

definition role_image_ref :: "config \<Rightarrow> string \<Rightarrow> string" where
  "role_image_ref c role = (if role = ''head'' then head_image_ref (deployment c) else worker_image_ref (deployment c))"

definition image_pinned :: "config \<Rightarrow> string \<Rightarrow> string \<Rightarrow> string \<Rightarrow> bool" where
  "image_pinned c role ref iid \<longleftrightarrow> ref = role_image_ref c role \<and> is_image_ref ref \<and> bare_digest iid
     \<and> (if mode (deployment c) = ''candidate''
        then candidate_ref ref \<or> allow_production_images_in_candidate (deployment c) \<and> ref = iid
        else \<not> candidate_ref ref)"

lemma check_image_ret:
  assumes "check_image c role ims = ret e"
  obtains ref iid ls where "e = (role, JObj [(''reference'', JStr ref), (''image_id'', JStr iid), (''labels'', str_dict ls)])"
    "image_pinned c role ref iid" "labels_ok ls"
proof -
  from assms obtain im where im:
    "(case (map_of im ''reference'', map_of im ''image_id'') of
             (Some (JStr ref), Some (JStr iid)) \<Rightarrow>
               bind (expect (is_image_ref ref)) (\<lambda>_.
               bind (expect (bare_digest iid)) (\<lambda>_.
               bind (expect (ref = role_image_ref c role)) (\<lambda>_.
               bind (if mode (deployment c) = ''candidate''
                     then if candidate_ref ref then ret ()
                          else bind (expect (allow_production_images_in_candidate (deployment c))) (\<lambda>_. expect (ref = iid))
                     else expect (\<not> candidate_ref ref)) (\<lambda>_.
               bind (mapping (map_of im ''labels'')) (\<lambda>labels.
               bind (validate_labels labels) (\<lambda>ls.
                 ret (role, JObj [(''reference'', JStr ref), (''image_id'', JStr iid), (''labels'', str_dict ls)])))))))
           | _ \<Rightarrow> raise LockError) = ret e"
    unfolding check_image_def Let_def bind_eq_ret role_image_ref_def by blast
  then obtain ref iid where ri: "map_of im ''reference'' = Some (JStr ref)" "map_of im ''image_id'' = Some (JStr iid)"
    by (auto split: option.splits json.splits)
  from im obtain ls u where "is_image_ref ref" "bare_digest iid" "ref = role_image_ref c role"
    "(if mode (deployment c) = ''candidate''
                     then if candidate_ref ref then ret ()
                          else bind (expect (allow_production_images_in_candidate (deployment c))) (\<lambda>_. expect (ref = iid))
                     else expect (\<not> candidate_ref ref)) = ret u"
    "\<exists>labels. validate_labels labels = ret ls"
    "e = (role, JObj [(''reference'', JStr ref), (''image_id'', JStr iid), (''labels'', str_dict ls)])"
    unfolding ri option.case prod.case json.case bind_eq_ret expect_ret ret_inject by blast
  moreover from this(4) have "if mode (deployment c) = ''candidate''
        then candidate_ref ref \<or> allow_production_images_in_candidate (deployment c) \<and> ref = iid
        else \<not> candidate_ref ref"
    by (auto simp: bind_eq_ret expect_ret split: if_splits)
  ultimately show thesis using that validate_labels_ret unfolding image_pinned_def by blast
qed

lemma load_lock_spec:
  assumes "load_deployment_lock P text c = ret lock" and "role = ''head'' \<or> role = ''worker''"
  shows "(\<exists>t es. text = Some t \<and> py_loads P t = Some (JObj es) \<and> item es ''lock_sha256'' = JStr (content_sha256 P es)
      \<and> item es ''mode'' = JStr (mode (deployment c)) \<and> py_eq (item es ''profile_id'') (item (profile c) ''profile_id'')
      \<and> item es ''model_manifest_sha256'' = JStr (model_manifest_sha256 (deployment c))
      \<and> map_of lock ''raw_sha256'' = Some (JStr (py_sha256 P t)))
    \<and> (\<exists>iid labels. lock_image P (Some lock) role c = ret (role_image_ref c role, Some iid, labels)
      \<and> image_pinned c role (role_image_ref c role) iid \<and> labels_ok labels)"
proof -
  from assms(1) obtain es raw ims h w where rl: "read_lock P text = ret (es, raw)"
    and i: "item es ''lock_sha256'' = JStr (content_sha256 P es)" "item es ''mode'' = JStr (mode (deployment c))"
      "py_eq (item es ''profile_id'') (item (profile c) ''profile_id'')"
      "item es ''model_manifest_sha256'' = JStr (model_manifest_sha256 (deployment c))"
    and im: "check_image c ''head'' ims = ret h" "check_image c ''worker'' ims = ret w"
    and l: "lock = AList.update ''raw_sha256'' (JStr raw) (AList.update ''images'' (JObj [h, w]) es)"
    unfolding load_deployment_lock_def bind_eq_ret expect_ret split_paired_Ex prod.case ret_inject
    by (elim exE conjE) (rule that; (assumption | erule sym))
  from im(1) obtain rh ih lh where h: "h = (''head'', JObj [(''reference'', JStr rh), (''image_id'', JStr ih), (''labels'', str_dict lh)])"
    "image_pinned c ''head'' rh ih" "labels_ok lh" by (rule check_image_ret)
  from im(2) obtain rw iw lw where w: "w = (''worker'', JObj [(''reference'', JStr rw), (''image_id'', JStr iw), (''labels'', str_dict lw)])"
    "image_pinned c ''worker'' rw iw" "labels_ok lw" by (rule check_image_ret)
  have "map_of lock ''images'' = Some (JObj [h, w])" by (simp add: l map_of_update)
  then have "lock_image P (Some lock) ''head'' c = ret (rh, Some ih, lh)"
    "lock_image P (Some lock) ''worker'' c = ret (rw, Some iw, lw)"
    by (simp_all add: lock_image_def for_role_def h(1) w(1) jitem_def str_dict_def py_str_def case_prod_unfold comp_def)
  moreover have "rh = role_image_ref c ''head''" "rw = role_image_ref c ''worker''"
    using h(2) w(2) by (auto simp: image_pinned_def)
  moreover obtain t where "text = Some t" "py_loads P t = Some (JObj es)" "raw = py_sha256 P t"
    using rl by (auto simp: read_lock_def split: option.splits json.splits)
  moreover have "map_of lock ''raw_sha256'' = Some (JStr raw)" by (simp add: l map_of_update)
  ultimately show ?thesis using i h w assms(2) by auto
qed

text \<open>
  C38. A deployment lock that loads is intact and pins both roles: its own digest is that of its content,
  it is for this mode, profile and model, and for each role the renderer gets from it the image
  reference that the operator configured, immutable, with complete labels for the right platform; a
  candidate runs a production image only if that was authorised, and production never runs a
  candidate's.
\<close>

theorem lock_binds:
  assumes "load_deployment_lock P text c = ret lock" and "role = ''head'' \<or> role = ''worker''"
  shows "(\<exists>t es. text = Some t \<and> py_loads P t = Some (JObj es) \<and> item es ''lock_sha256'' = JStr (content_sha256 P es)
      \<and> item es ''mode'' = JStr (mode (deployment c)) \<and> py_eq (item es ''profile_id'') (item (profile c) ''profile_id'')
      \<and> item es ''model_manifest_sha256'' = JStr (model_manifest_sha256 (deployment c))
      \<and> map_of lock ''raw_sha256'' = Some (JStr (py_sha256 P t)))
    \<and> (\<exists>iid labels. lock_image P (Some lock) role c = ret (role_image_ref c role, Some iid, labels)
      \<and> image_pinned c role (role_image_ref c role) iid \<and> labels_ok labels)"
  using assms by (rule load_lock_spec)

lemma label_args_ret:
  "label_args labels ks = ret ls \<Longrightarrow> ls = concat (map (\<lambda>k. [''--label'', k @ ''='' @ the (map_of labels k)]) ks)"
  by (induction ks arbitrary: ls) (auto simp: bind_eq_ret split: option.splits)

text \<open>The entry of a role in the text of the lock, and the values of its labels.\<close>

definition lock_entry_of :: "python \<Rightarrow> string option \<Rightarrow> string \<Rightarrow> (string \<times> json) list \<Rightarrow> bool" where
  "lock_entry_of P text role im \<longleftrightarrow> (\<exists>t es ims. text = Some t \<and> py_loads P t = Some (JObj es) \<and> map_of es ''images'' = Some (JObj ims)
     \<and> map_of ims role = Some (JObj im))"

lemma read_labels_values: "read_labels es ks = ret ls \<Longrightarrow> map_of ls k = Some v \<Longrightarrow> map_of es k = Some (JStr v)"
  by (induction ks arbitrary: ls) (auto simp: bind_eq_ret split: option.splits json.splits if_splits)

lemma check_image_entry:
  assumes "check_image c role ims = ret e"
  obtains im ref iid raw ls where "map_of ims role = Some (JObj im)" "map_of im ''reference'' = Some (JStr ref)"
    "map_of im ''image_id'' = Some (JStr iid)" "map_of im ''labels'' = Some (JObj raw)" "\<forall>k v. map_of ls k = Some v \<longrightarrow> map_of raw k = Some (JStr v)"
    "e = (role, JObj [(''reference'', JStr ref), (''image_id'', JStr iid), (''labels'', str_dict ls)])"
proof -
  from assms obtain im where m: "map_of ims role = Some (JObj im)" and im:
    "(case (map_of im ''reference'', map_of im ''image_id'') of
             (Some (JStr ref), Some (JStr iid)) \<Rightarrow>
               bind (expect (is_image_ref ref)) (\<lambda>_.
               bind (expect (bare_digest iid)) (\<lambda>_.
               bind (expect (ref = (if role = ''head'' then head_image_ref (deployment c) else worker_image_ref (deployment c)))) (\<lambda>_.
               bind (if mode (deployment c) = ''candidate''
                     then if candidate_ref ref then ret ()
                          else bind (expect (allow_production_images_in_candidate (deployment c))) (\<lambda>_. expect (ref = iid))
                     else expect (\<not> candidate_ref ref)) (\<lambda>_.
               bind (mapping (map_of im ''labels'')) (\<lambda>labels.
               bind (validate_labels labels) (\<lambda>ls.
                 ret (role, JObj [(''reference'', JStr ref), (''image_id'', JStr iid), (''labels'', str_dict ls)])))))))
           | _ \<Rightarrow> raise LockError) = ret e"
    unfolding check_image_def Let_def bind_eq_ret mapping_ret by blast
  then obtain ref iid where ri: "map_of im ''reference'' = Some (JStr ref)" "map_of im ''image_id'' = Some (JStr iid)"
    by (auto split: option.splits json.splits)
  from im obtain raw ls where l: "map_of im ''labels'' = Some (JObj raw)" "validate_labels raw = ret ls"
    "e = (role, JObj [(''reference'', JStr ref), (''image_id'', JStr iid), (''labels'', str_dict ls)])"
    unfolding ri option.case prod.case json.case bind_eq_ret mapping_ret ret_inject by blast
  from l(2) have "\<forall>k v. map_of ls k = Some v \<longrightarrow> map_of raw k = Some (JStr v)"
    using read_labels_values by (auto simp: validate_labels_def bind_eq_ret)
  with m ri l that show thesis by blast
qed

lemma loaded_entry:
  assumes "load_deployment_lock P text c = ret lock" and "role = ''head'' \<or> role = ''worker''"
    and "lock_image P (Some lock) role c = ret (ref, Some iid, labels)"
  shows "\<exists>im raw. lock_entry_of P text role im \<and> map_of im ''reference'' = Some (JStr ref) \<and> map_of im ''image_id'' = Some (JStr iid)
    \<and> map_of im ''labels'' = Some (JObj raw) \<and> (\<forall>k v. map_of labels k = Some v \<longrightarrow> map_of raw k = Some (JStr v))"
proof -
  from assms(1) obtain es raw ims h w where rl: "read_lock P text = ret (es, raw)" and ims: "map_of es ''images'' = Some (JObj ims)"
    and im: "check_image c ''head'' ims = ret h" "check_image c ''worker'' ims = ret w"
    and l: "lock = AList.update ''raw_sha256'' (JStr raw) (AList.update ''images'' (JObj [h, w]) es)"
    unfolding load_deployment_lock_def bind_eq_ret expect_ret mapping_ret split_paired_Ex prod.case ret_inject
    by (elim exE conjE) (rule that; (assumption | erule sym))
  obtain t where t: "text = Some t" "py_loads P t = Some (JObj es)"
    using rl by (auto simp: read_lock_def split: option.splits json.splits)
  let ?e = "if role = ''head'' then h else w"
  have e: "check_image c role ims = ret ?e" using im assms(2) by auto
  from im obtain jh jw where n: "h = (''head'', jh)" "w = (''worker'', jw)" by (metis check_image_ret)
  from check_image_entry [OF e] obtain im' ref' iid' raw' ls where
    i: "map_of ims role = Some (JObj im')" "map_of im' ''reference'' = Some (JStr ref')" "map_of im' ''image_id'' = Some (JStr iid')"
      "map_of im' ''labels'' = Some (JObj raw')" "\<forall>k v. map_of ls k = Some v \<longrightarrow> map_of raw' k = Some (JStr v)"
    and e': "?e = (role, JObj [(''reference'', JStr ref'), (''image_id'', JStr iid'), (''labels'', str_dict ls)])" by blast
  have "map_of lock ''images'' = Some (JObj [h, w])" by (simp add: l map_of_update)
  moreover have "map_of [h, w] role = Some (JObj [(''reference'', JStr ref'), (''image_id'', JStr iid'), (''labels'', str_dict ls)])"
    using e' n assms(2) by auto
  ultimately have "lock_image P (Some lock) role c = ret (ref', Some iid', ls)"
    using assms(2) by (auto simp: lock_image_def for_role_def jitem_def str_dict_def py_str_def case_prod_unfold comp_def)
  with assms(3) i have "ref' = ref" "iid' = iid" "ls = labels" by simp_all
  with i t ims show ?thesis unfolding lock_entry_of_def by blast
qed

text \<open>
  C39. The container command rendered from a loaded lock runs the image that the entry of the role in the lock's text pins,
  followed by the service command.  Before it come the security options of the mode, privileged without label separation
  for production and candidates, otherwise read-only without new privileges, then the five required labels with the values
  of that entry, and a read-only mount of the model.
\<close>

theorem container_runs_locked_image:
  assumes "load_deployment_lock P text c = ret lock" and "role = ''head'' \<or> role = ''worker''"
    and "render_container_argv P c role (Some lock) src gid = ret argv"
  shows "\<exists>a b1 b2 service iid im raw target labels.
      argv = a @ (if mode (deployment c) = ''production'' \<or> mode (deployment c) = ''candidate''
           then [''--privileged'', ''--security-opt'', ''label=disable''] else [''--read-only'', ''--security-opt'', ''no-new-privileges:true''])
        @ concat (map (\<lambda>k. [''--label'', k @ ''='' @ labels k]) REQUIRED_LABELS)
        @ b1 @ [''--mount'', ''type=bind,src='' @ model_root (deployment c) @ '',dst='' @ target @ '',readonly''] @ b2
        @ [role_image_ref c role] @ service
    \<and> take 3 a = [''docker'', ''container'', ''create''] \<and> ''--privileged'' \<notin> set a
    \<and> render_service_argv P c role = ret service
    \<and> lock_entry_of P text role im \<and> map_of im ''reference'' = Some (JStr (role_image_ref c role)) \<and> map_of im ''image_id'' = Some (JStr iid)
    \<and> image_pinned c role (role_image_ref c role) iid
    \<and> map_of im ''labels'' = Some (JObj raw) \<and> (\<forall>k\<in>set REQUIRED_LABELS. map_of raw k = Some (JStr (labels k)) \<and> labels k \<noteq> [])"
proof -
  from load_lock_spec [OF assms(1,2)] obtain iid labels where
    li: "lock_image P (Some lock) role c = ret (role_image_ref c role, Some iid, labels)"
    "image_pinned c role (role_image_ref c role) iid" "labels_ok labels" by blast
  from loaded_entry [OF assms(1,2) li(1)] obtain im raw where
    e: "lock_entry_of P text role im" "map_of im ''reference'' = Some (JStr (role_image_ref c role))" "map_of im ''image_id'' = Some (JStr iid)"
      "map_of im ''labels'' = Some (JObj raw)" "\<forall>k v. map_of labels k = Some v \<longrightarrow> map_of raw k = Some (JStr v)" by blast
  let ?l = "\<lambda>k. the (map_of labels k)"
  have v: "map_of raw k = Some (JStr (?l k)) \<and> ?l k \<noteq> []" if "k \<in> set REQUIRED_LABELS" for k
  proof -
    from li(3) that have "k \<in> fst ` set labels" unfolding labels_ok_def by (metis UnCI list.set_map set_append)
    then obtain v where "map_of labels k = Some v" by (metis map_of_eq_None_iff option.exhaust)
    moreover from this have "v \<in> snd ` set labels" by (metis map_of_SomeD image_eqI snd_conv)
    ultimately show ?thesis using e(5) li(3) by (auto simp: labels_ok_def)
  qed
  from assms(3) obtain name csrc esrc m ls env target service where
    m: "render_mode c = ret m" and ls: "label_args labels REQUIRED_LABELS = ret ls" and nm: "container_name P c role = ret name"
    and sv: "render_service_argv P c role = ret service"
    and argv: "create_prefix name (deployment_id (py_sha256 P) (py_float P) c) role @ security_args m @ ls
         @ concat (map (\<lambda>(k, v). [''--env'', k @ ''='' @ v]) env)
         @ [''--env-file'', esrc, ''--mount'', bind_mount (model_root (deployment c)) target @ '',readonly'']
         @ concat (map (\<lambda>(sub, target). [''--mount'',
             bind_mount (role_cache_root c role @ ''/'' @ sub) target]) CACHE_MOUNTS)
         @ [''--mount'', bind_mount csrc ''/etc/dgx-spark/service-contract.json'' @ '',readonly'', role_image_ref c role]
         @ service = argv"
    unfolding render_container_argv_def li(1) bind_ret prod.case
    unfolding bind_eq_ret ret_inject by (elim exE conjE) (rule that; assumption)
  let ?a = "create_prefix name (deployment_id (py_sha256 P) (py_float P) c) role"
    and ?b1 = "concat (map (\<lambda>(k, v). [''--env'', k @ ''='' @ v]) env) @ [''--env-file'', esrc]"
    and ?b2 = "concat (map (\<lambda>(sub, target). [''--mount'', bind_mount (role_cache_root c role @ ''/'' @ sub) target]) CACHE_MOUNTS)
         @ [''--mount'', bind_mount csrc ''/etc/dgx-spark/service-contract.json'' @ '',readonly'']"
  have md: "m = mode (deployment c)" using m by (simp add: render_mode_def Let_def split: if_splits)
  have sec: "security_args m = (if mode (deployment c) = ''production'' \<or> mode (deployment c) = ''candidate''
           then [''--privileged'', ''--security-opt'', ''label=disable''] else [''--read-only'', ''--security-opt'', ''no-new-privileges:true''])"
    by (auto simp: security_args_def reviewed_def md)
  obtain x where x: "name = x @ role"
    using nm unfolding container_name_def by (auto simp: bind_eq_ret split: if_splits)
  have "''--privileged'' \<noteq> name"
  proof
    assume "''--privileged'' = name"
    then have "rev ''--privileged'' = rev role @ rev x" unfolding x by simp
    with assms(2) show False by auto
  qed
  then have p: "''--privileged'' \<notin> set ?a" "take 3 ?a = [''docker'', ''container'', ''create'']" by (simp_all add: create_prefix_def)
  have "argv = ?a @ (if mode (deployment c) = ''production'' \<or> mode (deployment c) = ''candidate''
           then [''--privileged'', ''--security-opt'', ''label=disable''] else [''--read-only'', ''--security-opt'', ''no-new-privileges:true''])
        @ concat (map (\<lambda>k. [''--label'', k @ ''='' @ ?l k]) REQUIRED_LABELS)
        @ ?b1 @ [''--mount'', ''type=bind,src='' @ model_root (deployment c) @ '',dst='' @ target @ '',readonly''] @ ?b2
        @ [role_image_ref c role] @ service"
    unfolding argv [symmetric] sec label_args_ret [OF ls] by (simp add: bind_mount_def)
  moreover have "\<forall>k\<in>set REQUIRED_LABELS. map_of raw k = Some (JStr (?l k)) \<and> ?l k \<noteq> []" using v by blast
  ultimately show ?thesis
    by (intro exI [of _ ?a] exI [of _ ?b1] exI [of _ ?b2] exI [of _ service] exI [of _ iid] exI [of _ im] exI [of _ raw] exI [of _ target]
        exI [of _ ?l] conjI p sv e(1-4) li(2))
qed

text \<open>
  Labels that \<^verbatim>\<open>locks.py\<close> calls optional are mandatory: the keys are checked against the union first.
\<close>

theorem optional_labels_required:
  assumes "k \<in> set OPTIONAL_IMAGE_LABELS" and "k \<notin> fst ` set es"
  shows "validate_labels es = raise LockError"
  using assms by (auto simp: validate_labels_def exact_keys_def expect_def)

end
