(* ===== verification/Deploy_Demo.thy ===== *)
theory Deploy_Demo
  imports Config_Demo Fabric_Props Locks_Props
begin

text \<open>
  A deployment, its lock and a stand-in for the library, on which rendering, locking and the fabric
  commands are evaluated, and the instances of their properties.
\<close>

definition demo_deployment :: deployment where
  "demo_deployment =
   \<lparr>mode = ''generic'', fabric_profile = ''auto'', head_fabric_cidr = None, worker_fabric_cidr = None,
     head_fabric_peer = None, worker_fabric_peer = None, head_fabric_connection = None,
     worker_fabric_connection = None, head_roce_gid_index = None, worker_roce_gid_index = None,
     head_host = ''10.0.0.1'', worker_host = ''10.0.0.2'', head_ssh_host = ''h'', worker_ssh_host = ''w'',
     ssh_user = None, head_ssh_user = [], worker_ssh_user = [], ssh_port = 22, ssh_known_hosts_file = ''/k'',
     ssh_identity_file = None, remote_root = ''/r'', model_root = ''/srv/m'',
     model_container_path = DEFAULT_MODEL_CONTAINER_PATH, model_manifest_sha256 = replicate 64 CHR ''a'',
     state_root = ''/s'', cache_root = ''/c'', log_root = None, result_root = ''/o'', registry = None,
     image_ref = ''sha256:'' @ replicate 64 CHR ''b'', head_image_ref = ''sha256:'' @ replicate 64 CHR ''b'',
     worker_image_ref = ''sha256:'' @ replicate 64 CHR ''c'', image_lock_file = ''/l'',
     runtime_max_num_seqs = 5, runtime_max_num_batched_tokens = 1024,
     allow_production_images_in_candidate = False, production_change_allowed = False,
     master_addr = ''10.0.0.1'', master_port = 29500, api_port = 8000, head_node_addr = ''10.0.0.1'',
     worker_node_addr = ''10.0.0.2'', head_net_iface = ''eth0'', worker_net_iface = ''eth0'',
     head_hca = ''mlx0'', worker_hca = ''mlx0'', head_cuda_visible_devices = ''0'',
     worker_cuda_visible_devices = ''0'', roce_gid_index = None, roce_mtu = 9000,
     api_bind_addr = ''127.0.0.1'', allow_public_api = False, forward_local_port = 18080\<rparr>"

definition demo_config :: config where
  "demo_config = \<lparr>profile = committed_profile, deployment = demo_deployment\<rparr>"

definition demo_labels :: "(string \<times> json) list" where
  "demo_labels = map (\<lambda>k. (k, JStr (replicate 40 CHR ''d'')))
       [''org.opencontainers.image.revision'', ''com.dgx-spark.vllm.commit'', ''com.dgx-spark.b12x.commit'',
        ''com.dgx-spark.profile_sha256'', ''com.dgx-spark.service_contract_sha256'']
     @ map (\<lambda>k. (k, JStr (replicate 64 CHR ''e'')))
       [''com.dgx-spark.runtime-file-sha256'', ''com.dgx-spark.image_lock_sha256'']
     @ [(''com.dgx-spark.architecture'', JStr ''linux/arm64'')]"

definition demo_lock :: "(string \<times> json) list" where
  "demo_lock = [(''schema_version'', JInt 1), (''status'', JStr ''ready''), (''mode'', JStr ''generic''),
     (''profile_id'', JStr DEFAULT_PROFILE_ID), (''model_manifest_sha256'', JStr (replicate 64 CHR ''a'')),
     (''images'', JObj [
        (''head'', JObj [(''reference'', JStr (''sha256:'' @ replicate 64 CHR ''b'')),
           (''image_id'', JStr (''sha256:'' @ replicate 64 CHR ''b'')), (''labels'', JObj demo_labels)]),
        (''worker'', JObj [(''reference'', JStr (''sha256:'' @ replicate 64 CHR ''c'')),
           (''image_id'', JStr (''sha256:'' @ replicate 64 CHR ''c'')), (''labels'', JObj demo_labels)])]),
     (''lock_sha256'', JStr (replicate 64 CHR ''f''))]"

text \<open>Every text has the same digest here; the witnesses need no more than its form.\<close>

definition demo_python :: python where
  "demo_python = \<lparr>py_str_other = (\<lambda>_. ''0.85''), py_float = (\<lambda>_. ''0.85''),
     py_loads = (\<lambda>t. if t = ''lock'' then Some (JObj demo_lock) else Some (JObj [])),
     py_sha256 = (\<lambda>_. replicate 64 CHR ''f'')\<rparr>"

lemma demo_locked: "returns (load_deployment_lock demo_python (Some ''lock'') demo_config)"
  by code_simp

lemma demo_container: "returns (bind (load_deployment_lock demo_python (Some ''lock'') demo_config)
    (\<lambda>lock. render_container_argv demo_python demo_config ''worker'' (Some lock) None None))"
  by code_simp

lemma demo_contract: "returns (render_contract demo_python demo_config ''head'' None None)"
  by code_simp

lemma demo_discovery: "returns (discovery_commands demo_deployment ''head'' ''img'')"
  by code_simp

subsection \<open>The properties on the demonstration deployment\<close>

lemma demo_sha: "\<forall>t. is_sha256 (py_sha256 demo_python t)"
  by (simp add: demo_python_def is_sha256_def is_lhex_def code_def)

theorem contract_digests_witness:
  "\<exists>es es'. render_contract demo_python demo_config ''head'' None None = ret es \<and> validate_contract demo_python es' = ret es'
     \<and> map_of es' ''role'' = map_of es ''role''"
proof -
  from demo_contract obtain es where r: "render_contract demo_python demo_config ''head'' None None = ret es"
    by (rule returnsE)
  from contract_digests [OF r demo_sha] r show ?thesis by auto
qed

theorem lock_binds_witness:
  "\<exists>lock iid labels. load_deployment_lock demo_python (Some ''lock'') demo_config = ret lock
     \<and> lock_image demo_python (Some lock) ''worker'' demo_config = ret (role_image_ref demo_config ''worker'', Some iid, labels)
     \<and> labels_ok labels"
proof -
  from demo_locked obtain lock where l: "load_deployment_lock demo_python (Some ''lock'') demo_config = ret lock"
    by (rule returnsE)
  from lock_binds [OF l, of "''worker''"] l show ?thesis by auto
qed

theorem container_runs_locked_image_witness:
  "\<exists>lock argv. load_deployment_lock demo_python (Some ''lock'') demo_config = ret lock
     \<and> render_container_argv demo_python demo_config ''worker'' (Some lock) None None = ret argv
     \<and> role_image_ref demo_config ''worker'' \<in> set argv \<and> ''--read-only'' \<in> set argv"
proof -
  from demo_container obtain lock argv where
    l: "load_deployment_lock demo_python (Some ''lock'') demo_config = ret lock"
    and a: "render_container_argv demo_python demo_config ''worker'' (Some lock) None None = ret argv"
    by (rule returnsE) (auto simp: bind_eq_ret)
  have m: "mode (deployment demo_config) = ''generic''" by (simp add: demo_config_def demo_deployment_def)
  from container_runs_locked_image [OF l _ a] obtain a b1 b2 service x l' where
    "argv = a @ (if mode (deployment demo_config) = ''production'' \<or> mode (deployment demo_config) = ''candidate''
           then [''--privileged'', ''--security-opt'', ''label=disable''] else [''--read-only'', ''--security-opt'', ''no-new-privileges:true''])
        @ l' @ b1 @ x @ b2 @ [role_image_ref demo_config ''worker''] @ service"
    by blast
  then have "role_image_ref demo_config ''worker'' \<in> set argv \<and> ''--read-only'' \<in> set argv" by (simp add: m)
  with l a show ?thesis by blast
qed

theorem fabric_commands_by_purpose_witness:
  "\<exists>cs. discovery_commands demo_deployment ''head'' ''img'' = ret cs \<and> cs \<noteq> [] \<and> (\<forall>c\<in>set cs. reads_only c)
     \<and> apply_commands demo_deployment ''head'' ''img'' = raise FabricError"
proof -
  from demo_discovery obtain cs where cs: "discovery_commands demo_deployment ''head'' ''img'' = ret cs"
    by (rule returnsE)
  then have "cs \<noteq> []" by (auto simp: discovery_commands_def Let_def bind_eq_ret)
  with fabric_commands_by_purpose [OF cs, of "hd cs"] fabric_commands_by_purpose [OF cs] cs show ?thesis
    by (auto simp: demo_deployment_def)
qed

theorem accepted_link_has_spec_witness:
  "\<exists>c s. validate demo_repo demo_env committed_profile = ret c \<and> fabric_spec (deployment c) ''head'' = ret s
     \<and> fs_peer s = Some ''192.168.100.11''"
proof (rule demo_valid)
  fix c
  assume c: "validate demo_repo demo_env committed_profile = ret c"
    and "\<exists>fb. check_fabric demo_env ''production'' = ret fb \<and> fabric_profile (deployment c) = fb_profile fb"
    and m: "roce_mtu (deployment c) = parse_nat (vget demo_env ''ROCE_MTU'')"
  moreover have "map_option (map_sum id fb_profile) (check_fabric demo_env ''production'') = Some (Inr ''f1'')"
    by code_simp
  ultimately have f1: "fabric_profile (deployment c) = ''f1''" by (auto simp: ret_def)
  have "parse_nat (vget demo_env ''ROCE_MTU'') = F1_MTU" by code_simp
  with accepted_link_has_spec [OF c f1, of "''head''"] m c show ?thesis by auto
qed

end
