(* ===== verification/Remote.thy ===== *)
theory Remote
  imports Manifest
begin

text \<open>
  \<^verbatim>\<open>dgx_deploy/remote.py\<close>: the construction of SSH and SCP command lines, the confirmation gate and
  the local runner.  \<^verbatim>\<open>shlex.quote\<close> and \<^verbatim>\<open>shlex.join\<close> are modelled as Python defines them, and \<open>sh_words\<close>
  is the part of a POSIX shell's tokenisation that their output exercises.
\<close>

subsection \<open>Failures\<close>

text \<open>
  The exceptions of the modules that run commands.  The first three are
  \<^verbatim>\<open>LifecycleError\<close>: of a failing command, with its text, which the code inspects; of a check; and of a
  recovery that failed in turn.
\<close>

datatype failure =
    CommandFailed string
  | Refused
  | RecoveryFailed failure failure
  | RemoteError string
  | MutationDisabled
  | ValueError
  | OSError
  | Escaped exn
  | BadConfig config_error

definition lifecycle_error :: "failure \<Rightarrow> bool" where
  "lifecycle_error e \<longleftrightarrow> (case e of CommandFailed _ \<Rightarrow> True | Refused \<Rightarrow> True | RecoveryFailed _ _ \<Rightarrow> True
     | _ \<Rightarrow> False)"

subsection \<open>Command lines\<close>

definition safe_ssh_host :: "string \<Rightarrow> bool" where
  "safe_ssh_host s \<longleftrightarrow> s \<noteq> [] \<and> is_alnum (hd s)
     \<and> (\<forall>c\<in>set (tl s). is_alnum c \<or> c \<in> {CHR ''_'', CHR ''.'', CHR '':'', CHR ''-''})"

definition safe_ssh_user :: "string \<Rightarrow> bool" where
  "safe_ssh_user s \<longleftrightarrow> s \<noteq> [] \<and> (is_upper (hd s) \<or> is_lower (hd s) \<or> hd s = CHR ''_'')
     \<and> (\<forall>c\<in>set (tl s). is_alnum c \<or> c \<in> {CHR ''_'', CHR ''.'', CHR ''-''})"

definition safe_file :: "string \<Rightarrow> bool" where
  "safe_file s \<longleftrightarrow> starts_with ''/'' s \<and> ''..'' \<notin> set (split_on CHR ''/'' s)"

text \<open>The options that \<^verbatim>\<open>ssh\<close> and \<^verbatim>\<open>scp\<close> share, up to the port.\<close>

definition ssh_options :: "string \<Rightarrow> string option \<Rightarrow> int \<Rightarrow> string list" where
  "ssh_options known_hosts identity_file connect_timeout =
     [''-T'', ''-o'', ''BatchMode=yes'', ''-o'', ''StrictHostKeyChecking=yes'',
      ''-o'', ''UserKnownHostsFile='' @ known_hosts, ''-o'', ''ConnectTimeout='' @ show_int connect_timeout]
     @ (case identity_file of None \<Rightarrow> [] | Some f \<Rightarrow> [''-i'', f])"

definition ssh_argv :: "string \<Rightarrow> string \<Rightarrow> int \<Rightarrow> string \<Rightarrow> string list \<Rightarrow> string option \<Rightarrow> int
    \<Rightarrow> (failure, string list) comp" where
  "ssh_argv host user portno known_hosts command identity_file connect_timeout =
     bind (assert ValueError (safe_ssh_host host \<and> CHR ''@'' \<notin> set host \<and> CHR ''/'' \<notin> set host)) (\<lambda>_.
     bind (assert ValueError (safe_ssh_user user)) (\<lambda>_.
     bind (assert ValueError (1 \<le> portno \<and> portno \<le> 65535)) (\<lambda>_.
     bind (assert ValueError (safe_file known_hosts)) (\<lambda>_.
     bind (assert ValueError (case identity_file of None \<Rightarrow> True | Some f \<Rightarrow> safe_file f)) (\<lambda>_.
     bind (assert ValueError (1 \<le> connect_timeout \<and> connect_timeout \<le> 300)) (\<lambda>_.
     bind (assert ValueError (command \<noteq> [] \<and> [] \<notin> set command)) (\<lambda>_.
       ret (''ssh'' # ssh_options known_hosts identity_file connect_timeout
         @ [''-p'', show_int portno, user @ ''@'' @ host] @ command))))))))"

text \<open>\<^verbatim>\<open>ssh[1 : ssh.index("-p")]\<close>: the options before the first token \<^verbatim>\<open>-p\<close>.\<close>

definition scp_argv :: "string \<Rightarrow> string \<Rightarrow> string \<Rightarrow> int \<Rightarrow> string \<Rightarrow> string \<Rightarrow> string option \<Rightarrow> int
    \<Rightarrow> (failure, string list) comp" where
  "scp_argv source host user portno known_hosts destination identity_file connect_timeout =
     bind (assert ValueError (source \<noteq> [] \<and> destination \<noteq> [] \<and> CHR 0x00 \<notin> set source \<and> CHR 0x00 \<notin> set destination)) (\<lambda>_.
     bind (ssh_argv host user portno known_hosts [''true''] identity_file connect_timeout) (\<lambda>ssh.
       ret (''scp'' # takeWhile (\<lambda>t. t \<noteq> ''-p'') (tl ssh)
         @ [''-P'', show_int portno, source, user @ ''@'' @ host @ '':'' @ destination])))"

subsection \<open>The confirmation gate\<close>

definition reject_mutation :: "bool \<Rightarrow> string option \<Rightarrow> (failure, unit) comp" where
  "reject_mutation apply confirm =
     bind (assert MutationDisabled (\<not> (apply \<and> (confirm = None \<or> confirm = Some [])))) (\<lambda>_.
       assert MutationDisabled (case confirm of None \<Rightarrow> True | Some t \<Rightarrow> starts_with ''deployment-'' t))"

subsection \<open>Running a command\<close>

record command_result =
  cr_argv :: "string list"
  returncode :: int
  stdout :: string
  stderr :: string

text \<open>The text of a failing command, shared by the runners.\<close>

definition failure_suffix :: "string \<Rightarrow> string" where
  "failure_suffix err = (if strip err = [] then [] else '': '' @ strip err)"

text \<open>
  \<^verbatim>\<open>run_local\<close>, given what the operating system answers to the call: \<open>None\<close> when the program cannot be
  started.
\<close>

definition run_local :: "string list \<Rightarrow> (int \<times> string \<times> string) option \<Rightarrow> (failure, command_result) comp" where
  "run_local argv answer =
     bind (assert ValueError (\<forall>t\<in>set argv. CHR 0x00 \<notin> set t)) (\<lambda>_.
       case answer of
         None \<Rightarrow> raise OSError
       | Some (rc, out, err) \<Rightarrow>
           if rc \<noteq> 0
           then raise (RemoteError (''command failed ('' @ show_int rc @ ''): '' @ join '' '' argv @ failure_suffix err))
           else ret \<lparr>cr_argv = argv, returncode = rc, stdout = out, stderr = err\<rparr>)"

subsection \<open>Quoting for the remote shell\<close>

definition sh_safe :: "char \<Rightarrow> bool" where
  "sh_safe c \<longleftrightarrow> is_alnum c \<or> c \<in> {CHR ''_'', CHR ''@'', CHR ''%'', CHR ''+'', CHR ''='', CHR '':'', CHR '','',
     CHR ''.'', CHR ''/'', CHR ''-''}"

definition SQ :: char where "SQ = CHR 0x27"
definition DQ :: char where "DQ = CHR 0x22"

definition shlex_quote :: "string \<Rightarrow> string" where
  "shlex_quote s =
     (if s = [] then [SQ, SQ]
      else if \<forall>c\<in>set s. sh_safe c then s
      else [SQ] @ concat (map (\<lambda>c. if c = SQ then [SQ, DQ, SQ, DQ, SQ] else [c]) s) @ [SQ])"

definition shlex_join :: "string list \<Rightarrow> string" where
  "shlex_join command = join '' '' (map shlex_quote command)"

text \<open>The call of \<^verbatim>\<open>SSHRunner\<close>, up to the runner: the argument vector for a role.\<close>

definition role_login :: "deployment \<Rightarrow> string \<Rightarrow> (string \<times> string) option" where
  "role_login d role =
     (if role = ''head'' then Some (if head_ssh_host d = [] then head_host d else head_ssh_host d, head_ssh_user d)
      else if role = ''worker'' then Some (if worker_ssh_host d = [] then worker_host d else worker_ssh_host d, worker_ssh_user d)
      else None)"

definition identity_of :: "deployment \<Rightarrow> string option" where
  "identity_of d = (case ssh_identity_file d of None \<Rightarrow> None | Some f \<Rightarrow> if f = [] then None else Some f)"

definition ssh_call :: "deployment \<Rightarrow> string \<Rightarrow> string list \<Rightarrow> (failure, string list) comp" where
  "ssh_call d role command =
     (case role_login d role of
        None \<Rightarrow> raise ValueError
      | Some (host, user) \<Rightarrow>
          ssh_argv host user (int (ssh_port d)) (ssh_known_hosts_file d) [shlex_join command] (identity_of d) 10)"

subsection \<open>What the remote shell reads\<close>

text \<open>
  Word splitting and quote removal of a POSIX shell.  A character that a shell could treat specially
  outside quotes, or an expansion inside double quotes, is not accepted.
\<close>

datatype sh_mode = Plain | Single | Double

definition so_far :: "string option \<Rightarrow> string" where
  "so_far w = (case w of None \<Rightarrow> [] | Some v \<Rightarrow> v)"

fun sh_lex :: "sh_mode \<Rightarrow> string option \<Rightarrow> string \<Rightarrow> string list option" where
  "sh_lex Plain w [] = Some (case w of None \<Rightarrow> [] | Some v \<Rightarrow> [v])"
| "sh_lex Plain w (c # s) =
     (if c = CHR '' '' then (case w of None \<Rightarrow> sh_lex Plain None s | Some v \<Rightarrow> map_option ((#) v) (sh_lex Plain None s))
      else if c = SQ then sh_lex Single (Some (so_far w)) s
      else if c = DQ then sh_lex Double (Some (so_far w)) s
      else if sh_safe c then sh_lex Plain (Some (so_far w @ [c])) s
      else None)"
| "sh_lex Single w [] = None"
| "sh_lex Single w (c # s) = (if c = SQ then sh_lex Plain w s else sh_lex Single (Some (so_far w @ [c])) s)"
| "sh_lex Double w [] = None"
| "sh_lex Double w (c # s) =
     (if c = DQ then sh_lex Plain w s
      else if c \<in> {CHR ''$'', CHR 0x60, CHR 0x5C, CHR ''!''} then None
      else sh_lex Double (Some (so_far w @ [c])) s)"

definition sh_words :: "string \<Rightarrow> string list option" where
  "sh_words s = sh_lex Plain None s"

lemma so_far_Some [simp]: "so_far (Some v) = v"
  by (simp add: so_far_def)

lemma sh_safe_plain: "sh_safe c \<Longrightarrow> c \<noteq> CHR '' '' \<and> c \<noteq> SQ \<and> c \<noteq> DQ"
  by (auto simp: sh_safe_def SQ_def DQ_def is_alnum_def is_upper_def is_lower_def is_digit_def code_def)

lemma sh_lex_safe: "\<forall>c\<in>set t. sh_safe c \<Longrightarrow> sh_lex Plain (Some v) (t @ s) = sh_lex Plain (Some (v @ t)) s"
  by (induction t arbitrary: v) (auto dest: sh_safe_plain)

lemma sh_lex_single:
  "sh_lex Single (Some v) (concat (map (\<lambda>c. if c = SQ then [SQ, DQ, SQ, DQ, SQ] else [c]) t) @ SQ # s)
     = sh_lex Plain (Some (v @ t)) s"
proof (induction t arbitrary: v)
  case (Cons c t)
  have sq: "SQ \<noteq> CHR '' ''" "DQ \<noteq> CHR '' ''" "SQ \<noteq> DQ" "SQ \<notin> {CHR ''$'', CHR 0x60, CHR 0x5C, CHR ''!''}"
    by (auto simp: SQ_def DQ_def)
  show ?case using Cons.IH [of "v @ [c]"] sq by (cases "c = SQ") auto
qed simp

lemma sh_lex_quote: "sh_lex Plain None (shlex_quote t @ s) = sh_lex Plain (Some t) s"
proof (cases "t \<noteq> [] \<and> (\<forall>c\<in>set t. sh_safe c)")
  case True
  then obtain c r where t: "t = c # r" and c: "sh_safe c" and r: "\<forall>c\<in>set r. sh_safe c" by (cases t) auto
  from True t have "shlex_quote t = t" by (simp add: shlex_quote_def)
  with t c sh_safe_plain [OF c] sh_lex_safe [OF r, of "[c]" s] show ?thesis by (simp add: so_far_def)
next
  case False
  have sq: "SQ \<noteq> CHR '' ''" by (simp add: SQ_def)
  from False sq sh_lex_single [of "[]" t s] show ?thesis by (auto simp: shlex_quote_def so_far_def)
qed

lemma sh_words_join: "sh_words (shlex_join command) = Some command"
proof -
  have "sh_lex Plain None (join '' '' (map shlex_quote command)) = Some command"
  proof (induction command)
    case (Cons t ts)
    show ?case
    proof (cases ts)
      case Nil
      then show ?thesis using sh_lex_quote [of t "[]"] by simp
    next
      case (Cons u us)
      then show ?thesis using Cons.IH by (simp add: sh_lex_quote)
    qed
  qed simp
  then show ?thesis by (simp add: sh_words_def shlex_join_def)
qed

end
