(* ===== verification/Inspect.thy ===== *)
theory Inspect
  imports Remote Contract Locks
begin

text \<open>
  The checks of \<^verbatim>\<open>dgx_deploy/lifecycle.py\<close> on what Docker reports: images and containers against the
  lock and the contract of a role.  A JSON object is the list of its entries.
\<close>

type_synonym dict = "(string \<times> json) list"

subsection \<open>Values of unknown shape\<close>

definition check :: "bool \<Rightarrow> (failure, unit) comp" where
  "check b = assert Refused b"

definition escape :: "(exn, 'a) comp \<Rightarrow> (failure, 'a) comp" where
  "escape m = map_option (map_sum Escaped id) m"

lemma escape_ret [simp]: "escape m = ret x \<longleftrightarrow> m = ret x"
  by (cases m rule: comp_cases) (auto simp: escape_def ret_def raise_def)

lemma check_ret [simp]: "check b = ret u \<longleftrightarrow> b"
  by (simp add: check_def assert_eq_ret)

lemma bind_check [simp, comp_simps]: "bind (check b) f = (if b then f () else raise Refused)"
  by (simp add: check_def)

text \<open>\<^verbatim>\<open>bool(v)\<close>, \<^verbatim>\<open>v or w\<close>, \<^verbatim>\<open>str(d.get(k, ""))\<close> and \<^verbatim>\<open>v in {...}\<close>, which hashes every value.\<close>

fun truthy :: "json \<Rightarrow> bool" where
  "truthy JNull = False"
| "truthy (JBool b) = b"
| "truthy (JInt i) = (i \<noteq> 0)"
| "truthy (JFloat r) = (r \<noteq> 0)"
| "truthy (JStr s) = (s \<noteq> [])"
| "truthy (JArr xs) = (xs \<noteq> [])"
| "truthy (JObj es) = (es \<noteq> [])"

definition py_or :: "json \<Rightarrow> json \<Rightarrow> json" where
  "py_or v w = (if truthy v then v else w)"

definition get_str :: "python \<Rightarrow> dict \<Rightarrow> string \<Rightarrow> string" where
  "get_str P d k = (case map_of d k of None \<Rightarrow> [] | Some v \<Rightarrow> py_str P v)"

definition hashable :: "json \<Rightarrow> bool" where
  "hashable v \<longleftrightarrow> (case v of JArr _ \<Rightarrow> False | JObj _ \<Rightarrow> False | _ \<Rightarrow> True)"

definition py_in :: "json \<Rightarrow> json list \<Rightarrow> (failure, bool) comp" where
  "py_in v ws = (if list_all hashable (v # ws) then ret (list_ex (py_eq v) ws) else raise (Escaped TypeError))"

definition lstrip_char :: "char \<Rightarrow> string \<Rightarrow> string" where
  "lstrip_char c s = dropWhile (\<lambda>x. x = c) s"

definition container_of :: "python \<Rightarrow> dict \<Rightarrow> string" where
  "container_of P insp = lstrip_char CHR ''/'' (get_str P insp ''Name'')"

definition is_running :: "dict \<Rightarrow> bool" where
  "is_running insp \<longleftrightarrow> (case item insp ''State'' of JObj st \<Rightarrow> truthy (item st ''Running'') | _ \<Rightarrow> False)"

subsection \<open>Reading an inspect object\<close>

definition json_stdout :: "python \<Rightarrow> command_result \<Rightarrow> (failure, json) comp" where
  "json_stdout P r = (case py_loads P (stdout r) of None \<Rightarrow> raise Refused | Some j \<Rightarrow> ret j)"

definition inspect_object :: "json \<Rightarrow> (failure, dict) comp" where
  "inspect_object j =
     (case j of
        JArr [JObj es] \<Rightarrow> ret es
      | JObj es \<Rightarrow> ret es
      | _ \<Rightarrow> raise Refused)"

text \<open>An entry of \<^verbatim>\<open>Config\<close>, or of the object itself when it has no such section.\<close>

definition docker_field :: "dict \<Rightarrow> string \<Rightarrow> json" where
  "docker_field insp k = (case map_of insp ''Config'' of Some (JObj c) \<Rightarrow> item c k | _ \<Rightarrow> item insp k)"

definition labels_of :: "python \<Rightarrow> dict \<Rightarrow> (failure, (string \<times> string) list) comp" where
  "labels_of P insp =
     (case docker_field insp ''Labels'' of
        JObj ls \<Rightarrow> ret (map (\<lambda>(k, v). (k, py_str P v)) ls) | _ \<Rightarrow> raise Refused)"

fun nonempty_texts :: "json list \<Rightarrow> string list option" where
  "nonempty_texts [] = Some []"
| "nonempty_texts (JStr s # xs) = (if s = [] then None else map_option ((#) s) (nonempty_texts xs))"
| "nonempty_texts (_ # xs) = None"

definition command_of :: "dict \<Rightarrow> (failure, string list) comp" where
  "command_of insp =
     (case docker_field insp ''Cmd'' of
        JArr xs \<Rightarrow> (case nonempty_texts xs of None \<Rightarrow> raise Refused | Some ss \<Rightarrow> ret ss)
      | _ \<Rightarrow> raise Refused)"

definition label :: "(string \<times> string) list \<Rightarrow> string \<Rightarrow> json" where
  "label ls k = (case map_of ls k of None \<Rightarrow> JNull | Some v \<Rightarrow> JStr v)"

definition labels_match :: "(string \<times> string) list \<Rightarrow> dict \<Rightarrow> bool" where
  "labels_match actual expected \<longleftrightarrow> (\<forall>k\<in>set REQUIRED_LABELS. py_eq (label actual k) (item expected k))"

subsection \<open>The image of a role\<close>

definition verify_image_inspect :: "python \<Rightarrow> dict \<Rightarrow> dict \<Rightarrow> (failure, unit) comp" where
  "verify_image_inspect P insp expected =
     (let image_id = py_or (item insp ''Id'') (py_or (item insp ''ID'') (item insp ''Image''));
          architecture = py_or (item insp ''Architecture'') (item insp ''Os'')
      in bind (check (py_eq image_id (item expected ''image_id''))) (\<lambda>_.
         bind (if architecture = JStr ''arm64'' \<or> architecture = JNull then ret ()
               else bind (py_in architecture [JStr ''linux/arm64'', JStr ''arm64'']) check) (\<lambda>_.
         bind (labels_of P insp) (\<lambda>actual.
           case item expected ''labels'' of
             JObj ls \<Rightarrow> check (labels_match actual ls)
           | _ \<Rightarrow> raise Refused))))"

subsection \<open>The container of a role\<close>

text \<open>\<^verbatim>\<open>KEY=VALUE\<close> items, the last of a key first; other items are ignored.\<close>

definition env_pairs :: "json list \<Rightarrow> (string \<times> string) list" where
  "env_pairs xs = rev (concat (map (\<lambda>x. case x of
       JStr s \<Rightarrow> if CHR ''='' \<in> set s
         then [(takeWhile (\<lambda>c. c \<noteq> CHR ''='') s, tl (dropWhile (\<lambda>c. c \<noteq> CHR ''='') s))] else []
     | _ \<Rightarrow> []) xs))"

definition mount_strings :: "python \<Rightarrow> json list \<Rightarrow> string list" where
  "mount_strings P xs = concat (map (\<lambda>x. case x of
       JObj m \<Rightarrow> [py_str P (item m ''Source'') @ '':'' @ py_str P (item m ''Destination'')] | _ \<Rightarrow> []) xs)"

definition model_mount :: "string \<Rightarrow> string \<Rightarrow> string" where
  "model_mount root_text path_text =
     root_text @ '':'' @ (if path_name (path_of root_text) = path_name (path_of path_text) then path_text else ''/models'')"

definition verify_mounts :: "python \<Rightarrow> dict \<Rightarrow> dict \<Rightarrow> (failure, unit) comp" where
  "verify_mounts P insp contract =
     (case item insp ''Mounts'' of
        JArr ms \<Rightarrow>
          let r = get_str P contract ''model_root''; p = get_str P contract ''model_path''
          in if r \<noteq> [] \<and> p \<noteq> [] then check (model_mount r p \<in> set (mount_strings P ms)) else ret ()
      | _ \<Rightarrow> raise Refused)"

definition verify_env :: "python \<Rightarrow> dict \<Rightarrow> dict \<Rightarrow> (failure, unit) comp" where
  "verify_env P insp contract =
     (case docker_field insp ''Env'' of
        JArr xs \<Rightarrow>
          (case item contract ''environment'' of
             JObj env \<Rightarrow> check (\<forall>(k, v)\<in>set env. map_of (env_pairs xs) k = Some (py_str P v))
           | _ \<Rightarrow> raise Refused)
      | _ \<Rightarrow> raise Refused)"

definition verify_container_inspect :: "python \<Rightarrow> dict \<Rightarrow> dict \<Rightarrow> (failure, unit) comp" where
  "verify_container_inspect P insp contract =
     bind (escape (jitem (JObj contract) ''role'')) (\<lambda>r.
     bind (escape (jitem (JObj contract) ''container'')) (\<lambda>name.
     let role = py_str P r in
     bind (check (container_of P insp = py_str P name)) (\<lambda>_.
     bind (escape (jitem (JObj contract) ''image'')) (\<lambda>im.
       case im of
         JObj im \<Rightarrow>
           bind (bind (py_in (item insp ''Image'') [item im ''image_id'', item im ''reference'']) check) (\<lambda>_.
           bind (labels_of P insp) (\<lambda>actual.
             case item im ''labels'' of
               JObj ls \<Rightarrow>
                 bind (check (labels_match actual ls)) (\<lambda>_.
                 bind (check (py_eq (label actual ''com.dgx-spark.deployment_id'') (item contract ''deployment_id''))) (\<lambda>_.
                 bind (check (map_of actual ''com.dgx-spark.role'' = Some role)) (\<lambda>_.
                 bind (command_of insp) (\<lambda>cmd.
                 bind (escape (bind (jitem (JObj contract) ''service_argv'') iterate)) (\<lambda>argv.
                 bind (check (py_eq (JArr (map JStr cmd)) (JArr argv))) (\<lambda>_.
                 bind (verify_env P insp contract) (\<lambda>_.
                 bind (check (is_running insp)) (\<lambda>_.
                   verify_mounts P insp contract))))))))
             | _ \<Rightarrow> raise Refused))
       | _ \<Rightarrow> raise Refused))))"

end
