(* ===== verification/Effects.thy ===== *)
theory Effects
  imports Prelude
begin

text \<open>
  Computations with a state: a run from a state gives the outcome of a call (which raises, does not
  return or returns) and the final state, which the failing runs have as well.  \<open>hoare P m Q R\<close> says that
  every run of \<open>m\<close> from a state of \<open>P\<close> ends in a state of \<open>Q x\<close> if it returns \<open>x\<close>, and in one of \<open>R\<close>
  otherwise; \<open>R\<close> sees the exception, or \<open>None\<close> if the run does not return.
\<close>

named_theorems hoare_rules \<open>rules for triples\<close>

type_synonym ('s, 'e, 'a) io = "'s \<Rightarrow> ('e, 'a) comp \<times> 's"

definition give :: "'a \<Rightarrow> ('s, 'e, 'a) io" where
  "give x = (\<lambda>s. (ret x, s))"

definition throw :: "'e \<Rightarrow> ('s, 'e, 'a) io" where
  "throw e = (\<lambda>s. (raise e, s))"

definition seq :: "('s, 'e, 'a) io \<Rightarrow> ('a \<Rightarrow> ('s, 'e, 'b) io) \<Rightarrow> ('s, 'e, 'b) io" where
  "seq m f = (\<lambda>s. case m s of
     (None, t) \<Rightarrow> (None, t) | (Some (Inl e), t) \<Rightarrow> (Some (Inl e), t) | (Some (Inr x), t) \<Rightarrow> f x t)"

definition catch :: "('s, 'e, 'a) io \<Rightarrow> ('e \<Rightarrow> ('s, 'e, 'a) io) \<Rightarrow> ('s, 'e, 'a) io" where
  "catch m h = (\<lambda>s. case m s of (Some (Inl e), t) \<Rightarrow> h e t | r \<Rightarrow> r)"

text \<open>A call without effect, with its exceptions translated; reading and changing the state.\<close>

definition lift :: "('e \<Rightarrow> 'f) \<Rightarrow> ('e, 'a) comp \<Rightarrow> ('s, 'f, 'a) io" where
  "lift g m = (\<lambda>s. (map_option (map_sum g id) m, s))"

definition asks :: "('s \<Rightarrow> 'a) \<Rightarrow> ('s, 'e, 'a) io" where
  "asks f = (\<lambda>s. (ret (f s), s))"

definition change :: "('s \<Rightarrow> 's) \<Rightarrow> ('s, 'e, unit) io" where
  "change f = (\<lambda>s. (ret (), f s))"

fun fold_io :: "('x \<Rightarrow> 'a \<Rightarrow> ('s, 'e, 'a) io) \<Rightarrow> 'x list \<Rightarrow> 'a \<Rightarrow> ('s, 'e, 'a) io" where
  "fold_io f [] a = give a"
| "fold_io f (x # xs) a = seq (f x a) (fold_io f xs)"

definition each :: "('x \<Rightarrow> ('s, 'e, unit) io) \<Rightarrow> 'x list \<Rightarrow> ('s, 'e, unit) io" where
  "each f xs = fold_io (\<lambda>x _. f x) xs ()"

fun collect :: "('x \<Rightarrow> ('s, 'e, 'a) io) \<Rightarrow> 'x list \<Rightarrow> ('s, 'e, 'a list) io" where
  "collect f [] = give []"
| "collect f (x # xs) = seq (f x) (\<lambda>y. seq (collect f xs) (\<lambda>ys. give (y # ys)))"

subsection \<open>Triples\<close>

definition hoare :: "('s \<Rightarrow> bool) \<Rightarrow> ('s, 'e, 'a) io \<Rightarrow> ('a \<Rightarrow> 's \<Rightarrow> bool) \<Rightarrow> ('e option \<Rightarrow> 's \<Rightarrow> bool) \<Rightarrow> bool" where
  "hoare P m Q R \<longleftrightarrow> (\<forall>s. P s \<longrightarrow> (case m s of
     (Some (Inr x), t) \<Rightarrow> Q x t | (Some (Inl e), t) \<Rightarrow> R (Some e) t | (None, t) \<Rightarrow> R None t))"

lemma hoareD:
  assumes "hoare P m Q R" and "P s"
  shows "m s = (ret x, t) \<Longrightarrow> Q x t" and "m s = (raise e, t) \<Longrightarrow> R (Some e) t"
    and "m s = (None, t) \<Longrightarrow> R None t"
  using assms by (auto simp: hoare_def ret_def raise_def)

lemma hoare_state:
  assumes "hoare P m (\<lambda>_. Q) (\<lambda>_. Q)" and "P s"
  shows "Q (snd (m s))"
  using assms by (cases "m s") (auto simp: hoare_def split: option.splits sum.splits)

lemma hoare_pre: "hoare P m Q R \<Longrightarrow> (\<And>s. P' s \<Longrightarrow> P s) \<Longrightarrow> hoare P' m Q R"
  by (auto simp: hoare_def)

lemma hoare_weaken:
  "hoare P m Q R \<Longrightarrow> (\<And>x s. Q x s \<Longrightarrow> Q' x s) \<Longrightarrow> (\<And>e s. R e s \<Longrightarrow> R' e s) \<Longrightarrow> hoare P m Q' R'"
  by (fastforce simp: hoare_def split: prod.splits option.splits sum.splits)

lemma hoare_conj:
  "hoare P m Q R \<Longrightarrow> hoare P' m Q' R' \<Longrightarrow>
     hoare (\<lambda>s. P s \<and> P' s) m (\<lambda>x s. Q x s \<and> Q' x s) (\<lambda>e s. R e s \<and> R' e s)"
  by (fastforce simp: hoare_def split: prod.splits option.splits sum.splits)

lemma hoare_assume: "(A \<Longrightarrow> hoare P m Q R) \<Longrightarrow> hoare (\<lambda>s. A \<and> P s) m Q R"
  by (auto simp: hoare_def)

lemma hoare_give [hoare_rules]: "hoare (Q x) (give x) Q R"
  by (simp add: hoare_def give_def ret_def)

lemma hoare_throw [hoare_rules]: "hoare (R (Some e)) (throw e) Q R"
  by (simp add: hoare_def throw_def raise_def)

lemma hoare_lift [hoare_rules]:
  "hoare (\<lambda>s. (\<forall>x. m = ret x \<longrightarrow> Q x s) \<and> (\<forall>e. m = raise e \<longrightarrow> R (Some (g e)) s) \<and> (m = None \<longrightarrow> R None s)) (lift g m) Q R"
proof (cases m rule: comp_cases)
qed (simp_all add: hoare_def lift_def ret_def raise_def)

lemma hoare_asks [hoare_rules]: "hoare (\<lambda>s. Q (f s) s) (asks f) Q R"
  by (simp add: hoare_def asks_def ret_def)

lemma hoare_change [hoare_rules]: "hoare (\<lambda>s. Q () (f s)) (change f) Q R"
  by (simp add: hoare_def change_def ret_def)

lemma hoare_seq [hoare_rules]:
  assumes "\<And>x. hoare (M x) (f x) Q R" and "hoare P m M R"
  shows "hoare P (seq m f) Q R"
  using assms unfolding hoare_def seq_def
  by (fastforce split: prod.splits option.splits sum.splits)

lemma hoare_seq_fwd:
  "hoare P m M R \<Longrightarrow> (\<And>x. hoare (M x) (f x) Q R) \<Longrightarrow> hoare P (seq m f) Q R"
  by (rule hoare_seq)

lemma hoare_catch:
  assumes "\<And>e. hoare (H e) (h e) Q R"
    and "hoare P m Q (\<lambda>e t. case e of Some x \<Rightarrow> H x t | None \<Rightarrow> R None t)"
  shows "hoare P (catch m h) Q R"
  unfolding hoare_def
proof (intro allI impI)
  fix s
  assume "P s"
  with assms(2) have *: "case m s of (Some (Inr x), t) \<Rightarrow> Q x t | (Some (Inl e), t) \<Rightarrow> H e t | (None, t) \<Rightarrow> R None t"
    by (auto simp: hoare_def split: prod.splits option.splits sum.splits)
  then show "case catch m h s of (Some (Inr x), t) \<Rightarrow> Q x t | (Some (Inl e), t) \<Rightarrow> R (Some e) t | (None, t) \<Rightarrow> R None t"
  proof (cases "m s")
    case (Pair r t)
    show ?thesis
    proof (cases r)
      case None
      with * Pair show ?thesis by (simp add: catch_def)
    next
      case (Some v)
      with * Pair assms(1) show ?thesis by (cases v) (auto simp: catch_def hoare_def)
    qed
  qed
qed

lemma hoare_ball:
  assumes "hoare I m (\<lambda>_ s. E s) R" and "\<And>y. y \<in> Y \<Longrightarrow> hoare (\<lambda>s. I s \<and> D y s) m (\<lambda>_ s. D y s) R"
  shows "hoare (\<lambda>s. I s \<and> (\<forall>y\<in>Y. D y s)) m (\<lambda>_ s. E s \<and> (\<forall>y\<in>Y. D y s)) R"
  unfolding hoare_def
proof (intro allI impI)
  fix s
  assume s: "I s \<and> (\<forall>y\<in>Y. D y s)"
  have "\<forall>y\<in>Y. case m s of (Some (Inr x), t) \<Rightarrow> D y t | _ \<Rightarrow> True"
    using assms(2) s by (fastforce simp: hoare_def split: prod.splits option.splits sum.splits)
  moreover have "case m s of (Some (Inr x), t) \<Rightarrow> E t | (Some (Inl e), t) \<Rightarrow> R (Some e) t | (None, t) \<Rightarrow> R None t"
    using s assms(1) [unfolded hoare_def, rule_format, of s] by simp
  ultimately show "case m s of (Some (Inr x), t) \<Rightarrow> E t \<and> (\<forall>y\<in>Y. D y t) | (Some (Inl e), t) \<Rightarrow> R (Some e) t
      | (None, t) \<Rightarrow> R None t"
    by (auto split: prod.splits option.splits sum.splits)
qed

lemma hoare_if [hoare_rules]:
  "hoare P m Q R \<Longrightarrow> hoare P' m' Q R \<Longrightarrow> hoare (if b then P else P') (if b then m else m') Q R"
  by simp

lemma hoare_fold:
  assumes "\<And>x a. x \<in> set xs \<Longrightarrow> hoare (I a) (f x a) I R"
  shows "hoare (I a) (fold_io f xs a) I R"
  using assms
proof (induction xs arbitrary: a)
  case Nil
  show ?case by (simp add: hoare_give)
next
  case (Cons x xs)
  show ?case unfolding fold_io.simps
  proof (rule hoare_seq_fwd)
    show "hoare (I a) (f x a) I R" by (rule Cons.prems) simp
    show "hoare (I b) (fold_io f xs b) I R" for b by (rule Cons.IH) (simp add: Cons.prems)
  qed
qed

lemma hoare_each:
  assumes "\<And>x. x \<in> set xs \<Longrightarrow> hoare I (f x) (\<lambda>_. I) R"
  shows "hoare I (each f xs) (\<lambda>_. I) R"
  unfolding each_def using assms by (rule hoare_fold [where I = "\<lambda>_. I"])

lemma hoare_collect:
  assumes "\<And>x. x \<in> set xs \<Longrightarrow> hoare I (f x) (\<lambda>_. I) R"
  shows "hoare I (collect f xs) (\<lambda>_. I) R"
  using assms
proof (induction xs)
  case Nil
  show ?case by (simp add: hoare_def give_def ret_def)
next
  case (Cons x xs)
  show ?case unfolding collect.simps
  proof (rule hoare_seq_fwd)
    show "hoare I (f x) (\<lambda>_. I) R" by (rule Cons.prems) simp
    show "hoare I (seq (collect f xs) (\<lambda>ys. give (y # ys))) (\<lambda>_. I) R" for y
      by (rule hoare_seq_fwd [where M = "\<lambda>_. I"]) (rule Cons.IH, simp add: Cons.prems, rule hoare_give)
  qed
qed

text \<open>A loop establishes a stable property of every element.\<close>

lemma hoare_each_all:
  assumes "\<And>x. x \<in> set xs \<Longrightarrow> hoare I (f x) (\<lambda>_ s. I s \<and> D x s) R"
    and "\<And>x y. x \<in> set xs \<Longrightarrow> y \<in> set xs \<Longrightarrow> hoare (\<lambda>s. I s \<and> D y s) (f x) (\<lambda>_ s. D y s) R"
  shows "hoare I (each f xs) (\<lambda>_ s. I s \<and> (\<forall>x\<in>set xs. D x s)) R"
proof -
  have "hoare (\<lambda>s. I s \<and> (\<forall>x\<in>set ys. D x s)) (fold_io (\<lambda>x _. f x) zs ()) (\<lambda>_ s. I s \<and> (\<forall>x\<in>set (ys @ zs). D x s)) R"
    if "set ys \<subseteq> set xs" "set zs \<subseteq> set xs" for ys zs
    using that
  proof (induction zs arbitrary: ys)
    case Nil
    show ?case by (auto intro: hoare_pre [OF hoare_give])
  next
    case (Cons z zs)
    have "hoare (\<lambda>s. I s \<and> (\<forall>x\<in>set ys. D x s)) (f z) (\<lambda>_ s. (I s \<and> D z s) \<and> (\<forall>x\<in>set ys. D x s)) R"
      using Cons.prems by (intro hoare_ball assms) auto
    then have "hoare (\<lambda>s. I s \<and> (\<forall>x\<in>set ys. D x s)) (f z) (\<lambda>_ s. I s \<and> (\<forall>x\<in>set (ys @ [z]). D x s)) R"
      by (rule hoare_weaken) auto
    moreover have "hoare (\<lambda>s. I s \<and> (\<forall>x\<in>set (ys @ [z]). D x s)) (fold_io (\<lambda>x _. f x) zs u)
        (\<lambda>_ s. I s \<and> (\<forall>x\<in>set (ys @ z # zs). D x s)) R" for u :: unit
      using Cons.IH [of "ys @ [z]"] Cons.prems by (cases u) simp
    ultimately show ?case unfolding fold_io.simps by (rule hoare_seq_fwd)
  qed
  from this [of "[]" xs] show ?thesis unfolding each_def by simp
qed

subsection \<open>Frames\<close>

text \<open>
  \<open>frame R m\<close>: every run of \<open>m\<close>, however it ends, relates its first to its last state by \<open>R\<close>.  The rules hold
  for reflexive and transitive relations.
\<close>

named_theorems frame_rules \<open>rules for frames\<close>

definition frame :: "('s \<Rightarrow> 's \<Rightarrow> bool) \<Rightarrow> ('s, 'e, 'a) io \<Rightarrow> bool" where
  "frame R m \<longleftrightarrow> (\<forall>s. R s (snd (m s)))"

definition pre :: "('s \<Rightarrow> 's \<Rightarrow> bool) \<Rightarrow> bool" where
  "pre R \<longleftrightarrow> (\<forall>s. R s s) \<and> (\<forall>s t u. R s t \<longrightarrow> R t u \<longrightarrow> R s u)"

lemma preD: "pre R \<Longrightarrow> R s s" "pre R \<Longrightarrow> R s t \<Longrightarrow> R t u \<Longrightarrow> R s u"
  unfolding pre_def by blast+

lemma frameD: "frame R m \<Longrightarrow> m s = (r, t) \<Longrightarrow> R s t"
  unfolding frame_def by (metis snd_conv)

lemma frame_mono: "frame R m \<Longrightarrow> (\<And>s t. R s t \<Longrightarrow> Q s t) \<Longrightarrow> frame Q m"
  by (simp add: frame_def)

lemma frame_give [frame_rules]: "pre R \<Longrightarrow> frame R (give x)"
  by (simp add: frame_def give_def preD)

lemma frame_throw [frame_rules]: "pre R \<Longrightarrow> frame R (throw e)"
  by (simp add: frame_def throw_def preD)

lemma frame_lift [frame_rules]: "pre R \<Longrightarrow> frame R (lift g m)"
  by (simp add: frame_def lift_def preD)

lemma frame_asks [frame_rules]: "pre R \<Longrightarrow> frame R (asks f)"
  by (simp add: frame_def asks_def preD)

lemma frame_change: "(\<And>s. R s (f s)) \<Longrightarrow> frame R (change f)"
  by (simp add: frame_def change_def)

lemma frame_seq [frame_rules]:
  assumes "pre R" and "frame R m" and "\<And>x. frame R (f x)"
  shows "frame R (seq m f)"
  unfolding frame_def
proof
  fix s
  obtain r t where m: "m s = (r, t)" by force
  show "R s (snd (seq m f s))"
  proof (cases r rule: comp_cases)
    case (returned x)
    obtain r' u where f: "f x t = (r', u)" by force
    from preD(2) [OF assms(1) frameD [OF assms(2) m] frameD [OF assms(3) f]] m returned f
    show ?thesis by (simp add: seq_def ret_def)
  qed (use m frameD [OF assms(2) m] in \<open>auto simp: seq_def raise_def\<close>)
qed

lemma frame_catch [frame_rules]:
  assumes "pre R" and "frame R m" and "\<And>e. frame R (h e)"
  shows "frame R (catch m h)"
  unfolding frame_def
proof
  fix s
  obtain r t where m: "m s = (r, t)" by force
  show "R s (snd (catch m h s))"
  proof (cases r rule: comp_cases)
    case (raises e)
    obtain r' u where f: "h e t = (r', u)" by force
    from preD(2) [OF assms(1) frameD [OF assms(2) m] frameD [OF assms(3) f]] m raises f
    show ?thesis by (simp add: catch_def raise_def)
  qed (use m frameD [OF assms(2) m] in \<open>auto simp: catch_def ret_def\<close>)
qed

text \<open>A call that only computes: what follows may assume its result.\<close>

lemma frame_seq_lift:
  assumes "pre R" and "\<And>x. m = ret x \<Longrightarrow> frame R (f x)"
  shows "frame R (seq (lift g m) f)"
proof (cases m rule: comp_cases)
  case (returned x)
  then have "seq (lift g m) f = f x" by (simp add: seq_def lift_def ret_def)
  with assms(2) [OF returned] show ?thesis by simp
qed (use assms(1) in \<open>simp_all add: frame_def preD seq_def lift_def raise_def\<close>)

lemma frame_if [frame_rules]: "(b \<Longrightarrow> frame R m) \<Longrightarrow> (\<not> b \<Longrightarrow> frame R n) \<Longrightarrow> frame R (if b then m else n)"
  by simp

lemma frame_option [frame_rules]:
  "frame R m \<Longrightarrow> (\<And>x. frame R (f x)) \<Longrightarrow> frame R (case x of None \<Rightarrow> m | Some y \<Rightarrow> f y)"
  by (simp split: option.split)

lemma frame_prod [frame_rules]: "(\<And>x y. frame R (f x y)) \<Longrightarrow> frame R (case p of (x, y) \<Rightarrow> f x y)"
  by (simp split: prod.split)

lemma frame_fold [frame_rules]:
  assumes "pre R" and "\<And>x a. x \<in> set xs \<Longrightarrow> frame R (f x a)"
  shows "frame R (fold_io f xs a)"
  using assms(2)
proof (induction xs arbitrary: a)
  case (Cons x xs)
  show ?case unfolding fold_io.simps by (rule frame_seq [OF assms(1)]) (simp_all add: Cons)
qed (simp add: frame_give assms(1))

lemma frame_each [frame_rules]: "pre R \<Longrightarrow> (\<And>x. x \<in> set xs \<Longrightarrow> frame R (f x)) \<Longrightarrow> frame R (each f xs)"
  unfolding each_def by (rule frame_fold)

lemma frame_collect [frame_rules]:
  assumes "pre R" and "\<And>x. x \<in> set xs \<Longrightarrow> frame R (f x)"
  shows "frame R (collect f xs)"
  using assms(2)
proof (induction xs)
  case (Cons x xs)
  show ?case unfolding collect.simps by (intro frame_seq frame_give assms(1)) (simp_all add: Cons)
qed (simp add: frame_give assms(1))

text \<open>An invariant is a frame.\<close>

lemma pre_invariant [frame_rules]: "pre (\<lambda>s t. J s \<longrightarrow> J t)"
  by (simp add: pre_def)

lemma frame_invariant: "frame (\<lambda>s t. J s \<longrightarrow> J t) m \<longleftrightarrow> hoare J m (\<lambda>_. J) (\<lambda>_. J)"
proof
  assume "frame (\<lambda>s t. J s \<longrightarrow> J t) m"
  then show "hoare J m (\<lambda>_. J) (\<lambda>_. J)"
    unfolding hoare_def frame_def by (fastforce split: prod.split option.split sum.split)
next
  assume "hoare J m (\<lambda>_. J) (\<lambda>_. J)"
  then show "frame (\<lambda>s t. J s \<longrightarrow> J t) m" unfolding frame_def by (blast intro: hoare_state)
qed

subsection \<open>Runs that return\<close>

named_theorems run_simps \<open>when a run returns\<close>

lemma seq_ret [run_simps]: "seq m f s = (ret y, t) \<longleftrightarrow> (\<exists>x u. m s = (ret x, u) \<and> f x u = (ret y, t))"
proof -
  obtain r u where m: "m s = (r, u)" by force
  then show ?thesis by (cases r rule: comp_cases) (auto simp: seq_def ret_def raise_def)
qed

lemma give_ret [run_simps]: "give x s = (ret y, t) \<longleftrightarrow> y = x \<and> t = s"
  by (auto simp: give_def)

lemma throw_ret [run_simps]: "throw e s \<noteq> (ret y, t)"
  by (simp add: throw_def)

lemma lift_ret [run_simps]: "lift g m s = (ret x, t) \<longleftrightarrow> m = ret x \<and> t = s"
  by (cases m rule: comp_cases) (auto simp: lift_def ret_def raise_def)

lemma asks_ret [run_simps]: "asks f s = (ret x, t) \<longleftrightarrow> x = f s \<and> t = s"
  by (auto simp: asks_def)

lemma change_ret [run_simps]: "change f s = (ret x, t) \<longleftrightarrow> t = f s"
  by (auto simp: change_def)

lemma catch_ret:
  "catch m h s = (ret x, t) \<longleftrightarrow> m s = (ret x, t) \<or> (\<exists>e u. m s = (raise e, u) \<and> h e u = (ret x, t))"
proof -
  obtain r u where m: "m s = (r, u)" by force
  then show ?thesis by (cases r rule: comp_cases) (auto simp: catch_def ret_def raise_def)
qed

lemma if_ret [run_simps]: "(if b then m else n) s = (ret x, t) \<longleftrightarrow> (if b then m s = (ret x, t) else n s = (ret x, t))"
  by simp

lemma each_Nil [run_simps]: "each f [] s = (ret x, t) \<longleftrightarrow> t = s"
  by (auto simp: each_def give_def)

lemma each_Cons [run_simps]: "each f (y # ys) s = (ret x, t) \<longleftrightarrow> (\<exists>u. f y s = (ret (), u) \<and> each f ys u = (ret x, t))"
  by (simp add: each_def seq_ret)

lemma each_append_ret: "each f (xs @ ys) s = (ret x, t) \<longleftrightarrow> (\<exists>u. each f xs s = (ret (), u) \<and> each f ys u = (ret x, t))"
  by (induction xs arbitrary: s) (auto simp: run_simps)

end
