(* ===== verification/Engine.thy ===== *)
theory Engine
  imports Inspect Effects
begin

text \<open>
  \<^verbatim>\<open>DeploymentEngine\<close> of \<^verbatim>\<open>dgx_deploy/lifecycle.py\<close>: its state, the calls that leave the process, and the
  checks that only read.  What a host answers may depend on everything that happened before, so the
  hosts are functions of the log of events.
\<close>

subsection \<open>State\<close>

text \<open>
  The events of a run: a command on a role with its outcome, a copy to a role with the text of the
  copied file, the replacement of a local file, and a pause.  \<^verbatim>\<open>self.records\<close> is \<open>records\<close> of the log.
\<close>

datatype event =
    Ran string "string list" "(failure, command_result) comp"
  | Copied "string list" string "(failure, command_result) comp"
  | Saved string string
  | Slept

fun records :: "event list \<Rightarrow> (string \<times> string list) list" where
  "records [] = []"
| "records (Ran role argv _ # es) = (role, argv) # records es"
| "records (_ # es) = records es"

text \<open>The values that an injected runner may return, and \<^verbatim>\<open>_as_result\<close>.\<close>

datatype runner_value = Result command_result | Text string | Lines "string list" | Nothing

definition as_result :: "runner_value \<Rightarrow> string list \<Rightarrow> command_result" where
  "as_result v argv =
     (case v of
        Result r \<Rightarrow> r
      | Nothing \<Rightarrow> \<lparr>cr_argv = argv, returncode = 0, stdout = [], stderr = []\<rparr>
      | Text t \<Rightarrow> \<lparr>cr_argv = argv, returncode = 0, stdout = t, stderr = []\<rparr>
      | Lines ls \<Rightarrow> \<lparr>cr_argv = argv, returncode = 0, stdout = join [CHR 0x0A] ls, stderr = []\<rparr>)"

text \<open>
  How commands run: as SSH processes, whose answers come from the operating system (\<open>None\<close> when the
  program cannot be started), or by an injected runner; the same for copies.
\<close>

datatype transport =
    Ssh "event list \<Rightarrow> string list \<Rightarrow> (int \<times> string \<times> string) option"
  | Injected "event list \<Rightarrow> string \<Rightarrow> string list \<Rightarrow> runner_value"

datatype copier =
    Scp "event list \<Rightarrow> string list \<Rightarrow> string \<Rightarrow> (int \<times> string \<times> string) option"
  | Injected_Scp "event list \<Rightarrow> string list \<Rightarrow> string \<Rightarrow> runner_value"

text \<open>What the engine keeps for its whole life, and what it changes.\<close>

record site =
  s_python :: python
  s_config :: config
  s_lock :: dict
  s_transport :: transport
  s_copier :: copier
  s_tmpdir :: "event list \<Rightarrow> string"
  s_writable :: "string \<Rightarrow> bool"

record engine =
  e_log :: "event list"
  e_gids :: "string \<rightharpoonup> int"
  e_contracts :: "string \<Rightarrow> dict"
  e_disk :: "string \<rightharpoonup> string"

type_synonym 'a eng = "(engine, failure, 'a) io"

abbreviation s_dep :: "site \<Rightarrow> deployment" where
  "s_dep S \<equiv> deployment (s_config S)"

definition gate :: "bool \<Rightarrow> 'a eng \<Rightarrow> 'a eng" where
  "gate b m = (if b then m else throw Refused)"

definition run :: "(failure, 'a) comp \<Rightarrow> 'a eng" where
  "run m = lift id m"

text \<open>\<^verbatim>\<open>except FabricError as exc: raise LifecycleError(...)\<close>, around calls that only compute.\<close>

definition from_fabric :: "exn \<Rightarrow> failure" where
  "from_fabric e = (if e \<in> {FabricError, FabricNotReady} then Refused else Escaped e)"

definition ROLES :: "string list" where
  "ROLES = [''worker'', ''head'']"

subsection \<open>Contracts\<close>

definition image_of :: "python \<Rightarrow> dict \<Rightarrow> (failure, string) comp" where
  "image_of P contract = escape (bind (jpath (JObj contract) [''image'', ''reference'']) (\<lambda>v. ret (py_str P v)))"

definition name_of :: "python \<Rightarrow> dict \<Rightarrow> (failure, string) comp" where
  "name_of P contract = escape (bind (jitem (JObj contract) ''container'') (\<lambda>v. ret (py_str P v)))"

definition validate_image :: "python \<Rightarrow> deployment \<Rightarrow> dict \<Rightarrow> (failure, unit) comp" where
  "validate_image P d contract =
     bind (escape (jitem (JObj contract) ''image'')) (\<lambda>im.
       case im of
         JObj im \<Rightarrow>
           let reference = get_str P im ''reference''; image_id = get_str P im ''image_id'' in
           bind (if mode d = ''candidate'' \<and> \<not> candidate_ref reference
                 then bind (check (allow_production_images_in_candidate d)) (\<lambda>_. check (reference = image_id))
                 else ret ()) (\<lambda>_.
           bind (if mode d = ''production'' then check (\<not> candidate_ref reference) else ret ()) (\<lambda>_.
             case item im ''labels'' of
               JObj ls \<Rightarrow> check (\<forall>k\<in>set REQUIRED_LABELS. truthy (item ls k))
             | _ \<Rightarrow> raise Refused))
       | _ \<Rightarrow> raise Refused)"

definition validate_contracts :: "python \<Rightarrow> deployment \<Rightarrow> (string \<Rightarrow> dict) \<Rightarrow> (failure, unit) comp" where
  "validate_contracts P d contracts =
     (let (m, a) = (if mode d = ''production'' then (29619, 8101) else (29621, 18101))
      in bind (check (int (master_port d) = m)) (\<lambda>_.
         bind (check (int (api_port d) = a)) (\<lambda>_.
         bind (name_of P (contracts ''worker'')) (\<lambda>w.
         bind (name_of P (contracts ''head'')) (\<lambda>h.
         bind (check (w \<noteq> h)) (\<lambda>_.
         bind (escape (jitem (JObj (contracts ''head'')) ''api_port'')) (\<lambda>hp.
         bind (check (py_eq hp (JInt (int (api_port d))))) (\<lambda>_.
         bind (escape (jitem (JObj (contracts ''worker'')) ''api_port'')) (\<lambda>wp.
         bind (check (wp = JNull)) (\<lambda>_.
         bind (validate_image P d (contracts ''worker'')) (\<lambda>_.
           validate_image P d (contracts ''head''))))))))))))"

definition render_contracts :: "python \<Rightarrow> config \<Rightarrow> dict \<Rightarrow> (string \<rightharpoonup> int) \<Rightarrow> (failure, string \<Rightarrow> dict) comp" where
  "render_contracts P c lock gids =
     bind (escape (render_contract P c ''worker'' (Some lock) (gids ''worker''))) (\<lambda>w.
     bind (escape (render_contract P c ''head'' (Some lock) (gids ''head''))) (\<lambda>h.
       ret ((\<lambda>_. [])(''worker'' := w, ''head'' := h))))"

text \<open>
  \<^verbatim>\<open>__init__\<close>: the mode, the lock (given, or loaded from the text of its file) and the contracts.
\<close>

definition engine_lock :: "python \<Rightarrow> config \<Rightarrow> dict option \<Rightarrow> string option \<Rightarrow> (failure, dict) comp" where
  "engine_lock P c lock lock_text =
     bind (check (mode (deployment c) \<in> {''production'', ''candidate''})) (\<lambda>_.
       case lock of Some l \<Rightarrow> ret l | None \<Rightarrow> escape (load_deployment_lock P lock_text c))"

definition engine_init :: "site \<Rightarrow> (string \<rightharpoonup> string) \<Rightarrow> (failure, engine) comp" where
  "engine_init S disk =
     bind (render_contracts (s_python S) (s_config S) (s_lock S) Map.empty) (\<lambda>cs.
     bind (validate_contracts (s_python S) (s_dep S) cs) (\<lambda>_.
       ret \<lparr>e_log = [], e_gids = Map.empty, e_contracts = cs, e_disk = disk\<rparr>))"

definition refresh_contracts :: "site \<Rightarrow> unit eng" where
  "refresh_contracts S =
     seq (asks e_gids) (\<lambda>gids.
     seq (run (render_contracts (s_python S) (s_config S) (s_lock S) gids)) (\<lambda>cs.
       change (\<lambda>s. s\<lparr>e_contracts := cs\<rparr>)))"

subsection \<open>Leaving the process\<close>

definition outcome :: "site \<Rightarrow> event list \<Rightarrow> string \<Rightarrow> string list \<Rightarrow> (failure, command_result) comp" where
  "outcome S hist role command =
     (case s_transport S of
        Injected f \<Rightarrow>
          let r = as_result (f hist role command) command
          in if returncode r \<noteq> 0
             then raise (CommandFailed (role @ '' command failed: '' @ join '' '' command @ failure_suffix (stderr r)))
             else ret r
      | Ssh answer \<Rightarrow>
          (case bind (ssh_call (s_dep S) role command) (\<lambda>argv. run_local argv (answer hist argv)) of
             Some (Inl (RemoteError m)) \<Rightarrow> raise (CommandFailed m)
           | r \<Rightarrow> r))"

definition remote :: "site \<Rightarrow> string \<Rightarrow> string list \<Rightarrow> command_result eng" where
  "remote S role command = (\<lambda>s.
     let r = outcome S (e_log s) role command in (r, s\<lparr>e_log := e_log s @ [Ran role command r]\<rparr>))"

text \<open>A copy; with the default runner a failure is a \<^verbatim>\<open>RemoteError\<close>, which nothing converts.\<close>

definition copy_outcome :: "site \<Rightarrow> event list \<Rightarrow> string list \<Rightarrow> string \<Rightarrow> (failure, command_result) comp" where
  "copy_outcome S hist argv content =
     bind (case s_copier S of
             Scp answer \<Rightarrow> run_local argv (answer hist argv content)
           | Injected_Scp f \<Rightarrow> ret (as_result (f hist argv content) argv)) (\<lambda>r.
       if returncode r \<noteq> 0 then raise (CommandFailed (''staging command failed: '' @ join '' '' argv)) else ret r)"

definition scp :: "site \<Rightarrow> string list \<Rightarrow> string \<Rightarrow> command_result eng" where
  "scp S argv content = (\<lambda>s.
     let r = copy_outcome S (e_log s) argv content in (r, s\<lparr>e_log := e_log s @ [Copied argv content r]\<rparr>))"

definition pause :: "unit eng" where
  "pause = change (\<lambda>s. s\<lparr>e_log := e_log s @ [Slept]\<rparr>)"

definition run_all :: "site \<Rightarrow> string \<Rightarrow> string list list \<Rightarrow> unit eng" where
  "run_all S role cmds = each (\<lambda>c. seq (remote S role c) (\<lambda>_. give ())) cmds"

subsection \<open>Containers\<close>

definition missing_object :: "failure \<Rightarrow> bool" where
  "missing_object e \<longleftrightarrow> (case e of
     CommandFailed m \<Rightarrow> contains ''No such object'' m \<or> contains ''no such container'' (lower m) \<or> contains ''not found'' (lower m)
   | _ \<Rightarrow> False)"

definition inspect_command :: "string \<Rightarrow> string list" where
  "inspect_command name = [''docker'', ''container'', ''inspect'', ''--format'', ''{{json .}}'', name]"

definition inspect :: "site \<Rightarrow> string \<Rightarrow> bool \<Rightarrow> dict option eng" where
  "inspect S role allow_missing =
     seq (asks (\<lambda>s. e_contracts s role)) (\<lambda>contract.
     seq (run (name_of (s_python S) contract)) (\<lambda>name.
     seq (catch (seq (remote S role (inspect_command name)) (\<lambda>r. give (Some r)))
           (\<lambda>e. if allow_missing \<and> missing_object e then give None else throw e)) (\<lambda>r.
       case r of
         None \<Rightarrow> give None
       | Some r \<Rightarrow> run (bind (json_stdout (s_python S) r) (\<lambda>j. bind (inspect_object j) (\<lambda>es. ret (Some es)))))))"

definition LEGACY_IMAGES :: "(string \<times> string) list" where
  "LEGACY_IMAGES =
     [(''head'', ''sha256:53c78475720e2561cf3245a9244f574e9db0fb0637c57e84a390a2c096122aa3''),
      (''worker'', ''sha256:828171dd2c4970777993837b7d5234adf905a9ddc20503cd392a95c74b42ada8'')]"

text \<open>The three ways to own a container: this deployment, the deployment before it, the locked image.\<close>

definition current_owner :: "(string \<times> string) list \<Rightarrow> dict \<Rightarrow> string \<Rightarrow> bool" where
  "current_owner labels contract role \<longleftrightarrow>
     py_eq (label labels ''com.dgx-spark.deployment_id'') (item contract ''deployment_id'')
     \<and> map_of labels ''com.dgx-spark.role'' = Some role"

definition legacy_owner :: "python \<Rightarrow> string \<Rightarrow> (string \<times> string) list \<Rightarrow> dict \<Rightarrow> string \<Rightarrow> bool" where
  "legacy_owner P m labels insp role \<longleftrightarrow>
     m = ''production'' \<and> map_of labels ''com.dgx-spark.owner'' = Some ''deepseek-v4-flash-dgx-spark''
     \<and> map_of labels ''com.dgx-spark.role'' = Some role
     \<and> map_of LEGACY_IMAGES role = Some (get_str P insp ''Image'')"

definition lock_owner :: "python \<Rightarrow> string \<Rightarrow> (string \<times> string) list \<Rightarrow> dict \<Rightarrow> dict \<Rightarrow> string \<Rightarrow> bool" where
  "lock_owner P m labels insp contract role \<longleftrightarrow>
     m = ''production'' \<and> map_of labels ''com.dgx-spark.role'' = Some role
     \<and> (case item contract ''image'' of
          JObj im \<Rightarrow> get_str P insp ''Image'' = get_str P im ''image_id''
            \<and> (case item im ''labels'' of
                 JObj ls \<Rightarrow> (\<forall>(k, v)\<in>set ls. map_of labels k = Some (py_str P v)) | _ \<Rightarrow> False)
        | _ \<Rightarrow> False)"

definition owned :: "python \<Rightarrow> string \<Rightarrow> string \<Rightarrow> dict \<Rightarrow> dict \<Rightarrow> (failure, unit) comp" where
  "owned P m role contract insp =
     bind (labels_of P insp) (\<lambda>labels.
     bind (escape (jitem (JObj contract) ''container'')) (\<lambda>name.
     bind (check (py_eq name (JStr (container_of P insp)))) (\<lambda>_.
       check (current_owner labels contract role \<or> legacy_owner P m labels insp role
         \<or> lock_owner P m labels insp contract role))))"

definition assert_owned :: "site \<Rightarrow> string \<Rightarrow> dict \<Rightarrow> unit eng" where
  "assert_owned S role insp =
     seq (asks (\<lambda>s. e_contracts s role)) (\<lambda>contract. run (owned (s_python S) (mode (s_dep S)) role contract insp))"

subsection \<open>The fabric of a role\<close>

definition GID_ATTEMPTS :: nat where "GID_ATTEMPTS = 12"

text \<open>
  The retry loop of the GID readers: \<open>read\<close> asks the host, \<open>FabricNotReady\<close> is tried again after a pause
  while attempts are left.
\<close>

fun with_retry :: "nat \<Rightarrow> ((exn, 'a) comp) eng \<Rightarrow> 'a eng" where
  "with_retry 0 read = throw Refused"
| "with_retry (Suc n) read =
     seq read (\<lambda>r. case r of
       Some (Inl FabricNotReady) \<Rightarrow> if n = 0 then throw Refused else seq pause (\<lambda>_. with_retry n read)
     | _ \<Rightarrow> lift from_fabric r)"

definition read_gid_with_retry :: "site \<Rightarrow> string \<Rightarrow> string list \<Rightarrow> fspec \<Rightarrow> bool \<Rightarrow> (int \<times> string) eng" where
  "read_gid_with_retry S role command spec discovery =
     with_retry GID_ATTEMPTS (seq (remote S role command) (\<lambda>r. give (
       if discovery then bind (parse_gid_discovery_output (stdout r)) (\<lambda>(i, g). ret (int i, g))
       else bind (parse_gid_output (stdout r) spec) (\<lambda>_.
         case fs_gid_index spec of None \<Rightarrow> raise TypeError | Some i \<Rightarrow> ret (i, lower (strip (stdout r)))))))"

definition read_gid_attributes_with_retry :: "site \<Rightarrow> string \<Rightarrow> string list list \<Rightarrow> fspec \<Rightarrow> unit eng" where
  "read_gid_attributes_with_retry S role commands spec =
     with_retry GID_ATTEMPTS (seq (collect (remote S role) commands) (\<lambda>rs. give (
       case rs of r0 # r1 # _ \<Rightarrow> parse_gid_attributes (stdout r0) (stdout r1) spec | _ \<Rightarrow> raise IndexError)))"

definition role_gid_index :: "deployment \<Rightarrow> string \<Rightarrow> int option" where
  "role_gid_index d role = (if role = ''head'' then head_roce_gid_index d else worker_roce_gid_index d)"

definition run_fabric :: "(exn, 'a) comp \<Rightarrow> 'a eng" where
  "run_fabric m = lift from_fabric m"

text \<open>One discovery command; the state of the loop is the GID index found so far.\<close>

definition discover :: "site \<Rightarrow> string \<Rightarrow> fspec \<Rightarrow> bool \<Rightarrow> string list \<Rightarrow> int option \<Rightarrow> int option eng" where
  "discover S role spec require_address command found =
     (let P = s_python S
      in seq (remote S role command) (\<lambda>r.
        if fs_profile spec = ''auto'' then give found
        else if take 4 command = [''ip'', ''-json'', ''address'', ''show'']
        then if require_address then seq (run_fabric (parse_address_output (py_loads P) (stdout r) spec)) (\<lambda>_. give found)
             else give found
        else if take 4 command = [''ip'', ''-json'', ''link'', ''show'']
        then if require_address then seq (run_fabric (parse_link_output (py_loads P) (stdout r) spec)) (\<lambda>_. give found)
             else give found
        else if take 3 command = [''rdma'', ''-j'', ''link'']
        then if require_address then seq (run_fabric (verify_rdma_output (stdout r) spec)) (\<lambda>_. give found) else give found
        else if hd command = ''docker'' \<and> ''/bin/cat'' \<in> set command
        then if require_address then seq (read_gid_with_retry S role command spec False) (\<lambda>(g, _). give (Some g))
             else give found
        else if hd command = ''docker'' \<and> ''/bin/sh'' \<in> set command
        then if require_address
             then seq (read_gid_with_retry S role command spec True) (\<lambda>(g, _).
                  gate (case role_gid_index (s_dep S) role of None \<Rightarrow> True | Some i \<Rightarrow> i = g)
                    (seq (change (\<lambda>s. s\<lparr>e_gids := (e_gids s)(role \<mapsto> g)\<rparr>)) (\<lambda>_. give (Some g))))
             else give found
        else give found))"

text \<open>
  Without \<^verbatim>\<open>require_address\<close> the helpers are meant to be left out, but the code looks for the token
  \<^verbatim>\<open>"/bin/"\<close>, which no command has.
\<close>

definition selected_commands :: "string \<Rightarrow> bool \<Rightarrow> string list list \<Rightarrow> string list list" where
  "selected_commands prof require_address commands =
     (if require_address then commands
      else if prof = ''f1'' then []
      else filter (\<lambda>c. hd c \<noteq> ''ping'' \<and> \<not> (hd c = ''docker'' \<and> ''/bin/'' \<in> set c)) commands)"

definition fabric_preflight :: "site \<Rightarrow> string \<Rightarrow> bool \<Rightarrow> unit eng" where
  "fabric_preflight S role require_address =
     (if fabric_profile (s_dep S) = ''f0'' then give ()
      else seq (run_fabric (fabric_spec (s_dep S) role)) (\<lambda>spec.
        seq (asks (\<lambda>s. e_contracts s role)) (\<lambda>contract.
        seq (run (image_of (s_python S) contract)) (\<lambda>img.
        seq (run_fabric (discovery_commands (s_dep S) role img)) (\<lambda>cmds.
        seq (fold_io (discover S role spec require_address)
              (selected_commands (fs_profile spec) require_address cmds) None) (\<lambda>found.
        if require_address \<and> fs_profile spec = ''f1''
        then case (case found of None \<Rightarrow> role_gid_index (s_dep S) role | g \<Rightarrow> g) of
               None \<Rightarrow> throw Refused
             | Some g \<Rightarrow> seq (run_fabric (gid_attribute_commands (s_dep S) role img g)) (\<lambda>attrs.
                 read_gid_attributes_with_retry S role attrs spec)
        else give ()))))))"

subsection \<open>Prerequisites of the nodes\<close>

definition first_of :: "string \<Rightarrow> string" where
  "first_of s = takeWhile (\<lambda>c. c \<noteq> CHR '','') s"

definition remote_model_root :: "python \<Rightarrow> deployment \<Rightarrow> dict \<Rightarrow> (failure, path) comp" where
  "remote_model_root P d contract =
     bind (escape (jitem (JObj contract) ''model_path'')) (\<lambda>v.
     let r = path_of (model_root d); n = path_name (path_of (py_str P v))
     in ret (if path_name r = n then r else path_join r n))"

definition MODEL_FILES :: "string list" where
  "MODEL_FILES = [''config.json'', ''model.safetensors.index.json'', ''tokenizer.json'', ''tokenizer_config.json'']"

definition check_image_of :: "site \<Rightarrow> string \<Rightarrow> unit eng" where
  "check_image_of S role =
     (let P = s_python S
      in seq (asks (\<lambda>s. e_contracts s role)) (\<lambda>contract.
         seq (run (image_of P contract)) (\<lambda>img.
         seq (remote S role [''docker'', ''image'', ''inspect'', ''--format'', ''{{json .}}'', img]) (\<lambda>r.
         gate (strip (stdout r) \<noteq> [])
         (run (bind (json_stdout P r) (\<lambda>j.
          bind (inspect_object j) (\<lambda>insp.
            case item contract ''image'' of
              JObj expected \<Rightarrow> verify_image_inspect P insp expected
            | _ \<Rightarrow> raise (Escaped AttributeError)))))))))"

definition check_model :: "site \<Rightarrow> string \<Rightarrow> bool \<Rightarrow> unit eng" where
  "check_model S role require_marker =
     seq (asks (\<lambda>s. e_contracts s role)) (\<lambda>contract.
     seq (run (remote_model_root (s_python S) (s_dep S) contract)) (\<lambda>r.
     seq (catch (seq (remote S role [''cat'', path_str (path_join r ''.model-lock.sha256'')]) (\<lambda>v. give (Some v)))
           (\<lambda>e. if lifecycle_error e \<and> \<not> require_marker then give None else throw e)) (\<lambda>marker.
     gate (case marker of None \<Rightarrow> True | Some v \<Rightarrow> strip (stdout v) = model_manifest_sha256 (s_dep S))
     (seq (run_all S role (map (\<lambda>f. [''test'', ''-r'', path_str (path_join r f)]) MODEL_FILES)) (\<lambda>_.
     seq (remote S role [''test'', ''-r'', path_str r]) (\<lambda>_. give ()))))))"

definition preflight_role :: "site \<Rightarrow> bool \<Rightarrow> bool \<Rightarrow> string \<Rightarrow> unit eng" where
  "preflight_role S require_marker require_fabric role =
     (let d = s_dep S;
          iface = first_of (if role = ''head'' then head_net_iface d else worker_net_iface d);
          hca = first_of (if role = ''head'' then head_hca d else worker_hca d)
      in seq (run_all S role
               [[''docker'', ''version'', ''--format'', ''{{.Server.Arch}}''],
                [''nvidia-smi'', ''--query-gpu=name,memory.total'', ''--format=csv,noheader''],
                [''rdma'', ''link''], [''ip'', ''link'', ''show'', iface], [''ibdev2netdev'', ''-v'']]) (\<lambda>_.
         seq (fabric_preflight S role require_fabric) (\<lambda>_.
         seq (check_image_of S role) (\<lambda>_.
         seq (check_model S role require_marker) (\<lambda>_.
         seq (remote S role [''test'', ''-n'', hca]) (\<lambda>_. give ()))))))"

definition preflight :: "site \<Rightarrow> bool \<Rightarrow> bool \<Rightarrow> unit eng" where
  "preflight S require_marker require_fabric = each (preflight_role S require_marker require_fabric) ROLES"

end
