(* ===== verification/Engine_State.thy ===== *)
theory Engine_State
  imports Engine
begin

text \<open>
  \<^verbatim>\<open>dgx_deploy/lifecycle.py\<close>: the state that is captured before a deployment changes anything, and the
  network part of its restoration.
\<close>

subsection \<open>The captured state\<close>

definition arr_or_nil :: "json \<Rightarrow> json" where
  "arr_or_nil v = (case v of JArr xs \<Rightarrow> JArr xs | _ \<Rightarrow> JArr [])"

definition subdict :: "dict \<Rightarrow> string \<Rightarrow> dict" where
  "subdict d k = (case item d k of JObj es \<Rightarrow> es | _ \<Rightarrow> [])"

text \<open>\<^verbatim>\<open>int(v or 0)\<close>\<close>

definition int_or_zero :: "json \<Rightarrow> (failure, int) comp" where
  "int_or_zero v = (if truthy v then escape (int_of v) else ret 0)"

definition capture_host :: "python \<Rightarrow> dict \<Rightarrow> (failure, json) comp" where
  "capture_host P h =
     bind (int_or_zero (item h ''ShmSize'')) (\<lambda>shm.
       ret (JObj [(''network_mode'', JStr (get_str P h ''NetworkMode'')), (''ipc_mode'', JStr (get_str P h ''IpcMode'')),
         (''privileged'', JBool (truthy (item h ''Privileged''))), (''shm_size'', JInt shm),
         (''security_opt'', arr_or_nil (item h ''SecurityOpt'')),
         (''device_requests'', arr_or_nil (item h ''DeviceRequests'')),
         (''ulimits'', arr_or_nil (item h ''Ulimits'')),
         (''readonly_rootfs'', JBool (truthy (item h ''ReadonlyRootfs'')))]))"

definition capture_role :: "python \<Rightarrow> dict \<Rightarrow> (failure, json) comp" where
  "capture_role P insp =
     bind (command_of insp) (\<lambda>cmd.
     bind (labels_of P insp) (\<lambda>labels.
     bind (capture_host P (subdict insp ''HostConfig'')) (\<lambda>host.
       ret (JObj [(''name'', JStr (container_of P insp)), (''image'', JStr (get_str P insp ''Image'')),
         (''image_id'', JStr (get_str P insp ''Image'')), (''command'', str_list cmd), (''labels'', str_dict labels),
         (''environment'', arr_or_nil (item (subdict insp ''Config'') ''Env'')),
         (''mounts'', arr_or_nil (item insp ''Mounts'')),
         (''working_dir'', JStr (get_str P (subdict insp ''Config'') ''WorkingDir'')),
         (''host_config'', host), (''running'', JBool (is_running insp))]))))"

definition nm_dict :: "nm_state \<Rightarrow> fspec \<Rightarrow> dict" where
  "nm_dict n spec =
     [(''interface'', JStr (nm_interface n)), (''target_connection'', JStr (nm_target_connection n)),
      (''target_existed'', JBool (nm_target_existed n)), (''target_uuid'', opt_json JStr (nm_target_uuid n)),
      (''target_device'', opt_json JStr (nm_target_device n)), (''target_active'', JBool (nm_target_active n)),
      (''active_connection'', opt_json JStr (nm_active_connection n)), (''active_uuid'', opt_json JStr (nm_active_uuid n)),
      (''active_device'', opt_json JStr (nm_active_device n)), (''spec'', fspec_json spec)]"

text \<open>The NetworkManager state of a role and its specification; here a \<^verbatim>\<open>FabricError\<close> is not converted.\<close>

definition read_fabric :: "site \<Rightarrow> string \<Rightarrow> (fspec \<times> nm_state) eng" where
  "read_fabric S role =
     seq (run (escape (fabric_spec (s_dep S) role))) (\<lambda>spec.
     seq (run (escape (nm_connection_state_command (s_dep S) role))) (\<lambda>cmd.
     seq (remote S role cmd) (\<lambda>r.
     seq (run (escape (parse_nm_connection_state (stdout r) spec))) (\<lambda>n. give (spec, n)))))"

definition capture_fabric_state :: "site \<Rightarrow> dict eng" where
  "capture_fabric_state S =
     (if fabric_profile (s_dep S) \<noteq> ''f1'' then give []
      else collect (\<lambda>role. seq (read_fabric S role) (\<lambda>(spec, n). give (role, JObj (nm_dict n spec)))) ROLES)"

definition state_digest :: "python \<Rightarrow> dict \<Rightarrow> string" where
  "state_digest P st =
     py_sha256 P (canonical_json (py_float P) (JObj (filter (\<lambda>e. fst e \<noteq> ''state_sha256'') st)))"

definition capture_roles :: "site \<Rightarrow> dict eng" where
  "capture_roles S =
     collect (\<lambda>role. seq (inspect S role True) (\<lambda>insp.
       case insp of
         None \<Rightarrow> give (role, JNull)
       | Some insp \<Rightarrow> seq (assert_owned S role insp) (\<lambda>_.
           seq (run (capture_role (s_python S) insp)) (\<lambda>j. give (role, j))))) ROLES"

definition state_dict :: "python \<Rightarrow> config \<Rightarrow> dict \<Rightarrow> dict \<Rightarrow> dict" where
  "state_dict P c roles fabric =
     (let st = [(''schema_version'', JInt 1), (''deployment_id'', JStr (deployment_id (py_sha256 P) (py_float P) c)),
        (''mode'', JStr (mode (deployment c))),
        (''config_sha256'', JStr (config_sha256 (py_sha256 P) (py_float P) (config_json c))),
        (''fabric'', JObj fabric), (''roles'', JObj roles)]
      in st @ [(''state_sha256'', JStr (state_digest P st))])"

definition state_text :: "python \<Rightarrow> dict \<Rightarrow> string" where
  "state_text P st = json_lines (py_float P) 0 (JObj st) @ [CHR 0x0A]"

text \<open>
  The file is written beside its target and renamed over it, so it changes only when everything was
  written; \<open>s_writable\<close> tells whether that succeeds.
\<close>

definition save :: "site \<Rightarrow> string \<Rightarrow> string \<Rightarrow> unit eng" where
  "save S file content =
     (if s_writable S file
      then change (\<lambda>s. s\<lparr>e_log := e_log s @ [Saved file content], e_disk := (e_disk s)(file \<mapsto> content)\<rparr>)
      else throw OSError)"

definition capture_rollback :: "site \<Rightarrow> string \<Rightarrow> dict eng" where
  "capture_rollback S file =
     seq (capture_roles S) (\<lambda>roles.
     seq (capture_fabric_state S) (\<lambda>fabric.
     let st = state_dict (s_python S) (s_config S) roles fabric in
     seq (save S file (state_text (s_python S) st)) (\<lambda>_. give st)))"

subsection \<open>Restoring the network state\<close>

definition SPEC_KEYS :: "string list" where
  "SPEC_KEYS = [''profile'', ''role'', ''interface'', ''hca'', ''address'', ''peer'', ''cidr'', ''connection'', ''mtu'']"

definition same_spec :: "dict \<Rightarrow> fspec \<Rightarrow> bool" where
  "same_spec d spec \<longleftrightarrow> (\<forall>k\<in>set SPEC_KEYS. py_eq (item d k) (get_or_null (fspec_json spec) k))"

definition nmcli_mutation :: "site \<Rightarrow> string \<Rightarrow> string list \<Rightarrow> string list eng" where
  "nmcli_mutation S role args =
     seq (asks (\<lambda>s. e_contracts s role)) (\<lambda>contract.
     seq (run (image_of (s_python S) contract)) (\<lambda>img.
       run (escape (helper_argv img (''/usr/bin/nmcli'' # args) True))))"

text \<open>What a record of the captured state must look like: the profile, and the active one if any.\<close>

definition captured_target :: "dict \<Rightarrow> (failure, bool) comp" where
  "captured_target st = (case item st ''target_existed'' of JBool b \<Rightarrow> ret b | _ \<Rightarrow> raise Refused)"

definition captured_active :: "dict \<Rightarrow> (failure, string option) comp" where
  "captured_active st =
     (case item st ''active_connection'' of
        JNull \<Rightarrow> ret None
      | JStr a \<Rightarrow> bind (check (a \<noteq> [])) (\<lambda>_.
          case item st ''active_uuid'' of JStr u \<Rightarrow> bind (check (u \<noteq> [])) (\<lambda>_. ret (Some a)) | _ \<Rightarrow> raise Refused)
      | _ \<Rightarrow> raise Refused)"

definition idle_device :: "fspec \<Rightarrow> string option \<Rightarrow> bool" where
  "idle_device spec dev \<longleftrightarrow> dev \<in> {Some (fs_interface spec), Some ''--'', Some []}"

text \<open>The checks of one role against the captured record and the state that the host reports now.\<close>

definition check_current :: "dict \<Rightarrow> fspec \<Rightarrow> nm_state \<Rightarrow> string \<Rightarrow> bool \<Rightarrow> string option \<Rightarrow> bool" where
  "check_current st spec cur target existed expected \<longleftrightarrow>
     (if existed then nm_target_existed cur \<and> py_eq (opt_json JStr (nm_target_uuid cur)) (item st ''target_uuid'')
      else nm_target_existed cur \<longrightarrow> idle_device spec (nm_target_device cur))
     \<and> (case nm_active_connection cur of
          None \<Rightarrow> True
        | Some a \<Rightarrow> (a = target \<or> Some a = expected)
            \<and> (Some a = expected \<longrightarrow> py_eq (opt_json JStr (nm_active_uuid cur)) (item st ''active_uuid'')))"

definition restore_actions :: "nm_state \<Rightarrow> string \<Rightarrow> bool \<Rightarrow> string option \<Rightarrow> string list list" where
  "restore_actions cur target existed expected =
     (if nm_target_active cur \<and> nm_active_connection cur = Some target \<and> Some target \<noteq> expected
      then [[''connection'', ''down'', target]] else [])
     @ (if nm_target_existed cur \<and> \<not> existed then [[''connection'', ''delete'', target]] else [])
     @ (case expected of
          None \<Rightarrow> []
        | Some a \<Rightarrow> if nm_active_connection cur \<noteq> Some a then [[''connection'', ''up'', a]] else [])"

definition plan_restore :: "site \<Rightarrow> dict \<Rightarrow> string \<Rightarrow> (string \<times> string list) list eng" where
  "plan_restore S fabric role =
     (case item fabric role of
        JObj st \<Rightarrow>
          seq (run (escape (fabric_spec (s_dep S) role))) (\<lambda>spec.
          case item st ''spec'' of
            JObj cspec \<Rightarrow>
              gate (same_spec cspec spec)
              (let target = get_str (s_python S) st ''target_connection'' in
               gate (target = opt_str (fs_connection spec))
               (seq (run (captured_target st)) (\<lambda>existed.
                seq (run (captured_active st)) (\<lambda>expected.
                seq (read_fabric S role) (\<lambda>(_, cur).
                gate (check_current st spec cur target existed expected)
                (collect (\<lambda>args. seq (nmcli_mutation S role args) (\<lambda>c. give (role, c)))
                   (restore_actions cur target existed expected)))))))
          | _ \<Rightarrow> throw Refused)
      | _ \<Rightarrow> throw Refused)"

text \<open>A profile that is already down need not be taken down; the code reads that off the error text.\<close>

definition already_inactive :: "string list \<Rightarrow> failure \<Rightarrow> bool" where
  "already_inactive command e \<longleftrightarrow>
     (case e of
        CommandFailed m \<Rightarrow>
          let n = length command; t = lower (last command); detail = lower m in
          3 \<le> n \<and> take 2 (drop (n - 3) command) = [''connection'', ''down''] \<and> t \<noteq> []
          \<and> (contains ([SQ] @ t @ [SQ] @ '' is not an active connection'') detail
             \<or> contains ([DQ] @ t @ [DQ] @ '' is not an active connection'') detail
             \<or> contains ''no active connection provided'' detail)
      | _ \<Rightarrow> False)"

definition run_action :: "site \<Rightarrow> string \<times> string list \<Rightarrow> unit eng" where
  "run_action S a =
     (case a of (role, command) \<Rightarrow>
        catch (seq (remote S role command) (\<lambda>_. give ()))
          (\<lambda>e. if already_inactive command e then give () else throw e))"

definition verify_restored :: "site \<Rightarrow> dict \<Rightarrow> string \<Rightarrow> unit eng" where
  "verify_restored S fabric role =
     seq (read_fabric S role) (\<lambda>(_, now).
     let st = subdict fabric role; existed = truthy (item st ''target_existed''); expected = item st ''active_connection'' in
     gate (nm_target_existed now = existed)
     (gate (existed \<longrightarrow> py_eq (opt_json JStr (nm_target_uuid now)) (item st ''target_uuid''))
     (gate (if expected = JNull then nm_active_connection now = None
            else py_eq (opt_json JStr (nm_active_connection now)) expected
              \<and> py_eq (opt_json JStr (nm_active_uuid now)) (item st ''active_uuid''))
       (give ()))))"

definition restore_fabric_state :: "site \<Rightarrow> json \<Rightarrow> unit eng" where
  "restore_fabric_state S fabric_state =
     (if fabric_profile (s_dep S) \<noteq> ''f1'' then give ()
      else case fabric_state of
        JObj fabric \<Rightarrow>
          seq (collect (plan_restore S fabric) ROLES) (\<lambda>plans.
          seq (each (run_action S) (concat plans)) (\<lambda>_.
            each (verify_restored S fabric) ROLES))
      | _ \<Rightarrow> throw Refused)"

subsection \<open>Applying the direct link\<close>

definition apply_fabric_role :: "site \<Rightarrow> string \<Rightarrow> unit eng" where
  "apply_fabric_role S role =
     seq (asks (\<lambda>s. e_contracts s role)) (\<lambda>contract.
     seq (run (image_of (s_python S) contract)) (\<lambda>img.
     seq (run_fabric (apply_commands (s_dep S) role img)) (run_all S role)))"

text \<open>\<^verbatim>\<open>_apply_fabric\<close>\<close>

definition apply_link :: "site \<Rightarrow> unit eng" where
  "apply_link S =
     (if fabric_profile (s_dep S) \<noteq> ''f1'' then give ()
      else seq (each (apply_fabric_role S) ROLES) (\<lambda>_.
        seq (each (\<lambda>role. fabric_preflight S role True) ROLES) (\<lambda>_.
        seq (refresh_contracts S) (\<lambda>_.
        seq (asks e_contracts) (\<lambda>cs. run (validate_contracts (s_python S) (s_dep S) cs))))))"

text \<open>
  \<^verbatim>\<open>except LifecycleError as primary\<close>: recover, and raise the first failure again, or both when the
  recovery fails in turn.
\<close>

definition recovering :: "'a eng \<Rightarrow> unit eng \<Rightarrow> 'a eng" where
  "recovering m recovery =
     catch m (\<lambda>e. if lifecycle_error e
       then seq (catch recovery (\<lambda>r. if lifecycle_error r then throw (RecoveryFailed e r) else throw r)) (\<lambda>_. throw e)
       else throw e)"

definition apply_fabric :: "site \<Rightarrow> unit eng" where
  "apply_fabric S =
     gate (fabric_profile (s_dep S) = ''f1'')
     (seq (capture_fabric_state S) (\<lambda>captured. recovering (apply_link S) (restore_fabric_state S (JObj captured))))"

text \<open>\<^verbatim>\<open>_remove_legacy_candidate_profiles\<close>: three passes that check, remove and check again.\<close>

definition check_legacy :: "site \<Rightarrow> dict \<Rightarrow> string \<Rightarrow> (string \<times> string \<times> nm_state) eng" where
  "check_legacy S fabric role =
     (case item fabric role of
        JObj captured \<Rightarrow>
          seq (run (escape (fabric_spec (s_dep S) role))) (\<lambda>spec.
          let target = opt_str (fs_connection spec) in
          gate (same_spec captured spec)
          (gate (contains ''candidate'' (lower target))
          (seq (read_fabric S role) (\<lambda>(_, cur).
           gate (nm_target_existed cur \<longrightarrow> idle_device spec (nm_target_device cur)) (give (role, target, cur))))))
      | _ \<Rightarrow> throw Refused)"

definition remove_legacy :: "site \<Rightarrow> string \<times> string \<times> nm_state \<Rightarrow> unit eng" where
  "remove_legacy S x =
     (case x of (role, target, cur) \<Rightarrow>
        if nm_target_existed cur
        then run_all S role ((if nm_target_active cur then [[''nmcli'', ''connection'', ''down'', target]] else [])
          @ [[''nmcli'', ''connection'', ''delete'', target]])
        else give ())"

definition remove_legacy_candidate_profiles :: "site \<Rightarrow> dict \<Rightarrow> unit eng" where
  "remove_legacy_candidate_profiles S fabric =
     gate (mode (s_dep S) = ''candidate'')
     (seq (collect (check_legacy S fabric) ROLES) (\<lambda>cs.
      seq (each (remove_legacy S) cs) (\<lambda>_.
        each (\<lambda>role. seq (read_fabric S role) (\<lambda>(spec, now).
          gate (\<not> nm_target_existed now)
          (gate (nm_active_connection now \<noteq> Some (opt_str (fs_connection spec))) (give ())))) ROLES)))"

end
