(* ===== verification/Engine_Ops.thy ===== *)
theory Engine_Ops
  imports Engine_State "HOL-Library.Product_Lexorder"
begin

text \<open>
  \<^verbatim>\<open>dgx_deploy/lifecycle.py\<close>: the operations on the pair of containers, the rollback and the deployment
  as a whole.  The worker comes before the head in every loop.
\<close>

subsection \<open>Staging\<close>

definition path_parent :: "path \<Rightarrow> path" where
  "path_parent p = (fst p, butlast (snd p))"

definition CACHE_NAMES :: "string list" where
  "CACHE_NAMES = [''vllm'', ''b12x'', ''flashinfer'', ''triton'', ''tilelang'']"

definition env_text :: "(string \<times> string) list \<Rightarrow> string" where
  "env_text env = concat (map (\<lambda>(k, v). k @ ''='' @ v @ [CHR 0x0A]) env)"

definition copy_to :: "site \<Rightarrow> string \<Rightarrow> string \<times> string \<times> string \<Rightarrow> unit eng" where
  "copy_to S role x =
     (case x of (source, destination, content) \<Rightarrow>
       (case role_login (s_dep S) role of
          None \<Rightarrow> throw (Escaped KeyError)
        | Some (host, user) \<Rightarrow>
            seq (run (scp_argv source host user (int (ssh_port (s_dep S))) (ssh_known_hosts_file (s_dep S)) destination
              (identity_of (s_dep S)) 10)) (\<lambda>argv.
            seq (scp S argv content) (\<lambda>_. give ()))))"

definition stage_role :: "site \<Rightarrow> path \<Rightarrow> string \<Rightarrow> unit eng" where
  "stage_role S marker role =
     (let P = s_python S; c = s_config S; d = s_dep S;
          cache = path_join (path_of (cache_root d)) (if role = ''head'' then ''dgx0'' else ''dgx1'')
      in seq (asks (\<lambda>s. e_contracts s role)) (\<lambda>contract.
         seq (run (escape (bind (jitem (JObj contract) ''contract_path'') (\<lambda>v. ret (py_str P v))))) (\<lambda>cpath.
         let epath = path_str (path_join (path_join (path_of (remote_root d)) ''contracts'') (mode d @ ''-'' @ role @ ''.env'')) in
         seq (remote S role ([''mkdir'', ''-p'', path_str (path_parent (path_of cpath))]
           @ map (\<lambda>n. path_str (path_join cache n)) CACHE_NAMES)) (\<lambda>_.
         seq (asks (\<lambda>s. (s_tmpdir S (e_log s), e_gids s role))) (\<lambda>(dir, gid).
         seq (run (escape (contract_json P c role (Some (s_lock S)) gid))) (\<lambda>ctext.
         seq (run (escape (render_environment c role gid))) (\<lambda>env.
           each (copy_to S role)
             [(path_str (path_join (path_of dir) (role @ ''.json'')), cpath, ctext),
              (path_str (path_join (path_of dir) (role @ ''.env'')), epath, env_text env),
              (path_str (path_join (path_of dir) ''model.lock.sha256''), path_str marker,
                model_manifest_sha256 d @ [CHR 0x0A])])))))))"

definition stage :: "site \<Rightarrow> unit eng" where
  "stage S =
     seq (asks (\<lambda>s. e_contracts s ''head'')) (\<lambda>contract.
     seq (run (remote_model_root (s_python S) (s_dep S) contract)) (\<lambda>r.
       each (stage_role S (path_join r ''.model-lock.sha256'')) ROLES))"

subsection \<open>Containers of the current contract\<close>

definition stop_command :: "string \<Rightarrow> string list" where
  "stop_command name = [''docker'', ''container'', ''stop'', ''--time'', ''30'', name]"

definition rm_command :: "string \<Rightarrow> string list" where
  "rm_command name = [''docker'', ''container'', ''rm'', name]"

definition start_command :: "string \<Rightarrow> string list" where
  "start_command name = [''docker'', ''container'', ''start'', name]"

text \<open>A command on the container that the contract of the role names.\<close>

definition on_container :: "site \<Rightarrow> string \<Rightarrow> (string \<Rightarrow> string list) \<Rightarrow> unit eng" where
  "on_container S role command =
     seq (asks (\<lambda>s. e_contracts s role)) (\<lambda>contract.
     seq (run (name_of (s_python S) contract)) (\<lambda>name.
     seq (remote S role (command name)) (\<lambda>_. give ())))"

definition stop_role :: "site \<Rightarrow> string \<Rightarrow> unit eng" where
  "stop_role S role =
     seq (inspect S role True) (\<lambda>insp.
       case insp of
         None \<Rightarrow> give ()
       | Some insp \<Rightarrow> seq (assert_owned S role insp) (\<lambda>_.
           if is_running insp then on_container S role stop_command else give ()))"

definition stop_owned :: "site \<Rightarrow> unit eng" where
  "stop_owned S = each (stop_role S) ROLES"

definition remove_role :: "site \<Rightarrow> string \<Rightarrow> unit eng" where
  "remove_role S role =
     seq (inspect S role True) (\<lambda>insp.
       case insp of
         None \<Rightarrow> give ()
       | Some insp \<Rightarrow> seq (assert_owned S role insp) (\<lambda>_. on_container S role rm_command))"

definition remove_owned :: "site \<Rightarrow> unit eng" where
  "remove_owned S = each (remove_role S) ROLES"

definition create_role :: "site \<Rightarrow> string \<Rightarrow> unit eng" where
  "create_role S role =
     seq (asks (\<lambda>s. e_gids s role)) (\<lambda>gid.
     seq (run (escape (render_container_argv (s_python S) (s_config S) role (Some (s_lock S)) None gid))) (\<lambda>argv.
     seq (remote S role argv) (\<lambda>_. give ())))"

definition create :: "site \<Rightarrow> unit eng" where
  "create S = each (create_role S) ROLES"

definition start_role :: "site \<Rightarrow> string \<Rightarrow> unit eng" where
  "start_role S role =
     seq (inspect S role True) (\<lambda>insp.
       case insp of
         None \<Rightarrow> on_container S role start_command
       | Some insp \<Rightarrow> seq (assert_owned S role insp) (\<lambda>_.
           if is_running insp then give () else on_container S role start_command))"

definition start_pair :: "site \<Rightarrow> unit eng" where
  "start_pair S = each (start_role S) ROLES"

definition cleanup_role :: "site \<Rightarrow> string \<Rightarrow> unit eng" where
  "cleanup_role S role =
     seq (inspect S role True) (\<lambda>insp.
       case insp of
         None \<Rightarrow> give ()
       | Some insp \<Rightarrow> seq (assert_owned S role insp) (\<lambda>_.
           seq (if is_running insp then on_container S role stop_command else give ()) (\<lambda>_.
             on_container S role rm_command)))"

definition cleanup_partial :: "site \<Rightarrow> unit eng" where
  "cleanup_partial S = each (cleanup_role S) ROLES"

subsection \<open>Verification\<close>

definition verify_role :: "site \<Rightarrow> string \<Rightarrow> unit eng" where
  "verify_role S role =
     seq (inspect S role False) (\<lambda>insp.
     seq (asks (\<lambda>s. e_contracts s role)) (\<lambda>contract.
       case insp of
         None \<Rightarrow> throw (Escaped TypeError)
       | Some insp \<Rightarrow> run (verify_container_inspect (s_python S) insp contract)))"

definition READINESS_ATTEMPTS :: nat where "READINESS_ATTEMPTS = 36"

definition curl_command :: "int \<Rightarrow> string \<Rightarrow> string list" where
  "curl_command api path =
     [''curl'', ''--fail'', ''--silent'', ''--show-error'', ''--max-time'', ''10'',
      ''http://127.0.0.1:'' @ show_int api @ path]"

fun await_ready :: "site \<Rightarrow> int \<Rightarrow> nat \<Rightarrow> unit eng" where
  "await_ready S api 0 = throw Refused"
| "await_ready S api (Suc n) =
     catch (run_all S ''head'' [curl_command api ''/health'', curl_command api ''/v1/models''])
       (\<lambda>e. if \<not> lifecycle_error e then throw e
             else if n = 0 then throw Refused else seq pause (\<lambda>_. await_ready S api n))"

definition verify :: "site \<Rightarrow> bool \<Rightarrow> unit eng" where
  "verify S with_preflight =
     seq (if with_preflight then preflight S True True else give ()) (\<lambda>_.
     seq (each (verify_role S) ROLES) (\<lambda>_.
     seq (asks (\<lambda>s. e_contracts s ''head'')) (\<lambda>head.
     seq (run (escape (bind (jitem (JObj head) ''api_port'') int_of))) (\<lambda>api.
       await_ready S api READINESS_ATTEMPTS))))"

definition start :: "site \<Rightarrow> unit eng" where
  "start S = seq (preflight S True True) (\<lambda>_. seq (start_pair S) (\<lambda>_. verify S False))"

definition stop :: "site \<Rightarrow> unit eng" where
  "stop S = stop_owned S"

subsection \<open>Rollback: reading the captured state\<close>

definition ROLE_KEYS :: "string list" where
  "ROLE_KEYS = [''name'', ''image'', ''command'', ''labels'', ''environment'', ''mounts'', ''working_dir'',
     ''host_config'', ''running'']"

text \<open>The state object of a file, after all the checks that come before the roles are looked at.\<close>

definition read_state :: "python \<Rightarrow> config \<Rightarrow> string option \<Rightarrow> (failure, dict) comp" where
  "read_state P c content =
     (case content of
        None \<Rightarrow> raise Refused
      | Some t \<Rightarrow> (case py_loads P t of
          None \<Rightarrow> raise Refused
        | Some (JObj st) \<Rightarrow>
            bind (check (case item st ''state_sha256'' of JStr h \<Rightarrow> is_sha256 h \<and> h = state_digest P st | _ \<Rightarrow> False)) (\<lambda>_.
            bind (check (py_eq (item st ''schema_version'') (JInt 1))) (\<lambda>_.
            bind (check (py_eq (item st ''deployment_id'') (JStr (deployment_id (py_sha256 P) (py_float P) c)))) (\<lambda>_.
              case item st ''roles'' of
                JObj roles \<Rightarrow> bind (check (\<forall>role\<in>set ROLES. role \<in> fst ` set roles)) (\<lambda>_. ret st)
              | _ \<Rightarrow> raise Refused)))
        | Some _ \<Rightarrow> raise (Escaped AttributeError)))"

definition check_old :: "json \<Rightarrow> (failure, dict) comp" where
  "check_old v =
     (case v of JObj old \<Rightarrow> bind (check (\<forall>k\<in>set ROLE_KEYS. k \<in> fst ` set old)) (\<lambda>_. ret old) | _ \<Rightarrow> raise Refused)"

definition text_of :: "python \<Rightarrow> dict \<Rightarrow> string \<Rightarrow> string" where
  "text_of P old k = py_str P (item old k)"

subsection \<open>Rollback: removing what is there\<close>

definition stop_and_remove :: "site \<Rightarrow> string \<Rightarrow> dict \<Rightarrow> string \<Rightarrow> unit eng" where
  "stop_and_remove S role insp name =
     seq (if is_running insp then seq (remote S role (stop_command name)) (\<lambda>_. give ()) else give ()) (\<lambda>_.
     seq (remote S role (rm_command name)) (\<lambda>_. give ()))"

definition replaceable :: "python \<Rightarrow> string \<Rightarrow> dict \<Rightarrow> dict \<Rightarrow> dict \<Rightarrow> (failure, unit) comp" where
  "replaceable P role contract old insp =
     bind (escape (jpath (JObj contract) [''image'', ''image_id''])) (\<lambda>current.
     bind (check (container_of P insp = text_of P old ''name'')) (\<lambda>_.
     bind (check (get_str P insp ''Image'' = text_of P old ''image'' \<or> get_str P insp ''Image'' = py_str P current)) (\<lambda>_.
     bind (labels_of P insp) (\<lambda>labels.
       case item old ''labels'' of
         JObj ls \<Rightarrow> check (current_owner labels contract role
           \<or> py_eq (str_dict labels) (str_dict (map (\<lambda>(k, v). (k, py_str P v)) ls)))
       | _ \<Rightarrow> raise Refused))))"

definition remove_target :: "site \<Rightarrow> (string \<Rightarrow> dict) \<Rightarrow> string \<Rightarrow> unit eng" where
  "remove_target S olds role =
     seq (inspect S role True) (\<lambda>insp.
       case insp of
         None \<Rightarrow> give ()
       | Some insp \<Rightarrow>
           seq (asks (\<lambda>s. e_contracts s role)) (\<lambda>contract.
           seq (run (replaceable (s_python S) role contract (olds role) insp)) (\<lambda>_.
             stop_and_remove S role insp (text_of (s_python S) (olds role) ''name''))))"

definition remove_rollback_targets :: "site \<Rightarrow> (string \<Rightarrow> dict) \<Rightarrow> unit eng" where
  "remove_rollback_targets S olds = each (remove_target S olds) ROLES"

text \<open>Without a captured pair: both targets are checked before one is touched.\<close>

definition inspect_owned :: "site \<Rightarrow> string \<Rightarrow> (string \<times> dict option) eng" where
  "inspect_owned S role =
     seq (inspect S role True) (\<lambda>insp.
       case insp of None \<Rightarrow> give (role, None) | Some i \<Rightarrow> seq (assert_owned S role i) (\<lambda>_. give (role, insp)))"

definition remove_inspected :: "site \<Rightarrow> string \<times> dict option \<Rightarrow> unit eng" where
  "remove_inspected S x =
     (case x of (role, insp) \<Rightarrow>
       (case insp of
          None \<Rightarrow> give ()
        | Some insp \<Rightarrow>
            seq (asks (\<lambda>s. e_contracts s role)) (\<lambda>contract.
            seq (run (name_of (s_python S) contract)) (\<lambda>name. stop_and_remove S role insp name))))"

definition remove_empty_rollback_targets :: "site \<Rightarrow> unit eng" where
  "remove_empty_rollback_targets S =
     seq (collect (inspect_owned S) ROLES) (\<lambda>xs.
     seq (each (remove_inspected S) xs) (\<lambda>_.
       each (\<lambda>role. seq (inspect S role True) (\<lambda>i. gate (i = None) (give ()))) ROLES))"

end
