(* ===== verification/Engine_Apply.thy ===== *)
theory Engine_Apply
  imports Engine_Ops
begin

text \<open>
  \<^verbatim>\<open>dgx_deploy/lifecycle.py\<close>: the command that recreates a captured container, its verification, the
  rollback and the deployment with its recovery.
\<close>

subsection \<open>Recreating a captured container\<close>

text \<open>\<^verbatim>\<open>d.get(k, [])\<close>, iterated.\<close>

definition items_of :: "dict \<Rightarrow> string \<Rightarrow> (failure, json list) comp" where
  "items_of d k = escape (iterate (case map_of d k of None \<Rightarrow> JArr [] | Some v \<Rightarrow> v))"

fun collect_args :: "('a \<Rightarrow> (failure, string list) comp) \<Rightarrow> 'a list \<Rightarrow> (failure, string list) comp" where
  "collect_args f [] = ret []"
| "collect_args f (x # xs) = bind (f x) (\<lambda>a. bind (collect_args f xs) (\<lambda>as. ret (a @ as)))"

definition text_arg :: "string \<Rightarrow> json \<Rightarrow> (failure, string list) comp" where
  "text_arg flag v =
     (case v of JStr s \<Rightarrow> bind (check (s \<noteq> [])) (\<lambda>_. ret [flag, s]) | _ \<Rightarrow> raise Refused)"

fun gpu_args :: "json list \<Rightarrow> (failure, string list) comp" where
  "gpu_args [] = ret []"
| "gpu_args (JObj r # xs) =
     bind (int_or_zero (item r ''Count'')) (\<lambda>n. if n = -1 then ret [''--gpus'', ''all''] else gpu_args xs)"
| "gpu_args (_ # xs) = gpu_args xs"

definition ulimit_arg :: "python \<Rightarrow> json \<Rightarrow> (failure, string list) comp" where
  "ulimit_arg P v =
     (case v of
        JObj l \<Rightarrow>
          let hard = item l ''Hard''; soft = (case map_of l ''Soft'' of None \<Rightarrow> hard | Some s \<Rightarrow> s)
          in (case item l ''Name'' of
                JStr n \<Rightarrow> bind (check (n \<noteq> [] \<and> hard \<noteq> JNull \<and> soft \<noteq> JNull)) (\<lambda>_.
                  ret [''--ulimit'', n @ ''='' @ py_str P soft @ '':'' @ py_str P hard])
              | _ \<Rightarrow> raise Refused)
      | _ \<Rightarrow> raise Refused)"

definition label_arg :: "string \<times> json \<Rightarrow> (failure, string list) comp" where
  "label_arg e =
     (case e of (k, JStr v) \<Rightarrow> bind (check (k \<noteq> [] \<and> v \<noteq> [])) (\<lambda>_. ret [''--label'', k @ ''='' @ v]) | _ \<Rightarrow> raise Refused)"

definition env_arg :: "json \<Rightarrow> (failure, string list) comp" where
  "env_arg v =
     (case v of JStr s \<Rightarrow> bind (check (s \<noteq> [] \<and> CHR 0x00 \<notin> set s)) (\<lambda>_. ret [''--env'', s]) | _ \<Rightarrow> raise Refused)"

definition mount_arg :: "python \<Rightarrow> json \<Rightarrow> (failure, string list) comp" where
  "mount_arg P v =
     (case v of
        JObj m \<Rightarrow> (case (item m ''Source'', item m ''Destination'') of
          (JStr s, JStr t) \<Rightarrow> bind (check (s \<noteq> [] \<and> t \<noteq> [])) (\<lambda>_.
            ret [''--mount'', ''type='' @ (case map_of m ''Type'' of None \<Rightarrow> ''bind'' | Some ty \<Rightarrow> py_str P ty)
              @ '',src='' @ s @ '',dst='' @ t @ (if item m ''RW'' = JBool False then '',readonly'' else [])])
        | _ \<Rightarrow> raise Refused)
      | _ \<Rightarrow> raise Refused)"

definition opt_arg :: "string \<Rightarrow> string \<Rightarrow> string list" where
  "opt_arg flag v = (if v = [] then [] else [flag, v])"

definition host_args :: "python \<Rightarrow> dict \<Rightarrow> (failure, string list) comp" where
  "host_args P h =
     bind (int_or_zero (item h ''shm_size'')) (\<lambda>shm.
     bind (bind (items_of h ''security_opt'') (collect_args (text_arg ''--security-opt''))) (\<lambda>sec.
     bind (bind (items_of h ''device_requests'') gpu_args) (\<lambda>gpus.
     bind (bind (items_of h ''ulimits'') (collect_args (ulimit_arg P))) (\<lambda>lims.
       ret (opt_arg ''--network'' (get_str P h ''network_mode'') @ opt_arg ''--ipc'' (get_str P h ''ipc_mode'')
         @ (if truthy (item h ''privileged'') then [''--privileged''] else [])
         @ (if shm \<noteq> 0 then [''--shm-size'', show_int shm] else []) @ sec @ gpus @ lims
         @ (if truthy (item h ''readonly_rootfs'') then [''--read-only''] else []))))))"

text \<open>\<^verbatim>\<open>sorted(labels.items())\<close> compares keys only, which are distinct.\<close>

definition create_args :: "python \<Rightarrow> dict \<Rightarrow> (failure, string list) comp" where
  "create_args P old =
     (case item old ''host_config'' of
        JObj h \<Rightarrow>
          bind (host_args P h) (\<lambda>host.
          case item old ''labels'' of
            JObj ls \<Rightarrow>
              bind (collect_args label_arg (sort_key fst ls)) (\<lambda>labels.
              case (item old ''environment'') of
                JArr env \<Rightarrow>
                  bind (collect_args env_arg env) (\<lambda>envs.
                  case item old ''mounts'' of
                    JArr ms \<Rightarrow>
                      bind (collect_args (mount_arg P) ms) (\<lambda>mounts.
                      bind (escape (iterate (item old ''command''))) (\<lambda>cmd.
                        ret ([''docker'', ''container'', ''create'', ''--name'', text_of P old ''name''] @ host @ labels
                          @ envs @ mounts @ opt_arg ''--workdir'' (text_of P old ''working_dir'')
                          @ [text_of P old ''image''] @ map (py_str P) cmd)))
                  | _ \<Rightarrow> raise Refused)
              | _ \<Rightarrow> raise Refused)
          | _ \<Rightarrow> raise Refused)
      | _ \<Rightarrow> raise Refused)"

definition restore_role :: "site \<Rightarrow> (string \<Rightarrow> dict) \<Rightarrow> string \<Rightarrow> unit eng" where
  "restore_role S olds role =
     seq (run (create_args (s_python S) (olds role))) (\<lambda>argv.
     seq (remote S role argv) (\<lambda>_.
       if truthy (item (olds role) ''running'')
       then seq (remote S role (start_command (text_of (s_python S) (olds role) ''name''))) (\<lambda>_. give ())
       else give ()))"

subsection \<open>Verification of a rollback\<close>

definition mount_keys :: "python \<Rightarrow> json list \<Rightarrow> (string \<times> string \<times> string \<times> bool) list" where
  "mount_keys P ms = sort (concat (map (\<lambda>m. case m of
     JObj m \<Rightarrow> [(get_str P m ''Type'', get_str P m ''Source'', get_str P m ''Destination'', truthy (item m ''RW''))]
   | _ \<Rightarrow> []) ms))"

text \<open>\<^verbatim>\<open>list(v or [])\<close>\<close>

definition list_or_nil :: "json \<Rightarrow> (failure, json list) comp" where
  "list_or_nil v = (if truthy v then escape (iterate v) else ret [])"

definition same_lists :: "(failure, json list) comp \<Rightarrow> (failure, json list) comp \<Rightarrow> (failure, unit) comp" where
  "same_lists m n = bind m (\<lambda>xs. bind n (\<lambda>ys. check (py_eq (JArr xs) (JArr ys))))"

definition HOST_KEYS :: "(string \<times> string) list" where
  "HOST_KEYS = [(''NetworkMode'', ''network_mode''), (''IpcMode'', ''ipc_mode''), (''Privileged'', ''privileged''),
     (''ShmSize'', ''shm_size''), (''ReadonlyRootfs'', ''readonly_rootfs'')]"

definition check_host :: "dict \<Rightarrow> dict \<Rightarrow> (failure, unit) comp" where
  "check_host actual expected =
     bind (check (\<forall>(a, e)\<in>set HOST_KEYS. py_eq (item actual a) (item expected e))) (\<lambda>_.
     bind (same_lists (list_or_nil (item actual ''SecurityOpt'')) (list_or_nil (item expected ''security_opt''))) (\<lambda>_.
     bind (same_lists (list_or_nil (item actual ''Ulimits'')) (list_or_nil (item expected ''ulimits''))) (\<lambda>_.
       same_lists (list_or_nil (item actual ''DeviceRequests'')) (list_or_nil (item expected ''device_requests'')))))"

definition check_labels :: "python \<Rightarrow> dict \<Rightarrow> dict \<Rightarrow> (failure, unit) comp" where
  "check_labels P insp old =
     bind (labels_of P insp) (\<lambda>labels.
       case item old ''labels'' of
         JObj ls \<Rightarrow> check (py_eq (str_dict labels) (str_dict (map (\<lambda>(k, v). (k, py_str P v)) ls)))
       | _ \<Rightarrow> raise (Escaped AttributeError))"

definition check_docker_config :: "python \<Rightarrow> dict \<Rightarrow> dict \<Rightarrow> (failure, unit) comp" where
  "check_docker_config P insp old =
     (case item insp ''Config'' of
        JObj conf \<Rightarrow>
          bind (same_lists (items_of conf ''Env'') (escape (iterate (item old ''environment'')))) (\<lambda>_.
            check (get_str P conf ''WorkingDir'' = text_of P old ''working_dir''))
      | _ \<Rightarrow> raise Refused)"

definition check_mounts :: "python \<Rightarrow> dict \<Rightarrow> dict \<Rightarrow> (failure, unit) comp" where
  "check_mounts P insp old =
     (case item insp ''Mounts'' of
        JArr ms \<Rightarrow> bind (escape (iterate (item old ''mounts''))) (\<lambda>os. check (mount_keys P ms = mount_keys P os))
      | _ \<Rightarrow> raise Refused)"

definition check_restored :: "python \<Rightarrow> dict \<Rightarrow> dict \<Rightarrow> (failure, unit) comp" where
  "check_restored P insp old =
     bind (check (container_of P insp = text_of P old ''name'')) (\<lambda>_.
     bind (check (get_str P insp ''Image'' = text_of P old ''image'')) (\<lambda>_.
     bind (command_of insp) (\<lambda>cmd.
     bind (escape (iterate (item old ''command''))) (\<lambda>ocmd.
     bind (check (cmd = map (py_str P) ocmd)) (\<lambda>_.
     bind (check_labels P insp old) (\<lambda>_.
     bind (check_docker_config P insp old) (\<lambda>_.
     bind (check_mounts P insp old) (\<lambda>_.
       case (item insp ''HostConfig'', item old ''host_config'') of
         (JObj actual, JObj expected) \<Rightarrow>
           bind (check_host actual expected) (\<lambda>_. check (is_running insp = truthy (item old ''running'')))
       | _ \<Rightarrow> raise Refused))))))))"

definition verify_rollback :: "site \<Rightarrow> (string \<Rightarrow> dict) \<Rightarrow> unit eng" where
  "verify_rollback S olds =
     each (\<lambda>role. seq (inspect S role False) (\<lambda>insp.
       case insp of
         None \<Rightarrow> throw (Escaped TypeError)
       | Some insp \<Rightarrow> run (check_restored (s_python S) insp (olds role)))) ROLES"

subsection \<open>Rollback\<close>

text \<open>A network record without a specification was written before the state had one.\<close>

definition legacy_fabric :: "json \<Rightarrow> bool" where
  "legacy_fabric v \<longleftrightarrow>
     (case v of
        JObj f \<Rightarrow> (\<forall>role\<in>set ROLES. case item f role of JObj st \<Rightarrow> ''spec'' \<notin> fst ` set st | _ \<Rightarrow> False)
      | _ \<Rightarrow> False)"

definition rollback_empty :: "site \<Rightarrow> json \<Rightarrow> unit eng" where
  "rollback_empty S fabric_state =
     gate (mode (s_dep S) = ''candidate'')
     (seq (remove_empty_rollback_targets S) (\<lambda>_.
       if legacy_fabric fabric_state
       then remove_legacy_candidate_profiles S (case fabric_state of JObj f \<Rightarrow> f | _ \<Rightarrow> [])
       else restore_fabric_state S fabric_state))"

definition rollback_pair :: "site \<Rightarrow> json \<Rightarrow> dict \<Rightarrow> unit eng" where
  "rollback_pair S fabric_state roles =
     gate (item roles ''worker'' \<noteq> JNull \<and> item roles ''head'' \<noteq> JNull)
     (seq (run (check_old (item roles ''worker''))) (\<lambda>w.
      seq (run (check_old (item roles ''head''))) (\<lambda>h.
      let olds = (\<lambda>_. [])(''worker'' := w, ''head'' := h) in
      seq (each (\<lambda>role. seq (remote S role [''docker'', ''image'', ''inspect'', text_of (s_python S) (olds role) ''image''])
             (\<lambda>_. give ())) ROLES) (\<lambda>_.
      seq (restore_fabric_state S fabric_state) (\<lambda>_.
      seq (remove_rollback_targets S olds) (\<lambda>_.
      seq (each (restore_role S olds) ROLES) (\<lambda>_.
        verify_rollback S olds)))))))"

definition rollback :: "site \<Rightarrow> string \<Rightarrow> unit eng" where
  "rollback S file =
     seq (asks (\<lambda>s. e_disk s file)) (\<lambda>content.
     seq (run (read_state (s_python S) (s_config S) content)) (\<lambda>st.
     let roles = subdict st ''roles''; fabric_state = item st ''fabric'' in
       if item roles ''worker'' = JNull \<and> item roles ''head'' = JNull then rollback_empty S fabric_state
       else rollback_pair S fabric_state roles))"

subsection \<open>Deployment\<close>

definition deploy :: "site \<Rightarrow> bool \<Rightarrow> unit eng" where
  "deploy S upd =
     seq (apply_link S) (\<lambda>_.
     seq (preflight S False True) (\<lambda>_.
     seq (if upd then seq (stop_owned S) (\<lambda>_. remove_owned S) else give ()) (\<lambda>_.
     seq (stage S) (\<lambda>_.
     seq (preflight S True True) (\<lambda>_.
     seq (create S) (\<lambda>_.
     seq (start_pair S) (\<lambda>_.
       verify S False)))))))"

definition had_pair :: "dict \<Rightarrow> bool" where
  "had_pair captured \<longleftrightarrow> (\<forall>role\<in>set ROLES. is_obj (item (subdict captured ''roles'') role))"

definition recovery :: "site \<Rightarrow> string \<Rightarrow> bool \<Rightarrow> dict \<Rightarrow> unit eng" where
  "recovery S file upd captured =
     (if upd \<and> had_pair captured then rollback S file
      else seq (cleanup_partial S) (\<lambda>_. restore_fabric_state S (item captured ''fabric'')))"

definition apply_deployment :: "site \<Rightarrow> string \<Rightarrow> bool \<Rightarrow> unit eng" where
  "apply_deployment S file upd =
     seq (preflight S False False) (\<lambda>_.
     seq (capture_rollback S file) (\<lambda>captured.
       recovering (deploy S upd) (recovery S file upd captured)))"

definition update :: "site \<Rightarrow> string \<Rightarrow> unit eng" where
  "update S file = apply_deployment S file True"

end
