(* ===== verification/Engine_Log.thy ===== *)
theory Engine_Log
  imports Engine_Apply Fabric_Props
begin

text \<open>
  What the operations of the engine append to the log.  \<open>appends E m\<close>: whatever the hosts answer, a run of
  \<open>m\<close> appends events of \<open>E\<close> to the log and changes none of the earlier ones.
\<close>

definition extends :: "event set \<Rightarrow> engine \<Rightarrow> engine \<Rightarrow> bool" where
  "extends E s t \<longleftrightarrow> (\<exists>es. e_log t = e_log s @ es \<and> set es \<subseteq> E)"

abbreviation appends :: "event set \<Rightarrow> 'a eng \<Rightarrow> bool" where
  "appends E m \<equiv> frame (extends E) m"

lemma pre_extends [frame_rules]: "pre (extends E)"
proof -
  have "extends E s u" if "extends E s t" "extends E t u" for s t u
  proof -
    from that obtain a b where "e_log t = e_log s @ a" "set a \<subseteq> E" "e_log u = e_log t @ b" "set b \<subseteq> E"
      unfolding extends_def by blast
    then show ?thesis unfolding extends_def by (intro exI [of _ "a @ b"]) simp
  qed
  then show ?thesis unfolding pre_def by (auto simp: extends_def)
qed

lemma appendsD:
  assumes "appends E m" and "m s = (r, t)"
  obtains es where "e_log t = e_log s @ es" and "set es \<subseteq> E"
  using frameD [OF assms] unfolding extends_def by blast

lemma appends_mono: "appends E m \<Longrightarrow> E \<subseteq> F \<Longrightarrow> appends F m"
  by (erule frame_mono) (auto simp: extends_def)

text \<open>Frames of the combinators of the engine.\<close>

lemma frame_run [frame_rules]: "pre R \<Longrightarrow> frame R (run m)"
  by (simp add: run_def frame_lift)

lemma frame_run_fabric [frame_rules]: "pre R \<Longrightarrow> frame R (run_fabric m)"
  by (simp add: run_fabric_def frame_lift)

lemma frame_seq_run: "pre R \<Longrightarrow> (\<And>x. m = ret x \<Longrightarrow> frame R (f x)) \<Longrightarrow> frame R (seq (run m) f)"
  unfolding run_def by (rule frame_seq_lift)

lemma frame_seq_fabric: "pre R \<Longrightarrow> (\<And>x. m = ret x \<Longrightarrow> frame R (f x)) \<Longrightarrow> frame R (seq (run_fabric m) f)"
  unfolding run_fabric_def by (rule frame_seq_lift)

lemma frame_gate [frame_rules]: "pre R \<Longrightarrow> frame R m \<Longrightarrow> frame R (gate b m)"
  by (simp add: gate_def frame_throw)

lemma frame_obj [frame_rules]:
  "(\<And>es. frame R (f es)) \<Longrightarrow> frame R m \<Longrightarrow> frame R (case j of JObj es \<Rightarrow> f es | _ \<Rightarrow> m)"
  by (simp split: json.split)

lemma frame_run_all [frame_rules]:
  "pre R \<Longrightarrow> (\<And>c. c \<in> set cmds \<Longrightarrow> frame R (remote S role c)) \<Longrightarrow> frame R (run_all S role cmds)"
  unfolding run_all_def by (intro frame_rules)

lemma frame_retry [frame_rules]: "pre R \<Longrightarrow> frame R read \<Longrightarrow> frame R pause \<Longrightarrow> frame R (with_retry n read)"
proof (induction n)
  case (Suc n)
  have "frame R (case r of Some (Inl FabricNotReady) \<Rightarrow> if n = 0 then throw Refused else seq pause (\<lambda>_. with_retry n read)
     | _ \<Rightarrow> lift from_fabric r)" for r
    using Suc by (auto split: option.split sum.split exn.split intro!: frame_rules)
  then show ?case unfolding with_retry.simps by (intro frame_seq Suc.prems)
qed (simp add: frame_throw)

lemma frame_recovering [frame_rules]: "pre R \<Longrightarrow> frame R m \<Longrightarrow> frame R n \<Longrightarrow> frame R (recovering m n)"
  unfolding recovering_def by (intro frame_rules)

text \<open>The primitive operations on the log.\<close>

lemma appends_remote [frame_rules]: "(\<And>r. Ran role command r \<in> E) \<Longrightarrow> appends E (remote S role command)"
  by (auto simp: frame_def extends_def remote_def Let_def)

lemma appends_scp [frame_rules]: "(\<And>r. Copied argv content r \<in> E) \<Longrightarrow> appends E (scp S argv content)"
  by (auto simp: frame_def extends_def scp_def Let_def)

lemma appends_pause [frame_rules]: "Slept \<in> E \<Longrightarrow> appends E pause"
  by (simp add: frame_def extends_def pause_def change_def)

lemma appends_save [frame_rules]: "Saved file content \<in> E \<Longrightarrow> appends E (save S file content)"
  by (simp add: frame_def extends_def save_def change_def throw_def)

subsection \<open>Commands that only read\<close>

definition READ_ONLY :: "string list list" where
  "READ_ONLY = [[''docker'', ''version''], [''nvidia-smi''], [''rdma'', ''link''], [''ip'', ''link'', ''show''],
     [''ibdev2netdev''], [''docker'', ''image'', ''inspect''], [''docker'', ''container'', ''inspect''], [''cat''], [''test''],
     [''curl''], [''nmcli'', ''-t'', ''-f'', ''NAME,UUID,DEVICE,ACTIVE'', ''connection'', ''show'']]"

definition quiet_command :: "string list \<Rightarrow> bool" where
  "quiet_command c \<longleftrightarrow> reads_only c \<or> (\<exists>p\<in>set READ_ONLY. take (length p) c = p)"

fun mutates :: "event \<Rightarrow> bool" where
  "mutates (Ran role c r) = (\<not> quiet_command c)"
| "mutates (Copied argv content r) = True"
| "mutates (Saved file content) = False"
| "mutates Slept = False"

definition silent :: "event set" where
  "silent = {e. \<not> mutates e}"

lemma quiet_simps [simp]:
  "Ran role c r \<in> silent \<longleftrightarrow> quiet_command c" "Slept \<in> silent" "Saved file content \<in> silent" "Copied argv content r \<notin> silent"
  by (simp_all add: silent_def)

lemma quiet_fixed [simp]:
  "quiet_command (''docker'' # ''version'' # as)" "quiet_command (''nvidia-smi'' # as)" "quiet_command [''rdma'', ''link'']"
  "quiet_command (''ip'' # ''link'' # ''show'' # as)" "quiet_command (''ibdev2netdev'' # as)"
  "quiet_command (''docker'' # ''image'' # ''inspect'' # as)" "quiet_command (''docker'' # ''container'' # ''inspect'' # as)"
  "quiet_command (''cat'' # as)" "quiet_command (''test'' # as)" "quiet_command (''curl'' # as)"
  by (simp_all add: quiet_command_def READ_ONLY_def)

lemma quiet_nm [simp]: "nm_connection_state_command d role = ret c \<Longrightarrow> quiet_command c"
  by (auto simp: nm_connection_state_command_def ret_iff quiet_command_def READ_ONLY_def)

lemma quiet_reads: "reads_only c \<Longrightarrow> quiet_command c"
  by (simp add: quiet_command_def)

subsection \<open>The operations\<close>

text \<open>Operations that only read.\<close>

lemma inspect_quiet [frame_rules]: "appends silent (inspect S role b)"
  unfolding inspect_def by (intro frame_rules) (simp add: inspect_command_def)

lemma assert_owned_quiet [frame_rules]: "appends E (assert_owned S role insp)"
  unfolding assert_owned_def by (intro frame_rules)

lemma discover_quiet [frame_rules]: "quiet_command c \<Longrightarrow> appends silent (discover S role spec b c found)"
  unfolding discover_def Let_def read_gid_with_retry_def
  by (intro frame_rules frame_change) (simp_all add: extends_def)

lemma selected_subset: "set (selected_commands prof b cmds) \<subseteq> set cmds"
  by (auto simp: selected_commands_def)

lemma fabric_preflight_quiet [frame_rules]: "appends silent (fabric_preflight S role b)"
  unfolding fabric_preflight_def read_gid_attributes_with_retry_def
  by (rule frame_seq_run frame_seq_fabric frame_rules
    | (simp, rule quiet_reads, erule gid_attributes_read_only, assumption)
    | (rule quiet_reads, erule discovery_reads_only, rule subsetD [OF selected_subset], assumption)
    | simp)+

lemma check_image_quiet [frame_rules]: "appends silent (check_image_of S role)"
  unfolding check_image_of_def Let_def by (intro frame_rules) simp

lemma check_model_quiet [frame_rules]: "appends silent (check_model S role b)"
  unfolding check_model_def by (intro frame_rules) auto

lemma preflight_quiet [frame_rules]: "appends silent (preflight S b c)"
  unfolding preflight_def preflight_role_def Let_def by (intro frame_rules) auto

lemma read_fabric_quiet [frame_rules]: "appends silent (read_fabric S role)"
  unfolding read_fabric_def by (rule frame_seq_run frame_rules | simp)+

lemma capture_roles_quiet [frame_rules]: "appends silent (capture_roles S)"
  unfolding capture_roles_def by (intro frame_rules)

lemma capture_fabric_quiet [frame_rules]: "appends silent (capture_fabric_state S)"
  unfolding capture_fabric_state_def by (intro frame_rules)

text \<open>Every operation appends to the log.\<close>

lemmas quiet_anything [frame_rules] =
  inspect_quiet [THEN appends_mono, OF subset_UNIV] fabric_preflight_quiet [THEN appends_mono, OF subset_UNIV]
  preflight_quiet [THEN appends_mono, OF subset_UNIV] read_fabric_quiet [THEN appends_mono, OF subset_UNIV]
  capture_roles_quiet [THEN appends_mono, OF subset_UNIV] capture_fabric_quiet [THEN appends_mono, OF subset_UNIV]

lemma apply_link_extends [frame_rules]: "appends UNIV (apply_link S)"
  unfolding apply_link_def apply_fabric_role_def refresh_contracts_def
  by (intro frame_rules frame_change) (simp_all add: extends_def)

lemma restore_fabric_extends [frame_rules]: "appends UNIV (restore_fabric_state S v)"
  unfolding restore_fabric_state_def plan_restore_def nmcli_mutation_def run_action_def verify_restored_def Let_def
  by (intro frame_rules) simp_all

lemma remove_legacy_extends [frame_rules]: "appends UNIV (remove_legacy_candidate_profiles S v)"
  unfolding remove_legacy_candidate_profiles_def check_legacy_def remove_legacy_def Let_def
  by (intro frame_rules) simp_all

lemma on_container_extends [frame_rules]: "appends UNIV (on_container S role command)"
  unfolding on_container_def by (intro frame_rules) simp

lemma stop_owned_extends [frame_rules]: "appends UNIV (stop_owned S)"
  unfolding stop_owned_def stop_role_def by (intro frame_rules)

lemma remove_owned_extends [frame_rules]: "appends UNIV (remove_owned S)"
  unfolding remove_owned_def remove_role_def by (intro frame_rules)

lemma cleanup_extends [frame_rules]: "appends UNIV (cleanup_partial S)"
  unfolding cleanup_partial_def cleanup_role_def by (intro frame_rules)

lemma create_extends [frame_rules]: "appends UNIV (create S)"
  unfolding create_def create_role_def by (intro frame_rules) simp

lemma start_pair_extends [frame_rules]: "appends UNIV (start_pair S)"
  unfolding start_pair_def start_role_def by (intro frame_rules)

lemma stage_extends [frame_rules]: "appends UNIV (stage S)"
  unfolding stage_def stage_role_def copy_to_def Let_def by (intro frame_rules) simp_all

lemma await_ready_quiet [frame_rules]: "appends silent (await_ready S api n)"
proof (induction n)
  case (Suc n)
  show ?case unfolding await_ready.simps by (intro frame_rules Suc) (auto simp: curl_command_def)
qed (simp add: frame_throw pre_extends)

lemma verify_quiet [frame_rules]: "appends silent (verify S b)"
  unfolding verify_def verify_role_def by (intro frame_rules)

lemmas verify_extends [frame_rules] = verify_quiet [THEN appends_mono, OF subset_UNIV]

lemma deploy_extends [frame_rules]: "appends UNIV (deploy S b)"
  unfolding deploy_def by (intro frame_rules)

lemma remove_rollback_extends [frame_rules]: "appends UNIV (remove_rollback_targets S olds)"
  unfolding remove_rollback_targets_def remove_target_def stop_and_remove_def by (intro frame_rules) simp_all

lemma remove_empty_extends [frame_rules]: "appends UNIV (remove_empty_rollback_targets S)"
  unfolding remove_empty_rollback_targets_def inspect_owned_def remove_inspected_def stop_and_remove_def
  by (intro frame_rules) simp_all

lemma verify_rollback_quiet [frame_rules]: "appends silent (verify_rollback S olds)"
  unfolding verify_rollback_def by (intro frame_rules)

lemmas verify_rollback_extends [frame_rules] = verify_rollback_quiet [THEN appends_mono, OF subset_UNIV]

lemma rollback_extends [frame_rules]: "appends UNIV (rollback S file)"
  unfolding rollback_def rollback_empty_def rollback_pair_def restore_role_def Let_def
  by (intro frame_rules) simp_all

lemma recovery_extends [frame_rules]: "appends UNIV (recovery S file b st)"
  unfolding recovery_def by (intro frame_rules)

end
