(* ===== verification/Engine_Runs.thy ===== *)
theory Engine_Runs
  imports Engine_Log
begin

text \<open>
  Successful runs of the engine, taken apart step by step: rules that turn \<open>m s = (ret x, t)\<close> for a
  composed \<open>m\<close> into the runs of its parts, and the exact effect of the calls that inspect a container.
\<close>

lemma run_ret [run_simps]: "run m s = (ret x, t) \<longleftrightarrow> m = ret x \<and> t = s"
  unfolding run_def by (rule lift_ret)

lemma run_fabric_ret [run_simps]: "run_fabric m s = (ret x, t) \<longleftrightarrow> m = ret x \<and> t = s"
  unfolding run_fabric_def by (rule lift_ret)

lemma gate_ret [run_simps]: "gate b m s = (ret x, t) \<longleftrightarrow> b \<and> m s = (ret x, t)"
  by (simp add: gate_def throw_ret)

lemma each_ROLES [run_simps]:
  "each f ROLES s = (ret x, t) \<longleftrightarrow> (\<exists>u. f ''worker'' s = (ret (), u) \<and> f ''head'' u = (ret (), t))"
  by (simp add: ROLES_def run_simps)

text \<open>A successful command: only the log grows, by that command.\<close>

definition logged :: "event list \<Rightarrow> engine \<Rightarrow> engine" where
  "logged es s = s\<lparr>e_log := e_log s @ es\<rparr>"

lemma logged_simps [simp]:
  "e_log (logged es s) = e_log s @ es" "e_contracts (logged es s) = e_contracts s" "e_gids (logged es s) = e_gids s"
  "e_disk (logged es s) = e_disk s" "logged fs (logged es s) = logged (es @ fs) s" "logged [] s = s"
  by (simp_all add: logged_def)

lemma remote_run: "remote S role c s = (outcome S (e_log s) role c, logged [Ran role c (outcome S (e_log s) role c)] s)"
  by (simp add: remote_def logged_def Let_def)

lemma remote_ret [run_simps]:
  "remote S role c s = (ret r, t) \<longleftrightarrow> outcome S (e_log s) role c = ret r \<and> t = logged [Ran role c (ret r)] s"
  by (auto simp: remote_run)

lemma run_all_ret:
  assumes "run_all S role cs s = (ret (), t)"
  shows "\<exists>rs. length rs = length cs \<and> t = logged (map2 (\<lambda>c r. Ran role c (ret r)) cs rs) s"
  using assms
proof (induction cs arbitrary: s)
  case Nil
  then show ?case by (simp add: run_all_def run_simps)
next
  case (Cons c cs)
  then obtain r where r: "run_all S role cs (logged [Ran role c (ret r)] s) = (ret (), t)"
    by (auto simp: run_all_def run_simps)
  from Cons.IH [OF r] obtain rs where "length rs = length cs"
    "t = logged (map2 (\<lambda>c r. Ran role c (ret r)) cs rs) (logged [Ran role c (ret r)] s)" by auto
  then show ?case by (intro exI [of _ "r # rs"]) simp
qed

subsection \<open>Inspecting a container\<close>

text \<open>What the output of a successful inspect command reports.\<close>

definition reported :: "python \<Rightarrow> command_result \<Rightarrow> dict \<Rightarrow> bool" where
  "reported P r insp \<longleftrightarrow> bind (json_stdout P r) inspect_object = ret insp"

text \<open>\<open>saw P es role name insp\<close>: the events contain an inspection of the container that reported the object.\<close>

definition saw :: "python \<Rightarrow> event list \<Rightarrow> string \<Rightarrow> string \<Rightarrow> dict \<Rightarrow> bool" where
  "saw P es role name insp \<longleftrightarrow> (\<exists>r. Ran role (inspect_command name) (ret r) \<in> set es \<and> reported P r insp)"

lemma saw_mono: "saw P es role name insp \<Longrightarrow> set es \<subseteq> set fs \<Longrightarrow> saw P fs role name insp"
  by (auto simp: saw_def)

definition found_missing :: "event list \<Rightarrow> string \<Rightarrow> string \<Rightarrow> bool" where
  "found_missing es role name \<longleftrightarrow>
     (\<exists>e. Ran role (inspect_command name) (raise e) \<in> set es \<and> missing_object e)"

lemma inspect_ret:
  assumes "inspect S role b s = (ret x, t)"
  obtains name where "name_of (s_python S) (e_contracts s role) = ret name"
    and "\<exists>r insp. x = Some insp \<and> t = logged [Ran role (inspect_command name) (ret r)] s \<and> reported (s_python S) r insp
      \<or> (\<exists>e. x = None \<and> b \<and> t = logged [Ran role (inspect_command name) (raise e)] s \<and> missing_object e)"
proof -
  let ?P = "s_python S"
  from assms obtain name y u where n: "name_of ?P (e_contracts s role) = ret name"
    and c: "catch (seq (remote S role (inspect_command name)) (\<lambda>r. give (Some r)))
           (\<lambda>e. if b \<and> missing_object e then give None else throw e) s = (ret y, u)"
    and k: "(case y of None \<Rightarrow> give None
       | Some r \<Rightarrow> run (bind (json_stdout ?P r) (\<lambda>j. bind (inspect_object j) (\<lambda>es. ret (Some es))))) u = (ret x, t)"
    unfolding inspect_def by (auto simp: seq_ret run_ret asks_ret)
  let ?o = "outcome S (e_log s) role (inspect_command name)"
  show ?thesis
  proof (cases ?o rule: comp_cases)
    case (returned r)
    with c have "y = Some r" "u = logged [Ran role (inspect_command name) (ret r)] s"
      by (auto simp: catch_def seq_def remote_run give_def ret_def)
    with k have "t = u" "\<exists>insp. x = Some insp \<and> reported ?P r insp"
      by (auto simp: run_ret bind_eq_ret reported_def)
    with n \<open>u = _\<close> show ?thesis using that by blast
  next
    case (raises e)
    with c have "y = None \<and> b \<and> missing_object e \<and> u = logged [Ran role (inspect_command name) (raise e)] s"
      by (auto simp: catch_def seq_def remote_run give_def throw_def ret_def raise_def split: if_splits)
    with k n show ?thesis using that by (auto simp: give_ret)
  next
    case never
    with c show ?thesis by (simp add: catch_def seq_def remote_run ret_def)
  qed
qed

text \<open>Either way only the log grows, by the inspection.\<close>

lemma inspect_cases:
  assumes "inspect S role b s = (ret x, t)"
  obtains (present) name r insp where "name_of (s_python S) (e_contracts s role) = ret name" "x = Some insp"
      "t = logged [Ran role (inspect_command name) (ret r)] s" "reported (s_python S) r insp"
  | (missing) name e where "name_of (s_python S) (e_contracts s role) = ret name" "x = None" "b"
      "t = logged [Ran role (inspect_command name) (raise e)] s" "missing_object e"
  using assms by (auto elim: inspect_ret)

lemma assert_owned_ret [run_simps]:
  "assert_owned S role insp s = (ret u, t) \<longleftrightarrow>
     owned (s_python S) (mode (s_dep S)) role (e_contracts s role) insp = ret () \<and> t = s"
  by (simp add: assert_owned_def run_simps)

lemma on_container_ret [run_simps]:
  "on_container S role c s = (ret u, t) \<longleftrightarrow>
     (\<exists>name r. name_of (s_python S) (e_contracts s role) = ret name
       \<and> outcome S (e_log s) role (c name) = ret r \<and> t = logged [Ran role (c name) (ret r)] s)"
  by (auto simp: on_container_def run_simps)

end
