(* ===== verification/Engine_Deploy.thy ===== *)
theory Engine_Deploy
  imports Engine_Order
begin

text \<open>
  What a deployment that returns has done: it created both containers from the lock, the worker first,
  started them, and found both running exactly their contracts before the service answered.
\<close>

subsection \<open>Launching commands\<close>

fun launches :: "event \<Rightarrow> bool" where
  "launches (Ran role c r) = (take 3 c \<in> {[''docker'', ''container'', ''create''], [''docker'', ''container'', ''start'']})"
| "launches _ = False"

definition idle :: "event set" where
  "idle = {e. \<not> launches e}"

lemma idle_simps [simp]:
  "Ran role c r \<in> idle \<longleftrightarrow> take 3 c \<notin> {[''docker'', ''container'', ''create''], [''docker'', ''container'', ''start'']}"
  "Slept \<in> idle" "Saved file content \<in> idle" "Copied argv content r \<in> idle"
  by (simp_all add: idle_def)

lemma launch_not_quiet:
  assumes "take 3 c = [''docker'', ''container'', v]" and "v \<in> {''create'', ''start''}"
  shows "\<not> quiet_command c"
proof -
  have c: "c = ''docker'' # ''container'' # v # drop 3 c"
    using append_take_drop_id [of 3 c] assms(1) by simp
  from assms(2) show ?thesis by (subst c) (auto simp: quiet_command_def reads_only_def READ_ONLY_def)
qed

lemma silent_idle: "silent \<subseteq> idle"
proof
  fix e
  assume "e \<in> silent"
  then show "e \<in> idle" using launch_not_quiet by (cases e) auto
qed

lemmas silent_launches = appends_mono [OF _ silent_idle]

lemma helper_no_launch:
  assumes "helper_argv img c w = ret a"
  shows "take 3 a = [''docker'', ''run'', ''--rm'']"
  using assms by (auto simp: helper_argv_def ret_iff)

lemma apply_commands_no_launch:
  assumes "apply_commands d role img = ret cs" and "c \<in> set cs"
  shows "take 3 c = [''docker'', ''run'', ''--rm'']"
proof -
  have "all_helpers img cmds w = ret cs \<Longrightarrow> \<forall>c\<in>set cs. take 3 c = [''docker'', ''run'', ''--rm'']" for cmds w cs
    by (induction cmds arbitrary: cs) (auto simp: bind_eq_ret dest: helper_no_launch)
  moreover from assms(1) obtain cmds where "all_helpers img cmds True = ret cs"
    unfolding apply_commands_def Let_def bind_eq_ret by blast
  ultimately show ?thesis using assms(2) by blast
qed

lemma link_no_launch: "appends idle (apply_link S)"
  unfolding apply_link_def apply_fabric_role_def refresh_contracts_def
  by (rule frame_seq_run frame_seq_fabric frame_rules silent_launches [OF fabric_preflight_quiet] frame_change
    | (simp, drule (1) apply_commands_no_launch, simp) | simp add: extends_def)+

lemma stop_no_launch: "appends idle (stop_owned S)" "appends idle (remove_owned S)"
  unfolding stop_owned_def stop_role_def remove_owned_def remove_role_def on_container_def stop_command_def rm_command_def
  by (intro silent_launches [OF inspect_quiet] frame_rules; simp)+

lemma stage_no_launch: "appends idle (stage S)"
  unfolding stage_def stage_role_def copy_to_def Let_def by (intro frame_rules) simp_all

lemma capture_no_launch: "appends idle (capture_rollback S file)"
  unfolding capture_rollback_def Let_def
  by (intro silent_launches [OF capture_roles_quiet] silent_launches [OF capture_fabric_quiet] frame_rules) simp

subsection \<open>The runs of the last steps\<close>

text \<open>What \<open>verify_container_inspect\<close> accepts.\<close>

definition runs_contract :: "python \<Rightarrow> dict \<Rightarrow> dict \<Rightarrow> bool" where
  "runs_contract P insp contract \<longleftrightarrow>
     is_running insp
     \<and> (\<exists>name. name_of P contract = ret name \<and> container_of P insp = name)
     \<and> (\<exists>im. item contract ''image'' = JObj im
          \<and> (py_eq (item insp ''Image'') (item im ''image_id'') \<or> py_eq (item insp ''Image'') (item im ''reference'')))
     \<and> (\<exists>cmd argv. command_of insp = ret cmd \<and> bind (jitem (JObj contract) ''service_argv'') iterate = ret argv
          \<and> py_eq (JArr (map JStr cmd)) (JArr argv))
     \<and> (\<exists>xs env. docker_field insp ''Env'' = JArr xs \<and> item contract ''environment'' = JObj env
          \<and> (\<forall>(k, v)\<in>set env. map_of (env_pairs xs) k = Some (py_str P v)))
     \<and> (\<exists>ls. labels_of P insp = ret ls
          \<and> py_eq (label ls ''com.dgx-spark.deployment_id'') (item contract ''deployment_id''))"

lemma jitem_item: "jitem (JObj es) k = ret v \<Longrightarrow> item es k = v"
  by (auto simp: jitem_def item_def split: option.splits)

lemma obj_case_ret: "(case j of JObj es \<Rightarrow> f es | _ \<Rightarrow> raise e) = ret u \<longleftrightarrow> (\<exists>es. j = JObj es \<and> f es = ret u)"
  by (cases j) auto

lemma arr_case_ret: "(case j of JArr es \<Rightarrow> f es | _ \<Rightarrow> raise e) = ret u \<longleftrightarrow> (\<exists>es. j = JArr es \<and> f es = ret u)"
  by (cases j) auto

lemma py_in_ret: "py_in v ws = ret b \<Longrightarrow> b = list_ex (py_eq v) ws"
  by (auto simp: py_in_def split: if_splits)

lemma verify_container_facts:
  assumes "verify_container_inspect P insp contract = ret u"
  shows "runs_contract P insp contract"
proof -
  note steps = assms [unfolded verify_container_inspect_def verify_env_def Let_def bind_eq_ret escape_ret check_ret
    obj_case_ret arr_case_ret ex_simps, simplified]
  from steps obtain n im ls cmd argv xs env where
    n: "jitem (JObj contract) ''container'' = ret n" "container_of P insp = py_str P n"
    and im: "jitem (JObj contract) ''image'' = ret (JObj im)"
    and img: "py_in (item insp ''Image'') [item im ''image_id'', item im ''reference''] = ret True"
    and ls: "labels_of P insp = ret ls" "py_eq (label ls ''com.dgx-spark.deployment_id'') (item contract ''deployment_id'')"
    and cmd: "command_of insp = ret cmd" "bind (jitem (JObj contract) ''service_argv'') iterate = ret argv"
      "py_eq (JArr (map JStr cmd)) (JArr argv)"
    and env: "docker_field insp ''Env'' = JArr xs" "item contract ''environment'' = JObj env"
      "\<forall>(k, v)\<in>set env. map_of (env_pairs xs) k = Some (py_str P v)"
    and st: "is_running insp"
    unfolding bind_eq_ret by (elim exE conjE) (rule that; (assumption | blast | simp))
  show ?thesis
    unfolding runs_contract_def
  proof (intro conjI)
    show "\<exists>name. name_of P contract = ret name \<and> container_of P insp = name" using n by (simp add: name_of_def)
    show "\<exists>im. item contract ''image'' = JObj im
          \<and> (py_eq (item insp ''Image'') (item im ''image_id'') \<or> py_eq (item insp ''Image'') (item im ''reference''))"
      using py_in_ret [OF img] jitem_item [OF im] by auto
  qed (intro st exI conjI; (rule ls cmd env st))+
qed

lemma quiet_inspect [simp]: "quiet_command (inspect_command name)"
  by (simp add: inspect_command_def)

lemma create_role_ret:
  assumes "create_role S role s = (ret u, t)"
  obtains argv r where
    "render_container_argv (s_python S) (s_config S) role (Some (s_lock S)) None (e_gids s role) = ret argv"
    "t = logged [Ran role argv (ret r)] s"
  using assms that by (auto simp: create_role_def run_simps)

text \<open>A container is started, or an inspection reported it owned and running already.\<close>

definition started :: "site \<Rightarrow> engine \<Rightarrow> string \<Rightarrow> event list \<Rightarrow> bool" where
  "started S s role es \<longleftrightarrow>
     (\<exists>name. name_of (s_python S) (e_contracts s role) = ret name
       \<and> ((\<exists>e r. e \<in> silent \<and> es = [e, Ran role (start_command name) (ret r)])
          \<or> (\<exists>insp r. es = [Ran role (inspect_command name) (ret r)] \<and> reported (s_python S) r insp \<and> is_running insp
               \<and> owned (s_python S) (mode (s_dep S)) role (e_contracts s role) insp = ret ())))"

lemma start_role_ret:
  assumes "start_role S role s = (ret u, t)"
  obtains es where "t = logged es s" "started S s role es"
proof -
  from assms obtain x v where i: "inspect S role True s = (ret x, v)"
    and k: "(case x of None \<Rightarrow> on_container S role start_command
       | Some insp \<Rightarrow> seq (assert_owned S role insp) (\<lambda>_.
           if is_running insp then give () else on_container S role start_command)) v = (ret u, t)"
    by (auto simp: start_role_def seq_ret)
  from i show ?thesis
  proof (cases rule: inspect_cases)
    case (present name r insp)
    let ?e = "Ran role (inspect_command name) (ret r)"
    from k present have o: "owned (s_python S) (mode (s_dep S)) role (e_contracts s role) insp = ret ()"
      by (auto simp: run_simps)
    show ?thesis
    proof (cases "is_running insp")
      case True
      with k present have "t = logged [?e] s" by (simp add: run_simps)
      then show ?thesis by (rule that) (use present True o in \<open>auto simp: started_def\<close>)
    next
      case False
      with k present obtain r' where "t = logged [?e, Ran role (start_command name) (ret r')] s"
        by (auto simp: run_simps)
      then show ?thesis by (rule that) (use present in \<open>auto simp: started_def\<close>)
    qed
  next
    case (missing name e)
    let ?e = "Ran role (inspect_command name) (raise e)"
    from k missing obtain r' where "t = logged [?e, Ran role (start_command name) (ret r')] s"
      by (auto simp: run_simps)
    then show ?thesis by (rule that) (use missing in \<open>auto simp: started_def\<close>)
  qed
qed

lemma started_launches:
  assumes "started S s role es"
  shows "filter launches es = [] \<or> (\<exists>name r. name_of (s_python S) (e_contracts s role) = ret name
    \<and> filter launches es = [Ran role (start_command name) (ret r)])"
proof -
  from assms consider name e r where "name_of (s_python S) (e_contracts s role) = ret name" "e \<in> silent"
      "es = [e, Ran role (start_command name) (ret r)]"
    | name r where "es = [Ran role (inspect_command name) (ret r)]"
    unfolding started_def by blast
  then show ?thesis
  proof cases
    case 1
    with silent_idle have "\<not> launches e" by (auto simp: idle_def)
    with 1 show ?thesis by (simp add: start_command_def)
  next
    case 2
    then show ?thesis by (simp add: inspect_command_def)
  qed
qed

lemma verify_role_ret:
  assumes "verify_role S role s = (ret u, t)"
  obtains name r insp where "t = logged [Ran role (inspect_command name) (ret r)] s"
    "name_of (s_python S) (e_contracts s role) = ret name" "reported (s_python S) r insp"
    "runs_contract (s_python S) insp (e_contracts s role)"
proof -
  from assms obtain x v where i: "inspect S role False s = (ret x, v)"
    and k: "(case x of None \<Rightarrow> throw (Escaped TypeError)
       | Some insp \<Rightarrow> run (verify_container_inspect (s_python S) insp (e_contracts v role))) v = (ret u, t)"
    by (auto simp: verify_role_def run_simps)
  from i show ?thesis
  proof (cases rule: inspect_cases)
    case (present name r insp)
    with k that show ?thesis by (auto simp: run_simps dest: verify_container_facts)
  qed simp
qed

text \<open>The service answered: the last two events are successful requests to both paths.\<close>

definition answered :: "int \<Rightarrow> event list \<Rightarrow> bool" where
  "answered api es \<longleftrightarrow> (\<exists>fs r r'. es = fs @ [Ran ''head'' (curl_command api ''/health'') (ret r),
     Ran ''head'' (curl_command api ''/v1/models'') (ret r')])"

lemma await_ready_ret:
  assumes "await_ready S api n s = (ret u, t)"
  shows "\<exists>es. t = logged es s \<and> set es \<subseteq> silent \<and> answered api es"
  using assms
proof (induction n arbitrary: s)
  case (Suc n)
  let ?run = "run_all S ''head'' [curl_command api ''/health'', curl_command api ''/v1/models'']"
  have cmd: "quiet_command (curl_command api p)" for p by (simp add: curl_command_def)
  have quiet: "appends silent ?run" by (intro frame_rules) (use cmd in auto)
  have keeps: "\<exists>es. v = logged es s \<and> set es \<subseteq> silent" if "?run s = (x, v)" for x v
  proof -
    have "\<exists>es. v = logged es s" using that
      by (auto simp: run_all_def each_def seq_def remote_run give_def split: prod.splits option.splits sum.splits)
    with appendsD [OF quiet that] show ?thesis by fastforce
  qed
  from Suc.prems consider "?run s = (ret (), t)"
    | e v where "?run s = (raise e, v)" "lifecycle_error e" "n \<noteq> 0" "seq pause (\<lambda>_. await_ready S api n) v = (ret u, t)"
    unfolding await_ready.simps by (auto simp: catch_ret throw_ret split: if_splits)
  then show ?case
  proof cases
    case 1
    then obtain r r' where "t = logged [Ran ''head'' (curl_command api ''/health'') (ret r),
        Ran ''head'' (curl_command api ''/v1/models'') (ret r')] s"
      by (auto simp: run_all_def run_simps)
    then show ?thesis
      by (intro exI [of _ "[Ran ''head'' (curl_command api ''/health'') (ret r),
        Ran ''head'' (curl_command api ''/v1/models'') (ret r')]"]) (use cmd in \<open>auto simp: answered_def\<close>)
  next
    case 2
    then have "await_ready S api n (logged [Slept] v) = (ret u, t)"
      by (simp add: seq_def pause_def change_def ret_def logged_def)
    from Suc.IH [OF this] keeps [OF 2(1)] obtain es fs where "t = logged es (logged [Slept] (logged fs s))"
      "set es \<subseteq> silent" "set fs \<subseteq> silent" "answered api es" by auto
    then show ?thesis by (intro exI [of _ "fs @ [Slept] @ es"]) (auto simp: answered_def)
  qed
qed (simp add: throw_ret)

subsection \<open>The whole deployment\<close>

lemma recovering_ret: "recovering m n s = (ret x, t) \<longleftrightarrow> m s = (ret x, t)"
  by (auto simp: recovering_def catch_ret seq_ret throw_ret)

lemma verify_ret:
  assumes "verify S False s = (ret u, t)"
  obtains es api where "t = logged es s" "set es \<subseteq> silent" "answered api es"
    "bind (jitem (JObj (e_contracts s ''head'')) ''api_port'') int_of = ret api"
    "\<forall>role\<in>set ROLES. \<exists>name insp. saw (s_python S) es role name insp \<and> runs_contract (s_python S) insp (e_contracts s role)"
proof -
  from assms obtain v w api where w: "verify_role S ''worker'' s = (ret (), v)" and h: "verify_role S ''head'' v = (ret (), w)"
    and api: "bind (jitem (JObj (e_contracts w ''head'')) ''api_port'') int_of = ret api"
    and r: "await_ready S api READINESS_ATTEMPTS w = (ret u, t)"
    unfolding verify_def by (auto simp: run_simps)
  from w obtain nw rw iw where W: "v = logged [Ran ''worker'' (inspect_command nw) (ret rw)] s"
    "reported (s_python S) rw iw" "runs_contract (s_python S) iw (e_contracts s ''worker'')"
    by (rule verify_role_ret) blast
  from h obtain nh rh ih where H: "w = logged [Ran ''head'' (inspect_command nh) (ret rh)] v"
    "reported (s_python S) rh ih" "runs_contract (s_python S) ih (e_contracts v ''head'')"
    by (rule verify_role_ret) blast
  from await_ready_ret [OF r] obtain es where es: "t = logged es w" "set es \<subseteq> silent" "answered api es" by blast
  let ?es = "[Ran ''worker'' (inspect_command nw) (ret rw), Ran ''head'' (inspect_command nh) (ret rh)] @ es"
  show ?thesis
  proof (rule that [of ?es api])
    show "t = logged ?es s" "set ?es \<subseteq> silent" using es W H by auto
    show "answered api ?es" using es(3) by (auto simp: answered_def)
    show "bind (jitem (JObj (e_contracts s ''head'')) ''api_port'') int_of = ret api" using api W(1) H(1) by simp
    show "\<forall>role\<in>set ROLES. \<exists>name insp. saw (s_python S) ?es role name insp
        \<and> runs_contract (s_python S) insp (e_contracts s role)"
      using W H by (fastforce simp: ROLES_def saw_def)
  qed
qed

lemma deploy_ret:
  assumes "deploy S upd s = (ret u, t)"
  obtains s1 es where "e_log s1 = e_log s @ es" "set es \<subseteq> idle"
    "seq (create S) (\<lambda>_. seq (start_pair S) (\<lambda>_. verify S False)) s1 = (ret u, t)"
proof -
  let ?pre = "seq (apply_link S) (\<lambda>_. seq (preflight S False True) (\<lambda>_.
     seq (if upd then seq (stop_owned S) (\<lambda>_. remove_owned S) else give ()) (\<lambda>_.
     seq (stage S) (\<lambda>_. preflight S True True))))"
  have a: "appends idle ?pre"
    by (intro link_no_launch silent_launches [OF preflight_quiet] stop_no_launch stage_no_launch frame_rules)
  from assms obtain s1 where p: "?pre s = (ret (), s1)"
    and "seq (create S) (\<lambda>_. seq (start_pair S) (\<lambda>_. verify S False)) s1 = (ret u, t)"
    unfolding deploy_def by (auto simp: seq_ret)
  with appendsD [OF a p] that show ?thesis by blast
qed


end
