(* ===== verification/Engine_Own.thy ===== *)
theory Engine_Own
  imports Engine_Deploy Contract_Props
begin

text \<open>
  Whom a container must belong to before the engine stops or removes it.  The authority of every such
  command is an earlier inspection of the same run: of a container that this deployment, its lock or the
  captured state owns.
\<close>

subsection \<open>Ownership\<close>

definition role_label :: string where "role_label = ''com.dgx-spark.role''"
definition id_label :: string where "id_label = ''com.dgx-spark.deployment_id''"

abbreviation this_deployment :: "site \<Rightarrow> string" where
  "this_deployment S \<equiv> deployment_id (py_sha256 (s_python S)) (py_float (s_python S)) (s_config S)"

text \<open>The container carries the role and the identity of this deployment; in production the identity may
  instead be that of the previous owner with its image, or the locked image with all its labels.\<close>

definition owns :: "site \<Rightarrow> string \<Rightarrow> dict \<Rightarrow> bool" where
  "owns S role insp \<longleftrightarrow> (\<exists>ls. labels_of (s_python S) insp = ret ls \<and> map_of ls role_label = Some role
     \<and> (map_of ls id_label = Some (this_deployment S)
       \<or> mode (s_dep S) = ''production''
         \<and> (map_of ls ''com.dgx-spark.owner'' = Some ''deepseek-v4-flash-dgx-spark''
              \<and> map_of LEGACY_IMAGES role = Some (get_str (s_python S) insp ''Image'')
            \<or> (\<exists>ref iid labels. lock_image (s_python S) (Some (s_lock S)) role (s_config S) = ret (ref, iid, labels)
                \<and> get_str (s_python S) insp ''Image'' = py_str (s_python S) (opt_json JStr iid)
                \<and> (\<forall>(k, v)\<in>set labels. map_of ls k = Some v)))))"

text \<open>The container has the name and exactly the labels that an intact state of this deployment recorded.\<close>

definition recorded :: "site \<Rightarrow> string \<Rightarrow> string \<Rightarrow> dict \<Rightarrow> bool" where
  "recorded S doc role insp \<longleftrightarrow> (\<exists>st old ls actual. read_state (s_python S) (s_config S) (Some doc) = ret st
     \<and> item (subdict st ''roles'') role = JObj old \<and> container_of (s_python S) insp = text_of (s_python S) old ''name''
     \<and> item old ''labels'' = JObj ls \<and> labels_of (s_python S) insp = ret actual
     \<and> py_eq (str_dict actual) (str_dict (map (\<lambda>(k, v). (k, py_str (s_python S) v)) ls)))"

subsection \<open>Contracts are rendered\<close>

definition contracts_ok :: "site \<Rightarrow> engine \<Rightarrow> bool" where
  "contracts_ok S s \<longleftrightarrow> (\<forall>role\<in>set ROLES. \<exists>gid.
     render_contract (s_python S) (s_config S) role (Some (s_lock S)) gid = ret (e_contracts s role))"

lemma render_base_items:
  assumes "render_base P c role lock gid = ret base"
  shows "\<exists>ref iid labels name. lock_image P lock role c = ret (ref, iid, labels)
    \<and> map_of base ''deployment_id'' = Some (JStr (deployment_id (py_sha256 P) (py_float P) c))
    \<and> map_of base ''container'' = Some (JStr name)
    \<and> map_of base ''image'' = Some (JObj [(''reference'', JStr ref), (''image_id'', opt_json JStr iid), (''labels'', str_dict labels)])"
  by (rule render_baseE [OF assms], hypsubst, intro exI conjI, assumption) (simp_all (no_asm))

lemma render_contract_facts:
  assumes "render_contract P c role lock gid = ret es"
  obtains ref iid labels name where "lock_image P lock role c = ret (ref, iid, labels)"
    "item es ''deployment_id'' = JStr (deployment_id (py_sha256 P) (py_float P) c)"
    "item es ''container'' = JStr name" "name_of P es = ret name"
    "item es ''image'' = JObj [(''reference'', JStr ref), (''image_id'', opt_json JStr iid), (''labels'', str_dict labels)]"
proof -
  from assms obtain base where b: "render_base P c role lock gid = ret base"
    and es: "\<exists>d. es = base @ [(''service_contract_sha256'', d)]"
    unfolding render_contract_def bind_eq_ret by auto
  from render_base_items [OF b] obtain ref iid labels name where l: "lock_image P lock role c = ret (ref, iid, labels)"
    and m: "map_of base ''deployment_id'' = Some (JStr (deployment_id (py_sha256 P) (py_float P) c))"
      "map_of base ''container'' = Some (JStr name)"
      "map_of base ''image'' = Some (JObj [(''reference'', JStr ref), (''image_id'', opt_json JStr iid), (''labels'', str_dict labels)])"
    by (elim exE conjE)
  have k: "map_of es k = map_of base k" if "k \<in> {''deployment_id'', ''container'', ''image''}" for k
    using es that by (auto simp: map_add_def split: option.splits)
  show ?thesis
  proof (rule that [OF l])
    show "name_of P es = ret name" by (simp add: name_of_def jitem_def k m py_str_def)
  qed (simp_all only: item_def k m insertI1 insertI2 option.case)
qed

lemma labels_facts:
  "current_owner ls contract role \<Longrightarrow> item contract ''deployment_id'' = JStr d \<Longrightarrow>
    map_of ls role_label = Some role \<and> map_of ls id_label = Some d"
  by (auto simp: current_owner_def label_def role_label_def id_label_def num_of_def split: option.splits)

lemma owned_owns:
  assumes ok: "contracts_ok S s" and role: "role \<in> set ROLES"
    and o: "owned (s_python S) (mode (s_dep S)) role (e_contracts s role) insp = ret ()"
  shows "owns S role insp" and "name_of (s_python S) (e_contracts s role) = ret (container_of (s_python S) insp)"
proof -
  let ?P = "s_python S" and ?c = "e_contracts s role"
  from ok role obtain gid where "render_contract ?P (s_config S) role (Some (s_lock S)) gid = ret ?c"
    by (auto simp: contracts_ok_def)
  then obtain ref iid labels name where l: "lock_image ?P (Some (s_lock S)) role (s_config S) = ret (ref, iid, labels)"
    and d: "item ?c ''deployment_id'' = JStr (this_deployment S)" and n: "item ?c ''container'' = JStr name" "name_of ?P ?c = ret name"
    and im: "item ?c ''image'' = JObj [(''reference'', JStr ref), (''image_id'', opt_json JStr iid), (''labels'', str_dict labels)]"
    by (rule render_contract_facts)
  from o obtain ls nm where ls: "labels_of ?P insp = ret ls" and nm: "jitem (JObj ?c) ''container'' = ret nm"
    "py_eq nm (JStr (container_of ?P insp))"
    and own: "current_owner ls ?c role \<or> legacy_owner ?P (mode (s_dep S)) ls insp role
      \<or> lock_owner ?P (mode (s_dep S)) ls insp ?c role"
    unfolding owned_def bind_eq_ret escape_ret check_ret by blast
  have "nm = JStr name" using jitem_item [OF nm(1)] n(1) by simp
  with nm(2) n(2) show "name_of ?P ?c = ret (container_of ?P insp)" by simp
  from own show "owns S role insp"
  proof (elim disjE)
    assume "current_owner ls ?c role"
    from labels_facts [OF this d] ls show ?thesis by (auto simp: owns_def)
  next
    assume "legacy_owner ?P (mode (s_dep S)) ls insp role"
    with ls show ?thesis by (auto simp: owns_def legacy_owner_def role_label_def)
  next
    assume lo: "lock_owner ?P (mode (s_dep S)) ls insp ?c role"
    from lo im have "mode (s_dep S) = ''production''" "map_of ls role_label = Some role"
      "get_str ?P insp ''Image'' = py_str ?P (opt_json JStr iid)"
      "\<forall>(k, v)\<in>set labels. map_of ls k = Some v"
      by (auto simp: lock_owner_def role_label_def get_str_def item_def str_dict_def py_str_def)
    with ls l show ?thesis unfolding owns_def by blast
  qed
qed

subsection \<open>Authority\<close>

definition removes :: "event \<Rightarrow> string \<Rightarrow> string \<Rightarrow> bool" where
  "removes e role name \<longleftrightarrow> (\<exists>r. e = Ran role (stop_command name) r \<or> e = Ran role (rm_command name) r)"

text \<open>\<open>permit S docs es role name\<close>: the events show a container of that name which the engine may remove.\<close>

definition permit :: "site \<Rightarrow> string set \<Rightarrow> event list \<Rightarrow> string \<Rightarrow> string \<Rightarrow> bool" where
  "permit S docs es role name \<longleftrightarrow> (\<exists>asked insp. saw (s_python S) es role asked insp \<and> container_of (s_python S) insp = name
     \<and> (owns S role insp \<or> (\<exists>doc\<in>docs. recorded S doc role insp)))"

text \<open>The contents that the state file had, before the run or by a write of the run.\<close>

definition state_docs :: "string \<Rightarrow> engine \<Rightarrow> event list \<Rightarrow> string set" where
  "state_docs file s es = set_option (e_disk s file) \<union> {doc. Saved file doc \<in> set es}"

definition lawful :: "site \<Rightarrow> string \<Rightarrow> engine \<Rightarrow> event list \<Rightarrow> bool" where
  "lawful S file s es \<longleftrightarrow> (\<forall>i<length es. \<forall>role name. removes (es ! i) role name \<longrightarrow>
     permit S (state_docs file s (take i es)) (take i es) role name)"

lemma permit_mono: "permit S ds es role name \<Longrightarrow> set es \<subseteq> set fs \<Longrightarrow> ds \<subseteq> ds' \<Longrightarrow> permit S ds' fs role name"
  unfolding permit_def by (blast intro: saw_mono)

lemma state_docs_mono: "set es \<subseteq> set fs \<Longrightarrow> state_docs file s es \<subseteq> state_docs file s fs"
  by (auto simp: state_docs_def)

lemma state_docs_append: "state_docs file s (es @ fs) = state_docs file s es \<union> {doc. Saved file doc \<in> set fs}"
  by (auto simp: state_docs_def)

lemma lawful_Nil: "lawful S file s []"
  by (simp add: lawful_def)

lemma lawful_snoc:
  assumes "lawful S file s es" and "\<And>role name. removes e role name \<Longrightarrow> permit S (state_docs file s es) es role name"
  shows "lawful S file s (es @ [e])"
  using assms by (auto simp: lawful_def nth_append less_Suc_eq)

lemma lawful_append:
  assumes "lawful S file s es" and "\<forall>e\<in>set fs. \<forall>role name. \<not> removes e role name"
  shows "lawful S file s (es @ fs)"
  using assms(2)
proof (induction fs rule: rev_induct)
  case (snoc f fs)
  then have "lawful S file s ((es @ fs) @ [f])" by (intro lawful_snoc) auto
  then show ?case by simp
qed (simp add: assms(1))

subsection \<open>Operations that remove nothing\<close>

definition neutral :: "engine \<Rightarrow> engine \<Rightarrow> bool" where
  "neutral s t \<longleftrightarrow> (\<exists>es. e_log t = e_log s @ es \<and> (\<forall>e\<in>set es. \<forall>role name. \<not> removes e role name))
     \<and> e_contracts t = e_contracts s \<and> e_disk t = e_disk s"

lemma pre_neutral [frame_rules]: "pre neutral"
proof -
  have "neutral s u" if st: "neutral s t" "neutral t u" for s t u
  proof -
    from st obtain a b where "e_log t = e_log s @ a" "e_log u = e_log t @ b"
      "\<forall>e\<in>set a \<union> set b. \<forall>role name. \<not> removes e role name"
      unfolding neutral_def by blast
    with st show ?thesis unfolding neutral_def by (intro conjI exI [of _ "a @ b"]) auto
  qed
  then show ?thesis unfolding pre_def by (auto simp: neutral_def)
qed

definition harmless :: "string list \<Rightarrow> bool" where
  "harmless c \<longleftrightarrow> (\<forall>name. c \<noteq> stop_command name \<and> c \<noteq> rm_command name)"

lemma neutral_remote [frame_rules]: "harmless c \<Longrightarrow> frame neutral (remote S role c)"
  by (auto simp: frame_def neutral_def remote_def Let_def removes_def harmless_def)

lemma neutral_scp [frame_rules]: "frame neutral (scp S argv content)"
  by (auto simp: frame_def neutral_def scp_def Let_def removes_def)

lemma neutral_pause [frame_rules]: "frame neutral pause"
  by (auto simp: frame_def neutral_def pause_def change_def removes_def)

lemma harmless_take: "take 3 c = xs \<Longrightarrow> xs \<noteq> [''docker'', ''container'', ''stop''] \<Longrightarrow> xs \<noteq> [''docker'', ''container'', ''rm''] \<Longrightarrow> harmless c"
  by (auto simp: harmless_def stop_command_def rm_command_def)

lemma harmless_quiet [simp]: "quiet_command c \<Longrightarrow> harmless c"
  by (auto simp: harmless_def stop_command_def rm_command_def quiet_command_def reads_only_def READ_ONLY_def)

lemma inspect_neutral [frame_rules]: "frame neutral (inspect S role b)"
  unfolding inspect_def by (intro frame_rules) simp

lemma assert_owned_neutral [frame_rules]: "frame neutral (assert_owned S role insp)"
  unfolding assert_owned_def by (intro frame_rules)

lemma discover_neutral [frame_rules]: "quiet_command c \<Longrightarrow> frame neutral (discover S role spec b c found)"
  unfolding discover_def Let_def read_gid_with_retry_def
  by (intro frame_rules frame_change) (simp_all add: neutral_def)

lemma fabric_preflight_neutral [frame_rules]: "frame neutral (fabric_preflight S role b)"
  unfolding fabric_preflight_def read_gid_attributes_with_retry_def
  by (rule frame_seq_run frame_seq_fabric frame_rules
    | (rule harmless_quiet, rule quiet_reads, erule gid_attributes_read_only, assumption)
    | (rule quiet_reads, erule discovery_reads_only, rule subsetD [OF selected_subset], assumption))+

lemma preflight_neutral [frame_rules]: "frame neutral (preflight S b c)"
  unfolding preflight_def preflight_role_def check_image_of_def check_model_def Let_def
  by (intro frame_rules) auto

lemma read_fabric_neutral [frame_rules]: "frame neutral (read_fabric S role)"
  unfolding read_fabric_def by (rule frame_seq_run frame_rules | simp)+

lemma capture_neutral [frame_rules]: "frame neutral (capture_roles S)" "frame neutral (capture_fabric_state S)"
  unfolding capture_roles_def capture_fabric_state_def by (intro frame_rules)+

lemma helper_harmless: "helper_argv img c w = ret a \<Longrightarrow> harmless a"
  by (rule harmless_take [OF helper_no_launch]) simp_all

lemma fabric_role_neutral [frame_rules]: "frame neutral (apply_fabric_role S role)"
  unfolding apply_fabric_role_def
  by (rule frame_seq_run frame_seq_fabric frame_rules | (rule harmless_take, erule apply_commands_no_launch, assumption) | simp)+

text \<open>The restoration runs the commands that its plan contains, which are helpers.\<close>

lemma collect_values:
  "collect f xs s = (ret ys, t) \<Longrightarrow> y \<in> set ys \<Longrightarrow> \<exists>x\<in>set xs. \<exists>u v. f x u = (ret y, v)"
  by (induction xs arbitrary: s ys) (fastforce simp: run_simps)+

lemma frame_seq_value:
  assumes "pre R" and "frame R m" and "\<And>s x t. m s = (ret x, t) \<Longrightarrow> frame R (f x)"
  shows "frame R (seq m f)"
  unfolding frame_def
proof
  fix s
  obtain r t where m: "m s = (r, t)" by force
  show "R s (snd (seq m f s))"
  proof (cases r rule: comp_cases)
    case (returned x)
    then have "m s = (ret x, t)" using m by simp
    from frameD [OF assms(2) m] assms(3) [OF this] m returned preD(2) [OF assms(1)] show ?thesis
      by (auto simp: seq_def ret_def frame_def)
  qed (use m frameD [OF assms(2) m] in \<open>auto simp: seq_def raise_def\<close>)
qed

lemma obj_case_run:
  "(case j of JObj es \<Rightarrow> f es | _ \<Rightarrow> throw e) s = (ret x, t) \<longleftrightarrow> (\<exists>es. j = JObj es \<and> f es s = (ret x, t))"
  by (cases j) (auto simp: run_simps)

lemma plan_restore_values:
  assumes "plan_restore S fabric role s = (ret ys, t)" and "(r, c) \<in> set ys"
  shows "take 3 c = [''docker'', ''run'', ''--rm'']"
proof -
  from assms(1) obtain cmds u where "collect (\<lambda>args. seq (nmcli_mutation S role args) (\<lambda>c. give (role, c))) cmds u = (ret ys, t)"
    unfolding plan_restore_def Let_def by (auto simp: run_simps obj_case_run)
  from collect_values [OF this assms(2)] show ?thesis
    by (auto simp: run_simps nmcli_mutation_def dest: helper_no_launch)
qed

lemma restore_fabric_frame:
  assumes R: "pre R" and read: "\<And>role. frame R (read_fabric S role)"
    and helper: "\<And>role c. take 3 c = [''docker'', ''run'', ''--rm''] \<Longrightarrow> frame R (remote S role c)"
  shows "frame R (restore_fabric_state S v)"
proof -
  have plan: "frame R (plan_restore S fabric role)" for fabric role
    unfolding plan_restore_def nmcli_mutation_def Let_def by (intro frame_rules R read)
  have body: "frame R (seq (collect (plan_restore S fabric) ROLES) (\<lambda>plans.
          seq (each (run_action S) (concat plans)) (\<lambda>_. each (verify_restored S fabric) ROLES)))" for fabric
  proof (rule frame_seq_value [OF R])
    show "frame R (collect (plan_restore S fabric) ROLES)" by (intro frame_rules R plan)
    fix s plans t
    assume p: "collect (plan_restore S fabric) ROLES s = (ret plans, t)"
    have "take 3 c = [''docker'', ''run'', ''--rm'']" if "(r, c) \<in> set (concat plans)" for r c
    proof -
      from that obtain ys where "ys \<in> set plans" "(r, c) \<in> set ys" by auto
      from collect_values [OF p this(1)] this(2) show ?thesis by (auto dest: plan_restore_values)
    qed
    then have "frame R (run_action S a)" if "a \<in> set (concat plans)" for a
      using that by (cases a) (auto simp: run_action_def intro!: frame_rules R helper)
    then show "frame R (seq (each (run_action S) (concat plans)) (\<lambda>_. each (verify_restored S fabric) ROLES))"
      unfolding verify_restored_def Let_def by (intro frame_rules R read)
  qed
  show ?thesis unfolding restore_fabric_state_def by (rule body R | rule frame_rules)+
qed

lemma restore_fabric_neutral [frame_rules]: "frame neutral (restore_fabric_state S v)"
  by (rule restore_fabric_frame) (auto intro!: frame_rules harmless_take)

lemma remove_legacy_neutral [frame_rules]: "frame neutral (remove_legacy_candidate_profiles S v)"
  unfolding remove_legacy_candidate_profiles_def check_legacy_def remove_legacy_def Let_def
  by (intro frame_rules) (auto simp: harmless_def stop_command_def rm_command_def)

lemma stage_neutral [frame_rules]: "frame neutral (stage S)"
  unfolding stage_def stage_role_def copy_to_def Let_def
  by (intro frame_rules) (auto simp: harmless_def stop_command_def rm_command_def)

lemma create_neutral [frame_rules]: "frame neutral (create S)"
proof -
  have h: "harmless argv" if "render_container_argv P c role lock src gid = ret argv" for P c role lock src gid argv
  proof -
    from that have "take 3 argv = [''docker'', ''container'', ''create'']"
      unfolding render_container_argv_def bind_eq_ret by (auto simp: create_prefix_def)
    then show ?thesis by (rule harmless_take) simp_all
  qed
  show ?thesis
    unfolding create_def create_role_def by (rule frame_seq_run frame_rules | (rule h, simp))+
qed

lemma start_neutral: "frame neutral (on_container S role start_command)"
  unfolding on_container_def by (intro frame_rules) (simp add: harmless_def stop_command_def rm_command_def start_command_def)

lemma start_pair_neutral [frame_rules]: "frame neutral (start_pair S)"
  unfolding start_pair_def start_role_def by (intro start_neutral frame_rules)

lemma await_ready_neutral [frame_rules]: "frame neutral (await_ready S api n)"
proof (induction n)
  case (Suc n)
  show ?case unfolding await_ready.simps by (intro frame_rules Suc) (auto simp: curl_command_def)
qed (simp add: frame_throw pre_neutral)

lemma verify_neutral [frame_rules]: "frame neutral (verify S b)" "frame neutral (verify_rollback S olds)"
  unfolding verify_def verify_role_def verify_rollback_def by (intro frame_rules)+

lemma restore_role_neutral [frame_rules]: "frame neutral (restore_role S olds role)"
proof -
  have h: "harmless argv" if "create_args P old = ret argv" for P old argv
  proof -
    from that have "take 3 argv = [''docker'', ''container'', ''create'']"
      unfolding create_args_def bind_eq_ret obj_case_ret arr_case_ret ret_inject by auto
    then show ?thesis by (rule harmless_take) simp_all
  qed
  show ?thesis
    unfolding restore_role_def
    by (rule frame_seq_run frame_rules | erule h
      | simp add: harmless_def stop_command_def rm_command_def start_command_def)+
qed

subsection \<open>The invariant of a run\<close>

text \<open>
  Since the state \<open>s0\<close> every removal was lawful, the contracts are rendered ones, and the state file holds
  what it held or what the run wrote.
\<close>

definition lawful_run :: "site \<Rightarrow> string \<Rightarrow> engine \<Rightarrow> engine \<Rightarrow> bool" where
  "lawful_run S file s0 s \<longleftrightarrow> (\<exists>es. e_log s = e_log s0 @ es \<and> lawful S file s0 es
     \<and> set_option (e_disk s file) \<subseteq> state_docs file s0 es) \<and> contracts_ok S s"

text \<open>What the run has seen of a container, and what it may therefore remove.\<close>

definition seen :: "site \<Rightarrow> engine \<Rightarrow> string \<Rightarrow> dict \<Rightarrow> engine \<Rightarrow> bool" where
  "seen S s0 role insp s \<longleftrightarrow> (\<exists>es asked. e_log s = e_log s0 @ es \<and> saw (s_python S) es role asked insp)"

definition may_remove :: "site \<Rightarrow> string \<Rightarrow> engine \<Rightarrow> string \<Rightarrow> string \<Rightarrow> engine \<Rightarrow> bool" where
  "may_remove S file s0 role name s \<longleftrightarrow>
     (\<exists>es. e_log s = e_log s0 @ es \<and> permit S (state_docs file s0 es) es role name)"

definition may_remove_own :: "site \<Rightarrow> string \<Rightarrow> engine \<Rightarrow> string \<Rightarrow> engine \<Rightarrow> bool" where
  "may_remove_own S file s0 role s \<longleftrightarrow>
     (\<forall>name. name_of (s_python S) (e_contracts s role) = ret name \<longrightarrow> may_remove S file s0 role name s)"

lemma lawful_neutral:
  assumes "lawful_run S file s0 s" and "neutral s t"
  shows "lawful_run S file s0 t"
proof -
  from assms obtain es fs where "e_log s = e_log s0 @ es" "lawful S file s0 es"
    "set_option (e_disk s file) \<subseteq> state_docs file s0 es" "e_log t = e_log s @ fs"
    "\<forall>e\<in>set fs. \<forall>role name. \<not> removes e role name" "e_disk t = e_disk s" "e_contracts t = e_contracts s"
    unfolding lawful_run_def neutral_def by blast
  with assms(1) lawful_append show ?thesis
    unfolding lawful_run_def contracts_ok_def by (auto simp: state_docs_append intro!: exI [of _ "es @ fs"])
qed

lemma neutral_lawful: "frame neutral m \<Longrightarrow> hoare (lawful_run S file s0) m (\<lambda>_. lawful_run S file s0) (\<lambda>_. lawful_run S file s0)"
  unfolding frame_invariant [symmetric] by (erule frame_mono) (blast intro: lawful_neutral)

lemma may_remove_grows:
  assumes "may_remove S file s0 role name s" and "e_log t = e_log s @ fs"
  shows "may_remove S file s0 role name t"
proof -
  from assms(1) obtain es where "e_log s = e_log s0 @ es" "permit S (state_docs file s0 es) es role name"
    unfolding may_remove_def by blast
  with assms(2) permit_mono [of S "state_docs file s0 es" es role name "es @ fs"] state_docs_mono [of es "es @ fs"]
  show ?thesis unfolding may_remove_def by (intro exI [of _ "es @ fs"]) auto
qed

lemma lawful_inspect:
  "hoare (lawful_run S file s0) (inspect S role b)
     (\<lambda>x s. lawful_run S file s0 s \<and> (\<forall>insp. x = Some insp \<longrightarrow> seen S s0 role insp s)) (\<lambda>_. lawful_run S file s0)"
proof -
  have l: "lawful_run S file s0 t" if "lawful_run S file s0 s" "inspect S role b s = (r, t)" for s r t
    using lawful_neutral [OF that(1) frameD [OF inspect_neutral that(2)]] .
  have "seen S s0 role insp t" if J: "lawful_run S file s0 s" and i: "inspect S role b s = (ret (Some insp), t)" for s insp t
  proof -
    from J obtain es where "e_log s = e_log s0 @ es" unfolding lawful_run_def by blast
    with i show ?thesis
      by (cases rule: inspect_cases) (auto simp: seen_def saw_def intro!: exI [of _ "es @ [_]"])
  qed
  with l show ?thesis
    unfolding hoare_def by (auto split: prod.split option.split sum.split simp: ret_def raise_def)
qed

text \<open>An owned container may be removed under the name of its contract.\<close>

lemma lawful_assert_owned:
  assumes "role \<in> set ROLES"
  shows "hoare (\<lambda>s. lawful_run S file s0 s \<and> seen S s0 role insp s) (assert_owned S role insp)
     (\<lambda>_ s. lawful_run S file s0 s \<and> may_remove_own S file s0 role s) (\<lambda>_. lawful_run S file s0)"
proof -
  have "may_remove_own S file s0 role s"
    if J: "lawful_run S file s0 s" and seen: "seen S s0 role insp s"
      and o: "owned (s_python S) (mode (s_dep S)) role (e_contracts s role) insp = ret ()" for s
  proof -
    from J have "contracts_ok S s" by (simp add: lawful_run_def)
    from owned_owns [OF this assms o] seen show ?thesis
      by (auto simp: may_remove_own_def may_remove_def seen_def permit_def)
  qed
  then show ?thesis
    by (auto simp: hoare_def assert_owned_def seq_def asks_def run_def lift_def ret_def sum.map_id split: option.split sum.split)
qed

lemma lawful_step:
  assumes J: "lawful_run S file s0 s" and m: "may_remove S file s0 role name s"
    and c: "c = stop_command name \<or> c = rm_command name"
  shows "lawful_run S file s0 (logged [Ran role c r] s)" and "may_remove S file s0 role name (logged [Ran role c r] s)"
proof -
  let ?e = "Ran role c r"
  from J obtain es where es: "e_log s = e_log s0 @ es" "lawful S file s0 es"
    "set_option (e_disk s file) \<subseteq> state_docs file s0 es" "contracts_ok S s"
    unfolding lawful_run_def by blast
  from m es(1) have p: "permit S (state_docs file s0 es) es role name" by (auto simp: may_remove_def)
  have "n = name \<and> q = role" if "removes ?e q n" for q n
    using that c by (auto simp: removes_def stop_command_def rm_command_def)
  with p have "lawful S file s0 (es @ [?e])" by (intro lawful_snoc es(2)) auto
  with es show "lawful_run S file s0 (logged [?e] s)"
    unfolding lawful_run_def contracts_ok_def by (auto simp: state_docs_append intro!: exI [of _ "es @ [?e]"])
  show "may_remove S file s0 role name (logged [?e] s)" by (rule may_remove_grows [OF m]) simp
qed

lemma lawful_removal:
  assumes "c = stop_command name \<or> c = rm_command name"
  shows "hoare (\<lambda>s. lawful_run S file s0 s \<and> may_remove S file s0 role name s) (remote S role c)
     (\<lambda>_ s. lawful_run S file s0 s \<and> may_remove S file s0 role name s) (\<lambda>_. lawful_run S file s0)"
  using lawful_step assms unfolding hoare_def remote_run by (auto split: option.split sum.split)

lemma lawful_on_container:
  assumes "\<And>name. c name = stop_command name \<or> c name = rm_command name"
  shows "hoare (\<lambda>s. lawful_run S file s0 s \<and> may_remove_own S file s0 role s) (on_container S role c)
     (\<lambda>_ s. lawful_run S file s0 s \<and> may_remove_own S file s0 role s) (\<lambda>_. lawful_run S file s0)"
  unfolding hoare_def
proof (intro allI impI)
  fix s
  assume s: "lawful_run S file s0 s \<and> may_remove_own S file s0 role s"
  show "case on_container S role c s of (Some (Inr x), t) \<Rightarrow> lawful_run S file s0 t \<and> may_remove_own S file s0 role t
    | (Some (Inl e), t) \<Rightarrow> lawful_run S file s0 t | (None, t) \<Rightarrow> lawful_run S file s0 t"
  proof (cases "name_of (s_python S) (e_contracts s role)" rule: comp_cases)
    case (returned name)
    let ?r = "outcome S (e_log s) role (c name)"
    let ?t = "logged [Ran role (c name) ?r] s"
    from s returned have "may_remove S file s0 role name s" by (simp add: may_remove_own_def)
    from lawful_step [OF _ this assms] s have "lawful_run S file s0 ?t" "may_remove S file s0 role name ?t" by auto
    moreover from this(2) returned have "may_remove_own S file s0 role ?t" by (simp add: may_remove_own_def)
    moreover from returned have "on_container S role c s = (case ?r of None \<Rightarrow> None | Some (Inl e) \<Rightarrow> Some (Inl e) | Some (Inr _) \<Rightarrow> ret (), ?t)"
      by (auto simp: on_container_def seq_def asks_def run_def lift_def remote_run give_def ret_def split: option.split sum.split)
    ultimately show ?thesis by (auto simp: ret_def split: option.split sum.split)
  qed (use s in \<open>simp_all add: on_container_def seq_def asks_def run_def lift_def raise_def ret_def\<close>)
qed

end
