(* ===== verification/Engine_Law.thy ===== *)
theory Engine_Law
  imports Engine_Own
begin

text \<open>
  Every operation of the engine removes lawfully: what it stops or removes, an earlier inspection of the
  same run showed to belong to this deployment, its lock or the captured state.
\<close>

abbreviation keeps_law :: "site \<Rightarrow> string \<Rightarrow> engine \<Rightarrow> 'a eng \<Rightarrow> bool" where
  "keeps_law S file s0 m \<equiv> frame (\<lambda>s t. lawful_run S file s0 s \<longrightarrow> lawful_run S file s0 t) m"

lemma neutral_keeps: "frame neutral m \<Longrightarrow> keeps_law S file s0 m"
  by (erule frame_mono) (blast intro: lawful_neutral)

lemmas law_rules = inspect_neutral [THEN neutral_keeps] preflight_neutral [THEN neutral_keeps]
  fabric_preflight_neutral [THEN neutral_keeps] capture_neutral [THEN neutral_keeps]
  fabric_role_neutral [THEN neutral_keeps] restore_fabric_neutral [THEN neutral_keeps]
  remove_legacy_neutral [THEN neutral_keeps] stage_neutral [THEN neutral_keeps] create_neutral [THEN neutral_keeps]
  start_pair_neutral [THEN neutral_keeps] verify_neutral [THEN neutral_keeps] restore_role_neutral [THEN neutral_keeps]

lemma keeps_hoare: "hoare (lawful_run S file s0) m (\<lambda>_. lawful_run S file s0) (\<lambda>_. lawful_run S file s0) \<Longrightarrow> keeps_law S file s0 m"
  by (simp add: frame_invariant)

text \<open>An operation that inspects a container, checks that it is owned and then removes it.\<close>

lemma lawful_owned_removal:
  assumes role: "role \<in> set ROLES"
    and body: "\<And>insp. hoare (\<lambda>s. lawful_run S file s0 s \<and> may_remove_own S file s0 role s) (m insp)
      (\<lambda>_. lawful_run S file s0) (\<lambda>_. lawful_run S file s0)"
  shows "keeps_law S file s0 (seq (inspect S role True) (\<lambda>insp.
       case insp of None \<Rightarrow> give () | Some insp \<Rightarrow> seq (assert_owned S role insp) (\<lambda>_. m insp)))"
proof (rule keeps_hoare, rule hoare_seq_fwd [OF lawful_inspect])
  fix x
  show "hoare (\<lambda>s. lawful_run S file s0 s \<and> (\<forall>insp. x = Some insp \<longrightarrow> seen S s0 role insp s))
      (case x of None \<Rightarrow> give () | Some insp \<Rightarrow> seq (assert_owned S role insp) (\<lambda>_. m insp))
      (\<lambda>_. lawful_run S file s0) (\<lambda>_. lawful_run S file s0)"
  proof (cases x)
    case None
    then show ?thesis by (simp add: hoare_def give_def ret_def)
  next
    case (Some insp)
    then show ?thesis using hoare_seq_fwd [OF lawful_assert_owned [OF role] body] by simp
  qed
qed

lemma lawful_on: "hoare (\<lambda>s. lawful_run S file s0 s \<and> may_remove_own S file s0 role s) (on_container S role stop_command)
     (\<lambda>_ s. lawful_run S file s0 s \<and> may_remove_own S file s0 role s) (\<lambda>_. lawful_run S file s0)"
  "hoare (\<lambda>s. lawful_run S file s0 s \<and> may_remove_own S file s0 role s) (on_container S role rm_command)
     (\<lambda>_ s. lawful_run S file s0 s \<and> may_remove_own S file s0 role s) (\<lambda>_. lawful_run S file s0)"
  by (rule lawful_on_container; simp)+

lemma give_post: "(\<And>s. P s \<Longrightarrow> Q () s) \<Longrightarrow> hoare P (give ()) Q R"
  by (simp add: hoare_def give_def ret_def)

lemma lawful_stop: "keeps_law S file s0 (stop_owned S)"
  unfolding stop_owned_def stop_role_def
  by (intro frame_rules lawful_owned_removal)
    (auto intro: hoare_weaken [OF lawful_on(1)] give_post)

lemma lawful_remove: "keeps_law S file s0 (remove_owned S)"
  unfolding remove_owned_def remove_role_def
  by (intro frame_rules lawful_owned_removal) (auto intro: hoare_weaken [OF lawful_on(2)])

lemma lawful_cleanup: "keeps_law S file s0 (cleanup_partial S)"
proof -
  have body: "hoare (\<lambda>s. lawful_run S file s0 s \<and> may_remove_own S file s0 role s)
      (seq (if is_running insp then on_container S role stop_command else give ()) (\<lambda>_. on_container S role rm_command))
      (\<lambda>_. lawful_run S file s0) (\<lambda>_. lawful_run S file s0)" for role insp
  proof (rule hoare_seq_fwd)
    show "hoare (\<lambda>s. lawful_run S file s0 s \<and> may_remove_own S file s0 role s)
        (if is_running insp then on_container S role stop_command else give ())
        (\<lambda>_ s. lawful_run S file s0 s \<and> may_remove_own S file s0 role s) (\<lambda>_. lawful_run S file s0)"
      by (auto intro: lawful_on give_post)
  qed (auto intro: hoare_weaken [OF lawful_on(2)])
  show ?thesis
    unfolding cleanup_partial_def cleanup_role_def by (intro frame_rules lawful_owned_removal body)
qed

text \<open>The contracts stay rendered ones, and the state file keeps to what is known.\<close>

lemma lawful_refresh: "keeps_law S file s0 (refresh_contracts S)"
proof -
  have "contracts_ok S t" if "render_contracts (s_python S) (s_config S) (s_lock S) gids = ret cs" "e_contracts t = cs" for gids cs t
  proof -
    from that obtain w h where "render_contract (s_python S) (s_config S) ''worker'' (Some (s_lock S)) (gids ''worker'') = ret w"
      "render_contract (s_python S) (s_config S) ''head'' (Some (s_lock S)) (gids ''head'') = ret h"
      "e_contracts t = (\<lambda>_. [])(''worker'' := w, ''head'' := h)"
      unfolding render_contracts_def by (auto simp: bind_eq_ret)
    then show ?thesis by (auto simp: contracts_ok_def ROLES_def)
  qed
  then show ?thesis
    unfolding refresh_contracts_def
    by (rule_tac frame_seq [OF pre_invariant frame_asks [OF pre_invariant]], rule_tac frame_seq_run [OF pre_invariant],
        rule_tac frame_change) (auto simp: lawful_run_def)
qed

lemma lawful_save: "keeps_law S file s0 (save S file content)"
proof -
  let ?t = "\<lambda>s. s\<lparr>e_log := e_log s @ [Saved file content], e_disk := (e_disk s)(file \<mapsto> content)\<rparr>"
  have "lawful_run S file s0 (?t s)" if J: "lawful_run S file s0 s" for s
  proof -
    from J obtain es where "e_log s = e_log s0 @ es" "lawful S file s0 es" "contracts_ok S s"
      unfolding lawful_run_def by blast
    with lawful_append [of S "file" s0 es "[Saved file content]"] show ?thesis
      unfolding lawful_run_def contracts_ok_def
      by (auto simp: removes_def state_docs_append intro!: exI [of _ "es @ [Saved file content]"])
  qed
  then show ?thesis by (simp add: frame_def save_def change_def throw_def)
qed

lemma lawful_capture: "keeps_law S file s0 (capture_rollback S file)"
  unfolding capture_rollback_def Let_def by (intro law_rules lawful_save frame_rules)

lemma lawful_link: "keeps_law S file s0 (apply_link S)"
  unfolding apply_link_def by (intro law_rules lawful_refresh frame_rules)

lemma lawful_deploy: "keeps_law S file s0 (deploy S upd)"
  unfolding deploy_def by (intro law_rules lawful_link lawful_stop lawful_remove frame_rules)

subsection \<open>Rollback\<close>

text \<open>A text that the state file holds or held in this run.\<close>

definition known :: "string \<Rightarrow> engine \<Rightarrow> string \<Rightarrow> engine \<Rightarrow> bool" where
  "known file s0 doc s \<longleftrightarrow> (\<exists>es. e_log s = e_log s0 @ es \<and> doc \<in> state_docs file s0 es)"

lemma known_grows: "known file s0 doc s \<Longrightarrow> e_log t = e_log s @ fs \<Longrightarrow> known file s0 doc t"
  by (auto simp: known_def state_docs_append)

lemma known_disk: "lawful_run S file s0 s \<Longrightarrow> e_disk s file = Some doc \<Longrightarrow> known file s0 doc s"
  by (auto simp: lawful_run_def known_def)

abbreviation law_known :: "site \<Rightarrow> string \<Rightarrow> engine \<Rightarrow> string \<Rightarrow> engine \<Rightarrow> bool" where
  "law_known S file s0 doc s \<equiv> lawful_run S file s0 s \<and> known file s0 doc s"

lemma neutral_known: "neutral s t \<Longrightarrow> law_known S file s0 doc s \<Longrightarrow> law_known S file s0 doc t"
  using lawful_neutral known_grows unfolding neutral_def by metis

lemma replaceable_may_remove:
  assumes law: "law_known S file s0 doc s" and role: "role \<in> set ROLES"
    and st: "read_state (s_python S) (s_config S) (Some doc) = ret st" and old: "item (subdict st ''roles'') role = JObj old"
    and seen: "seen S s0 role insp s"
    and r: "replaceable (s_python S) role (e_contracts s role) old insp = ret ()"
  shows "may_remove S file s0 role (text_of (s_python S) old ''name'') s"
proof -
  let ?P = "s_python S"
  from r obtain labels ls where n: "container_of ?P insp = text_of ?P old ''name''" and l: "labels_of ?P insp = ret labels"
    "item old ''labels'' = JObj ls"
    and w: "current_owner labels (e_contracts s role) role
      \<or> py_eq (str_dict labels) (str_dict (map (\<lambda>(k, v). (k, py_str ?P v)) ls))"
    unfolding replaceable_def bind_eq_ret check_ret obj_case_ret by blast
  have "owns S role insp \<or> recorded S doc role insp"
    using w
  proof
    assume cur: "current_owner labels (e_contracts s role) role"
    from law role obtain gid where "render_contract ?P (s_config S) role (Some (s_lock S)) gid = ret (e_contracts s role)"
      by (auto simp: lawful_run_def contracts_ok_def)
    then have "item (e_contracts s role) ''deployment_id'' = JStr (this_deployment S)" by (rule render_contract_facts)
    from labels_facts [OF cur this] l(1) show ?thesis by (auto simp: owns_def)
  next
    assume "py_eq (str_dict labels) (str_dict (map (\<lambda>(k, v). (k, py_str ?P v)) ls))"
    with st old n l show ?thesis unfolding recorded_def by blast
  qed
  moreover from law seen obtain es asked where es: "e_log s = e_log s0 @ es" "doc \<in> state_docs file s0 es"
    "saw ?P es role asked insp"
    by (auto simp: known_def seen_def)
  ultimately show ?thesis using n unfolding may_remove_def permit_def by blast
qed

lemma lawful_stop_and_remove:
  "hoare (\<lambda>s. lawful_run S file s0 s \<and> may_remove S file s0 role name s) (stop_and_remove S role insp name)
     (\<lambda>_. lawful_run S file s0) (\<lambda>_. lawful_run S file s0)"
  unfolding stop_and_remove_def
proof (rule hoare_seq_fwd)
  show "hoare (\<lambda>s. lawful_run S file s0 s \<and> may_remove S file s0 role name s)
      (if is_running insp then seq (remote S role (stop_command name)) (\<lambda>_. give ()) else give ())
      (\<lambda>_ s. lawful_run S file s0 s \<and> may_remove S file s0 role name s) (\<lambda>_. lawful_run S file s0)"
    by (auto intro!: give_post hoare_seq_fwd [OF lawful_removal])
qed (auto intro!: give_post hoare_seq_fwd [OF lawful_removal])

lemma lawful_remove_target:
  assumes role: "role \<in> set ROLES" and st: "read_state (s_python S) (s_config S) (Some doc) = ret st"
    and old: "item (subdict st ''roles'') role = JObj (olds role)"
  shows "hoare (law_known S file s0 doc) (remove_target S olds role) (\<lambda>_. law_known S file s0 doc) (\<lambda>_. lawful_run S file s0)"
proof -
  let ?J = "lawful_run S file s0"
  have known: "frame (\<lambda>s t. known file s0 doc s \<longrightarrow> known file s0 doc t) (remove_target S olds role)"
  proof -
    have "appends UNIV (remove_target S olds role)"
      unfolding remove_target_def stop_and_remove_def by (intro frame_rules) simp_all
    then show ?thesis by (rule frame_mono) (auto simp: extends_def intro: known_grows)
  qed
  have h1: "hoare (law_known S file s0 doc) (remove_target S olds role) (\<lambda>_. ?J) (\<lambda>_. ?J)"
    unfolding remove_target_def
  proof (rule hoare_seq_fwd)
    show "hoare (law_known S file s0 doc) (inspect S role True)
        (\<lambda>x s. (?J s \<and> (\<forall>insp. x = Some insp \<longrightarrow> seen S s0 role insp s)) \<and> known file s0 doc s) (\<lambda>_. ?J)"
    proof -
      have k: "hoare (known file s0 doc) (inspect S role True) (\<lambda>_. known file s0 doc) (\<lambda>_. known file s0 doc)"
        unfolding frame_invariant [symmetric]
        by (rule frame_mono [OF inspect_quiet]) (auto simp: extends_def intro: known_grows)
      show ?thesis
        by (rule hoare_pre [OF hoare_weaken [OF hoare_conj [OF lawful_inspect k]]]) auto
    qed
    fix x
    show "hoare (\<lambda>s. (?J s \<and> (\<forall>insp. x = Some insp \<longrightarrow> seen S s0 role insp s)) \<and> known file s0 doc s)
      (case x of None \<Rightarrow> give () | Some insp \<Rightarrow> seq (asks (\<lambda>s. e_contracts s role)) (\<lambda>contract.
           seq (run (replaceable (s_python S) role contract (olds role) insp)) (\<lambda>_.
             stop_and_remove S role insp (text_of (s_python S) (olds role) ''name'')))) (\<lambda>_. ?J) (\<lambda>_. ?J)"
    proof (cases x)
      case None
      then show ?thesis by (auto intro: give_post)
    next
      case (Some insp)
      let ?m = "stop_and_remove S role insp (text_of (s_python S) (olds role) ''name'')"
      show ?thesis
        unfolding hoare_def
      proof (intro allI impI)
        fix s
        assume s: "(?J s \<and> (\<forall>insp. x = Some insp \<longrightarrow> seen S s0 role insp s)) \<and> known file s0 doc s"
        let ?r = "replaceable (s_python S) role (e_contracts s role) (olds role) insp"
        have eq: "(case x of None \<Rightarrow> give () | Some insp \<Rightarrow> seq (asks (\<lambda>s. e_contracts s role)) (\<lambda>contract.
           seq (run (replaceable (s_python S) role contract (olds role) insp)) (\<lambda>_.
             stop_and_remove S role insp (text_of (s_python S) (olds role) ''name'')))) s = seq (run ?r) (\<lambda>_. ?m) s"
          by (simp add: Some seq_def asks_def ret_def)
        show "case (case x of None \<Rightarrow> give () | Some insp \<Rightarrow> seq (asks (\<lambda>s. e_contracts s role)) (\<lambda>contract.
           seq (run (replaceable (s_python S) role contract (olds role) insp)) (\<lambda>_.
             stop_and_remove S role insp (text_of (s_python S) (olds role) ''name'')))) s
          of (Some (Inr x), t) \<Rightarrow> ?J t | (Some (Inl e), t) \<Rightarrow> ?J t | (None, t) \<Rightarrow> ?J t"
        proof (cases ?r rule: comp_cases)
          case (returned u)
          with s Some role st old have "may_remove S file s0 role (text_of (s_python S) (olds role) ''name'') s"
            by (intro replaceable_may_remove) auto
          with lawful_stop_and_remove s returned show ?thesis
            unfolding eq by (simp add: seq_def run_def lift_def ret_def hoare_def)
        next
          case (raises e)
          with s show ?thesis unfolding eq by (simp add: seq_def run_def lift_def raise_def)
        next
          case never
          with s show ?thesis unfolding eq by (simp add: seq_def run_def lift_def)
        qed
      qed
    qed
  qed
  have h2: "hoare (known file s0 doc) (remove_target S olds role) (\<lambda>_. known file s0 doc) (\<lambda>_. known file s0 doc)"
    using known by (simp add: frame_invariant)
  have both: "hoare (\<lambda>s. law_known S file s0 doc s \<and> known file s0 doc s) (remove_target S olds role)
      (\<lambda>_. law_known S file s0 doc) (\<lambda>_ s. ?J s \<and> known file s0 doc s)"
    by (rule hoare_conj [OF h1 h2])
  show ?thesis by (rule hoare_pre [OF hoare_weaken [OF both]]) auto
qed

lemma lawful_remove_targets:
  assumes "read_state (s_python S) (s_config S) (Some doc) = ret st"
    and "\<And>role. role \<in> set ROLES \<Longrightarrow> item (subdict st ''roles'') role = JObj (olds role)"
  shows "hoare (law_known S file s0 doc) (remove_rollback_targets S olds) (\<lambda>_. law_known S file s0 doc) (\<lambda>_. lawful_run S file s0)"
  unfolding remove_rollback_targets_def using assms by (intro hoare_each lawful_remove_target)

text \<open>Without a captured pair both containers are inspected before one is removed.\<close>

lemma may_own_grows:
  assumes "frame (\<lambda>s t. (\<exists>es. e_log t = e_log s @ es) \<and> e_contracts t = e_contracts s) m"
  shows "hoare (may_remove_own S file s0 role) m (\<lambda>_. may_remove_own S file s0 role) (\<lambda>_. may_remove_own S file s0 role)"
  unfolding frame_invariant [symmetric]
  by (rule frame_mono [OF assms]) (auto simp: may_remove_own_def intro: may_remove_grows)

definition removable :: "site \<Rightarrow> string \<Rightarrow> engine \<Rightarrow> string \<times> dict option \<Rightarrow> engine \<Rightarrow> bool" where
  "removable S file s0 x s \<longleftrightarrow> (snd x \<noteq> None \<longrightarrow> may_remove_own S file s0 (fst x) s)"

lemma lawful_inspect_owned:
  assumes role: "role \<in> set ROLES"
  shows "hoare (lawful_run S file s0) (inspect_owned S role) (\<lambda>x s. lawful_run S file s0 s \<and> removable S file s0 x s)
     (\<lambda>_. lawful_run S file s0)"
  unfolding inspect_owned_def
proof (rule hoare_seq_fwd [OF lawful_inspect])
  fix x
  let ?Q = "\<lambda>y s. lawful_run S file s0 s \<and> removable S file s0 y s"
  show "hoare (\<lambda>s. lawful_run S file s0 s \<and> (\<forall>insp. x = Some insp \<longrightarrow> seen S s0 role insp s))
     (case x of None \<Rightarrow> give (role, None) | Some i \<Rightarrow> seq (assert_owned S role i) (\<lambda>_. give (role, x))) ?Q (\<lambda>_. lawful_run S file s0)"
  proof (cases x)
    case None
    then show ?thesis by (simp add: hoare_def give_def ret_def removable_def)
  next
    case (Some insp)
    have "hoare (\<lambda>s. lawful_run S file s0 s \<and> seen S s0 role insp s) (seq (assert_owned S role insp) (\<lambda>_. give (role, x)))
        ?Q (\<lambda>_. lawful_run S file s0)"
      by (rule hoare_seq_fwd [OF lawful_assert_owned [OF role]]) (simp add: hoare_def give_def ret_def removable_def)
    then show ?thesis using Some by simp
  qed
qed

lemma neutral_grows: "frame neutral m \<Longrightarrow> frame (\<lambda>s t. (\<exists>es. e_log t = e_log s @ es) \<and> e_contracts t = e_contracts s) m"
  by (erule frame_mono) (auto simp: neutral_def)

lemma inspect_owned_neutral: "frame neutral (inspect_owned S role)"
  unfolding inspect_owned_def by (intro frame_rules)

lemma hoare_collect_all:
  assumes "\<And>x. x \<in> set xs \<Longrightarrow> hoare I (f x) (\<lambda>y s. I s \<and> D y s) (\<lambda>_. I)"
    and "\<And>x y. x \<in> set xs \<Longrightarrow> hoare (D y) (f x) (\<lambda>_. D y) (\<lambda>_. D y)"
  shows "hoare I (collect f xs) (\<lambda>ys s. I s \<and> (\<forall>y\<in>set ys. D y s)) (\<lambda>_. I)"
  using assms
proof (induction xs)
  case (Cons x xs)
  show ?case unfolding collect.simps
  proof (rule hoare_seq_fwd)
    show "hoare I (f x) (\<lambda>y s. I s \<and> D y s) (\<lambda>_. I)" using Cons.prems(1) by simp
    fix y
    have "hoare I (collect f xs) (\<lambda>ys s. I s \<and> (\<forall>y\<in>set ys. D y s)) (\<lambda>_. I)" using Cons by simp
    moreover have "hoare (D y) (collect f xs) (\<lambda>_. D y) (\<lambda>_. D y)"
      using Cons.prems(2) by (intro hoare_collect) simp
    ultimately have "hoare (\<lambda>s. I s \<and> D y s) (collect f xs) (\<lambda>ys s. (I s \<and> (\<forall>y\<in>set ys. D y s)) \<and> D y s) (\<lambda>_ s. I s \<and> D y s)"
      by (rule hoare_conj)
    from hoare_weaken [OF this, of "\<lambda>ys s. I s \<and> (\<forall>z\<in>set (y # ys). D z s)" "\<lambda>_. I"]
    have "hoare (\<lambda>s. I s \<and> D y s) (collect f xs) (\<lambda>ys s. I s \<and> (\<forall>z\<in>set (y # ys). D z s)) (\<lambda>_. I)" by simp
    then show "hoare (\<lambda>s. I s \<and> D y s) (seq (collect f xs) (\<lambda>ys. give (y # ys))) (\<lambda>ys s. I s \<and> (\<forall>y\<in>set ys. D y s)) (\<lambda>_. I)"
      by (rule hoare_seq_fwd) (rule hoare_give)
  qed
qed (simp add: hoare_def give_def ret_def)

lemma stop_and_remove_grows:
  "frame (\<lambda>s t. (\<exists>es. e_log t = e_log s @ es) \<and> e_contracts t = e_contracts s) (stop_and_remove S role insp name)"
proof -
  have p: "pre (\<lambda>s t :: engine. (\<exists>es. e_log t = e_log s @ es) \<and> e_contracts t = e_contracts s)" by (auto simp: pre_def)
  have "frame (\<lambda>s t. (\<exists>es. e_log t = e_log s @ es) \<and> e_contracts t = e_contracts s) (remote S r c)" for r c
    by (simp add: frame_def remote_run)
  then show ?thesis unfolding stop_and_remove_def by (intro frame_rules p)
qed

lemma lawful_remove_inspected:
  "hoare (\<lambda>s. lawful_run S file s0 s \<and> removable S file s0 x s) (remove_inspected S x) (\<lambda>_. lawful_run S file s0)
     (\<lambda>_. lawful_run S file s0)"
proof -
  obtain role insp where x: "x = (role, insp)" by force
  show ?thesis
  proof (cases insp)
    case None
    then show ?thesis by (simp add: x remove_inspected_def hoare_def give_def ret_def)
  next
    case (Some i)
    show ?thesis
      unfolding hoare_def
    proof (intro allI impI)
      fix s
      assume s: "lawful_run S file s0 s \<and> removable S file s0 x s"
      let ?n = "name_of (s_python S) (e_contracts s role)"
      have eq: "remove_inspected S x s = seq (run ?n) (\<lambda>name. stop_and_remove S role i name) s"
        by (simp add: x Some remove_inspected_def seq_def asks_def ret_def)
      show "case remove_inspected S x s of (Some (Inr x), t) \<Rightarrow> lawful_run S file s0 t
        | (Some (Inl e), t) \<Rightarrow> lawful_run S file s0 t | (None, t) \<Rightarrow> lawful_run S file s0 t"
      proof (cases ?n rule: comp_cases)
        case (returned name)
        with s have "may_remove S file s0 role name s" by (simp add: removable_def x Some may_remove_own_def)
        with s have "case stop_and_remove S role i name s of (Some (Inr x), t) \<Rightarrow> lawful_run S file s0 t
          | (Some (Inl e), t) \<Rightarrow> lawful_run S file s0 t | (None, t) \<Rightarrow> lawful_run S file s0 t"
          by (intro lawful_stop_and_remove [unfolded hoare_def, rule_format]) simp
        with returned show ?thesis unfolding eq by (simp add: seq_def run_def lift_def ret_def)
      next
        case (raises e)
        with s show ?thesis unfolding eq by (simp add: seq_def run_def lift_def raise_def)
      next
        case never
        with s show ?thesis unfolding eq by (simp add: seq_def run_def lift_def)
      qed
    qed
  qed
qed

lemma removable_grows:
  assumes "frame (\<lambda>s t. (\<exists>es. e_log t = e_log s @ es) \<and> e_contracts t = e_contracts s) m"
  shows "hoare (removable S file s0 x) m (\<lambda>_. removable S file s0 x) (\<lambda>_. removable S file s0 x)"
  unfolding frame_invariant [symmetric]
  by (rule frame_mono [OF assms]) (auto simp: removable_def may_remove_own_def intro: may_remove_grows)

lemma remove_inspected_grows:
  "frame (\<lambda>s t. (\<exists>es. e_log t = e_log s @ es) \<and> e_contracts t = e_contracts s) (remove_inspected S x)"
proof -
  have p: "pre (\<lambda>s t :: engine. (\<exists>es. e_log t = e_log s @ es) \<and> e_contracts t = e_contracts s)" by (auto simp: pre_def)
  show ?thesis unfolding remove_inspected_def by (intro frame_rules p stop_and_remove_grows)
qed

lemma lawful_remove_empty: "keeps_law S file s0 (remove_empty_rollback_targets S)"
  unfolding remove_empty_rollback_targets_def
proof (rule keeps_hoare, rule hoare_seq_fwd)
  let ?J = "lawful_run S file s0"
  let ?D = "removable S file s0"
  show "hoare ?J (collect (inspect_owned S) ROLES) (\<lambda>xs s. ?J s \<and> (\<forall>x\<in>set xs. ?D x s)) (\<lambda>_. ?J)"
    by (intro hoare_collect_all lawful_inspect_owned removable_grows neutral_grows inspect_owned_neutral)
  fix xs
  show "hoare (\<lambda>s. ?J s \<and> (\<forall>x\<in>set xs. ?D x s)) (seq (each (remove_inspected S) xs) (\<lambda>_.
       each (\<lambda>role. seq (inspect S role True) (\<lambda>i. gate (i = None) (give ()))) ROLES)) (\<lambda>_. ?J) (\<lambda>_. ?J)"
  proof (rule hoare_seq_fwd)
    show "hoare (\<lambda>s. ?J s \<and> (\<forall>x\<in>set xs. ?D x s)) (each (remove_inspected S) xs)
        (\<lambda>_ s. ?J s \<and> (\<forall>x\<in>set xs. ?D x s)) (\<lambda>_. ?J)"
    proof (rule hoare_each)
      fix x
      assume x: "x \<in> set xs"
      show "hoare (\<lambda>s. ?J s \<and> (\<forall>x\<in>set xs. ?D x s)) (remove_inspected S x) (\<lambda>_ s. ?J s \<and> (\<forall>x\<in>set xs. ?D x s)) (\<lambda>_. ?J)"
      proof (rule hoare_pre [OF hoare_ball [where I = "\<lambda>s. ?J s \<and> ?D x s"]])
        show "hoare (\<lambda>s. ?J s \<and> ?D x s) (remove_inspected S x) (\<lambda>_ s. ?J s) (\<lambda>_. ?J)" by (rule lawful_remove_inspected)
        fix y
        have "hoare (\<lambda>s. (?J s \<and> ?D x s) \<and> ?D y s) (remove_inspected S x) (\<lambda>_ s. ?J s \<and> ?D y s) (\<lambda>_ s. ?J s \<and> ?D y s)"
          by (intro hoare_conj lawful_remove_inspected removable_grows remove_inspected_grows)
        then show "hoare (\<lambda>s. (?J s \<and> ?D x s) \<and> ?D y s) (remove_inspected S x) (\<lambda>_. ?D y) (\<lambda>_. ?J)"
          by (rule hoare_weaken) simp_all
      qed (use x in auto)
    qed
    have "keeps_law S file s0 (each (\<lambda>role. seq (inspect S role True) (\<lambda>i. gate (i = None) (give ()))) ROLES)"
      by (intro law_rules frame_rules)
    from this [unfolded frame_invariant] show "hoare (\<lambda>s. ?J s \<and> (\<forall>x\<in>set xs. ?D x s))
        (each (\<lambda>role. seq (inspect S role True) (\<lambda>i. gate (i = None) (give ()))) ROLES) (\<lambda>_. ?J) (\<lambda>_. ?J)"
      by (rule hoare_pre) simp
  qed
qed

lemma law_known_neutral:
  assumes "frame neutral m"
  shows "hoare (law_known S file s0 doc) m (\<lambda>_. law_known S file s0 doc) (\<lambda>_. lawful_run S file s0)"
proof -
  have "hoare (law_known S file s0 doc) m (\<lambda>_. law_known S file s0 doc) (\<lambda>_. law_known S file s0 doc)"
    unfolding frame_invariant [symmetric] by (rule frame_mono [OF assms]) (blast dest: neutral_known)
  then show ?thesis by (rule hoare_weaken) simp_all
qed

lemma lawful_rollback_pair:
  assumes st: "read_state (s_python S) (s_config S) (Some doc) = ret st"
  shows "hoare (law_known S file s0 doc) (rollback_pair S v (subdict st ''roles'')) (\<lambda>_. lawful_run S file s0) (\<lambda>_. lawful_run S file s0)"
proof -
  let ?K = "law_known S file s0 doc" and ?J = "lawful_run S file s0"
  have tail: "hoare ?K (let olds = (\<lambda>_. [])(''worker'' := w, ''head'' := h) in
      seq (each (\<lambda>role. seq (remote S role [''docker'', ''image'', ''inspect'', text_of (s_python S) (olds role) ''image''])
             (\<lambda>_. give ())) ROLES) (\<lambda>_.
      seq (restore_fabric_state S v) (\<lambda>_.
      seq (remove_rollback_targets S olds) (\<lambda>_.
      seq (each (restore_role S olds) ROLES) (\<lambda>_.
        verify_rollback S olds))))) (\<lambda>_. ?J) (\<lambda>_. ?J)"
    if wh: "item (subdict st ''roles'') ''worker'' = JObj w" "item (subdict st ''roles'') ''head'' = JObj h" for w h
  proof -
    let ?o = "(\<lambda>_. [])(''worker'' := w, ''head'' := h)"
    have 1: "frame neutral (each (\<lambda>role. seq (remote S role [''docker'', ''image'', ''inspect'', text_of (s_python S) (?o role) ''image''])
             (\<lambda>_. give ())) ROLES)"
      by (intro frame_rules) (auto simp: harmless_def stop_command_def rm_command_def)
    have 2: "frame neutral (seq (each (restore_role S ?o) ROLES) (\<lambda>_. verify_rollback S ?o))"
      by (intro frame_rules)
    show ?thesis
      unfolding Let_def
    proof (rule hoare_seq_fwd [OF law_known_neutral [OF 1]], rule hoare_seq_fwd [OF law_known_neutral [OF restore_fabric_neutral]],
        rule hoare_seq_fwd [OF lawful_remove_targets [OF st]])
      show "item (subdict st ''roles'') role = JObj (?o role)" if "role \<in> set ROLES" for role
        using that wh by (auto simp: ROLES_def)
      show "hoare ?K (seq (each (restore_role S ?o) ROLES) (\<lambda>_. verify_rollback S ?o)) (\<lambda>_. ?J) (\<lambda>_. ?J)"
        by (rule hoare_weaken [OF law_known_neutral [OF 2]]) simp_all
    qed
  qed
  have lift: "hoare P (seq (run m) f) Q R" if "\<And>x. m = ret x \<Longrightarrow> hoare P (f x) Q R" "\<And>s e. P s \<Longrightarrow> R e s"
    for P :: "engine \<Rightarrow> bool" and m :: "(failure, 'a) comp" and f :: "'a \<Rightarrow> unit eng" and Q R
    using that by (cases m rule: comp_cases) (auto simp: hoare_def seq_def run_def lift_def ret_def raise_def)
  show ?thesis
    unfolding rollback_pair_def gate_def
  proof (split if_split, intro conjI impI)
    show "hoare ?K (seq (run (check_old (item (subdict st ''roles'') ''worker''))) (\<lambda>w.
        seq (run (check_old (item (subdict st ''roles'') ''head''))) (\<lambda>h. let olds = (\<lambda>_. [])(''worker'' := w, ''head'' := h) in
      seq (each (\<lambda>role. seq (remote S role [''docker'', ''image'', ''inspect'', text_of (s_python S) (olds role) ''image''])
             (\<lambda>_. give ())) ROLES) (\<lambda>_.
      seq (restore_fabric_state S v) (\<lambda>_.
      seq (remove_rollback_targets S olds) (\<lambda>_.
      seq (each (restore_role S olds) ROLES) (\<lambda>_.
        verify_rollback S olds))))))) (\<lambda>_. ?J) (\<lambda>_. ?J)"
      by (rule lift, rule lift, rule tail) (simp_all add: check_old_ret)
  qed (simp add: hoare_def throw_def raise_def)
qed

lemma lawful_rollback_empty: "keeps_law S file s0 (rollback_empty S v)"
  unfolding rollback_empty_def by (intro law_rules lawful_remove_empty frame_rules)

lemma hoare_seq_run:
  assumes "\<And>x. m = ret x \<Longrightarrow> hoare P (f x) Q R" and "\<And>e s. P s \<Longrightarrow> R e s"
  shows "hoare P (seq (run m) f) Q R"
  using assms by (cases m rule: comp_cases) (auto simp: hoare_def seq_def run_def lift_def ret_def raise_def)

lemma lawful_rollback: "keeps_law S file s0 (rollback S file)"
proof (rule keeps_hoare)
  let ?J = "lawful_run S file s0"
  let ?body = "\<lambda>st. let roles = subdict st ''roles''; fabric_state = item st ''fabric'' in
       if item roles ''worker'' = JNull \<and> item roles ''head'' = JNull then rollback_empty S fabric_state
       else rollback_pair S fabric_state roles"
  have tail: "hoare (law_known S file s0 doc) (seq (run (read_state (s_python S) (s_config S) (Some doc))) ?body) (\<lambda>_. ?J) (\<lambda>_. ?J)" for doc
  proof (rule hoare_seq_run)
    fix st
    assume st: "read_state (s_python S) (s_config S) (Some doc) = ret st"
    have "hoare (law_known S file s0 doc) (rollback_empty S (item st ''fabric'')) (\<lambda>_. ?J) (\<lambda>_. ?J)"
      by (rule hoare_pre [OF lawful_rollback_empty [unfolded frame_invariant]]) simp
    with lawful_rollback_pair [OF st] show "hoare (law_known S file s0 doc) (?body st) (\<lambda>_. ?J) (\<lambda>_. ?J)"
      by (simp add: Let_def)
  qed simp
  show "hoare ?J (rollback S file) (\<lambda>_. ?J) (\<lambda>_. ?J)"
    unfolding hoare_def
  proof (intro allI impI)
    fix s
    assume J: "?J s"
    have eq: "rollback S file s = seq (run (read_state (s_python S) (s_config S) (e_disk s file))) ?body s"
      by (simp add: rollback_def seq_def asks_def ret_def)
    show "case rollback S file s of (Some (Inr x), t) \<Rightarrow> ?J t | (Some (Inl e), t) \<Rightarrow> ?J t | (None, t) \<Rightarrow> ?J t"
    proof (cases "e_disk s file")
      case None
      with J show ?thesis unfolding eq by (simp add: read_state_def seq_def run_def lift_def raise_def)
    next
      case (Some doc)
      with J have "law_known S file s0 doc s" by (auto intro: known_disk)
      with Some show ?thesis unfolding eq by (simp only:) (rule tail [unfolded hoare_def, rule_format])
    qed
  qed
qed

lemma lawful_apply: "keeps_law S file s0 (apply_deployment S file upd)"
  unfolding apply_deployment_def recovery_def
  by (intro law_rules lawful_capture lawful_deploy lawful_rollback lawful_cleanup frame_rules)

lemma lawful_start: "keeps_law S file s0 (start S)"
  unfolding start_def by (intro law_rules frame_rules)

lemma lawful_stop_pair: "keeps_law S file s0 (stop S)"
  unfolding stop_def by (rule lawful_stop)

subsection \<open>The operations\<close>

text \<open>The operations of the engine that the command line calls.\<close>

datatype operation = Apply bool | Rollback | Start | Stop | Apply_Fabric

fun perform :: "site \<Rightarrow> string \<Rightarrow> operation \<Rightarrow> unit eng" where
  "perform S file (Apply upd) = apply_deployment S file upd"
| "perform S file Rollback = rollback S file"
| "perform S file Start = start S"
| "perform S file Stop = stop S"
| "perform S file Apply_Fabric = apply_fabric S"

lemma lawful_perform: "keeps_law S file s0 (perform S file op)"
proof -
  have "keeps_law S file s0 (apply_fabric S)"
    unfolding apply_fabric_def by (intro law_rules lawful_link frame_rules)
  then show ?thesis
    by (cases op) (simp_all add: lawful_apply lawful_rollback lawful_start lawful_stop_pair)
qed

text \<open>The engine is created with rendered contracts.\<close>

lemma engine_init_ret:
  assumes "engine_init S disk = ret s"
  shows "contracts_ok S s" and "e_log s = []" and "e_disk s = disk" and "e_gids s = Map.empty"
  using assms
  by (auto simp: engine_init_def render_contracts_def bind_eq_ret escape_ret contracts_ok_def ROLES_def)

text \<open>
  C8. Whatever the hosts answer and however the operation ends, every container that an operation of a new engine
  stops or removes was shown before, by an inspection of the same run, to belong to this deployment, to its
  locked image, to the previous owner, or to the state captured for a rollback.
\<close>

theorem removals_authorised:
  assumes "engine_init S disk = ret s" and "perform S file op s = (r, t)"
  shows "lawful S file s (e_log t)"
proof -
  have "lawful_run S file s s"
    using engine_init_ret [OF assms(1)] by (auto simp: lawful_run_def lawful_Nil state_docs_def)
  with frameD [OF lawful_perform assms(2)] have "lawful_run S file s t" by blast
  with engine_init_ret(2) [OF assms(1)] show ?thesis by (auto simp: lawful_run_def)
qed

end
