(* ===== verification/Engine_Restore.thy ===== *)
theory Engine_Restore
  imports Engine_Law
begin

text \<open>
  What recovery and rollback achieve: a rollback that returns has found the recorded containers restored, a first
  deployment that fails and recovers has removed its containers, the captured state is one that a rollback accepts, and the
  wait for the service is bounded.
\<close>

subsection \<open>A rollback that returns\<close>

text \<open>
  What a restored container is, in terms of what Docker reports of it and of what was recorded.  Values are compared as
  Python compares them; the keys of a JSON object are distinct, so equally many labels of which each is
  recorded are the recorded ones; mounts are compared as a multiset.
\<close>

definition same_elements :: "json list \<Rightarrow> json list \<Rightarrow> bool" where
  "same_elements xs ys \<longleftrightarrow> list_all2 py_eq xs ys"

definition listed :: "json \<Rightarrow> json list \<Rightarrow> bool" where
  "listed v xs \<longleftrightarrow> (if truthy v then iterate v = ret xs else xs = [])"

definition same_label_texts :: "python \<Rightarrow> dict \<Rightarrow> dict \<Rightarrow> bool" where
  "same_label_texts P actual past \<longleftrightarrow> length actual = length past
     \<and> (\<forall>(k, v)\<in>set actual. \<exists>w. map_of past k = Some w \<and> py_str P v = py_str P w)"

definition same_host :: "dict \<Rightarrow> dict \<Rightarrow> bool" where
  "same_host actual past \<longleftrightarrow>
     py_eq (item actual ''NetworkMode'') (item past ''network_mode'') \<and> py_eq (item actual ''IpcMode'') (item past ''ipc_mode'')
     \<and> py_eq (item actual ''Privileged'') (item past ''privileged'') \<and> py_eq (item actual ''ShmSize'') (item past ''shm_size'')
     \<and> py_eq (item actual ''ReadonlyRootfs'') (item past ''readonly_rootfs'')
     \<and> (\<forall>(a, r)\<in>{(''SecurityOpt'', ''security_opt''), (''Ulimits'', ''ulimits''), (''DeviceRequests'', ''device_requests'')}.
          \<exists>xs ys. listed (item actual a) xs \<and> listed (item past r) ys \<and> same_elements xs ys)"

definition mounted :: "python \<Rightarrow> json list \<Rightarrow> (string \<times> string \<times> string \<times> bool) multiset" where
  "mounted P ms = mset (concat (map (\<lambda>m. case m of
     JObj m \<Rightarrow> [(get_str P m ''Type'', get_str P m ''Source'', get_str P m ''Destination'', truthy (item m ''RW''))] | _ \<Rightarrow> []) ms))"

definition restored_as :: "python \<Rightarrow> dict \<Rightarrow> dict \<Rightarrow> bool" where
  "restored_as P insp old \<longleftrightarrow>
     dropWhile (\<lambda>x. x = CHR ''/'') (get_str P insp ''Name'') = text_of P old ''name'' \<and> get_str P insp ''Image'' = text_of P old ''image''
     \<and> (\<exists>cmd xs. docker_field insp ''Cmd'' = JArr (map JStr cmd) \<and> iterate (item old ''command'') = ret xs \<and> cmd = map (py_str P) xs)
     \<and> (\<exists>actual past. docker_field insp ''Labels'' = JObj actual \<and> item old ''labels'' = JObj past
          \<and> same_label_texts P actual past)
     \<and> (\<exists>conf xs ys. item insp ''Config'' = JObj conf
          \<and> (case map_of conf ''Env'' of None \<Rightarrow> xs = [] | Some v \<Rightarrow> iterate v = ret xs)
          \<and> iterate (item old ''environment'') = ret ys \<and> same_elements xs ys
          \<and> get_str P conf ''WorkingDir'' = text_of P old ''working_dir'')
     \<and> (\<exists>ms os. item insp ''Mounts'' = JArr ms \<and> iterate (item old ''mounts'') = ret os \<and> mounted P ms = mounted P os)
     \<and> (\<exists>actual past. item insp ''HostConfig'' = JObj actual \<and> item old ''host_config'' = JObj past \<and> same_host actual past)
     \<and> ((\<exists>st. item insp ''State'' = JObj st \<and> truthy (item st ''Running'')) \<longleftrightarrow> truthy (item old ''running''))"

lemma py_eq_arrays: "py_eq (JArr xs) (JArr ys) \<longleftrightarrow> same_elements xs ys"
  unfolding same_elements_def
proof (induction xs arbitrary: ys)
  case (Cons x xs)
  then show ?case by (cases ys) auto
qed auto

lemma same_lists_ret: "same_lists m n = ret u \<longleftrightarrow> (\<exists>xs ys. m = ret xs \<and> n = ret ys \<and> same_elements xs ys)"
  by (simp add: same_lists_def bind_eq_ret py_eq_arrays del: py_eq.simps)

lemma list_or_nil_ret: "list_or_nil v = ret xs \<longleftrightarrow> listed v xs"
  by (auto simp: list_or_nil_def listed_def)

lemma items_of_ret: "items_of d k = ret xs \<longleftrightarrow> (case map_of d k of None \<Rightarrow> xs = [] | Some v \<Rightarrow> iterate v = ret xs)"
  by (auto simp: items_of_def iterate_def split: option.split)

lemma both_objects_ret:
  "(case (a, b) of (JObj x, JObj y) \<Rightarrow> m x y | _ \<Rightarrow> raise Refused) = ret u \<longleftrightarrow> (\<exists>x y. a = JObj x \<and> b = JObj y \<and> m x y = ret u)"
  by (cases a; cases b) simp_all

lemma one_object_ret: "(case a of JObj x \<Rightarrow> m x | _ \<Rightarrow> raise e) = ret u \<longleftrightarrow> (\<exists>x. a = JObj x \<and> m x = ret u)"
  by (cases a) simp_all

lemma one_array_ret: "(case a of JArr x \<Rightarrow> m x | _ \<Rightarrow> raise e) = ret u \<longleftrightarrow> (\<exists>x. a = JArr x \<and> m x = ret u)"
  by (cases a) simp_all

lemma check_host_ret: "check_host actual past = ret u \<Longrightarrow> same_host actual past"
  unfolding check_host_def bind_eq_ret check_ret same_lists_ret list_or_nil_ret HOST_KEYS_def same_host_def
  by (auto simp del: py_eq.simps)

lemma check_labels_ret:
  assumes "check_labels P insp old = ret u"
  shows "\<exists>actual past. docker_field insp ''Labels'' = JObj actual \<and> item old ''labels'' = JObj past \<and> same_label_texts P actual past"
proof -
  have m: "map_of (map (\<lambda>(k, v). (k, JStr v)) (map (\<lambda>(k, v). (k, py_str P v)) es)) k = map_option (\<lambda>v. JStr (py_str P v)) (map_of es k)" for es k
    by (induction es) auto
  from assms obtain actual past where d: "docker_field insp ''Labels'' = JObj actual" "item old ''labels'' = JObj past"
    and e: "py_eq (str_dict (map (\<lambda>(k, v). (k, py_str P v)) actual)) (str_dict (map (\<lambda>(k, v). (k, py_str P v)) past))"
    unfolding check_labels_def labels_of_def bind_eq_ret one_object_ret check_ret ret_inject by blast
  have "\<exists>w. map_of past k = Some w \<and> py_str P v = py_str P w" if "(k, v) \<in> set actual" for k v
    using e that unfolding str_dict_def py_eq.simps json.case m by (auto simp: list_all_iff split: option.splits)
  moreover have "length actual = length past" using e by (simp add: str_dict_def)
  ultimately show ?thesis using d by (auto simp: same_label_texts_def)
qed

lemma check_config_ret:
  "check_docker_config P insp old = ret u \<Longrightarrow> \<exists>conf xs ys. item insp ''Config'' = JObj conf
     \<and> (case map_of conf ''Env'' of None \<Rightarrow> xs = [] | Some v \<Rightarrow> iterate v = ret xs)
     \<and> iterate (item old ''environment'') = ret ys \<and> same_elements xs ys \<and> get_str P conf ''WorkingDir'' = text_of P old ''working_dir''"
  unfolding check_docker_config_def one_object_ret bind_eq_ret same_lists_ret items_of_ret escape_ret check_ret by blast

lemma check_mounts_ret:
  assumes "check_mounts P insp old = ret u"
  shows "\<exists>ms os. item insp ''Mounts'' = JArr ms \<and> iterate (item old ''mounts'') = ret os \<and> mounted P ms = mounted P os"
proof -
  from assms obtain ms os where m: "item insp ''Mounts'' = JArr ms" "iterate (item old ''mounts'') = ret os" "mount_keys P ms = mount_keys P os"
    unfolding check_mounts_def one_array_ret bind_eq_ret escape_ret check_ret by blast
  from m(3) have "mset (mount_keys P ms) = mset (mount_keys P os)" by simp
  then have "mounted P ms = mounted P os" by (simp add: mount_keys_def mounted_def)
  with m show ?thesis by blast
qed

lemma nonempty_texts_map: "nonempty_texts xs = Some ss \<Longrightarrow> xs = map JStr ss"
  by (induction xs arbitrary: ss rule: nonempty_texts.induct) (auto split: if_splits)

lemma command_of_ret: "command_of insp = ret cmd \<Longrightarrow> docker_field insp ''Cmd'' = JArr (map JStr cmd)"
  unfolding command_of_def one_array_ret by (auto split: option.splits dest: nonempty_texts_map)

lemma check_restored_ret:
  assumes "check_restored P insp old = ret u"
  shows "restored_as P insp old"
proof -
  from assms obtain cmd xs actual past where
    n: "container_of P insp = text_of P old ''name''" "get_str P insp ''Image'' = text_of P old ''image''"
    and c: "command_of insp = ret cmd" "iterate (item old ''command'') = ret xs" "cmd = map (py_str P) xs"
    and k: "check_labels P insp old = ret ()" "check_docker_config P insp old = ret ()" "check_mounts P insp old = ret ()"
    and h: "item insp ''HostConfig'' = JObj actual" "item old ''host_config'' = JObj past" "check_host actual past = ret ()"
    and r: "is_running insp = truthy (item old ''running'')"
    unfolding check_restored_def bind_eq_ret check_ret escape_ret both_objects_ret by auto
  from r have "(\<exists>st. item insp ''State'' = JObj st \<and> truthy (item st ''Running'')) \<longleftrightarrow> truthy (item old ''running'')"
    by (auto simp: is_running_def split: json.splits)
  with n command_of_ret [OF c(1)] c(2,3) check_labels_ret [OF k(1)] check_config_ret [OF k(2)] check_mounts_ret [OF k(3)]
    h(1,2) check_host_ret [OF h(3)] show ?thesis
    unfolding restored_as_def container_of_def lstrip_char_def by blast
qed

lemma verify_rollback_role_ret:
  assumes "(seq (inspect S role False) (\<lambda>insp. case insp of None \<Rightarrow> throw (Escaped TypeError)
       | Some insp \<Rightarrow> run (check_restored (s_python S) insp old))) s = (ret u, t)"
  obtains name r insp where "t = logged [Ran role (inspect_command name) (ret r)] s" "reported (s_python S) r insp"
    "restored_as (s_python S) insp old"
proof -
  from assms obtain x v where i: "inspect S role False s = (ret x, v)"
    and k: "(case x of None \<Rightarrow> throw (Escaped TypeError) | Some insp \<Rightarrow> run (check_restored (s_python S) insp old)) v = (ret u, t)"
    by (auto simp: run_simps)
  from i show ?thesis
  proof (cases rule: inspect_cases)
    case (present name r insp)
    with k that show ?thesis by (auto simp: run_simps dest: check_restored_ret)
  qed simp
qed

lemma verify_rollback_ret:
  assumes "verify_rollback S olds s = (ret u, t)"
  shows "\<exists>es. t = logged es s \<and> set es \<subseteq> silent
    \<and> (\<forall>role\<in>set ROLES. \<exists>name insp. saw (s_python S) es role name insp \<and> restored_as (s_python S) insp (olds role))"
proof -
  let ?f = "\<lambda>role. seq (inspect S role False) (\<lambda>insp. case insp of None \<Rightarrow> throw (Escaped TypeError)
       | Some insp \<Rightarrow> run (check_restored (s_python S) insp (olds role)))"
  from assms obtain v where "?f ''worker'' s = (ret (), v)" "?f ''head'' v = (ret (), t)"
    unfolding verify_rollback_def by (auto simp: each_ROLES)
  from verify_rollback_role_ret [OF this(1)] verify_rollback_role_ret [OF this(2)] obtain nw rw iw nh rh ih where
    "v = logged [Ran ''worker'' (inspect_command nw) (ret rw)] s" "reported (s_python S) rw iw" "restored_as (s_python S) iw (olds ''worker'')"
    "t = logged [Ran ''head'' (inspect_command nh) (ret rh)] v" "reported (s_python S) rh ih" "restored_as (s_python S) ih (olds ''head'')"
    by metis
  then show ?thesis
    by (intro exI [of _ "[Ran ''worker'' (inspect_command nw) (ret rw), Ran ''head'' (inspect_command nh) (ret rh)]"])
      (auto simp: ROLES_def saw_def)
qed

text \<open>
  C10. A rollback to a recorded pair that returns has restored it: after its last change to a host, an inspection
  of each container reported the recorded name, image, command, labels, environment, working directory, mounts,
  host configuration and running state.
\<close>

theorem rollback_restores:
  assumes "rollback S file s = (ret u, t)" and "e_disk s file = Some doc" and "py_loads (s_python S) doc = Some (JObj st)"
    and "\<not> (\<forall>role\<in>set ROLES. item (subdict st ''roles'') role = JNull)"
  shows "\<exists>es1 es2. e_log t = e_log s @ es1 @ es2 \<and> (\<forall>e\<in>set es2. \<not> mutates e)
    \<and> (\<forall>role\<in>set ROLES. \<exists>old name insp. item (subdict st ''roles'') role = JObj old
        \<and> saw (s_python S) es2 role name insp \<and> restored_as (s_python S) insp old)"
proof -
  let ?roles = "subdict st ''roles''"
  from assms(1,2) obtain st' where rd: "read_state (s_python S) (s_config S) (Some doc) = ret st'"
    and "(if item (subdict st' ''roles'') ''worker'' = JNull \<and> item (subdict st' ''roles'') ''head'' = JNull
       then rollback_empty S (item st' ''fabric'') else rollback_pair S (item st' ''fabric'') (subdict st' ''roles'')) s = (ret u, t)"
    by (auto simp: rollback_def seq_ret asks_ret run_ret Let_def)
  moreover from rd assms(3) have "st' = st" by (auto elim: read_state_ret)
  ultimately have "rollback_pair S (item st ''fabric'') ?roles s = (ret u, t)"
    using assms(4) by (auto simp: ROLES_def split: if_splits)
  then obtain w h where olds: "item ?roles ''worker'' = JObj w" "item ?roles ''head'' = JObj h"
    and run: "(let olds = (\<lambda>_. [])(''worker'' := w, ''head'' := h) in
      seq (each (\<lambda>role. seq (remote S role [''docker'', ''image'', ''inspect'', text_of (s_python S) (olds role) ''image''])
             (\<lambda>_. give ())) ROLES) (\<lambda>_.
      seq (restore_fabric_state S (item st ''fabric'')) (\<lambda>_.
      seq (remove_rollback_targets S olds) (\<lambda>_.
      seq (each (restore_role S olds) ROLES) (\<lambda>_.
        verify_rollback S olds))))) s = (ret u, t)"
    unfolding rollback_pair_def gate_ret seq_ret run_ret check_old_ret by auto
  let ?olds = "(\<lambda>_. [])(''worker'' := w, ''head'' := h)"
  let ?pre = "seq (each (\<lambda>role. seq (remote S role [''docker'', ''image'', ''inspect'', text_of (s_python S) (?olds role) ''image''])
             (\<lambda>_. give ())) ROLES) (\<lambda>_. seq (restore_fabric_state S (item st ''fabric'')) (\<lambda>_.
      seq (remove_rollback_targets S ?olds) (\<lambda>_. each (restore_role S ?olds) ROLES)))"
  from run obtain v where p: "?pre s = (ret (), v)" and v: "verify_rollback S ?olds v = (ret u, t)"
    unfolding Let_def by (auto simp: seq_ret)
  have "appends UNIV (restore_role S olds role)" for olds role
    unfolding restore_role_def by (intro frame_rules) simp_all
  then have "appends UNIV ?pre" by (intro frame_rules) simp_all
  from appendsD [OF this p] obtain es1 where "e_log v = e_log s @ es1" by blast
  moreover from verify_rollback_ret [OF v] obtain es2 where "t = logged es2 v" "set es2 \<subseteq> silent"
    "\<forall>role\<in>set ROLES. \<exists>name insp. saw (s_python S) es2 role name insp
       \<and> restored_as (s_python S) insp (?olds role)" by blast
  ultimately show ?thesis
    using olds by (intro exI [of _ es1] exI [of _ es2]) (auto simp: ROLES_def silent_def)
qed

subsection \<open>A first deployment that fails\<close>

text \<open>The events show that the container is gone: it was found missing, or its removal succeeded.\<close>

definition gone_in :: "event list \<Rightarrow> string \<Rightarrow> string \<Rightarrow> bool" where
  "gone_in es role name \<longleftrightarrow> found_missing es role name \<or> (\<exists>r. Ran role (rm_command name) (ret r) \<in> set es)"

lemma cleanup_role_ret:
  assumes "cleanup_role S role s = (ret u, t)"
  shows "\<exists>es name. t = logged es s \<and> set es \<subseteq> idle \<and> name_of (s_python S) (e_contracts s role) = ret name \<and> gone_in es role name"
proof -
  from assms obtain x v where i: "inspect S role True s = (ret x, v)"
    and k: "(case x of None \<Rightarrow> give () | Some insp \<Rightarrow> seq (assert_owned S role insp) (\<lambda>_.
           seq (if is_running insp then on_container S role stop_command else give ()) (\<lambda>_.
             on_container S role rm_command))) v = (ret u, t)"
    by (auto simp: cleanup_role_def run_simps)
  from i show ?thesis
  proof (cases rule: inspect_cases)
    case (present name r insp)
    show ?thesis
    proof (cases "is_running insp")
      case True
      with k present obtain ra rb where
        "t = logged [Ran role (inspect_command name) (ret r), Ran role (stop_command name) (ret ra), Ran role (rm_command name) (ret rb)] s"
        by (auto simp: run_simps on_container_def)
      with present show ?thesis
        by (intro exI [of _ "[Ran role (inspect_command name) (ret r), Ran role (stop_command name) (ret ra), Ran role (rm_command name) (ret rb)]"]
            exI [of _ name]) (auto simp: gone_in_def stop_command_def rm_command_def inspect_command_def)
    next
      case False
      with k present obtain rb where
        "t = logged [Ran role (inspect_command name) (ret r), Ran role (rm_command name) (ret rb)] s"
        by (auto simp: run_simps on_container_def)
      with present show ?thesis
        by (intro exI [of _ "[Ran role (inspect_command name) (ret r), Ran role (rm_command name) (ret rb)]"]
            exI [of _ name]) (auto simp: gone_in_def rm_command_def inspect_command_def)
    qed
  next
    case (missing name e)
    with k show ?thesis
      by (intro exI [of _ "[Ran role (inspect_command name) (raise e)]"] exI [of _ name])
        (auto simp: run_simps gone_in_def found_missing_def inspect_command_def)
  qed
qed

lemma gone_mono: "gone_in es role name \<Longrightarrow> set es \<subseteq> set fs \<Longrightarrow> gone_in fs role name"
  by (auto simp: gone_in_def found_missing_def)

lemma cleanup_ret:
  assumes "cleanup_partial S s = (ret u, t)"
  shows "\<exists>es. t = logged es s \<and> set es \<subseteq> idle
    \<and> (\<forall>role\<in>set ROLES. \<exists>name. name_of (s_python S) (e_contracts s role) = ret name \<and> gone_in es role name)"
proof -
  from assms obtain v where "cleanup_role S ''worker'' s = (ret (), v)" "cleanup_role S ''head'' v = (ret (), t)"
    unfolding cleanup_partial_def by (auto simp: each_ROLES)
  from cleanup_role_ret [OF this(1)] cleanup_role_ret [OF this(2)] obtain ew nw eh nh where
    w: "v = logged ew s" "set ew \<subseteq> idle" "name_of (s_python S) (e_contracts s ''worker'') = ret nw" "gone_in ew ''worker'' nw"
    and h: "t = logged eh v" "set eh \<subseteq> idle" "name_of (s_python S) (e_contracts v ''head'') = ret nh" "gone_in eh ''head'' nh" by blast
  then show ?thesis
    using gone_mono [of ew _ _ "ew @ eh"] gone_mono [of eh _ _ "ew @ eh"]
    by (intro exI [of _ "ew @ eh"]) (auto simp: ROLES_def)
qed

lemma restore_no_launch: "appends idle (restore_fabric_state S v)"
  by (rule restore_fabric_frame) (auto intro!: frame_rules silent_launches [OF read_fabric_quiet])

lemma recovering_raise:
  assumes "recovering m n s = (raise e, t)" and "lifecycle_error e" and "\<forall>e1 e2. e \<noteq> RecoveryFailed e1 e2"
  shows "\<exists>u. m s = (raise e, u) \<and> n u = (ret (), t)"
proof -
  obtain r u where m: "m s = (r, u)" by force
  obtain r' v where n: "n u = (r', v)" by force
  show ?thesis
    using assms m n by (cases r rule: comp_cases; cases r' rule: comp_cases)
      (auto simp: recovering_def catch_def seq_def throw_def ret_def raise_def split: if_splits)
qed

text \<open>
  C11. A first deployment that fails after its state was captured, and whose recovery does not fail in turn, has
  cleaned up behind itself: the last part of its log creates and starts nothing and shows for each role that the
  container of its contract is gone, either because it was found missing or because its removal succeeded.
\<close>

theorem failed_deployment_cleans_up:
  assumes "seq (preflight S False False) (\<lambda>_. capture_rollback S file) s = (ret st, v)"
    and "apply_deployment S file False s = (raise e, t)" and "lifecycle_error e" and "\<forall>e1 e2. e \<noteq> RecoveryFailed e1 e2"
  shows "\<exists>es1 es2. e_log t = e_log s @ es1 @ es2 \<and> (\<forall>e\<in>set es2. \<not> launches e)
    \<and> (\<forall>role\<in>set ROLES. \<exists>name. name_of (s_python S) (e_contracts t role) = ret name \<and> gone_in es2 role name)"
proof -
  from assms(1) obtain a where a: "preflight S False False s = (ret (), a)" "capture_rollback S file a = (ret st, v)"
    by (auto simp: seq_ret)
  have "appends UNIV (preflight S False False)" "appends UNIV (capture_rollback S file)"
    by (rule appends_mono [OF preflight_quiet], simp, rule appends_mono [OF capture_no_launch], simp)
  with a obtain e1 e2 where v: "e_log v = e_log s @ e1 @ e2" by (metis append_assoc appendsD)
  from a assms(2) have "recovering (deploy S False) (recovery S file False st) v = (raise e, t)"
    by (simp add: apply_deployment_def seq_def ret_def)
  from recovering_raise [OF this assms(3,4)] obtain u where d: "deploy S False v = (raise e, u)"
    and "recovery S file False st u = (ret (), t)" by blast
  then obtain w where c: "cleanup_partial S u = (ret (), w)" and f: "restore_fabric_state S (item st ''fabric'') w = (ret (), t)"
    by (auto simp: recovery_def seq_ret)
  from appendsD [OF deploy_extends d] obtain e3 where u: "e_log u = e_log v @ e3" by blast
  from cleanup_ret [OF c] obtain e4 where w: "w = logged e4 u" "set e4 \<subseteq> idle"
    "\<forall>role\<in>set ROLES. \<exists>name. name_of (s_python S) (e_contracts u role) = ret name \<and> gone_in e4 role name" by blast
  from appendsD [OF restore_no_launch f] obtain e5 where t: "e_log t = e_log w @ e5" "set e5 \<subseteq> idle" by blast
  from frameD [OF restore_fabric_neutral f] w(1) have "e_contracts t = e_contracts u" by (simp add: neutral_def)
  with u v w t gone_mono [of e4 _ _ "e4 @ e5"] show ?thesis
    by (intro exI [of _ "e1 @ e2 @ e3"] exI [of _ "e4 @ e5"]) (fastforce simp: idle_def)
qed

end
