(* ===== verification/Engine_Live.thy ===== *)
theory Engine_Live
  imports Engine_Law
begin

text \<open>
  Deployments that come to their end: on hosts whose commands succeed and whose containers do what they were
  created for, a first deployment returns.  Total correctness is a triple whose last part is false.
\<close>

subsection \<open>Healthy hosts\<close>

text \<open>Whether the container of a role exists and whether it runs, after a sequence of events.\<close>

definition container_step :: "string \<Rightarrow> event \<Rightarrow> bool \<times> bool \<Rightarrow> bool \<times> bool" where
  "container_step role e st =
     (case e of
        Ran r c x \<Rightarrow>
          if r \<noteq> role then st
          else if take 3 c = [''docker'', ''container'', ''create''] then (True, False)
          else if take 3 c = [''docker'', ''container'', ''start''] then (True, True)
          else if take 3 c = [''docker'', ''container'', ''stop''] then (fst st, False)
          else if take 3 c = [''docker'', ''container'', ''rm''] then (False, False)
          else st
      | _ \<Rightarrow> st)"

definition container_status :: "event list \<Rightarrow> string \<Rightarrow> bool \<times> bool" where
  "container_status es role = fold (container_step role) es (False, False)"

definition good_container :: "site \<Rightarrow> (string \<Rightarrow> dict) \<Rightarrow> string \<Rightarrow> bool \<Rightarrow> dict \<Rightarrow> bool" where
  "good_container S cs role running insp \<longleftrightarrow>
     owned (s_python S) (mode (s_dep S)) role (cs role) insp = ret () \<and> is_running insp = running
     \<and> (running \<longrightarrow> verify_container_inspect (s_python S) insp (cs role) = ret ())"

definition good_image :: "site \<Rightarrow> (string \<Rightarrow> dict) \<Rightarrow> string \<Rightarrow> command_result \<Rightarrow> bool" where
  "good_image S cs role r \<longleftrightarrow> strip (stdout r) \<noteq> [] \<and> (\<exists>insp im. reported (s_python S) r insp
     \<and> item (cs role) ''image'' = JObj im \<and> verify_image_inspect (s_python S) insp im = ret ())"

definition inspects_well :: "site \<Rightarrow> (string \<Rightarrow> dict) \<Rightarrow> event list \<Rightarrow> string \<Rightarrow> string \<Rightarrow> bool" where
  "inspects_well S cs hist role name \<longleftrightarrow>
     (if fst (container_status hist role)
      then \<exists>r insp. outcome S hist role (inspect_command name) = ret r \<and> reported (s_python S) r insp
        \<and> good_container S cs role (snd (container_status hist role)) insp
      else \<exists>e. outcome S hist role (inspect_command name) = raise e \<and> missing_object e)"

text \<open>
  What the hosts of a role promise: commands succeed, the image is the locked one, the model marker is the locked
  digest, and an inspection reports the container that was created, running once it was started.
\<close>

definition answers :: "site \<Rightarrow> (string \<Rightarrow> dict) \<Rightarrow> bool" where
  "answers S cs \<longleftrightarrow> (\<forall>hist. \<forall>role\<in>set ROLES.
       (\<forall>c. take 3 c \<notin> {[''docker'', ''container'', ''inspect''], [''docker'', ''image'', ''inspect'']} \<and> take 1 c \<noteq> [''cat'']
          \<longrightarrow> returns (outcome S hist role c))
     \<and> (\<forall>img. \<exists>r. outcome S hist role [''docker'', ''image'', ''inspect'', ''--format'', ''{{json .}}'', img] = ret r
          \<and> good_image S cs role r)
     \<and> (\<forall>p. \<exists>r. outcome S hist role [''cat'', p] = ret r \<and> strip (stdout r) = model_manifest_sha256 (s_dep S))
     \<and> (\<forall>name. name_of (s_python S) (cs role) = ret name \<longrightarrow> inspects_well S cs hist role name))"

text \<open>Copies succeed too.\<close>

definition healthy :: "site \<Rightarrow> (string \<Rightarrow> dict) \<Rightarrow> bool" where
  "healthy S cs \<longleftrightarrow> answers S cs \<and> (\<forall>hist argv content. returns (copy_outcome S hist argv content))"

lemma healthy_answers: "healthy S cs \<Longrightarrow> answers S cs"
  by (simp add: healthy_def)

subsection \<open>Rules for runs that return\<close>

abbreviation sure :: "('s \<Rightarrow> bool) \<Rightarrow> ('s, 'e, 'a) io \<Rightarrow> ('a \<Rightarrow> 's \<Rightarrow> bool) \<Rightarrow> bool" where
  "sure P m Q \<equiv> hoare P m Q (\<lambda>_ _. False)"

text \<open>The contracts, no discovered GID, and the containers as given.\<close>

definition there :: "(string \<Rightarrow> dict) \<Rightarrow> (string \<Rightarrow> bool \<times> bool) \<Rightarrow> engine \<Rightarrow> bool" where
  "there cs b s \<longleftrightarrow> e_contracts s = cs \<and> e_gids s = Map.empty \<and> (\<forall>role\<in>set ROLES. container_status (e_log s) role = b role)"

lemma total_give: "(\<And>s. P s \<Longrightarrow> Q x s) \<Longrightarrow> sure P (give x) Q"
  by (simp add: hoare_def give_def ret_def)

lemma total_run: "m = ret x \<Longrightarrow> hoare P (g x) Q R \<Longrightarrow> hoare P (seq (run m) g) Q R"
  by (simp add: hoare_def seq_def run_def lift_def ret_def)

lemma total_contract: "hoare (there cs b) (g (cs role)) Q R \<Longrightarrow> hoare (there cs b) (seq (asks (\<lambda>s. e_contracts s role)) g) Q R"
  by (simp add: hoare_def seq_def asks_def ret_def there_def)

lemma total_gid: "sure (there cs b) (g None) Q \<Longrightarrow> sure (there cs b) (seq (asks (\<lambda>s. e_gids s role)) g) Q"
  by (simp add: hoare_def seq_def asks_def ret_def there_def)

lemma total_seq: "sure P m (\<lambda>_. M) \<Longrightarrow> (\<And>x. hoare M (f x) Q R) \<Longrightarrow> hoare P (seq m f) Q R"
  by (rule hoare_seq_fwd [where M = "\<lambda>_. M"]) (erule hoare_weaken, simp_all)

definition changes_container :: "string list \<Rightarrow> bool" where
  "changes_container c \<longleftrightarrow> take 3 c \<in> {[''docker'', ''container'', ''create''], [''docker'', ''container'', ''start''],
     [''docker'', ''container'', ''stop''], [''docker'', ''container'', ''rm'']}"

lemma status_snoc: "container_status (es @ [e]) role = container_step role e (container_status es role)"
  by (simp add: container_status_def)

lemma status_same: "\<not> changes_container c \<Longrightarrow> container_status (es @ [Ran r c x]) role = container_status es role"
  by (auto simp: status_snoc container_step_def changes_container_def)

lemma total_remote:
  assumes "\<And>hist. \<exists>r. outcome S hist role c = ret r \<and> A r" and "\<not> changes_container c"
    and "\<And>r. A r \<Longrightarrow> hoare (there cs b) (g r) Q R"
  shows "hoare (there cs b) (seq (remote S role c) g) Q R"
  unfolding hoare_def
proof (intro allI impI)
  fix s
  assume "there cs b s"
  from assms(1) obtain r where r: "outcome S (e_log s) role c = ret r" "A r" by blast
  from \<open>there cs b s\<close> status_same [OF assms(2)] have "there cs b (logged [Ran role c (ret r)] s)"
    by (simp add: there_def)
  with assms(3) [OF r(2)] show "case seq (remote S role c) g s of (Some (Inr x), t) \<Rightarrow> Q x t
      | (Some (Inl e), t) \<Rightarrow> R (Some e) t | (None, t) \<Rightarrow> R None t"
    by (simp add: hoare_def seq_def remote_run r(1) ret_def)
qed

lemma answers_command:
  "answers S cs \<Longrightarrow> role \<in> set ROLES \<Longrightarrow> take 3 c \<notin> {[''docker'', ''container'', ''inspect''], [''docker'', ''image'', ''inspect'']}
     \<Longrightarrow> take 1 c \<noteq> [''cat''] \<Longrightarrow> returns (outcome S hist role c)"
  unfolding answers_def by blast

lemma answers_image:
  "answers S cs \<Longrightarrow> role \<in> set ROLES \<Longrightarrow> \<exists>r. outcome S hist role [''docker'', ''image'', ''inspect'', ''--format'', ''{{json .}}'', img] = ret r
     \<and> good_image S cs role r"
  unfolding answers_def by blast

lemma answers_marker:
  "answers S cs \<Longrightarrow> role \<in> set ROLES \<Longrightarrow> \<exists>r. outcome S hist role [''cat'', p] = ret r \<and> strip (stdout r) = model_manifest_sha256 (s_dep S)"
  unfolding answers_def by blast

lemma answers_inspect:
  assumes "answers S cs" and "role \<in> set ROLES" and "name_of (s_python S) (cs role) = ret name"
  shows "\<not> fst (container_status hist role) \<Longrightarrow> \<exists>e. outcome S hist role (inspect_command name) = raise e \<and> missing_object e"
    and "container_status hist role = (True, running) \<Longrightarrow> \<exists>r insp. outcome S hist role (inspect_command name) = ret r
      \<and> reported (s_python S) r insp \<and> good_container S cs role running insp"
proof -
  from assms have "inspects_well S cs hist role name" unfolding answers_def by blast
  then show "\<not> fst (container_status hist role) \<Longrightarrow> \<exists>e. outcome S hist role (inspect_command name) = raise e \<and> missing_object e"
    and "container_status hist role = (True, running) \<Longrightarrow> \<exists>r insp. outcome S hist role (inspect_command name) = ret r
      \<and> reported (s_python S) r insp \<and> good_container S cs role running insp"
    by (simp_all add: inspects_well_def)
qed

lemma total_step:
  assumes "answers S cs" and "role \<in> set ROLES"
    and "take 3 c \<notin> {[''docker'', ''container'', ''inspect''], [''docker'', ''image'', ''inspect'']}" and "take 1 c \<noteq> [''cat'']"
    and "\<not> changes_container c" and "\<And>r. hoare (there cs b) (g r) Q R"
  shows "hoare (there cs b) (seq (remote S role c) g) Q R"
proof (rule total_remote [where A = "\<lambda>_. True", OF _ assms(5,6)])
  fix hist
  from answers_command [OF assms(1-4)] have "returns (outcome S hist role c)" .
  then show "\<exists>r. outcome S hist role c = ret r \<and> True" by (auto elim: returnsE)
qed

lemma total_all:
  assumes "answers S cs" and "role \<in> set ROLES"
    and "\<And>c. c \<in> set cmds \<Longrightarrow> take 3 c \<notin> {[''docker'', ''container'', ''inspect''], [''docker'', ''image'', ''inspect'']}
      \<and> take 1 c \<noteq> [''cat''] \<and> \<not> changes_container c"
  shows "sure (there cs b) (run_all S role cmds) (\<lambda>_. there cs b)"
  unfolding run_all_def
  by (rule hoare_each, rule total_step [OF assms(1,2)]) (use assms(3) in \<open>auto intro: total_give\<close>)

subsection \<open>Inspections\<close>

lemma inspect_eq:
  assumes "name_of (s_python S) (e_contracts s role) = ret name"
  shows "inspect S role q s =
    (let o' = outcome S (e_log s) role (inspect_command name); t = logged [Ran role (inspect_command name) o'] s
     in case o' of None \<Rightarrow> (None, t)
        | Some (Inl e) \<Rightarrow> if q \<and> missing_object e then (ret None, t) else (raise e, t)
        | Some (Inr r) \<Rightarrow> (bind (json_stdout (s_python S) r) (\<lambda>j. bind (inspect_object j) (\<lambda>es. ret (Some es))), t))"
  using assms
  by (simp add: inspect_def seq_def asks_def run_def lift_def remote_run catch_def give_def throw_def ret_def raise_def
      Let_def sum.map_id0 option.map_id split: option.split sum.split)

lemma not_changes_inspect: "\<not> changes_container (inspect_command name)"
  by (simp add: changes_container_def inspect_command_def)

lemma total_missing:
  assumes "answers S cs" and "role \<in> set ROLES" and "returns (name_of (s_python S) (cs role))" and "\<not> fst (b role)"
  shows "sure (there cs b) (inspect S role True) (\<lambda>x s. x = None \<and> there cs b s)"
  unfolding hoare_def
proof (intro allI impI)
  fix s
  assume s: "there cs b s"
  from assms(3) obtain name where n: "name_of (s_python S) (cs role) = ret name" by (rule returnsE)
  from s assms(2,4) have "\<not> fst (container_status (e_log s) role)" by (simp add: there_def)
  from answers_inspect(1) [OF assms(1,2) n this] obtain e where
    e: "outcome S (e_log s) role (inspect_command name) = raise e" "missing_object e" by blast
  from s n have "name_of (s_python S) (e_contracts s role) = ret name" by (simp add: there_def)
  moreover from s status_same [OF not_changes_inspect] have "there cs b (logged [Ran role (inspect_command name) (raise e)] s)"
    by (simp add: there_def)
  ultimately show "case inspect S role True s of (Some (Inr x), t) \<Rightarrow> x = None \<and> there cs b t
      | (Some (Inl e), t) \<Rightarrow> False | (None, t) \<Rightarrow> False"
    using e by (simp add: inspect_eq raise_def ret_def)
qed

lemma total_present:
  assumes "answers S cs" and "role \<in> set ROLES" and "returns (name_of (s_python S) (cs role))" and "b role = (True, running)"
  shows "sure (there cs b) (inspect S role q) (\<lambda>x s. (\<exists>insp. x = Some insp \<and> good_container S cs role running insp) \<and> there cs b s)"
  unfolding hoare_def
proof (intro allI impI)
  fix s
  assume s: "there cs b s"
  from assms(3) obtain name where n: "name_of (s_python S) (cs role) = ret name" by (rule returnsE)
  from s assms(2,4) have "container_status (e_log s) role = (True, running)" by (simp add: there_def)
  from answers_inspect(2) [OF assms(1,2) n this] obtain r insp where
    r: "outcome S (e_log s) role (inspect_command name) = ret r"
    "reported (s_python S) r insp" "good_container S cs role running insp" by blast
  from s n have "name_of (s_python S) (e_contracts s role) = ret name" by (simp add: there_def)
  moreover from s status_same [OF not_changes_inspect] have "there cs b (logged [Ran role (inspect_command name) (ret r)] s)"
    by (simp add: there_def)
  moreover from r(2) have "bind (json_stdout (s_python S) r) (\<lambda>j. bind (inspect_object j) (\<lambda>es. ret (Some es))) = ret (Some insp)"
    by (auto simp: reported_def bind_eq_ret)
  ultimately show "case inspect S role q s of (Some (Inr x), t) \<Rightarrow> (\<exists>insp. x = Some insp \<and> good_container S cs role running insp) \<and> there cs b t
      | (Some (Inl e), t) \<Rightarrow> False | (None, t) \<Rightarrow> False"
    using r(1,3) by (simp add: inspect_eq raise_def ret_def)
qed

subsection \<open>Operations that return\<close>

text \<open>What the engine renders for its contracts, and the login of the hosts, are in order.\<close>

definition renders :: "site \<Rightarrow> (string \<Rightarrow> dict) \<Rightarrow> bool" where
  "renders S cs \<longleftrightarrow> (\<forall>role\<in>set ROLES.
     returns (name_of (s_python S) (cs role)) \<and> returns (image_of (s_python S) (cs role))
     \<and> returns (remote_model_root (s_python S) (s_dep S) (cs role))
     \<and> returns (jitem (JObj (cs role)) ''contract_path'')
     \<and> returns (contract_json (s_python S) (s_config S) role (Some (s_lock S)) None)
     \<and> returns (render_environment (s_config S) role None)
     \<and> returns (render_container_argv (s_python S) (s_config S) role (Some (s_lock S)) None None))
   \<and> returns (bind (jitem (JObj (cs ''head'')) ''api_port'') int_of)"

text \<open>The logins are valid, and the paths of the staged files can be passed to \<^verbatim>\<open>scp\<close>.\<close>

definition clean_path :: "string \<Rightarrow> bool" where
  "clean_path s \<longleftrightarrow> s \<noteq> [] \<and> CHR 0x00 \<notin> set s"

definition login_ok :: "site \<Rightarrow> string \<Rightarrow> bool" where
  "login_ok S role \<longleftrightarrow> (\<exists>host user. role_login (s_dep S) role = Some (host, user)
     \<and> returns (ssh_argv host user (int (ssh_port (s_dep S))) (ssh_known_hosts_file (s_dep S)) [''true''] (identity_of (s_dep S)) 10))"

definition copies_allowed :: "site \<Rightarrow> (string \<Rightarrow> dict) \<Rightarrow> bool" where
  "copies_allowed S cs \<longleftrightarrow> (\<forall>role\<in>set ROLES. login_ok S role
     \<and> (\<forall>hist. \<forall>f\<in>{role @ ''.json'', role @ ''.env'', ''model.lock.sha256''}.
          clean_path (path_str (path_join (path_of (s_tmpdir S hist)) f)))
     \<and> (\<forall>v. jitem (JObj (cs role)) ''contract_path'' = ret v \<longrightarrow> clean_path (py_str (s_python S) v))
     \<and> clean_path (path_str (path_join (path_join (path_of (remote_root (s_dep S))) ''contracts'') (mode (s_dep S) @ ''-'' @ role @ ''.env''))))
   \<and> (\<forall>r. remote_model_root (s_python S) (s_dep S) (cs ''head'') = ret r \<longrightarrow> clean_path (path_str (path_join r ''.model-lock.sha256'')))"

lemma total_seq_fact: "sure P m (\<lambda>x s. A x \<and> M s) \<Longrightarrow> (\<And>x. A x \<Longrightarrow> sure M (f x) Q) \<Longrightarrow> sure P (seq m f) Q"
  by (erule hoare_seq_fwd) (auto simp: hoare_def)

lemma total_last: "m = ret x \<Longrightarrow> (\<And>s. P s \<Longrightarrow> Q x s) \<Longrightarrow> sure P (run m) Q"
  by (simp add: hoare_def run_def lift_def ret_def)

lemma total_returns: "returns m \<Longrightarrow> (\<And>x. m = ret x \<Longrightarrow> hoare P (g x) Q R) \<Longrightarrow> hoare P (seq (run m) g) Q R"
  by (erule returnsE) (simp add: total_run)

lemma total_catch: "sure P m Q \<Longrightarrow> sure P (catch m h) Q"
  by (rule hoare_catch [where H = "\<lambda>_ _. False"], simp add: hoare_def, erule hoare_weaken, simp_all)

lemma total_gate: "c \<Longrightarrow> sure P m Q \<Longrightarrow> sure P (gate c m) Q"
  by (simp add: gate_def)

lemma returns_escape: "returns m \<Longrightarrow> returns (escape m)"
  by (erule returnsE) (simp add: escape_def returns_def ret_def)

lemma live_image:
  assumes h: "answers S cs" and role: "role \<in> set ROLES" and r: "renders S cs"
  shows "sure (there cs b) (check_image_of S role) (\<lambda>_. there cs b)"
proof -
  from r role have i: "returns (image_of (s_python S) (cs role))" by (simp add: renders_def)
  have v: "sure (there cs b) (gate (strip (stdout x) \<noteq> []) (run (bind (json_stdout (s_python S) x) (\<lambda>j.
          bind (inspect_object j) (\<lambda>insp. case item (cs role) ''image'' of
              JObj expected \<Rightarrow> verify_image_inspect (s_python S) insp expected
            | _ \<Rightarrow> raise (Escaped AttributeError)))))) (\<lambda>_. there cs b)" if g: "good_image S cs role x" for x
  proof -
    from g obtain insp im where "reported (s_python S) x insp" "item (cs role) ''image'' = JObj im"
      "verify_image_inspect (s_python S) insp im = ret ()" by (auto simp: good_image_def)
    then have "bind (json_stdout (s_python S) x) (\<lambda>j. bind (inspect_object j) (\<lambda>insp. case item (cs role) ''image'' of
              JObj expected \<Rightarrow> verify_image_inspect (s_python S) insp expected
            | _ \<Rightarrow> raise (Escaped AttributeError))) = ret ()"
      by (auto simp: reported_def bind_eq_ret)
    with g show ?thesis by (intro total_gate total_last [where x = "()"]) (simp_all add: good_image_def)
  qed
  show ?thesis
    unfolding check_image_of_def Let_def
    by (rule total_contract, rule total_returns [OF i], rule total_remote [where A = "good_image S cs role"])
      (use answers_image [OF h role] v in \<open>simp_all add: changes_container_def\<close>)
qed

lemma live_model:
  assumes h: "answers S cs" and role: "role \<in> set ROLES" and r: "renders S cs"
  shows "sure (there cs b) (check_model S role q) (\<lambda>_. there cs b)"
proof -
  from r role have m: "returns (remote_model_root (s_python S) (s_dep S) (cs role))" by (simp add: renders_def)
  let ?A = "\<lambda>x. \<exists>v. x = Some v \<and> strip (stdout v) = model_manifest_sha256 (s_dep S)"
  have c: "sure (there cs b) (catch (seq (remote S role [''cat'', p]) (\<lambda>v. give (Some v))) k) (\<lambda>x s. ?A x \<and> there cs b s)" for p k
    by (rule total_catch, rule total_remote [where A = "\<lambda>v. strip (stdout v) = model_manifest_sha256 (s_dep S)"])
      (use answers_marker [OF h role] in \<open>auto simp: changes_container_def intro: total_give\<close>)
  show ?thesis
    unfolding check_model_def
  proof (rule total_contract, rule total_returns [OF m], rule total_seq_fact [OF c], rule total_gate, fastforce, rule total_seq)
    fix x
    show "sure (there cs b) (run_all S role (map (\<lambda>f. [''test'', ''-r'', path_str (path_join x f)]) MODEL_FILES)) (\<lambda>_. there cs b)"
      by (rule total_all [OF h role]) (auto simp: changes_container_def)
    show "sure (there cs b) (seq (remote S role [''test'', ''-r'', path_str x]) (\<lambda>_. give ())) (\<lambda>_. there cs b)"
      by (rule total_step [OF h role]) (auto simp: changes_container_def intro: total_give)
  qed
qed

lemma live_preflight:
  assumes h: "answers S cs" and r: "renders S cs" and f: "fabric_profile (s_dep S) = ''f0''"
  shows "sure (there cs b) (preflight S q q') (\<lambda>_. there cs b)"
  unfolding preflight_def
proof (rule hoare_each)
  fix role
  assume role: "role \<in> set ROLES"
  show "sure (there cs b) (preflight_role S q q' role) (\<lambda>_. there cs b)"
    unfolding preflight_role_def Let_def fabric_preflight_def if_P [OF f]
    by (rule total_seq [OF total_all [OF h role]], force simp: changes_container_def,
        rule total_seq [OF total_give], assumption,
        rule total_seq [OF live_image [OF h role r]], rule total_seq [OF live_model [OF h role r]],
        rule total_step [OF h role]) (auto simp: changes_container_def intro: total_give)
qed

lemma live_capture:
  assumes h: "answers S cs" and r: "renders S cs" and f: "fabric_profile (s_dep S) = ''f0''"
    and w: "s_writable S file" and b: "\<forall>role\<in>set ROLES. \<not> fst (b role)"
  shows "sure (there cs b) (capture_rollback S file) (\<lambda>_. there cs b)"
proof -
  have roles: "sure (there cs b) (capture_roles S) (\<lambda>_. there cs b)"
    unfolding capture_roles_def
  proof (rule hoare_collect)
    fix role
    assume role: "role \<in> set ROLES"
    with r have n: "returns (name_of (s_python S) (cs role))" by (simp add: renders_def)
    show "sure (there cs b) (seq (inspect S role True) (\<lambda>insp. case insp of None \<Rightarrow> give (role, JNull)
       | Some insp \<Rightarrow> seq (assert_owned S role insp) (\<lambda>_. seq (run (capture_role (s_python S) insp)) (\<lambda>j. give (role, j)))))
       (\<lambda>_. there cs b)"
      by (rule total_seq_fact [OF total_missing [OF h role n]]) (use b role in \<open>auto intro: total_give\<close>)
  qed
  have fabric: "sure (there cs b) (capture_fabric_state S) (\<lambda>_. there cs b)"
    by (simp add: capture_fabric_state_def f total_give)
  have saves: "sure (there cs b) (save S file content) (\<lambda>_. there cs b)" for content
    by (auto simp: hoare_def save_def w change_def ret_def there_def status_snoc container_step_def)
  show ?thesis
    unfolding capture_rollback_def Let_def
    by (rule total_seq [OF roles], rule total_seq [OF fabric], rule total_seq [OF saves], rule total_give)
qed

lemma scp_call:
  assumes l: "login_ok S role" and x: "clean_path source" "clean_path destination"
  shows "\<exists>host user argv. role_login (s_dep S) role = Some (host, user)
     \<and> scp_argv source host user (int (ssh_port (s_dep S))) (ssh_known_hosts_file (s_dep S)) destination (identity_of (s_dep S)) 10 = ret argv"
proof -
  from l obtain host user where l: "role_login (s_dep S) role = Some (host, user)"
    and a: "returns (ssh_argv host user (int (ssh_port (s_dep S))) (ssh_known_hosts_file (s_dep S)) [''true''] (identity_of (s_dep S)) 10)"
    unfolding login_ok_def by blast
  from a x have "returns (scp_argv source host user (int (ssh_port (s_dep S))) (ssh_known_hosts_file (s_dep S)) destination
      (identity_of (s_dep S)) 10)"
    by (elim returnsE) (simp add: scp_argv_def clean_path_def returns_def ret_def bind_def assert_def)
  with l show ?thesis by (auto elim: returnsE)
qed

lemma live_copy:
  assumes h: "healthy S cs" and c: "login_ok S role" "clean_path source" "clean_path destination"
  shows "sure (there cs b) (copy_to S role (source, destination, content)) (\<lambda>_. there cs b)"
proof -
  from scp_call [OF c] obtain host user argv where l: "role_login (s_dep S) role = Some (host, user)"
    and a: "scp_argv source host user (int (ssh_port (s_dep S))) (ssh_known_hosts_file (s_dep S)) destination
      (identity_of (s_dep S)) 10 = ret argv" by blast
  have s: "sure (there cs b) (seq (scp S argv content) (\<lambda>_. give ())) (\<lambda>_. there cs b)"
    unfolding hoare_def
  proof (intro allI impI)
    fix s
    assume s: "there cs b s"
    have "returns (copy_outcome S (e_log s) argv content)" using h unfolding healthy_def by blast
    then obtain r where "copy_outcome S (e_log s) argv content = ret r" by (rule returnsE)
    with s show "case seq (scp S argv content) (\<lambda>_. give ()) s of (Some (Inr x), t) \<Rightarrow> there cs b t
        | (Some (Inl e), t) \<Rightarrow> False | (None, t) \<Rightarrow> False"
      by (simp add: scp_def Let_def seq_def give_def ret_def there_def status_snoc container_step_def)
  qed
  show ?thesis unfolding copy_to_def using s by (simp add: l) (rule total_run [OF a])
qed

lemma total_tmp:
  "(\<And>hist. hoare (there cs b) (g (F hist, None)) Q R) \<Longrightarrow> hoare (there cs b) (seq (asks (\<lambda>s. (F (e_log s), e_gids s role))) g) Q R"
  by (simp add: hoare_def seq_def asks_def ret_def there_def)

lemma returns_bind_ret: "returns m \<Longrightarrow> returns (bind m (\<lambda>v. ret (f v)))"
  by (erule returnsE) (simp add: returns_def ret_def bind_def)

text \<open>Staging a role comes to its three copies, all between clean paths.\<close>

lemma live_stage_role:
  assumes h: "answers S cs" and c: "copies_allowed S cs" and r: "renders S cs" and role: "role \<in> set ROLES"
    and m: "clean_path (path_str m)"
    and copies: "\<And>xs. xs \<noteq> [] \<Longrightarrow> (\<And>x y z. (x, y, z) \<in> set xs \<Longrightarrow> clean_path x \<and> clean_path y)
      \<Longrightarrow> hoare (there cs b) (each (copy_to S role) xs) Q R"
  shows "hoare (there cs b) (stage_role S m role) Q R"
proof -
  from r role have p: "returns (escape (bind (jitem (JObj (cs role)) ''contract_path'') (\<lambda>v. ret (py_str (s_python S) v))))"
    "returns (escape (contract_json (s_python S) (s_config S) role (Some (s_lock S)) None))"
    "returns (escape (render_environment (s_config S) role None))"
    by (simp_all add: renders_def returns_escape returns_bind_ret)
  from c role have k: "login_ok S role"
    "f \<in> {role @ ''.json'', role @ ''.env'', ''model.lock.sha256''} \<Longrightarrow> clean_path (path_str (path_join (path_of (s_tmpdir S hist)) f))"
    "jitem (JObj (cs role)) ''contract_path'' = ret v \<Longrightarrow> clean_path (py_str (s_python S) v)"
    "clean_path (path_str (path_join (path_join (path_of (remote_root (s_dep S))) ''contracts'') (mode (s_dep S) @ ''-'' @ role @ ''.env'')))"
    for hist f v
    unfolding copies_allowed_def by blast+
  show ?thesis
    unfolding stage_role_def Let_def
  proof (rule total_contract, rule total_returns [OF p(1)])
    fix cpath
    assume "escape (bind (jitem (JObj (cs role)) ''contract_path'') (\<lambda>v. ret (py_str (s_python S) v))) = ret cpath"
    then have cp: "clean_path cpath" using k(3) by (auto simp: bind_eq_ret)
    show "hoare (there cs b) (seq (remote S role ([''mkdir'', ''-p'', path_str (path_parent (path_of cpath))]
         @ map (\<lambda>n. path_str (path_join (path_join (path_of (cache_root (s_dep S))) (if role = ''head'' then ''dgx0'' else ''dgx1'')) n)) CACHE_NAMES)) (\<lambda>_.
       seq (asks (\<lambda>s. (s_tmpdir S (e_log s), e_gids s role))) (\<lambda>(dir, gid).
       seq (run (escape (contract_json (s_python S) (s_config S) role (Some (s_lock S)) gid))) (\<lambda>ctext.
       seq (run (escape (render_environment (s_config S) role gid))) (\<lambda>env.
         each (copy_to S role)
           [(path_str (path_join (path_of dir) (role @ ''.json'')), cpath, ctext),
            (path_str (path_join (path_of dir) (role @ ''.env'')), path_str (path_join (path_join (path_of (remote_root (s_dep S))) ''contracts'') (mode (s_dep S) @ ''-'' @ role @ ''.env'')), env_text env),
            (path_str (path_join (path_of dir) ''model.lock.sha256''), path_str m,
              model_manifest_sha256 (s_dep S) @ [CHR 0x0A])]))))) Q R"
      by (rule total_step [OF h role], simp_all add: changes_container_def, rule total_tmp, simp,
          rule total_returns [OF p(2)], rule total_returns [OF p(3)], rule copies) (use k cp m in auto)
  qed
qed

lemma live_stage:
  assumes h: "healthy S cs" and c: "copies_allowed S cs" and r: "renders S cs"
  shows "sure (there cs b) (stage S) (\<lambda>_. there cs b)"
proof -
  from r have m: "returns (remote_model_root (s_python S) (s_dep S) (cs ''head''))" by (simp add: renders_def ROLES_def)
  have l: "role \<in> set ROLES \<Longrightarrow> login_ok S role" for role using c unfolding copies_allowed_def by blast
  show ?thesis
    unfolding stage_def
    by (rule total_contract, rule total_returns [OF m], rule hoare_each,
        rule live_stage_role [OF healthy_answers [OF h] c r], assumption)
      (use c in \<open>auto simp: copies_allowed_def intro!: hoare_each live_copy [OF h l]\<close>)
qed

text \<open>One role after the other.\<close>

lemma total_pair:
  "sure P (f ''worker'') (\<lambda>_. M) \<Longrightarrow> sure M (f ''head'') (\<lambda>_. Q) \<Longrightarrow> sure P (each f ROLES) (\<lambda>_. Q)"
  unfolding each_def ROLES_def fold_io.simps by (intro total_seq total_give; assumption)

lemma total_change:
  assumes "\<And>hist. returns (outcome S hist role c)" and "role \<in> set ROLES"
    and "\<And>r. container_step role (Ran role c r) (b role) = st"
  shows "sure (there cs b) (seq (remote S role c) (\<lambda>_. give ())) (\<lambda>_. there cs (b(role := st)))"
proof -
  have "container_status (es @ [Ran role c r]) q = (if q = role then container_step role (Ran role c r) (container_status es role)
      else container_status es q)" for es r q
    by (simp add: status_snoc container_step_def)
  note status = this
  show ?thesis
    unfolding hoare_def
  proof (intro allI impI)
    fix s
    assume s: "there cs b s"
    from assms(1) obtain r where "outcome S (e_log s) role c = ret r" by (rule returnsE)
    with s status assms(2,3) show "case seq (remote S role c) (\<lambda>_. give ()) s of (Some (Inr x), t) \<Rightarrow> there cs (b(role := st)) t
        | (Some (Inl e), t) \<Rightarrow> False | (None, t) \<Rightarrow> False"
      by (simp add: seq_def remote_run give_def ret_def there_def)
  qed
qed

lemma live_on_container:
  assumes "answers S cs" and "role \<in> set ROLES" and "renders S cs" and "\<And>n. take 3 (k n) = [''docker'', ''container'', v]"
    and "v \<noteq> ''inspect''" and "\<And>n r. container_step role (Ran role (k n) r) (b role) = st"
  shows "sure (there cs b) (on_container S role k) (\<lambda>_. there cs (b(role := st)))"
proof -
  have "take 1 (k n) \<noteq> [''cat'']" for n using assms(4) [of n] by (cases "k n") auto
  then have "returns (outcome S hist role (k n))" for hist n
    using assms(4,5) by (intro answers_command [OF assms(1,2)]) auto
  moreover from assms(2,3) have "returns (name_of (s_python S) (cs role))" by (simp add: renders_def)
  ultimately show ?thesis
    unfolding on_container_def using assms(2,6) by (intro total_contract total_returns total_change)
qed

lemma create_argv_prefix:
  "render_container_argv P c role lock src gid = ret argv \<Longrightarrow> take 3 argv = [''docker'', ''container'', ''create'']"
  unfolding render_container_argv_def bind_eq_ret by (auto simp: create_prefix_def)

lemma live_create:
  assumes h: "answers S cs" and r: "renders S cs" and role: "role \<in> set ROLES"
  shows "sure (there cs b) (create_role S role) (\<lambda>_. there cs (b(role := (True, False))))"
  unfolding create_role_def
proof (rule total_gid, rule total_returns)
  from r role show "returns (escape (render_container_argv (s_python S) (s_config S) role (Some (s_lock S)) None None))"
    by (simp add: renders_def returns_escape)
  fix argv
  assume "escape (render_container_argv (s_python S) (s_config S) role (Some (s_lock S)) None None) = ret argv"
  then have t: "take 3 argv = [''docker'', ''container'', ''create'']" by (simp add: create_argv_prefix)
  then have "take 1 argv \<noteq> [''cat'']" by (cases argv) auto
  with t have "returns (outcome S hist role argv)" for hist by (intro answers_command [OF h role]) auto
  with role t show "sure (there cs b) (seq (remote S role argv) (\<lambda>_. give ())) (\<lambda>_. there cs (b(role := (True, False))))"
    by (intro total_change) (simp_all add: container_step_def)
qed

lemma live_owned:
  "owned (s_python S) (mode (s_dep S)) role (cs role) insp = ret () \<Longrightarrow>
     sure (there cs b) (assert_owned S role insp) (\<lambda>_. there cs b)"
  unfolding assert_owned_def by (intro total_contract total_last)

lemma live_start:
  assumes h: "answers S cs" and r: "renders S cs" and role: "role \<in> set ROLES" and b: "b role = (True, False)"
  shows "sure (there cs b) (start_role S role) (\<lambda>_. there cs (b(role := (True, True))))"
proof -
  from r role have n: "returns (name_of (s_python S) (cs role))" by (simp add: renders_def)
  have k: "sure (there cs b) (on_container S role start_command) (\<lambda>_. there cs (b(role := (True, True))))"
    by (rule live_on_container [OF h role r, where v = "''start''"]) (simp_all add: start_command_def container_step_def)
  show ?thesis
    unfolding start_role_def
    by (rule total_seq_fact, rule total_present, rule h, rule role, rule n, rule b)
      (auto intro!: total_seq [OF live_owned] k simp: good_container_def)
qed

lemma live_verify_role:
  assumes h: "answers S cs" and r: "renders S cs" and role: "role \<in> set ROLES" and b: "b role = (True, True)"
  shows "sure (there cs b) (verify_role S role) (\<lambda>_. there cs b)"
proof -
  from r role have n: "returns (name_of (s_python S) (cs role))" by (simp add: renders_def)
  show ?thesis
    unfolding verify_role_def
    by (rule total_seq_fact, rule total_present, rule h, rule role, rule n, rule b)
      (auto intro!: total_contract total_last simp: good_container_def)
qed

lemma live_await:
  assumes h: "answers S cs"
  shows "sure (there cs b) (await_ready S api READINESS_ATTEMPTS) (\<lambda>_. there cs b)"
proof -
  have "sure (there cs b) (run_all S ''head'' [curl_command api ''/health'', curl_command api ''/v1/models'']) (\<lambda>_. there cs b)"
    by (rule total_all [OF h]) (auto simp: ROLES_def curl_command_def changes_container_def)
  then have "sure (there cs b) (await_ready S api (Suc n)) (\<lambda>_. there cs b)" for n
    unfolding await_ready.simps by (rule total_catch)
  then show ?thesis by (simp add: READINESS_ATTEMPTS_def eval_nat_numeral)
qed

lemma live_verify:
  assumes h: "answers S cs" and r: "renders S cs" and b: "\<forall>role\<in>set ROLES. b role = (True, True)"
  shows "sure (there cs b) (verify S False) (\<lambda>_. there cs b)"
proof -
  from r have a: "returns (escape (bind (jitem (JObj (cs ''head'')) ''api_port'') int_of))"
    by (simp add: renders_def returns_escape)
  show ?thesis
    unfolding verify_def if_False
    by (rule total_seq, rule total_give, assumption, rule total_seq, rule hoare_each,
        rule live_verify_role [OF h r], assumption, erule b [THEN bspec],
        rule total_contract, rule total_returns [OF a], rule live_await [OF h])
qed

lemma live_deploy:
  assumes h: "healthy S cs" and r: "renders S cs" and c: "copies_allowed S cs" and f: "fabric_profile (s_dep S) = ''f0''"
  shows "sure (there cs b) (deploy S False) (\<lambda>_. there cs (\<lambda>role. if role \<in> set ROLES then (True, True) else b role))"
proof -
  let ?w = "b(''worker'' := (True, False))"
  let ?c = "?w(''head'' := (True, False))"
  let ?s = "?c(''worker'' := (True, True))"
  let ?e = "?s(''head'' := (True, True))"
  have e: "?e = (\<lambda>role. if role \<in> set ROLES then (True, True) else b role)" by (auto simp: ROLES_def)
  note a = healthy_answers [OF h]
  note p = live_preflight [OF a r f]
  have create: "sure (there cs b) (create S) (\<lambda>_. there cs ?c)"
    unfolding create_def by (rule total_pair) (rule live_create [OF a r], simp add: ROLES_def)+
  have start: "sure (there cs ?c) (start_pair S) (\<lambda>_. there cs ?e)"
    unfolding start_pair_def by (rule total_pair) (rule live_start [OF a r], simp add: ROLES_def, simp)+
  have verify: "sure (there cs ?e) (verify S False) (\<lambda>_. there cs ?e)"
    by (rule live_verify [OF a r]) (simp add: ROLES_def)
  have link: "sure (there cs b) (apply_link S) (\<lambda>_. there cs b)" by (simp add: apply_link_def f total_give)
  have update: "sure (there cs b) (if False then seq (stop_owned S) (\<lambda>_. remove_owned S) else give ()) (\<lambda>_. there cs b)"
    by (simp add: total_give)
  show ?thesis
    unfolding deploy_def e [symmetric]
    by (intro total_seq [OF link] total_seq [OF p] total_seq [OF update] total_seq [OF live_stage [OF h c r]]
        total_seq [OF create] total_seq [OF start] verify)
qed

lemma live_apply:
  assumes "healthy S cs" and "renders S cs" and "copies_allowed S cs" and "fabric_profile (s_dep S) = ''f0''"
    and "s_writable S file"
  shows "sure (there cs (\<lambda>_. (False, False))) (apply_deployment S file False)
     (\<lambda>_. there cs (\<lambda>role. if role \<in> set ROLES then (True, True) else (False, False)))"
proof -
  have "sure (there cs (\<lambda>_. (False, False))) (recovering (deploy S False) (recovery S file False st))
     (\<lambda>_. there cs (\<lambda>role. if role \<in> set ROLES then (True, True) else (False, False)))" for st
    unfolding recovering_def using live_deploy [OF assms(1-4)] by (rule total_catch)
  then show ?thesis
    unfolding apply_deployment_def
    by (intro total_seq [OF live_preflight [OF healthy_answers [OF assms(1)] assms(2,4)]] total_seq [OF live_capture [OF healthy_answers [OF assms(1)] assms(2,4,5)]]) simp_all
qed

end
