(* ===== verification/Engine_Complete.thy ===== *)
theory Engine_Complete
  imports Engine_Live
begin

text \<open>
  A new engine on healthy hosts carries a first deployment through: what its contracts promise is enough for
  every command it renders.
\<close>

lemma render_base_more:
  assumes "render_base P c role lock gid = ret base"
  shows "\<exists>name mp cpath ref more. map_of base ''container'' = Some (JStr name) \<and> map_of base ''model_path'' = Some (JStr mp)
    \<and> map_of base ''contract_path'' = Some (JStr cpath) \<and> map_of base ''image'' = Some (JObj ((''reference'', JStr ref) # more))
    \<and> (role = ''head'' \<longrightarrow> map_of base ''api_port'' = Some (JInt (int (api_port (deployment c)))))
    \<and> returns (render_environment c role gid) \<and> returns (render_container_argv P c role lock None gid)"
  by (rule render_baseE [OF assms], hypsubst, intro exI conjI) (simp_all add: returns_def ret_def)

lemma rendered_role:
  assumes "render_contract P c role (Some lock) None = ret es" and "\<forall>t. is_sha256 (py_sha256 P t)"
  shows "returns (name_of P es) \<and> returns (image_of P es) \<and> returns (remote_model_root P (deployment c) es)
     \<and> returns (jitem (JObj es) ''contract_path'') \<and> returns (contract_json P c role (Some lock) None)
     \<and> returns (render_environment c role None) \<and> returns (render_container_argv P c role (Some lock) None None)
     \<and> (role = ''head'' \<longrightarrow> returns (bind (jitem (JObj es) ''api_port'') int_of))"
proof -
  from assms(1) obtain base where b: "render_base P c role (Some lock) None = ret base"
    and es: "\<exists>d. es = base @ [(''service_contract_sha256'', d)]"
    unfolding render_contract_def bind_eq_ret by auto
  from render_base_more [OF b] obtain name mp cpath ref more where m: "map_of base ''container'' = Some (JStr name)"
    "map_of base ''model_path'' = Some (JStr mp)" "map_of base ''contract_path'' = Some (JStr cpath)"
    "map_of base ''image'' = Some (JObj ((''reference'', JStr ref) # more))"
    "role = ''head'' \<longrightarrow> map_of base ''api_port'' = Some (JInt (int (api_port (deployment c))))"
    "returns (render_environment c role None)" "returns (render_container_argv P c role (Some lock) None None)"
    by (elim exE conjE)
  have k: "map_of es k = map_of base k" if "k \<noteq> ''service_contract_sha256''" for k
    using es that by (auto simp: map_add_def split: option.splits)
  from contract_json_ret [OF assms] have "returns (contract_json P c role (Some lock) None)"
    by (auto simp: returns_def ret_def)
  with m show ?thesis
    by (simp add: name_of_def image_of_def remote_model_root_def jitem_def k escape_def bind_def ret_def returns_def int_of_def Let_def)
qed

lemma engine_renders:
  assumes "engine_init S disk = ret s" and "\<forall>t. is_sha256 (py_sha256 (s_python S) t)"
  shows "renders S (e_contracts s)"
proof -
  from assms(1) obtain w h where "render_contract (s_python S) (s_config S) ''worker'' (Some (s_lock S)) None = ret w"
    "render_contract (s_python S) (s_config S) ''head'' (Some (s_lock S)) None = ret h"
    and cs: "e_contracts s = (\<lambda>_. [])(''worker'' := w, ''head'' := h)"
    by (auto simp: engine_init_def render_contracts_def bind_eq_ret)
  from this(1,2) [THEN rendered_role, OF assms(2)] show ?thesis
    unfolding renders_def ROLES_def cs by simp
qed

text \<open>
  C9. A first deployment without the link profile (\<open>f0\<close>) ends successfully on healthy hosts: if all commands and copies
  succeed, the hosts hold the locked image and the model marker, containers are reported as they were created and run once
  started, the hosts can be logged in to and the paths are ones that may be copied to, and the state file can be written,
  then \<^verbatim>\<open>apply\<close> of a new engine returns and leaves both containers running.  Deployments that set up the
  link (\<open>f1\<close>) are not covered.
\<close>

theorem deployment_completes:
  assumes "engine_init S disk = ret s" and "healthy S (e_contracts s)" and "copies_allowed S (e_contracts s)"
    and "fabric_profile (s_dep S) = ''f0''" and "s_writable S file" and "\<forall>t. is_sha256 (py_sha256 (s_python S) t)"
  shows "\<exists>t. apply_deployment S file False s = (ret (), t) \<and> (\<forall>role\<in>set ROLES. container_status (e_log t) role = (True, True))"
proof -
  note r = engine_renders [OF assms(1,6)]
  from live_apply [OF assms(2) r assms(3-5)] have "sure (there (e_contracts s) (\<lambda>_. (False, False))) (apply_deployment S file False)
     (\<lambda>_. there (e_contracts s) (\<lambda>role. if role \<in> set ROLES then (True, True) else (False, False)))" .
  moreover have "there (e_contracts s) (\<lambda>_. (False, False)) s"
    using engine_init_ret [OF assms(1)] by (simp add: there_def container_status_def)
  ultimately show ?thesis
    unfolding hoare_def there_def
    by (cases "apply_deployment S file False s") (fastforce simp: ret_def split: option.splits sum.splits)
qed

end
