(* ===== verification/Engine_Created.thy ===== *)
theory Engine_Created
  imports Engine_Complete
begin

text \<open>
  What the engine creates is what it verifies: a container that reports what its contract says passes the
  checks, and a contract is rendered as soon as its parts are.
\<close>

subsection \<open>The environment of a contract\<close>

lemma runtime_env_keys: "distinct (map fst RUNTIME_ENV)" "\<forall>k\<in>fst ` set RUNTIME_ENV. CHR ''='' \<notin> set k"
  by (simp_all add: RUNTIME_ENV_def)

lemma dict_update_keys:
  "distinct (map fst al) \<Longrightarrow> distinct (map fst (dict_update al kvs))"
  "fst ` set (dict_update al kvs) = fst ` set al \<union> fst ` set kvs"
  by (induction kvs arbitrary: al) (auto simp: dict_update_def distinct_update dom_update split: prod.split)

lemma environment_keys:
  assumes "render_environment c role g = ret env"
  shows "distinct (map fst env)" and "\<forall>k\<in>fst ` set env. CHR ''='' \<notin> set k"
proof -
  have "\<exists>kvs. env = sort_key fst (dict_update RUNTIME_ENV kvs) \<and> fst ` set kvs \<subseteq> {''VLLM_HOST_IP'', ''NCCL_SOCKET_IFNAME'',
      ''GLOO_SOCKET_IFNAME'', ''TP_SOCKET_IFNAME'', ''NCCL_IB_HCA'', ''CUDA_VISIBLE_DEVICES'', ''NCCL_IB_GID_INDEX'',
      ''NCCL_IB_MTU'', ''DGX_SPARK_FABRIC_PROFILE'', ''DGX_SPARK_FABRIC_CIDR'', ''DGX_SPARK_FABRIC_PEER''}"
    using assms unfolding render_environment_def Let_def bind_eq_ret ret_inject
    by (elim exE conjE) (intro exI conjI, erule sym, auto simp: opt_entry_def split: option.splits)
  then obtain kvs where env: "env = sort_key fst (dict_update RUNTIME_ENV kvs)"
    and k: "fst ` set kvs \<subseteq> {''VLLM_HOST_IP'', ''NCCL_SOCKET_IFNAME'', ''GLOO_SOCKET_IFNAME'', ''TP_SOCKET_IFNAME'',
      ''NCCL_IB_HCA'', ''CUDA_VISIBLE_DEVICES'', ''NCCL_IB_GID_INDEX'', ''NCCL_IB_MTU'', ''DGX_SPARK_FABRIC_PROFILE'',
      ''DGX_SPARK_FABRIC_CIDR'', ''DGX_SPARK_FABRIC_PEER''}" by blast
  show "distinct (map fst env)"
    using dict_update_keys(1) [OF runtime_env_keys(1)] by (simp add: env distinct_map inj_on_def)
  have "\<forall>k\<in>fst ` set kvs. CHR ''='' \<notin> set k"
  proof
    fix k
    assume "k \<in> fst ` set kvs"
    from subsetD [OF k this] show "CHR ''='' \<notin> set k" by (elim insertE emptyE; hypsubst; simp)
  qed
  moreover have "fst ` set env = fst ` set RUNTIME_ENV \<union> fst ` set kvs"
    by (simp only: env set_sort dict_update_keys(2))
  ultimately show "\<forall>k\<in>fst ` set env. CHR ''='' \<notin> set k"
    using runtime_env_keys(2) by blast
qed

lemma entry_key: "CHR ''='' \<notin> set k \<Longrightarrow> takeWhile (\<lambda>c. c \<noteq> CHR ''='') (k @ CHR ''='' # v) = k"
  "CHR ''='' \<notin> set k \<Longrightarrow> dropWhile (\<lambda>c. c \<noteq> CHR ''='') (k @ CHR ''='' # v) = CHR ''='' # v"
  by (induction k) auto

lemma env_pairs_entries:
  assumes "distinct (map fst env)" and "\<forall>k\<in>fst ` set env. CHR ''='' \<notin> set k" and "(k, v) \<in> set env"
  shows "map_of (env_pairs (map (\<lambda>(k, v). JStr (k @ ''='' @ v)) env)) k = Some v"
proof -
  have "concat (map (\<lambda>x. case x of JStr s \<Rightarrow> if CHR ''='' \<in> set s
         then [(takeWhile (\<lambda>c. c \<noteq> CHR ''='') s, tl (dropWhile (\<lambda>c. c \<noteq> CHR ''='') s))] else [] | _ \<Rightarrow> [])
       (map (\<lambda>(k, v). JStr (k @ ''='' @ v)) env)) = env"
    using assms(2) by (induction env) (auto simp: entry_key)
  then have "env_pairs (map (\<lambda>(k, v). JStr (k @ ''='' @ v)) env) = rev env" by (simp add: env_pairs_def)
  with assms(1,3) show ?thesis by (simp add: rev_map [symmetric])
qed

subsection \<open>A container as its contract has it\<close>

definition text_at :: "dict \<Rightarrow> string \<Rightarrow> string" where
  "text_at c k = (case item c k of JStr t \<Rightarrow> t | _ \<Rightarrow> [])"

definition part_at :: "dict \<Rightarrow> string \<Rightarrow> dict" where
  "part_at c k = (case item c k of JObj es \<Rightarrow> es | _ \<Rightarrow> [])"

text \<open>What an inspection reports of the container of a contract.\<close>

definition container_for :: "string \<Rightarrow> bool \<Rightarrow> dict \<Rightarrow> dict" where
  "container_for role running c =
     [(''Name'', JStr (''/'' @ text_at c ''container'')), (''Image'', item (part_at c ''image'') ''image_id''),
      (''State'', JObj [(''Running'', JBool running)]),
      (''Config'', JObj [(''Labels'', JObj ([(role_label, JStr role), (id_label, item c ''deployment_id'')]
           @ part_at (part_at c ''image'') ''labels'')),
         (''Cmd'', item c ''service_argv''),
         (''Env'', JArr (map (\<lambda>(k, v). JStr (k @ ''='' @ (case v of JStr t \<Rightarrow> t | _ \<Rightarrow> []))) (part_at c ''environment'')))]),
      (''Mounts'', JArr [JObj [(''Source'', item c ''model_root''),
         (''Destination'', JStr (if path_name (path_of (text_at c ''model_root'')) = path_name (path_of (text_at c ''model_path''))
            then text_at c ''model_path'' else ''/models''))]])]"

lemma contract_items:
  assumes "render_contract P c role (Some lock) gid = ret es" and "mode (deployment c) \<in> {''production'', ''candidate''}"
  obtains ref iid labels name mp env service cpath where
    "lock_image P (Some lock) role c = ret (ref, Some iid, labels)" "render_environment c role gid = ret env"
    "render_service_argv P c role = ret service" "hd name \<noteq> CHR ''/''" "name \<noteq> []"
    "map_of es ''role'' = Some (JStr role)" "map_of es ''container'' = Some (JStr name)"
    "map_of es ''deployment_id'' = Some (JStr (deployment_id (py_sha256 P) (py_float P) c))"
    "map_of es ''image'' = Some (JObj [(''reference'', JStr ref), (''image_id'', JStr iid), (''labels'', str_dict labels)])"
    "map_of es ''environment'' = Some (str_dict env)" "map_of es ''service_argv'' = Some (str_list service)"
    "map_of es ''model_root'' = Some (JStr (model_root (deployment c)))" "map_of es ''model_path'' = Some (JStr mp)"
    "container_name P c role = ret name" "remote_contract_path c role = ret cpath" "model_path P c = ret mp"
    "map_of es ''contract_path'' = Some (JStr cpath)"
    "map_of es ''api_port'' = Some (if role = ''head'' then JInt (int (api_port (deployment c))) else JNull)"
proof -
  from assms(1) obtain base where b: "render_base P c role (Some lock) gid = ret base"
    and es: "\<exists>d. es = base @ [(''service_contract_sha256'', d)]"
    unfolding render_contract_def bind_eq_ret by auto
  have k: "map_of es k = map_of base k" if "k \<noteq> ''service_contract_sha256''" for k
    using es that by (auto simp: map_add_def split: option.splits)
  show ?thesis
  proof (rule render_baseE [OF b])
    fix ref iid labels spec m pid name host addr mp env service argv cpath
    assume l: "lock_image P (Some lock) role c = ret (ref, iid, labels)" and n: "container_name P c role = ret name"
      and r: "render_environment c role gid = ret env" "render_service_argv P c role = ret service"
        "remote_contract_path c role = ret cpath" "model_path P c = ret mp"
      and base: "base = [(''schema_version'', JInt 1),
             (''deployment_id'', JStr (deployment_id (py_sha256 P) (py_float P) c)),
             (''mode'', JStr m), (''profile_id'', pid), (''role'', JStr role), (''container'', JStr name),
             (''host'', JStr host), (''node_addr'', JStr addr), (''fabric'', spec),
             (''api_port'', if role = ''head'' then JInt (int (api_port (deployment c))) else JNull),
             (''master_addr'', JStr (master_addr (deployment c))), (''master_port'', JInt (int (master_port (deployment c)))),
             (''model_path'', JStr mp), (''model_root'', JStr (model_root (deployment c))),
             (''model_manifest_sha256'', JStr (model_manifest_sha256 (deployment c))),
             (''image'', JObj [(''reference'', JStr ref), (''image_id'', opt_json JStr iid), (''labels'', str_dict labels)]),
             (''environment'', str_dict env), (''service_argv'', str_list service),
             (''container_argv'', str_list argv), (''contract_path'', JStr cpath)]"
    from l obtain i where i: "iid = Some i"
      by (auto simp: lock_image_def bind_eq_ret obj_case_ret split: option.splits)
    from n assms(2) have "hd name \<noteq> CHR ''/'' \<and> name \<noteq> []"
      by (auto simp: container_name_def render_mode_def bind_eq_ret split: if_splits)
    with l r n show thesis
      by (intro that [of ref i labels env service name mp cpath]) (simp_all add: k base i opt_json_def)
  qed
qed

lemma py_str_text: "py_str P (JStr s) = s"
  by (simp add: py_str_def)

lemma map_str_values: "map ((\<lambda>(k, v). (k, py_str P v)) \<circ> (\<lambda>(k, v). (k, JStr v))) kvs = kvs"
  by (induction kvs) (auto simp: py_str_def)

lemma texts_ok: "[] \<notin> set ss \<Longrightarrow> nonempty_texts (map JStr ss) = Some ss"
  by (induction ss) auto

lemma py_eq_texts: "py_eq (JArr (map JStr ss)) (JArr (map JStr ss))"
  by (induction ss) (auto simp: num_of_def)

lemma item_images:
  "item [(''reference'', r), (''image_id'', i), (''labels'', l)] ''image_id'' = i"
  "item [(''reference'', r), (''image_id'', i), (''labels'', l)] ''reference'' = r"
  "item [(''reference'', r), (''image_id'', i), (''labels'', l)] ''labels'' = l"
  by (simp_all add: item_def)

text \<open>The container of a rendered contract is owned and verified.\<close>

lemma created_is_verified:
  assumes c: "render_contract P c role (Some lock) gid = ret es" and m: "mode (deployment c) \<in> {''production'', ''candidate''}"
    and s: "render_service_argv P c role = ret service" "[] \<notin> set service"
  shows "owned P m' role es (container_for role running es) = ret ()"
    and "is_running (container_for role running es) = running"
    and "running \<Longrightarrow> verify_container_inspect P (container_for role running es) es = ret ()"
proof -
  from c m obtain ref iid labels name mp env service' where i: "lock_image P (Some lock) role c = ret (ref, Some iid, labels)"
    "render_environment c role gid = ret env" "render_service_argv P c role = ret service'"
    and n: "hd name \<noteq> CHR ''/''" "name \<noteq> []"
    and es: "map_of es ''role'' = Some (JStr role)" "map_of es ''container'' = Some (JStr name)"
    "map_of es ''deployment_id'' = Some (JStr (deployment_id (py_sha256 P) (py_float P) c))"
    "map_of es ''image'' = Some (JObj [(''reference'', JStr ref), (''image_id'', JStr iid), (''labels'', str_dict labels)])"
    "map_of es ''environment'' = Some (str_dict env)" "map_of es ''service_argv'' = Some (str_list service')"
    "map_of es ''model_root'' = Some (JStr (model_root (deployment c)))" "map_of es ''model_path'' = Some (JStr mp)"
    by (rule contract_items)
  with s(1) have sv: "service' = service" by simp
  let ?x = "container_for role running es" and ?id = "deployment_id (py_sha256 P) (py_float P) c"
  have at: "text_at es ''container'' = name" "text_at es ''model_root'' = model_root (deployment c)" "text_at es ''model_path'' = mp"
    "item es k = (case map_of es k of None \<Rightarrow> JNull | Some v \<Rightarrow> v)"
    "part_at es ''image'' = [(''reference'', JStr ref), (''image_id'', JStr iid), (''labels'', str_dict labels)]"
    "part_at es ''environment'' = map (\<lambda>(k, v). (k, JStr v)) env" for k
    using es by (simp_all add: text_at_def part_at_def item_def str_dict_def)
  have lp: "part_at [(''reference'', JStr ref), (''image_id'', JStr iid), (''labels'', str_dict labels)] ''labels''
      = map (\<lambda>(k, v). (k, JStr v)) labels"
    by (simp add: part_at_def item_def str_dict_def)
  have conf: "docker_field ?x ''Labels'' = JObj ([(role_label, JStr role), (id_label, JStr ?id)] @ map (\<lambda>(k, v). (k, JStr v)) labels)"
    "docker_field ?x ''Cmd'' = str_list service"
    "docker_field ?x ''Env'' = JArr (map (\<lambda>(k, v). JStr (k @ ''='' @ v)) env)"
    using es by (simp_all add: docker_field_def container_for_def item_def at lp sv comp_def split_def)
  have ls: "labels_of P ?x = ret ([(role_label, role), (id_label, ?id)] @ labels)"
    by (simp add: labels_of_def conf(1) py_str_text map_str_values)
  have nm: "container_of P ?x = name"
    using n by (cases name) (simp_all add: container_of_def get_str_def container_for_def at py_str_def lstrip_char_def)
  show run: "is_running ?x = running" by (simp add: is_running_def container_for_def item_def)
  show "owned P m' role es ?x = ret ()"
    using es nm by (simp add: owned_def bind_eq_ret check_ret escape_ret ls jitem_def current_owner_def label_def
        role_label_def id_label_def item_def num_of_def)
  assume running
  have env: "verify_env P ?x es = ret ()"
    using env_pairs_entries [OF environment_keys [OF i(2)]]
    by (auto simp: verify_env_def conf at es str_dict_def py_str_text)
  have mounts: "verify_mounts P ?x es = ret ()"
    using es by (simp add: verify_mounts_def container_for_def item_def at get_str_def py_str_text Let_def check_ret mount_strings_def model_mount_def)
  have keys: "labels_match ([(role_label, role), (id_label, ?id)] @ labels) (map (\<lambda>(k, v). (k, JStr v)) labels)"
  proof -
    have "item (map (\<lambda>(k, v). (k, JStr v)) labels) k = (case map_of labels k of None \<Rightarrow> JNull | Some v \<Rightarrow> JStr v)" for k
      by (simp add: item_def map_of_map split: option.split)
    then show ?thesis
      by (auto simp: labels_match_def label_def role_label_def id_label_def REQUIRED_LABELS_def num_of_def split: option.split)
  qed
  have cmd: "command_of ?x = ret service" by (simp add: command_of_def conf(2) str_list_def texts_ok [OF s(2)])
  have im: "item ?x ''Image'' = JStr iid" by (simp add: container_for_def item_def at)
  have up: "is_running ?x" using run \<open>running\<close> by simp
  show "verify_container_inspect P ?x es = ret ()"
    using es nm env mounts keys cmd up py_eq_texts [of service] sv
    by (simp add: verify_container_inspect_def bind_eq_ret check_ret escape_ret jitem_def Let_def ls im py_in_def hashable_def
        num_of_def at(4) item_images str_dict_def str_list_def iterate_def label_def role_label_def id_label_def py_str_text)
qed

subsection \<open>A contract from its parts\<close>

lemma environment_returns: "role \<in> set ROLES \<Longrightarrow> returns (render_environment c role g)"
  by (auto simp: render_environment_def role_value_def for_role_def ROLES_def Let_def bind_def ret_def returns_def)

lemma labels_return: "set ks \<subseteq> fst ` set labels \<Longrightarrow> returns (label_args labels ks)"
proof (induction ks)
  case (Cons k ks)
  then obtain v where "map_of labels k = Some v" by (metis keys_map_of list.set_intros(1) option.exhaust subset_iff)
  with Cons show ?case by (auto simp: returns_bind_ret)
qed (simp add: returns_def ret_def)

lemma contract_returns:
  assumes l: "lock_image P lock role c = ret (ref, iid, labels)" "set REQUIRED_LABELS \<subseteq> fst ` set labels"
    and r: "role \<in> set ROLES" and f: "returns (fabric_spec (deployment c) role)" and m: "returns (render_mode c)"
    and i: "returns (jitem (JObj (profile c)) ''profile_id'')" and n: "returns (container_name P c role)"
    and p: "returns (model_path P c)" and s: "returns (render_service_argv P c role)"
  shows "returns (render_contract P c role lock None)"
proof -
  from f m i n p s environment_returns [OF r, of c None] labels_return [OF l(2)]
  obtain f' m' i' n' p' s' e' l' where v: "fabric_spec (deployment c) role = ret f'" "render_mode c = ret m'"
    "jitem (JObj (profile c)) ''profile_id'' = ret i'" "container_name P c role = ret n'" "model_path P c = ret p'"
    "render_service_argv P c role = ret s'" "render_environment c role None = ret e'" "label_args labels REQUIRED_LABELS = ret l'"
    by (elim returnsE)
  from r have "role = ''head'' \<or> role = ''worker''" by (auto simp: ROLES_def)
  then obtain h a where h: "role_value role (head_host (deployment c)) (worker_host (deployment c)) = ret h"
    "role_value role (head_node_addr (deployment c)) (worker_node_addr (deployment c)) = ret a"
    by (auto simp: role_value_def for_role_def)
  have path: "remote_contract_path c role = ret (path_str (path_join (path_join (path_of (remote_root (deployment c))) ''contracts'') (m' @ ''-'' @ role @ ''.json'')))"
    "remote_env_path c role = ret (path_str (path_join (path_join (path_of (remote_root (deployment c))) ''contracts'') (m' @ ''-'' @ role @ ''.env'')))"
    by (simp_all add: remote_contract_path_def remote_env_path_def remote_file_def v)
  have argv: "returns (render_container_argv P c role lock None None)"
    by (simp add: render_container_argv_def l(1) v path model_mount_destination_def) (simp add: returns_def ret_def)
  then obtain argv where "render_container_argv P c role lock None None = ret argv" by (rule returnsE)
  then show ?thesis
    by (simp add: render_contract_def render_base_def l(1) v h path Let_def) (simp add: returns_def ret_def)
qed

end
