(* ===== verification/Cli.thy ===== *)
theory Cli
  imports Engine_Law Contract
begin

text \<open>
  \<^verbatim>\<open>dgx_deploy/cli.py\<close>: the dispatch of the command line, its confirmation gate and its exit statuses, from
  the parsed arguments on.  The state of a run is the text printed, the local files and the events of the
  engine, if one was created.
\<close>

subsection \<open>Arguments and environment\<close>

text \<open>The namespace of \<^verbatim>\<open>argparse\<close>; what a command does not declare has the default of \<^verbatim>\<open>getattr\<close>.\<close>

record arguments =
  a_command :: string
  a_config_command :: string
  a_env_file :: path
  a_profile :: path
  a_lock_file :: "path option"
  a_apply :: bool
  a_confirm :: "string option"
  a_dry_run :: bool
  a_state_file :: "path option"
  a_output_dir :: "path option"

text \<open>
  What the program asks of Python and the operating system: \<open>m_repo\<close> is the resolved root of the
  repository, \<open>m_expand\<close> is \<^verbatim>\<open>Path.expanduser\<close>, \<open>m_resolve\<close> is \<^verbatim>\<open>Path.resolve\<close>, \<open>m_mkdir\<close> and \<open>m_writable\<close>
  tell whether a directory can be made and a file be written.
\<close>

record machine =
  m_python :: python
  m_repo :: path
  m_expand :: "path \<Rightarrow> path"
  m_resolve :: "path \<Rightarrow> path"
  m_mkdir :: "path \<Rightarrow> bool"
  m_writable :: "string \<Rightarrow> bool"
  m_transport :: transport
  m_copier :: copier
  m_tmpdir :: "event list \<Rightarrow> string"

record shell =
  sh_out :: string
  sh_disk :: "string \<rightharpoonup> string"
  sh_events :: "event list"

type_synonym 'a cmd = "(shell, failure, 'a) io"

definition calc :: "(failure, 'a) comp \<Rightarrow> 'a cmd" where
  "calc m = lift id m"

definition say :: "string \<Rightarrow> unit cmd" where
  "say t = change (\<lambda>s. s\<lparr>sh_out := sh_out s @ t\<rparr>)"

definition write_text :: "machine \<Rightarrow> path \<Rightarrow> string \<Rightarrow> unit cmd" where
  "write_text M p t =
     (if m_writable M (path_str p) then change (\<lambda>s. s\<lparr>sh_disk := (sh_disk s)(path_str p \<mapsto> t)\<rparr>) else throw OSError)"

text \<open>\<^verbatim>\<open>json.dumps\<close> with \<^verbatim>\<open>sort_keys\<close> and \<^verbatim>\<open>indent\<close>, and with its defaults, as \<^verbatim>\<open>print\<close> ends it.\<close>

definition pretty :: "python \<Rightarrow> dict \<Rightarrow> string" where
  "pretty P es = json_lines (py_float P) 0 (JObj es) @ [CHR 0x0A]"

fun json_dumps :: "(rat \<Rightarrow> string) \<Rightarrow> json \<Rightarrow> string" where
  "json_dumps sf (JArr xs) = ''['' @ join '', '' (map (json_dumps sf) xs) @ '']''"
| "json_dumps sf (JObj es) = ''{'' @ join '', '' (map (\<lambda>(k, v). json_string k @ '': '' @ json_dumps sf v) es) @ ''}''"
| "json_dumps sf v = canonical_json sf v"

subsection \<open>Reading the configuration and the lock\<close>

definition with_lock_file :: "config \<Rightarrow> string \<Rightarrow> config" where
  "with_lock_file c p = c\<lparr>deployment := (deployment c)\<lparr>image_lock_file := p\<rparr>\<rparr>"

definition load_args :: "machine \<Rightarrow> arguments \<Rightarrow> config cmd" where
  "load_args M a =
     seq (asks sh_disk) (\<lambda>disk.
     seq (lift BadConfig (load_config (m_resolve M) (\<lambda>p. disk (path_str p)) (py_loads (m_python M)) (m_repo M)
       (a_env_file a) (a_profile a))) (\<lambda>c.
       give (case a_lock_file a of
           None \<Rightarrow> c
         | Some p \<Rightarrow> let q = m_expand M p in with_lock_file c (path_str (if is_absolute q then q else m_resolve M q)))))"

definition lock_text :: "config \<Rightarrow> (string \<rightharpoonup> string) \<Rightarrow> string option" where
  "lock_text c disk = disk (path_str (path_of (image_lock_file (deployment c))))"

definition load_lock :: "machine \<Rightarrow> config \<Rightarrow> dict option cmd" where
  "load_lock M c =
     (if mode (deployment c) = ''generic'' then give None
      else seq (asks sh_disk) (\<lambda>disk.
           seq (calc (escape (load_deployment_lock (m_python M) (lock_text c disk) c))) (\<lambda>lock. give (Some lock))))"

definition the_id :: "machine \<Rightarrow> config \<Rightarrow> string" where
  "the_id M c = deployment_id (py_sha256 (m_python M)) (py_float (m_python M)) c"

definition state_file :: "machine \<Rightarrow> arguments \<Rightarrow> config \<Rightarrow> path" where
  "state_file M a c =
     (case a_state_file a of
        Some p \<Rightarrow> m_expand M p
      | None \<Rightarrow> path_join (path_of (state_root (deployment c))) (the_id M c @ ''.rollback.json''))"

subsection \<open>Rendering to a directory\<close>

definition env_lines :: "python \<Rightarrow> dict \<Rightarrow> string" where
  "env_lines P env = concat (map (\<lambda>(k, v). k @ ''='' @ py_str P v @ [CHR 0x0A]) env)"

definition render_role_files :: "machine \<Rightarrow> config \<Rightarrow> dict option \<Rightarrow> path \<Rightarrow> string \<Rightarrow> string list cmd" where
  "render_role_files M c lock dir role =
     (let P = m_python M; cpath = path_join dir (role @ ''.contract.json''); epath = path_join dir (role @ ''.env'')
      in seq (calc (escape (render_contract_json P c role lock None))) (\<lambda>t.
         seq (write_text M cpath t) (\<lambda>_.
         seq (calc (escape (bind (render_contract P c role lock None) (\<lambda>es.
           bind (jitem (JObj es) ''environment'') (\<lambda>v. case v of JObj env \<Rightarrow> ret env | _ \<Rightarrow> raise AttributeError))))) (\<lambda>env.
         seq (write_text M epath (env_lines P env)) (\<lambda>_.
           give [path_str cpath, path_str epath])))))"

definition render_to_dir :: "machine \<Rightarrow> config \<Rightarrow> dict option \<Rightarrow> path \<Rightarrow> dict cmd" where
  "render_to_dir M c lock output_dir =
     (let dir = m_resolve M (m_expand M output_dir); plan = path_join dir ''plan.json''
      in if dir = m_repo M \<or> in_parents (m_repo M) dir then throw (BadConfig ConfigError)
         else if \<not> m_mkdir M dir then throw OSError
         else seq (collect (render_role_files M c lock dir) ROLES) (\<lambda>written.
              seq (calc (escape (render_plan (m_python M) c lock))) (\<lambda>p.
              seq (write_text M plan (pretty (m_python M) p)) (\<lambda>_.
                give [(''output_dir'', JStr (path_str dir)), (''files'', str_list (concat written @ [path_str plan])),
                  (''deployment_id'', JStr (the_id M c))]))))"

definition render_both :: "machine \<Rightarrow> config \<Rightarrow> dict option \<Rightarrow> dict cmd" where
  "render_both M c lock =
     seq (calc (escape (render_contract (m_python M) c ''worker'' lock None))) (\<lambda>w.
     seq (calc (escape (render_contract (m_python M) c ''head'' lock None))) (\<lambda>h.
       give [(''deployment_id'', JStr (the_id M c)), (''mode'', JStr (mode (deployment c))),
         (''roles'', JObj [(''worker'', JObj w), (''head'', JObj h)])]))"

subsection \<open>The commands\<close>

definition MUTATING :: "string list" where
  "MUTATING = [''apply'', ''start'', ''stop'', ''remove'', ''update'', ''fabric-apply'', ''rollback'']"

definition LOCKED :: "string list" where
  "LOCKED = [''render'', ''plan'', ''apply'', ''start'', ''stop'', ''remove'', ''update'', ''fabric-apply'', ''rollback'',
     ''verify'']"

definition print_plan :: "machine \<Rightarrow> config \<Rightarrow> dict option \<Rightarrow> int cmd" where
  "print_plan M c lock =
     seq (calc (escape (render_plan (m_python M) c lock))) (\<lambda>p. seq (say (pretty (m_python M) p)) (\<lambda>_. give 0))"

definition config_command :: "machine \<Rightarrow> arguments \<Rightarrow> config \<Rightarrow> int cmd" where
  "config_command M a c =
     (let P = m_python M
      in seq (calc (reject_mutation (a_apply a) (a_confirm a))) (\<lambda>_.
         seq (if a_config_command a = ''render''
              then say (pretty P (redact_mapping [(''profile'', JObj (profile c)), (''deployment'', JObj (deployment_dict (deployment c)))]))
              else if a_config_command a = ''validate''
              then seq (calc (escape (jitem (JObj (profile c)) ''profile_id''))) (\<lambda>pid.
                   say (json_dumps (py_float P) (JObj [(''profile_id'', pid),
                     (''config_sha256'', JStr (config_sha256 (py_sha256 P) (py_float P) (config_json c)))]) @ [CHR 0x0A]))
              else give ()) (\<lambda>_. give 0)))"

text \<open>The operation of a command; \<^verbatim>\<open>remove\<close> has none, and ends in \<^verbatim>\<open>parser.error\<close>.\<close>

definition operation_of :: "string \<Rightarrow> operation option" where
  "operation_of command =
     (if command = ''apply'' then Some (Apply False)
      else if command = ''fabric-apply'' then Some Apply_Fabric
      else if command = ''start'' then Some Start
      else if command = ''stop'' then Some Stop
      else if command = ''update'' then Some (Apply True)
      else if command = ''rollback'' then Some Rollback
      else None)"

definition site_of :: "machine \<Rightarrow> config \<Rightarrow> dict \<Rightarrow> site" where
  "site_of M c lock = \<lparr>s_python = m_python M, s_config = c, s_lock = lock, s_transport = m_transport M,
     s_copier = m_copier M, s_tmpdir = m_tmpdir M, s_writable = m_writable M\<rparr>"

definition on_engine :: "engine \<Rightarrow> 'a eng \<Rightarrow> 'a cmd" where
  "on_engine s0 m = (\<lambda>s. case m s0 of (r, t) \<Rightarrow> (r, s\<lparr>sh_disk := e_disk t, sh_events := sh_events s @ e_log t\<rparr>))"

definition run_command :: "machine \<Rightarrow> arguments \<Rightarrow> config \<Rightarrow> int cmd" where
  "run_command M a c =
     seq (asks sh_disk) (\<lambda>disk.
     seq (calc (engine_lock (m_python M) c None (lock_text c disk))) (\<lambda>lock.
     let S = site_of M c lock; file = path_str (state_file M a c) in
     seq (calc (engine_init S disk)) (\<lambda>s0.
     let finish = seq (say (json_dumps (py_float (m_python M)) (JObj [(''deployment_id'', JStr (the_id M c)),
         (''command'', JStr (a_command a)), (''status'', JStr ''ok'')]) @ [CHR 0x0A])) (\<lambda>_. give 0) in
       if a_command a = ''verify'' then seq (on_engine s0 (verify S True)) (\<lambda>_. finish)
       else case operation_of (a_command a) of
           None \<Rightarrow> give 2
         | Some op \<Rightarrow> seq (on_engine s0 (perform S file op)) (\<lambda>_. finish))))"

text \<open>The confirmation gate of the commands that change hosts.\<close>

definition confirmed :: "machine \<Rightarrow> arguments \<Rightarrow> config \<Rightarrow> (failure, unit) comp" where
  "confirmed M a c =
     bind (reject_mutation (\<not> a_dry_run a) (a_confirm a)) (\<lambda>_.
       assert MutationDisabled (a_dry_run a \<or> a_confirm a = Some (the_id M c)))"

text \<open>The body of \<^verbatim>\<open>main\<close>: a status, where 2 is the \<^verbatim>\<open>SystemExit\<close> of \<^verbatim>\<open>parser.error\<close>.\<close>

definition dispatch :: "machine \<Rightarrow> arguments \<Rightarrow> int cmd" where
  "dispatch M a =
     seq (load_args M a) (\<lambda>c.
     let command = a_command a; P = m_python M in
     if command = ''config'' then config_command M a c
     else seq (if command \<in> set LOCKED then load_lock M c else give None) (\<lambda>lock.
       if command = ''plan'' then seq (calc (reject_mutation (a_apply a) (a_confirm a))) (\<lambda>_. print_plan M c lock)
       else if command = ''render''
       then seq (case a_output_dir a of Some d \<Rightarrow> render_to_dir M c lock d | None \<Rightarrow> render_both M c lock) (\<lambda>res.
            seq (say (pretty P (redact_mapping res))) (\<lambda>_. give 0))
       else if command = ''manifest''
       then seq (calc (escape (manifest_json (py_sha256 P) (py_float P) c))) (\<lambda>t. seq (say t) (\<lambda>_. give 0))
       else if command = ''verify'' \<and> a_dry_run a then print_plan M c lock
       else if command \<in> set MUTATING
       then seq (calc (confirmed M a c)) (\<lambda>_. if a_dry_run a then print_plan M c lock else run_command M a c)
       else run_command M a c))"

definition EXIT_USAGE :: int where "EXIT_USAGE = 64"
definition EXIT_DISABLED :: int where "EXIT_DISABLED = 78"
definition EXIT_OPERATION :: int where "EXIT_OPERATION = 1"

text \<open>
  The handlers of \<^verbatim>\<open>main\<close>.  \<^verbatim>\<open>LifecycleError\<close> and \<^verbatim>\<open>LockError\<close> are \<^verbatim>\<open>ConfigError\<close>s; what no handler
  names ends the program with a traceback.
\<close>

definition is_config_error :: "failure \<Rightarrow> bool" where
  "is_config_error e \<longleftrightarrow> lifecycle_error e \<or> e \<in> {BadConfig ConfigError, Escaped LockError}"

definition exit_code :: "failure \<Rightarrow> int option" where
  "exit_code e =
     (if e = MutationDisabled then Some EXIT_DISABLED
      else if is_config_error e \<or> e = Escaped RenderError \<or> e = OSError
      then Some (if is_config_error e \<or> e = Escaped RenderError then EXIT_USAGE else EXIT_OPERATION)
      else None)"

definition cli_main :: "machine \<Rightarrow> arguments \<Rightarrow> int cmd" where
  "cli_main M a = catch (dispatch M a) (\<lambda>e. case exit_code e of Some n \<Rightarrow> give n | None \<Rightarrow> throw e)"

end
