(* ===== verification/Cli_Props.thy ===== *)
theory Cli_Props
  imports Cli
begin

text \<open>
  What the command line lets happen: events on the hosts and changes of local files only under the
  confirmation gate, and the meaning of the exit statuses.
\<close>

subsection \<open>The confirmation gate\<close>

text \<open>The command changes hosts, is no dry run and names the deployment that its arguments describe.\<close>

definition gate_passed :: "machine \<Rightarrow> arguments \<Rightarrow> shell \<Rightarrow> bool" where
  "gate_passed M a s \<longleftrightarrow> a_command a \<in> set MUTATING \<and> \<not> a_dry_run a
     \<and> (\<exists>c. load_args M a s = (ret c, s) \<and> a_confirm a = Some (the_id M c))"

text \<open>A run may only add events of \<open>E\<close> and, unless \<open>w\<close>, must leave the files alone.\<close>

definition keeps_to :: "event set \<Rightarrow> bool \<Rightarrow> shell \<Rightarrow> shell \<Rightarrow> bool" where
  "keeps_to E w s t \<longleftrightarrow> (\<exists>es. sh_events t = sh_events s @ es \<and> set es \<subseteq> E) \<and> (w \<or> sh_disk t = sh_disk s)"

lemma pre_keeps_to [frame_rules]: "pre (keeps_to E w)"
proof -
  have "keeps_to E w s u" if "keeps_to E w s t" "keeps_to E w t u" for s t u
  proof -
    from that obtain a b where e: "sh_events t = sh_events s @ a" "set a \<subseteq> E" "sh_events u = sh_events t @ b" "set b \<subseteq> E"
      and d: "w \<or> sh_disk t = sh_disk s" "w \<or> sh_disk u = sh_disk t"
      unfolding keeps_to_def by blast
    have "sh_events u = sh_events s @ (a @ b)" by (simp only: e append_assoc)
    moreover have "set (a @ b) \<subseteq> E" using e(2,4) by simp
    moreover have "w \<or> sh_disk u = sh_disk s" using d by metis
    ultimately show ?thesis unfolding keeps_to_def by blast
  qed
  moreover have "keeps_to E w s s" for s by (simp add: keeps_to_def)
  ultimately show ?thesis unfolding pre_def by blast
qed

lemma keeps_calc [frame_rules]: "frame (keeps_to E w) (calc m)"
  unfolding calc_def by (intro frame_rules)

lemma keeps_say [frame_rules]: "frame (keeps_to E w) (say t)"
  unfolding say_def by (rule frame_change) (simp add: keeps_to_def)

lemma keeps_write [frame_rules]: "w \<Longrightarrow> frame (keeps_to E w) (write_text M p t)"
  unfolding write_text_def by (intro frame_rules frame_change) (simp add: keeps_to_def)

lemma keeps_plan [frame_rules]: "frame (keeps_to E w) (print_plan M c lock)"
  unfolding print_plan_def by (intro frame_rules)

lemma keeps_lock [frame_rules]: "frame (keeps_to E w) (load_lock M c)"
  unfolding load_lock_def by (intro frame_rules)

lemma keeps_config [frame_rules]: "frame (keeps_to E w) (config_command M a c)"
  unfolding config_command_def Let_def by (intro frame_rules)

lemma keeps_both [frame_rules]: "frame (keeps_to E w) (render_both M c lock)"
  unfolding render_both_def by (intro frame_rules)

lemma keeps_dir [frame_rules]: "w \<Longrightarrow> frame (keeps_to E w) (render_to_dir M c lock d)"
  unfolding render_to_dir_def render_role_files_def Let_def by (intro frame_rules)

lemma frame_seq_calc: "pre R \<Longrightarrow> (\<And>x. m = ret x \<Longrightarrow> frame R (f x)) \<Longrightarrow> frame R (seq (calc m) f)"
  unfolding calc_def by (rule frame_seq_lift)

lemma keeps_verify:
  assumes "engine_init S disk = ret s0" and "a_command a = ''verify''"
  shows "frame (\<lambda>s t. sh_disk s = disk \<longrightarrow> keeps_to silent False s t) (on_engine s0 (verify S True))"
  unfolding frame_def
proof
  fix s
  obtain r t where v: "verify S True s0 = (r, t)" by force
  from frameD [OF verify_quiet v] frameD [OF verify_neutral(1) v] engine_init_ret [OF assms(1)]
  show "sh_disk s = disk \<longrightarrow> keeps_to silent False s (snd (on_engine s0 (verify S True) s))"
    by (auto simp: on_engine_def v keeps_to_def extends_def neutral_def)
qed

lemma keeps_operation: "frame (keeps_to UNIV True) (on_engine s0 m)"
  by (auto simp: frame_def on_engine_def keeps_to_def split: prod.split)

lemma run_command_operation: "a_command a \<noteq> ''verify'' \<Longrightarrow> frame (keeps_to UNIV True) (run_command M a c)"
  unfolding run_command_def Let_def by (simp, intro frame_rules keeps_operation)

lemma run_command_none:
  "operation_of (a_command a) = None \<Longrightarrow> a_command a \<noteq> ''verify'' \<Longrightarrow> frame (keeps_to E w) (run_command M a c)"
  unfolding run_command_def Let_def by (simp, intro frame_rules)

lemma run_command_other:
  "a_command a \<notin> set MUTATING \<Longrightarrow> a_command a \<noteq> ''verify'' \<Longrightarrow> frame (keeps_to E w) (run_command M a c)"
  by (rule run_command_none) (simp_all add: operation_of_def MUTATING_def)

lemma run_command_verify:
  assumes "a_command a = ''verify''"
  shows "frame (keeps_to silent False) (run_command M a c)"
  unfolding frame_def
proof
  fix s :: shell
  let ?lock = "engine_lock (m_python M) c None (lock_text c (sh_disk s))"
  have finish: "frame (\<lambda>s' t. sh_disk s' = sh_disk s \<longrightarrow> keeps_to silent False s' t)
      (seq (calc ?lock) (\<lambda>lock. seq (calc (engine_init (site_of M c lock) (sh_disk s))) (\<lambda>s0.
         seq (on_engine s0 (verify (site_of M c lock) True)) (\<lambda>_. seq (say x) (\<lambda>_. give (0::int))))))" for x
  proof (rule frame_seq_calc)
    show p: "pre (\<lambda>s' t. sh_disk s' = sh_disk s \<longrightarrow> keeps_to silent False s' t)"
      using pre_keeps_to [of silent False] by (auto simp: pre_def keeps_to_def)
    fix lock
    show "frame (\<lambda>s' t. sh_disk s' = sh_disk s \<longrightarrow> keeps_to silent False s' t)
        (seq (calc (engine_init (site_of M c lock) (sh_disk s))) (\<lambda>s0.
         seq (on_engine s0 (verify (site_of M c lock) True)) (\<lambda>_. seq (say x) (\<lambda>_. give (0::int)))))"
      by (rule frame_seq_calc [OF p], rule frame_seq [OF p keeps_verify [OF _ assms]], assumption,
          rule frame_mono [of "keeps_to silent False"]) (intro frame_rules, simp)
  qed
  from finish [unfolded frame_def, rule_format, of s] show "keeps_to silent False s (snd (run_command M a c s))"
    by (simp add: run_command_def assms Let_def seq_def asks_def ret_def)
qed

lemma load_args_state: "load_args M a s = (r, t) \<Longrightarrow> t = s"
proof -
  have "frame (=) (load_args M a)" unfolding load_args_def by (intro frame_rules) (simp add: pre_def)+
  then show "load_args M a s = (r, t) \<Longrightarrow> t = s" by (auto dest: frameD)
qed

definition rest :: "machine \<Rightarrow> arguments \<Rightarrow> config \<Rightarrow> int cmd" where
  "rest M a c = (let command = a_command a; P = m_python M in
     if command = ''config'' then config_command M a c
     else seq (if command \<in> set LOCKED then load_lock M c else give None) (\<lambda>lock.
       if command = ''plan'' then seq (calc (reject_mutation (a_apply a) (a_confirm a))) (\<lambda>_. print_plan M c lock)
       else if command = ''render''
       then seq (case a_output_dir a of Some d \<Rightarrow> render_to_dir M c lock d | None \<Rightarrow> render_both M c lock) (\<lambda>res.
            seq (say (pretty P (redact_mapping res))) (\<lambda>_. give 0))
       else if command = ''manifest''
       then seq (calc (escape (manifest_json (py_sha256 P) (py_float P) c))) (\<lambda>t. seq (say t) (\<lambda>_. give 0))
       else if command = ''verify'' \<and> a_dry_run a then print_plan M c lock
       else if command \<in> set MUTATING
       then seq (calc (confirmed M a c)) (\<lambda>_. if a_dry_run a then print_plan M c lock else run_command M a c)
       else run_command M a c))"

lemma dispatch_rest: "dispatch M a = seq (load_args M a) (rest M a)"
  by (simp add: dispatch_def rest_def [abs_def])

lemma confirmed_ret: "confirmed M a c = ret u \<Longrightarrow> \<not> a_dry_run a \<Longrightarrow> a_confirm a = Some (the_id M c)"
  by (auto simp: confirmed_def bind_eq_ret assert_eq_ret)

lemma rest_keeps_to:
  assumes "a_command a \<in> set MUTATING \<Longrightarrow> \<not> a_dry_run a \<Longrightarrow> a_confirm a \<noteq> Some (the_id M c)"
  shows "frame (keeps_to (if a_command a = ''verify'' \<and> \<not> a_dry_run a then silent else {}) (a_command a = ''render'')) (rest M a c)"
proof (cases "a_command a = ''verify'' \<and> \<not> a_dry_run a")
  case True
  then show ?thesis
    unfolding rest_def Let_def by (auto simp: MUTATING_def intro!: frame_rules run_command_verify)
next
  case False
  have m: "frame (keeps_to {} w) (seq (calc (confirmed M a c))
      (\<lambda>_. if a_dry_run a then print_plan M c lock else run_command M a c))" if "a_command a \<in> set MUTATING" for lock w
    using confirmed_ret assms that by (intro frame_seq_calc frame_rules) blast+
  show ?thesis
    unfolding rest_def Let_def if_not_P [OF False]
    by (intro m run_command_other frame_rules) (use False in auto)
qed

lemma cli_main_state: "snd (cli_main M a s) = snd (dispatch M a s)"
  by (auto simp: cli_main_def catch_def give_def throw_def split: prod.split option.split sum.split)

text \<open>
  C15. A run of the command line that has not passed the gate (a command that changes hosts, no dry run, and a
  confirmation equal to the identity of the deployment that its own arguments describe) runs no command on a
  host but those of \<^verbatim>\<open>verify\<close>, which only read, and writes no local file but those of \<^verbatim>\<open>render\<close>, however it ends.
\<close>

theorem unconfirmed_changes_nothing:
  assumes "\<not> gate_passed M a s" and "cli_main M a s = (r, t)"
  shows "\<exists>es. sh_events t = sh_events s @ es
    \<and> (\<forall>e\<in>set es. a_command a = ''verify'' \<and> \<not> a_dry_run a \<and> \<not> mutates e)
    \<and> (a_command a = ''render'' \<or> sh_disk t = sh_disk s)"
proof -
  let ?R = "keeps_to (if a_command a = ''verify'' \<and> \<not> a_dry_run a then silent else {}) (a_command a = ''render'')"
  obtain r' u where l: "load_args M a s = (r', u)" by force
  then have u: "u = s" by (rule load_args_state)
  have "?R s (snd (dispatch M a s))"
  proof (cases r' rule: comp_cases)
    case (returned c)
    with l u have c: "load_args M a s = (ret c, s)" by simp
    with assms(1) have "frame ?R (rest M a c)" unfolding gate_passed_def by (intro rest_keeps_to) blast
    then show ?thesis unfolding dispatch_rest by (simp add: seq_def c ret_def frame_def)
  qed (use l u preD(1) [OF pre_keeps_to] in \<open>simp_all add: dispatch_rest seq_def raise_def\<close>)
  moreover have "?R (snd (dispatch M a s)) t"
    using cli_main_state [of M a s] assms(2) preD(1) [OF pre_keeps_to] by simp
  ultimately show ?thesis using preD(2) [OF pre_keeps_to, of _ _ s _ t]
    unfolding keeps_to_def by (fastforce simp: silent_def split: if_splits)
qed

subsection \<open>Exit statuses\<close>

text \<open>The values that a computation can return.\<close>

definition gives :: "'a set \<Rightarrow> ('s, 'e, 'a) io \<Rightarrow> bool" where
  "gives V m \<longleftrightarrow> (\<forall>s x t. m s = (ret x, t) \<longrightarrow> x \<in> V)"

lemma gives_rules:
  "x \<in> V \<Longrightarrow> gives V (give x)" "(\<And>y. gives V (f y)) \<Longrightarrow> gives V (seq m f)"
  "gives V m1 \<Longrightarrow> gives V m2 \<Longrightarrow> gives V (if b then m1 else m2)"
  "gives V m1 \<Longrightarrow> (\<And>y. gives V (g y)) \<Longrightarrow> gives V (case z of None \<Rightarrow> m1 | Some y \<Rightarrow> g y)"
  by (auto simp: gives_def seq_ret give_ret split: option.split if_split)

lemma run_command_gives: "gives {0, 2} (run_command M a c)"
  unfolding run_command_def Let_def by (intro gives_rules) simp_all

lemma dispatch_gives: "gives {0, 2} (dispatch M a)"
  unfolding dispatch_def config_command_def print_plan_def Let_def by (intro gives_rules run_command_gives) simp_all

lemma exit_code_values: "exit_code e = Some n \<Longrightarrow> n \<in> {EXIT_USAGE, EXIT_DISABLED, EXIT_OPERATION}"
  by (auto simp: exit_code_def split: if_splits)

lemma cli_main_ret:
  "cli_main M a s = (ret n, t) \<longleftrightarrow> dispatch M a s = (ret n, t) \<or> (\<exists>e. dispatch M a s = (raise e, t) \<and> exit_code e = Some n)"
  by (auto simp: cli_main_def catch_ret give_ret throw_ret split: option.splits)

text \<open>
  The exit statuses: 0 exactly when the command ran to its end, 78 when the gate refused it, 1 for an error of
  the operating system, and 64 for every other error that is reported, a deployment that failed on its hosts
  included, although the code has a status of its own for failed operations.
\<close>

theorem exit_statuses:
  "(cli_main M a s = (ret 0, t) \<longleftrightarrow> dispatch M a s = (ret 0, t))
   \<and> (cli_main M a s = (ret EXIT_DISABLED, t) \<longleftrightarrow> dispatch M a s = (raise MutationDisabled, t))
   \<and> (cli_main M a s = (ret EXIT_OPERATION, t) \<longleftrightarrow> dispatch M a s = (raise OSError, t))
   \<and> (cli_main M a s = (ret EXIT_USAGE, t) \<longleftrightarrow>
        (\<exists>e. dispatch M a s = (raise e, t) \<and> (lifecycle_error e \<or> e \<in> {BadConfig ConfigError, Escaped LockError, Escaped RenderError})))"
proof -
  have no: "dispatch M a s \<noteq> (ret n, t)" if "n \<in> {EXIT_USAGE, EXIT_DISABLED, EXIT_OPERATION}" for n
  proof
    assume "dispatch M a s = (ret n, t)"
    with dispatch_gives have "n \<in> {0, 2}" unfolding gives_def by blast
    with that show False by (auto simp: EXIT_USAGE_def EXIT_DISABLED_def EXIT_OPERATION_def)
  qed
  have codes: "exit_code e \<noteq> Some 0" "exit_code e = Some EXIT_DISABLED \<longleftrightarrow> e = MutationDisabled"
    "exit_code e = Some EXIT_OPERATION \<longleftrightarrow> e = OSError"
    "exit_code e = Some EXIT_USAGE \<longleftrightarrow> lifecycle_error e \<or> e \<in> {BadConfig ConfigError, Escaped LockError, Escaped RenderError}" for e
    by (auto simp: exit_code_def is_config_error_def EXIT_USAGE_def EXIT_DISABLED_def EXIT_OPERATION_def lifecycle_error_def)
  show ?thesis
    unfolding cli_main_ret codes(2-4) using no codes(1) by simp
qed

text \<open>
  The documented command \<^verbatim>\<open>remove\<close> removes nothing: confirmed or not, it runs no command, changes no file
  and never ends with status 0, because the engine has no operation for it.
\<close>

theorem remove_never_removes:
  assumes "a_command a = ''remove''" and "\<not> a_dry_run a" and "cli_main M a s = (r, t)"
  shows "sh_events t = sh_events s \<and> sh_disk t = sh_disk s \<and> r \<noteq> ret 0"
proof -
  have n: "operation_of (a_command a) = None" by (simp add: assms(1) operation_of_def)
  have "frame (keeps_to {} False) (dispatch M a)"
    unfolding dispatch_def load_args_def Let_def
    by (simp add: assms(1) MUTATING_def) (intro frame_rules run_command_none n; simp add: assms(1))
  then have k: "keeps_to {} False s t"
    using cli_main_state [of M a s] assms(3) by (simp add: frame_def)
  have "gives {2} (run_command M a c)" for c
    unfolding run_command_def Let_def n by (simp add: assms(1), intro gives_rules) simp
  then have "gives {2} (dispatch M a)"
    unfolding dispatch_def Let_def using assms(1,2)
    by (simp add: MUTATING_def) (intro gives_rules)
  then have "dispatch M a s = (ret 0, t) \<Longrightarrow> 0 \<in> {2 :: int}" unfolding gives_def by blast
  then have "dispatch M a s \<noteq> (ret 0, t)" by auto
  moreover have "exit_code e \<noteq> Some 0" for e
    using exit_code_values [of e 0] by (auto simp: EXIT_USAGE_def EXIT_DISABLED_def EXIT_OPERATION_def)
  ultimately have "cli_main M a s \<noteq> (ret 0, t)" by (simp add: cli_main_ret)
  with assms(3) k show ?thesis by (auto simp: keeps_to_def)
qed

end
