(* ===== verification/Engine_Demo.thy ===== *)
theory Engine_Demo
  imports Engine_Created Cli_Props
begin

text \<open>
  A pair of hosts on which a deployment runs: what they answer depends on what happened to them before.
  The instances of the properties of the engine.
\<close>

subsection \<open>The hosts\<close>

definition lab_profile :: "dict" where
  "lab_profile =
     [(''profile_id'', JStr ''lab''),
      (''topology'', JObj [(''head_rank'', JInt 0), (''worker_rank'', JInt 1), (''tensor_parallel_size'', JInt 2),
         (''pipeline_parallel_size'', JInt 1), (''nnodes'', JInt 2)]),
      (''model'', JObj [(''served_model_name'', JStr ''m''), (''model_path'', JStr ''/models/m'')]),
      (''limits'', JObj [(''max_num_seqs'', JInt 5), (''max_num_batched_tokens'', JInt 9), (''max_model_len'', JInt 9)]),
      (''parsing'', JObj [(''tokenizer_mode'', JStr ''t''), (''tool_call_parser'', JStr ''p''), (''reasoning_parser'', JStr ''r'')]),
      (''service'', JObj [(''reasoning_config_json'', JStr ''{}''), (''draft_config_json'', JStr ''{}''),
         (''compilation_config_json'', JStr ''{}''), (''distributed_executor_backend'', JStr ''mp''),
         (''target_kv_cache_dtype'', JStr ''a''), (''block_size'', JInt 1), (''gpu_memory_utilization'', JInt 1),
         (''prefix_caching'', JObj [(''hash_algorithm'', JStr ''h'')]), (''long_prefill_token_threshold'', JInt 1),
         (''load_format'', JStr ''f''), (''moe_backend'', JStr ''b''), (''linear_backend'', JStr ''b''),
         (''attention_backend'', JStr ''b''), (''max_cudagraph_capture_size'', JInt 1)])]"

definition lab_deployment :: deployment where
  "lab_deployment =
   \<lparr>mode = ''candidate'', fabric_profile = ''f0'', head_fabric_cidr = None, worker_fabric_cidr = None,
     head_fabric_peer = None, worker_fabric_peer = None, head_fabric_connection = None,
     worker_fabric_connection = None, head_roce_gid_index = None, worker_roce_gid_index = None,
     head_host = ''h'', worker_host = ''w'', head_ssh_host = ''h'', worker_ssh_host = ''w'',
     ssh_user = None, head_ssh_user = ''u'', worker_ssh_user = ''u'', ssh_port = 22, ssh_known_hosts_file = ''/k'',
     ssh_identity_file = None, remote_root = ''/r'', model_root = ''/srv/m'',
     model_container_path = ''/models/m'', model_manifest_sha256 = ''a'',
     state_root = ''/s'', cache_root = ''/c'', log_root = None, result_root = ''/o'', registry = None,
     image_ref = ''x'', head_image_ref = ''x'', worker_image_ref = ''y'', image_lock_file = ''/l'',
     runtime_max_num_seqs = 5, runtime_max_num_batched_tokens = 9,
     allow_production_images_in_candidate = True, production_change_allowed = False,
     master_addr = ''h'', master_port = 29621, api_port = 18101, head_node_addr = ''h'',
     worker_node_addr = ''w'', head_net_iface = ''e'', worker_net_iface = ''e'',
     head_hca = ''m'', worker_hca = ''m'', head_cuda_visible_devices = ''0'',
     worker_cuda_visible_devices = ''0'', roce_gid_index = None, roce_mtu = 9,
     api_bind_addr = ''b'', allow_public_api = False, forward_local_port = 1\<rparr>"

definition lab_config :: config where
  "lab_config = \<lparr>profile = lab_profile, deployment = lab_deployment\<rparr>"

definition lab_labels :: dict where
  "lab_labels = map (\<lambda>k. (k, JStr ''d'')) REQUIRED_LABELS"

definition lab_lock :: dict where
  "lab_lock = [(''images'', JObj [
     (''head'', JObj [(''reference'', JStr ''x''), (''image_id'', JStr ''x''), (''labels'', JObj lab_labels)]),
     (''worker'', JObj [(''reference'', JStr ''y''), (''image_id'', JStr ''y''), (''labels'', JObj lab_labels)])])]"

text \<open>A library that reads every text as an empty object renders the contracts.\<close>

definition plain_python :: python where
  "plain_python = \<lparr>py_str_other = (\<lambda>_. ''0''), py_float = (\<lambda>_. ''0''), py_loads = (\<lambda>_. Some (JObj [])),
     py_sha256 = (\<lambda>_. replicate 64 CHR ''f'')\<rparr>"

definition lab_contract :: "string \<Rightarrow> dict" where
  "lab_contract role = (case render_contract plain_python lab_config role (Some lab_lock) None of Some (Inr es) \<Rightarrow> es | _ \<Rightarrow> [])"

definition lab_image :: "dict \<Rightarrow> dict" where
  "lab_image c = [(''Id'', item (part_at c ''image'') ''image_id''), (''Architecture'', JStr ''arm64''),
     (''Config'', JObj [(''Labels'', JObj (part_at (part_at c ''image'') ''labels''))])]"

text \<open>The texts the hosts answer, and the objects they stand for.\<close>

definition lab_loads :: "string \<Rightarrow> json option" where
  "lab_loads t =
     (if t = ''worker up'' then Some (JObj (container_for ''worker'' True (lab_contract ''worker'')))
      else if t = ''worker down'' then Some (JObj (container_for ''worker'' False (lab_contract ''worker'')))
      else if t = ''head up'' then Some (JObj (container_for ''head'' True (lab_contract ''head'')))
      else if t = ''head down'' then Some (JObj (container_for ''head'' False (lab_contract ''head'')))
      else if t = ''worker image'' then Some (JObj (lab_image (lab_contract ''worker'')))
      else if t = ''head image'' then Some (JObj (lab_image (lab_contract ''head'')))
      else Some (JObj []))"

definition lab_python :: python where
  "lab_python = plain_python\<lparr>py_loads := lab_loads\<rparr>"

definition lab_hosts :: "event list \<Rightarrow> string \<Rightarrow> string list \<Rightarrow> runner_value" where
  "lab_hosts hist role c =
     (if take 3 c = [''docker'', ''container'', ''inspect'']
      then (case container_status hist role of
              (True, running) \<Rightarrow> Text (role @ (if running then '' up'' else '' down''))
            | (False, _) \<Rightarrow> Result \<lparr>cr_argv = c, returncode = 1, stdout = [], stderr = ''No such object''\<rparr>)
      else if take 3 c = [''docker'', ''image'', ''inspect''] then Text (role @ '' image'')
      else if take 1 c = [''cat''] then Text ''a''
      else Nothing)"

definition lab :: site where
  "lab = \<lparr>s_python = lab_python, s_config = lab_config, s_lock = lab_lock, s_transport = Injected lab_hosts,
     s_copier = Injected_Scp (\<lambda>_ _ _. Nothing), s_tmpdir = (\<lambda>_. ''/tmp/d''), s_writable = (\<lambda>_. True)\<rparr>"

subsection \<open>The contracts of the hosts\<close>

lemma lab_service:
  "render_service_argv lab_python lab_config ''worker'' = render_service_argv plain_python lab_config ''worker''"
  "render_service_argv lab_python lab_config ''head'' = render_service_argv plain_python lab_config ''head''"
  by code_simp+

lemma lab_texts:
  "case render_service_argv plain_python lab_config ''worker'' of Some (Inr ss) \<Rightarrow> [] \<notin> set ss | _ \<Rightarrow> False"
  "case render_service_argv plain_python lab_config ''head'' of Some (Inr ss) \<Rightarrow> [] \<notin> set ss | _ \<Rightarrow> False"
  by code_simp+

lemma lab_image_parts:
  "lock_image plain_python (Some lab_lock) ''worker'' lab_config = ret (''y'', Some ''y'', map (\<lambda>k. (k, ''d'')) REQUIRED_LABELS)"
  "lock_image plain_python (Some lab_lock) ''head'' lab_config = ret (''x'', Some ''x'', map (\<lambda>k. (k, ''d'')) REQUIRED_LABELS)"
  by code_simp+

lemma show_five: "show_int 5 = ''5''"
  by code_simp

lemma lab_parts:
  "fabric_profile (deployment lab_config) = ''f0''" "mode (deployment lab_config) = ''candidate''"
  "container_name plain_python lab_config role = ret (''dsv4-candidate-native432-dspark5-327k-seq5-'' @ role)"
  "model_path plain_python lab_config = ret ''/models/m''" "jitem (JObj (profile lab_config)) ''profile_id'' = ret (JStr ''lab'')"
  by (simp_all add: lab_config_def lab_deployment_def lab_profile_def container_name_def render_mode_def model_path_def
      jitem_def jget_or_def py_str_def show_five bind_def ret_def assert_def)

lemma lab_spec: "returns (fabric_spec (deployment lab_config) ''worker'')" "returns (fabric_spec (deployment lab_config) ''head'')"
  by code_simp+

lemma roles_cases: "role \<in> set ROLES \<Longrightarrow> role = ''worker'' \<or> role = ''head''"
  by (auto simp: ROLES_def)

lemma lab_rendered:
  assumes "role \<in> set ROLES"
  shows "render_contract plain_python lab_config role (Some lab_lock) None = ret (lab_contract role)"
proof -
  have s: "returns (render_service_argv plain_python lab_config role)"
    using roles_cases [OF assms] lab_texts by (auto simp: returns_def split: option.splits sum.splits)
  have r: "returns (ret x)" for x :: 'a by (simp add: returns_def ret_def)
  have m: "returns (render_mode lab_config)" by (simp add: render_mode_def lab_parts(2) returns_def ret_def bind_def assert_def)
  have "returns (render_contract plain_python lab_config role (Some lab_lock) None)"
    using roles_cases [OF assms]
  proof
    assume w: "role = ''worker''"
    show ?thesis
      by (rule contract_returns [OF lab_image_parts(1) [folded w]]) (use assms s m lab_spec in \<open>auto simp: w lab_parts returns_def ret_def comp_def image_image\<close>)
  next
    assume h: "role = ''head''"
    show ?thesis
      by (rule contract_returns [OF lab_image_parts(2) [folded h]]) (use assms s m lab_spec in \<open>auto simp: h lab_parts returns_def ret_def comp_def image_image\<close>)
  qed
  then show ?thesis unfolding lab_contract_def by (auto simp: returns_def ret_def split: option.splits sum.splits)
qed

lemma lab_rendered_again:
  assumes "role \<in> set ROLES"
  shows "render_contract lab_python lab_config role (Some lab_lock) None = ret (lab_contract role)"
proof -
  have t: "py_str lab_python = py_str plain_python" by (simp add: fun_eq_iff py_str_def lab_python_def split: json.split)
  have f: "py_float lab_python = py_float plain_python" "py_sha256 lab_python = py_sha256 plain_python"
    by (simp_all add: lab_python_def)
  have s: "render_service_argv lab_python lab_config role = render_service_argv plain_python lab_config role"
    using roles_cases [OF assms] lab_service by auto
  have m: "model_path lab_python x = model_path plain_python x" for x unfolding model_path_def t ..
  have n: "container_name lab_python x r = container_name plain_python x r" for x r unfolding container_name_def t ..
  have l: "lock_image lab_python x r y = lock_image plain_python x r y" for x r y unfolding lock_image_def t ..
  have d: "model_mount_destination lab_python x = model_mount_destination plain_python x" for x
    unfolding model_mount_destination_def m ..
  note c = m n l d
  have a: "render_container_argv lab_python lab_config role (Some lab_lock) None None
      = render_container_argv plain_python lab_config role (Some lab_lock) None None"
    unfolding render_container_argv_def s c f ..
  have "render_contract lab_python lab_config role (Some lab_lock) None = render_contract plain_python lab_config role (Some lab_lock) None"
    unfolding render_contract_def render_base_def s c f a ..
  with lab_rendered [OF assms] show ?thesis by simp
qed

definition lab_contracts :: "string \<Rightarrow> dict" where
  "lab_contracts = (\<lambda>_. [])(''worker'' := lab_contract ''worker'', ''head'' := lab_contract ''head'')"

lemma lab_contracts_role: "role \<in> set ROLES \<Longrightarrow> lab_contracts role = lab_contract role"
  by (auto simp: lab_contracts_def ROLES_def)

definition lab_ref :: "string \<Rightarrow> string" where
  "lab_ref role = (if role = ''head'' then ''x'' else ''y'')"

lemma lab_items:
  assumes "role \<in> set ROLES"
  shows "map_of (lab_contract role) ''container'' = Some (JStr (''dsv4-candidate-native432-dspark5-327k-seq5-'' @ role))"
    and "map_of (lab_contract role) ''image'' = Some (JObj [(''reference'', JStr (lab_ref role)), (''image_id'', JStr (lab_ref role)),
      (''labels'', str_dict (map (\<lambda>k. (k, ''d'')) REQUIRED_LABELS))])"
    and "map_of (lab_contract role) ''api_port'' = Some (if role = ''head'' then JInt 18101 else JNull)"
    and "map_of (lab_contract role) ''contract_path'' = Some (JStr (path_str (path_join (path_join (path_of ''/r'') ''contracts'') (''candidate-'' @ role @ ''.json''))))"
    and "map_of (lab_contract role) ''model_path'' = Some (JStr ''/models/m'')"
proof -
  have m: "mode (deployment lab_config) \<in> {''production'', ''candidate''}" by (simp add: lab_parts)
  have d: "api_port (deployment lab_config) = 18101" "remote_root (deployment lab_config) = ''/r''"
    by (simp_all add: lab_config_def lab_deployment_def)
  show "map_of (lab_contract role) ''container'' = Some (JStr (''dsv4-candidate-native432-dspark5-327k-seq5-'' @ role))"
    by (rule contract_items [OF lab_rendered [OF assms] m]) (simp add: lab_parts)
  show "map_of (lab_contract role) ''image'' = Some (JObj [(''reference'', JStr (lab_ref role)), (''image_id'', JStr (lab_ref role)),
      (''labels'', str_dict (map (\<lambda>k. (k, ''d'')) REQUIRED_LABELS))])"
    by (rule contract_items [OF lab_rendered [OF assms] m]) (use roles_cases [OF assms] lab_image_parts in \<open>auto simp: lab_ref_def\<close>)
  show "map_of (lab_contract role) ''api_port'' = Some (if role = ''head'' then JInt 18101 else JNull)"
    by (rule contract_items [OF lab_rendered [OF assms] m]) (simp add: d)
  show "map_of (lab_contract role) ''model_path'' = Some (JStr ''/models/m'')"
    by (rule contract_items [OF lab_rendered [OF assms] m]) (simp add: lab_parts)
  show "map_of (lab_contract role) ''contract_path'' = Some (JStr (path_str (path_join (path_join (path_of ''/r'') ''contracts'') (''candidate-'' @ role @ ''.json''))))"
    by (rule contract_items [OF lab_rendered [OF assms] m])
      (auto simp: remote_contract_path_def remote_file_def render_mode_def bind_eq_ret lab_parts d)
qed

subsection \<open>The engine of the hosts\<close>

lemma lab_simps: "s_python lab = lab_python" "s_config lab = lab_config" "s_lock lab = lab_lock" "s_writable lab f"
  "s_transport lab = Injected lab_hosts" "s_tmpdir lab h = ''/tmp/d''"
  by (simp_all add: lab_def)

definition lab_engine :: engine where
  "lab_engine = \<lparr>e_log = [], e_gids = Map.empty, e_contracts = lab_contracts, e_disk = Map.empty\<rparr>"

lemma in_roles: "''worker'' \<in> set ROLES" "''head'' \<in> set ROLES"
  by (simp_all add: ROLES_def)

lemma lab_name: "role \<in> set ROLES \<Longrightarrow> name_of P (lab_contract role) = ret (''dsv4-candidate-native432-dspark5-327k-seq5-'' @ role)"
  by (simp add: name_of_def jitem_def lab_items py_str_text escape_def ret_def bind_def)

lemma lab_valid_image: "role \<in> set ROLES \<Longrightarrow> validate_image lab_python (deployment lab_config) (lab_contract role) = ret ()"
proof -
  have a: "allow_production_images_in_candidate (deployment lab_config)" by (simp add: lab_config_def lab_deployment_def)
  have l: "item [(''reference'', r), (''image_id'', i), (''labels'', l)] ''labels'' = l" for r i l by (simp add: item_def)
  have t: "\<forall>k\<in>set REQUIRED_LABELS. truthy (item (map (\<lambda>k. (k, JStr ''d'')) REQUIRED_LABELS) k)"
    by (simp add: REQUIRED_LABELS_def item_def)
  assume "role \<in> set ROLES"
  then show ?thesis
    using a t by (simp add: validate_image_def jitem_def lab_items lab_parts l str_dict_def comp_def get_str_def py_str_text
        bind_eq_ret check_ret escape_ret Let_def)
qed

lemma lab_init: "engine_init lab Map.empty = ret lab_engine"
proof -
  have r: "render_contracts lab_python lab_config lab_lock Map.empty = ret lab_contracts"
    by (simp add: render_contracts_def lab_rendered_again in_roles lab_contracts_def bind_eq_ret escape_ret)
  have d: "master_port (deployment lab_config) = 29621" "api_port (deployment lab_config) = 18101"
    by (simp_all add: lab_config_def lab_deployment_def)
  have "validate_contracts lab_python (deployment lab_config) lab_contracts = ret ()"
    by (simp add: validate_contracts_def lab_parts d lab_contracts_role in_roles lab_name lab_items jitem_def lab_valid_image
        num_of_def bind_eq_ret check_ret escape_ret)
  with r show ?thesis by (simp add: engine_init_def lab_simps lab_engine_def)
qed

lemma lab_outcome: "outcome lab hist role c = (let r = as_result (lab_hosts hist role c) c
     in if returncode r \<noteq> 0 then raise (CommandFailed (role @ '' command failed: '' @ join '' '' c @ failure_suffix (stderr r))) else ret r)"
  by (simp add: outcome_def lab_simps)

lemma lab_reads:
  assumes "role \<in> set ROLES"
  shows "lab_loads (role @ '' image'') = Some (JObj (lab_image (lab_contract role)))"
    and "lab_loads (role @ (if running then '' up'' else '' down'')) = Some (JObj (container_for role running (lab_contract role)))"
  using roles_cases [OF assms] by (auto simp: lab_loads_def)

lemma missing_text: "missing_object (CommandFailed (p @ failure_suffix ''No such object''))"
proof -
  have "failure_suffix ''No such object'' = '': '' @ ''No such object''" by code_simp
  then have "\<exists>a b. p @ failure_suffix ''No such object'' = a @ ''No such object'' @ b"
    by (intro exI [of _ "p @ '': ''"] exI [of _ "[]"]) simp
  then show ?thesis by (simp add: missing_object_def contains_iff)
qed

lemma lab_good:
  assumes role: "role \<in> set ROLES"
  shows "good_container lab lab_contracts role running (container_for role running (lab_contract role))"
proof -
  have "\<exists>ss. render_service_argv lab_python lab_config role = ret ss \<and> [] \<notin> set ss"
    using roles_cases [OF role] lab_texts lab_service by (auto simp: ret_def split: option.splits sum.splits)
  then obtain ss where ss: "render_service_argv lab_python lab_config role = ret ss" "[] \<notin> set ss" by blast
  note v = created_is_verified [OF lab_rendered_again [OF role] _ ss]
  show ?thesis
    unfolding good_container_def lab_simps lab_contracts_role [OF role] using v lab_parts(2) by simp
qed

lemma lab_answers: "answers lab lab_contracts"
  unfolding answers_def
proof (intro conjI allI ballI)
  fix hist role c
  assume role: "role \<in> set ROLES"
  show "take 3 c \<notin> {[''docker'', ''container'', ''inspect''], [''docker'', ''image'', ''inspect'']} \<and> take 1 c \<noteq> [''cat'']
      \<longrightarrow> returns (outcome lab hist role c)"
    by (auto simp: lab_outcome lab_hosts_def as_result_def returns_def ret_def)
  show "\<exists>r. outcome lab hist role [''cat'', p] = ret r \<and> strip (stdout r) = model_manifest_sha256 (s_dep lab)" for p
  proof -
    have "strip ''a'' = ''a''" by code_simp
    then show ?thesis
      by (simp add: lab_outcome lab_hosts_def as_result_def lab_simps lab_config_def lab_deployment_def)
  qed
  show "\<exists>r. outcome lab hist role [''docker'', ''image'', ''inspect'', ''--format'', ''{{json .}}'', img] = ret r
      \<and> good_image lab lab_contracts role r" for img
  proof -
    let ?r = "\<lparr>cr_argv = [''docker'', ''image'', ''inspect'', ''--format'', ''{{json .}}'', img], returncode = 0,
      stdout = role @ '' image'', stderr = []\<rparr>"
    have o: "outcome lab hist role [''docker'', ''image'', ''inspect'', ''--format'', ''{{json .}}'', img] = ret ?r"
      by (simp add: lab_outcome lab_hosts_def as_result_def)
    have s: "strip (role @ '' image'') \<noteq> []" using roles_cases [OF role] by (elim disjE) (simp_all, code_simp+)
    let ?im = "[(''reference'', JStr (lab_ref role)), (''image_id'', JStr (lab_ref role)),
      (''labels'', str_dict (map (\<lambda>k. (k, ''d'')) REQUIRED_LABELS))]"
    have i: "lab_image (lab_contract role) = [(''Id'', JStr (lab_ref role)), (''Architecture'', JStr ''arm64''),
       (''Config'', JObj [(''Labels'', JObj (map (\<lambda>k. (k, JStr ''d'')) REQUIRED_LABELS))])]"
      by (simp add: lab_image_def part_at_def item_def lab_items role str_dict_def comp_def)
    have v: "verify_image_inspect lab_python (lab_image (lab_contract role)) ?im = ret ()"
      using roles_cases [OF role] unfolding i by (elim disjE) (simp_all only: lab_ref_def, code_simp+)
    have "reported lab_python ?r (lab_image (lab_contract role))"
      by (simp add: reported_def json_stdout_def lab_python_def lab_reads [OF role] inspect_object_def)
    with o s v show ?thesis
      by (intro exI [of _ ?r]) (auto simp: good_image_def lab_simps lab_contracts_role role item_def lab_items)
  qed
  show "name_of (s_python lab) (lab_contracts role) = ret name \<longrightarrow> inspects_well lab lab_contracts hist role name" for name
  proof (cases "fst (container_status hist role)")
    case True
    let ?run = "snd (container_status hist role)"
    let ?r = "\<lparr>cr_argv = inspect_command name, returncode = 0, stdout = role @ (if ?run then '' up'' else '' down''), stderr = []\<rparr>"
    have o: "outcome lab hist role (inspect_command name) = ret ?r"
      using True by (simp add: lab_outcome lab_hosts_def inspect_command_def as_result_def case_prod_beta)
    have "reported lab_python ?r (container_for role ?run (lab_contract role))"
      by (simp add: reported_def json_stdout_def lab_python_def lab_reads [OF role] inspect_object_def)
    moreover note lab_good [OF role]
    ultimately show ?thesis using True o by (auto simp: inspects_well_def lab_simps)
  next
    case False
    then show ?thesis
      using missing_text [of "role @ '' command failed: '' @ join '' '' (inspect_command name)"]
      by (simp add: inspects_well_def lab_outcome lab_hosts_def inspect_command_def as_result_def case_prod_beta)
  qed
qed

lemma lab_healthy: "healthy lab lab_contracts"
  using lab_answers by (simp add: healthy_def copy_outcome_def lab_def as_result_def returns_def ret_def bind_def)

end
