(* ===== verification/Engine_Cases.thy ===== *)
theory Engine_Cases
  imports Engine_Demo
begin

text \<open>The instances of the properties of the engine and of the command line on the demonstration hosts.\<close>

subsection \<open>The first deployment\<close>

lemma lab_sha: "\<forall>t. is_sha256 (py_sha256 lab_python t)"
proof -
  have "is_sha256 (replicate 64 CHR ''f'')" by code_simp
  then show ?thesis by (simp add: lab_python_def plain_python_def)
qed

lemma lab_copies: "copies_allowed lab lab_contracts"
proof -
  have call: "returns (ssh_argv ''h'' ''u'' (int (ssh_port lab_deployment)) (ssh_known_hosts_file lab_deployment) [''true'']
      (identity_of lab_deployment) 10)"
    "returns (ssh_argv ''w'' ''u'' (int (ssh_port lab_deployment)) (ssh_known_hosts_file lab_deployment) [''true'']
      (identity_of lab_deployment) 10)" by code_simp+
  have who: "role_login lab_deployment ''head'' = Some (''h'', ''u'')" "role_login lab_deployment ''worker'' = Some (''w'', ''u'')"
    by code_simp+
  have d: "s_dep lab = lab_deployment" by (simp add: lab_simps lab_config_def)
  have login: "login_ok lab role" if "role \<in> set ROLES" for role
    using roles_cases [OF that]
  proof
    assume "role = ''worker''"
    then show ?thesis unfolding login_ok_def d by (intro exI [of _ "''w''"] exI [of _ "''u''"]) (simp only: who call simp_thms)
  next
    assume "role = ''head''"
    then show ?thesis unfolding login_ok_def d by (intro exI [of _ "''h''"] exI [of _ "''u''"]) (simp only: who call simp_thms)
  qed
  have tmp: "\<forall>role\<in>set ROLES. \<forall>f\<in>set [role @ ''.json'', role @ ''.env'', ''model.lock.sha256''].
      clean_path (path_str (path_join (path_of ''/tmp/d'') f))" by code_simp
  have con: "\<forall>role\<in>set ROLES. clean_path (path_str (path_join (path_join (path_of ''/r'') ''contracts'') (''candidate-'' @ role @ ''.json'')))
      \<and> clean_path (path_str (path_join (path_join (path_of ''/r'') ''contracts'') (''candidate-'' @ role @ ''.env'')))" by code_simp
  have mark: "clean_path (path_str (path_join (let r = path_of ''/srv/m''; n = path_name (path_of ''/models/m'')
      in if path_name r = n then r else path_join r n) ''.model-lock.sha256''))" by code_simp
  have d: "remote_root lab_deployment = ''/r''" "mode lab_deployment = ''candidate''" "model_root lab_deployment = ''/srv/m''"
    by (simp_all add: lab_deployment_def)
  show ?thesis
    unfolding copies_allowed_def
  proof (intro conjI ballI allI impI)
    fix role assume role: "role \<in> set ROLES"
    then show "login_ok lab role" by (rule login)
    show "clean_path (path_str (path_join (path_of (s_tmpdir lab hist)) f))"
      if "f \<in> {role @ ''.json'', role @ ''.env'', ''model.lock.sha256''}" for f hist
      using tmp role that by (auto simp: lab_simps)
    show "clean_path (py_str (s_python lab) v)" if "jitem (JObj (lab_contracts role)) ''contract_path'' = ret v" for v
      using that con role by (auto simp: jitem_def lab_contracts_role lab_items py_str_text ret_def)
    show "clean_path (path_str (path_join (path_join (path_of (remote_root (s_dep lab))) ''contracts'') (mode (s_dep lab) @ ''-'' @ role @ ''.env'')))"
      using con role by (simp add: lab_simps lab_config_def d)
  next
    fix r assume "remote_model_root (s_python lab) (s_dep lab) (lab_contracts ''head'') = ret r"
    then have "r = (let r = path_of ''/srv/m''; n = path_name (path_of ''/models/m'') in if path_name r = n then r else path_join r n)"
      by (simp add: remote_model_root_def jitem_def lab_contracts_role in_roles lab_items lab_simps lab_config_def d py_str_text escape_ret
          bind_eq_ret Let_def ret_def bind_def escape_def split: if_splits)
    with mark show "clean_path (path_str (path_join r ''.model-lock.sha256''))" by simp
  qed
qed

lemma lab_f0: "fabric_profile (s_dep lab) = ''f0''" "e_contracts lab_engine = lab_contracts"
  by (simp_all add: lab_simps lab_parts lab_engine_def)

lemma lab_run: "\<exists>t. apply_deployment lab ''/s'' False lab_engine = (ret (), t)"
proof -
  have sha: "\<forall>t. is_sha256 (py_sha256 (s_python lab) t)" by (simp add: lab_simps lab_sha)
  note r = engine_renders [OF lab_init this]
  have "there lab_contracts (\<lambda>_. (False, False)) lab_engine"
    by (simp add: there_def lab_engine_def container_status_def)
  with live_apply [OF lab_healthy r [unfolded lab_f0(2)] lab_copies lab_f0(1) lab_simps(4), of "''/s''"]
  show ?thesis
    unfolding hoare_def
    by (cases "apply_deployment lab ''/s'' False lab_engine") (fastforce simp: ret_def split: option.splits sum.splits)
qed

text \<open>A deployment of the pair comes to its end.\<close>

theorem deployment_completes_witness:
  "\<exists>t. apply_deployment lab ''/s'' False lab_engine = (ret (), t) \<and> (\<forall>role\<in>set ROLES. container_status (e_log t) role = (True, True))"
  by (rule deployment_completes [OF lab_init _ _ lab_f0(1)]) (simp_all add: lab_f0(2) lab_healthy lab_copies lab_simps lab_sha)



subsection \<open>Stopping a running pair\<close>

definition launched :: "event list" where
  "launched = map (\<lambda>role. Ran role [''docker'', ''container'', ''start''] None) ROLES"

text \<open>The hosts on which both containers run already.\<close>

definition lab_up :: site where
  "lab_up = lab\<lparr>s_transport := Injected (\<lambda>hist. lab_hosts (launched @ hist))\<rparr>"

lemma up_simps: "s_python lab_up = lab_python" "s_config lab_up = lab_config" "s_lock lab_up = lab_lock"
  "s_transport lab_up = Injected (\<lambda>hist. lab_hosts (launched @ hist))"
  by (simp_all add: lab_up_def lab_simps)

lemma up_init: "engine_init lab_up Map.empty = ret lab_engine"
  using lab_init by (simp add: engine_init_def up_simps lab_simps)

definition role_name :: "string \<Rightarrow> string" where
  "role_name role = ''dsv4-candidate-native432-dspark5-327k-seq5-'' @ role"

lemma up_outcome: "outcome lab_up hist role c = outcome lab (launched @ hist) role c"
  by (simp add: outcome_def up_simps lab_simps)

lemma up_inspect:
  assumes "role \<in> set ROLES" and "container_status (launched @ e_log s) role = (True, True)" and "e_contracts s = lab_contracts"
  obtains r where "inspect lab_up role True s = (ret (Some (container_for role True (lab_contract role))),
      logged [Ran role (inspect_command (role_name role)) (ret r)] s)"
proof -
  let ?r = "\<lparr>cr_argv = inspect_command (role_name role), returncode = 0, stdout = role @ '' up'', stderr = []\<rparr>"
  have o: "outcome lab_up (e_log s) role (inspect_command (role_name role)) = ret ?r"
    using assms(2) by (simp add: up_outcome lab_outcome lab_hosts_def inspect_command_def as_result_def)
  have n: "name_of (s_python lab_up) (e_contracts s role) = ret (role_name role)"
    by (simp add: assms(3) lab_contracts_role assms(1) lab_name up_simps role_name_def)
  have "json_stdout lab_python ?r = ret (JObj (container_for role True (lab_contract role)))"
    using lab_reads(2) [OF assms(1), of True] by (simp add: json_stdout_def lab_python_def)
  with o n have "inspect lab_up role True s = (ret (Some (container_for role True (lab_contract role))),
      logged [Ran role (inspect_command (role_name role)) (ret ?r)] s)"
    by (simp add: inspect_eq up_simps inspect_object_def bind_def ret_def)
  then show thesis by (rule that)
qed

lemma up_owned: "role \<in> set ROLES \<Longrightarrow>
  owned lab_python ''candidate'' role (lab_contract role) (container_for role True (lab_contract role)) = ret ()
  \<and> is_running (container_for role True (lab_contract role))"
  using lab_good [of role True] by (simp add: good_container_def lab_simps lab_contracts_role lab_parts)

lemma up_stop_role:
  assumes "role \<in> set ROLES" and "container_status (launched @ e_log s) role = (True, True)" and "e_contracts s = lab_contracts"
  shows "\<exists>r r'. stop_role lab_up role s = (ret (), logged [Ran role (inspect_command (role_name role)) (ret r),
     Ran role (stop_command (role_name role)) (ret r')] s)"
proof -
  from up_inspect [OF assms] obtain r where r: "inspect lab_up role True s = (ret (Some (container_for role True (lab_contract role))),
      logged [Ran role (inspect_command (role_name role)) (ret r)] s)" .
  have "outcome lab_up hist role (stop_command nm) = ret \<lparr>cr_argv = stop_command nm, returncode = 0, stdout = [], stderr = []\<rparr>" for nm hist
    by (simp add: up_outcome lab_outcome lab_hosts_def stop_command_def as_result_def)
  moreover have "name_of lab_python (lab_contract role) = ret (role_name role)"
    using lab_name [OF assms(1)] by (simp add: role_name_def)
  ultimately show ?thesis
    using r up_owned [OF assms(1)]
    by (simp add: stop_role_def seq_def assert_owned_def asks_def run_def lift_def on_container_def remote_run give_def up_simps
        lab_parts assms(1,3) lab_contracts_role ret_def) blast
qed

text \<open>Both containers were inspected, and only then stopped.\<close>

theorem removals_authorised_witness:
  "\<exists>t. perform lab_up ''/s'' Stop lab_engine = (ret (), t) \<and> lawful lab_up ''/s'' lab_engine (e_log t)
     \<and> (\<forall>role\<in>set ROLES. \<exists>e\<in>set (e_log t). removes e role (role_name role))"
proof -
  have "container_status (launched @ e_log lab_engine) ''worker'' = (True, True)" by (simp add: lab_engine_def) code_simp
  from up_stop_role [OF in_roles(1) this lab_f0(2)] obtain r r' where
    w: "stop_role lab_up ''worker'' lab_engine = (ret (), logged [Ran ''worker'' (inspect_command (role_name ''worker'')) (ret r),
     Ran ''worker'' (stop_command (role_name ''worker'')) (ret r')] lab_engine)" (is "_ = (_, ?s)") by blast
  have "container_status (launched @ e_log ?s) ''head'' = (True, True)"
    by (simp add: lab_engine_def launched_def ROLES_def container_status_def container_step_def)
  from up_stop_role [OF in_roles(2) this] obtain q q' where
    h: "stop_role lab_up ''head'' ?s = (ret (), logged [Ran ''head'' (inspect_command (role_name ''head'')) (ret q),
     Ran ''head'' (stop_command (role_name ''head'')) (ret q')] ?s)" (is "_ = (_, ?t)") by (auto simp: lab_f0)
  from w h have t: "perform lab_up ''/s'' Stop lab_engine = (ret (), ?t)"
    by (simp add: stop_def stop_owned_def run_simps del: logged_simps)
  from removals_authorised [OF up_init t] t show ?thesis
    by (intro exI [of _ ?t]) (auto simp: ROLES_def removes_def)
qed

subsection \<open>Rolling back to an empty pair\<close>

definition empty_state :: dict where
  "empty_state = [(''schema_version'', JInt 1), (''deployment_id'', JStr (deployment_id (py_sha256 lab_python) (py_float lab_python) lab_config)),
     (''roles'', JObj [(''worker'', JNull), (''head'', JNull)]), (''fabric'', JNull), (''state_sha256'', JStr (replicate 64 CHR ''f''))]"

definition lab_back :: site where
  "lab_back = lab\<lparr>s_python := lab_python\<lparr>py_loads := (\<lambda>t. if t = ''state'' then Some (JObj empty_state) else lab_loads t)\<rparr>\<rparr>"

definition back_engine :: engine where
  "back_engine = lab_engine\<lparr>e_disk := [''/s'' \<mapsto> ''state'']\<rparr>"

lemma back_simps: "s_config lab_back = lab_config" "s_lock lab_back = lab_lock" "s_transport lab_back = Injected lab_hosts"
  "py_sha256 (s_python lab_back) = (\<lambda>_. replicate 64 CHR ''f'')" "py_loads (s_python lab_back) ''state'' = Some (JObj empty_state)"
  "py_float (s_python lab_back) = py_float lab_python" "py_sha256 lab_python = (\<lambda>_. replicate 64 CHR ''f'')"
  by (simp_all add: lab_back_def lab_simps lab_python_def plain_python_def)

lemma back_state: "read_state (s_python lab_back) lab_config (Some ''state'') = ret empty_state"
proof -
  have "is_sha256 (replicate 64 CHR ''f'')" by code_simp
  then show ?thesis
    by (simp add: read_state_def back_simps empty_state_def item_def state_digest_def bind_eq_ret check_ret num_of_def ROLES_def)
qed

text \<open>A run that has only inspected containers finds none.\<close>

definition only_inspected :: "engine \<Rightarrow> bool" where
  "only_inspected s \<longleftrightarrow> e_contracts s = lab_contracts \<and> (\<forall>role. container_status (e_log s) role = (False, False))"

lemma back_inspect:
  assumes "role \<in> set ROLES" and "only_inspected s"
  shows "\<exists>u. inspect lab_back role True s = (ret None, u) \<and> only_inspected u \<and> e_log u \<noteq> []"
proof -
  let ?c = "inspect_command (role_name role)"
  let ?e = "CommandFailed (role @ '' command failed: '' @ join '' '' ?c @ failure_suffix ''No such object'')"
  have o: "outcome lab_back (e_log s) role ?c = raise ?e"
    using assms(2) by (simp add: only_inspected_def outcome_def back_simps lab_hosts_def inspect_command_def as_result_def)
  have n: "name_of (s_python lab_back) (e_contracts s role) = ret (role_name role)"
    using assms by (simp add: only_inspected_def lab_contracts_role lab_name role_name_def)
  have "missing_object ?e"
    using missing_text [of "role @ '' command failed: '' @ join '' '' ?c"] by simp
  with o n have "inspect lab_back role True s = (ret None, logged [Ran role ?c (raise ?e)] s)"
    by (simp add: inspect_eq raise_def)
  then show ?thesis
    using assms(2) status_same [OF not_changes_inspect] by (simp add: only_inspected_def)
qed

text \<open>The state file is accepted, and the hosts are asked for the containers.\<close>

theorem rollback_checks_state_witness:
  "\<exists>t. rollback lab_back ''/s'' back_engine = (ret (), t) \<and> e_log t \<noteq> e_log back_engine
     \<and> (\<exists>doc st. e_disk back_engine ''/s'' = Some doc \<and> py_loads (s_python lab_back) doc = Some (JObj st)
       \<and> item st ''state_sha256'' = JStr (state_digest (s_python lab_back) st))"
proof -
  have b: "only_inspected back_engine" "e_log back_engine = []" "e_disk back_engine ''/s'' = Some ''state''"
    by (simp_all add: only_inspected_def back_engine_def lab_engine_def container_status_def)
  from back_inspect [OF in_roles(1) b(1)] obtain s1 where 1: "inspect lab_back ''worker'' True back_engine = (ret None, s1)" "only_inspected s1" by blast
  from back_inspect [OF in_roles(2) 1(2)] obtain s2 where 2: "inspect lab_back ''head'' True s1 = (ret None, s2)" "only_inspected s2" by blast
  from back_inspect [OF in_roles(1) 2(2)] obtain s3 where 3: "inspect lab_back ''worker'' True s2 = (ret None, s3)" "only_inspected s3" by blast
  from back_inspect [OF in_roles(2) 3(2)] obtain t where 4: "inspect lab_back ''head'' True s3 = (ret None, t)" "e_log t \<noteq> []" by blast
  have c: "fabric_profile (s_dep lab_back) \<noteq> ''f1''" "mode (s_dep lab_back) = ''candidate''"
    by (simp_all add: back_simps lab_parts)
  have r: "item (subdict empty_state ''roles'') ''worker'' = JNull" "item (subdict empty_state ''roles'') ''head'' = JNull"
    "item empty_state ''fabric'' = JNull" by (simp_all add: empty_state_def subdict_def item_def)
  have "remove_empty_rollback_targets lab_back back_engine = (ret (), t)"
    using 1(1) 2(1) 3(1) 4(1)
    by (simp add: remove_empty_rollback_targets_def ROLES_def inspect_owned_def remove_inspected_def seq_ret each_Cons each_Nil
        give_ret gate_ret)
  then have t: "rollback lab_back ''/s'' back_engine = (ret (), t)"
    by (simp add: rollback_def run_simps Let_def b(3) back_state back_simps(1) r rollback_empty_def c legacy_fabric_def
        restore_fabric_state_def lab_parts)
  from 4(2) b(2) have "e_log t \<noteq> e_log back_engine" by simp
  with t rollback_checks_state [OF t this] show ?thesis by blast
qed

subsection \<open>The command line\<close>

definition lab_machine :: machine where
  "lab_machine = \<lparr>m_python = lab_python, m_repo = path_of ''/repo'', m_expand = (\<lambda>p. p), m_resolve = (\<lambda>p. p),
     m_mkdir = (\<lambda>_. True), m_writable = (\<lambda>_. True), m_transport = Injected lab_hosts,
     m_copier = Injected_Scp (\<lambda>_ _ _. Nothing), m_tmpdir = (\<lambda>_. ''/tmp/d'')\<rparr>"

definition lab_args :: "string \<Rightarrow> arguments" where
  "lab_args command = \<lparr>a_command = command, a_config_command = [], a_env_file = path_of ''/e'', a_profile = path_of ''/p'',
     a_lock_file = None, a_apply = False, a_confirm = None, a_dry_run = False, a_state_file = None, a_output_dir = None\<rparr>"

definition lab_shell :: shell where
  "lab_shell = \<lparr>sh_out = [], sh_disk = [''/e'' \<mapsto> [], ''/p'' \<mapsto> ''{}''], sh_events = []\<rparr>"

text \<open>An operation that changes hosts, without a confirmation.\<close>

theorem unconfirmed_changes_nothing_witness:
  "\<not> gate_passed lab_machine (lab_args ''stop'') lab_shell \<and> sh_events (snd (cli_main lab_machine (lab_args ''stop'') lab_shell)) = []"
proof -
  have g: "\<not> gate_passed lab_machine (lab_args ''stop'') lab_shell" by (simp add: gate_passed_def lab_args_def)
  obtain r t where t: "cli_main lab_machine (lab_args ''stop'') lab_shell = (r, t)" by force
  from unconfirmed_changes_nothing [OF g t] have "sh_events t = []"
    by (auto simp: lab_args_def lab_shell_def)
  with g t show ?thesis by simp
qed

text \<open>The command \<^verbatim>\<open>remove\<close>.\<close>

theorem remove_never_removes_witness:
  "\<exists>r t. cli_main lab_machine (lab_args ''remove'') lab_shell = (r, t) \<and> sh_events t = [] \<and> r \<noteq> ret 0"
proof -
  obtain r t where t: "cli_main lab_machine (lab_args ''remove'') lab_shell = (r, t)" by force
  have "a_command (lab_args ''remove'') = ''remove''" "\<not> a_dry_run (lab_args ''remove'')" by (simp_all add: lab_args_def)
  from remove_never_removes [OF this t] t show ?thesis by (intro exI [of _ r] exI [of _ t]) (simp add: lab_shell_def)
qed

end
