(* ===== verification/Engine_Again.thy ===== *)
theory Engine_Again
  imports Engine_Restore Engine_Cases
begin

text \<open>The instances of the properties of recovery and rollback on the demonstration hosts.\<close>

subsection \<open>Rolling back to a recorded pair\<close>

text \<open>A container as the hosts report it, before and after the rollback, and its record.\<close>

definition pair_container :: "string \<Rightarrow> dict" where
  "pair_container role =
     [(''Name'', JStr (''/'' @ role_name role)), (''Image'', JStr ''i''), (''State'', JObj [(''Running'', JBool True)]),
      (''Config'', JObj [(''Labels'', JObj [(''l'', JStr ''v'')]), (''Cmd'', JArr [JStr ''run'']), (''Env'', JArr [JStr ''E=1'']),
         (''WorkingDir'', JStr ''/w'')]),
      (''Mounts'', JArr [JObj [(''Type'', JStr ''bind''), (''Source'', JStr ''/a''), (''Destination'', JStr ''/b''), (''RW'', JBool False)]]),
      (''HostConfig'', JObj [(''NetworkMode'', JStr ''host''), (''IpcMode'', JStr ''host''), (''Privileged'', JBool False),
         (''ShmSize'', JInt 4), (''ReadonlyRootfs'', JBool False)])]"

definition pair_record :: "string \<Rightarrow> dict" where
  "pair_record role = (case capture_role plain_python (pair_container role) of Some (Inr (JObj old)) \<Rightarrow> old | _ \<Rightarrow> [])"

definition pair_state :: dict where
  "pair_state = [(''schema_version'', JInt 1), (''deployment_id'', JStr (deployment_id (py_sha256 lab_python) (py_float lab_python) lab_config)),
     (''roles'', JObj [(''worker'', JObj (pair_record ''worker'')), (''head'', JObj (pair_record ''head''))]), (''fabric'', JNull),
     (''state_sha256'', JStr (replicate 64 CHR ''f''))]"

definition lab_pair :: site where
  "lab_pair = lab\<lparr>s_python := lab_python\<lparr>py_loads := (\<lambda>t. if t = ''state'' then Some (JObj pair_state)
       else if t = ''worker now'' then Some (JObj (pair_container ''worker''))
       else if t = ''head now'' then Some (JObj (pair_container ''head'')) else None)\<rparr>,
     s_transport := Injected (\<lambda>_ role c. if take 3 c = [''docker'', ''container'', ''inspect''] then Text (role @ '' now'') else Nothing)\<rparr>"

lemma pair_simps: "s_config lab_pair = lab_config" "s_lock lab_pair = lab_lock"
  "s_transport lab_pair = Injected (\<lambda>_ role c. if take 3 c = [''docker'', ''container'', ''inspect''] then Text (role @ '' now'') else Nothing)"
  "py_sha256 (s_python lab_pair) = (\<lambda>_. replicate 64 CHR ''f'')" "py_loads (s_python lab_pair) ''state'' = Some (JObj pair_state)"
  "py_float (s_python lab_pair) = py_float lab_python" "py_sha256 lab_python = (\<lambda>_. replicate 64 CHR ''f'')"
  by (simp_all add: lab_pair_def lab_simps lab_python_def plain_python_def)

lemma pair_python: "s_python lab_pair = plain_python\<lparr>py_loads := py_loads (s_python lab_pair)\<rparr>"
  by (simp add: lab_pair_def lab_python_def)

lemma pair_shape:
  assumes "role \<in> set ROLES"
  shows "check_old (JObj (pair_record role)) = ret (pair_record role)" and "truthy (item (pair_record role) ''running'')"
    and "is_running (pair_container role)" and "item (pair_record role) ''labels'' = JObj [(''l'', JStr ''v'')]"
  using roles_cases [OF assms] by (elim disjE; (simp only:, code_simp))+

lemma pair_records:
  assumes "role \<in> set ROLES"
  shows "returns (create_args (plain_python\<lparr>py_loads := L\<rparr>) (pair_record role))"
    and "check_restored (plain_python\<lparr>py_loads := L\<rparr>) (pair_container role) (pair_record role) = ret ()"
    and "text_of (plain_python\<lparr>py_loads := L\<rparr>) (pair_record role) ''name'' = role_name role"
    and "text_of (plain_python\<lparr>py_loads := L\<rparr>) (pair_record role) ''image'' = ''i''"
    and "container_of (plain_python\<lparr>py_loads := L\<rparr>) (pair_container role) = role_name role"
    and "get_str (plain_python\<lparr>py_loads := L\<rparr>) (pair_container role) ''Image'' = ''i''"
    and "labels_of (plain_python\<lparr>py_loads := L\<rparr>) (pair_container role) = ret [(''l'', ''v'')]"
  using roles_cases [OF assms] by (elim disjE; (simp only:, code_simp))+

lemmas pair_facts = pair_records [of _ "py_loads (s_python lab_pair)", folded pair_python]

lemma pair_outcome:
  "take 3 c \<noteq> [''docker'', ''container'', ''inspect''] \<Longrightarrow> \<exists>r. outcome lab_pair hist role c = ret r"
  by (simp add: outcome_def pair_simps as_result_def)

text \<open>The steps of the rollback, in a state with the contracts of the hosts.\<close>

definition on_pair :: "engine \<Rightarrow> bool" where
  "on_pair s \<longleftrightarrow> e_contracts s = lab_contracts"

lemma pair_inspect:
  assumes "role \<in> set ROLES" and "on_pair s"
  shows "\<exists>u. inspect lab_pair role missing s = (ret (Some (pair_container role)), u) \<and> on_pair u"
proof -
  let ?r = "\<lparr>cr_argv = inspect_command (role_name role), returncode = 0, stdout = role @ '' now'', stderr = []\<rparr>"
  have o: "outcome lab_pair (e_log s) role (inspect_command (role_name role)) = ret ?r"
    by (simp add: outcome_def pair_simps inspect_command_def as_result_def)
  have n: "name_of (s_python lab_pair) (e_contracts s role) = ret (role_name role)"
    using assms by (simp add: on_pair_def lab_contracts_role lab_name role_name_def)
  have "json_stdout (s_python lab_pair) ?r = ret (JObj (pair_container role))"
    using roles_cases [OF assms(1)] by (auto simp: json_stdout_def lab_pair_def)
  with o n have "inspect lab_pair role missing s = (ret (Some (pair_container role)),
      logged [Ran role (inspect_command (role_name role)) (ret ?r)] s)"
    by (simp add: inspect_eq inspect_object_def bind_def ret_def)
  with assms(2) show ?thesis by (simp add: on_pair_def)
qed

lemma pair_remote:
  "take 3 c \<noteq> [''docker'', ''container'', ''inspect''] \<Longrightarrow> on_pair s \<Longrightarrow> \<exists>r u. remote lab_pair role c s = (ret r, u) \<and> on_pair u"
  using pair_outcome [of c "e_log s" role] by (auto simp: remote_run on_pair_def)

lemma pair_then:
  assumes "on_pair s \<Longrightarrow> \<exists>u. m s = (ret x, u) \<and> on_pair u" and "\<And>u. on_pair u \<Longrightarrow> \<exists>t. f x u = (ret (), t) \<and> on_pair t" and "on_pair s"
  shows "\<exists>t. seq m f s = (ret (), t) \<and> on_pair t"
  using assms by (meson seq_ret)

lemma pair_runs:
  assumes "take 3 c \<noteq> [''docker'', ''container'', ''inspect'']" and "on_pair s"
    and "\<And>r u. on_pair u \<Longrightarrow> \<exists>t. f r u = (ret (), t) \<and> on_pair t"
  shows "\<exists>t. seq (remote lab_pair role c) f s = (ret (), t) \<and> on_pair t"
  using pair_remote [OF assms(1,2), of role] assms(3) by (meson seq_ret)

lemma pair_each:
  assumes "\<And>role s. role \<in> set ROLES \<Longrightarrow> on_pair s \<Longrightarrow> \<exists>t. f role s = (ret (), t) \<and> on_pair t" and "on_pair s"
  shows "\<exists>t. each f ROLES s = (ret (), t) \<and> on_pair t"
  using assms(1) [OF in_roles(1) assms(2)] assms(1) [OF in_roles(2)] by (meson each_ROLES)

lemma pair_give: "on_pair s \<Longrightarrow> \<exists>t. give () s = (ret (), t) \<and> on_pair t"
  by (simp add: give_def)

definition pair_olds :: "string \<Rightarrow> dict" where
  "pair_olds = (\<lambda>_. [])(''worker'' := pair_record ''worker'', ''head'' := pair_record ''head'')"

lemma pair_old: "role \<in> set ROLES \<Longrightarrow> pair_olds role = pair_record role"
  by (auto simp: ROLES_def pair_olds_def)

lemma pair_replaceable:
  assumes "role \<in> set ROLES"
  shows "replaceable (s_python lab_pair) role (lab_contract role) (pair_record role) (pair_container role) = ret ()"
  using pair_facts [OF assms] pair_shape [OF assms] assms
  by (simp add: replaceable_def jitem_def lab_items bind_eq_ret escape_ret check_ret str_dict_def py_str_text)

lemma pair_remove: "role \<in> set ROLES \<Longrightarrow> on_pair s \<Longrightarrow> \<exists>t. remove_target lab_pair pair_olds role s = (ret (), t) \<and> on_pair t"
proof -
  assume role: "role \<in> set ROLES" and s: "on_pair s"
  have "\<exists>t. stop_and_remove lab_pair role (pair_container role) (role_name role) u = (ret (), t) \<and> on_pair t" if "on_pair u" for u
    unfolding stop_and_remove_def if_P [OF pair_shape(3) [OF role]] using that
    by (intro pair_then [where x = "()"] pair_runs pair_give; simp add: stop_command_def rm_command_def)
  moreover from pair_inspect [OF role s] obtain u where "inspect lab_pair role True s = (ret (Some (pair_container role)), u)" "on_pair u" by blast
  ultimately show ?thesis
    using role pair_replaceable [OF role] pair_facts(3) [OF role]
    by (auto simp: remove_target_def seq_ret asks_ret run_ret pair_old [OF role] on_pair_def lab_contracts_role)
qed

lemma pair_restore: "role \<in> set ROLES \<Longrightarrow> on_pair s \<Longrightarrow> \<exists>t. restore_role lab_pair pair_olds role s = (ret (), t) \<and> on_pair t"
proof -
  assume role: "role \<in> set ROLES" and s: "on_pair s"
  from pair_facts(1) [OF role] obtain argv where a: "create_args (s_python lab_pair) (pair_record role) = ret argv"
    by (auto simp: returns_def ret_def split: option.splits sum.splits)
  then have "take 3 argv = [''docker'', ''container'', ''create'']"
    unfolding create_args_def bind_eq_ret obj_case_ret arr_case_ret ret_inject by auto
  then have "\<exists>t. seq (remote lab_pair role argv) (\<lambda>_. seq (remote lab_pair role (start_command (role_name role))) (\<lambda>_. give ())) s
      = (ret (), t) \<and> on_pair t"
    by (intro pair_runs pair_give s) (simp_all add: start_command_def)
  with a show ?thesis
    using pair_facts(3) [OF role] pair_shape(2) [OF role] role by (auto simp: restore_role_def seq_ret run_ret pair_old [OF role])
qed

lemma pair_verify: "on_pair s \<Longrightarrow> \<exists>t. verify_rollback lab_pair pair_olds s = (ret (), t) \<and> on_pair t"
  unfolding verify_rollback_def
proof (rule pair_each)
  fix role s
  assume role: "role \<in> set ROLES" and "on_pair s"
  from pair_inspect [OF this] obtain u where "inspect lab_pair role False s = (ret (Some (pair_container role)), u)" "on_pair u" by blast
  with pair_facts(2) [OF role] show "\<exists>t. seq (inspect lab_pair role False) (\<lambda>insp. case insp of None \<Rightarrow> throw (Escaped TypeError)
      | Some insp \<Rightarrow> run (check_restored (s_python lab_pair) insp (pair_olds role))) s = (ret (), t) \<and> on_pair t"
    by (auto simp: seq_ret run_ret pair_old [OF role])
qed

lemma pair_read: "read_state (s_python lab_pair) lab_config (Some ''state'') = ret pair_state"
proof -
  have "is_sha256 (replicate 64 CHR ''f'')" by code_simp
  then show ?thesis
    by (simp add: read_state_def pair_simps pair_state_def item_def state_digest_def bind_eq_ret check_ret num_of_def ROLES_def)
qed

lemma pair_rollback: "\<exists>t. rollback lab_pair ''/s'' back_engine = (ret (), t)"
proof -
  have b: "on_pair back_engine" "e_disk back_engine ''/s'' = Some ''state''"
    by (simp_all add: on_pair_def back_engine_def lab_engine_def)
  have f: "fabric_profile (s_dep lab_pair) \<noteq> ''f1''" by (simp add: pair_simps lab_parts)
  have "\<exists>t. seq (each (\<lambda>role. seq (remote lab_pair role [''docker'', ''image'', ''inspect'', text_of (s_python lab_pair) (pair_olds role) ''image''])
             (\<lambda>_. give ())) ROLES) (\<lambda>_.
      seq (restore_fabric_state lab_pair JNull) (\<lambda>_.
      seq (remove_rollback_targets lab_pair pair_olds) (\<lambda>_.
      seq (each (restore_role lab_pair pair_olds) ROLES) (\<lambda>_.
        verify_rollback lab_pair pair_olds)))) back_engine = (ret (), t) \<and> on_pair t"
    unfolding remove_rollback_targets_def
  proof (rule pair_then [where x = "()"])
    show "\<exists>u. each (\<lambda>role. seq (remote lab_pair role [''docker'', ''image'', ''inspect'', text_of (s_python lab_pair) (pair_olds role) ''image''])
             (\<lambda>_. give ())) ROLES back_engine = (ret (), u) \<and> on_pair u"
      by (intro pair_each pair_runs pair_give b) simp_all
    fix u
    assume "on_pair u"
    then show "\<exists>t. seq (restore_fabric_state lab_pair JNull) (\<lambda>_. seq (each (remove_target lab_pair pair_olds) ROLES) (\<lambda>_.
      seq (each (restore_role lab_pair pair_olds) ROLES) (\<lambda>_. verify_rollback lab_pair pair_olds))) u = (ret (), t) \<and> on_pair t"
      using f by (intro pair_then [where x = "()"] pair_each pair_remove pair_restore pair_verify)
        (simp_all add: restore_fabric_state_def give_def)
  qed (rule b)
  moreover have "item (subdict pair_state ''roles'') ''worker'' = JObj (pair_record ''worker'')"
    "item (subdict pair_state ''roles'') ''head'' = JObj (pair_record ''head'')" "item pair_state ''fabric'' = JNull"
    by (simp_all add: pair_state_def subdict_def item_def)
  ultimately show ?thesis
    using pair_shape(1) [OF in_roles(1)] pair_shape(1) [OF in_roles(2)]
    by (simp add: rollback_def seq_ret asks_ret run_ret b(2) pair_read pair_simps(1) Let_def rollback_pair_def gate_ret
        pair_olds_def [symmetric] del: fun_upd_apply) blast
qed

text \<open>The recorded pair is running again.\<close>

theorem rollback_restores_witness:
  "\<exists>t. rollback lab_pair ''/s'' back_engine = (ret (), t) \<and> (\<exists>es1 es2. e_log t = e_log back_engine @ es1 @ es2
     \<and> (\<forall>e\<in>set es2. \<not> mutates e) \<and> (\<forall>role\<in>set ROLES. \<exists>old name insp. item (subdict pair_state ''roles'') role = JObj old
        \<and> saw (s_python lab_pair) es2 role name insp \<and> restored_as (s_python lab_pair) insp old))"
proof -
  from pair_rollback obtain t where t: "rollback lab_pair ''/s'' back_engine = (ret (), t)" ..
  have d: "e_disk back_engine ''/s'' = Some ''state''" by (simp add: back_engine_def)
  have n: "\<not> (\<forall>role\<in>set ROLES. item (subdict pair_state ''roles'') role = JNull)"
    by (simp add: ROLES_def pair_state_def subdict_def item_def)
  from rollback_restores [OF t d pair_simps(5) n] t show ?thesis by (intro exI [of _ t] conjI)
qed

subsection \<open>A first deployment whose copies fail\<close>

definition lab_full :: site where
  "lab_full = lab\<lparr>s_copier := Injected_Scp (\<lambda>_ argv _. Result \<lparr>cr_argv = argv, returncode = 1, stdout = [], stderr = ''No space left''\<rparr>)\<rparr>"

lemma full_simps: "s_python lab_full = lab_python" "s_config lab_full = lab_config" "s_lock lab_full = lab_lock" "s_writable lab_full f"
  "s_tmpdir lab_full = s_tmpdir lab" "outcome lab_full = outcome lab"
  by (simp_all add: lab_full_def lab_simps outcome_def fun_eq_iff)

lemma full_answers: "answers lab_full lab_contracts"
proof -
  have "good_container lab_full = good_container lab" "good_image lab_full = good_image lab"
    by (simp_all add: fun_eq_iff good_container_def good_image_def full_simps lab_simps)
  moreover have "s_python lab_full = s_python lab" "s_dep lab_full = s_dep lab" by (simp_all add: full_simps lab_simps)
  ultimately show ?thesis
    using lab_answers unfolding answers_def inspects_well_def full_simps(6) by (simp only:)
qed

lemma full_copies: "copies_allowed lab_full lab_contracts"
  using lab_copies unfolding copies_allowed_def login_ok_def by (simp add: full_simps lab_simps)

lemma full_renders: "renders lab_full lab_contracts"
proof -
  have "\<forall>t. is_sha256 (py_sha256 (s_python lab) t)" by (simp add: lab_simps lab_sha)
  from engine_renders [OF lab_init this] have "renders lab lab_contracts" by (simp add: lab_f0(2))
  then show ?thesis unfolding renders_def by (simp add: full_simps lab_simps)
qed

definition full_failed :: "failure option \<Rightarrow> bool" where
  "full_failed e \<longleftrightarrow> (\<exists>m. e = Some (CommandFailed m))"

lemma full_copy:
  assumes l: "login_ok lab_full role" and x: "clean_path source" "clean_path destination"
  shows "hoare (there lab_contracts b) (copy_to lab_full role (source, destination, content)) (\<lambda>_ _. False)
     (\<lambda>e s. full_failed e \<and> there lab_contracts b s)"
proof -
  from scp_call [OF assms] obtain host user argv where l: "role_login (s_dep lab_full) role = Some (host, user)"
    and a: "scp_argv source host user (int (ssh_port (s_dep lab_full))) (ssh_known_hosts_file (s_dep lab_full)) destination
      (identity_of (s_dep lab_full)) 10 = ret argv" by blast
  have "copy_outcome lab_full hist argv content = raise (CommandFailed (''staging command failed: '' @ join '' '' argv))" for hist
    by (simp add: copy_outcome_def lab_full_def as_result_def bind_def ret_def)
  with l a show ?thesis
    by (simp add: copy_to_def hoare_def seq_def run_def lift_def scp_def Let_def ret_def raise_def full_failed_def there_def
        status_snoc container_step_def)
qed

lemma full_stage:
  "hoare (there lab_contracts b) (stage lab_full) (\<lambda>_ _. False) (\<lambda>e s. full_failed e \<and> there lab_contracts b s)"
proof -
  have m: "returns (remote_model_root (s_python lab_full) (s_dep lab_full) (lab_contracts ''head''))"
    using full_renders by (simp add: renders_def ROLES_def)
  have one: "hoare (there lab_contracts b) (stage_role lab_full p ''worker'') (\<lambda>_ _. False)
     (\<lambda>e s. full_failed e \<and> there lab_contracts b s)" if "clean_path (path_str p)" for p
  proof (rule live_stage_role [OF full_answers full_copies full_renders in_roles(1) that])
    fix xs :: "(string \<times> string \<times> string) list"
    assume "xs \<noteq> []" and x: "\<And>x y z. (x, y, z) \<in> set xs \<Longrightarrow> clean_path x \<and> clean_path y"
    then obtain x y z ys where xs: "xs = (x, y, z) # ys" by (metis neq_Nil_conv prod_cases3)
    from x [of x y z] have "clean_path x" "clean_path y" by (simp_all add: xs)
    moreover have "login_ok lab_full ''worker''" using full_copies in_roles(1) unfolding copies_allowed_def by blast
    ultimately show "hoare (there lab_contracts b) (each (copy_to lab_full ''worker'') xs) (\<lambda>_ _. False)
        (\<lambda>e s. full_failed e \<and> there lab_contracts b s)"
      unfolding xs each_def fold_io.simps
      by (intro hoare_seq_fwd [OF full_copy]) (simp_all add: hoare_def)
  qed
  show ?thesis
    unfolding stage_def
    by (rule total_contract, rule total_returns [OF m], unfold each_def ROLES_def fold_io.simps, rule hoare_seq_fwd [OF one])
      (use full_copies in \<open>auto simp: copies_allowed_def hoare_def\<close>)
qed

lemma full_deploy:
  "hoare (there lab_contracts b) (deploy lab_full False) (\<lambda>_ _. False) (\<lambda>e s. full_failed e \<and> there lab_contracts b s)"
proof -
  have f: "fabric_profile (s_dep lab_full) = ''f0''" by (simp add: full_simps lab_parts)
  have l: "sure (there lab_contracts b) (apply_link lab_full) (\<lambda>_. there lab_contracts b)" by (simp add: apply_link_def f total_give)
  have n: "sure (there lab_contracts b) (if False then seq (stop_owned lab_full) (\<lambda>_. remove_owned lab_full) else give ())
      (\<lambda>_. there lab_contracts b)" by (simp add: total_give)
  note p = live_preflight [OF full_answers full_renders f]
  show ?thesis
    unfolding deploy_def
    by (rule total_seq [OF l], rule total_seq [OF p], rule total_seq [OF n], rule hoare_seq_fwd [OF full_stage]) (simp add: hoare_def)
qed

text \<open>Nothing was created, and the recovery finds nothing to remove.\<close>

lemma full_cleanup:
  "sure (there lab_contracts (\<lambda>_. (False, False))) (cleanup_partial lab_full) (\<lambda>_. there lab_contracts (\<lambda>_. (False, False)))"
  unfolding cleanup_partial_def
proof (rule hoare_each)
  fix role
  assume role: "role \<in> set ROLES"
  with full_renders have n: "returns (name_of (s_python lab_full) (lab_contracts role))" by (simp add: renders_def)
  show "sure (there lab_contracts (\<lambda>_. (False, False))) (cleanup_role lab_full role) (\<lambda>_. there lab_contracts (\<lambda>_. (False, False)))"
    unfolding cleanup_role_def
    by (rule total_seq_fact [OF total_missing [OF full_answers role n]]) (auto intro: total_give)
qed

lemma sure_runs:
  assumes "P s" and "sure P m Q"
  obtains x t where "m s = (ret x, t)" "Q x t"
proof -
  obtain r t where "m s = (r, t)" by force
  with assms that show thesis by (cases r rule: comp_cases) (auto simp: hoare_def ret_def raise_def)
qed

theorem failed_deployment_cleans_up_witness:
  "\<exists>m t. apply_deployment lab_full ''/s'' False lab_engine = (raise (CommandFailed m), t)
     \<and> (\<exists>es1 es2. e_log t = e_log lab_engine @ es1 @ es2 \<and> (\<forall>e\<in>set es2. \<not> launches e)
     \<and> (\<forall>role\<in>set ROLES. \<exists>name. name_of lab_python (e_contracts t role) = ret name \<and> gone_in es2 role name))"
proof -
  let ?b = "\<lambda>_ :: string. (False, False)"
  let ?I = "there lab_contracts ?b"
  have f: "fabric_profile (s_dep lab_full) = ''f0''" by (simp add: full_simps lab_parts)
  have "?I lab_engine" by (simp add: there_def lab_engine_def container_status_def)
  moreover have "sure ?I (seq (preflight lab_full False False) (\<lambda>_. capture_rollback lab_full ''/s'')) (\<lambda>_. ?I)"
    by (rule total_seq [OF live_preflight [OF full_answers full_renders f]],
        rule live_capture [OF full_answers full_renders f full_simps(4)]) simp
  ultimately obtain st v where p: "seq (preflight lab_full False False) (\<lambda>_. capture_rollback lab_full ''/s'') lab_engine = (ret st, v)"
    and v: "?I v" by (rule sure_runs)
  obtain r u where d: "deploy lab_full False v = (r, u)" by force
  with full_deploy [of ?b] v obtain m where r: "r = raise (CommandFailed m)" and u: "?I u"
    unfolding hoare_def by (cases r rule: comp_cases) (fastforce simp: full_failed_def ret_def raise_def)+
  from sure_runs [OF u full_cleanup] obtain w where c: "cleanup_partial lab_full u = (ret (), w)" by auto
  have rec: "recovery lab_full ''/s'' False st u = (ret (), w)"
    using c by (simp add: recovery_def seq_ret restore_fabric_state_def f give_ret)
  have t: "apply_deployment lab_full ''/s'' False lab_engine = (raise (CommandFailed m), w)"
  proof -
    from p obtain a where "preflight lab_full False False lab_engine = (ret (), a)" "capture_rollback lab_full ''/s'' a = (ret st, v)"
      by (auto simp: seq_ret)
    then show ?thesis
      using d [unfolded r] rec
      by (simp add: apply_deployment_def recovering_def catch_def seq_def throw_def ret_def raise_def lifecycle_error_def)
  qed
  have l: "lifecycle_error (CommandFailed m)" "\<forall>e1 e2. CommandFailed m \<noteq> RecoveryFailed e1 e2" by (simp_all add: lifecycle_error_def)
  from failed_deployment_cleans_up [OF p t l] t show ?thesis
    unfolding full_simps by (intro exI [of _ m] exI [of _ w] conjI)
qed

end
