(* ===== verification/Model_Lock.thy ===== *)
theory Model_Lock
  imports Locks
begin

text \<open>
  \<^verbatim>\<open>scripts/model/verify.py\<close>, first part: the model lock.  An accepted lock is a record; the values it
  repeats unchanged (provenance, the policy of the chat template) are kept, the schema version is 1.
\<close>

subsection \<open>Exceptions and files\<close>

text \<open>\<open>ModelOSError\<close> is an \<^verbatim>\<open>OSError\<close> that the scripts do not convert.\<close>

datatype model_error = VerificationError | FetchError | OverflowError | ModelOSError

text \<open>What reading a file gives: nothing there, an error of the operating system, or its bytes.\<close>

datatype file_read = Missing_File | Unreadable | Bytes string

text \<open>
  \<^verbatim>\<open>json.loads\<close> on bytes, with every entry of an object as it is written, and the two hash functions as
  hexadecimal digests.
\<close>

record hashing =
  h_loads :: "string \<Rightarrow> json option"
  h_sha256 :: "string \<Rightarrow> string"
  h_sha1 :: "string \<Rightarrow> string"

definition demand :: "bool \<Rightarrow> (model_error, unit) comp" where
  "demand b = assert VerificationError b"

text \<open>\<^verbatim>\<open>_reject_duplicate_object_keys\<close>, called for every object of the text.\<close>

fun no_duplicate_keys :: "json \<Rightarrow> bool" where
  "no_duplicate_keys (JArr xs) = list_all id (map no_duplicate_keys xs)"
| "no_duplicate_keys (JObj es) = (distinct (map fst es) \<and> list_all id (map (\<lambda>(k, v). no_duplicate_keys v) es))"
| "no_duplicate_keys _ = True"

definition read_json :: "hashing \<Rightarrow> file_read \<Rightarrow> (model_error, json) comp" where
  "read_json H content =
     (case content of
        Bytes t \<Rightarrow> (case h_loads H t of
            Some j \<Rightarrow> bind (demand (no_duplicate_keys j)) (\<lambda>_. ret j) | None \<Rightarrow> raise VerificationError)
      | _ \<Rightarrow> raise VerificationError)"

subsection \<open>Typed reading of values\<close>

definition require_mapping :: "json \<Rightarrow> (model_error, (string \<times> json) list) comp" where
  "require_mapping v = (case v of JObj es \<Rightarrow> ret es | _ \<Rightarrow> raise VerificationError)"

definition require_exact_keys :: "(string \<times> json) list \<Rightarrow> string list \<Rightarrow> (model_error, unit) comp" where
  "require_exact_keys es ks =
     bind (demand (set ks \<subseteq> fst ` set es)) (\<lambda>_. demand (fst ` set es \<subseteq> set ks))"

definition require_string :: "(string \<Rightarrow> bool) \<Rightarrow> json \<Rightarrow> (model_error, string) comp" where
  "require_string pattern v =
     (case v of JStr s \<Rightarrow> bind (demand (s \<noteq> [] \<and> pattern s)) (\<lambda>_. ret s) | _ \<Rightarrow> raise VerificationError)"

definition any_text :: "string \<Rightarrow> bool" where
  "any_text s = True"

definition require_int :: "int \<Rightarrow> json \<Rightarrow> (model_error, int) comp" where
  "require_int minimum v =
     (case v of JInt i \<Rightarrow> bind (demand (minimum \<le> i)) (\<lambda>_. ret i) | _ \<Rightarrow> raise VerificationError)"

definition require_bool :: "json \<Rightarrow> (model_error, bool) comp" where
  "require_bool v = (case v of JBool b \<Rightarrow> ret b | _ \<Rightarrow> raise VerificationError)"

text \<open>
  \<^verbatim>\<open>float(i)\<close>: the nearest double, ties to even; an integer that rounds to \<open>2\<^sup>1\<^sup>0\<^sup>2\<^sup>4\<close> or more raises.
\<close>

fun bit_length :: "nat \<Rightarrow> nat" where
  "bit_length n = (if n = 0 then 0 else Suc (bit_length (n div 2)))"

declare bit_length.simps [simp del]

definition round_double :: "nat \<Rightarrow> nat" where
  "round_double n =
     (let e = bit_length n - 53; q = n div 2 ^ e; r = 2 * (n mod 2 ^ e)
      in (if r > 2 ^ e \<or> r = 2 ^ e \<and> odd q then q + 1 else q) * 2 ^ e)"

definition float_of_int :: "int \<Rightarrow> (model_error, rat) comp" where
  "float_of_int i =
     (let n = round_double (nat \<bar>i\<bar>)
      in if n \<ge> 2 ^ 1024 then raise OverflowError else ret (if i < 0 then - of_nat n else of_nat n))"

text \<open>The values of \<^verbatim>\<open>json\<close> are finite, so the check of \<^verbatim>\<open>math.isfinite\<close> always passes.\<close>

definition require_number :: "rat \<Rightarrow> rat option \<Rightarrow> json \<Rightarrow> (model_error, rat) comp" where
  "require_number minimum maximum v =
     bind (case v of JInt i \<Rightarrow> float_of_int i | JFloat r \<Rightarrow> ret r | _ \<Rightarrow> raise VerificationError) (\<lambda>number.
     bind (demand (minimum < number)) (\<lambda>_.
     bind (demand (case maximum of None \<Rightarrow> True | Some m \<Rightarrow> number \<le> m)) (\<lambda>_. ret number)))"

text \<open>The characters that \<^verbatim>\<open>_PATH_RE\<close> allows in a component.\<close>

definition path_char :: "char \<Rightarrow> bool" where
  "path_char c \<longleftrightarrow> is_alnum c \<or> c \<in> {CHR ''.'', CHR ''_'', CHR ''-''}"

definition safe_relative :: "string \<Rightarrow> bool" where
  "safe_relative s \<longleftrightarrow>
     (\<forall>part\<in>set (split_on CHR ''/'' s). part \<noteq> [] \<and> part \<noteq> ''.'' \<and> part \<noteq> ''..'' \<and> (\<forall>c\<in>set part. path_char c))"

definition validate_relative_path :: "json \<Rightarrow> (model_error, string) comp" where
  "validate_relative_path v = require_string safe_relative v"

definition is_sha1 :: "string \<Rightarrow> bool" where
  "is_sha1 s \<longleftrightarrow> length s = 40 \<and> (\<forall>c\<in>set s. is_lhex c)"

text \<open>The patterns of a repository and of a date.\<close>

definition repo_part :: "string \<Rightarrow> bool" where
  "repo_part s \<longleftrightarrow> s \<noteq> [] \<and> is_alnum (hd s) \<and> (\<forall>c\<in>set s. path_char c)"

definition is_repo_id :: "string \<Rightarrow> bool" where
  "is_repo_id s \<longleftrightarrow> (case split_on CHR ''/'' s of [a, b] \<Rightarrow> repo_part a \<and> repo_part b | _ \<Rightarrow> False)"

definition is_date :: "string \<Rightarrow> bool" where
  "is_date s \<longleftrightarrow> (case split_on CHR ''-'' s of
     [y, m, d] \<Rightarrow> length y = 4 \<and> length m = 2 \<and> length d = 2 \<and> (\<forall>c\<in>set (y @ m @ d). is_digit c) | _ \<Rightarrow> False)"

subsection \<open>The entries of a lock\<close>

datatype file_hash = Sha256 string | Git_Blob_Sha1 string

record file_entry =
  f_path :: string
  f_size :: int
  f_role :: string
  f_hash :: file_hash

definition FILE_ROLES :: "string list" where
  "FILE_ROLES = [''config'', ''generation_config'', ''index'', ''license'', ''tokenizer'', ''tokenizer_config'', ''weight'']"

definition validate_file_entry :: "json \<Rightarrow> (model_error, file_entry) comp" where
  "validate_file_entry v =
     bind (require_mapping v) (\<lambda>entry.
     bind (demand ({''path'', ''size'', ''role''} \<subseteq> fst ` set entry)) (\<lambda>_.
     bind (demand (fst ` set entry \<subseteq> {''path'', ''size'', ''role'', ''sha256'', ''git_blob_sha1''})) (\<lambda>_.
     bind (validate_relative_path (item entry ''path'')) (\<lambda>path.
     bind (require_int 0 (item entry ''size'')) (\<lambda>fsize.
     bind (require_string any_text (item entry ''role'')) (\<lambda>role.
     bind (demand (role \<in> set FILE_ROLES)) (\<lambda>_.
     bind (demand ((''sha256'' \<in> fst ` set entry) \<noteq> (''git_blob_sha1'' \<in> fst ` set entry))) (\<lambda>_.
     bind (if ''sha256'' \<in> fst ` set entry
           then bind (require_string is_sha256 (item entry ''sha256'')) (\<lambda>h. ret (Sha256 h))
           else bind (require_string is_sha1 (item entry ''git_blob_sha1'')) (\<lambda>h. ret (Git_Blob_Sha1 h))) (\<lambda>h.
       ret \<lparr>f_path = path, f_size = fsize, f_role = role, f_hash = h\<rparr>)))))))))"

fun each_value :: "('a \<Rightarrow> (model_error, 'b) comp) \<Rightarrow> 'a list \<Rightarrow> (model_error, 'b list) comp" where
  "each_value f [] = ret []"
| "each_value f (x # xs) = bind (f x) (\<lambda>y. bind (each_value f xs) (\<lambda>ys. ret (y # ys)))"

definition require_array :: "json \<Rightarrow> (model_error, json list) comp" where
  "require_array v = (case v of JArr xs \<Rightarrow> bind (demand (xs \<noteq> [])) (\<lambda>_. ret xs) | _ \<Rightarrow> raise VerificationError)"

subsection \<open>The lock\<close>

record model_lock =
  l_repo_id :: string
  l_revision :: string
  l_library_name :: string
  l_model_type :: string
  l_architecture :: string
  l_config_path :: string
  l_model_api :: string
  l_tree_api :: string
  l_observed_on :: string
  l_spdx :: string
  l_license_path :: string
  l_generation_path :: string
  l_do_sample :: bool
  l_temperature :: rat
  l_top_p :: rat
  l_tokenizer_path :: string
  l_tokenizer_config_path :: string
  l_tokenizer_class :: string
  l_index_path :: string
  l_shard_count :: int
  l_shards :: "string list"
  l_marker :: string
  l_file_count :: int
  l_selected_size :: int
  l_weight_size :: int
  l_files :: "file_entry list"

definition DEFAULT_MARKER :: string where
  "DEFAULT_MARKER = ''.model-lock.sha256''"

definition MODEL_LOCK_KEYS :: "string list" where
  "MODEL_LOCK_KEYS = [''schema_version'', ''model'', ''provenance'', ''license'', ''generation_config'', ''chat_template'',
     ''tokenizer'', ''weights'', ''install'', ''totals'', ''files'']"

text \<open>A section: an object with exactly the given keys.\<close>

definition section_of :: "(string \<times> json) list \<Rightarrow> string \<Rightarrow> string list \<Rightarrow> (model_error, (string \<times> json) list) comp" where
  "section_of es k ks = bind (require_mapping (item es k)) (\<lambda>fs. bind (require_exact_keys fs ks) (\<lambda>_. ret fs))"

text \<open>The sections, in the order of the code; each adds its values to the lock.\<close>

definition HF_API :: string where
  "HF_API = ''https://huggingface.co/api/models/''"

definition lock_model :: "(string \<times> json) list \<Rightarrow> model_lock \<Rightarrow> (model_error, model_lock) comp" where
  "lock_model es l =
     bind (section_of es ''model'' [''repo_id'', ''revision'', ''library_name'', ''model_type'', ''architecture'', ''config_path'']) (\<lambda>m.
     bind (require_string is_repo_id (item m ''repo_id'')) (\<lambda>repo.
     bind (require_string is_sha1 (item m ''revision'')) (\<lambda>rev.
     bind (require_string any_text (item m ''library_name'')) (\<lambda>lib.
     bind (require_string any_text (item m ''model_type'')) (\<lambda>ty.
     bind (require_string any_text (item m ''architecture'')) (\<lambda>arch.
     bind (validate_relative_path (item m ''config_path'')) (\<lambda>cfg.
       ret (l\<lparr>l_repo_id := repo, l_revision := rev, l_library_name := lib, l_model_type := ty, l_architecture := arch,
         l_config_path := cfg\<rparr>))))))))"

definition lock_provenance :: "(string \<times> json) list \<Rightarrow> model_lock \<Rightarrow> (model_error, model_lock) comp" where
  "lock_provenance es l =
     bind (section_of es ''provenance'' [''model_api'', ''tree_api'', ''metadata_observed_on'']) (\<lambda>p.
     bind (require_string any_text (item p ''model_api'')) (\<lambda>mapi.
     bind (require_string any_text (item p ''tree_api'')) (\<lambda>tapi.
     bind (require_string is_date (item p ''metadata_observed_on'')) (\<lambda>seen.
     bind (demand (starts_with HF_API mapi \<and> starts_with HF_API tapi)) (\<lambda>_.
     bind (demand (contains (l_repo_id l) mapi \<and> contains (l_repo_id l) tapi
         \<and> contains (l_revision l) mapi \<and> contains (l_revision l) tapi)) (\<lambda>_.
       ret (l\<lparr>l_model_api := mapi, l_tree_api := tapi, l_observed_on := seen\<rparr>)))))))"

definition lock_license :: "(string \<times> json) list \<Rightarrow> model_lock \<Rightarrow> (model_error, model_lock) comp" where
  "lock_license es l =
     bind (section_of es ''license'' [''spdx'', ''file_path'']) (\<lambda>s.
     bind (require_string any_text (item s ''spdx'')) (\<lambda>spdx.
     bind (validate_relative_path (item s ''file_path'')) (\<lambda>path.
     bind (demand (lower spdx = ''mit'')) (\<lambda>_.
       ret (l\<lparr>l_spdx := spdx, l_license_path := path\<rparr>)))))"

definition lock_generation :: "(string \<times> json) list \<Rightarrow> model_lock \<Rightarrow> (model_error, model_lock) comp" where
  "lock_generation es l =
     bind (section_of es ''generation_config'' [''path'', ''do_sample'', ''temperature'', ''top_p'']) (\<lambda>g.
     bind (validate_relative_path (item g ''path'')) (\<lambda>path.
     bind (require_bool (item g ''do_sample'')) (\<lambda>sample.
     bind (require_number 0 None (item g ''temperature'')) (\<lambda>temp.
     bind (require_number 0 (Some 1) (item g ''top_p'')) (\<lambda>top.
       ret (l\<lparr>l_generation_path := path, l_do_sample := sample, l_temperature := temp, l_top_p := top\<rparr>))))))"

definition lock_chat_template :: "(string \<times> json) list \<Rightarrow> (model_error, unit) comp" where
  "lock_chat_template es =
     bind (section_of es ''chat_template'' [''policy'', ''jinja'']) (\<lambda>t.
       demand (item t ''policy'' = JStr ''absent'' \<and> item t ''jinja'' = JBool False))"

definition lock_tokenizer :: "(string \<times> json) list \<Rightarrow> model_lock \<Rightarrow> (model_error, model_lock) comp" where
  "lock_tokenizer es l =
     bind (section_of es ''tokenizer'' [''tokenizer_path'', ''config_path'', ''tokenizer_class'']) (\<lambda>t.
     bind (validate_relative_path (item t ''tokenizer_path'')) (\<lambda>path.
     bind (validate_relative_path (item t ''config_path'')) (\<lambda>cpath.
     bind (require_string any_text (item t ''tokenizer_class'')) (\<lambda>cls.
       ret (l\<lparr>l_tokenizer_path := path, l_tokenizer_config_path := cpath, l_tokenizer_class := cls\<rparr>)))))"

definition ends_with :: "string \<Rightarrow> string \<Rightarrow> bool" where
  "ends_with suf s \<longleftrightarrow> length suf \<le> length s \<and> drop (length s - length suf) s = suf"

definition lock_weights :: "(string \<times> json) list \<Rightarrow> model_lock \<Rightarrow> (model_error, model_lock) comp" where
  "lock_weights es l =
     bind (section_of es ''weights'' [''format'', ''index_path'', ''shard_count'', ''shards'']) (\<lambda>w.
     bind (demand (item w ''format'' = JStr ''safetensors'')) (\<lambda>_.
     bind (validate_relative_path (item w ''index_path'')) (\<lambda>idx.
     bind (require_int 1 (item w ''shard_count'')) (\<lambda>count.
     bind (require_array (item w ''shards'')) (\<lambda>raw.
     bind (each_value validate_relative_path raw) (\<lambda>shards.
     bind (demand (distinct shards \<and> int (length shards) = count)) (\<lambda>_.
     bind (demand (\<forall>s\<in>set shards. ends_with ''.safetensors'' s)) (\<lambda>_.
       ret (l\<lparr>l_index_path := idx, l_shard_count := count, l_shards := shards\<rparr>)))))))))"

definition lock_install :: "(string \<times> json) list \<Rightarrow> model_lock \<Rightarrow> (model_error, model_lock) comp" where
  "lock_install es l =
     bind (section_of es ''install'' [''manifest_marker'', ''unexpected_files'']) (\<lambda>i.
     bind (validate_relative_path (item i ''manifest_marker'')) (\<lambda>marker.
     bind (demand (marker = DEFAULT_MARKER \<and> item i ''unexpected_files'' = JStr ''reject'')) (\<lambda>_.
       ret (l\<lparr>l_marker := marker\<rparr>))))"

definition lock_totals :: "(string \<times> json) list \<Rightarrow> model_lock \<Rightarrow> (model_error, model_lock) comp" where
  "lock_totals es l =
     bind (section_of es ''totals'' [''file_count'', ''selected_size_bytes'', ''weight_size_bytes'']) (\<lambda>t.
     bind (require_int 1 (item t ''file_count'')) (\<lambda>count.
     bind (require_int 1 (item t ''selected_size_bytes'')) (\<lambda>selected.
     bind (require_int 1 (item t ''weight_size_bytes'')) (\<lambda>weight.
       ret (l\<lparr>l_file_count := count, l_selected_size := selected, l_weight_size := weight\<rparr>)))))"

text \<open>The roles that the metadata gives to the paths; in a dictionary display a later key wins.\<close>

definition expected_roles :: "model_lock \<Rightarrow> (string \<times> string) list" where
  "expected_roles l =
     [(l_config_path l, ''config''), (l_license_path l, ''license''), (l_generation_path l, ''generation_config''),
      (l_tokenizer_path l, ''tokenizer''), (l_tokenizer_config_path l, ''tokenizer_config''), (l_index_path l, ''index'')]
     @ map (\<lambda>s. (s, ''weight'')) (l_shards l)"

definition display :: "('k \<times> 'v) list \<Rightarrow> 'k \<Rightarrow> 'v option" where
  "display es = map_of (rev es)"

definition lock_files :: "(string \<times> json) list \<Rightarrow> model_lock \<Rightarrow> (model_error, model_lock) comp" where
  "lock_files es l =
     bind (require_array (item es ''files'')) (\<lambda>raw.
     bind (each_value validate_file_entry raw) (\<lambda>files.
     let paths = map f_path files; expected = fst ` set (expected_roles l) in
     bind (demand (distinct paths)) (\<lambda>_.
     bind (demand (set paths = expected)) (\<lambda>_.
     bind (demand (l_file_count l = int (length files) \<and> l_selected_size l = sum_list (map f_size files))) (\<lambda>_.
     bind (demand (l_weight_size l = sum_list (map f_size (filter (\<lambda>e. f_role e = ''weight'') files)))) (\<lambda>_.
     bind (demand (\<forall>p\<in>set paths \<union> expected.
         display (map (\<lambda>e. (f_path e, f_role e)) files) p = display (expected_roles l) p)) (\<lambda>_.
       ret (l\<lparr>l_files := files\<rparr>))))))))"

definition no_lock :: model_lock where
  "no_lock = \<lparr>l_repo_id = [], l_revision = [], l_library_name = [], l_model_type = [], l_architecture = [], l_config_path = [],
     l_model_api = [], l_tree_api = [], l_observed_on = [], l_spdx = [], l_license_path = [], l_generation_path = [],
     l_do_sample = False, l_temperature = 0, l_top_p = 0, l_tokenizer_path = [], l_tokenizer_config_path = [],
     l_tokenizer_class = [], l_index_path = [], l_shard_count = 0, l_shards = [], l_marker = [], l_file_count = 0,
     l_selected_size = 0, l_weight_size = 0, l_files = []\<rparr>"

text \<open>The checked-in schema is only looked at, not applied.\<close>

definition validate_schema_document :: "hashing \<Rightarrow> file_read \<Rightarrow> (model_error, unit) comp" where
  "validate_schema_document H content =
     bind (read_json H content) (\<lambda>j.
     bind (require_mapping j) (\<lambda>s.
     bind (demand (item s ''$schema'' = JStr ''https://json-schema.org/draft/2020-12/schema'')) (\<lambda>_.
       demand (item s ''type'' = JStr ''object'' \<and> item s ''additionalProperties'' = JBool False))))"

definition validate_lock :: "hashing \<Rightarrow> json \<Rightarrow> file_read option \<Rightarrow> (model_error, model_lock) comp" where
  "validate_lock H j schema =
     bind (case schema of None \<Rightarrow> ret () | Some content \<Rightarrow> validate_schema_document H content) (\<lambda>_.
     bind (require_mapping j) (\<lambda>es.
     bind (require_exact_keys es MODEL_LOCK_KEYS) (\<lambda>_.
     bind (demand (py_eq (item es ''schema_version'') (JInt 1))) (\<lambda>_.
     bind (lock_model es no_lock) (\<lambda>l.
     bind (lock_provenance es l) (\<lambda>l.
     bind (lock_license es l) (\<lambda>l.
     bind (lock_generation es l) (\<lambda>l.
     bind (lock_chat_template es) (\<lambda>_.
     bind (lock_tokenizer es l) (\<lambda>l.
     bind (lock_weights es l) (\<lambda>l.
     bind (lock_install es l) (\<lambda>l.
     bind (lock_totals es l) (\<lambda>l.
       lock_files es l)))))))))))))"

definition load_lock_file :: "hashing \<Rightarrow> file_read \<Rightarrow> file_read option \<Rightarrow> (model_error, model_lock) comp" where
  "load_lock_file H content schema = bind (read_json H content) (\<lambda>j. validate_lock H j schema)"

definition lock_sha256 :: "hashing \<Rightarrow> file_read \<Rightarrow> (model_error, string) comp" where
  "lock_sha256 H content = (case content of Bytes t \<Rightarrow> ret (h_sha256 H t) | _ \<Rightarrow> raise VerificationError)"

end
