(* ===== verification/Model_Verify.thy ===== *)
theory Model_Verify
  imports Model_Lock
begin

text \<open>
  \<^verbatim>\<open>scripts/model/verify.py\<close>, second part: the verification of an installed model against its lock.  The
  installed model is a directory tree that does not change meanwhile.
\<close>

subsection \<open>Directory trees\<close>

text \<open>
  What \<^verbatim>\<open>lstat\<close> and the operations on an entry see: a regular file with its bytes (none when reading fails), a
  directory with whether it can be listed and its entries in the order of \<^verbatim>\<open>scandir\<close>, a symbolic link,
  another special file (opening one may block), or an entry that cannot be inspected.
\<close>

datatype node =
    Regular "string option"
  | Directory bool "(string \<times> node) list"
  | Symlink
  | Special
  | Broken

text \<open>\<^verbatim>\<open>_lstat\<close>: the entry, unless it is missing, cannot be inspected or is a link.\<close>

definition lstat :: "node option \<Rightarrow> (model_error, node) comp" where
  "lstat n = (case n of None \<Rightarrow> raise VerificationError | Some m \<Rightarrow> bind (demand (m \<noteq> Symlink \<and> m \<noteq> Broken)) (\<lambda>_. ret m))"

definition child :: "node \<Rightarrow> string \<Rightarrow> node option" where
  "child n c = (case n of Directory b es \<Rightarrow> map_of es c | _ \<Rightarrow> None)"

text \<open>\<^verbatim>\<open>_safe_join\<close>: every component on the way is looked at.\<close>

fun walk :: "node \<Rightarrow> string list \<Rightarrow> (model_error, node) comp" where
  "walk n [] = ret n"
| "walk n (c # cs) = bind (lstat (child n c)) (\<lambda>m. walk m cs)"

definition safe_join :: "node \<Rightarrow> string \<Rightarrow> (model_error, node) comp" where
  "safe_join tree relative_path = bind (demand (relative_path \<noteq> [] \<and> safe_relative relative_path)) (\<lambda>_.
     walk tree (split_on CHR ''/'' relative_path))"

text \<open>The bytes that opening an entry gives; opening a special file need not return.\<close>

definition open_read :: "node \<Rightarrow> (model_error, string) comp" where
  "open_read n = (case n of Regular (Some t) \<Rightarrow> ret t | Special \<Rightarrow> None | _ \<Rightarrow> raise VerificationError)"

definition is_regular :: "node \<Rightarrow> bool" where
  "is_regular n = (case n of Regular _ \<Rightarrow> True | _ \<Rightarrow> False)"

definition is_directory :: "node \<Rightarrow> bool" where
  "is_directory n = (case n of Directory _ _ \<Rightarrow> True | _ \<Rightarrow> False)"

subsection \<open>Files and marker\<close>

definition git_blob :: "int \<Rightarrow> string \<Rightarrow> string" where
  "git_blob expected_size t = ''blob '' @ show_int expected_size @ [CHR 0x00] @ t"

definition hash_matches :: "hashing \<Rightarrow> file_entry \<Rightarrow> string \<Rightarrow> bool" where
  "hash_matches H e t \<longleftrightarrow>
     (case f_hash e of Sha256 h \<Rightarrow> h_sha256 H t = h | Git_Blob_Sha1 h \<Rightarrow> h_sha1 H (git_blob (f_size e) t) = h)"

definition verify_file :: "hashing \<Rightarrow> node \<Rightarrow> file_entry \<Rightarrow> (model_error, unit) comp" where
  "verify_file H tree e =
     bind (safe_join tree (f_path e)) (\<lambda>n.
     bind (lstat (Some n)) (\<lambda>n.
     bind (demand (is_regular n)) (\<lambda>_.
     bind (open_read n) (\<lambda>t.
     bind (demand (int (length t) = f_size e)) (\<lambda>_.
       demand (hash_matches H e t))))))"

text \<open>
  \<^verbatim>\<open>_iter_install_files\<close>: the files below a directory by relative path; a directory must hold a file.
\<close>

definition entry_files :: "string \<times> node \<times> (model_error, string list) comp \<Rightarrow> (model_error, string list) comp" where
  "entry_files e =
     (case e of (name, n, nested) \<Rightarrow> case n of
         Regular _ \<Rightarrow> ret [name]
       | Directory _ _ \<Rightarrow> bind nested (\<lambda>fs. bind (demand (fs \<noteq> [])) (\<lambda>_. ret (map (\<lambda>f. name @ ''/'' @ f) fs)))
       | _ \<Rightarrow> raise VerificationError)"

fun iter_install_files :: "node \<Rightarrow> (model_error, string list) comp" where
  "iter_install_files (Directory listable es) =
     (if listable
      then bind (each_value entry_files (map (\<lambda>(name, n). (name, n, iter_install_files n)) es)) (\<lambda>fss. ret (concat fss))
      else raise VerificationError)"
| "iter_install_files _ = raise VerificationError"

text \<open>\<^verbatim>\<open>read_text\<close> with universal newlines, in ASCII.\<close>

fun universal_newlines :: "string \<Rightarrow> string" where
  "universal_newlines (c # d # s) =
     (if code c = 13 then CHR 0x0A # universal_newlines (if code d = 10 then s else d # s)
      else c # universal_newlines (d # s))"
| "universal_newlines [c] = [if code c = 13 then CHR 0x0A else c]"
| "universal_newlines [] = []"

definition marker_digest :: "string \<Rightarrow> (model_error, string) comp" where
  "marker_digest t =
     (let marker = universal_newlines t; digest = rstrip_char (CHR 0x0A) marker
      in bind (demand (\<forall>c\<in>set t. code c < 128)) (\<lambda>_.
         bind (demand (is_sha256 digest \<and> (marker = digest \<or> marker = digest @ [CHR 0x0A]))) (\<lambda>_. ret digest)))"

definition verify_marker :: "hashing \<Rightarrow> node \<Rightarrow> file_read \<Rightarrow> string \<Rightarrow> (model_error, unit) comp" where
  "verify_marker H tree lock_content marker_name =
     bind (safe_join tree marker_name) (\<lambda>n.
     bind (lstat (Some n)) (\<lambda>n.
     bind (demand (is_regular n)) (\<lambda>_.
     bind (open_read n) (\<lambda>t.
     bind (marker_digest t) (\<lambda>digest.
     bind (lock_sha256 H lock_content) (\<lambda>h.
       demand (digest = h)))))))"

subsection \<open>Metadata across files\<close>

text \<open>The object of a JSON file of the model.\<close>

definition model_json :: "hashing \<Rightarrow> node \<Rightarrow> string \<Rightarrow> (model_error, (string \<times> json) list) comp" where
  "model_json H tree relative_path =
     bind (safe_join tree relative_path) (\<lambda>n.
     bind (open_read n) (\<lambda>t.
     bind (read_json H (Bytes t)) require_mapping))"

definition in_array :: "string \<Rightarrow> json \<Rightarrow> bool" where
  "in_array s v = (case v of JArr xs \<Rightarrow> JStr s \<in> set xs | _ \<Rightarrow> False)"

definition verify_config :: "hashing \<Rightarrow> node \<Rightarrow> model_lock \<Rightarrow> (model_error, unit) comp" where
  "verify_config H tree l =
     bind (model_json H tree (l_config_path l)) (\<lambda>config.
     bind (demand (item config ''model_type'' = JStr (l_model_type l))) (\<lambda>_.
       demand (in_array (l_architecture l) (item config ''architectures''))))"

definition verify_generation :: "hashing \<Rightarrow> node \<Rightarrow> model_lock \<Rightarrow> (model_error, unit) comp" where
  "verify_generation H tree l =
     bind (model_json H tree (l_generation_path l)) (\<lambda>generation.
     bind (demand (item generation ''do_sample'' = JBool (l_do_sample l))) (\<lambda>_.
     bind (demand (py_eq (item generation ''temperature'') (JFloat (l_temperature l)))) (\<lambda>_.
       demand (py_eq (item generation ''top_p'') (JFloat (l_top_p l))))))"

definition verify_tokenizer :: "hashing \<Rightarrow> node \<Rightarrow> model_lock \<Rightarrow> (model_error, unit) comp" where
  "verify_tokenizer H tree l =
     bind (model_json H tree (l_tokenizer_config_path l)) (\<lambda>config.
     bind (demand (item config ''tokenizer_class'' = JStr (l_tokenizer_class l))) (\<lambda>_.
     bind (demand (''chat_template'' \<notin> fst ` set config)) (\<lambda>_.
     bind (model_json H tree (l_tokenizer_path l)) (\<lambda>_. ret ()))))"

definition verify_index :: "hashing \<Rightarrow> node \<Rightarrow> model_lock \<Rightarrow> (model_error, unit) comp" where
  "verify_index H tree l =
     bind (model_json H tree (l_index_path l)) (\<lambda>index.
     case item index ''weight_map'' of
       JObj es \<Rightarrow>
         bind (demand (es \<noteq> [])) (\<lambda>_.
         bind (each_value (\<lambda>(parameter, shard). validate_relative_path shard) es) (\<lambda>referenced.
           demand (set referenced = set (l_shards l))))
     | _ \<Rightarrow> raise VerificationError)"

definition verify_cross_file_metadata :: "hashing \<Rightarrow> node \<Rightarrow> model_lock \<Rightarrow> (model_error, unit) comp" where
  "verify_cross_file_metadata H tree l =
     bind (verify_config H tree l) (\<lambda>_.
     bind (verify_generation H tree l) (\<lambda>_.
     bind (verify_tokenizer H tree l) (\<lambda>_.
       verify_index H tree l)))"

subsection \<open>The verification\<close>

record model_summary =
  m_repo_id :: string
  m_revision :: string
  m_file_count :: int
  m_shard_count :: int

definition summary_of :: "model_lock \<Rightarrow> model_summary" where
  "summary_of l = \<lparr>m_repo_id = l_repo_id l, m_revision = l_revision l, m_file_count = int (length (l_files l)),
     m_shard_count = l_shard_count l\<rparr>"

definition verify_model_root :: "hashing \<Rightarrow> node option \<Rightarrow> file_read \<Rightarrow> file_read option \<Rightarrow> (model_error, model_summary) comp" where
  "verify_model_root H entry lock_content schema =
     bind (lstat entry) (\<lambda>tree.
     bind (demand (is_directory tree)) (\<lambda>_.
     bind (load_lock_file H lock_content schema) (\<lambda>l.
     bind (verify_marker H tree lock_content (l_marker l)) (\<lambda>_.
     bind (iter_install_files tree) (\<lambda>actual.
     bind (demand (set actual = insert (l_marker l) (set (map f_path (l_files l))))) (\<lambda>_.
     bind (fold_comp (\<lambda>e _. verify_file H tree e) (l_files l) ()) (\<lambda>_.
     bind (verify_cross_file_metadata H tree l) (\<lambda>_.
       ret (summary_of l)))))))))"

end
