(* ===== verification/Model_Props.thy ===== *)
theory Model_Props
  imports Model_Verify
begin

text \<open>
  What the verification of an installed model guarantees: the shape of an accepted lock, the exact meaning of a
  successful verification in terms of the tree, and that it always comes to an end.
\<close>

subsection \<open>Accepted locks\<close>

lemma demand_ret [simp]: "demand b = ret u \<longleftrightarrow> b"
  by (simp add: demand_def assert_def)

lemma require_string_ret [simp]: "require_string p v = ret s \<longleftrightarrow> v = JStr s \<and> s \<noteq> [] \<and> p s"
  by (auto simp: require_string_def bind_eq_ret split: json.splits)

lemma require_int_ret [simp]: "require_int m v = ret i \<longleftrightarrow> v = JInt i \<and> m \<le> i"
  by (auto simp: require_int_def bind_eq_ret split: json.splits)

lemma require_mapping_ret [simp]: "require_mapping v = ret es \<longleftrightarrow> v = JObj es"
  by (auto simp: require_mapping_def split: json.splits)

lemma each_value_mem: "each_value f xs = ret ys \<Longrightarrow> y \<in> set ys \<Longrightarrow> \<exists>x\<in>set xs. f x = ret y"
  by (induction xs arbitrary: ys) (auto simp: bind_eq_ret)

lemma file_entry_ret:
  assumes "validate_file_entry v = ret e"
  shows "safe_relative (f_path e) \<and> f_path e \<noteq> [] \<and> 0 \<le> f_size e \<and> f_role e \<in> set FILE_ROLES"
  using assms by (auto simp: validate_file_entry_def bind_eq_ret validate_relative_path_def)

text \<open>Every section sets its own fields.\<close>

lemma lock_sections_ret:
  "lock_model es l = ret l' \<Longrightarrow> \<exists>a b c d e f. l' = l\<lparr>l_repo_id := a, l_revision := b, l_library_name := c, l_model_type := d,
     l_architecture := e, l_config_path := f\<rparr>"
  "lock_provenance es l = ret l' \<Longrightarrow> \<exists>a b c. l' = l\<lparr>l_model_api := a, l_tree_api := b, l_observed_on := c\<rparr>"
  "lock_license es l = ret l' \<Longrightarrow> \<exists>a b. l' = l\<lparr>l_spdx := a, l_license_path := b\<rparr>"
  "lock_generation es l = ret l' \<Longrightarrow> \<exists>a b c d. l' = l\<lparr>l_generation_path := a, l_do_sample := b, l_temperature := c, l_top_p := d\<rparr>"
  "lock_tokenizer es l = ret l' \<Longrightarrow> \<exists>a b c. l' = l\<lparr>l_tokenizer_path := a, l_tokenizer_config_path := b, l_tokenizer_class := c\<rparr>"
  "lock_totals es l = ret l' \<Longrightarrow> \<exists>a b c. l' = l\<lparr>l_file_count := a, l_selected_size := b, l_weight_size := c\<rparr>"
  by (auto simp: lock_model_def lock_provenance_def lock_license_def lock_generation_def lock_tokenizer_def lock_totals_def bind_eq_ret)
    (intro exI, rule refl)+

lemma lock_weights_ret:
  "lock_weights es l = ret l' \<Longrightarrow> \<exists>idx shards. l' = l\<lparr>l_index_path := idx, l_shard_count := int (length shards), l_shards := shards\<rparr>
     \<and> distinct shards \<and> (\<forall>s\<in>set shards. ends_with ''.safetensors'' s)"
  by (auto simp: lock_weights_def bind_eq_ret)

lemma lock_install_ret: "lock_install es l = ret l' \<Longrightarrow> l' = l\<lparr>l_marker := DEFAULT_MARKER\<rparr>"
  by (auto simp: lock_install_def bind_eq_ret)

text \<open>The role of a path: that of the last section that names it.\<close>

definition role_of :: "model_lock \<Rightarrow> string \<Rightarrow> string" where
  "role_of l p =
     (if p \<in> set (l_shards l) then ''weight'' else if p = l_index_path l then ''index''
      else if p = l_tokenizer_config_path l then ''tokenizer_config'' else if p = l_tokenizer_path l then ''tokenizer''
      else if p = l_generation_path l then ''generation_config'' else if p = l_license_path l then ''license'' else ''config'')"

lemma role_of_weight: "role_of l p = ''weight'' \<longleftrightarrow> p \<in> set (l_shards l)"
  by (simp add: role_of_def)

lemma display_roles:
  assumes "p \<in> fst ` set (expected_roles l)"
  shows "display (expected_roles l) p = Some (role_of l p)"
proof -
  have "map_of (rev (map (\<lambda>s. (s, w)) ps)) p = (if p \<in> set ps then Some w else None)" for ps and w :: string
    by (induction ps rule: rev_induct) auto
  with assms show ?thesis by (auto simp: display_def expected_roles_def role_of_def map_add_def split: option.splits)
qed

lemma display_files: "distinct (map f_path fs) \<Longrightarrow> e \<in> set fs \<Longrightarrow> display (map (\<lambda>e. (f_path e, f_role e)) fs) (f_path e) = Some (f_role e)"
  unfolding display_def rev_map by (rule map_of_is_SomeI) (auto simp: o_def rev_map [symmetric])

lemma lock_files_ret:
  assumes "lock_files es l = ret l'"
  shows "\<exists>files. l' = l\<lparr>l_files := files\<rparr> \<and> distinct (map f_path files) \<and> set (map f_path files) = fst ` set (expected_roles l)
    \<and> (\<forall>e\<in>set files. safe_relative (f_path e) \<and> 0 \<le> f_size e \<and> f_role e = role_of l (f_path e))
    \<and> l_file_count l = int (length files) \<and> l_selected_size l = sum_list (map f_size files)
    \<and> l_weight_size l = sum_list (map f_size (filter (\<lambda>e. f_role e = ''weight'') files))"
proof -
  from assms obtain raw files where f: "each_value validate_file_entry raw = ret files" "l' = l\<lparr>l_files := files\<rparr>"
    "distinct (map f_path files)" "set (map f_path files) = fst ` set (expected_roles l)"
    "l_file_count l = int (length files)" "l_selected_size l = sum_list (map f_size files)"
    "l_weight_size l = sum_list (map f_size (filter (\<lambda>e. f_role e = ''weight'') files))"
    and d: "\<forall>p\<in>set (map f_path files). display (map (\<lambda>e. (f_path e, f_role e)) files) p = display (expected_roles l) p"
    unfolding lock_files_def Let_def bind_eq_ret demand_ret ret_inject by (elim exE conjE) blast
  have "safe_relative (f_path e) \<and> 0 \<le> f_size e \<and> f_role e = role_of l (f_path e)" if e: "e \<in> set files" for e
  proof -
    from each_value_mem [OF f(1) e] obtain v where "validate_file_entry v = ret e" ..
    then have "safe_relative (f_path e)" "0 \<le> f_size e" using file_entry_ret by blast+
    moreover from d e display_files [OF f(3) e] have "display (expected_roles l) (f_path e) = Some (f_role e)" by auto
    moreover have "f_path e \<in> fst ` set (expected_roles l)" using f(4) e by auto
    ultimately show ?thesis using display_roles by simp
  qed
  with f show ?thesis by (intro exI [of _ files] conjI ballI; simp)
qed

definition well_formed_lock :: "model_lock \<Rightarrow> bool" where
  "well_formed_lock l \<longleftrightarrow>
     distinct (map f_path (l_files l)) \<and> (\<forall>e\<in>set (l_files l). safe_relative (f_path e) \<and> 0 \<le> f_size e)
     \<and> set (map f_path (l_files l)) = {l_config_path l, l_license_path l, l_generation_path l, l_tokenizer_path l,
          l_tokenizer_config_path l, l_index_path l} \<union> set (l_shards l)
     \<and> (\<forall>e\<in>set (l_files l). f_role e = role_of l (f_path e))
     \<and> distinct (l_shards l) \<and> l_shard_count l = int (length (l_shards l))
     \<and> (\<forall>s\<in>set (l_shards l). ends_with ''.safetensors'' s)
     \<and> l_file_count l = int (length (l_files l)) \<and> l_selected_size l = sum_list (map f_size (l_files l))
     \<and> l_weight_size l = sum_list (map f_size (filter (\<lambda>e. f_path e \<in> set (l_shards l)) (l_files l)))
     \<and> l_marker l = DEFAULT_MARKER"

lemma lock_well_formed:
  assumes "validate_lock H j schema = ret l"
  shows "well_formed_lock l"
proof -
  from assms obtain es l1 l2 l3 l4 l5 l6 l7 l8 where s: "lock_model es no_lock = ret l1" "lock_provenance es l1 = ret l2"
    "lock_license es l2 = ret l3" "lock_generation es l3 = ret l4" "lock_tokenizer es l4 = ret l5" "lock_weights es l5 = ret l6"
    "lock_install es l6 = ret l7" "lock_totals es l7 = ret l8" "lock_files es l8 = ret l"
    by (auto simp: validate_lock_def bind_eq_ret)
  from lock_weights_ret [OF s(6)] lock_install_ret [OF s(7)] lock_sections_ret(6) [OF s(8)]
  have w: "distinct (l_shards l8)" "l_shard_count l8 = int (length (l_shards l8))" "l_marker l8 = DEFAULT_MARKER"
    "\<forall>s\<in>set (l_shards l8). ends_with ''.safetensors'' s" by auto
  from lock_files_ret [OF s(9)] obtain files where f: "l = l8\<lparr>l_files := files\<rparr>" "distinct (map f_path files)"
    "set (map f_path files) = fst ` set (expected_roles l8)"
    "\<forall>e\<in>set files. safe_relative (f_path e) \<and> 0 \<le> f_size e \<and> f_role e = role_of l8 (f_path e)"
    "l_file_count l8 = int (length files)" "l_selected_size l8 = sum_list (map f_size files)"
    "l_weight_size l8 = sum_list (map f_size (filter (\<lambda>e. f_role e = ''weight'') files))" by (elim exE conjE)
  have "filter (\<lambda>e. f_role e = ''weight'') files = filter (\<lambda>e. f_path e \<in> set (l_shards l8)) files"
    by (rule filter_cong) (use f(4) role_of_weight in auto)
  moreover have "fst ` set (expected_roles l8) = {l_config_path l8, l_license_path l8, l_generation_path l8, l_tokenizer_path l8,
      l_tokenizer_config_path l8, l_index_path l8} \<union> set (l_shards l8)"
    by (simp add: expected_roles_def image_image)
  ultimately show ?thesis
    unfolding well_formed_lock_def using w f by (simp add: insert_commute role_of_def)
qed

text \<open>
  C29. An accepted lock is well formed: the files have distinct relative paths without empty, single-dot or
  double-dot components, they are exactly the six metadata files and the shards, each has the role of the (last) section
  that names it, the shards are distinct safetensors files, the sizes add up to the totals, and the marker is the
  standard one.
\<close>

theorem accepted_lock_well_formed:
  assumes "validate_lock H j schema = ret l"
  shows "well_formed_lock l"
  using assms by (rule lock_well_formed)

subsection \<open>What a tree holds\<close>

text \<open>The entry at a path; the names of a directory are distinct, not empty and without slashes.\<close>

fun node_at :: "node \<Rightarrow> string list \<Rightarrow> node option" where
  "node_at n [] = Some n"
| "node_at n (c # cs) = (case child n c of None \<Rightarrow> None | Some m \<Rightarrow> node_at m cs)"

definition entry_at :: "node \<Rightarrow> string \<Rightarrow> node option" where
  "entry_at n p = node_at n (split_on CHR ''/'' p)"

fun proper_names :: "node \<Rightarrow> bool" where
  "proper_names (Directory b es) \<longleftrightarrow> distinct (map fst es) \<and> (\<forall>k\<in>fst ` set es. k \<noteq> [] \<and> CHR ''/'' \<notin> set k)
     \<and> list_all id (map (\<lambda>(k, n). proper_names n) es)"
| "proper_names _ \<longleftrightarrow> True"

text \<open>Only regular files and listable directories that hold files, at any depth.\<close>

fun tidy :: "node \<Rightarrow> bool" where
  "tidy (Directory b es) \<longleftrightarrow> b \<and> list_all id (map (\<lambda>(k, n). tidy n \<and> n \<noteq> Directory True []) es)"
| "tidy (Regular _) \<longleftrightarrow> True"
| "tidy _ \<longleftrightarrow> False"

lemma proper_names_Directory [simp]:
  "proper_names (Directory b es) \<longleftrightarrow> distinct (map fst es) \<and> (\<forall>(k, n)\<in>set es. k \<noteq> [] \<and> CHR ''/'' \<notin> set k \<and> proper_names n)"
  by (auto simp: list_all_iff)

lemma tidy_Directory [simp]:
  "tidy (Directory b es) \<longleftrightarrow> b \<and> (\<forall>(k, n)\<in>set es. tidy n \<and> n \<noteq> Directory True [])"
  by (auto simp: list_all_iff)

declare proper_names.simps(1) [simp del] tidy.simps(1) [simp del]

lemma each_value_returns: "(\<exists>ys. each_value f xs = ret ys) \<longleftrightarrow> (\<forall>x\<in>set xs. \<exists>y. f x = ret y)"
  by (induction xs) (auto simp: bind_eq_ret)

lemma each_value_set: "each_value f xs = ret ys \<Longrightarrow> set ys = {y. \<exists>x\<in>set xs. f x = ret y}"
  by (induction xs arbitrary: ys) (auto simp: bind_eq_ret)

lemma entry_files_ret:
  "entry_files (name, n, nested) = ret fs \<longleftrightarrow> (case n of Regular t \<Rightarrow> fs = [name]
     | Directory b es \<Rightarrow> \<exists>gs. nested = ret gs \<and> gs \<noteq> [] \<and> fs = map (\<lambda>f. name @ ''/'' @ f) gs | _ \<Rightarrow> False)"
  by (auto simp: entry_files_def bind_eq_ret split: node.split)

lemma iter_ret:
  "iter_install_files (Directory b es) = ret fs \<longleftrightarrow>
     b \<and> (\<exists>fss. each_value entry_files (map (\<lambda>(k, n). (k, n, iter_install_files n)) es) = ret fss \<and> fs = concat fss)"
  by (auto simp: bind_eq_ret)

declare iter_install_files.simps(1) [simp del]

lemma iter_empty:
  assumes "iter_install_files (Directory b es) = ret fs"
  shows "fs = [] \<longleftrightarrow> es = []"
proof (cases es)
  case Nil
  with assms show ?thesis by (auto simp: iter_ret)
next
  case (Cons e es')
  obtain k n where "e = (k, n)" by force
  with assms Cons obtain gs fss where "entry_files (k, n, iter_install_files n) = ret gs" "fs = gs @ concat fss"
    by (auto simp: iter_ret bind_eq_ret)
  then have "fs \<noteq> []" by (auto simp: entry_files_ret split: node.splits)
  with Cons show ?thesis by simp
qed

text \<open>The listing succeeds exactly on tidy directories.\<close>

lemma iter_tidy: "is_directory n \<Longrightarrow> (\<exists>fs. iter_install_files n = ret fs) \<longleftrightarrow> tidy n"
proof (induction n)
  case (Directory b es)
  have "(\<exists>fs. entry_files (k, n, iter_install_files n) = ret fs) \<longleftrightarrow> tidy n \<and> n \<noteq> Directory True []" if "(k, n) \<in> set es" for k n
  proof (cases n)
    case (Directory c fs)
    with Directory.IH [of "(k, n)" n] that have "(\<exists>fs. iter_install_files n = ret fs) \<longleftrightarrow> tidy n"
      by (simp add: is_directory_def)
    with Directory iter_empty [of c fs] show ?thesis by (auto simp: entry_files_ret)
  qed (simp_all add: entry_files_ret)
  then have "(\<forall>x\<in>set (map (\<lambda>(k, n). (k, n, iter_install_files n)) es). \<exists>y. entry_files x = ret y)
      \<longleftrightarrow> (\<forall>(k, n)\<in>set es. tidy n \<and> n \<noteq> Directory True [])" by force
  then show ?case unfolding iter_ret tidy_Directory each_value_returns [symmetric] by blast
qed (simp_all add: is_directory_def)

text \<open>It lists the paths of the regular files.\<close>

lemma entry_at_join: "CHR ''/'' \<notin> set k \<Longrightarrow> entry_at n (k @ ''/'' @ p) = (case child n k of None \<Rightarrow> None | Some m \<Rightarrow> entry_at m p)"
  by (simp add: entry_at_def split_on_append split: option.split)

lemma entry_at_name: "CHR ''/'' \<notin> set k \<Longrightarrow> entry_at n k = child n k"
  by (simp add: entry_at_def split_on_no split: option.split)

lemma entry_at_none: "(\<And>c. child n c = None) \<Longrightarrow> entry_at n p = None"
  by (cases "split_on CHR ''/'' p") (simp_all add: entry_at_def)

lemma split_name:
  obtains "CHR ''/'' \<notin> set p" | k q where "p = k @ ''/'' @ q" "CHR ''/'' \<notin> set k"
  using split_list_first [of "CHR ''/''" p] by auto

lemma iter_set:
  assumes "proper_names n" and "iter_install_files n = ret fs"
  shows "p \<in> set fs \<longleftrightarrow> (\<exists>t. entry_at n p = Some (Regular t))"
  using assms
proof (induction n arbitrary: p fs)
  case (Directory b es)
  from Directory.prems have d: "distinct (map fst es)" and nm: "\<And>k n. (k, n) \<in> set es \<Longrightarrow> CHR ''/'' \<notin> set k \<and> proper_names n" by auto
  from Directory.prems(2) obtain fss where v: "each_value entry_files (map (\<lambda>(k, n). (k, n, iter_install_files n)) es) = ret fss"
    and fs: "fs = concat fss" by (auto simp: iter_ret)
  have "p \<in> set fs \<longleftrightarrow> (\<exists>gs\<in>set fss. p \<in> set gs)" by (simp add: fs)
  then have mem: "p \<in> set fs \<longleftrightarrow> (\<exists>k n. (k, n) \<in> set es \<and> (\<exists>gs. entry_files (k, n, iter_install_files n) = ret gs \<and> p \<in> set gs))"
    unfolding each_value_set [OF v] by fastforce
  have c: "child (Directory b es) k = Some n \<longleftrightarrow> (k, n) \<in> set es" for k n
    using d by (simp add: child_def)
  have nested: "\<exists>gs. iter_install_files n = ret gs" if "(k, n) \<in> set es" "is_directory n" for k n
    using that v each_value_returns [of entry_files "map (\<lambda>(k, n). (k, n, iter_install_files n)) es"]
    by (fastforce simp: entry_files_ret is_directory_def split: node.splits)
  show ?case
  proof (cases rule: split_name [of p])
    case 1
    have "(\<exists>gs. entry_files (k, n, iter_install_files n) = ret gs \<and> p \<in> set gs) \<longleftrightarrow> k = p \<and> (\<exists>t. n = Regular t)" for k n
      using 1 by (cases n) (auto simp: entry_files_ret)
    then have "p \<in> set fs \<longleftrightarrow> (\<exists>k n. (k, n) \<in> set es \<and> k = p \<and> (\<exists>t. n = Regular t))"
      unfolding mem by simp
    then show ?thesis unfolding entry_at_name [OF 1] c by auto
  next
    case (2 k q)
    have s: "k' = k \<and> f = q" if "p = k' @ ''/'' @ f" "CHR ''/'' \<notin> set k'" for k' f
    proof -
      have "split_on CHR ''/'' p = k' # split_on CHR ''/'' f" "split_on CHR ''/'' p = k # split_on CHR ''/'' q"
        by (subst that(1), simp add: split_on_append that(2)) (subst 2(1), simp add: split_on_append 2(2))
      then have "k' = k" by simp
      with that(1) 2(1) show ?thesis by simp
    qed
    have "(\<exists>gs. entry_files (k', n, iter_install_files n) = ret gs \<and> p \<in> set gs) \<longleftrightarrow> k' = k \<and> (\<exists>t. entry_at n q = Some (Regular t))"
      if e: "(k', n) \<in> set es" for k' n
    proof (cases n)
      case (Directory c es')
      with nested [OF e] obtain gs where gs: "iter_install_files n = ret gs" by (auto simp: is_directory_def)
      from Directory.IH [OF e _ _ gs, of q] nm [OF e]
      have "q \<in> set gs \<longleftrightarrow> (\<exists>t. entry_at n q = Some (Regular t))" by simp
      moreover have "(\<exists>gs'. entry_files (k', n, iter_install_files n) = ret gs' \<and> p \<in> set gs') \<longleftrightarrow> k' = k \<and> q \<in> set gs"
      proof
        assume "\<exists>gs'. entry_files (k', n, iter_install_files n) = ret gs' \<and> p \<in> set gs'"
        then obtain f where "f \<in> set gs" "p = k' @ ''/'' @ f" using gs by (auto simp: entry_files_ret Directory)
        with s nm [OF e] show "k' = k \<and> q \<in> set gs" by blast
      next
        assume k: "k' = k \<and> q \<in> set gs"
        then have "entry_files (k', n, iter_install_files n) = ret (map (\<lambda>f. k' @ ''/'' @ f) gs)"
          using gs by (auto simp: entry_files_ret Directory)
        with k 2(1) show "\<exists>gs'. entry_files (k', n, iter_install_files n) = ret gs' \<and> p \<in> set gs'" by auto
      qed
      ultimately show ?thesis by simp
    next
      case (Regular t)
      have "child (Regular t) x = None" for x by (simp add: child_def)
      then have "entry_at n q \<noteq> Some (Regular u)" for u by (simp add: entry_at_none Regular)
      moreover have "p \<noteq> k'" using nm [OF e] 2(1) by auto
      ultimately show ?thesis by (auto simp: entry_files_ret Regular)
    qed (auto simp: entry_files_ret entry_at_none child_def)
    then have "p \<in> set fs \<longleftrightarrow> (\<exists>k' n. (k', n) \<in> set es \<and> k' = k \<and> (\<exists>t. entry_at n q = Some (Regular t)))"
      unfolding mem by (simp cong: conj_cong)
    also have "\<dots> \<longleftrightarrow> (\<exists>n. child (Directory b es) k = Some n \<and> (\<exists>t. entry_at n q = Some (Regular t)))"
      unfolding c by auto
    also have "\<dots> \<longleftrightarrow> (\<exists>t. entry_at (Directory b es) p = Some (Regular t))"
      unfolding 2(1) entry_at_join [OF 2(2)] by (auto split: option.split)
    finally show ?thesis .
  qed
qed (simp_all)

subsection \<open>The meaning of a verification\<close>

lemma lstat_ret: "lstat e = ret m \<longleftrightarrow> e = Some m \<and> m \<noteq> Symlink \<and> m \<noteq> Broken"
  by (auto simp: lstat_def bind_eq_ret split: option.split)

lemma tidy_child: "tidy n \<Longrightarrow> child n c = Some m \<Longrightarrow> tidy m"
  by (cases n) (auto simp: child_def dest!: map_of_SomeD)

lemma tidy_kind: "tidy n \<Longrightarrow> n \<noteq> Symlink \<and> n \<noteq> Special \<and> n \<noteq> Broken"
  by (cases n) auto

lemma walk_tidy:
  assumes "tidy n"
  shows "walk n cs = ret m \<longleftrightarrow> node_at n cs = Some m"
  using assms
proof (induction cs arbitrary: n)
  case (Cons c cs)
  show ?case
  proof (cases "child n c")
    case (Some k)
    with Cons.prems have "tidy k" by (rule tidy_child)
    with Cons.IH [OF this] Some tidy_kind [OF this] show ?thesis by (simp add: bind_eq_ret lstat_ret)
  qed (simp add: bind_eq_ret lstat_ret)
qed simp

lemma node_tidy: "tidy n \<Longrightarrow> node_at n cs = Some m \<Longrightarrow> tidy m"
  by (induction cs arbitrary: n) (auto split: option.splits dest: tidy_child)

lemma safe_join_tidy:
  "tidy n \<Longrightarrow> safe_join n p = ret m \<longleftrightarrow> p \<noteq> [] \<and> safe_relative p \<and> entry_at n p = Some m"
  by (simp add: safe_join_def bind_eq_ret walk_tidy entry_at_def)

text \<open>A regular file that can be read.\<close>

definition content_at :: "node \<Rightarrow> string \<Rightarrow> string option" where
  "content_at n p = (case entry_at n p of Some (Regular t) \<Rightarrow> t | _ \<Rightarrow> None)"

lemma content_at_iff: "content_at n p = Some t \<longleftrightarrow> entry_at n p = Some (Regular (Some t))"
  by (auto simp: content_at_def split: option.splits node.splits)

lemma safe_relative_nonempty: "safe_relative p \<Longrightarrow> p \<noteq> []"
  by (auto simp: safe_relative_def)

lemma regular_read: "lstat (Some n) = ret m \<and> is_regular m \<and> open_read m = ret t \<longleftrightarrow> m = n \<and> n = Regular (Some t)"
  by (auto simp: lstat_ret is_regular_def open_read_def split: node.splits option.splits)

lemma verify_file_ret:
  assumes "tidy tree" and "safe_relative (f_path e)"
  shows "verify_file H tree e = ret () \<longleftrightarrow>
    (\<exists>t. content_at tree (f_path e) = Some t \<and> int (length t) = f_size e \<and> hash_matches H e t)"
proof -
  have "verify_file H tree e = ret () \<longleftrightarrow> (\<exists>n m t. safe_join tree (f_path e) = ret n
      \<and> (lstat (Some n) = ret m \<and> is_regular m \<and> open_read m = ret t) \<and> int (length t) = f_size e \<and> hash_matches H e t)"
    by (auto simp: verify_file_def bind_eq_ret)
  then show ?thesis
    unfolding regular_read content_at_iff using assms by (auto simp: safe_join_tidy safe_relative_nonempty)
qed

text \<open>A marker is a digest, alone or with one line ending of any kind.\<close>

definition marker_holds :: "string \<Rightarrow> string \<Rightarrow> bool" where
  "marker_holds t d \<longleftrightarrow> length d = 64 \<and> (\<forall>c\<in>set d. is_lhex c) \<and> t \<in> {d, d @ [CHR 0x0A], d @ [CHR 0x0D], d @ [CHR 0x0D, CHR 0x0A]}"

lemma lhex_code: "is_lhex c \<Longrightarrow> code c < 128 \<and> code c \<noteq> 10 \<and> code c \<noteq> 13"
  by (auto simp: is_lhex_def is_digit_def)

lemma code_eq: "code c = 13 \<longleftrightarrow> c = CHR 0x0D" "code c = 10 \<longleftrightarrow> c = CHR 0x0A"
proof -
  have "of_char (CHR 0x0D) = (13::nat)" "of_char (CHR 0x0A) = (10::nat)" by simp_all
  then show "code c = 13 \<longleftrightarrow> c = CHR 0x0D" "code c = 10 \<longleftrightarrow> c = CHR 0x0A"
    unfolding code_def by (metis of_char_eq_iff)+
qed

lemma newlines_line:
  assumes "\<forall>c\<in>set d. c \<noteq> CHR 0x0A \<and> c \<noteq> CHR 0x0D"
  shows "(universal_newlines t = d \<longleftrightarrow> t = d)
    \<and> (universal_newlines t = d @ [CHR 0x0A] \<longleftrightarrow> t \<in> {d @ [CHR 0x0A], d @ [CHR 0x0D], d @ [CHR 0x0D, CHR 0x0A]})"
  using assms
proof (induction t arbitrary: d rule: universal_newlines.induct)
  case (1 c e s)
  show ?case
  proof (cases "c = CHR 0x0D")
    case True
    have n: "universal_newlines r = [] \<longleftrightarrow> r = []" for r by (cases r rule: universal_newlines.cases) simp_all
    from True 1(3) n show ?thesis by (cases d) (auto simp: code_eq)
  next
    case False
    with 1(2) [of "tl d"] 1(3) show ?thesis by (cases d) (auto simp: code_eq)
  qed
next
  case (2 c)
  then show ?case by (cases d; cases "tl d") (auto simp: code_eq)
next
  case 3
  show ?case by auto
qed

lemma marker_digest_ret: "marker_digest t = ret d \<longleftrightarrow> marker_holds t d"
proof -
  have l: "is_sha256 d \<Longrightarrow> \<forall>c\<in>set d. c \<noteq> CHR 0x0A \<and> c \<noteq> CHR 0x0D \<and> code c < 128" for d
    using lhex_code by (auto simp: is_sha256_def code_eq)
  have r: "rstrip_char (CHR 0x0A) (d @ xs) = d" if "\<forall>c\<in>set d. c \<noteq> CHR 0x0A" "set xs \<subseteq> {CHR 0x0A}" for d xs
  proof -
    have "dropWhile (\<lambda>x. x = CHR 0x0A) (rev xs @ rev d) = dropWhile (\<lambda>x. x = CHR 0x0A) (rev d)"
      using that(2) by (intro dropWhile_append2) auto
    also have "\<dots> = rev d" using that(1) by (cases d rule: rev_cases) simp_all
    finally show ?thesis by (simp add: rstrip_char_def)
  qed
  have strip: "rstrip_char (CHR 0x0A) u = d" if "is_sha256 d" "u \<in> {d, d @ [CHR 0x0A]}" for u
  proof -
    have n: "\<forall>c\<in>set d. c \<noteq> CHR 0x0A" using l [OF that(1)] by blast
    show ?thesis using that(2) r [OF n, of "[]"] r [OF n, of "[CHR 0x0A]"] by (elim insertE emptyE) simp_all
  qed
  have line: "(\<forall>c\<in>set t. code c < 128) \<and> universal_newlines t \<in> {d, d @ [CHR 0x0A]}
      \<longleftrightarrow> t \<in> {d, d @ [CHR 0x0A], d @ [CHR 0x0D], d @ [CHR 0x0D, CHR 0x0A]}" if s: "is_sha256 d"
  proof -
    have "\<forall>c\<in>set d. c \<noteq> CHR 0x0A \<and> c \<noteq> CHR 0x0D" using l [OF s] by blast
    note n = newlines_line [OF this, of t]
    have "\<forall>c\<in>set t. code c < 128" if "t \<in> {d, d @ [CHR 0x0A], d @ [CHR 0x0D], d @ [CHR 0x0D, CHR 0x0A]}"
      using that l [OF s] by (elim insertE emptyE) (auto simp: code_def)
    with n show ?thesis by blast
  qed
  have "marker_digest t = ret d \<longleftrightarrow> (\<forall>c\<in>set t. code c < 128) \<and> is_sha256 d
      \<and> rstrip_char (CHR 0x0A) (universal_newlines t) = d \<and> universal_newlines t \<in> {d, d @ [CHR 0x0A]}"
    by (auto simp: marker_digest_def bind_eq_ret Let_def)
  also have "\<dots> \<longleftrightarrow> (\<forall>c\<in>set t. code c < 128) \<and> is_sha256 d \<and> universal_newlines t \<in> {d, d @ [CHR 0x0A]}"
    using strip by blast
  also have "\<dots> \<longleftrightarrow> is_sha256 d \<and> t \<in> {d, d @ [CHR 0x0A], d @ [CHR 0x0D], d @ [CHR 0x0D, CHR 0x0A]}"
    using line by blast
  also have "\<dots> \<longleftrightarrow> marker_holds t d" by (simp add: marker_holds_def is_sha256_def)
  finally show ?thesis .
qed

lemma verify_marker_ret:
  assumes "tidy tree" and "safe_relative p"
  shows "verify_marker H tree (Bytes c) p = ret () \<longleftrightarrow>
    (\<exists>t. content_at tree p = Some t \<and> marker_holds t (h_sha256 H c))"
proof -
  have "verify_marker H tree (Bytes c) p = ret () \<longleftrightarrow> (\<exists>n m t. safe_join tree p = ret n
      \<and> (lstat (Some n) = ret m \<and> is_regular m \<and> open_read m = ret t) \<and> marker_digest t = ret (h_sha256 H c))"
    by (auto simp: verify_marker_def bind_eq_ret lock_sha256_def)
  then show ?thesis
    unfolding regular_read content_at_iff marker_digest_ret using assms by (auto simp: safe_join_tidy safe_relative_nonempty)
qed

text \<open>The abstract meaning: the tree is the locked model and nothing else.\<close>

definition installed :: "hashing \<Rightarrow> node \<Rightarrow> string \<Rightarrow> model_lock \<Rightarrow> bool" where
  "installed H tree lock_bytes l \<longleftrightarrow> is_directory tree \<and> tidy tree
     \<and> (\<forall>p. (\<exists>t. entry_at tree p = Some (Regular t)) \<longleftrightarrow> p = l_marker l \<or> p \<in> f_path ` set (l_files l))
     \<and> (\<exists>t. content_at tree (l_marker l) = Some t \<and> marker_holds t (h_sha256 H lock_bytes))
     \<and> (\<forall>e\<in>set (l_files l). \<exists>t. content_at tree (f_path e) = Some t \<and> int (length t) = f_size e
          \<and> (case f_hash e of Sha256 h \<Rightarrow> h_sha256 H t = h
             | Git_Blob_Sha1 h \<Rightarrow> h_sha1 H (''blob '' @ show_int (f_size e) @ [CHR 0x00] @ t) = h))"

text \<open>
  The metadata of the model in its files: a file holds an object without repeated keys, a number may be written in any way,
  and the weight map names exactly the shards of the lock.
\<close>

definition object_at :: "hashing \<Rightarrow> node \<Rightarrow> string \<Rightarrow> (string \<times> json) list \<Rightarrow> bool" where
  "object_at H tree p es \<longleftrightarrow>
     (\<exists>t. content_at tree p = Some t \<and> h_loads H t = Some (JObj es) \<and> no_duplicate_keys (JObj es))"

definition number_is :: "json option \<Rightarrow> rat \<Rightarrow> bool" where
  "number_is v r \<longleftrightarrow> (v = Some (JFloat r) \<or> (\<exists>i. v = Some (JInt i) \<and> of_int i = r) \<or> v = Some (JBool True) \<and> r = 1
     \<or> v = Some (JBool False) \<and> r = 0)"

definition metadata_agrees :: "hashing \<Rightarrow> node \<Rightarrow> model_lock \<Rightarrow> bool" where
  "metadata_agrees H tree l \<longleftrightarrow>
     (\<exists>es archs. object_at H tree (l_config_path l) es \<and> map_of es ''model_type'' = Some (JStr (l_model_type l))
        \<and> map_of es ''architectures'' = Some (JArr archs) \<and> JStr (l_architecture l) \<in> set archs)
     \<and> (\<exists>es. object_at H tree (l_generation_path l) es \<and> map_of es ''do_sample'' = Some (JBool (l_do_sample l))
        \<and> number_is (map_of es ''temperature'') (l_temperature l) \<and> number_is (map_of es ''top_p'') (l_top_p l))
     \<and> (\<exists>es. object_at H tree (l_tokenizer_config_path l) es \<and> map_of es ''tokenizer_class'' = Some (JStr (l_tokenizer_class l))
        \<and> map_of es ''chat_template'' = None)
     \<and> (\<exists>es. object_at H tree (l_tokenizer_path l) es)
     \<and> (\<exists>es shards. object_at H tree (l_index_path l) es \<and> map_of es ''weight_map'' = Some (JObj shards)
        \<and> shards \<noteq> [] \<and> snd ` set shards = JStr ` set (l_shards l))"

lemma read_json_object: "bind (read_json H (Bytes t)) require_mapping = ret es \<longleftrightarrow> h_loads H t = Some (JObj es) \<and> no_duplicate_keys (JObj es)"
  by (auto simp: read_json_def bind_eq_ret split: option.splits)

lemma model_json_ret:
  assumes "tidy tree" and "safe_relative p"
  shows "model_json H tree p = ret es \<longleftrightarrow> object_at H tree p es"
proof -
  have "model_json H tree p = ret es \<longleftrightarrow> (\<exists>n t. safe_join tree p = ret n \<and> open_read n = ret t
      \<and> bind (read_json H (Bytes t)) require_mapping = ret es)" by (auto simp: model_json_def bind_eq_ret)
  moreover have "open_read n = ret t \<longleftrightarrow> n = Regular (Some t)" for n t
    by (auto simp: open_read_def ret_def raise_def split: node.splits option.splits)
  ultimately show ?thesis
    using assms by (auto simp: safe_join_tidy safe_relative_nonempty object_at_def content_at_iff read_json_object)
qed

lemma item_eq: "v \<noteq> JNull \<Longrightarrow> item es k = v \<longleftrightarrow> map_of es k = Some v"
  by (auto simp: item_def split: option.split)

lemma in_array_item: "in_array s (item es k) \<longleftrightarrow> (\<exists>xs. map_of es k = Some (JArr xs) \<and> JStr s \<in> set xs)"
proof (cases "map_of es k")
  case (Some v)
  then show ?thesis by (cases v) (simp_all add: in_array_def item_def)
qed (simp add: in_array_def item_def)

lemma object_item_ret:
  "(case item es k of JObj ws \<Rightarrow> m ws | _ \<Rightarrow> raise e) = ret u \<longleftrightarrow> (\<exists>ws. map_of es k = Some (JObj ws) \<and> m ws = ret u)"
proof (cases "map_of es k")
  case (Some v)
  then show ?thesis by (cases v) (simp_all add: item_def)
qed (simp add: item_def)

lemma number_is_item: "py_eq (item es k) (JFloat r) \<longleftrightarrow> number_is (map_of es k) r"
  by (cases "map_of es k") (auto simp: item_def number_is_def num_of_def split: json.splits if_splits elim!: py_eq.elims)

lemma each_path_ret:
  "each_value (\<lambda>(parameter, shard). validate_relative_path shard) es = ret ys \<longleftrightarrow> map snd es = map JStr ys \<and> (\<forall>y\<in>set ys. safe_relative y)"
  by (induction es arbitrary: ys)
    (auto simp: bind_eq_ret validate_relative_path_def safe_relative_nonempty Cons_eq_map_conv)

lemma weight_map_ret:
  assumes "\<forall>p\<in>S. safe_relative p"
  shows "(\<exists>ys. each_value (\<lambda>(parameter, shard). validate_relative_path shard) es = ret ys \<and> set ys = S) \<longleftrightarrow> snd ` set es = JStr ` S"
proof
  assume "\<exists>ys. each_value (\<lambda>(parameter, shard). validate_relative_path shard) es = ret ys \<and> set ys = S"
  then obtain ys where "map snd es = map JStr ys" "set ys = S" by (auto simp: each_path_ret)
  then show "snd ` set es = JStr ` S" by (metis set_map)
next
  assume s: "snd ` set es = JStr ` S"
  define ys where "ys = map (\<lambda>e. case snd e of JStr p \<Rightarrow> p | _ \<Rightarrow> []) es"
  have e: "\<exists>p\<in>S. snd e = JStr p" if "e \<in> set es" for e using s that by (metis image_eqI imageE)
  then have m: "map snd es = map JStr ys" by (force simp: ys_def)
  then have "JStr ` set ys = JStr ` S" using s by (metis set_map)
  then have "set ys = S" by (simp add: inj_image_eq_iff inj_def)
  with m assms show "\<exists>ys. each_value (\<lambda>(parameter, shard). validate_relative_path shard) es = ret ys \<and> set ys = S"
    by (auto simp: each_path_ret)
qed

lemma metadata_ret:
  assumes t: "tidy tree" and w: "well_formed_lock l"
  shows "verify_cross_file_metadata H tree l = ret () \<longleftrightarrow> metadata_agrees H tree l"
proof -
  have all: "\<forall>e\<in>set (l_files l). safe_relative (f_path e)" and eq: "set (map f_path (l_files l)) = {l_config_path l,
      l_license_path l, l_generation_path l, l_tokenizer_path l, l_tokenizer_config_path l, l_index_path l} \<union> set (l_shards l)"
    using w unfolding well_formed_lock_def by blast+
  have files: "\<forall>p\<in>set (map f_path (l_files l)). safe_relative p" using all by simp
  have p: "safe_relative (l_config_path l)" "safe_relative (l_generation_path l)" "safe_relative (l_tokenizer_path l)"
    "safe_relative (l_tokenizer_config_path l)" "safe_relative (l_index_path l)" "\<forall>s\<in>set (l_shards l). safe_relative s"
    using files unfolding eq by blast+
  note j = model_json_ret [OF t]
  have c: "verify_config H tree l = ret () \<longleftrightarrow> (\<exists>es archs. object_at H tree (l_config_path l) es
      \<and> map_of es ''model_type'' = Some (JStr (l_model_type l)) \<and> map_of es ''architectures'' = Some (JArr archs)
      \<and> JStr (l_architecture l) \<in> set archs)"
    by (auto simp: verify_config_def bind_eq_ret j [OF p(1)] item_eq in_array_item)
  have g: "verify_generation H tree l = ret () \<longleftrightarrow> (\<exists>es. object_at H tree (l_generation_path l) es
      \<and> map_of es ''do_sample'' = Some (JBool (l_do_sample l))
      \<and> number_is (map_of es ''temperature'') (l_temperature l) \<and> number_is (map_of es ''top_p'') (l_top_p l))"
    by (auto simp: verify_generation_def bind_eq_ret j [OF p(2)] item_eq number_is_item)
  have k: "verify_tokenizer H tree l = ret () \<longleftrightarrow> (\<exists>es. object_at H tree (l_tokenizer_config_path l) es
      \<and> map_of es ''tokenizer_class'' = Some (JStr (l_tokenizer_class l)) \<and> map_of es ''chat_template'' = None)
      \<and> (\<exists>es. object_at H tree (l_tokenizer_path l) es)"
    by (auto simp: verify_tokenizer_def bind_eq_ret j [OF p(4)] j [OF p(3)] item_eq map_of_eq_None_iff)
  have i: "verify_index H tree l = ret () \<longleftrightarrow> (\<exists>es shards. object_at H tree (l_index_path l) es
      \<and> map_of es ''weight_map'' = Some (JObj shards) \<and> shards \<noteq> [] \<and> snd ` set shards = JStr ` set (l_shards l))"
    unfolding weight_map_ret [OF p(6), symmetric]
    by (auto simp: verify_index_def bind_eq_ret j [OF p(5)] object_item_ret)
  show ?thesis
    unfolding metadata_agrees_def c [symmetric] g [symmetric] i [symmetric]
    using k by (auto simp: verify_cross_file_metadata_def bind_eq_ret)
qed

lemma safe_marker: "safe_relative DEFAULT_MARKER"
  by code_simp

text \<open>
  C27. The verification accepts a directory tree exactly when the lock loads, the tree consists of
  regular files in listable directories, its files are the locked ones and the marker and nothing else, every
  file can be read and has the locked size and hash, the marker holds the digest of the lock, and the metadata of
  the model agrees with the lock: model type and architecture, sampling parameters, tokenizer class without a chat
  template, and a weight map onto exactly the locked shards.
\<close>

theorem verification_exact:
  assumes "proper_names tree"
  shows "verify_model_root H (Some tree) (Bytes c) schema = ret s \<longleftrightarrow>
    (\<exists>l. load_lock_file H (Bytes c) schema = ret l \<and> s = summary_of l \<and> installed H tree c l
      \<and> metadata_agrees H tree l)"
proof (cases "is_directory tree \<and> tidy tree")
  case True
  then have t: "tidy tree" and d: "is_directory tree" and k: "tree \<noteq> Symlink" "tree \<noteq> Broken" using tidy_kind by auto
  from iter_tidy [OF d] t obtain fs where fs: "iter_install_files tree = ret fs" by blast
  have set_fs: "set fs = {p. \<exists>t. entry_at tree p = Some (Regular t)}"
    using iter_set [OF assms fs] by auto
  have "verify_model_root H (Some tree) (Bytes c) schema = ret s \<longleftrightarrow> (\<exists>l. load_lock_file H (Bytes c) schema = ret l
      \<and> verify_marker H tree (Bytes c) (l_marker l) = ret () \<and> set fs = insert (l_marker l) (f_path ` set (l_files l))
      \<and> (\<forall>e\<in>set (l_files l). verify_file H tree e = ret ()) \<and> verify_cross_file_metadata H tree l = ret () \<and> s = summary_of l)"
    using k d fs by (auto simp: verify_model_root_def lstat_def bind_eq_ret fold_comp_checks)
  also have "\<dots> \<longleftrightarrow> (\<exists>l. load_lock_file H (Bytes c) schema = ret l \<and> s = summary_of l \<and> installed H tree c l
      \<and> metadata_agrees H tree l)"
  proof -
    have "verify_marker H tree (Bytes c) (l_marker l) = ret () \<and> set fs = insert (l_marker l) (f_path ` set (l_files l))
        \<and> (\<forall>e\<in>set (l_files l). verify_file H tree e = ret ()) \<longleftrightarrow> installed H tree c l"
      if "load_lock_file H (Bytes c) schema = ret l" for l
    proof -
      from that obtain j where "validate_lock H j schema = ret l" by (auto simp: load_lock_file_def)
      then have "well_formed_lock l" by (rule lock_well_formed)
      then have "safe_relative (l_marker l)" "\<forall>e\<in>set (l_files l). safe_relative (f_path e)"
        by (auto simp: well_formed_lock_def safe_marker)
      then show ?thesis
        using d t verify_file_ret [OF t, unfolded hash_matches_def git_blob_def]
        by (auto simp: installed_def verify_marker_ret [OF t] set_fs set_eq_iff)
    qed
    moreover have "verify_cross_file_metadata H tree l = ret () \<longleftrightarrow> metadata_agrees H tree l"
      if "load_lock_file H (Bytes c) schema = ret l" for l
      using that by (intro metadata_ret [OF t]) (auto simp: load_lock_file_def intro: lock_well_formed)
    ultimately show ?thesis by blast
  qed
  finally show ?thesis .
next
  case False
  have "verify_model_root H (Some tree) (Bytes c) schema \<noteq> ret s"
  proof
    assume "verify_model_root H (Some tree) (Bytes c) schema = ret s"
    then obtain fs where "is_directory tree" "iter_install_files tree = ret fs"
      by (auto simp: verify_model_root_def bind_eq_ret lstat_ret)
    with iter_tidy False show False by blast
  qed
  with False show ?thesis by (auto simp: installed_def)
qed

subsection \<open>The verification comes to an end\<close>

named_theorems ends_rules \<open>computations that return or raise\<close>

definition ends :: "('e, 'a) comp \<Rightarrow> bool" where
  "ends m \<longleftrightarrow> m \<noteq> None"

lemma ends_bind [ends_rules]: "ends m \<Longrightarrow> (\<And>x. m = ret x \<Longrightarrow> ends (f x)) \<Longrightarrow> ends (bind m f)"
  by (auto simp: ends_def bind_def ret_def split: option.split sum.split)

lemma ends_basic [ends_rules]: "ends (ret x)" "ends (raise e)" "ends (demand b)" "ends (assert e b)"
  by (simp_all add: ends_def ret_def raise_def demand_def assert_def)

lemma ends_if [ends_rules]: "(b \<Longrightarrow> ends m) \<Longrightarrow> (\<not> b \<Longrightarrow> ends n) \<Longrightarrow> ends (if b then m else n)"
  by simp

lemma ends_each [ends_rules]: "(\<And>x. x \<in> set xs \<Longrightarrow> ends (f x)) \<Longrightarrow> ends (each_value f xs)"
  by (induction xs) (auto intro!: ends_bind simp: ends_basic)

lemma ends_fold [ends_rules]: "(\<And>x u. x \<in> set xs \<Longrightarrow> ends (f x u)) \<Longrightarrow> ends (fold_comp f xs u)"
  by (induction xs arbitrary: u) (auto intro!: ends_bind simp: ends_basic)

lemma ends_values [ends_rules]:
  "ends (require_mapping v)" "ends (require_exact_keys es ks)" "ends (require_string p v)" "ends (require_int m v)"
  "ends (require_bool v)" "ends (require_array v)" "ends (float_of_int i)" "ends (validate_relative_path v)"
  unfolding require_mapping_def require_exact_keys_def require_string_def require_int_def require_bool_def
    require_array_def float_of_int_def validate_relative_path_def Let_def
  by (auto split: json.split intro!: ends_rules)

lemma ends_number [ends_rules]: "ends (require_number a b v)"
  unfolding require_number_def by (auto split: json.split intro!: ends_rules)

lemma ends_section [ends_rules]: "ends (section_of es k ks)"
  unfolding section_of_def by (intro ends_rules)

lemma ends_entry [ends_rules]: "ends (validate_file_entry v)"
  unfolding validate_file_entry_def by (intro ends_rules)

lemma ends_sections [ends_rules]:
  "ends (lock_model es l)" "ends (lock_provenance es l)" "ends (lock_license es l)" "ends (lock_generation es l)"
  "ends (lock_chat_template es)" "ends (lock_tokenizer es l)" "ends (lock_weights es l)" "ends (lock_install es l)"
  "ends (lock_totals es l)" "ends (lock_files es l)"
  unfolding lock_model_def lock_provenance_def lock_license_def lock_generation_def lock_chat_template_def
    lock_tokenizer_def lock_weights_def lock_install_def lock_totals_def lock_files_def Let_def
  by (intro ends_rules)+

lemma ends_read [ends_rules]: "ends (read_json H content)"
  unfolding read_json_def by (auto split: file_read.split option.split intro!: ends_rules)

lemma ends_schema [ends_rules]: "ends (validate_schema_document H content)"
  unfolding validate_schema_document_def by (intro ends_rules)

lemma ends_lock [ends_rules]: "ends (load_lock_file H content schema)" "ends (lock_sha256 H content)"
proof -
  have "ends ((case schema of None \<Rightarrow> ret () | Some content \<Rightarrow> validate_schema_document H content))"
    by (cases schema) (simp_all add: ends_basic ends_schema)
  then show "ends (load_lock_file H content schema)"
    unfolding load_lock_file_def validate_lock_def by (intro ends_rules)
  show "ends (lock_sha256 H content)"
    unfolding lock_sha256_def by (auto split: file_read.split intro!: ends_rules)
qed

lemma ends_lstat [ends_rules]: "ends (lstat e)"
  unfolding lstat_def by (auto split: option.split intro!: ends_rules)

lemma ends_walk [ends_rules]: "ends (walk n cs)" "ends (safe_join n p)"
proof -
  show w: "ends (walk n cs)" for n cs by (induction cs arbitrary: n) (auto intro!: ends_rules)
  show "ends (safe_join n p)" unfolding safe_join_def by (intro ends_rules w)
qed

lemma ends_open: "n \<noteq> Special \<Longrightarrow> ends (open_read n)"
  by (auto simp: open_read_def ends_basic split: node.split option.split)

lemma ends_regular: "demand (is_regular n) = ret x \<Longrightarrow> ends (open_read n)"
  by (rule ends_open) (auto simp: is_regular_def)

lemma ends_marker [ends_rules]: "ends (verify_file H tree e)" "ends (verify_marker H tree content p)"
  unfolding verify_file_def verify_marker_def marker_digest_def Let_def by (intro ends_rules; erule ends_regular)+

lemma ends_iter [ends_rules]: "ends (iter_install_files n)"
proof (induction n)
  case (Directory b es)
  have "ends (entry_files (k, n, iter_install_files n))" if "(k, n) \<in> set es" for k n
    using Directory.IH [OF that] unfolding entry_files_def by (auto split: node.split intro!: ends_rules)
  then show ?case by (auto simp: iter_install_files.simps(1) intro!: ends_rules)
qed (simp_all add: ends_basic)

lemma ends_json:
  assumes "tidy tree"
  shows "ends (model_json H tree p)"
proof -
  have "ends (open_read n)" if "safe_join tree p = ret n" for n
  proof -
    from that assms have "node_at tree (split_on CHR ''/'' p) = Some n" by (auto simp: safe_join_def walk_tidy)
    with node_tidy [OF assms] tidy_kind have "n \<noteq> Special" by blast
    then show ?thesis by (rule ends_open)
  qed
  then show ?thesis unfolding model_json_def by (intro ends_rules)
qed

lemma ends_metadata:
  assumes "tidy tree"
  shows "ends (verify_cross_file_metadata H tree l)"
proof -
  have "ends ((case item index ''weight_map'' of JObj es \<Rightarrow> bind (demand (es \<noteq> []))
        (\<lambda>_. bind (each_value (\<lambda>(parameter, shard). validate_relative_path shard) es) (\<lambda>referenced. demand (set referenced = set (l_shards l))))
      | _ \<Rightarrow> raise VerificationError))" for index
    by (auto split: json.split intro!: ends_rules)
  then show ?thesis
    unfolding verify_cross_file_metadata_def verify_config_def verify_generation_def verify_tokenizer_def verify_index_def
    by (intro ends_rules ends_json assms)
qed

text \<open>
  C28. The verification always comes to an end, whatever the tree holds: although opening a special file such as
  a pipe may block, it never opens one, because the kinds of all files are checked before.
\<close>

theorem verification_ends:
  "verify_model_root H entry lock_content schema \<noteq> None"
proof -
  have "ends (verify_cross_file_metadata H tree l)" if "demand (is_directory tree) = ret u" "iter_install_files tree = ret fs" for tree l u fs
    using that iter_tidy [of tree] by (intro ends_metadata) auto
  then have "ends (verify_model_root H entry lock_content schema)"
    unfolding verify_model_root_def by (intro ends_rules)
  then show ?thesis by (simp add: ends_def)
qed

end
