(* ===== verification/Model_Fetch.thy ===== *)
theory Model_Fetch
  imports Model_Props Effects
begin

text \<open>
  \<^verbatim>\<open>scripts/model/fetch.py\<close>: the download of the locked model into a staging directory beside its
  destination, its verification and the atomic installation.  The state is the directory that holds both.
\<close>

subsection \<open>The parent directory and the world\<close>

text \<open>
  The entries of the parent of the destination, and the number of times that other processes had a chance to
  change them.
\<close>

record parent =
  p_entries :: "string \<rightharpoonup> node"
  p_time :: nat

datatype download = Download_Failed | Downloaded bool

text \<open>What \<^verbatim>\<open>flock\<close> does: it obtains the lock, raises, or waits for ever.\<close>

datatype flock = Granted | Refused | Waiting

text \<open>
  What the fetch meets.  \<open>ft_resolve\<close> is \<^verbatim>\<open>Path.resolve\<close> and \<open>ft_repo\<close> the resolved repository (none for an
  \<^verbatim>\<open>OSError\<close>), \<open>ft_parent_dir\<close> whether the parent is a real directory, \<open>ft_staging\<close> the new name that \<^verbatim>\<open>mkdtemp\<close>
  makes, \<open>ft_hub\<close> whether the download library can be imported.  \<open>ft_download\<close> gives what the library leaves in
  the staging directory, and whether it raised or returned that directory.  \<open>ft_rmtree\<close> is what \<^verbatim>\<open>rmtree\<close> leaves
  of a tree, \<open>ft_flock\<close> what asking for the lock does; the flags say whether the marker can be opened and written, the lock
  file be opened, the lock be released and its file closed, and the rename succeed.  \<open>ft_others\<close> is what other processes do to the entries.
\<close>

record fetch_site =
  ft_hash :: hashing
  ft_lock :: file_read
  ft_schema :: "file_read option"
  ft_destination :: path
  ft_resolve :: "path \<Rightarrow> path option"
  ft_repo :: "path option"
  ft_parent_dir :: bool
  ft_staging :: "string option"
  ft_hub :: bool
  ft_download :: "model_lock \<Rightarrow> node \<times> download"
  ft_rmtree :: "node \<Rightarrow> node option"
  ft_open_marker :: bool
  ft_write_marker :: bool
  ft_open_lock :: bool
  ft_flock :: flock
  ft_unlock :: bool
  ft_rename :: bool
  ft_others :: "nat \<Rightarrow> (string \<rightharpoonup> node) \<Rightarrow> (string \<rightharpoonup> node)"

type_synonym 'a fetch = "(parent, model_error, 'a) io"

definition try_call :: "(model_error, 'a) comp \<Rightarrow> 'a fetch" where
  "try_call m = lift id m"

text \<open>A call whose \<^verbatim>\<open>VerificationError\<close> becomes a \<^verbatim>\<open>FetchError\<close>.\<close>

definition convert :: "model_error \<Rightarrow> model_error" where
  "convert e = (if e = VerificationError then FetchError else e)"

definition fetch_demand :: "bool \<Rightarrow> unit fetch" where
  "fetch_demand b = (if b then give () else throw FetchError)"

text \<open>Other processes change what they like, but not the private staging directory.\<close>

definition disturb :: "fetch_site \<Rightarrow> string \<Rightarrow> unit fetch" where
  "disturb S staging = change (\<lambda>w. w\<lparr>p_entries := (ft_others S (p_time w) (p_entries w))(staging := p_entries w staging),
     p_time := Suc (p_time w)\<rparr>)"

definition entry :: "string \<Rightarrow> node option fetch" where
  "entry name = asks (\<lambda>w. p_entries w name)"

definition put_entry :: "string \<Rightarrow> node option \<Rightarrow> unit fetch" where
  "put_entry name n = change (\<lambda>w. w\<lparr>p_entries := (p_entries w)(name := n)\<rparr>)"

text \<open>\<^verbatim>\<open>os.path.lexists\<close>: an entry that cannot be inspected counts as missing.\<close>

definition lexists :: "node option \<Rightarrow> bool" where
  "lexists n \<longleftrightarrow> n \<noteq> None \<and> n \<noteq> Some Broken"

definition set_child :: "node \<Rightarrow> string \<Rightarrow> node option \<Rightarrow> node" where
  "set_child n c m =
     (case n of Directory b es \<Rightarrow> Directory b (filter (\<lambda>e. fst e \<noteq> c) es @ (case m of None \<Rightarrow> [] | Some k \<Rightarrow> [(c, k)])) | _ \<Rightarrow> n)"

subsection \<open>The destination\<close>

definition dest_name :: "path \<Rightarrow> string" where
  "dest_name p = last (snd p)"

text \<open>The root directory and a path that ends in two dots exist.\<close>

definition dest_exists :: "path \<Rightarrow> parent \<Rightarrow> bool" where
  "dest_exists p w \<longleftrightarrow> snd p = [] \<or> dest_name p = ''..'' \<or> lexists (p_entries w (dest_name p))"

definition ensure_external_destination :: "fetch_site \<Rightarrow> unit fetch" where
  "ensure_external_destination S =
     (let p = ft_destination S
      in seq (fetch_demand (is_absolute p)) (\<lambda>_.
         seq (fetch_demand (case (ft_resolve S p, ft_repo S) of
             (Some normalized, Some repository) \<Rightarrow> \<not> (normalized = repository \<or> in_parents repository normalized)
           | _ \<Rightarrow> False)) (\<lambda>_.
         seq (asks (dest_exists p)) (\<lambda>there.
         seq (fetch_demand (\<not> there)) (\<lambda>_.
           fetch_demand (ft_parent_dir S))))))"

subsection \<open>The bookkeeping of the download library\<close>

text \<open>
  The walk through the cache: a link is refused, an entry that cannot be inspected raises; directories that
  cannot be listed are skipped.
\<close>

fun scan_cache :: "node \<Rightarrow> (model_error, unit) comp" where
  "scan_cache (Directory listable es) =
     (if listable
      then bind (fold_comp (\<lambda>m _. if m = Symlink then raise FetchError else if m = Broken then raise ModelOSError else ret ()) (map snd es) ())
        (\<lambda>_. fold_comp (\<lambda>m _. m) (map (\<lambda>(k, n). scan_cache n) es) ())
      else ret ())"
| "scan_cache _ = ret ()"

definition safe_remove_hub_cache :: "fetch_site \<Rightarrow> string \<Rightarrow> unit fetch" where
  "safe_remove_hub_cache S staging =
     seq (entry staging) (\<lambda>n.
     let tree = (case n of None \<Rightarrow> Broken | Some t \<Rightarrow> t) in
       case child tree ''.cache'' of
         None \<Rightarrow> give ()
       | Some cache \<Rightarrow>
           if \<not> lexists (Some cache) then give ()
           else seq (fetch_demand (cache \<noteq> Symlink)) (\<lambda>_.
                case child cache ''huggingface'' of
                  None \<Rightarrow> throw FetchError
                | Some hub \<Rightarrow>
                    seq (fetch_demand (lexists (Some hub) \<and> is_directory hub)) (\<lambda>_.
                    seq (try_call (scan_cache hub)) (\<lambda>_.
                    let rest = ft_rmtree S hub; cache' = set_child cache ''huggingface'' rest in
                      if rest \<noteq> None
                      then seq (put_entry staging (Some (set_child tree ''.cache'' (Some cache')))) (\<lambda>_. throw ModelOSError)
                      else if cache' \<in> {Directory True [], Directory False []}
                      then put_entry staging (Some (set_child tree ''.cache'' None))
                      else seq (put_entry staging (Some (set_child tree ''.cache'' (Some cache')))) (\<lambda>_. throw FetchError)))))"

subsection \<open>Marker, cleanup and installation\<close>

definition write_marker :: "fetch_site \<Rightarrow> string \<Rightarrow> unit fetch" where
  "write_marker S staging =
     seq (try_call (lock_sha256 (ft_hash S) (ft_lock S))) (\<lambda>digest.
     seq (entry staging) (\<lambda>n.
       case n of
         Some (Directory b es) \<Rightarrow>
           seq (fetch_demand (map_of es DEFAULT_MARKER = None \<and> ft_open_marker S)) (\<lambda>_.
           let write = (\<lambda>t. put_entry staging (Some (set_child (Directory b es) DEFAULT_MARKER (Some (Regular (Some t)))))) in
             if ft_write_marker S then write (digest @ [CHR 0x0A]) else seq (write []) (\<lambda>_. throw FetchError))
       | _ \<Rightarrow> throw FetchError))"

definition remove_staging :: "fetch_site \<Rightarrow> string \<Rightarrow> unit fetch" where
  "remove_staging S staging =
     seq (entry staging) (\<lambda>n.
       case n of
         None \<Rightarrow> give ()
       | Some t \<Rightarrow> if lexists (Some t) then put_entry staging (ft_rmtree S t) else give ())"

definition LOCK_NAME :: string where
  "LOCK_NAME = ''.model-fetch.lock''"

text \<open>A rename replaces nothing but an empty directory.\<close>

definition rename :: "fetch_site \<Rightarrow> string \<Rightarrow> unit fetch" where
  "rename S staging =
     seq (entry staging) (\<lambda>n.
     seq (entry (dest_name (ft_destination S))) (\<lambda>old.
     seq (fetch_demand (ft_rename S \<and> old \<in> {None, Some (Directory True []), Some (Directory False [])})) (\<lambda>_.
     seq (put_entry staging None) (\<lambda>_.
       put_entry (dest_name (ft_destination S)) n))))"

definition obtain_lock :: "fetch_site \<Rightarrow> unit fetch" where
  "obtain_lock S = (case ft_flock S of Granted \<Rightarrow> give () | Refused \<Rightarrow> throw ModelOSError | Waiting \<Rightarrow> lift id None)"

text \<open>The release in the \<^verbatim>\<open>finally\<close> block; when it raises, its exception replaces the one under way.\<close>

definition release_lock :: "fetch_site \<Rightarrow> unit fetch" where
  "release_lock S = (if ft_unlock S then give () else throw ModelOSError)"

definition locked_install :: "fetch_site \<Rightarrow> string \<Rightarrow> unit fetch" where
  "locked_install S staging =
     seq (obtain_lock S) (\<lambda>_.
     seq (disturb S staging) (\<lambda>_.
     seq (asks (dest_exists (ft_destination S))) (\<lambda>there.
     seq (fetch_demand (\<not> there)) (\<lambda>_.
     seq (disturb S staging) (\<lambda>_.
       rename S staging)))))"

definition atomic_install :: "fetch_site \<Rightarrow> string \<Rightarrow> unit fetch" where
  "atomic_install S staging =
     seq (disturb S staging) (\<lambda>_.
     seq (entry LOCK_NAME) (\<lambda>lock.
     seq (fetch_demand (case lock of None \<Rightarrow> True | Some n \<Rightarrow> n = Broken \<or> is_regular n)) (\<lambda>_.
     seq (fetch_demand (ft_open_lock S)) (\<lambda>_.
     seq (if lock = None then put_entry LOCK_NAME (Some (Regular (Some []))) else give ()) (\<lambda>_.
     seq (catch (locked_install S staging) (\<lambda>e. seq (release_lock S) (\<lambda>_. throw e))) (\<lambda>_.
       release_lock S))))))"

subsection \<open>The fetch\<close>

definition download_into :: "fetch_site \<Rightarrow> string \<Rightarrow> model_lock \<Rightarrow> unit fetch" where
  "download_into S staging l =
     (case ft_download S l of (tree, outcome) \<Rightarrow>
       seq (put_entry staging (Some tree)) (\<lambda>_.
         fetch_demand (outcome = Downloaded True)))"

definition fetch_body :: "fetch_site \<Rightarrow> string \<Rightarrow> model_lock \<Rightarrow> model_summary fetch" where
  "fetch_body S staging l =
     seq (fetch_demand (ft_hub S)) (\<lambda>_.
     seq (download_into S staging l) (\<lambda>_.
     seq (safe_remove_hub_cache S staging) (\<lambda>_.
     seq (write_marker S staging) (\<lambda>_.
     seq (entry staging) (\<lambda>n.
     seq (lift convert (verify_model_root (ft_hash S) n (ft_lock S) (ft_schema S))) (\<lambda>summary.
     seq (atomic_install S staging) (\<lambda>_. give summary)))))))"

definition fetch_model :: "fetch_site \<Rightarrow> model_summary fetch" where
  "fetch_model S =
     seq (lift convert (load_lock_file (ft_hash S) (ft_lock S) (ft_schema S))) (\<lambda>l.
     seq (ensure_external_destination S) (\<lambda>_.
       case ft_staging S of
         None \<Rightarrow> throw ModelOSError
       | Some staging \<Rightarrow>
           seq (put_entry staging (Some (Directory True []))) (\<lambda>_.
             catch (fetch_body S staging l) (\<lambda>e. seq (remove_staging S staging) (\<lambda>_. throw e)))))"

record fetch_plan =
  pl_repo_id :: string
  pl_revision :: string
  pl_allow_patterns :: "string list"
  pl_file_count :: int
  pl_shard_count :: int
  pl_selected_size :: int

definition fetch_plan_of :: "hashing \<Rightarrow> file_read \<Rightarrow> file_read option \<Rightarrow> (model_error, fetch_plan) comp" where
  "fetch_plan_of H content schema =
     (case load_lock_file H content schema of
        Some (Inl e) \<Rightarrow> raise (convert e)
      | Some (Inr l) \<Rightarrow> ret \<lparr>pl_repo_id = l_repo_id l, pl_revision = l_revision l, pl_allow_patterns = map f_path (l_files l),
          pl_file_count = int (length (l_files l)), pl_shard_count = l_shard_count l, pl_selected_size = l_selected_size l\<rparr>
      | None \<Rightarrow> None)"

end
