(* ===== verification/Model_Install.thy ===== *)
theory Model_Install
  imports Model_Fetch
begin

text \<open>
  The fetch installs nothing but a verified model, over nothing but an empty directory.  When it raises it leaves the
  parent directory as it was, up to the lock file and what \<^verbatim>\<open>rmtree\<close> left of the staging directory, unless the lock
  cannot be released after the rename: then the verified model is installed.
\<close>

lemma try_ret [run_simps]: "try_call m s = (ret x, t) \<longleftrightarrow> m = ret x \<and> t = s"
  by (simp add: try_call_def lift_ret)

lemma fetch_demand_ret [run_simps]: "fetch_demand b s = (ret x, t) \<longleftrightarrow> b \<and> t = s"
  by (auto simp: fetch_demand_def give_ret throw_ret)

lemma entry_ret [run_simps]: "entry n s = (ret x, t) \<longleftrightarrow> x = p_entries s n \<and> t = s"
  by (simp add: entry_def asks_ret)

lemma put_entry_ret [run_simps]: "put_entry name n s = (ret x, t) \<longleftrightarrow> t = s\<lparr>p_entries := (p_entries s)(name := n)\<rparr>"
  by (simp add: put_entry_def change_ret)

text \<open>The staging directory keeps its tree until it is renamed, and then is the destination.\<close>

lemma disturb_keeps: "disturb S n s = (ret x, t) \<Longrightarrow> p_entries t n = p_entries s n"
  by (simp add: disturb_def change_ret)

lemma none_ret: "None \<noteq> ret x"
  by (simp add: ret_def)

lemma lock_ret:
  "obtain_lock S s = (ret x, t) \<longleftrightarrow> ft_flock S = Granted \<and> t = s"
  "release_lock S s = (ret x, t) \<longleftrightarrow> ft_unlock S \<and> t = s"
  by (auto simp: obtain_lock_def release_lock_def run_simps none_ret split: flock.split)

lemma locked_ret:
  "catch (locked_install S staging) (\<lambda>e. seq (release_lock S) (\<lambda>_. throw e)) s = (ret u, t) \<longleftrightarrow> locked_install S staging s = (ret u, t)"
  by (auto simp: catch_ret run_simps)

text \<open>The entries when the rename was done on \<open>w0\<close>.\<close>

definition renamed :: "string \<Rightarrow> string \<Rightarrow> node \<Rightarrow> parent \<Rightarrow> parent" where
  "renamed staging dest tree w0 = w0\<lparr>p_entries := (p_entries w0)(staging := None, dest := Some tree)\<rparr>"

lemma install_ret:
  assumes "atomic_install S staging s = (ret u, t)" and "p_entries s staging = Some tree"
  shows "\<exists>v w0. \<not> dest_exists (ft_destination S) v \<and> disturb S staging v = (ret (), w0)
    \<and> p_entries w0 (dest_name (ft_destination S)) \<in> {None, Some (Directory True []), Some (Directory False [])}
    \<and> t = renamed staging (dest_name (ft_destination S)) tree w0"
proof -
  from assms(1) obtain a b c d where s: "disturb S staging s = (ret (), a)"
    "(if p_entries a LOCK_NAME = None then put_entry LOCK_NAME (Some (Regular (Some []))) else give ()) a = (ret (), b)"
    "disturb S staging b = (ret (), c)" "\<not> dest_exists (ft_destination S) c" "disturb S staging c = (ret (), d)"
    "rename S staging d = (ret u, t)"
    by (simp add: atomic_install_def seq_ret locked_ret lock_ret entry_ret fetch_demand_ret)
      (auto simp: locked_install_def seq_ret lock_ret fetch_demand_ret asks_ret)
  have "p_entries a staging = Some tree" using disturb_keeps [OF s(1)] assms(2) by simp
  with s(2) have "p_entries b staging = Some tree" by (auto simp: run_simps split: if_splits)
  with disturb_keeps [OF s(3)] disturb_keeps [OF s(5)] have "p_entries d staging = Some tree" by simp
  with s(6) have "p_entries d (dest_name (ft_destination S)) \<in> {None, Some (Directory True []), Some (Directory False [])}
      \<and> t = renamed staging (dest_name (ft_destination S)) tree d"
    by (auto simp: rename_def run_simps renamed_def)
  with s(4,5) show ?thesis by blast
qed


subsection \<open>A fetch that fails\<close>

text \<open>Apart from the staging directory and the lock file, the entries are those of \<open>m\<close>.\<close>

definition only_private :: "(string \<rightharpoonup> node) \<Rightarrow> string \<Rightarrow> parent \<Rightarrow> bool" where
  "only_private m staging w \<longleftrightarrow> (\<forall>n. n \<noteq> staging \<and> n \<noteq> LOCK_NAME \<longrightarrow> p_entries w n = m n)"

abbreviation kept :: "(string \<rightharpoonup> node) \<Rightarrow> string \<Rightarrow> 'a fetch \<Rightarrow> bool" where
  "kept m staging f \<equiv> hoare (only_private m staging) f (\<lambda>_. only_private m staging) (\<lambda>_. only_private m staging)"

named_theorems kept_rules \<open>calls that change private entries only\<close>

lemma kept_pure [kept_rules]:
  "hoare I (give x) (\<lambda>_. I) (\<lambda>_. I)" "hoare I (throw e) (\<lambda>_. I) (\<lambda>_. I)" "hoare I (lift g c) (\<lambda>_. I) (\<lambda>_. I)"
  "hoare I (asks f) (\<lambda>_. I) (\<lambda>_. I)" "hoare I (try_call c) (\<lambda>_. I) (\<lambda>_. I)"
  "hoare I (fetch_demand b) (\<lambda>_. I) (\<lambda>_. I)" "hoare I (entry n) (\<lambda>_. I) (\<lambda>_. I)"
  by (auto simp: hoare_def give_def throw_def lift_def asks_def try_call_def fetch_demand_def entry_def ret_def raise_def
      split: option.split sum.split)

lemma kept_seq [kept_rules]: "kept m staging f \<Longrightarrow> (\<And>x. kept m staging (g x)) \<Longrightarrow> kept m staging (seq f g)"
  by (rule hoare_seq_fwd)

lemma kept_if [kept_rules]: "(b \<Longrightarrow> kept m staging f) \<Longrightarrow> (\<not> b \<Longrightarrow> kept m staging g) \<Longrightarrow> kept m staging (if b then f else g)"
  by simp

lemma kept_put [kept_rules]: "kept m staging (put_entry staging n)"
  by (simp add: hoare_def put_entry_def change_def ret_def only_private_def)

lemma kept_lock [kept_rules]: "kept m staging (put_entry LOCK_NAME (Some (Regular t)))"
  by (simp add: hoare_def put_entry_def change_def ret_def only_private_def)

definition quiet :: "fetch_site \<Rightarrow> bool" where
  "quiet S \<longleftrightarrow> (\<forall>k m. ft_others S k m = m)"

lemma kept_disturb: "quiet S \<Longrightarrow> kept m staging (disturb S staging)"
  by (simp add: quiet_def hoare_def disturb_def change_def ret_def only_private_def)

lemma kept_hub: "kept m staging (safe_remove_hub_cache S staging)"
proof -
  have "kept m staging (case child tree ''.cache'' of
         None \<Rightarrow> give ()
       | Some cache \<Rightarrow>
           if \<not> lexists (Some cache) then give ()
           else seq (fetch_demand (cache \<noteq> Symlink)) (\<lambda>_.
                case child cache ''huggingface'' of
                  None \<Rightarrow> throw FetchError
                | Some hub \<Rightarrow>
                    seq (fetch_demand (lexists (Some hub) \<and> is_directory hub)) (\<lambda>_.
                    seq (try_call (scan_cache hub)) (\<lambda>_.
                    let rest = ft_rmtree S hub; cache' = set_child cache ''huggingface'' rest in
                      if rest \<noteq> None
                      then seq (put_entry staging (Some (set_child tree ''.cache'' (Some cache')))) (\<lambda>_. throw ModelOSError)
                      else if cache' \<in> {Directory True [], Directory False []}
                      then put_entry staging (Some (set_child tree ''.cache'' None))
                      else seq (put_entry staging (Some (set_child tree ''.cache'' (Some cache')))) (\<lambda>_. throw FetchError)))))"
    for tree
    unfolding Let_def by (auto split: option.split intro!: kept_rules)
  then show ?thesis
    unfolding safe_remove_hub_cache_def Let_def by (intro kept_rules)
qed

lemma kept_marker: "kept m staging (write_marker S staging)"
proof -
  have "kept m staging (case n of
         Some (Directory b es) \<Rightarrow>
           seq (fetch_demand (map_of es DEFAULT_MARKER = None \<and> ft_open_marker S)) (\<lambda>_.
             if ft_write_marker S
             then put_entry staging (Some (set_child (Directory b es) DEFAULT_MARKER (Some (Regular (Some (d @ [CHR 0x0A]))))))
             else seq (put_entry staging (Some (set_child (Directory b es) DEFAULT_MARKER (Some (Regular (Some [])))))) (\<lambda>_. throw FetchError))
       | _ \<Rightarrow> throw FetchError)" for n d
    by (auto split: option.split node.split intro!: kept_rules)
  then show ?thesis
    unfolding write_marker_def Let_def by (intro kept_rules)
qed

text \<open>
  The rename is the last call that changes an entry.  An error after it is one of the release of the lock, and then the
  tree is installed.
\<close>

definition only_installed :: "(string \<rightharpoonup> node) \<Rightarrow> string \<Rightarrow> string \<Rightarrow> node \<Rightarrow> parent \<Rightarrow> bool" where
  "only_installed m staging dest tree w \<longleftrightarrow> p_entries w staging = None \<and> p_entries w dest = Some tree
     \<and> (\<forall>n. n \<notin> {staging, LOCK_NAME, dest} \<longrightarrow> p_entries w n = m n)"

lemma after_kept:
  "kept m staging f \<Longrightarrow> (\<And>x. hoare (only_private m staging) (g x) Q R) \<Longrightarrow> (\<And>e t. only_private m staging t \<Longrightarrow> R e t) \<Longrightarrow>
     hoare (only_private m staging) (seq f g) Q R"
  by (rule hoare_seq_fwd [where M = "\<lambda>_. only_private m staging"], erule hoare_weaken) auto

lemma locked_install_triple:
  assumes "quiet S" and "staging \<noteq> dest_name (ft_destination S)"
  shows "hoare (\<lambda>s. only_private m staging s \<and> p_entries s staging = Some tree) (locked_install S staging)
    (\<lambda>_. only_installed m staging (dest_name (ft_destination S)) tree) (\<lambda>_. only_private m staging)"
proof -
  let ?P = "\<lambda>s. only_private m staging s \<and> p_entries s staging = Some tree"
  have d: "hoare ?P (disturb S staging) (\<lambda>_. ?P) (\<lambda>_. only_private m staging)"
    using assms(1) by (simp add: quiet_def hoare_def disturb_def change_def ret_def only_private_def)
  have p: "hoare ?P (asks f) (\<lambda>_. ?P) (\<lambda>_. only_private m staging)" "hoare ?P (fetch_demand b) (\<lambda>_. ?P) (\<lambda>_. only_private m staging)"
    "hoare ?P (obtain_lock S) (\<lambda>_. ?P) (\<lambda>_. only_private m staging)" for f :: "parent \<Rightarrow> bool" and b
    by (auto simp: hoare_def asks_def fetch_demand_def obtain_lock_def give_def throw_def lift_def ret_def raise_def split: flock.split)
  have r: "hoare ?P (rename S staging) (\<lambda>_. only_installed m staging (dest_name (ft_destination S)) tree) (\<lambda>_. only_private m staging)"
    using assms(2) by (simp add: hoare_def rename_def seq_def entry_def asks_def fetch_demand_def put_entry_def change_def give_def
        throw_def ret_def raise_def only_private_def only_installed_def)
  show ?thesis
    unfolding locked_install_def by (intro hoare_seq_fwd [OF p(3)] hoare_seq_fwd [OF d] hoare_seq_fwd [OF p(1)] hoare_seq_fwd [OF p(2)] r)
qed

abbreviation "install_failed S m staging tree \<equiv> \<lambda>e t. only_private m staging t
  \<or> \<not> ft_unlock S \<and> e = Some ModelOSError \<and> only_installed m staging (dest_name (ft_destination S)) tree t"

lemma install_fails:
  assumes "quiet S" and "staging \<noteq> dest_name (ft_destination S)"
  shows "hoare (\<lambda>s. only_private m staging s \<and> p_entries s staging = Some tree) (atomic_install S staging) (\<lambda>_ _. True)
    (install_failed S m staging tree)"
proof -
  let ?P = "\<lambda>s. only_private m staging s \<and> p_entries s staging = Some tree" and ?R = "install_failed S m staging tree"
  have "hoare ?P (locked_install S staging) (\<lambda>_. only_installed m staging (dest_name (ft_destination S)) tree)
      (\<lambda>e t. case e of Some x \<Rightarrow> only_private m staging t | None \<Rightarrow> ?R None t)"
    by (rule hoare_weaken [OF locked_install_triple [OF assms]]) (auto split: option.split)
  then have c: "hoare ?P (catch (locked_install S staging) (\<lambda>e. seq (release_lock S) (\<lambda>_. throw e)))
      (\<lambda>_. only_installed m staging (dest_name (ft_destination S)) tree) ?R"
    by (rule hoare_catch [rotated]) (simp add: hoare_def seq_def release_lock_def give_def throw_def ret_def raise_def)
  have r: "hoare (only_installed m staging (dest_name (ft_destination S)) tree) (release_lock S) (\<lambda>_ _. True) ?R"
    by (simp add: hoare_def release_lock_def give_def throw_def ret_def raise_def)
  have d: "hoare ?P (disturb S staging) (\<lambda>_. ?P) ?R"
    using assms(1) by (simp add: quiet_def hoare_def disturb_def change_def ret_def only_private_def)
  let ?L = "\<lambda>lock s. ?P s \<and> p_entries s LOCK_NAME = lock"
  have e: "hoare ?P (entry LOCK_NAME) ?L ?R" by (simp add: hoare_def entry_def asks_def ret_def)
  have f: "hoare (?L lock) (fetch_demand b) (\<lambda>_. ?L lock) ?R" for lock b
    by (simp add: hoare_def fetch_demand_def give_def throw_def ret_def raise_def)
  have l: "hoare (?L lock) (if lock = None then put_entry LOCK_NAME (Some (Regular (Some []))) else give ()) (\<lambda>_. ?P) ?R" for lock
    by (auto simp: hoare_def put_entry_def change_def give_def ret_def only_private_def)
  show ?thesis
    unfolding atomic_install_def
    by (intro hoare_seq_fwd [OF d] hoare_seq_fwd [OF e] hoare_seq_fwd [OF f] hoare_seq_fwd [OF l] hoare_seq_fwd [OF c] r)
qed

definition installed_verified :: "fetch_site \<Rightarrow> node \<Rightarrow> bool" where
  "installed_verified S tree \<longleftrightarrow> (\<exists>s. verify_model_root (ft_hash S) (Some tree) (ft_lock S) (ft_schema S) = ret s)"

abbreviation "fetch_failed S m staging \<equiv> \<lambda>e t. only_private m staging t
  \<or> \<not> ft_unlock S \<and> e = Some ModelOSError
    \<and> (\<exists>tree. installed_verified S tree \<and> only_installed m staging (dest_name (ft_destination S)) tree t)"

lemma body_fails:
  assumes "quiet S" and "staging \<noteq> dest_name (ft_destination S)"
  shows "hoare (only_private m staging) (fetch_body S staging l) (\<lambda>_ _. True) (fetch_failed S m staging)"
proof -
  let ?R = "fetch_failed S m staging"
  have "kept m staging (download_into S staging l)"
    unfolding download_into_def by (cases "ft_download S l") (auto intro!: kept_rules)
  note d = this
  let ?N = "\<lambda>n s. only_private m staging s \<and> p_entries s staging = n"
  have e: "hoare (only_private m staging) (entry staging) ?N ?R" by (simp add: hoare_def entry_def asks_def ret_def)
  have v: "hoare (?N n) (lift convert (verify_model_root (ft_hash S) n (ft_lock S) (ft_schema S)))
      (\<lambda>_ s. ?N n s \<and> (\<exists>tree. n = Some tree \<and> installed_verified S tree)) ?R" for n
  proof (rule hoare_pre [OF hoare_lift])
    have "\<exists>tree. n = Some tree \<and> installed_verified S tree" if "verify_model_root (ft_hash S) n (ft_lock S) (ft_schema S) = ret x" for x
      using that by (cases n) (auto simp: installed_verified_def verify_model_root_def lstat_def)
    then show "?N n s \<Longrightarrow> (\<forall>x. verify_model_root (ft_hash S) n (ft_lock S) (ft_schema S) = ret x \<longrightarrow>
        ?N n s \<and> (\<exists>tree. n = Some tree \<and> installed_verified S tree))
      \<and> (\<forall>e. verify_model_root (ft_hash S) n (ft_lock S) (ft_schema S) = raise e \<longrightarrow> ?R (Some (convert e)) s)
      \<and> (verify_model_root (ft_hash S) n (ft_lock S) (ft_schema S) = None \<longrightarrow> ?R None s)" for s
      by auto
  qed
  have i: "hoare (\<lambda>s. ?N n s \<and> (\<exists>tree. n = Some tree \<and> installed_verified S tree)) (atomic_install S staging) (\<lambda>_ _. True) ?R" for n
  proof (cases "\<exists>tree. n = Some tree \<and> installed_verified S tree")
    case True
    then obtain tree where "n = Some tree" "installed_verified S tree" by blast
    then show ?thesis
      by (intro hoare_weaken [OF hoare_pre [OF install_fails [OF assms, of m tree]]]) auto
  next
    case False
    then show ?thesis unfolding hoare_def by blast
  qed
  have g: "hoare (\<lambda>_. True) (give x) (\<lambda>_ _. True) ?R" for x :: model_summary by (simp add: hoare_def give_def ret_def)
  show ?thesis
    unfolding fetch_body_def
    by (intro after_kept [OF kept_pure(6)] after_kept [OF d] after_kept [OF kept_hub] after_kept [OF kept_marker] hoare_seq_fwd [OF e]
      hoare_seq_fwd [OF v] hoare_seq_fwd [OF i] g) simp_all
qed

text \<open>
  C31. If no other process changes the parent directory and the staging directory has a fresh name, a fetch that raises leaves
  every entry as it was, except the lock file of the installers and the staging directory, of which at most what
  \<^verbatim>\<open>rmtree\<close> could not remove (or an entry that cannot even be inspected) stays.  There is one exception: when
  releasing the lock fails after the rename, the error is that of the release and the destination, where nothing was
  before, holds a verified tree.
\<close>

theorem fetch_all_or_nothing:
  assumes "fetch_model S w = (raise e, w')" and "quiet S"
    and "\<forall>n. ft_staging S = Some n \<longrightarrow> p_entries w n = None \<and> n \<noteq> dest_name (ft_destination S)"
  shows "(\<forall>n. ft_staging S = Some n \<longrightarrow> p_entries w' n \<in> {None, Some Broken} \<union> range (ft_rmtree S))
    \<and> ((\<forall>n. n \<noteq> LOCK_NAME \<and> ft_staging S \<noteq> Some n \<longrightarrow> p_entries w' n = p_entries w n)
      \<or> \<not> ft_unlock S \<and> e = ModelOSError \<and> \<not> dest_exists (ft_destination S) w
        \<and> (\<exists>tree. installed_verified S tree \<and> p_entries w' (dest_name (ft_destination S)) = Some tree)
        \<and> (\<forall>n. n \<notin> {LOCK_NAME, dest_name (ft_destination S)} \<and> ft_staging S \<noteq> Some n \<longrightarrow> p_entries w' n = p_entries w n))"
proof -
  let ?d = "dest_name (ft_destination S)"
  let ?J = "\<lambda>e w'. (\<forall>n. ft_staging S = Some n \<longrightarrow> p_entries w' n \<in> {None, Some Broken} \<union> range (ft_rmtree S))
    \<and> ((\<forall>n. n \<noteq> LOCK_NAME \<and> ft_staging S \<noteq> Some n \<longrightarrow> p_entries w' n = p_entries w n)
      \<or> \<not> ft_unlock S \<and> e = ModelOSError \<and> \<not> dest_exists (ft_destination S) w
        \<and> (\<exists>tree. installed_verified S tree \<and> p_entries w' ?d = Some tree)
        \<and> (\<forall>n. n \<notin> {LOCK_NAME, ?d} \<and> ft_staging S \<noteq> Some n \<longrightarrow> p_entries w' n = p_entries w n))"
  let ?K = "\<lambda>e t. e = None \<or> ?J (the e) t"
  have remove: "\<exists>t. remove_staging S staging s = (ret (), t) \<and> (p_entries t staging \<in> {None, Some Broken} \<union> range (ft_rmtree S))
      \<and> (\<forall>n. n \<noteq> staging \<longrightarrow> p_entries t n = p_entries s n)" for staging s
    by (cases "p_entries s staging") (auto simp: remove_staging_def seq_def entry_def asks_def put_entry_def change_def give_def ret_def lexists_def)
  have clean: "hoare (fetch_failed S (p_entries w) staging (Some e)) (seq (remove_staging S staging) (\<lambda>_. throw e)) (\<lambda>_ _. True) ?K"
    if "ft_staging S = Some staging" "\<not> dest_exists (ft_destination S) w" for staging e
    unfolding hoare_def
  proof (intro allI impI)
    fix s
    assume f: "fetch_failed S (p_entries w) staging (Some e) s"
    obtain t where t: "remove_staging S staging s = (ret (), t)" "p_entries t staging \<in> {None, Some Broken} \<union> range (ft_rmtree S)"
      "\<forall>n. n \<noteq> staging \<longrightarrow> p_entries t n = p_entries s n" using remove [of staging s] by blast
    have "staging \<noteq> ?d" using assms(3) that(1) by blast
    then have "?J e t" using f t(2,3) that by (auto simp: only_private_def only_installed_def)
    then show "case seq (remove_staging S staging) (\<lambda>_. throw e) s of (Some (Inr x), t) \<Rightarrow> True | (Some (Inl e), t) \<Rightarrow> ?K (Some e) t
        | (None, t) \<Rightarrow> ?K None t"
      using t(1) by (simp add: seq_def throw_def ret_def raise_def)
  qed
  have guarded: "hoare ((=) w) (seq (put_entry staging (Some (Directory True []))) (\<lambda>_.
      catch (fetch_body S staging l) (\<lambda>e. seq (remove_staging S staging) (\<lambda>_. throw e)))) (\<lambda>_ _. True) ?K"
    if "ft_staging S = Some staging" "\<not> dest_exists (ft_destination S) w" for staging l
  proof (rule hoare_seq_fwd)
    show "hoare ((=) w) (put_entry staging (Some (Directory True []))) (\<lambda>_. only_private (p_entries w) staging) ?K"
      by (simp add: hoare_def put_entry_def change_def ret_def only_private_def)
    have b: "hoare (only_private (p_entries w) staging) (fetch_body S staging l) (\<lambda>_ _. True) (fetch_failed S (p_entries w) staging)"
      using assms(2,3) that(1) by (intro body_fails) auto
    show "hoare (only_private (p_entries w) staging) (catch (fetch_body S staging l) (\<lambda>e. seq (remove_staging S staging) (\<lambda>_. throw e)))
        (\<lambda>_ _. True) ?K"
      by (rule hoare_catch [where H = "\<lambda>e. fetch_failed S (p_entries w) staging (Some e)", OF clean [OF that] hoare_weaken [OF b]])
        (auto split: option.split)
  qed
  have same: "?J e w" for e using assms(3) by simp
  have start: "hoare ((=) w) (ensure_external_destination S) (\<lambda>_ s. s = w \<and> \<not> dest_exists (ft_destination S) w) ?K"
    unfolding ensure_external_destination_def Let_def
    using same by (simp add: hoare_def seq_def fetch_demand_def asks_def give_def throw_def ret_def raise_def)
  have rest: "hoare (\<lambda>s. s = w \<and> \<not> dest_exists (ft_destination S) w) (case ft_staging S of None \<Rightarrow> throw ModelOSError | Some staging \<Rightarrow>
      seq (put_entry staging (Some (Directory True []))) (\<lambda>_.
        catch (fetch_body S staging l) (\<lambda>e. seq (remove_staging S staging) (\<lambda>_. throw e)))) (\<lambda>_ _. True) ?K" for l
  proof (cases "ft_staging S")
    case None
    then show ?thesis by (simp add: hoare_def throw_def raise_def)
  next
    case (Some staging)
    show ?thesis
    proof (cases "dest_exists (ft_destination S) w")
      case False
      have "hoare (\<lambda>s. s = w \<and> \<not> dest_exists (ft_destination S) w) (seq (put_entry staging (Some (Directory True []))) (\<lambda>_.
        catch (fetch_body S staging l) (\<lambda>e. seq (remove_staging S staging) (\<lambda>_. throw e)))) (\<lambda>_ _. True) ?K"
        by (rule hoare_pre [OF guarded [OF Some False]]) simp
      then show ?thesis by (simp only: Some option.case)
    qed (simp add: hoare_def)
  qed
  have "hoare ((=) w) (lift convert (load_lock_file (ft_hash S) (ft_lock S) (ft_schema S))) (\<lambda>_. (=) w) ?K"
    by (rule hoare_weaken [OF kept_pure(3)]) (use same in auto)
  then have "hoare ((=) w) (fetch_model S) (\<lambda>_ _. True) ?K"
    unfolding fetch_model_def by (rule hoare_seq_fwd [OF _ hoare_seq_fwd [OF start rest]])
  from hoareD(2) [OF this refl assms(1)] show ?thesis by simp
qed

end
