(* ===== verification/Model_Demo.thy ===== *)
theory Model_Demo
  imports Model_Install
begin

text \<open>A small model with its lock, an installation of it and two fetches: the instances of the properties.\<close>

definition digest_f :: string where
  "digest_f = replicate 64 CHR ''f''"

definition lock_entry :: "string \<Rightarrow> string \<Rightarrow> int \<Rightarrow> json" where
  "lock_entry path role n = JObj [(''path'', JStr path), (''size'', JInt n), (''role'', JStr role), (''sha256'', JStr digest_f)]"

definition small_revision :: string where
  "small_revision = replicate 40 CHR ''0''"

definition small_lock :: json where
  "small_lock = JObj
    [(''schema_version'', JInt 1),
     (''model'', JObj [(''repo_id'', JStr ''a/b''), (''revision'', JStr small_revision), (''library_name'', JStr ''t''),
        (''model_type'', JStr ''m''), (''architecture'', JStr ''A''), (''config_path'', JStr ''config.json'')]),
     (''provenance'', JObj [(''model_api'', JStr (HF_API @ ''a/b/'' @ small_revision)),
        (''tree_api'', JStr (HF_API @ ''a/b/'' @ small_revision)), (''metadata_observed_on'', JStr ''2026-09-02'')]),
     (''license'', JObj [(''spdx'', JStr ''MIT''), (''file_path'', JStr ''LICENSE'')]),
     (''generation_config'', JObj [(''path'', JStr ''generation.json''), (''do_sample'', JBool True),
        (''temperature'', JFloat 1), (''top_p'', JFloat 1)]),
     (''chat_template'', JObj [(''policy'', JStr ''absent''), (''jinja'', JBool False)]),
     (''tokenizer'', JObj [(''tokenizer_path'', JStr ''tokenizer.json''), (''config_path'', JStr ''tokenizer_config.json''),
        (''tokenizer_class'', JStr ''T'')]),
     (''weights'', JObj [(''format'', JStr ''safetensors''), (''index_path'', JStr ''index.json''), (''shard_count'', JInt 1),
        (''shards'', JArr [JStr ''weights/w.safetensors''])]),
     (''install'', JObj [(''manifest_marker'', JStr DEFAULT_MARKER), (''unexpected_files'', JStr ''reject'')]),
     (''totals'', JObj [(''file_count'', JInt 7), (''selected_size_bytes'', JInt 9), (''weight_size_bytes'', JInt 3)]),
     (''files'', JArr [lock_entry ''LICENSE'' ''license'' 1, lock_entry ''config.json'' ''config'' 1,
        lock_entry ''generation.json'' ''generation_config'' 1, lock_entry ''tokenizer.json'' ''tokenizer'' 1,
        lock_entry ''tokenizer_config.json'' ''tokenizer_config'' 1, lock_entry ''index.json'' ''index'' 1,
        lock_entry ''weights/w.safetensors'' ''weight'' 3])]"

definition small_texts :: "(string \<times> json) list" where
  "small_texts =
    [(''lock'', small_lock),
     (''c'', JObj [(''model_type'', JStr ''m''), (''architectures'', JArr [JStr ''A''])]),
     (''g'', JObj [(''do_sample'', JBool True), (''temperature'', JFloat 1), (''top_p'', JInt 1)]),
     (''t'', JObj []), (''k'', JObj [(''tokenizer_class'', JStr ''T'')]),
     (''i'', JObj [(''weight_map'', JObj [(''w'', JStr ''weights/w.safetensors'')])])]"

definition small_hash :: hashing where
  "small_hash = \<lparr>h_loads = map_of small_texts, h_sha256 = (\<lambda>_. digest_f), h_sha1 = (\<lambda>_. digest_f)\<rparr>"

definition small_files :: "(string \<times> node) list" where
  "small_files =
    [(''LICENSE'', Regular (Some ''M'')), (''config.json'', Regular (Some ''c'')), (''generation.json'', Regular (Some ''g'')),
     (''tokenizer.json'', Regular (Some ''t'')), (''tokenizer_config.json'', Regular (Some ''k'')),
     (''index.json'', Regular (Some ''i'')), (''weights'', Directory True [(''w.safetensors'', Regular (Some ''abc''))])]"

definition small_model :: node where
  "small_model = Directory True (small_files @ [(DEFAULT_MARKER, Regular (Some (digest_f @ [CHR 0x0A])))])"

lemma small_lock_loads: "returns (validate_lock small_hash small_lock None)"
  by code_simp

lemma small_model_verifies: "returns (verify_model_root small_hash (Some small_model) (Bytes ''lock'') None)"
  by code_simp

text \<open>The lock is accepted and well formed.\<close>

theorem accepted_lock_well_formed_witness:
  "\<exists>l. validate_lock small_hash small_lock None = ret l \<and> well_formed_lock l"
proof -
  from small_lock_loads obtain l where l: "validate_lock small_hash small_lock None = ret l" by (rule returnsE)
  from l accepted_lock_well_formed [OF l] show ?thesis by blast
qed

text \<open>The installation is accepted, and so it is exactly what the lock says.\<close>

theorem verification_exact_witness:
  "proper_names small_model \<and> (\<exists>l. load_lock_file small_hash (Bytes ''lock'') None = ret l \<and> installed small_hash small_model ''lock'' l)"
proof -
  have p: "proper_names small_model" by code_simp
  from small_model_verifies obtain s where "verify_model_root small_hash (Some small_model) (Bytes ''lock'') None = ret s"
    by (rule returnsE)
  with verification_exact [OF p] p show ?thesis by blast
qed

subsection \<open>Two fetches\<close>

text \<open>The library leaves its bookkeeping beside the files; in the second fetch the download fails half-way.\<close>

definition small_site :: "node \<times> download \<Rightarrow> fetch_site" where
  "small_site d =
   \<lparr>ft_hash = small_hash, ft_lock = Bytes ''lock'', ft_schema = None, ft_destination = path_of ''/srv/m'',
     ft_resolve = Some, ft_repo = Some (path_of ''/opt/repo''), ft_parent_dir = True, ft_staging = Some ''.m.fetch-1'',
     ft_hub = True, ft_download = (\<lambda>_. d), ft_rmtree = (\<lambda>_. None),
     ft_open_marker = True, ft_write_marker = True, ft_open_lock = True, ft_flock = Granted, ft_unlock = True, ft_rename = True,
     ft_others = (\<lambda>_ m. m)\<rparr>"

definition hub_files :: node where
  "hub_files = Directory True [(''huggingface'', Directory True [(''x'', Regular (Some []))])]"

definition good_site :: fetch_site where
  "good_site = small_site (Directory True ((''.cache'', hub_files) # small_files), Downloaded True)"

definition bad_site :: fetch_site where
  "bad_site = small_site (Directory True [], Download_Failed)"

definition empty_parent :: parent where
  "empty_parent = \<lparr>p_entries = [''other'' \<mapsto> Special], p_time = 0\<rparr>"

lemma small_destination: "ft_destination (small_site d) = (''/'', [''srv'', ''m''])"
  unfolding small_site_def fetch_site.simps by code_simp

lemma small_external: "\<exists>t. ensure_external_destination (small_site d) empty_parent = (ret (), t) \<and> t = empty_parent"
proof -
  have "path_of ''/opt/repo'' = (''/'', [''opt'', ''repo''])" by code_simp
  then show ?thesis
    unfolding ensure_external_destination_def Let_def small_destination
    by (simp add: run_simps small_site_def is_absolute_def in_parents_def is_prefix_def dest_exists_def dest_name_def
        lexists_def empty_parent_def)
qed


text \<open>The download fails, and nothing is left.\<close>

theorem fetch_all_or_nothing_witness:
  "\<exists>w'. fetch_model bad_site empty_parent = (raise FetchError, w')
     \<and> (\<forall>n. n \<noteq> LOCK_NAME \<and> n \<noteq> ''.m.fetch-1'' \<longrightarrow> p_entries w' n = p_entries empty_parent n)"
proof -
  from small_model_verifies obtain l where l: "load_lock_file small_hash (Bytes ''lock'') None = ret l"
    by (auto simp: verify_model_root_def elim: returnsE)
  have "ensure_external_destination bad_site empty_parent = (ret (), empty_parent)"
    using small_external by (auto simp: bad_site_def)
  then obtain w' where f: "fetch_model bad_site empty_parent = (raise FetchError, w')"
    using l by (simp add: fetch_model_def fetch_body_def download_into_def remove_staging_def bad_site_def small_site_def seq_def
        lift_def catch_def fetch_demand_def put_entry_def entry_def asks_def change_def give_def throw_def ret_def raise_def lexists_def)
  have "ft_destination bad_site = (''/'', [''srv'', ''m''])" using small_destination by (simp add: bad_site_def)
  then have q: "quiet bad_site" "\<forall>n. ft_staging bad_site = Some n \<longrightarrow> p_entries empty_parent n = None \<and> n \<noteq> dest_name (ft_destination bad_site)"
    by (simp_all add: quiet_def bad_site_def small_site_def empty_parent_def dest_name_def)
  have r: "ft_rmtree bad_site t = None" "ft_staging bad_site = Some ''.m.fetch-1''" "ft_unlock bad_site" for t
    by (simp_all add: bad_site_def small_site_def)
  from fetch_all_or_nothing [OF f q] f r show ?thesis by (intro exI [of _ w']) auto
qed

end
