(* ===== verification/Stack_Config.thy ===== *)
theory Stack_Config
  imports Inspect
begin

text \<open>
  \<^verbatim>\<open>scripts/observability/stack.py\<close>: the env file, the profile and the image lock of the observability stack,
  and the configuration that is made of them.  A file is its text, or nothing when it is missing.
\<close>

subsection \<open>Errors\<close>

text \<open>
  \<^verbatim>\<open>ObservabilityError\<close>, whose message is not modelled; an exception of Python on a value of unexpected shape
  (\<^verbatim>\<open>KeyError\<close>, \<^verbatim>\<open>TypeError\<close>, \<^verbatim>\<open>ValueError\<close>); an \<^verbatim>\<open>OSError\<close>.
\<close>

datatype stack_error = ObservabilityError | StackCrash | StackOSError

definition require :: "bool \<Rightarrow> (stack_error, unit) comp" where
  "require b = assert ObservabilityError b"

definition crash :: "(exn, 'a) comp \<Rightarrow> (stack_error, 'a) comp" where
  "crash m = map_option (map_sum (\<lambda>_. StackCrash) id) m"

lemma require_ret [simp]: "require b = ret u \<longleftrightarrow> b"
  by (simp add: require_def assert_eq_ret)

lemma crash_ret [simp]: "crash m = ret x \<longleftrightarrow> m = ret x"
  by (cases m rule: comp_cases) (auto simp: crash_def ret_def raise_def)

lemma bind_require [simp, comp_simps]: "bind (require b) f = (if b then f () else raise ObservabilityError)"
  by (simp add: require_def)

subsection \<open>Constants\<close>

definition STACK_NAME :: string where
  "STACK_NAME = ''dgx-spark-observability''"

definition ARCHITECTURE :: string where
  "ARCHITECTURE = ''linux/arm64''"

definition DEFAULT_IMAGE_TAGS :: "(string \<times> string) list" where
  "DEFAULT_IMAGE_TAGS =
     [(''prometheus'', ''docker.io/prom/prometheus:v2.54.1''), (''grafana'', ''docker.io/grafana/grafana:11.2.0''),
      (''alertmanager'', ''docker.io/prom/alertmanager:v0.27.0''), (''loki'', ''docker.io/grafana/loki:3.1.1''),
      (''promtail'', ''docker.io/grafana/promtail:3.1.1''), (''node_exporter'', ''docker.io/prom/node-exporter:v1.8.2''),
      (''fabric_exporter'', ''docker.io/library/python:3.12-alpine'')]"

definition HEAD_COMPONENTS :: "string list" where
  "HEAD_COMPONENTS = [''prometheus'', ''grafana'', ''alertmanager'', ''loki'', ''promtail_head'', ''node_exporter_head'',
     ''fabric_exporter_head'']"

definition WORKER_COMPONENTS :: "string list" where
  "WORKER_COMPONENTS = [''promtail_worker'', ''node_exporter_worker'', ''fabric_exporter_worker'']"

definition STACK_COMPONENTS :: "string list" where
  "STACK_COMPONENTS = [''prometheus'', ''grafana'', ''alertmanager'', ''loki'', ''promtail_head'', ''promtail_worker'',
     ''node_exporter_head'', ''node_exporter_worker'', ''fabric_exporter_head'', ''fabric_exporter_worker'']"

definition STACK_ENV_KEYS :: "string list" where
  "STACK_ENV_KEYS = [''HEAD_HOST'', ''WORKER_HOST'', ''HEAD_SSH_HOST'', ''WORKER_SSH_HOST'', ''SSH_USER'', ''HEAD_SSH_USER'',
     ''WORKER_SSH_USER'', ''SSH_PORT'', ''SSH_KNOWN_HOSTS_FILE'', ''SSH_IDENTITY_FILE'', ''OBS_HEAD_HOST'',
     ''OBS_WORKER_HOST'', ''OBS_HEAD_SSH_HOST'', ''OBS_WORKER_SSH_HOST'', ''OBS_SSH_USER'',
     ''OBS_HEAD_SSH_USER'', ''OBS_WORKER_SSH_USER'', ''OBS_SSH_PORT'', ''OBS_SSH_KNOWN_HOSTS_FILE'',
     ''OBS_SSH_IDENTITY_FILE'', ''OBS_REMOTE_ROOT'', ''OBS_IMAGE_LOCK_FILE'', ''OBS_PROFILE_FILE'',
     ''OBS_GRAFANA_ADMIN_USER'', ''OBS_GRAFANA_ADMIN_PASSWORD'', ''OBS_BIND_ADDR'', ''OBS_VLLM_PORT'',
     ''OBS_VLLM_METRICS_PATH'', ''OBS_VLLM_SCHEME'', ''OBS_HEAD_NODE_NAME'', ''OBS_WORKER_NODE_NAME'',
     ''OBS_VLLM_CONTAINER_HEAD'', ''OBS_VLLM_CONTAINER_WORKER'', ''OBS_VLLM_LOG_PATH_HEAD'',
     ''OBS_VLLM_LOG_PATH_WORKER'', ''OBS_FABRIC_HCA'', ''OBS_FABRIC_NDEV'', ''OBS_FABRIC_GID_INDEX'',
     ''OBS_DOCKER_PROXY'', ''OBS_SKIP_VLLM_CHECK'', ''DEPLOYMENT_MODE'', ''IMAGE_LOCK_FILE'',
     ''HEAD_IMAGE_REF'', ''WORKER_IMAGE_REF'', ''FABRIC_PROFILE'', ''HEAD_FABRIC_CIDR'',
     ''WORKER_FABRIC_CIDR'', ''HEAD_FABRIC_PEER'', ''WORKER_FABRIC_PEER'', ''HEAD_FABRIC_CONNECTION'',
     ''WORKER_FABRIC_CONNECTION'', ''HEAD_ROCE_GID_INDEX'', ''WORKER_ROCE_GID_INDEX'', ''MODEL_ROOT'',
     ''MODEL_CONTAINER_PATH'', ''MODEL_MANIFEST_SHA256'', ''STATE_ROOT'', ''CACHE_ROOT'', ''LOG_ROOT'',
     ''RESULT_ROOT'', ''REGISTRY'', ''IMAGE_REF'', ''MASTER_ADDR'', ''MASTER_PORT'', ''API_PORT'',
     ''HEAD_NODE_ADDR'', ''WORKER_NODE_ADDR'', ''HEAD_NET_IFACE'', ''WORKER_NET_IFACE'', ''HEAD_HCA'',
     ''WORKER_HCA'', ''HEAD_CUDA_VISIBLE_DEVICES'', ''WORKER_CUDA_VISIBLE_DEVICES'', ''ROCE_GID_INDEX'',
     ''ROCE_MTU'', ''API_BIND_ADDR'', ''ALLOW_PUBLIC_API'', ''FORWARD_LOCAL_PORT'', ''MAX_NUM_SEQS'',
     ''MAX_NUM_BATCHED_TOKENS'', ''ALLOW_PRODUCTION_IMAGES_IN_CANDIDATE'', ''PRODUCTION_CHANGE_ALLOWED'',
     ''BASE_IMAGE_REF'', ''BUILD_CONTEXT'', ''CONTAINERFILE'', ''IMAGE_REPOSITORY'', ''IMAGE_TAG'',
     ''IMAGE_ARCHIVE'', ''IMAGE_ARCHIVE_SHA256'', ''REMOTE_IMAGE_ARCHIVE'', ''PERF_MIN_TOKENS_PER_SECOND'',
     ''PERF_MAX_TTFT_SECONDS'', ''PERF_MAX_P95_ITL_MS'']"

subsection \<open>The env file\<close>

definition stack_env_line :: "string \<Rightarrow> env \<Rightarrow> (stack_error, env) comp" where
  "stack_env_line raw result =
     (let line = strip raw
      in if line = [] \<or> starts_with ''#'' line then ret result
         else bind (require (CHR ''='' \<in> set line)) (\<lambda>_.
           case partition_eq line of (k, value) \<Rightarrow>
             let key = strip k in
             bind (require (is_key key)) (\<lambda>_.
             bind (require (key \<in> set STACK_ENV_KEYS)) (\<lambda>_.
             bind (require (map_of result key = None)) (\<lambda>_.
             bind (require (\<forall>c\<in>set value. \<not> is_control c)) (\<lambda>_.
             bind (require (\<not> contains ''$('' value \<and> CHR 0x60 \<notin> set value)) (\<lambda>_.
               ret (result @ [(key, strip value)]))))))))"

definition stack_env :: "string option \<Rightarrow> (stack_error, env) comp" where
  "stack_env text =
     (case text of None \<Rightarrow> raise ObservabilityError | Some t \<Rightarrow> fold_comp stack_env_line (splitlines t) [])"

text \<open>\<^verbatim>\<open>_first\<close>: the first value that is not blank.\<close>

definition first_value :: "env \<Rightarrow> string list \<Rightarrow> string \<Rightarrow> string" where
  "first_value vs keys dflt =
     (case filter (\<lambda>v. v \<noteq> []) (map (\<lambda>k. strip (vget vs k)) keys) of [] \<Rightarrow> dflt | v # _ \<Rightarrow> v)"

subsection \<open>Single values\<close>

definition int_value :: "string \<Rightarrow> (stack_error, int) comp" where
  "int_value v =
     (case py_int v of None \<Rightarrow> raise ObservabilityError | Some i \<Rightarrow> bind (require (1 \<le> i \<and> i \<le> 65535)) (\<lambda>_. ret i))"

definition stack_host :: "string \<Rightarrow> (stack_error, string) comp" where
  "stack_host v = bind (require (safe_host v)) (\<lambda>_. ret v)"

definition stack_user :: "string \<Rightarrow> (stack_error, string) comp" where
  "stack_user v = bind (require (safe_id v)) (\<lambda>_. ret v)"

definition abs_path :: "path \<Rightarrow> bool \<Rightarrow> string \<Rightarrow> (stack_error, string) comp" where
  "abs_path repo is_external v =
     bind (require (starts_with ''/'' v \<and> length v > 1 \<and> (\<forall>c\<in>set v. \<not> is_control c))) (\<lambda>_.
     let p = path_of v; r = rstrip_char CHR ''/'' v in
     bind (require (\<not> has_dotdot p)) (\<lambda>_.
     bind (require (\<not> (is_external \<and> (p = repo \<or> in_parents repo p)))) (\<lambda>_.
       ret (if r = [] then ''/'' else r))))"

definition component_char :: "char \<Rightarrow> bool" where
  "component_char c \<longleftrightarrow> is_lower c \<or> is_digit c"

definition safe_component_name :: "string \<Rightarrow> (stack_error, string) comp" where
  "safe_component_name v =
     bind (require (case v of [] \<Rightarrow> False | c # s \<Rightarrow> component_char c
       \<and> (\<forall>d\<in>set s. component_char d \<or> d = CHR ''_'' \<or> d = CHR ''-''))) (\<lambda>_. ret v)"

text \<open>
  A repository and a digest: letters, digits, dots, underscores, slashes and dashes, the first a letter or a digit.
\<close>

definition digest_ref :: "string \<Rightarrow> bool" where
  "digest_ref v \<longleftrightarrow>
     (case split_on CHR ''@'' v of
        [c # r, d] \<Rightarrow> is_alnum c \<and> (\<forall>x\<in>set r. is_alnum x \<or> x \<in> {CHR ''.'', CHR ''_'', CHR ''/'', CHR ''-''}) \<and> bare_digest d
      | _ \<Rightarrow> False)"

subsection \<open>The profile\<close>

definition STACK_PORTS :: "(string \<times> int) list" where
  "STACK_PORTS = [(''grafana'', 13000), (''loki'', 13100), (''prometheus'', 19090), (''alertmanager'', 19093),
     (''node_exporter'', 19100), (''fabric_exporter'', 19110), (''lmcache_lifecycle'', 19120), (''lmcache_server'', 19121)]"

definition STACK_VOLUMES :: "string list" where
  "STACK_VOLUMES = [''prometheus'', ''grafana'', ''alertmanager'', ''loki'', ''promtail_head'', ''promtail_worker'']"

definition owned_name :: "json \<Rightarrow> bool" where
  "owned_name v \<longleftrightarrow> (case v of JStr s \<Rightarrow> starts_with ''dgx-observe-'' s | _ \<Rightarrow> False)"

definition check_parts :: "dict \<Rightarrow> (stack_error, unit) comp" where
  "check_parts prof =
     (case (item prof ''components'', item prof ''volumes'') of
        (JObj components, JObj volumes) \<Rightarrow>
          bind (require (\<forall>c\<in>set STACK_COMPONENTS. case item components c of
              JObj e \<Rightarrow> item e ''role'' \<in> {JStr ''head'', JStr ''worker''} \<and> owned_name (item e ''container'')
            | _ \<Rightarrow> False)) (\<lambda>_.
            require (\<forall>k\<in>set STACK_VOLUMES. owned_name (item volumes k)))
      | _ \<Rightarrow> raise ObservabilityError)"

definition load_stack_profile :: "python \<Rightarrow> string option \<Rightarrow> (stack_error, dict) comp" where
  "load_stack_profile P text =
     (case text of
        None \<Rightarrow> raise ObservabilityError
      | Some t \<Rightarrow> (case py_loads P t of
          Some (JObj prof) \<Rightarrow>
            bind (require (item prof ''architecture'' = JStr ARCHITECTURE)) (\<lambda>_.
            bind (require (case item prof ''network'' of
                JObj network \<Rightarrow> py_eq (item network ''ports'') (JObj (map (\<lambda>(k, n). (k, JInt n)) STACK_PORTS)) | _ \<Rightarrow> False)) (\<lambda>_.
            bind (require (case item prof ''service'' of
                JObj service \<Rightarrow> py_eq (item service ''api_port'') (JInt 8101) | _ \<Rightarrow> False)) (\<lambda>_.
            bind (check_parts prof) (\<lambda>_. ret prof))))
        | _ \<Rightarrow> raise ObservabilityError))"

subsection \<open>The image lock\<close>

definition locked_ref :: "dict \<Rightarrow> string \<Rightarrow> (stack_error, string) comp" where
  "locked_ref images key =
     (case item images key of
        JObj e \<Rightarrow> (case item e ''reference'' of
          JStr ref \<Rightarrow>
            bind (require (digest_ref ref)) (\<lambda>_.
            bind (require (case item e ''digest'' of
                JNull \<Rightarrow> True | JStr d \<Rightarrow> is_sha256 d \<and> starts_with (rev (''@sha256:'' @ d)) (rev ref) | _ \<Rightarrow> False)) (\<lambda>_. ret ref))
        | _ \<Rightarrow> raise ObservabilityError)
      | _ \<Rightarrow> raise ObservabilityError)"

fun locked_refs :: "dict \<Rightarrow> string list \<Rightarrow> (stack_error, env) comp" where
  "locked_refs images [] = ret []"
| "locked_refs images (k # ks) = bind (locked_ref images k) (\<lambda>r. bind (locked_refs images ks) (\<lambda>rs. ret ((k, r) # rs)))"

definition check_stack_lock :: "json \<Rightarrow> (stack_error, env) comp" where
  "check_stack_lock j =
     (case j of
        JObj lock \<Rightarrow>
          bind (require (py_eq (item lock ''schema_version'') (JInt 1))) (\<lambda>_.
          bind (require (item lock ''status'' = JStr ''ready'')) (\<lambda>_.
          bind (require (item lock ''architecture'' = JStr ARCHITECTURE)) (\<lambda>_.
            case item lock ''images'' of
              JObj images \<Rightarrow> locked_refs images (map fst DEFAULT_IMAGE_TAGS)
            | _ \<Rightarrow> raise ObservabilityError)))
      | _ \<Rightarrow> raise ObservabilityError)"

definition load_stack_lock :: "python \<Rightarrow> string option \<Rightarrow> (stack_error, env) comp" where
  "load_stack_lock P text =
     (case text of
        None \<Rightarrow> raise ObservabilityError
      | Some t \<Rightarrow> (case py_loads P t of None \<Rightarrow> raise ObservabilityError | Some j \<Rightarrow> check_stack_lock j))"

text \<open>\<^verbatim>\<open>_lock_document\<close>; the entries are copied, which raises unless they are objects.\<close>

definition lock_document :: "(string \<times> dict) list \<Rightarrow> dict" where
  "lock_document images =
     [(''schema_version'', JInt 1), (''status'', JStr ''ready''), (''architecture'', JStr ARCHITECTURE),
      (''images'', JObj (map (\<lambda>(k, e). (k, JObj e)) (sort_key fst images)))]"

subsection \<open>Python's \<^verbatim>\<open>dict\<close> of a value\<close>

text \<open>
  An object is copied; the items of another sequence have to be pairs with a hashable key.  Keys that are not
  strings are never looked up and are left out.
\<close>

definition pair_of :: "json \<Rightarrow> (stack_error, dict) comp" where
  "pair_of v =
     (let entry_of = (\<lambda>k v. case k of JStr s \<Rightarrow> ret [(s, v)] | JArr _ \<Rightarrow> raise StackCrash | JObj _ \<Rightarrow> raise StackCrash | _ \<Rightarrow> ret [])
      in case v of
           JArr [k, w] \<Rightarrow> entry_of k w
         | JStr [a, b] \<Rightarrow> ret [([a], JStr [b])]
         | JObj [(k, _), (w, _)] \<Rightarrow> ret [(k, JStr w)]
         | _ \<Rightarrow> raise StackCrash)"

definition py_dict :: "json \<Rightarrow> (stack_error, dict) comp" where
  "py_dict v =
     (case v of
        JObj es \<Rightarrow> ret es
      | JArr xs \<Rightarrow> fold_comp (\<lambda>x es. bind (pair_of x) (\<lambda>e. ret (dict_update es e))) xs []
      | JStr [] \<Rightarrow> ret []
      | _ \<Rightarrow> raise StackCrash)"

subsection \<open>The configuration\<close>

record stack_config =
  sk_head_host :: string
  sk_worker_host :: string
  sk_head_ssh :: string
  sk_worker_ssh :: string
  sk_head_user :: string
  sk_worker_user :: string
  sk_ssh_port :: int
  sk_known_hosts :: string
  sk_identity :: string
  sk_remote_root :: string
  sk_bind_addr :: string
  sk_vllm_port :: int
  sk_metrics_path :: string
  sk_scheme :: string
  sk_admin_user :: string
  sk_admin_password :: string
  sk_ports :: dict
  sk_containers :: "(string \<times> string) list"
  sk_volumes :: dict
  sk_head_node :: string
  sk_worker_node :: string
  sk_vllm_head :: string
  sk_vllm_worker :: string
  sk_log_head :: string
  sk_log_worker :: string
  sk_hca :: string
  sk_ndev :: string
  sk_gid_index :: string
  sk_profile_id :: string
  sk_retention :: dict
  sk_intervals :: dict
  sk_images :: env
  sk_proxy :: string

definition no_stack :: stack_config where
  "no_stack = \<lparr>sk_head_host = [], sk_worker_host = [], sk_head_ssh = [], sk_worker_ssh = [], sk_head_user = [], sk_worker_user = [],
     sk_ssh_port = 0, sk_known_hosts = [], sk_identity = [], sk_remote_root = [], sk_bind_addr = [], sk_vllm_port = 0,
     sk_metrics_path = [], sk_scheme = [], sk_admin_user = [], sk_admin_password = [], sk_ports = [], sk_containers = [],
     sk_volumes = [], sk_head_node = [], sk_worker_node = [], sk_vllm_head = [], sk_vllm_worker = [], sk_log_head = [],
     sk_log_worker = [], sk_hca = [], sk_ndev = [], sk_gid_index = [], sk_profile_id = [], sk_retention = [], sk_intervals = [],
     sk_images = [], sk_proxy = []\<rparr>"

text \<open>The configuration is made in the order of the code, a group of values at a time.\<close>

definition stack_hosts :: "python \<Rightarrow> dict \<Rightarrow> env \<Rightarrow> stack_config \<Rightarrow> (stack_error, stack_config) comp" where
  "stack_hosts P prof vs c =
     bind (crash (jpath (JObj prof) [''network'', ''ports''])) (\<lambda>ports.
     bind (crash (jpath (JObj prof) [''network'', ''head_addr''])) (\<lambda>ha.
     bind (stack_host (first_value vs [''OBS_HEAD_HOST'', ''HEAD_HOST''] (py_str P ha))) (\<lambda>head.
     bind (crash (jpath (JObj prof) [''network'', ''worker_addr''])) (\<lambda>wa.
     bind (stack_host (first_value vs [''OBS_WORKER_HOST'', ''WORKER_HOST''] (py_str P wa))) (\<lambda>worker.
     bind (stack_host (first_value vs [''OBS_HEAD_SSH_HOST'', ''HEAD_SSH_HOST''] head)) (\<lambda>head_ssh.
     bind (stack_host (first_value vs [''OBS_WORKER_SSH_HOST'', ''WORKER_SSH_HOST''] worker)) (\<lambda>worker_ssh.
       ret (c\<lparr>sk_ports := (case ports of JObj es \<Rightarrow> es | _ \<Rightarrow> []), sk_head_host := head, sk_worker_host := worker,
         sk_head_ssh := head_ssh, sk_worker_ssh := worker_ssh\<rparr>))))))))"

definition stack_users :: "bool \<Rightarrow> env \<Rightarrow> stack_config \<Rightarrow> (stack_error, stack_config) comp" where
  "stack_users require_remote vs c =
     (let user = first_value vs [''OBS_SSH_USER'', ''SSH_USER''] [];
          head = first_value vs [''OBS_HEAD_SSH_USER'', ''HEAD_SSH_USER''] user;
          worker = first_value vs [''OBS_WORKER_SSH_USER'', ''WORKER_SSH_USER''] user
      in bind (require (head = [] \<longrightarrow> \<not> require_remote)) (\<lambda>_.
         bind (require (worker = [] \<longrightarrow> \<not> require_remote)) (\<lambda>_.
         bind (stack_user (if head = [] then ''operator'' else head)) (\<lambda>head.
         bind (stack_user (if worker = [] then ''operator'' else worker)) (\<lambda>worker.
         bind (int_value (first_value vs [''OBS_SSH_PORT'', ''SSH_PORT''] ''22'')) (\<lambda>port.
           ret (c\<lparr>sk_head_user := head, sk_worker_user := worker, sk_ssh_port := port\<rparr>)))))))"

definition stack_endpoints :: "python \<Rightarrow> path \<Rightarrow> bool \<Rightarrow> dict \<Rightarrow> env \<Rightarrow> stack_config \<Rightarrow> (stack_error, stack_config) comp" where
  "stack_endpoints P repo require_remote prof vs c =
     bind (abs_path repo require_remote (first_value vs [''OBS_REMOTE_ROOT''] ''/tmp/dgx-spark-observability-render'')) (\<lambda>remote_root.
     let bind_addr = first_value vs [''OBS_BIND_ADDR''] ''0.0.0.0'' in
     bind (require (bind_addr \<in> {''0.0.0.0'', ''127.0.0.1'', ''::1''})) (\<lambda>_.
     bind (int_value (first_value vs [''OBS_VLLM_PORT'', ''API_PORT''] ''8101'')) (\<lambda>vllm_port.
     bind (require (vllm_port = 8101)) (\<lambda>_.
     bind (crash (jpath (JObj prof) [''service'', ''metrics_path''])) (\<lambda>mp.
     let metrics_path = first_value vs [''OBS_VLLM_METRICS_PATH''] (py_str P mp) in
     bind (require (starts_with ''/'' metrics_path
       \<and> (\<forall>x\<in>set metrics_path. x \<notin> {CHR '' '', CHR 0x09, CHR 0x0D, CHR 0x0A, SQ, DQ}))) (\<lambda>_.
     let scheme = first_value vs [''OBS_VLLM_SCHEME''] ''http'' in
     bind (require (scheme \<in> {''http'', ''https''})) (\<lambda>_.
       ret (c\<lparr>sk_remote_root := remote_root, sk_bind_addr := bind_addr, sk_vllm_port := vllm_port,
         sk_metrics_path := metrics_path, sk_scheme := scheme\<rparr>))))))))"

definition DEFAULT_PASSWORD :: string where
  "DEFAULT_PASSWORD = ''123456''"

definition stack_admin :: "env \<Rightarrow> stack_config \<Rightarrow> (stack_error, stack_config) comp" where
  "stack_admin vs c =
     (let user = first_value vs [''OBS_GRAFANA_ADMIN_USER''] ''admin'';
          password = (case map_of vs ''OBS_GRAFANA_ADMIN_PASSWORD'' of None \<Rightarrow> DEFAULT_PASSWORD | Some p \<Rightarrow> p)
      in bind (require (safe_id user)) (\<lambda>_.
         bind (require (\<forall>x\<in>set password. \<not> is_control x)) (\<lambda>_.
           ret (c\<lparr>sk_admin_user := user, sk_admin_password := password\<rparr>))))"

fun named_containers :: "python \<Rightarrow> dict \<Rightarrow> (stack_error, (string \<times> string) list) comp" where
  "named_containers P [] = ret []"
| "named_containers P ((k, v) # es) =
     bind (crash (jitem v ''container'')) (\<lambda>n.
     bind (safe_component_name (py_str P n)) (\<lambda>n.
     bind (named_containers P es) (\<lambda>ns. ret ((k, n) # ns))))"

text \<open>The characters of the Python literal \<^verbatim>\<open>"*?[\\r\\n'\""\<close>, a backslash and two letters among them.\<close>

definition LOG_PATH_REFUSED :: string where
  "LOG_PATH_REFUSED = [CHR ''*'', CHR ''?'', CHR ''['', CHR 0x5C, CHR ''r'', CHR 0x5C, CHR ''n'', SQ, DQ]"

definition log_path_ok :: "string \<Rightarrow> bool" where
  "log_path_ok p \<longleftrightarrow> p = [] \<or> starts_with ''/'' p \<and> (\<forall>x\<in>set p. x \<notin> set LOG_PATH_REFUSED)"

definition stack_containers :: "python \<Rightarrow> dict \<Rightarrow> env \<Rightarrow> stack_config \<Rightarrow> (stack_error, stack_config) comp" where
  "stack_containers P prof vs c =
     bind (crash (jitem (JObj prof) ''components'')) (\<lambda>comps.
     bind (named_containers P (case comps of JObj es \<Rightarrow> es | _ \<Rightarrow> [])) (\<lambda>names.
     let lh = first_value vs [''OBS_VLLM_LOG_PATH_HEAD''] []; lw = first_value vs [''OBS_VLLM_LOG_PATH_WORKER''] [] in
     bind (safe_component_name (first_value vs [''OBS_VLLM_CONTAINER_HEAD''] ''dsv4-native432-dspark5-327k-seq5-head'')) (\<lambda>vh.
     bind (safe_component_name (first_value vs [''OBS_VLLM_CONTAINER_WORKER''] ''dsv4-native432-dspark5-327k-seq5-worker'')) (\<lambda>vw.
     bind (require (log_path_ok lh \<and> log_path_ok lw)) (\<lambda>_.
       ret (c\<lparr>sk_containers := names, sk_vllm_head := vh, sk_vllm_worker := vw, sk_log_head := lh, sk_log_worker := lw\<rparr>))))))"

definition fabric_text :: "string \<Rightarrow> bool" where
  "fabric_text v \<longleftrightarrow> (\<forall>x\<in>set v. is_alnum x \<or> x \<in> {CHR ''_'', CHR ''.'', CHR ''-''})"

definition DOCKER_PROXY :: string where
  "DOCKER_PROXY = ''http://127.0.0.1:7890''"

definition stack_fabric :: "python \<Rightarrow> dict \<Rightarrow> env \<Rightarrow> stack_config \<Rightarrow> (stack_error, stack_config) comp" where
  "stack_fabric P prof vs c =
     (let network = (case item prof ''network'' of JObj es \<Rightarrow> es | _ \<Rightarrow> []);
          hca = first_value vs [''OBS_FABRIC_HCA''] (get_str P network ''hca'');
          ndev = first_value vs [''OBS_FABRIC_NDEV''] (get_str P network ''interface'');
          gid = first_value vs [''OBS_FABRIC_GID_INDEX''] [];
          proxy = first_value vs [''OBS_DOCKER_PROXY''] []
      in bind (require (fabric_text hca \<and> fabric_text ndev \<and> fabric_text gid)) (\<lambda>_.
         bind (require (proxy \<in> {[], DOCKER_PROXY})) (\<lambda>_.
           ret (c\<lparr>sk_hca := hca, sk_ndev := ndev, sk_gid_index := gid, sk_proxy := proxy\<rparr>))))"

text \<open>The names and records that are copied at the end.\<close>

definition stack_rest :: "python \<Rightarrow> dict \<Rightarrow> env \<Rightarrow> env option \<Rightarrow> stack_config \<Rightarrow> (stack_error, stack_config) comp" where
  "stack_rest P prof vs lock c =
     bind (bind (crash (jitem (JObj prof) ''volumes'')) py_dict) (\<lambda>volumes.
     bind (crash (jitem (JObj prof) ''profile_id'')) (\<lambda>pid.
     bind (case map_of prof ''retention'' of None \<Rightarrow> ret [] | Some v \<Rightarrow> py_dict v) (\<lambda>retention.
     bind (case map_of prof ''intervals'' of None \<Rightarrow> ret [] | Some v \<Rightarrow> py_dict v) (\<lambda>intervals.
       ret (c\<lparr>sk_known_hosts := first_value vs [''OBS_SSH_KNOWN_HOSTS_FILE'', ''SSH_KNOWN_HOSTS_FILE''] [],
         sk_identity := first_value vs [''OBS_SSH_IDENTITY_FILE'', ''SSH_IDENTITY_FILE''] [], sk_volumes := volumes,
         sk_head_node := first_value vs [''OBS_HEAD_NODE_NAME''] ''dgx-head'',
         sk_worker_node := first_value vs [''OBS_WORKER_NODE_NAME''] ''dgx-worker'', sk_profile_id := py_str P pid,
         sk_retention := retention, sk_intervals := intervals, sk_images := (case lock of None \<Rightarrow> [] | Some l \<Rightarrow> l)\<rparr>)))))"

definition stack_config_of :: "python \<Rightarrow> path \<Rightarrow> env \<Rightarrow> dict \<Rightarrow> env option \<Rightarrow> bool \<Rightarrow> (stack_error, stack_config) comp" where
  "stack_config_of P repo vs prof lock require_remote =
     bind (stack_hosts P prof vs no_stack) (\<lambda>c.
     bind (stack_users require_remote vs c) (\<lambda>c.
     bind (stack_endpoints P repo require_remote prof vs c) (\<lambda>c.
     bind (stack_admin vs c) (\<lambda>c.
     bind (stack_containers P prof vs c) (\<lambda>c.
     bind (stack_fabric P prof vs c) (\<lambda>c.
       stack_rest P prof vs lock c))))))"

end
