(* ===== verification/Stack_Render.thy ===== *)
theory Stack_Render
  imports Stack_Config
begin

text \<open>
  \<^verbatim>\<open>scripts/observability/stack.py\<close>: the files of the observability stack, as the bytes that are uploaded.
\<close>

subsection \<open>Texts\<close>

definition LF :: char where "LF = CHR 0x0A"
definition BS :: char where "BS = CHR 0x5C"

definition unlines :: "string list \<Rightarrow> string" where
  "unlines ls = concat (map (\<lambda>l. l @ [LF]) ls)"

text \<open>\<^verbatim>\<open>str.encode\<close>: UTF-8 of a code point below 256.\<close>

definition utf8 :: "string \<Rightarrow> string" where
  "utf8 s = concat (map (\<lambda>c. if code c < 128 then [c] else [char_of (192 + code c div 64), char_of (128 + code c mod 64)]) s)"

definition port_text :: "python \<Rightarrow> stack_config \<Rightarrow> string \<Rightarrow> string" where
  "port_text P c k = py_str P (item (sk_ports c) k)"

definition dict_text :: "python \<Rightarrow> dict \<Rightarrow> string \<Rightarrow> string \<Rightarrow> string" where
  "dict_text P d k dflt = (case map_of d k of None \<Rightarrow> dflt | Some v \<Rightarrow> py_str P v)"

definition interval :: "python \<Rightarrow> stack_config \<Rightarrow> string \<Rightarrow> string" where
  "interval P c k = dict_text P (sk_intervals c) k ''15s''"

subsection \<open>Prometheus\<close>

text \<open>One scrape job for an exporter that runs on both hosts.\<close>

definition pair_job :: "python \<Rightarrow> stack_config \<Rightarrow> string \<Rightarrow> string \<Rightarrow> string \<Rightarrow> string list" where
  \<open>pair_job P c job key service =
    [''  - job_name: '' @ job,
     ''    static_configs:'',
     ''      - targets:'',
     ''          - '' @ json_string (sk_head_host c @ '':'' @ port_text P c key),
     ''          - '' @ json_string (sk_worker_host c @ '':'' @ port_text P c key),
     ''        labels:'',
     ''          service: '' @ service]\<close>

definition render_prometheus :: "python \<Rightarrow> stack_config \<Rightarrow> string" where
  \<open>render_prometheus P c = unlines (
    [''global:'',
     ''  scrape_interval: '' @ interval P c ''scrape'',
     ''  evaluation_interval: '' @ interval P c ''evaluation'',
     ''  external_labels:'',
     ''    cluster: dgx-spark'',
     ''    profile: '' @ json_string (sk_profile_id c),
     ''rule_files:'',
     ''  - /etc/prometheus/rules/observability.rules.yml'',
     ''alerting:'',
     ''  alertmanagers:'',
     ''    - static_configs:'',
     ''        - targets: ["alertmanager:9093"]'',
     ''scrape_configs:'',
     ''  - job_name: vllm'',
     ''    metrics_path: '' @ json_string (sk_metrics_path c),
     ''    scheme: '' @ json_string (sk_scheme c),
     ''    static_configs:'',
     ''      - targets: ['' @ json_string (sk_head_host c @ '':'' @ show_int (sk_vllm_port c)) @ '']'',
     ''        labels:'',
     ''          service: vllm'',
     ''          node: '' @ json_string (sk_head_node c)]
    @ pair_job P c ''node'' ''node_exporter'' ''node-exporter''
    @ pair_job P c ''fabric'' ''fabric_exporter'' ''fabric-exporter''
    @ pair_job P c ''lmcache-lifecycle'' ''lmcache_lifecycle'' ''lmcache-lifecycle''
    @ pair_job P c ''lmcache-server'' ''lmcache_server'' ''lmcache-server''
    @ [''  - job_name: prometheus'',
     ''    static_configs:'',
     ''      - targets: ["prometheus:9090"]'',
     ''  - job_name: alertmanager'',
     ''    static_configs:'',
     ''      - targets: ["alertmanager:9093"]'',
     ''  - job_name: loki'',
     ''    metrics_path: /metrics'',
     ''    static_configs:'',
     ''      - targets: ["loki:3100"]''])\<close>

definition render_rules :: string where
  \<open>render_rules = unlines
    [''groups:'',
     ''  - name: dgx-spark-observability'',
     ''    interval: 15s'',
     ''    rules:'',
     ''      - alert: VLLMMetricsDown'',
     ''        expr: up{job="vllm"} == 0'',
     ''        for: 2m'',
     ''        labels:'',
     ''          severity: critical'',
     ''          service: vllm'',
     ''        annotations:'',
     ''          summary: vLLM metrics endpoint is unavailable'',
     ''          description: Prometheus cannot scrape the production vLLM metrics endpoint on port 8101.'',
     ''      - alert: NodeExporterDown'',
     ''        expr: up{job="node"} == 0'',
     ''        for: 2m'',
     ''        labels:'',
     ''          severity: warning'',
     ''          service: node-exporter'',
     ''        annotations:'',
     ''          summary: DGX node exporter is unavailable'',
     ''          description: A DGX node exporter has been unreachable for more than two minutes.'',
     ''      - alert: FabricExporterDown'',
     ''        expr: up{job="fabric"} == 0'',
     ''        for: 2m'',
     ''        labels:'',
     ''          severity: warning'',
     ''          service: fabric-exporter'',
     ''        annotations:'',
     ''          summary: DGX fabric exporter is unavailable'',
     ''          description: A fabric exporter has been unreachable for more than two minutes.'',
     ''      - alert: VLLMKVCacheHigh'',
     ''        expr: max(vllm:gpu_cache_usage_perc) > 90'',
     ''        for: 5m'',
     ''        labels:'',
     ''          severity: warning'',
     ''          service: vllm'',
     ''        annotations:'',
     ''          summary: vLLM KV cache usage is high'',
     ''          description: KV cache usage has exceeded 90 percent for five minutes.'',
     ''      - alert: VLLMRequestsWaiting'',
     ''        expr: sum(vllm:num_requests_waiting) > 0'',
     ''        for: 5m'',
     ''        labels:'',
     ''          severity: warning'',
     ''          service: vllm'',
     ''        annotations:'',
     ''          summary: vLLM requests are waiting'',
     ''          description: Requests have remained queued for five minutes.'',
     ''      - alert: VLLMPreemptions'',
     ''        expr: increase(vllm:num_preemptions_total[5m]) > 0'',
     ''        for: 1m'',
     ''        labels:'',
     ''          severity: warning'',
     ''          service: vllm'',
     ''        annotations:'',
     ''          summary: vLLM request preemptions increased'',
     ''          description: vLLM reported one or more request preemptions.'',
     ''      - alert: FabricGIDInvalid'',
     ''        expr: dgx_fabric_gid_valid == 0 or dgx_fabric_gid_ipv4_mapped == 0 or dgx_fabric_ndev_match == 0'',
     ''        for: 1m'',
     ''        labels:'',
     ''          severity: critical'',
     ''          service: fabric'',
     ''        annotations:'',
     ''          summary: F1 GID mapping is invalid'',
     ''          description: The selected F1 GID is empty, not IPv4-mapped, or bound to the wrong interface.'',
     ''      - alert: FabricNotRoCEv2'',
     ''        expr: dgx_fabric_rocev2_gid == 0'',
     ''        for: 1m'',
     ''        labels:'',
     ''          severity: critical'',
     ''          service: fabric'',
     ''        annotations:'',
     ''          summary: F1 GID is not RoCE v2'',
     ''          description: The selected F1 GID is not a valid RoCE v2 mapping.'',
     ''      - alert: FabricLinkDown'',
     ''        expr: dgx_fabric_link_up == 0'',
     ''        for: 1m'',
     ''        labels:'',
     ''          severity: critical'',
     ''          service: fabric'',
     ''        annotations:'',
     ''          summary: F1 network carrier is down'',
     ''          description: The reviewed enp1s0f1np1 carrier is down.'',
     ''      - alert: VLLMRequestErrors'',
     ''        expr: increase(vllm:request_success_total{finished_reason="abort"}[5m]) > 0'',
     ''        for: 5m'',
     ''        labels:'',
     ''          severity: warning'',
     ''          service: vllm'',
     ''        annotations:'',
     ''          summary: vLLM reported aborted requests'',
     ''          description: vLLM has reported aborted requests during the last five minutes.'']\<close>

subsection \<open>Alertmanager, Loki and Promtail\<close>

definition render_alertmanager :: string where
  \<open>render_alertmanager = unlines
    [''global:'',
     ''  resolve_timeout: 5m'',
     ''route:'',
     ''  receiver: default-null'',
     ''  group_by: [alertname, service]'',
     ''  group_wait: 30s'',
     ''  group_interval: 5m'',
     ''  repeat_interval: 4h'',
     ''receivers:'',
     ''  - name: default-null'']\<close>

definition render_loki :: string where
  \<open>render_loki = unlines
    [''auth_enabled: false'',
     ''server:'',
     ''  http_listen_port: 3100'',
     ''  grpc_listen_port: 9096'',
     ''common:'',
     ''  path_prefix: /loki'',
     ''  replication_factor: 1'',
     ''  ring:'',
     ''    kvstore:'',
     ''      store: inmemory'',
     ''  storage:'',
     ''    filesystem:'',
     ''      chunks_directory: /loki/chunks'',
     ''      rules_directory: /loki/rules'',
     ''schema_config:'',
     ''  configs:'',
     ''    - from: 2024-01-01'',
     ''      store: tsdb'',
     ''      object_store: filesystem'',
     ''      schema: v13'',
     ''      index:'',
     ''        prefix: index_'',
     ''        period: 24h'',
     ''limits_config:'',
     ''  retention_period: 168h'',
     ''compactor:'',
     ''  working_directory: /loki/compactor'',
     ''  retention_enabled: true'',
     ''  delete_request_store: filesystem'']\<close>

definition render_promtail :: "python \<Rightarrow> stack_config \<Rightarrow> string \<Rightarrow> string" where
  \<open>render_promtail P c role =
    (let target = (if role = ''head'' then ''http://loki:3100/loki/api/v1/push''
           else ''http://'' @ sk_head_host c @ '':'' @ port_text P c ''loki'' @ ''/loki/api/v1/push'');
         node = (if role = ''head'' then sk_head_node c else sk_worker_node c)
     in unlines
    [''server:'',
     ''  http_listen_port: 9080'',
     ''  grpc_listen_port: 0'',
     ''positions:'',
     ''  filename: /var/lib/promtail/positions.yaml'',
     ''clients:'',
     ''  - url: '' @ json_string target,
     ''scrape_configs:'',
     ''  - job_name: vllm'',
     ''    static_configs:'',
     ''      - targets: [localhost]'',
     ''        labels:'',
     ''          job: vllm'',
     ''          node: '' @ json_string node,
     ''          __path__: '' @ json_string ''/var/log/vllm.log''])\<close>

subsection \<open>Grafana\<close>

text \<open>\<^verbatim>\<open>json.dumps(value, indent=2)\<close>; \<open>n\<close> is the indentation of the value.\<close>

definition blanks :: "nat \<Rightarrow> string" where
  "blanks n = replicate n CHR '' ''"

definition block :: "nat \<Rightarrow> string \<Rightarrow> string \<Rightarrow> string list \<Rightarrow> string" where
  "block n opening closing items =
     (if items = [] then opening @ closing
      else opening @ join '','' (map (\<lambda>t. [LF] @ blanks (n + 2) @ t) items) @ [LF] @ blanks n @ closing)"

fun pretty_json :: "python \<Rightarrow> nat \<Rightarrow> json \<Rightarrow> string" where
  "pretty_json P n (JArr xs) = block n ''['' '']'' (map (pretty_json P (n + 2)) xs)"
| "pretty_json P n (JObj es) = block n ''{'' ''}'' (map (\<lambda>(k, v). json_string k @ '': '' @ pretty_json P (n + 2) v) es)"
| "pretty_json P n v = canonical_json (py_float P) v"

definition DASHBOARD_HEAD :: dict where
  \<open>DASHBOARD_HEAD =
     [(''id'', JNull), (''uid'', JStr ''dgx-spark-overview''), (''title'', JStr ''DGX Spark overview''),
     (''schemaVersion'', JInt 39), (''version'', JInt 2), (''refresh'', JStr ''15s''), (''time'', JObj
     [(''from'', JStr ''now-1h''), (''to'', JStr ''now'')])]\<close>

definition SERVING_PANELS :: "json list" where
  \<open>SERVING_PANELS =
     [JObj [(''id'', JInt 1), (''type'', JStr ''stat''), (''title'', JStr ''vLLM metrics''), (''gridPos'',
        JObj [(''h'', JInt 5), (''w'', JInt 6), (''x'', JInt 0), (''y'', JInt 0)]), (''targets'', JArr [JObj
        [(''expr'', JStr ''up{job="vllm"}''), (''refId'', JStr ''A'')]])],
      JObj [(''id'', JInt 2), (''type'', JStr ''timeseries''), (''title'', JStr ''vLLM requests running''),
        (''gridPos'', JObj [(''h'', JInt 8), (''w'', JInt 12), (''x'', JInt 6), (''y'', JInt 0)]),
        (''targets'', JArr [JObj [(''expr'', JStr ''vllm:num_requests_running''), (''refId'', JStr ''A'')]])],
      JObj [(''id'', JInt 18), (''type'', JStr ''stat''), (''title'', JStr
        ''Token totals (selected range)''), (''description'', JStr
        ''Counter increases over the active Grafana time range. Cached input includes local prefix-cache hits and external KV transfers.''),
        (''gridPos'', JObj [(''h'', JInt 8), (''w'', JInt 6), (''x'', JInt 18), (''y'', JInt 0)]),
        (''fieldConfig'', JObj [(''defaults'', JObj [(''unit'', JStr ''short''), (''decimals'', JInt 1),
        (''min'', JInt 0)]), (''overrides'', JArr [])]), (''options'', JObj [(''colorMode'', JStr ''none''),
        (''graphMode'', JStr ''none''), (''justifyMode'', JStr ''auto''), (''orientation'', JStr
        ''horizontal''), (''reduceOptions'', JObj [(''calcs'', JArr [JStr ''lastNotNull'']), (''fields'', JStr
        []), (''values'', JBool False)]), (''textMode'', JStr ''auto''), (''wideLayout'', JBool True)]),
        (''targets'', JArr [JObj [(''expr'', JStr
        ''sum(increase(vllm:prompt_tokens_total[$__range])) or vector(0)''), (''instant'', JBool True),
        (''refId'', JStr ''A''), (''legendFormat'', JStr ''input'')], JObj [(''expr'', JStr
        ''sum(increase(vllm:generation_tokens_total[$__range])) or vector(0)''), (''instant'', JBool True),
        (''refId'', JStr ''B''), (''legendFormat'', JStr ''output'')], JObj [(''expr'', JStr
        ''sum(increase(vllm:prompt_tokens_cached_total[$__range])) or vector(0)''), (''instant'', JBool True),
        (''refId'', JStr ''C''), (''legendFormat'', JStr ''cache hit'')]])]]\<close>

definition CACHE_PANELS :: "json list" where
  \<open>CACHE_PANELS =
     [JObj [(''id'', JInt 3), (''type'', JStr ''timeseries''), (''title'', JStr ''vLLM request throughput''),
        (''gridPos'', JObj [(''h'', JInt 8), (''w'', JInt 12), (''x'', JInt 0), (''y'', JInt 8)]),
        (''targets'', JArr [JObj [(''expr'', JStr ''rate(vllm:request_success_total[5m])''), (''refId'', JStr
        ''A'')]])],
      JObj [(''id'', JInt 4), (''type'', JStr ''timeseries''), (''title'', JStr ''Node CPU utilisation''),
        (''gridPos'', JObj [(''h'', JInt 8), (''w'', JInt 12), (''x'', JInt 12), (''y'', JInt 8)]),
        (''targets'', JArr [JObj [(''expr'', JStr
        ''100 - (avg by(instance) (rate(node_cpu_seconds_total{mode="idle"}[5m])) * 100)''), (''refId'', JStr
        ''A'')]])],
      JObj [(''id'', JInt 5), (''type'', JStr ''timeseries''), (''title'', JStr ''Fabric exporter health''),
        (''gridPos'', JObj [(''h'', JInt 8), (''w'', JInt 12), (''x'', JInt 0), (''y'', JInt 16)]),
        (''targets'', JArr [JObj [(''expr'', JStr ''up{job="fabric"}''), (''refId'', JStr ''A'')]])],
      JObj [(''id'', JInt 6), (''type'', JStr ''timeseries''), (''title'', JStr ''vLLM KV cache usage''),
        (''gridPos'', JObj [(''h'', JInt 8), (''w'', JInt 12), (''x'', JInt 12), (''y'', JInt 16)]),
        (''targets'', JArr [JObj [(''expr'', JStr ''vllm:kv_cache_usage_perc''), (''refId'', JStr ''A'')]])],
      JObj [(''id'', JInt 7), (''type'', JStr ''timeseries''), (''title'', JStr ''vLLM waiting requests''),
        (''gridPos'', JObj [(''h'', JInt 8), (''w'', JInt 12), (''x'', JInt 0), (''y'', JInt 24)]),
        (''targets'', JArr [JObj [(''expr'', JStr ''vllm:num_requests_waiting''), (''refId'', JStr ''A'')]])],
      JObj [(''id'', JInt 8), (''type'', JStr ''timeseries''), (''title'', JStr ''vLLM preemptions''),
        (''gridPos'', JObj [(''h'', JInt 8), (''w'', JInt 12), (''x'', JInt 12), (''y'', JInt 24)]),
        (''targets'', JArr [JObj [(''expr'', JStr ''rate(vllm:num_preemptions_total[5m])''), (''refId'', JStr
        ''A'')]])],
      JObj [(''id'', JInt 9), (''type'', JStr ''timeseries''), (''title'', JStr ''F1 GID validity''),
        (''gridPos'', JObj [(''h'', JInt 8), (''w'', JInt 12), (''x'', JInt 0), (''y'', JInt 32)]),
        (''targets'', JArr [JObj [(''expr'', JStr ''dgx_fabric_gid_valid''), (''refId'', JStr ''A'')], JObj
        [(''expr'', JStr ''dgx_fabric_rocev2_gid''), (''refId'', JStr ''B'')]])],
      JObj [(''id'', JInt 10), (''type'', JStr ''timeseries''), (''title'', JStr ''F1 link and MTU''),
        (''gridPos'', JObj [(''h'', JInt 8), (''w'', JInt 12), (''x'', JInt 12), (''y'', JInt 32)]),
        (''targets'', JArr [JObj [(''expr'', JStr ''dgx_fabric_link_up''), (''refId'', JStr ''A'')]])],
      JObj [(''id'', JInt 11), (''type'', JStr ''logs''), (''title'', JStr ''NCCL/RoCE errors''),
        (''gridPos'', JObj [(''h'', JInt 8), (''w'', JInt 24), (''x'', JInt 0), (''y'', JInt 40)]),
        (''targets'', JArr [JObj [(''expr'', JStr ''{job="vllm"} |~ "(?i)NCCL|RoCE|RDMA|timeout|preempt"''),
        (''refId'', JStr ''A''), (''datasource'', JObj [(''type'', JStr ''loki''), (''uid'', JStr
        ''dgx-loki'')])]])]]\<close>

definition LMCACHE_PANELS :: "json list" where
  \<open>LMCACHE_PANELS =
     [JObj [(''id'', JInt 12), (''type'', JStr ''timeseries''), (''title'', JStr
        ''External KV cache hit rate (LMCache)''), (''gridPos'', JObj [(''h'', JInt 8), (''w'', JInt 12),
        (''x'', JInt 0), (''y'', JInt 48)]), (''fieldConfig'', JObj [(''defaults'', JObj [(''unit'', JStr
        ''percentunit''), (''max'', JInt 1), (''min'', JInt 0)]), (''overrides'', JArr [])]), (''targets'',
        JArr [JObj [(''expr'', JStr
        ''sum(rate(vllm:external_prefix_cache_hits_total[5m])) / sum(rate(vllm:external_prefix_cache_queries_total[5m]))''),
        (''refId'', JStr ''A''), (''legendFormat'', JStr ''external hit rate'')]])],
      JObj [(''id'', JInt 13), (''type'', JStr ''timeseries''), (''title'', JStr
        ''Local prefix cache hit rate''), (''gridPos'', JObj [(''h'', JInt 8), (''w'', JInt 12), (''x'', JInt
        12), (''y'', JInt 48)]), (''fieldConfig'', JObj [(''defaults'', JObj [(''unit'', JStr ''percentunit''),
        (''max'', JInt 1), (''min'', JInt 0)]), (''overrides'', JArr [])]), (''targets'', JArr [JObj
        [(''expr'', JStr
        ''sum(rate(vllm:prefix_cache_hits_total[5m])) / sum(rate(vllm:prefix_cache_queries_total[5m]))''),
        (''refId'', JStr ''A''), (''legendFormat'', JStr ''local hit rate'')]])],
      JObj [(''id'', JInt 14), (''type'', JStr ''timeseries''), (''title'', JStr
        ''Token throughput (input/output)''), (''gridPos'', JObj [(''h'', JInt 8), (''w'', JInt 12), (''x'',
        JInt 0), (''y'', JInt 56)]), (''fieldConfig'', JObj [(''defaults'', JObj [(''unit'', JStr ''tps'')]),
        (''overrides'', JArr [])]), (''targets'', JArr [JObj [(''expr'', JStr
        ''sum(rate(vllm:prompt_tokens_total[5m]))''), (''refId'', JStr ''A''), (''legendFormat'', JStr
        ''input tokens/s'')], JObj [(''expr'', JStr ''sum(rate(vllm:generation_tokens_total[5m]))''),
        (''refId'', JStr ''B''), (''legendFormat'', JStr ''output tokens/s'')]])],
      JObj [(''id'', JInt 15), (''type'', JStr ''timeseries''), (''title'', JStr
        ''Prompt tokens by source (cache-hit input)''), (''gridPos'', JObj [(''h'', JInt 8), (''w'', JInt 12),
        (''x'', JInt 12), (''y'', JInt 56)]), (''fieldConfig'', JObj [(''defaults'', JObj [(''unit'', JStr
        ''tps'')]), (''overrides'', JArr [])]), (''targets'', JArr [JObj [(''expr'', JStr
        ''sum by (source) (rate(vllm:prompt_tokens_by_source_total[5m]))''), (''refId'', JStr ''A''),
        (''legendFormat'', JStr ''{{source}}'')], JObj [(''expr'', JStr
        ''sum(rate(vllm:external_prefix_cache_hits_total[5m]))''), (''refId'', JStr ''B''), (''legendFormat'',
        JStr ''external hit input tokens/s'')]])],
      JObj [(''id'', JInt 16), (''type'', JStr ''timeseries''), (''title'', JStr ''Prefix cache expiry''),
        (''gridPos'', JObj [(''h'', JInt 8), (''w'', JInt 12), (''x'', JInt 0), (''y'', JInt 64)]),
        (''targets'', JArr [JObj [(''expr'', JStr ''sum(rate(vllm:prefix_cache_expired_blocks_total[5m]))''),
        (''refId'', JStr ''A''), (''legendFormat'', JStr ''GPU blocks/s'')], JObj [(''expr'', JStr
        ''sum(rate(dgx_lmcache_l2_expired_entries_total[5m]))''), (''refId'', JStr ''B''), (''legendFormat'',
        JStr ''L2 objects/s'')]])],
      JObj [(''id'', JInt 17), (''type'', JStr ''timeseries''), (''title'', JStr ''LMCache L2 footprint''),
        (''gridPos'', JObj [(''h'', JInt 8), (''w'', JInt 12), (''x'', JInt 12), (''y'', JInt 64)]),
        (''fieldConfig'', JObj [(''defaults'', JObj [(''unit'', JStr ''bytes'')]), (''overrides'', JArr [])]),
        (''targets'', JArr [JObj [(''expr'', JStr ''dgx_lmcache_l2_bytes''), (''refId'', JStr ''A''),
        (''legendFormat'', JStr ''{{instance}} bytes'')], JObj [(''expr'', JStr ''dgx_lmcache_l2_entries''),
        (''refId'', JStr ''B''), (''legendFormat'', JStr ''{{instance}} objects'')]])]]\<close>

definition DASHBOARD :: json where
  "DASHBOARD = JObj (DASHBOARD_HEAD @ [(''panels'', JArr (SERVING_PANELS @ CACHE_PANELS @ LMCACHE_PANELS)),
     (''templating'', JObj [(''list'', JArr [])]), (''annotations'', JObj [(''list'', JArr [])])])"

definition render_grafana_dashboard :: "python \<Rightarrow> string" where
  "render_grafana_dashboard P = pretty_json P 0 DASHBOARD @ [LF]"

definition render_grafana_provisioning :: "(string \<times> string) list" where
  \<open>render_grafana_provisioning =
     [(''grafana/provisioning/datasources/datasources.yaml'', unlines
    [''apiVersion: 1'',
     ''datasources:'',
     ''  - name: Prometheus'',
     ''    uid: dgx-prometheus'',
     ''    type: prometheus'',
     ''    access: proxy'',
     ''    url: http://prometheus:9090'',
     ''    isDefault: true'',
     ''  - name: Loki'',
     ''    uid: dgx-loki'',
     ''    type: loki'',
     ''    access: proxy'',
     ''    url: http://loki:3100'']),
      (''grafana/provisioning/dashboards/dashboards.yaml'', unlines
    [''apiVersion: 1'',
     ''providers:'',
     ''  - name: dgx-spark'',
     ''    orgId: 1'',
     ''    folder: DGX Spark'',
     ''    type: file'',
     ''    disableDeletion: true'',
     ''    updateIntervalSeconds: 30'',
     ''    options:'',
     ''      path: /var/lib/grafana/dashboards''])]\<close>

subsection \<open>All files\<close>

definition render_files :: "python \<Rightarrow> string \<Rightarrow> stack_config \<Rightarrow> (string \<times> string) list" where
  "render_files P fabric_source c =
     [(''prometheus/prometheus.yml'', utf8 (render_prometheus P c)),
      (''prometheus/rules/observability.rules.yml'', utf8 render_rules),
      (''alertmanager/alertmanager.yml'', utf8 render_alertmanager),
      (''loki/loki.yml'', utf8 render_loki),
      (''grafana/dashboards/dgx-spark-overview.json'', utf8 (render_grafana_dashboard P)),
      (''fabric/fabric_exporter.py'', fabric_source)]
     @ map (\<lambda>(k, v). (k, utf8 v)) render_grafana_provisioning
     @ [(''promtail/head.yml'', utf8 (render_promtail P c ''head'')), (''promtail/worker.yml'', utf8 (render_promtail P c ''worker''))]"

end
