(* ===== verification/Stack_Script.thy ===== *)
theory Stack_Script
  imports Stack_Render
begin

text \<open>
  \<^verbatim>\<open>scripts/observability/stack.py\<close>: the shell scripts that run on the two hosts, and the calls that carry them.
\<close>

subsection \<open>Parts of the configuration\<close>

datatype stack_action = Stack_Up | Stack_Down | Stack_Status | Stack_Verify

definition vllm_container :: "stack_config \<Rightarrow> string \<Rightarrow> string" where
  "vllm_container c role = (if role = ''head'' then sk_vllm_head c else sk_vllm_worker c)"

definition log_path :: "stack_config \<Rightarrow> string \<Rightarrow> string" where
  "log_path c role = (if role = ''head'' then sk_log_head c else sk_log_worker c)"

definition role_key :: "string \<Rightarrow> string \<Rightarrow> string" where
  "role_key base role = base @ (if role = ''head'' then ''_head'' else ''_worker'')"

definition role_components :: "string \<Rightarrow> string list" where
  "role_components role = (if role = ''head'' then HEAD_COMPONENTS else WORKER_COMPONENTS)"

definition role_volumes :: "string \<Rightarrow> string list" where
  "role_volumes role =
     (if role = ''head'' then [''prometheus'', ''grafana'', ''alertmanager'', ''loki'', ''promtail_head''] else [''promtail_worker''])"

definition named :: "stack_config \<Rightarrow> string \<Rightarrow> (stack_error, string) comp" where
  "named c k = (case map_of (sk_containers c) k of None \<Rightarrow> raise StackCrash | Some n \<Rightarrow> ret n)"

text \<open>\<^verbatim>\<open>shlex.quote(volumes[key])\<close>, which takes anything false for the empty text.\<close>

definition quoted_volume :: "stack_config \<Rightarrow> string \<Rightarrow> (stack_error, string) comp" where
  "quoted_volume c k =
     (case map_of (sk_volumes c) k of
        None \<Rightarrow> raise StackCrash
      | Some (JStr s) \<Rightarrow> ret (shlex_quote s)
      | Some v \<Rightarrow> if truthy v then raise StackCrash else ret (shlex_quote []))"

fun gather :: "('a \<Rightarrow> (stack_error, 'b list) comp) \<Rightarrow> 'a list \<Rightarrow> (stack_error, 'b list) comp" where
  "gather f [] = ret []"
| "gather f (x # xs) = bind (f x) (\<lambda>a. bind (gather f xs) (\<lambda>as. ret (a @ as)))"

subsection \<open>The parts of a script\<close>

definition script_prelude :: "stack_config \<Rightarrow> string list" where
  \<open>script_prelude c =
    [''#!/usr/bin/env bash'',
     ''set -euo pipefail'',
     ''ROOT='' @ shlex_quote (sk_remote_root c),
     ''NETWORK='' @ shlex_quote (STACK_NAME @ ''-net''),
     ''LABEL_KEY=com.dgx-spark.observability'',
     ''LABEL=dgx-spark-observability'',
     ''owned_container() {'',
     ''  local name=$1 stack_label component_label'',
     ''  if ! docker inspect "$name" >/dev/null 2>&1; then return 1; fi'',
     ''  stack_label=$(docker inspect -f '' @ [SQ] @ ''{{ index .Config.Labels "com.dgx-spark.observability" }}''
       @ [SQ] @ '' "$name" 2>/dev/null || true)'',
     ''  component_label=$(docker inspect -f '' @ [SQ]
       @ ''{{ index .Config.Labels "com.dgx-spark.observability.component" }}'' @ [SQ]
       @ '' "$name" 2>/dev/null || true)'',
     ''  [[ "$stack_label" == "$LABEL" || ( ( "$stack_label" == "" || "$stack_label" == "<no value>" ) && "$component_label" == "$name" ) ]] || { echo "refusing unowned container: $name" >&2; return 2; }'',
     ''}'',
     ''owned_volume() {'',
     ''  local name=$1 labels'',
     ''  if ! docker volume inspect "$name" >/dev/null 2>&1; then docker volume create --label "$LABEL_KEY=$LABEL" "$name" >/dev/null; return; fi'',
     ''  labels=$(docker volume inspect -f '' @ [SQ] @ ''{{json .Labels}}'' @ [SQ]
       @ '' "$name" 2>/dev/null || true)'',
     ''  [[ "$labels" == *'' @ [SQ] @ ''"com.dgx-spark.observability"'' @ [SQ]
       @ ''* ]] || { echo "refusing unowned volume: $name" >&2; return 2; }'',
     ''}'',
     ''owned_network() {'',
     ''  local labels'',
     ''  if ! docker network inspect "$NETWORK" >/dev/null 2>&1; then docker network create --label "$LABEL_KEY=$LABEL" "$NETWORK" >/dev/null; return; fi'',
     ''  labels=$(docker network inspect -f '' @ [SQ] @ ''{{json .Labels}}'' @ [SQ]
       @ '' "$NETWORK" 2>/dev/null || true)'',
     ''  [[ "$labels" == *'' @ [SQ] @ ''"com.dgx-spark.observability"'' @ [SQ]
       @ ''* ]] || { echo "refusing unowned network: $NETWORK" >&2; return 2; }'',
     ''}'']
    @ (if sk_proxy c = [] then [] else [''DOCKER_PROXY='' @ shlex_quote (sk_proxy c)])\<close>

definition removal_line :: "string \<Rightarrow> string" where
  \<open>removal_line name =
     ''if owned_container '' @ shlex_quote name @ ''; then docker rm -f '' @ shlex_quote name @ '' >/dev/null; fi''\<close>

definition network_removal :: "string list" where
  \<open>network_removal =
    [''if docker network inspect "$NETWORK" >/dev/null 2>&1; then'',
     ''  owned_network'',
     ''  docker network rm "$NETWORK" >/dev/null || true'',
     ''fi'']\<close>

definition purge_line :: "string \<Rightarrow> string" where
  \<open>purge_line q =
     ''if docker volume inspect '' @ q @ '' >/dev/null 2>&1; then owned_volume '' @ q @ ''; docker volume rm '' @ q
       @ '' >/dev/null; fi''\<close>

definition status_line :: string where
  \<open>status_line =
     ''docker ps -a --filter label="$LABEL_KEY=$LABEL" --format '' @ [SQ] @ ''{{.Names}}'' @ [BS] @ ''t{{.Status}}'' @ [BS]
       @ ''t{{.Image}}'' @ [SQ] @ '' || true''\<close>

definition verify_lines :: "string \<Rightarrow> string list" where
  \<open>verify_lines name =
    [''owned_container '' @ shlex_quote name,
     ''state=$(docker inspect -f '' @ [SQ] @ ''{{.State.Status}}'' @ [SQ] @ '' '' @ shlex_quote name @ '')'',
     ''if [[ "$state" != running ]]; then echo '' @ shlex_quote (''observability container not running: '' @ name)
       @ ''" state=$state" >&2; exit 1; fi'']\<close>

definition log_lines :: "stack_config \<Rightarrow> string \<Rightarrow> string list" where
  \<open>log_lines c role =
    [''VLLM_CONTAINER='' @ shlex_quote (vllm_container c role),
     ''VLLM_LOG_PATH=$(docker inspect -f '' @ [SQ] @ ''{{.LogPath}}'' @ [SQ]
       @ '' "$VLLM_CONTAINER" 2>/dev/null || true)'',
     ''if [[ -z "$VLLM_LOG_PATH" || "$VLLM_LOG_PATH" != /* ]]; then echo "Docker LogPath for exact vLLM container is empty or not absolute: $VLLM_CONTAINER" >&2; exit 1; fi'']
    @ (if log_path c role = [] then [] else
       [''test "$VLLM_LOG_PATH" = '' @ shlex_quote (log_path c role)])\<close>

definition replace_line :: "string \<Rightarrow> string" where
  \<open>replace_line name =
     ''if docker inspect '' @ shlex_quote name @ '' >/dev/null 2>&1; then owned_container '' @ shlex_quote name
       @ ''; docker rm -f '' @ shlex_quote name @ '' >/dev/null; fi''\<close>

subsection \<open>Starting a container\<close>

definition upper_byte :: "char \<Rightarrow> char" where
  "upper_byte x = (if is_lower x then char_of (code x - 32) else x)"

definition locked_image :: "stack_config \<Rightarrow> string \<Rightarrow> (stack_error, string) comp" where
  "locked_image c key =
     (case map_of (sk_images c) key of
        None \<Rightarrow> raise ObservabilityError | Some ref \<Rightarrow> bind (require (digest_ref ref)) (\<lambda>_. ret ref))"

text \<open>\<open>opts\<close> are the port, environment and mount options, of which the empty ones are left out.\<close>

definition run_lines :: "stack_config \<Rightarrow> string \<Rightarrow> string \<Rightarrow> string \<Rightarrow> string list \<Rightarrow> (stack_error, string list) comp" where
  \<open>run_lines c name key args opts =
     bind (locked_image c key) (\<lambda>ref.
     let v = ''DGX_OBS_IMAGE_'' @ map upper_byte key in
       ret [v @ ''='' @ shlex_quote ref,
         ''if ! docker image inspect "$'' @ v @ ''" >/dev/null 2>&1 && docker image inspect ''
           @ shlex_quote (''dgx-observe-cache:'' @ key) @ '' >/dev/null 2>&1; then '' @ v @ ''=''
           @ shlex_quote (''dgx-observe-cache:'' @ key) @ ''; fi'',
         join '' '' ([(if sk_proxy c = [] then [] else (''HTTPS_PROXY="$DOCKER_PROXY" HTTP_PROXY="$DOCKER_PROXY" '')) @ ''docker run -d --restart unless-stopped'',
           ''--name '' @ shlex_quote name,
           ''--label "$LABEL_KEY=$LABEL"'',
           ''--label '' @ shlex_quote (''com.dgx-spark.observability.component='' @ name),
           ''--network "$NETWORK"'']
           @ (if key \<in> {''loki'', ''alertmanager'', ''prometheus''} then [''--network-alias '' @ shlex_quote key] else [])
           @ filter (\<lambda>t. t \<noteq> []) opts
           @ [''--log-opt max-size=20m --log-opt max-file=3'', ''"$'' @ v @ ''"'']
           @ (if args = [] then [] else [args]))
           @ '' >/dev/null''])\<close>

definition LOG_MOUNT :: string where
  \<open>LOG_MOUNT = ''--mount type=bind,src="$VLLM_LOG_PATH",dst=/var/log/vllm.log,readonly''\<close>

definition run_loki :: "python \<Rightarrow> stack_config \<Rightarrow> (stack_error, string list) comp" where
  \<open>run_loki P c =
     bind (named c ''loki'') (\<lambda>name. bind (quoted_volume c ''loki'') (\<lambda>q.
       run_lines c name ''loki'' (''-config.file=/etc/loki/loki.yml'')
         [''--publish '' @ shlex_quote (sk_bind_addr c @ '':'' @ port_text P c ''loki'' @ '':3100''),
          ''--mount type=bind,src='' @ ''"$ROOT"''
         @ ''/config/loki/loki.yml,dst=/etc/loki/loki.yml,readonly --mount type=volume,src='' @ q @ '',dst=/loki'']))\<close>

definition run_alertmanager :: "python \<Rightarrow> stack_config \<Rightarrow> (stack_error, string list) comp" where
  \<open>run_alertmanager P c =
     bind (named c ''alertmanager'') (\<lambda>name. bind (quoted_volume c ''alertmanager'') (\<lambda>q.
       run_lines c name ''alertmanager'' (''--config.file=/etc/alertmanager/alertmanager.yml --storage.path=/alertmanager'')
         [''--publish '' @ shlex_quote (sk_bind_addr c @ '':'' @ port_text P c ''alertmanager'' @ '':9093''),
          ''--mount type=bind,src='' @ ''"$ROOT"''
         @ ''/config/alertmanager/alertmanager.yml,dst=/etc/alertmanager/alertmanager.yml,readonly --mount type=volume,src=''
         @ q @ '',dst=/alertmanager'']))\<close>

definition run_prometheus :: "python \<Rightarrow> stack_config \<Rightarrow> (stack_error, string list) comp" where
  \<open>run_prometheus P c =
     bind (named c ''prometheus'') (\<lambda>name. bind (quoted_volume c ''prometheus'') (\<lambda>q.
       run_lines c name ''prometheus''
         (''--config.file=/etc/prometheus/prometheus.yml --storage.tsdb.path=/prometheus --storage.tsdb.retention.time=''
         @ shlex_quote (dict_text P (sk_retention c) ''prometheus_time'' ''7d'') @ '' --storage.tsdb.retention.size=''
         @ shlex_quote (dict_text P (sk_retention c) ''prometheus_size'' ''10GB''))
         [''--publish '' @ shlex_quote (sk_bind_addr c @ '':'' @ port_text P c ''prometheus'' @ '':9090''),
          ''--mount type=bind,src='' @ ''"$ROOT"''
         @ ''/config/prometheus/prometheus.yml,dst=/etc/prometheus/prometheus.yml,readonly --mount type=bind,src=''
         @ ''"$ROOT"''
         @ ''/config/prometheus/rules/observability.rules.yml,dst=/etc/prometheus/rules/observability.rules.yml,readonly --mount type=volume,src=''
         @ q @ '',dst=/prometheus'']))\<close>

definition run_grafana :: "python \<Rightarrow> stack_config \<Rightarrow> (stack_error, string list) comp" where
  \<open>run_grafana P c =
     bind (named c ''grafana'') (\<lambda>name. bind (quoted_volume c ''grafana'') (\<lambda>q.
       run_lines c name ''grafana'' []
         [''--publish '' @ shlex_quote (sk_bind_addr c @ '':'' @ port_text P c ''grafana'' @ '':3000''),
          ''--env-file '' @ ''"$ROOT"'' @ ''/grafana.env'',
          ''--mount type=volume,src='' @ q @ '',dst=/var/lib/grafana --mount type=bind,src='' @ ''"$ROOT"''
         @ ''/config/grafana/provisioning,dst=/etc/grafana/provisioning,readonly --mount type=bind,src=''
         @ ''"$ROOT"'' @ ''/config/grafana/dashboards,dst=/var/lib/grafana/dashboards,readonly'']))\<close>

definition run_promtail :: "stack_config \<Rightarrow> string \<Rightarrow> (stack_error, string list) comp" where
  \<open>run_promtail c role =
     bind (named c (role_key ''promtail'' role)) (\<lambda>name. bind (quoted_volume c (role_key ''promtail'' role)) (\<lambda>q.
       run_lines c name ''promtail'' (''-config.file=/etc/promtail/config.yml'')
         [''--mount type=bind,src='' @ ''"$ROOT"'' @ ''/config/promtail/'' @ (if role = ''head'' then ''head'' else ''worker'')
         @ ''.yml,dst=/etc/promtail/config.yml,readonly --mount type=volume,src='' @ q @ '',dst=/var/lib/promtail ''
         @ LOG_MOUNT]))\<close>

definition run_node_exporter :: "python \<Rightarrow> stack_config \<Rightarrow> string \<Rightarrow> (stack_error, string list) comp" where
  \<open>run_node_exporter P c role =
     bind (named c (role_key ''node_exporter'' role)) (\<lambda>name.
       run_lines c name ''node_exporter''
         (join '' '' (map shlex_quote [''--path.rootfs=/host'', ''--collector.filesystem.mount-points-exclude=^/(sys|proc|dev|host|etc)($|/)'']))
         [''--publish '' @ shlex_quote (sk_bind_addr c @ '':'' @ port_text P c ''node_exporter'' @ '':9100''),
          ''--mount type=bind,src=/,dst=/host,readonly,bind-propagation=rslave''])\<close>

definition run_fabric_exporter :: "python \<Rightarrow> stack_config \<Rightarrow> string \<Rightarrow> (stack_error, string list) comp" where
  \<open>run_fabric_exporter P c role =
     bind (named c (role_key ''fabric_exporter'' role)) (\<lambda>name.
       run_lines c name ''fabric_exporter'' (''python3 /opt/fabric_exporter.py'')
         [''--publish '' @ shlex_quote (sk_bind_addr c @ '':'' @ port_text P c ''fabric_exporter'' @ '':9100''),
          join '' '' (map (\<lambda>(k, v). shlex_quote (''--env='' @ k @ ''='' @ v))
            [(''FABRIC_HCA'', sk_hca c), (''FABRIC_NDEV'', sk_ndev c),
             (''FABRIC_GID_INDEX'', if sk_gid_index c = [] then ''4'' else sk_gid_index c), (''FABRIC_LISTEN_PORT'', ''9100'')]),
          ''--mount type=bind,src='' @ ''"$ROOT"''
         @ ''/config/fabric/fabric_exporter.py,dst=/opt/fabric_exporter.py,readonly --mount type=bind,src=/sys,dst=/host/sys,readonly''])\<close>

subsection \<open>The scripts\<close>

definition up_lines :: "python \<Rightarrow> stack_config \<Rightarrow> string \<Rightarrow> (stack_error, string list) comp" where
  "up_lines P c role =
     bind (gather (\<lambda>k. bind (named c k) (\<lambda>name. ret [replace_line name])) (role_components role)) (\<lambda>removals.
     bind (gather (\<lambda>k. bind (quoted_volume c k) (\<lambda>q. ret [''owned_volume '' @ q])) (role_volumes role)) (\<lambda>volumes.
     bind (if role = ''head'' then gather id [run_loki P c, run_alertmanager P c, run_prometheus P c, run_grafana P c] else ret []) (\<lambda>services.
     bind (gather id [run_promtail c role, run_node_exporter P c role, run_fabric_exporter P c role]) (\<lambda>exporters.
       ret (log_lines c role @ [''owned_network''] @ removals @ volumes @ services @ exporters)))))"

definition script_lines :: "python \<Rightarrow> stack_config \<Rightarrow> string \<Rightarrow> stack_action \<Rightarrow> bool \<Rightarrow> (stack_error, string list) comp" where
  "script_lines P c role act purge =
     (case act of
        Stack_Down \<Rightarrow>
          bind (gather (\<lambda>k. bind (named c k) (\<lambda>name. ret [removal_line name])) (role_components role)) (\<lambda>removals.
          bind (if purge then gather (\<lambda>k. bind (quoted_volume c k) (\<lambda>q. ret [purge_line q])) (role_volumes role) else ret []) (\<lambda>purges.
            ret (removals @ network_removal @ purges)))
      | Stack_Status \<Rightarrow> ret [status_line]
      | Stack_Verify \<Rightarrow> gather (\<lambda>k. bind (named c k) (\<lambda>name. ret (verify_lines name))) (role_components role)
      | Stack_Up \<Rightarrow> up_lines P c role)"

definition remote_script :: "python \<Rightarrow> stack_config \<Rightarrow> string \<Rightarrow> stack_action \<Rightarrow> bool \<Rightarrow> (stack_error, string) comp" where
  "remote_script P c role act purge =
     bind (script_lines P c role act purge) (\<lambda>ls. ret (unlines (script_prelude c @ ls)))"

subsection \<open>Reaching the hosts\<close>

definition ssh_user_of :: "stack_config \<Rightarrow> string \<Rightarrow> string" where
  "ssh_user_of c role = (if role = ''head'' then sk_head_user c else sk_worker_user c)"

definition ssh_host_of :: "stack_config \<Rightarrow> string \<Rightarrow> string" where
  "ssh_host_of c role = (if role = ''head'' then sk_head_ssh c else sk_worker_ssh c)"

definition host_target :: "stack_config \<Rightarrow> string \<Rightarrow> string" where
  "host_target c role = ssh_user_of c role @ ''@'' @ ssh_host_of c role"

definition host_key_options :: "stack_config \<Rightarrow> string list" where
  "host_key_options c =
     (if sk_known_hosts c = [] then [''-o'', ''StrictHostKeyChecking=accept-new'']
      else [''-o'', ''StrictHostKeyChecking=yes'', ''-o'', ''UserKnownHostsFile='' @ sk_known_hosts c])
     @ (if sk_identity c = [] then [] else [''-i'', sk_identity c])"

definition ssh_args :: "stack_config \<Rightarrow> string \<Rightarrow> string list" where
  "ssh_args c role = [''ssh'', ''-T'', ''-p'', show_int (sk_ssh_port c)] @ host_key_options c @ [host_target c role]"

definition scp_args :: "stack_config \<Rightarrow> string \<Rightarrow> string list" where
  "scp_args c role = [''scp'', ''-q'', ''-P'', show_int (sk_ssh_port c)] @ host_key_options c @ [host_target c role]"

end
