(* ===== verification/Stack_Run.thy ===== *)
theory Stack_Run
  imports Stack_Script Effects
begin

text \<open>
  \<^verbatim>\<open>scripts/observability/stack.py\<close>: the commands of the tool.  The state of a run is what it printed, the local
  files, and the processes it started.
\<close>

subsection \<open>Processes\<close>

text \<open>
  A process has its arguments, its standard input and, for an upload, the bytes of the temporary file that it names.  What it
  answers is an arbitrary function of its position in the run, its arguments and its input: the program is not
  found, cannot be started, or ends with a status and an output.
\<close>

datatype stack_answer = Not_Found | Not_Started | Exited int string

datatype process = Process (p_args: "string list") (p_input: "string option") (p_upload: "string option")

record stack_site =
  ss_python :: python
  ss_repo :: path
  ss_source :: string
  ss_profile :: string
  ss_answer :: "nat \<Rightarrow> string list \<Rightarrow> string option \<Rightarrow> stack_answer"
  ss_tmp :: "nat \<Rightarrow> string"
  ss_writable :: "string \<Rightarrow> bool"

record stack_world =
  sw_out :: string
  sw_disk :: "string \<rightharpoonup> string"
  sw_events :: "process list"

type_synonym 'a stk = "(stack_world, stack_error, 'a) io"

definition tell :: "string \<Rightarrow> unit stk" where
  "tell t = change (\<lambda>w. w\<lparr>sw_out := sw_out w @ t @ [LF]\<rparr>)"

definition calc_stk :: "(stack_error, 'a) comp \<Rightarrow> 'a stk" where
  "calc_stk m = lift id m"

text \<open>\<^verbatim>\<open>re.sub(r"GF_SECURITY_ADMIN_PASSWORD=.*", ...)\<close>: from the first occurrence in a line to its end.\<close>

definition PASSWORD_KEY :: string where
  "PASSWORD_KEY = ''GF_SECURITY_ADMIN_PASSWORD=''"

fun cut_at :: "string \<Rightarrow> string \<Rightarrow> string" where
  "cut_at p [] = []"
| "cut_at p (x # s) = (if starts_with p (x # s) then [] else x # cut_at p s)"

definition omit_password :: "string \<Rightarrow> string" where
  "omit_password t =
     join [LF] (map (\<lambda>l. if contains PASSWORD_KEY l then cut_at PASSWORD_KEY l @ PASSWORD_KEY @ ''[secret omitted]'' else l) (split_on LF t))"

definition rstrip :: "string \<Rightarrow> string" where
  "rstrip s = rev (dropWhile is_space (rev s))"

definition start_process :: "stack_site \<Rightarrow> string list \<Rightarrow> string option \<Rightarrow> string option \<Rightarrow> string stk" where
  "start_process S args input upload =
     seq (asks (\<lambda>w. length (sw_events w))) (\<lambda>n.
     seq (change (\<lambda>w. w\<lparr>sw_events := sw_events w @ [Process args input upload]\<rparr>)) (\<lambda>_.
       case ss_answer S n args input of
         Not_Found \<Rightarrow> throw ObservabilityError
       | Not_Started \<Rightarrow> throw StackOSError
       | Exited rc out \<Rightarrow> if rc \<noteq> 0 then throw ObservabilityError else give out))"

definition stack_local :: "stack_site \<Rightarrow> string list \<Rightarrow> string option \<Rightarrow> bool \<Rightarrow> string stk" where
  "stack_local S args input dry_run =
     (if dry_run
      then seq (tell (''DRY-RUN '' @ shlex_join args)) (\<lambda>_.
           seq (case input of Some t \<Rightarrow> if t = [] then give () else tell (rstrip (omit_password t)) | None \<Rightarrow> give ()) (\<lambda>_.
             give []))
      else start_process S args input None)"

text \<open>A script on a host, and the copy of a temporary file with the given bytes.\<close>

definition on_host :: "stack_site \<Rightarrow> stack_config \<Rightarrow> string \<Rightarrow> string \<Rightarrow> bool \<Rightarrow> string stk" where
  "on_host S c role text dry_run = stack_local S (ssh_args c role @ [''bash'', ''-s'']) (Some text) dry_run"

definition upload :: "stack_site \<Rightarrow> stack_config \<Rightarrow> string \<Rightarrow> string \<Rightarrow> string \<Rightarrow> unit stk" where
  "upload S c role content destination =
     seq (asks (\<lambda>w. ss_tmp S (length (sw_events w)))) (\<lambda>tmp.
     seq (start_process S (butlast (scp_args c role) @ [tmp, host_target c role @ '':'' @ destination]) None (Some content)) (\<lambda>_. give ()))"

text \<open>\<^verbatim>\<open>try ... finally\<close>\<close>

definition finally_io :: "'a stk \<Rightarrow> unit stk \<Rightarrow> 'a stk" where
  "finally_io m n = seq (catch m (\<lambda>e. seq n (\<lambda>_. throw e))) (\<lambda>x. seq n (\<lambda>_. give x))"

subsection \<open>Preparing a host\<close>

definition parent_dir :: "string \<Rightarrow> string" where
  "parent_dir f = (let p = path_of f in path_str (fst p, butlast (snd p)))"

definition role_files :: "string \<Rightarrow> (string \<times> string) list \<Rightarrow> (string \<times> string) list" where
  "role_files role files =
     (if role = ''worker''
      then filter (\<lambda>(k, _). \<not> (\<exists>p\<in>set [''prometheus/'', ''alertmanager/'', ''loki/'', ''grafana/'']. starts_with p k)) files
      else files)"

definition file_dirs :: "(string \<times> string) list \<Rightarrow> string list" where
  "file_dirs files = sort (remdups (filter (\<lambda>d. d \<noteq> ''.'') (map (parent_dir \<circ> fst) files)))"

definition replace_backslash :: "string \<Rightarrow> string" where
  "replace_backslash s = concat (map (\<lambda>x. if x = BS then [BS, BS] else [x]) s)"

definition grafana_env :: "stack_config \<Rightarrow> bool \<Rightarrow> (stack_error, string) comp" where
  "grafana_env c require_password =
     (let password = sk_admin_password c in
      bind (require (require_password \<longrightarrow> password \<noteq> [])) (\<lambda>_.
        ret (utf8 (unlines [''GF_SECURITY_ADMIN_USER='' @ sk_admin_user c,
          PASSWORD_KEY @ filter (\<lambda>x. x \<noteq> LF) (replace_backslash password), ''GF_AUTH_ANONYMOUS_ENABLED=false'']))))"

definition upload_grafana_env :: "stack_site \<Rightarrow> stack_config \<Rightarrow> string \<Rightarrow> unit stk" where
  \<open>upload_grafana_env S c role =
     (let r = sk_remote_root c in
      seq (calc_stk (grafana_env c True)) (\<lambda>env.
      seq (upload S c role env (r @ ''/grafana.env'')) (\<lambda>_.
      seq (on_host S c role (''set -eu'' @ [LF] @ ''chmod 600 '' @ shlex_quote (r @ ''/grafana.env'') @ [LF]) False) (\<lambda>_. give ()))))\<close>

definition remote_prepare :: "stack_site \<Rightarrow> stack_config \<Rightarrow> string \<Rightarrow> (string \<times> string) list \<Rightarrow> bool \<Rightarrow> unit stk" where
  \<open>remote_prepare S c role files dry_run =
     (let r = sk_remote_root c; fs = role_files role files; dirs = file_dirs fs in
      seq (on_host S c role (''set -eu'' @ [LF] @ ''mkdir -p '' @ shlex_quote (r @ ''/config'') @ [LF] @ ''chmod 755 '' @ shlex_quote r
         @ [LF]) dry_run) (\<lambda>_.
      seq (if \<not> dry_run \<and> dirs \<noteq> []
           then seq (on_host S c role (unlines (''set -eu'' # map (\<lambda>d. ''mkdir -p '' @ shlex_quote (r @ ''/config/'' @ d)) dirs)) False) (\<lambda>_. give ())
           else give ()) (\<lambda>_.
      seq (each (\<lambda>(f, content).
             if dry_run
             then tell (''DRY-RUN upload '' @ role @ '' '' @ f @ '' ('' @ show_int (int (length content)) @ '' bytes)'')
             else upload S c role content (r @ ''/config/'' @ f)) fs) (\<lambda>_.
      seq (if dry_run then give ()
           else seq (on_host S c role (unlines ([''set -eu'', ''chmod 755 '' @ shlex_quote (r @ ''/config'')]
             @ map (\<lambda>d. ''chmod 755 '' @ shlex_quote (r @ ''/config/'' @ d)) dirs
             @ map (\<lambda>(f, _). ''chmod 644 '' @ shlex_quote (r @ ''/config/'' @ f)) fs)) False) (\<lambda>_. give ())) (\<lambda>_.
        if role \<noteq> ''head'' then give ()
        else if dry_run then tell ''DRY-RUN upload head grafana.env ([secret omitted])''
        else upload_grafana_env S c role)))))\<close>

definition proxy_document :: "string \<Rightarrow> string" where
  \<open>proxy_document proxy =
     ''{"proxies": {"http-proxy": '' @ json_string proxy @ '', "https-proxy": '' @ json_string proxy
     @ '', "no-proxy": "localhost,127.0.0.1,192.168.100.0/24"}}''\<close>

definition proxy_script :: "stack_config \<Rightarrow> string \<Rightarrow> string" where
  \<open>proxy_script c role =
     ''set -eu'' @ [LF] @ ''PROXY='' @ shlex_quote (sk_proxy c) @ [LF]
       @ ''INFO=$(docker info 2>/dev/null || true)'' @ [LF]
       @ ''if [[ "$INFO" == *"HTTP Proxy: $PROXY"* && "$INFO" == *"HTTPS Proxy: $PROXY"* ]]; then exit 0; fi'' @ [LF]
     @ (if role = ''head''
        then ''echo '' @ [SQ] @ ''DGX head Docker daemon is missing the configured registry proxy'' @ [SQ] @ '' >&2''
          @ [LF] @ ''exit 1'' @ [LF]
        else ''if [ -e /etc/docker/daemon.json ]; then'' @ [LF] @ ''  echo '' @ [SQ]
          @ ''refusing to overwrite existing /etc/docker/daemon.json'' @ [SQ] @ '' >&2'' @ [LF] @ ''  exit 1'' @ [LF]
          @ ''fi'' @ [LF] @ ''tmp=$(mktemp)'' @ [LF] @ ''trap '' @ [SQ] @ ''rm -f "$tmp"'' @ [SQ] @ '' EXIT'' @ [LF]
          @ ''sudo -n mkdir -p /etc/docker'' @ [LF] @ ''printf '' @ [SQ] @ ''%s'' @ [BS] @ ''n'' @ [SQ] @ '' ''
          @ shlex_quote (proxy_document (sk_proxy c)) @ '' >"$tmp"'' @ [LF]
          @ ''sudo -n install -o root -g root -m 0644 "$tmp" /etc/docker/daemon.json'' @ [LF]
          @ ''sudo -n systemctl daemon-reload'' @ [LF] @ ''sudo -n systemctl reload docker'' @ [LF]
          @ ''INFO=$(docker info 2>/dev/null || true)'' @ [LF]
          @ ''if [[ "$INFO" == *"HTTP Proxy: $PROXY"* && "$INFO" == *"HTTPS Proxy: $PROXY"* ]]; then exit 0; fi''
          @ [LF] @ ''echo '' @ [SQ]
          @ ''DGX worker Docker daemon did not report the configured registry proxy after reload'' @ [SQ] @ '' >&2''
          @ [LF] @ ''exit 1'' @ [LF])\<close>

definition remote_proxy_prepare :: "stack_site \<Rightarrow> stack_config \<Rightarrow> string \<Rightarrow> bool \<Rightarrow> unit stk" where
  "remote_proxy_prepare S c role dry_run =
     (if sk_proxy c = [] then give () else seq (on_host S c role (proxy_script c role) dry_run) (\<lambda>_. give ()))"

subsection \<open>Carrying the images to the worker\<close>

definition WORKER_IMAGES :: "string list" where
  "WORKER_IMAGES = [''promtail'', ''node_exporter'', ''fabric_exporter'']"

definition ARCHIVE :: string where
  "ARCHIVE = ''/tmp/'' @ STACK_NAME @ ''-worker-images.tar''"

definition proxy_prefix :: "stack_config \<Rightarrow> string" where
  \<open>proxy_prefix c = (if sk_proxy c = [] then [] else ''HTTPS_PROXY='' @ shlex_quote (sk_proxy c) @ '' HTTP_PROXY='' @ shlex_quote (sk_proxy c) @ '' '')\<close>

definition pull_script :: "stack_config \<Rightarrow> (string \<times> string) list \<Rightarrow> string" where
  \<open>pull_script c refs = unlines ([''set -eu'', ''ARCHIVE='' @ shlex_quote ARCHIVE]
     @ map (\<lambda>(key, ref). ''if ! docker image inspect '' @ shlex_quote ref @ '' >/dev/null 2>&1; then '' @ proxy_prefix c
         @ ''docker pull --platform '' @ shlex_quote ARCHITECTURE @ '' '' @ shlex_quote ref @ '' >/dev/null; fi''
         @ [LF] @ ''docker tag '' @ shlex_quote ref @ '' '' @ shlex_quote (''dgx-observe-cache:'' @ key)) refs
     @ [''docker save --output "$ARCHIVE" ''
         @ join '' '' (map (\<lambda>(key, _). shlex_quote (''dgx-observe-cache:'' @ key)) refs)])\<close>

definition remove_archive :: "stack_site \<Rightarrow> stack_config \<Rightarrow> unit stk" where
  \<open>remove_archive S c =
     each (\<lambda>role. catch (seq (on_host S c role (''set -eu'' @ [LF] @ ''rm -f '' @ shlex_quote ARCHIVE @ [LF]) False) (\<lambda>_. give ()))
       (\<lambda>e. if e = ObservabilityError then give () else throw e)) [''head'', ''worker'']\<close>

definition stage_worker_images :: "stack_site \<Rightarrow> stack_config \<Rightarrow> bool \<Rightarrow> unit stk" where
  \<open>stage_worker_images S c dry_run =
     seq (calc_stk (gather (\<lambda>key. bind (locked_image c key) (\<lambda>ref. ret [(key, ref)])) WORKER_IMAGES)) (\<lambda>refs.
       if dry_run then tell ''DRY-RUN stage locked worker images from DGX head to worker''
       else seq (on_host S c ''head'' (pull_script c refs) False) (\<lambda>_.
            seq (asks (\<lambda>w. ss_tmp S (length (sw_events w)))) (\<lambda>tmp.
              finally_io
                (seq (start_process S (butlast (scp_args c ''head'') @ [host_target c ''head'' @ '':'' @ ARCHIVE, tmp]) None None) (\<lambda>_.
                 seq (start_process S (butlast (scp_args c ''worker'') @ [tmp, host_target c ''worker'' @ '':'' @ ARCHIVE]) None None) (\<lambda>_.
                 seq (on_host S c ''worker'' (''set -eu'' @ [LF] @ ''docker load --input '' @ shlex_quote ARCHIVE @ '' >/dev/null'' @ [LF] @ ''rm -f ''
                   @ shlex_quote ARCHIVE @ [LF]) False) (\<lambda>_. give ()))))
                (remove_archive S c))))\<close>

subsection \<open>An action on both hosts\<close>

definition run_stack_action :: "stack_site \<Rightarrow> stack_config \<Rightarrow> stack_action \<Rightarrow> bool \<Rightarrow> bool \<Rightarrow> unit stk" where
  "run_stack_action S c act dry_run purge =
     (if act = Stack_Up
      then let files = render_files (ss_python S) (ss_source S) c in
           seq (stage_worker_images S c dry_run) (\<lambda>_.
             each (\<lambda>role.
               seq (remote_proxy_prepare S c role dry_run) (\<lambda>_.
               seq (remote_prepare S c role files dry_run) (\<lambda>_.
               seq (calc_stk (remote_script (ss_python S) c role Stack_Up False)) (\<lambda>text.
               seq (on_host S c role text dry_run) (\<lambda>_. give ()))))) [''head'', ''worker''])
      else each (\<lambda>role.
        seq (calc_stk (remote_script (ss_python S) c role act purge)) (\<lambda>text.
        seq (on_host S c role text dry_run) (\<lambda>out.
          if out = [] then give () else change (\<lambda>w. w\<lparr>sw_out := sw_out w @ ''['' @ role @ '']'' @ [LF] @ out\<rparr>)))) [''head'', ''worker''])"

subsection \<open>Arguments and inputs\<close>

text \<open>The namespace of \<^verbatim>\<open>argparse\<close>; an option that is not given, or given empty, is the empty text.\<close>

record stack_args =
  g_env_file :: string
  g_profile :: string
  g_image_lock :: string
  g_output :: string
  g_confirm :: string
  g_dry_run :: bool
  g_purge :: bool
  g_allow_mutable :: bool
  g_smoke :: bool

definition read_file :: "string \<Rightarrow> string option stk" where
  "read_file p = asks (\<lambda>w. sw_disk w (path_str (path_of p)))"

definition load_inputs :: "stack_site \<Rightarrow> stack_args \<Rightarrow> bool \<Rightarrow> (env \<times> dict \<times> env option) stk" where
  "load_inputs S a need_lock =
     seq (if g_env_file a = [] then give [] else seq (read_file (g_env_file a)) (\<lambda>t. calc_stk (stack_env t))) (\<lambda>vs.
     let from = (\<lambda>v k. if v = [] then vget vs k else v); pf = from (g_profile a) ''OBS_PROFILE_FILE'';
         lf = from (g_image_lock a) ''OBS_IMAGE_LOCK_FILE'' in
     seq (read_file (if pf = [] then ss_profile S else pf)) (\<lambda>t.
     seq (calc_stk (load_stack_profile (ss_python S) t)) (\<lambda>prof.
     seq (if need_lock \<and> lf \<noteq> [] then seq (read_file lf) (\<lambda>t. seq (calc_stk (load_stack_lock (ss_python S) t)) (\<lambda>l. give (Some l)))
          else give None) (\<lambda>lock.
     seq (calc_stk (require (need_lock \<longrightarrow> lock \<noteq> None))) (\<lambda>_. give (vs, prof, lock))))))"

definition load_config_for :: "stack_site \<Rightarrow> stack_args \<Rightarrow> bool \<Rightarrow> (env \<times> stack_config) stk" where
  "load_config_for S a need_lock =
     seq (load_inputs S a need_lock) (\<lambda>(vs, prof, lock).
     seq (calc_stk (stack_config_of (ss_python S) (ss_repo S) vs prof lock True)) (\<lambda>c. give (vs, c)))"

subsection \<open>The commands\<close>

definition write_file :: "stack_site \<Rightarrow> string \<Rightarrow> string \<Rightarrow> unit stk" where
  "write_file S p content =
     (if ss_writable S p then change (\<lambda>w. w\<lparr>sw_disk := (sw_disk w)(p \<mapsto> content)\<rparr>) else throw StackOSError)"

definition write_files :: "stack_site \<Rightarrow> string \<Rightarrow> (string \<times> string) list \<Rightarrow> unit stk" where
  "write_files S dir files = each (\<lambda>(f, content). write_file S (path_str (path_join (path_of dir) f)) content) files"

definition cmd_render :: "stack_site \<Rightarrow> stack_args \<Rightarrow> unit stk" where
  "cmd_render S a =
     seq (load_inputs S a False) (\<lambda>(vs, prof, _).
     seq (if g_allow_mutable a then give (Some DEFAULT_IMAGE_TAGS)
          else if g_image_lock a = [] then give None
          else seq (read_file (g_image_lock a)) (\<lambda>t. seq (calc_stk (load_stack_lock (ss_python S) t)) (\<lambda>l. give (Some l)))) (\<lambda>lock.
     seq (calc_stk (stack_config_of (ss_python S) (ss_repo S) vs prof lock False)) (\<lambda>c.
     let output = path_str (path_of (g_output a)) in
     seq (calc_stk (abs_path (ss_repo S) False output)) (\<lambda>_.
     seq (write_files S output (render_files (ss_python S) (ss_source S) c)) (\<lambda>_.
       tell (''rendered observability files under '' @ output))))))"

definition vllm_base :: "stack_config \<Rightarrow> string" where
  "vllm_base c = sk_scheme c @ ''://'' @ sk_head_host c @ '':'' @ show_int (sk_vllm_port c)"

definition health_script :: "stack_config \<Rightarrow> string" where
  \<open>health_script c = unlines (''set -eu'' # map (\<lambda>p. ''curl --fail --silent --show-error --max-time 15 '' @ shlex_quote (vllm_base c @ p) @ '' >/dev/null'')
     [''/health'', ''/v1/models'', sk_metrics_path c])\<close>

definition check_vllm :: "stack_site \<Rightarrow> stack_config \<Rightarrow> bool \<Rightarrow> unit stk" where
  "check_vllm S c dry_run = seq (on_host S c ''head'' (health_script c) dry_run) (\<lambda>_. give ())"

definition smoke_script :: "stack_config \<Rightarrow> string" where
  \<open>smoke_script c = unlines
     [''set -eu'',
      ''BASE='' @ shlex_quote (vllm_base c),
      ''models=$(curl --fail --silent --show-error --max-time 15 "$BASE/v1/models")'',
      ''model=$(printf '' @ [SQ] @ ''%s'' @ [SQ] @ '' "$models" | python3 -c '' @ [SQ]
        @ ''import json,sys; data=json.load(sys.stdin).get("data", []); print(data[0].get("id", "") if data and isinstance(data[0], dict) else "")''
        @ [SQ] @ '')'',
      ''test -n "$model"'',
      ''payload=$(MODEL="$model" python3 -c '' @ [SQ]
        @ ''import json,os; print(json.dumps({"model": os.environ["MODEL"], "prompt": "Hello", "max_tokens": 1, "temperature": 0}))''
        @ [SQ] @ '')'',
      ''response=$(curl --fail --silent --show-error --max-time 30 -H '' @ [SQ] @ ''Content-Type: application/json''
        @ [SQ] @ '' --data "$payload" "$BASE/v1/completions")'',
      ''RESPONSE="$response" python3 -c '' @ [SQ]
        @ ''import json,os; value=json.loads(os.environ["RESPONSE"]); choices=value.get("choices"); usage=value.get("usage", {}); assert isinstance(choices,list) and choices and isinstance(choices[0],dict) and isinstance(choices[0].get("text"),str); assert usage.get("completion_tokens") == 1, usage''
        @ [SQ]]\<close>

definition smoke_vllm :: "stack_site \<Rightarrow> stack_config \<Rightarrow> bool \<Rightarrow> unit stk" where
  "smoke_vllm S c dry_run = seq (on_host S c ''head'' (smoke_script c) dry_run) (\<lambda>_. give ())"

definition cmd_check_vllm :: "stack_site \<Rightarrow> stack_args \<Rightarrow> unit stk" where
  "cmd_check_vllm S a =
     seq (load_config_for S a False) (\<lambda>(_, c).
     seq (check_vllm S c (g_dry_run a)) (\<lambda>_.
     seq (if g_smoke a then smoke_vllm S c (g_dry_run a) else give ()) (\<lambda>_.
       tell (if g_dry_run a then ''dry-run complete; no DGX or production service access performed''
         else if g_smoke a then ''production vLLM /health, /v1/models, /metrics, and one-token smoke verified from DGX head''
         else ''production vLLM /health, /v1/models, and /metrics verified read-only from DGX head''))))"

definition CONFIRMATION :: string where
  "CONFIRMATION = ''DGX-OBSERVABILITY''"

definition cmd_deploy :: "stack_site \<Rightarrow> stack_args \<Rightarrow> unit stk" where
  "cmd_deploy S a =
     seq (calc_stk (require (g_confirm a = CONFIRMATION))) (\<lambda>_.
     seq (load_config_for S a True) (\<lambda>(vs, c).
     let skip = (map_of vs ''OBS_SKIP_VLLM_CHECK'' = Some ''1'') in
     seq (if skip then give () else check_vllm S c (g_dry_run a)) (\<lambda>_.
     seq (run_stack_action S c Stack_Up (g_dry_run a) False) (\<lambda>_.
     seq (if g_dry_run a \<or> skip then give () else check_vllm S c False) (\<lambda>_.
       tell (if g_dry_run a then ''dry-run complete; no DGX or Docker mutation performed''
         else ''observability stack deployed on DGX hosts; production vLLM health remained intact''))))))"

definition cmd_status :: "stack_site \<Rightarrow> stack_args \<Rightarrow> unit stk" where
  "cmd_status S a = seq (load_config_for S a False) (\<lambda>(_, c). run_stack_action S c Stack_Status (g_dry_run a) False)"

definition FABRIC_METRICS :: "string list" where
  "FABRIC_METRICS = [''dgx_fabric_gid_valid'', ''dgx_fabric_gid_ipv4_mapped'', ''dgx_fabric_gid_type_info'', ''dgx_fabric_ndev_match'',
     ''dgx_fabric_rocev2_gid'', ''dgx_fabric_mtu'', ''dgx_fabric_rdma_link_up'', ''dgx_fabric_link_up'']"

definition endpoint_lines :: "python \<Rightarrow> stack_config \<Rightarrow> string list" where
  \<open>endpoint_lines P c =
     map (\<lambda>(name, host, path).
       let url = ''http://'' @ host @ '':'' @ port_text P c name @ path in
         ''if ! curl --fail --silent --show-error --max-time 10 '' @ shlex_quote url @ '' >/dev/null; then echo ''
           @ shlex_quote (''observability endpoint failed: '' @ name) @ '' >&2; exit 1; fi'')
       [(''prometheus'', sk_bind_addr c, ''/-/ready''), (''grafana'', sk_bind_addr c, ''/api/health''),
        (''loki'', sk_head_host c, ''/ready''), (''alertmanager'', sk_bind_addr c, ''/-/ready'')]\<close>

definition exporter_lines :: "python \<Rightarrow> stack_config \<Rightarrow> string \<Rightarrow> string list" where
  \<open>exporter_lines P c host =
     (let node_url = shlex_quote (''http://'' @ host @ '':'' @ port_text P c ''node_exporter'' @ ''/metrics'');
          fabric_url = shlex_quote (''http://'' @ host @ '':'' @ port_text P c ''fabric_exporter'' @ ''/metrics'')
      in [''node_metrics=$(curl --fail --silent --show-error --max-time 10 '' @ node_url @ '')'',
          ''if [[ "$node_metrics" != *"node_exporter_build_info"* ]]; then echo ''
            @ shlex_quote (''node exporter failed: '' @ host) @ '' >&2; exit 1; fi'',
          ''if ! fabric_metrics=$(curl --fail --silent --show-error --max-time 10 '' @ fabric_url @ ''); then echo ''
            @ shlex_quote (''fabric exporter failed: '' @ host) @ '' >&2; exit 1; fi'']
         @ map (\<lambda>metric.
             ''if [[ "$fabric_metrics" != *"'' @ metric @ ''"* ]]; then echo ''
             @ shlex_quote (metric @ '' missing: '' @ host) @ '' >&2; exit 1; fi'')
           FABRIC_METRICS)\<close>

definition endpoint_script :: "python \<Rightarrow> stack_config \<Rightarrow> string" where
  \<open>endpoint_script P c = unlines ([''set -euo pipefail''] @ endpoint_lines P c @ exporter_lines P c (sk_head_host c)
     @ exporter_lines P c (sk_worker_host c)
     @ [''if ! curl --fail --silent --show-error --max-time 10 '' @ shlex_quote (vllm_base c @ sk_metrics_path c)
       @ '' >/dev/null; then echo '' @ [SQ] @ ''vLLM metrics endpoint failed'' @ [SQ] @ '' >&2; exit 1; fi''])\<close>

definition cmd_verify :: "stack_site \<Rightarrow> stack_args \<Rightarrow> unit stk" where
  "cmd_verify S a =
     seq (load_config_for S a False) (\<lambda>(_, c).
     seq (run_stack_action S c Stack_Verify (g_dry_run a) False) (\<lambda>_.
       if g_dry_run a then give ()
       else seq (on_host S c ''head'' (endpoint_script (ss_python S) c) False) (\<lambda>_.
         tell ''observability endpoints, exporters, and vLLM metrics verified from DGX head'')))"

definition cmd_down :: "stack_site \<Rightarrow> stack_args \<Rightarrow> unit stk" where
  "cmd_down S a =
     seq (load_config_for S a False) (\<lambda>(_, c).
     seq (run_stack_action S c Stack_Down (g_dry_run a) (g_purge a)) (\<lambda>_.
       tell (if g_dry_run a then ''dry-run complete; no DGX or Docker mutation performed''
         else ''observability containers removed; persistent volumes '' @ (if g_purge a then ''purged'' else ''retained''))))"

subsection \<open>Resolving the images\<close>

definition resolve_lines :: "string \<times> string \<Rightarrow> string \<Rightarrow> string list" where
  \<open>resolve_lines e comma =
     (case e of (key, tag) \<Rightarrow>
       [''docker pull --platform '' @ shlex_quote ARCHITECTURE @ '' '' @ shlex_quote tag @ '' >/dev/null'',
        ''ref=$(docker image inspect --format '' @ [SQ] @ ''{{index .RepoDigests 0}}'' @ [SQ] @ '' ''
          @ shlex_quote tag @ '')'',
        ''case "$ref" in *'' @ [SQ] @ ''@sha256:'' @ [SQ] @ ''*) ;; *) echo '' @ [SQ]
          @ ''image has no immutable RepoDigest'' @ [SQ] @ '' >&2; exit 1;; esac'',
        ''id=$(docker image inspect --format '' @ [SQ] @ ''{{.Id}}'' @ [SQ] @ '' '' @ shlex_quote tag @ '')'',
        ''printf '' @ [SQ] @ ''%s'' @ [SQ] @ '' '' @ shlex_quote (''  '' @ json_string key @ '': {"reference":"'')
          @ '' >>"$tmp"'',
        ''printf '' @ [SQ] @ ''%s'' @ [SQ] @ '' "$ref" >>"$tmp"'',
        ''printf '' @ [SQ] @ ''%s'' @ [SQ] @ '' '' @ shlex_quote ''","digest":"'' @ '' >>"$tmp"'',
        ''printf '' @ [SQ] @ ''%s'' @ [SQ] @ '' "${ref##*@sha256:}" >>"$tmp"'',
        ''printf '' @ [SQ] @ ''%s'' @ [SQ] @ '' '' @ shlex_quote ''","image_id":"'' @ '' >>"$tmp"'',
        ''printf '' @ [SQ] @ ''%s'' @ [SQ] @ '' "$id" >>"$tmp"'',
        ''printf '' @ [SQ] @ ''%s'' @ [BS] @ ''n'' @ [SQ] @ '' '' @ shlex_quote (''"}'' @ comma) @ '' >>"$tmp"''])\<close>

definition resolve_script :: string where
  \<open>resolve_script =
     (let tags = sort_key fst DEFAULT_IMAGE_TAGS in unlines (
       [''set -eu'',
        ''tmp=$(mktemp)'',
        ''trap '' @ [SQ] @ ''rm -f "$tmp"'' @ [SQ] @ '' EXIT'',
        ''printf '' @ [SQ] @ ''%s'' @ [BS] @ ''n'' @ [SQ] @ '' '' @ [SQ] @ ''{'' @ [SQ] @ '' >"$tmp"'']
       @ concat (map2 resolve_lines tags (replicate (length tags - 1) '','' @ [[]]))
       @ [''printf '' @ [SQ] @ ''%s'' @ [BS] @ ''n'' @ [SQ] @ '' '' @ [SQ] @ ''}'' @ [SQ] @ '' >>"$tmp"'',
        ''cat "$tmp"'']))\<close>

text \<open>The entries that the resolver printed, copied; \<^verbatim>\<open>sort_keys\<close> sorts every object of a document.\<close>

definition entry_dicts :: "dict \<Rightarrow> (stack_error, (string \<times> dict) list) comp" where
  "entry_dicts es = gather (\<lambda>(k, v). bind (py_dict v) (\<lambda>d. ret [(k, d)])) (sort_key fst es)"

fun sorted_keys :: "json \<Rightarrow> json" where
  "sorted_keys (JArr xs) = JArr (map sorted_keys xs)"
| "sorted_keys (JObj es) = JObj (sort_key fst (map (\<lambda>(k, v). (k, sorted_keys v)) es))"
| "sorted_keys v = v"

definition resolved_lock :: "python \<Rightarrow> string \<Rightarrow> (stack_error, json) comp" where
  "resolved_lock P text =
     (case py_loads P text of
        Some (JObj es) \<Rightarrow>
          bind (require (fst ` set es = fst ` set DEFAULT_IMAGE_TAGS)) (\<lambda>_.
          bind (entry_dicts es) (\<lambda>images. ret (JObj (lock_document images))))
      | _ \<Rightarrow> raise ObservabilityError)"

definition cmd_resolve_images :: "stack_site \<Rightarrow> stack_args \<Rightarrow> unit stk" where
  "cmd_resolve_images S a =
     seq (load_config_for S a False) (\<lambda>(_, c).
     let output = path_str (path_of (g_output a)) in
     seq (calc_stk (abs_path (ss_repo S) True output)) (\<lambda>_.
     seq (on_host S c ''head'' resolve_script (g_dry_run a)) (\<lambda>text.
       if g_dry_run a then tell (''DRY-RUN would write immutable lock to '' @ output)
       else seq (calc_stk (resolved_lock (ss_python S) text)) (\<lambda>lock.
            seq (write_file S output (pretty_json (ss_python S) 0 (sorted_keys lock) @ [LF])) (\<lambda>_.
              tell (''wrote immutable ARM64 observability image lock to '' @ output))))))"

subsection \<open>The command line\<close>

datatype stack_command = Render | Check_Vllm | Deploy | Status | Verify | Down | Resolve_Images

fun stack_dispatch :: "stack_site \<Rightarrow> stack_args \<Rightarrow> stack_command \<Rightarrow> unit stk" where
  "stack_dispatch S a Render = cmd_render S a"
| "stack_dispatch S a Check_Vllm = cmd_check_vllm S a"
| "stack_dispatch S a Deploy = cmd_deploy S a"
| "stack_dispatch S a Status = cmd_status S a"
| "stack_dispatch S a Verify = cmd_verify S a"
| "stack_dispatch S a Down = cmd_down S a"
| "stack_dispatch S a Resolve_Images = cmd_resolve_images S a"

text \<open>\<^verbatim>\<open>main\<close>: the exit status; the messages go to the standard error and are not modelled.\<close>

definition stack_main :: "stack_site \<Rightarrow> stack_args \<Rightarrow> stack_command \<Rightarrow> int stk" where
  "stack_main S a cmd =
     catch (seq (stack_dispatch S a cmd) (\<lambda>_. give 0)) (\<lambda>e. if e = ObservabilityError then give 2 else throw e)"

end
