(* ===== verification/Stack_Frames.thy ===== *)
theory Stack_Frames
  imports Stack_Run
begin

text \<open>
  What a command of the observability tool leaves alone: loading and dry runs start no process and write no file, and
  the processes of a run are only ever added.
\<close>

subsection \<open>Steps that change nothing\<close>

definition inert :: "stack_world \<Rightarrow> stack_world \<Rightarrow> bool" where
  "inert s t \<longleftrightarrow> sw_events t = sw_events s \<and> sw_disk t = sw_disk s"

lemma pre_inert [frame_rules]: "pre inert"
  by (simp add: pre_def inert_def)

lemma inert_tell [frame_rules]: "frame inert (tell t)"
  unfolding tell_def by (rule frame_change) (simp add: inert_def)

lemma frame_calc [frame_rules]: "pre R \<Longrightarrow> frame R (calc_stk m)"
  unfolding calc_stk_def by (rule frame_lift)

lemma frame_read [frame_rules]: "pre R \<Longrightarrow> frame R (read_file p)"
  unfolding read_file_def by (rule frame_asks)

lemma frame_let [frame_rules]: "(\<And>x. frame R (f x)) \<Longrightarrow> frame R (let x = m in f x)"
  by (simp add: Let_def)

lemma inert_dry_local [frame_rules]: "frame inert (stack_local S args input True)"
  unfolding stack_local_def by (simp, intro frame_rules)

lemma inert_dry_host [frame_rules]: "frame inert (on_host S c role t True)"
  unfolding on_host_def by (rule inert_dry_local)

lemma inert_inputs [frame_rules]: "frame inert (load_inputs S a b)"
  unfolding load_inputs_def Let_def by (intro frame_rules)

lemma inert_load [frame_rules]: "frame inert (load_config_for S a b)"
  unfolding load_config_for_def by (intro frame_rules)

lemma inert_proxy [frame_rules]: "frame inert (remote_proxy_prepare S c role True)"
  unfolding remote_proxy_prepare_def by (intro frame_rules)

lemma inert_prepare [frame_rules]: "frame inert (remote_prepare S c role files True)"
  unfolding remote_prepare_def Let_def by (simp cong: if_cong, intro conjI impI frame_rules)

lemma inert_stage [frame_rules]: "frame inert (stage_worker_images S c True)"
  unfolding stage_worker_images_def by (simp, intro frame_rules)

lemma inert_action [frame_rules]: "frame inert (run_stack_action S c act True purge)"
  unfolding run_stack_action_def Let_def by (intro frame_rules frame_change) (simp add: inert_def)

lemma inert_check [frame_rules]: "frame inert (check_vllm S c True)" "frame inert (smoke_vllm S c True)"
  unfolding check_vllm_def smoke_vllm_def by (intro frame_rules)+

lemma inert_command:
  assumes "g_dry_run a" and "cmd \<noteq> Render"
  shows "frame inert (stack_dispatch S a cmd)"
proof (cases cmd)
  case Check_Vllm
  then show ?thesis using assms by (simp add: cmd_check_vllm_def cong: if_cong) (intro frame_rules)
next
  case Deploy
  then show ?thesis using assms by (simp add: cmd_deploy_def Let_def cong: if_cong) (intro frame_rules)
next
  case Status
  then show ?thesis using assms by (simp add: cmd_status_def) (intro frame_rules)
next
  case Verify
  then show ?thesis using assms by (simp add: cmd_verify_def cong: if_cong) (intro frame_rules)
next
  case Down
  then show ?thesis using assms by (simp add: cmd_down_def) (intro frame_rules)
next
  case Resolve_Images
  then show ?thesis using assms by (simp add: cmd_resolve_images_def Let_def cong: if_cong) (intro frame_rules)
qed (use assms in simp)

lemma inert_unconfirmed: "g_confirm a \<noteq> CONFIRMATION \<Longrightarrow> frame inert (cmd_deploy S a)"
  unfolding cmd_deploy_def calc_stk_def by (rule frame_seq_lift) (auto intro: frame_rules)

subsection \<open>Rendering\<close>

definition unsent :: "stack_world \<Rightarrow> stack_world \<Rightarrow> bool" where
  "unsent s t \<longleftrightarrow> sw_events t = sw_events s"

lemma pre_unsent [frame_rules]: "pre unsent"
  by (simp add: pre_def unsent_def)

lemma inert_unsent: "frame inert m \<Longrightarrow> frame unsent m"
  by (erule frame_mono) (simp add: inert_def unsent_def)

lemma unsent_write [frame_rules]: "frame unsent (write_file S p t)"
  unfolding write_file_def by (intro frame_if frame_change frame_throw pre_unsent) (simp add: unsent_def)

lemma unsent_render: "frame unsent (cmd_render S a)"
  unfolding cmd_render_def write_files_def Let_def by (intro frame_rules inert_unsent [OF inert_inputs] inert_unsent [OF inert_tell])

subsection \<open>The exit status\<close>

lemma frame_main: "pre R \<Longrightarrow> frame R (stack_dispatch S a cmd) \<Longrightarrow> frame R (stack_main S a cmd)"
  unfolding stack_main_def by (intro frame_rules) assumption+

end
