(* ===== verification/Stack_Secret.thy ===== *)
theory Stack_Secret
  imports Stack_Frames
begin

text \<open>
  Two runs that differ in the password of Grafana only: they print the same, start the same processes with the
  same input and end the same way; only the bytes of one copied file may differ.
\<close>

subsection \<open>Runs that agree but for one destination\<close>

fun but_for :: "string \<Rightarrow> process \<Rightarrow> process" where
  "but_for dest (Process args input content) = Process args input (if args \<noteq> [] \<and> last args = dest then None else content)"

definition alike :: "string \<Rightarrow> stack_world \<Rightarrow> stack_world \<Rightarrow> bool" where
  "alike dest s t \<longleftrightarrow> sw_out t = sw_out s \<and> sw_disk t = sw_disk s \<and> map (but_for dest) (sw_events t) = map (but_for dest) (sw_events s)"

definition agree :: "string \<Rightarrow> 'a stk \<Rightarrow> 'a stk \<Rightarrow> bool" where
  "agree dest m n \<longleftrightarrow> (\<forall>s t. alike dest s t \<longrightarrow> fst (n t) = fst (m s) \<and> alike dest (snd (m s)) (snd (n t)))"

named_theorems agree_rules \<open>rules for runs that agree\<close>

lemma alike_length: "alike dest s t \<Longrightarrow> length (sw_events t) = length (sw_events s)"
  by (auto simp: alike_def dest: map_eq_imp_length_eq)

lemma agree_give [agree_rules]: "agree dest (give x) (give x)"
  by (simp add: agree_def give_def)

lemma agree_throw [agree_rules]: "agree dest (throw e) (throw e)"
  by (simp add: agree_def throw_def)

lemma agree_calc [agree_rules]: "agree dest (calc_stk m) (calc_stk m)"
  by (simp add: agree_def calc_stk_def lift_def)

lemma agree_tell [agree_rules]: "agree dest (tell t) (tell t)"
  by (simp add: agree_def tell_def change_def alike_def)

lemma agree_print [agree_rules]:
  "agree dest (change (\<lambda>w. w\<lparr>sw_out := sw_out w @ t\<rparr>)) (change (\<lambda>w. w\<lparr>sw_out := sw_out w @ t\<rparr>))"
  by (simp add: agree_def change_def alike_def)

lemma agree_tmp [agree_rules]: "agree dest (asks (\<lambda>w. f (length (sw_events w)))) (asks (\<lambda>w. f (length (sw_events w))))"
  by (auto simp: agree_def asks_def alike_length)

lemma agree_seq [agree_rules]:
  assumes "agree dest m n" and "\<And>x. agree dest (f x) (g x)"
  shows "agree dest (seq m f) (seq n g)"
  unfolding agree_def
proof (intro allI impI)
  fix s t
  assume st: "alike dest s t"
  obtain r u where m: "m s = (r, u)" by force
  obtain q v where n: "n t = (q, v)" by force
  from assms(1) st m n have "q = r" "alike dest u v" unfolding agree_def by force+
  with assms(2) m n show "fst (seq n g t) = fst (seq m f s) \<and> alike dest (snd (seq m f s)) (snd (seq n g t))"
    by (cases r rule: comp_cases) (auto simp: seq_def agree_def ret_def raise_def)
qed

lemma agree_catch [agree_rules]:
  assumes "agree dest m n" and "\<And>e. agree dest (f e) (g e)"
  shows "agree dest (catch m f) (catch n g)"
  unfolding agree_def
proof (intro allI impI)
  fix s t
  assume st: "alike dest s t"
  obtain r u where m: "m s = (r, u)" by force
  obtain q v where n: "n t = (q, v)" by force
  from assms(1) st m n have "q = r" "alike dest u v" unfolding agree_def by force+
  with assms(2) m n show "fst (catch n g t) = fst (catch m f s) \<and> alike dest (snd (catch m f s)) (snd (catch n g t))"
    by (cases r rule: comp_cases) (auto simp: catch_def agree_def ret_def raise_def)
qed

lemma agree_if [agree_rules]: "agree dest m n \<Longrightarrow> agree dest m' n' \<Longrightarrow> agree dest (if b then m else m') (if b then n else n')"
  by simp

lemma agree_option [agree_rules]:
  "agree dest m n \<Longrightarrow> (\<And>y. agree dest (f y) (g y)) \<Longrightarrow>
     agree dest (case x of None \<Rightarrow> m | Some y \<Rightarrow> f y) (case x of None \<Rightarrow> n | Some y \<Rightarrow> g y)"
  by (simp split: option.split)

lemma agree_prod [agree_rules]: "(\<And>x y. agree dest (f x y) (g x y)) \<Longrightarrow> agree dest (case p of (x, y) \<Rightarrow> f x y) (case p of (x, y) \<Rightarrow> g x y)"
  by (simp split: prod.split)

lemma agree_each [agree_rules]:
  assumes "\<And>x. agree dest (f x) (g x)"
  shows "agree dest (each f xs) (each g xs)"
proof -
  have "agree dest (fold_io (\<lambda>x _. f x) xs u) (fold_io (\<lambda>x _. g x) xs u)" for u
    by (induction xs arbitrary: u) (auto intro!: agree_rules assms)
  then show ?thesis by (simp add: each_def)
qed

lemma agree_start:
  assumes "content' = content \<or> args \<noteq> [] \<and> last args = dest"
  shows "agree dest (start_process S args input content) (start_process S args input content')"
proof -
  have "agree dest (change (\<lambda>w. w\<lparr>sw_events := sw_events w @ [Process args input content]\<rparr>))
      (change (\<lambda>w. w\<lparr>sw_events := sw_events w @ [Process args input content']\<rparr>))"
    using assms by (auto simp: agree_def change_def alike_def)
  then have a: "agree dest
      (seq (change (\<lambda>w. w\<lparr>sw_events := sw_events w @ [Process args input content]\<rparr>)) f)
      (seq (change (\<lambda>w. w\<lparr>sw_events := sw_events w @ [Process args input content']\<rparr>)) f)" if "agree dest (f ()) (f ())" for f :: "unit \<Rightarrow> string stk"
    by (rule agree_seq) (simp add: that)
  have b: "agree dest (case ss_answer S n args input of
         Not_Found \<Rightarrow> throw ObservabilityError | Not_Started \<Rightarrow> throw StackOSError
       | Exited rc out \<Rightarrow> if rc \<noteq> 0 then throw ObservabilityError else give out)
      (case ss_answer S n args input of
         Not_Found \<Rightarrow> throw ObservabilityError | Not_Started \<Rightarrow> throw StackOSError
       | Exited rc out \<Rightarrow> if rc \<noteq> 0 then throw ObservabilityError else give out)" for n
    by (simp add: agree_rules split: stack_answer.split)
  show ?thesis
    unfolding start_process_def by (rule agree_seq) (use agree_tmp [of dest id] a b in simp_all)
qed

lemmas agree_started [agree_rules] = agree_start [of u u args, OF disjI1, OF refl] for u args

lemma agree_local [agree_rules]: "agree dest (stack_local S args input d) (stack_local S args input d)"
  unfolding stack_local_def by (intro agree_rules)

lemma agree_host [agree_rules]: "agree dest (on_host S c role t d) (on_host S c role t d)"
  unfolding on_host_def by (rule agree_local)

lemma agree_upload_to:
  assumes "content' = content \<or> host_target c role @ '':'' @ destination = dest"
  shows "agree dest (upload S c role content destination) (upload S c role content' destination)"
  unfolding upload_def by (intro agree_seq agree_tmp agree_start agree_give) (use assms in auto)

lemmas agree_upload [agree_rules] = agree_upload_to [OF disjI1, OF refl]

lemma agree_finally [agree_rules]: "agree dest m m \<Longrightarrow> agree dest n n \<Longrightarrow> agree dest (finally_io m n) (finally_io m n)"
  unfolding finally_io_def by (intro agree_rules) assumption+

subsection \<open>What does not depend on the password\<close>

named_theorems no_password \<open>independence of the password\<close>

lemma no_password_targets [no_password]:
  "host_target (c\<lparr>sk_admin_password := p\<rparr>) role = host_target c role"
  "ssh_args (c\<lparr>sk_admin_password := p\<rparr>) role = ssh_args c role"
  "scp_args (c\<lparr>sk_admin_password := p\<rparr>) role = scp_args c role"
  by (simp_all add: host_target_def ssh_args_def scp_args_def host_key_options_def ssh_user_of_def ssh_host_of_def)

lemma no_password_calls [no_password]:
  "on_host S (c\<lparr>sk_admin_password := p\<rparr>) role t d = on_host S c role t d"
  "upload S (c\<lparr>sk_admin_password := p\<rparr>) role t f = upload S c role t f"
  by (simp_all add: on_host_def upload_def no_password_targets)

lemma no_password_files [no_password]:
  "render_files P src (c\<lparr>sk_admin_password := p\<rparr>) = render_files P src c"
  by (simp add: render_files_def render_prometheus_def render_loki_def render_promtail_def pair_job_def port_text_def interval_def)

lemma no_password_parts [no_password]:
  "locked_image (c\<lparr>sk_admin_password := p\<rparr>) k = locked_image c k"
  "named (c\<lparr>sk_admin_password := p\<rparr>) k = named c k"
  "quoted_volume (c\<lparr>sk_admin_password := p\<rparr>) k = quoted_volume c k"
  "port_text P (c\<lparr>sk_admin_password := p\<rparr>) k = port_text P c k"
  "log_lines (c\<lparr>sk_admin_password := p\<rparr>) role = log_lines c role"
  "script_prelude (c\<lparr>sk_admin_password := p\<rparr>) = script_prelude c"
  by (simp_all add: locked_image_def named_def quoted_volume_def port_text_def log_lines_def script_prelude_def log_path_def vllm_container_def)

lemma no_password_lines [no_password]: "run_lines (c\<lparr>sk_admin_password := p\<rparr>) name k args opts = run_lines c name k args opts"
  by (simp add: run_lines_def no_password_parts)

lemma no_password_services [no_password]:
  "run_loki P (c\<lparr>sk_admin_password := p\<rparr>) = run_loki P c"
  "run_alertmanager P (c\<lparr>sk_admin_password := p\<rparr>) = run_alertmanager P c"
  "run_prometheus P (c\<lparr>sk_admin_password := p\<rparr>) = run_prometheus P c"
  "run_grafana P (c\<lparr>sk_admin_password := p\<rparr>) = run_grafana P c"
  "run_promtail (c\<lparr>sk_admin_password := p\<rparr>) role = run_promtail c role"
  "run_node_exporter P (c\<lparr>sk_admin_password := p\<rparr>) role = run_node_exporter P c role"
  "run_fabric_exporter P (c\<lparr>sk_admin_password := p\<rparr>) role = run_fabric_exporter P c role"
  by (simp_all add: run_loki_def run_alertmanager_def run_prometheus_def run_grafana_def run_promtail_def run_node_exporter_def
    run_fabric_exporter_def no_password_parts no_password_lines)

lemma no_password_script [no_password]:
  "remote_script P (c\<lparr>sk_admin_password := p\<rparr>) role act purge = remote_script P c role act purge"
  by (simp add: remote_script_def script_lines_def up_lines_def no_password_parts no_password_services cong: stack_action.case_cong)

lemma no_password_stages [no_password]:
  "stage_worker_images S (c\<lparr>sk_admin_password := p\<rparr>) d = stage_worker_images S c d"
  "remote_proxy_prepare S (c\<lparr>sk_admin_password := p\<rparr>) role d = remote_proxy_prepare S c role d"
  apply (simp add: stage_worker_images_def remove_archive_def pull_script_def proxy_prefix_def
    no_password_parts no_password_calls no_password_targets cong: if_cong)
  apply (simp add: remote_proxy_prepare_def proxy_script_def no_password_parts no_password_calls no_password_targets)
  done

subsection \<open>The actions agree\<close>

definition secret_file :: "stack_config \<Rightarrow> string" where
  "secret_file c = host_target c ''head'' @ '':'' @ sk_remote_root c @ ''/grafana.env''"

lemma agree_stage [agree_rules]: "agree dest (stage_worker_images S c d) (stage_worker_images S c d)"
  unfolding stage_worker_images_def remove_archive_def by (intro agree_rules)

lemma agree_proxy [agree_rules]: "agree dest (remote_proxy_prepare S c role d) (remote_proxy_prepare S c role d)"
  unfolding remote_proxy_prepare_def by (intro agree_rules)

lemma agree_env:
  assumes "p = [] \<longleftrightarrow> sk_admin_password c = []"
  shows "agree (secret_file c) (upload_grafana_env S c ''head'') (upload_grafana_env S (c\<lparr>sk_admin_password := p\<rparr>) ''head'')"
proof (cases "p = []")
  case True
  with assms show ?thesis
    by (simp add: upload_grafana_env_def grafana_env_def agree_def calc_stk_def lift_def seq_def raise_def)
next
  case False
  have *: "seq (calc_stk (ret x)) f = f x" for x and f :: "string \<Rightarrow> unit stk"
    by (simp add: seq_def calc_stk_def lift_def ret_def fun_eq_iff)
  from False assms show ?thesis
    unfolding upload_grafana_env_def grafana_env_def Let_def
    by (simp add: * no_password) (intro agree_rules agree_upload_to; simp add: secret_file_def)
qed

lemma agree_prepare:
  assumes "p = [] \<longleftrightarrow> sk_admin_password c = []"
  shows "agree (secret_file c) (remote_prepare S c role fs d) (remote_prepare S (c\<lparr>sk_admin_password := p\<rparr>) role fs d)"
  unfolding remote_prepare_def Let_def
  by (simp add: no_password, intro conjI impI agree_rules) (use agree_env [OF assms] in \<open>simp_all add: agree_rules\<close>)

lemma agree_action:
  assumes "p = [] \<longleftrightarrow> sk_admin_password c = []"
  shows "agree (secret_file c) (run_stack_action S c act d purge) (run_stack_action S (c\<lparr>sk_admin_password := p\<rparr>) act d purge)"
  unfolding run_stack_action_def Let_def no_password
  by (intro agree_rules agree_prepare [OF assms])

end
