(* ===== verification/Stack_Accepted.thy ===== *)
theory Stack_Accepted
  imports Stack_Run
begin

text \<open>
  What the accepted profile, lock and configuration of the observability stack guarantee: names, volumes and images for
  every part of the scripts.
\<close>

subsection \<open>The profile\<close>

definition own_name :: "string \<Rightarrow> bool" where
  "own_name n \<longleftrightarrow> starts_with ''dgx-observe-'' n"

lemma owned_nameE:
  assumes "owned_name (item d k)"
  obtains s where "map_of d k = Some (JStr s)" "own_name s"
  using assms by (auto simp: owned_name_def item_def own_name_def split: json.splits option.splits)

definition complete_profile :: "dict \<Rightarrow> bool" where
  "complete_profile prof \<longleftrightarrow> (\<exists>components volumes.
     map_of prof ''components'' = Some (JObj components) \<and> map_of prof ''volumes'' = Some (JObj volumes)
     \<and> (\<forall>k\<in>set STACK_COMPONENTS. \<exists>e s. map_of components k = Some (JObj e) \<and> map_of e ''container'' = Some (JStr s) \<and> own_name s)
     \<and> (\<forall>k\<in>set STACK_VOLUMES. \<exists>s. map_of volumes k = Some (JStr s) \<and> own_name s))"

lemma item_object: "item d k = JObj e \<longleftrightarrow> map_of d k = Some (JObj e)"
  by (simp add: item_def split: option.split)

lemma loaded_profile_complete:
  assumes "load_stack_profile P pt = ret prof"
  shows "complete_profile prof"
proof -
  from assms have "check_parts prof = ret ()"
    unfolding load_stack_profile_def
    by (cases pt; cases "py_loads P (the pt)"; cases "the (py_loads P (the pt))") (simp_all add: if_raise_ret bind_eq_ret)
  then obtain components volumes where "item prof ''components'' = JObj components" "item prof ''volumes'' = JObj volumes"
    and c: "\<forall>c\<in>set STACK_COMPONENTS. case item components c of
        JObj e \<Rightarrow> item e ''role'' \<in> {JStr ''head'', JStr ''worker''} \<and> owned_name (item e ''container'') | _ \<Rightarrow> False"
    and v: "\<forall>k\<in>set STACK_VOLUMES. owned_name (item volumes k)"
    unfolding check_parts_def
    by (cases "item prof ''components''"; cases "item prof ''volumes''") (simp_all add: if_raise_ret)
  moreover have "\<exists>e s. map_of components k = Some (JObj e) \<and> map_of e ''container'' = Some (JStr s) \<and> own_name s"
    if "k \<in> set STACK_COMPONENTS" for k
  proof -
    obtain e where "item components k = JObj e" and e: "owned_name (item e ''container'')"
      by (cases "item components k") (use bspec [OF c \<open>k \<in> _\<close>] in auto)
    moreover from owned_nameE [OF e] obtain s where "map_of e ''container'' = Some (JStr s)" "own_name s" .
    ultimately show ?thesis unfolding item_object by blast
  qed
  moreover have "\<exists>s. map_of volumes k = Some (JStr s) \<and> own_name s" if "k \<in> set STACK_VOLUMES" for k
    using owned_nameE [OF bspec [OF v that]] by blast
  ultimately show ?thesis unfolding complete_profile_def item_object by blast
qed

subsection \<open>The lock\<close>

definition complete_lock :: "env \<Rightarrow> bool" where
  "complete_lock l \<longleftrightarrow> (\<forall>k\<in>set (map fst DEFAULT_IMAGE_TAGS). \<exists>ref. map_of l k = Some ref \<and> digest_ref ref)"

lemma locked_ref_digest: "locked_ref images k = ret ref \<Longrightarrow> digest_ref ref"
  unfolding locked_ref_def by (auto split: json.splits if_splits)

lemma locked_refs_complete: "locked_refs images ks = ret l \<Longrightarrow> k \<in> set ks \<Longrightarrow> \<exists>ref. map_of l k = Some ref \<and> digest_ref ref"
proof (induction ks arbitrary: l)
  case (Cons k' ks)
  then obtain r rs where "locked_ref images k' = ret r" "locked_refs images ks = ret rs" "l = (k', r) # rs" by auto
  with Cons.IH Cons.prems(2) show ?case by (cases "k' = k") (auto simp: locked_ref_digest)
qed simp

lemma loaded_lock_complete: "load_stack_lock P lt = ret l \<Longrightarrow> complete_lock l"
  unfolding load_stack_lock_def check_stack_lock_def complete_lock_def
  by (auto split: option.splits json.splits if_splits dest: locked_refs_complete simp del: set_map)

subsection \<open>The configuration\<close>

lemma named_containers_map:
  "named_containers P es = ret ns \<Longrightarrow> map_of es k = Some (JObj e) \<Longrightarrow> map_of e ''container'' = Some (JStr s) \<Longrightarrow> map_of ns k = Some s"
proof (induction es arbitrary: ns)
  case (Cons x es)
  obtain k' v where x: "x = (k', v)" by force
  from Cons.prems(1) x obtain j ms where j: "crash (jitem v ''container'') = ret j" and ms: "named_containers P es = ret ms"
    and ns: "ns = (k', py_str P j) # ms"
    by (auto simp: safe_component_name_def split: if_splits)
  from j Cons.prems x ns show ?case
    by (cases "k' = k") (auto simp: jitem_def py_str_def Cons.IH [OF ms])
qed simp

definition ready_stack :: "stack_config \<Rightarrow> bool" where
  "ready_stack c \<longleftrightarrow> (\<forall>k\<in>set STACK_COMPONENTS. \<exists>n. map_of (sk_containers c) k = Some n \<and> own_name n)
     \<and> (\<forall>k\<in>set STACK_VOLUMES. \<exists>n. map_of (sk_volumes c) k = Some (JStr n) \<and> own_name n)"

lemma stack_fabric_names: "stack_fabric P prof vs c = ret d \<Longrightarrow> sk_containers d = sk_containers c"
  unfolding stack_fabric_def Let_def by (auto split: if_splits)

lemma stack_rest_names:
  assumes "stack_rest P prof vs lock c = ret d"
  shows "sk_containers d = sk_containers c" and "sk_images d = (case lock of None \<Rightarrow> [] | Some l \<Rightarrow> l)"
    and "map_of prof ''volumes'' = Some (JObj volumes) \<Longrightarrow> sk_volumes d = volumes"
  using assms unfolding stack_rest_def by (auto simp: jitem_def py_dict_def)

lemma stack_containers_names:
  "stack_containers P prof vs c = ret d \<Longrightarrow> map_of prof ''components'' = Some (JObj components) \<Longrightarrow>
     named_containers P components = ret (sk_containers d)"
  unfolding stack_containers_def Let_def by (auto simp: jitem_def split: if_splits)

lemma accepted_stack_ready:
  assumes "complete_profile prof" and "stack_config_of P repo vs prof lock b = ret c"
  shows "ready_stack c" and "sk_images c = (case lock of None \<Rightarrow> [] | Some l \<Rightarrow> l)"
proof -
  from assms(1) obtain components volumes where pc: "map_of prof ''components'' = Some (JObj components)"
    and pv: "map_of prof ''volumes'' = Some (JObj volumes)"
    and cs: "\<forall>k\<in>set STACK_COMPONENTS. \<exists>e s. map_of components k = Some (JObj e) \<and> map_of e ''container'' = Some (JStr s) \<and> own_name s"
    and vs: "\<forall>k\<in>set STACK_VOLUMES. \<exists>s. map_of volumes k = Some (JStr s) \<and> own_name s"
    unfolding complete_profile_def by blast
  from assms(2) obtain c1 c2 c3 where s: "stack_containers P prof vs c1 = ret c2" "stack_fabric P prof vs c2 = ret c3"
    "stack_rest P prof vs lock c3 = ret c"
    unfolding stack_config_of_def by blast
  have n: "named_containers P components = ret (sk_containers c)"
    using stack_containers_names [OF s(1) pc] stack_fabric_names [OF s(2)] stack_rest_names(1) [OF s(3)] by simp
  show "ready_stack c"
    unfolding ready_stack_def using cs vs named_containers_map [OF n] stack_rest_names(3) [OF s(3) pv] by metis
  show "sk_images c = (case lock of None \<Rightarrow> [] | Some l \<Rightarrow> l)" by (rule stack_rest_names(2) [OF s(3)])
qed

subsection \<open>The scripts\<close>

lemma role_parts:
  "k \<in> set (role_components role) \<Longrightarrow> k \<in> set STACK_COMPONENTS"
  "k \<in> set (role_volumes role) \<Longrightarrow> k \<in> set STACK_VOLUMES"
  "role_key ''promtail'' role \<in> set STACK_COMPONENTS \<inter> set STACK_VOLUMES"
  "role_key ''node_exporter'' role \<in> set STACK_COMPONENTS" "role_key ''fabric_exporter'' role \<in> set STACK_COMPONENTS"
  by (auto simp: role_components_def role_volumes_def STACK_COMPONENTS_def STACK_VOLUMES_def HEAD_COMPONENTS_def
    WORKER_COMPONENTS_def role_key_def split: if_splits)

lemma named_ret: "ready_stack c \<Longrightarrow> k \<in> set STACK_COMPONENTS \<Longrightarrow> \<exists>n. named c k = ret n \<and> own_name n"
  unfolding ready_stack_def named_def by fastforce

lemma quoted_ret: "ready_stack c \<Longrightarrow> k \<in> set STACK_VOLUMES \<Longrightarrow> \<exists>n. quoted_volume c k = ret (shlex_quote n) \<and> own_name n"
  unfolding ready_stack_def quoted_volume_def by fastforce

lemma gather_ret: "(\<And>x. x \<in> set xs \<Longrightarrow> \<exists>y. f x = ret y) \<Longrightarrow> \<exists>ys. gather f xs = ret ys"
proof (induction xs)
  case (Cons x xs)
  then obtain y ys where "f x = ret y" "gather f xs = ret ys" by (metis list.set_intros)
  then show ?case by simp
qed simp

text \<open>A list of one line for each name.\<close>

lemma gather_lines:
  assumes "\<And>x. x \<in> set xs \<Longrightarrow> \<exists>n. f x = ret [line n] \<and> P n"
  shows "\<exists>ns. gather f xs = ret (map line ns) \<and> (\<forall>n\<in>set ns. P n) \<and> length ns = length xs"
  using assms
proof (induction xs)
  case (Cons x xs)
  from Cons.prems obtain n where n: "f x = ret [line n]" "P n" by auto
  from Cons obtain ns where "gather f xs = ret (map line ns)" "\<forall>n\<in>set ns. P n" "length ns = length xs" by auto
  with n have "gather f (x # xs) = ret (map line (n # ns)) \<and> (\<forall>n\<in>set (n # ns). P n) \<and> length (n # ns) = length (x # xs)" by simp
  then show ?case by blast
qed simp

definition full_stack :: "stack_config \<Rightarrow> bool" where
  "full_stack c \<longleftrightarrow> ready_stack c \<and> complete_lock (sk_images c)"

lemma run_lines_ret: "full_stack c \<Longrightarrow> k \<in> set (map fst DEFAULT_IMAGE_TAGS) \<Longrightarrow> \<exists>ls. run_lines c name k args opts = ret ls"
  by (auto simp: full_stack_def complete_lock_def run_lines_def locked_image_def Let_def simp del: set_map)

lemma image_keys: "{''loki'', ''alertmanager'', ''prometheus'', ''grafana'', ''promtail'', ''node_exporter'', ''fabric_exporter''}
   \<subseteq> set (map fst DEFAULT_IMAGE_TAGS)"
  by (simp add: DEFAULT_IMAGE_TAGS_def)

lemma service_keys: "{''loki'', ''alertmanager'', ''prometheus'', ''grafana''} \<subseteq> set STACK_COMPONENTS \<inter> set STACK_VOLUMES"
  by (simp add: STACK_COMPONENTS_def STACK_VOLUMES_def)

lemma services_ret:
  assumes "full_stack c"
  shows "\<exists>ls. run_loki P c = ret ls" "\<exists>ls. run_alertmanager P c = ret ls" "\<exists>ls. run_prometheus P c = ret ls"
    "\<exists>ls. run_grafana P c = ret ls" "\<exists>ls. run_promtail c role = ret ls" "\<exists>ls. run_node_exporter P c role = ret ls"
    "\<exists>ls. run_fabric_exporter P c role = ret ls"
proof -
  have r: "ready_stack c" using assms by (simp add: full_stack_def)
  have step: "\<exists>ls. bind (named c k) (\<lambda>name. bind (quoted_volume c k) (\<lambda>q. run_lines c name k' (f q) (g q))) = ret ls"
    if "k \<in> set STACK_COMPONENTS \<inter> set STACK_VOLUMES" "k' \<in> set (map fst DEFAULT_IMAGE_TAGS)" for k k' f g
    using named_ret [OF r] quoted_ret [OF r] run_lines_ret [OF assms] that by fastforce
  have step': "\<exists>ls. bind (named c k) (\<lambda>name. run_lines c name k' args opts) = ret ls"
    if "k \<in> set STACK_COMPONENTS" "k' \<in> set (map fst DEFAULT_IMAGE_TAGS)" for k k' args opts
    using named_ret [OF r] run_lines_ret [OF assms] that by fastforce
  note keys = image_keys [THEN subsetD] service_keys [THEN subsetD] role_parts(3-5)
  show "\<exists>ls. run_loki P c = ret ls" "\<exists>ls. run_alertmanager P c = ret ls" "\<exists>ls. run_prometheus P c = ret ls"
    "\<exists>ls. run_grafana P c = ret ls"
    unfolding run_loki_def run_alertmanager_def run_prometheus_def run_grafana_def by (intro step keys; simp)+
  show "\<exists>ls. run_promtail c role = ret ls" unfolding run_promtail_def by (intro step keys; simp)
  show "\<exists>ls. run_node_exporter P c role = ret ls" "\<exists>ls. run_fabric_exporter P c role = ret ls"
    unfolding run_node_exporter_def run_fabric_exporter_def by (intro step' keys; simp)+
qed

lemma up_lines_ret:
  assumes "full_stack c"
  shows "\<exists>ls. up_lines P c role = ret ls"
proof -
  have r: "ready_stack c" using assms by (simp add: full_stack_def)
  obtain removals where 1: "gather (\<lambda>k. bind (named c k) (\<lambda>name. ret [replace_line name])) (role_components role) = ret removals"
    using gather_ret [of "role_components role" "\<lambda>k. bind (named c k) (\<lambda>name. ret [replace_line name])"]
      named_ret [OF r] role_parts(1) by fastforce
  obtain volumes where 2: "gather (\<lambda>k. bind (quoted_volume c k) (\<lambda>q. ret [''owned_volume '' @ q])) (role_volumes role) = ret volumes"
    using gather_ret [of "role_volumes role" "\<lambda>k. bind (quoted_volume c k) (\<lambda>q. ret [''owned_volume '' @ q])"]
      quoted_ret [OF r] role_parts(2) by fastforce
  obtain services where 3: "(if role = ''head'' then gather id [run_loki P c, run_alertmanager P c, run_prometheus P c, run_grafana P c] else ret []) = ret services"
    using services_ret(1-4) [OF assms, of P] by (cases "role = ''head''") auto
  obtain exporters where 4: "gather id [run_promtail c role, run_node_exporter P c role, run_fabric_exporter P c role] = ret exporters"
    using services_ret(5) [OF assms, of role] services_ret(6,7) [OF assms, of P role] by auto
  show ?thesis unfolding up_lines_def 1 2 3 4 bind_ret by blast
qed

lemma down_lines_ret:
  assumes "ready_stack c"
  shows "\<exists>names volumes. script_lines P c role Stack_Down purge =
      ret (map removal_line names @ network_removal @ map (purge_line \<circ> shlex_quote) volumes)
    \<and> length names = length (role_components role) \<and> (\<forall>n\<in>set (names @ volumes). own_name n) \<and> (\<not> purge \<longrightarrow> volumes = [])"
proof -
  obtain names where 1: "gather (\<lambda>k. bind (named c k) (\<lambda>name. ret [removal_line name])) (role_components role) = ret (map removal_line names)"
    "\<forall>n\<in>set names. own_name n" "length names = length (role_components role)"
    using gather_lines [of "role_components role" "\<lambda>k. bind (named c k) (\<lambda>name. ret [removal_line name])" removal_line own_name]
      named_ret [OF assms] role_parts(1) by fastforce
  obtain vols where 2: "gather (\<lambda>k. bind (quoted_volume c k) (\<lambda>q. ret [purge_line q])) (role_volumes role) = ret (map (purge_line \<circ> shlex_quote) vols)"
    "\<forall>n\<in>set vols. own_name n"
    using gather_lines [of "role_volumes role" "\<lambda>k. bind (quoted_volume c k) (\<lambda>q. ret [purge_line q])" "purge_line \<circ> shlex_quote" own_name]
      quoted_ret [OF assms] role_parts(2) by fastforce
  show ?thesis
  proof (intro exI conjI)
    show "script_lines P c role Stack_Down purge =
        ret (map removal_line names @ network_removal @ map (purge_line \<circ> shlex_quote) (if purge then vols else []))"
      using 1(1) 2(1) by (simp add: script_lines_def)
  qed (use 1 2 in auto)
qed

lemma scripts_ret:
  assumes "full_stack c"
  shows "\<exists>t. remote_script P c role act purge = ret t"
proof -
  have r: "ready_stack c" using assms by (simp add: full_stack_def)
  have "\<exists>ls. script_lines P c role act purge = ret ls"
  proof (cases act)
    case Stack_Up
    then show ?thesis using up_lines_ret [OF assms] by (simp add: script_lines_def)
  next
    case Stack_Down
    then show ?thesis using down_lines_ret [OF r] by blast
  next
    case Stack_Verify
    have "\<exists>ls. gather (\<lambda>k. bind (named c k) (\<lambda>name. ret (verify_lines name))) (role_components role) = ret ls"
      by (rule gather_ret) (use named_ret [OF r] role_parts(1) in fastforce)
    with Stack_Verify show ?thesis by (simp add: script_lines_def)
  qed (simp add: script_lines_def)
  then show ?thesis unfolding remote_script_def by auto
qed

end
