(* ===== verification/Stack_Order.thy ===== *)
theory Stack_Order
  imports Stack_Frames
begin

text \<open>
  The order of the processes of a run: the health of the served model is checked before and after a deployment, and an
  image archive is removed from both hosts however its copying ends.
\<close>

subsection \<open>Processes are only added\<close>

definition adds :: "stack_world \<Rightarrow> stack_world \<Rightarrow> bool" where
  "adds s t \<longleftrightarrow> (\<exists>ps. sw_events t = sw_events s @ ps)"

lemma pre_adds [frame_rules]: "pre adds"
  unfolding pre_def adds_def by (metis append_assoc append_Nil2)

lemma inert_adds: "frame inert m \<Longrightarrow> frame adds m"
  by (erule frame_mono) (simp add: inert_def adds_def)

lemmas adds_tell [frame_rules] = inert_adds [OF inert_tell]

lemma adds_print [frame_rules]: "frame adds (change (\<lambda>w. w\<lparr>sw_out := f w\<rparr>))"
  by (rule frame_change) (simp add: adds_def)

lemma adds_start [frame_rules]: "frame adds (start_process S args input content)"
  unfolding start_process_def
  by (intro frame_seq frame_asks pre_adds frame_change) (auto simp: adds_def frame_rules split: stack_answer.split)

lemma adds_local [frame_rules]: "frame adds (stack_local S args input d)"
  unfolding stack_local_def by (intro frame_rules)

lemma adds_calls [frame_rules]: "frame adds (on_host S c role t d)" "frame adds (upload S c role t f)"
  unfolding on_host_def upload_def by (intro frame_rules)+

lemma adds_finally [frame_rules]: "frame adds m \<Longrightarrow> frame adds n \<Longrightarrow> frame adds (finally_io m n)"
  unfolding finally_io_def by (intro frame_rules)

lemma adds_stages [frame_rules]:
  "frame adds (stage_worker_images S c d)" "frame adds (remote_proxy_prepare S c role d)" "frame adds (remote_prepare S c role fs d)"
  unfolding stage_worker_images_def remove_archive_def remote_proxy_prepare_def remote_prepare_def upload_grafana_env_def Let_def
  by (intro frame_rules)+

lemma adds_action [frame_rules]: "frame adds (run_stack_action S c act d purge)"
  unfolding run_stack_action_def Let_def by (intro frame_rules)

subsection \<open>One process\<close>

definition succeeded :: "stack_site \<Rightarrow> nat \<Rightarrow> process \<Rightarrow> bool" where
  "succeeded S n p \<longleftrightarrow> (\<exists>out. ss_answer S n (p_args p) (p_input p) = Exited 0 out)"

definition script_process :: "stack_config \<Rightarrow> string \<Rightarrow> string \<Rightarrow> process" where
  "script_process c role t = Process (ssh_args c role @ [''bash'', ''-s'']) (Some t) None"

definition with_events :: "stack_world \<Rightarrow> process list \<Rightarrow> stack_world" where
  "with_events w ps = w\<lparr>sw_events := sw_events w @ ps\<rparr>"

lemma with_events_events [simp]: "sw_events (with_events w ps) = sw_events w @ ps"
  by (simp add: with_events_def)

text \<open>The run of one process: the world gains it, and the outcome says how it ended.\<close>

definition runs :: "stack_site \<Rightarrow> stack_world \<Rightarrow> process \<Rightarrow> (stack_error, string) comp \<times> stack_world \<Rightarrow> bool" where
  "runs S w p res \<longleftrightarrow> snd res = with_events w [p] \<and> fst res \<noteq> None
     \<and> ((\<exists>out. fst res = ret out) \<longleftrightarrow> succeeded S (length (sw_events w)) p)
     \<and> ((\<forall>n args i. ss_answer S n args i \<noteq> Not_Started) \<longrightarrow> fst res \<noteq> raise StackOSError)"

lemma start_runs: "runs S w (Process args input content) (start_process S args input content w)"
  by (auto simp: runs_def start_process_def seq_def asks_def change_def throw_def give_def ret_def raise_def succeeded_def with_events_def
    split: stack_answer.split)

lemma host_runs: "runs S w (script_process c role t) (on_host S c role t False w)"
  by (simp add: on_host_def stack_local_def script_process_def start_runs)

lemma runs_cases:
  assumes "runs S w p (m w)"
  obtains (ok) out where "m w = (ret out, with_events w [p])" "succeeded S (length (sw_events w)) p"
  | (bad) e where "m w = (raise e, with_events w [p])" "\<not> succeeded S (length (sw_events w)) p"
      "(\<forall>n args i. ss_answer S n args i \<noteq> Not_Started) \<longrightarrow> e = ObservabilityError \<or> e = StackCrash"
proof (cases "fst (m w)" rule: comp_cases)
  case (raises e)
  with assms bad [of e] show ?thesis by (cases e) (auto simp: runs_def prod_eq_iff)
next
  case (returned x)
  with assms ok [of x] show ?thesis by (auto simp: runs_def prod_eq_iff)
qed (use assms in \<open>simp add: runs_def\<close>)

subsection \<open>The health check around a deployment\<close>

definition health_check :: "stack_config \<Rightarrow> process" where
  "health_check c = script_process c ''head'' (health_script c)"

lemma seq_raises: "m s = (raise e, t) \<Longrightarrow> seq m f s = (raise e, t)"
  by (simp add: seq_def raise_def)

lemma seq_returns: "m s = (ret x, t) \<Longrightarrow> seq m f s = f x t"
  by (simp add: seq_def ret_def)

lemma check_run:
  obtains (healthy) "check_vllm S c False w = (ret (), with_events w [health_check c])"
      "succeeded S (length (sw_events w)) (health_check c)"
  | (fails) e where "check_vllm S c False w = (raise e, with_events w [health_check c])"
  using host_runs [of S w c "''head''" "health_script c"]
proof (cases rule: runs_cases)
  case (ok out)
  then show ?thesis by (intro healthy) (simp_all add: check_vllm_def health_check_def seq_returns give_def)
next
  case (bad e)
  then show ?thesis by (intro fails [of e]) (simp add: check_vllm_def health_check_def seq_raises)
qed

lemma action_adds:
  assumes "run_stack_action S c act d purge w = (r, w')"
  obtains ps where "sw_events w' = sw_events w @ ps"
  using frameD [OF adds_action assms] by (auto simp: adds_def)

lemma each_keeps: "m s = (r, t) \<Longrightarrow> frame adds m \<Longrightarrow> \<exists>ps. sw_events t = sw_events s @ ps"
  using frameD [of adds m s r t] by (auto simp: adds_def)

lemma deploy_guarded:
  assumes "g_confirm a = CONFIRMATION" and "\<not> g_dry_run a" and "load_config_for S a True w = (ret (vs, c), w0)"
    and "map_of vs ''OBS_SKIP_VLLM_CHECK'' \<noteq> Some ''1''" and "cmd_deploy S a w = (r, w')"
  shows "\<exists>rest. sw_events w' = sw_events w @ health_check c # rest
    \<and> (rest \<noteq> [] \<or> r = ret () \<longrightarrow> succeeded S (length (sw_events w)) (health_check c))
    \<and> (r = ret () \<longrightarrow> (\<exists>mid. rest = mid @ [health_check c] \<and> succeeded S (length (sw_events w) + 1 + length mid) (health_check c)))"
proof -
  have e: "sw_events w0 = sw_events w"
    using frameD [OF inert_load assms(3)] by (simp add: inert_def)
  let ?rest = "seq (run_stack_action S c Stack_Up False False) (\<lambda>_. seq (check_vllm S c False) (\<lambda>_.
      tell ''observability stack deployed on DGX hosts; production vLLM health remained intact''))"
  have l: "seq (load_config_for S a True) f w = f (vs, c) w0" for f :: "_ \<Rightarrow> unit stk"
    by (simp add: seq_returns assms(3))
  have run: "seq (check_vllm S c False) (\<lambda>_. ?rest) w0 = (r, w')"
    using assms(5) unfolding cmd_deploy_def
    by (simp add: assms(1,2,4) calc_stk_def lift_def require_def assert_def l seq_returns [of _ _ "()"] ret_def)
  show ?thesis
  proof (cases rule: check_run [of S c w0])
    case (fails x)
    with run e show ?thesis by (auto simp: seq_raises)
  next
    case healthy
    let ?w1 = "with_events w0 [health_check c]"
    from run healthy(1) have run: "?rest ?w1 = (r, w')" by (simp add: seq_returns)
    have "frame adds ?rest" unfolding check_vllm_def by (intro frame_rules)
    from each_keeps [OF run this] e obtain rest where rest: "sw_events w' = sw_events w @ health_check c # rest" by auto
    have "\<exists>mid. rest = mid @ [health_check c] \<and> succeeded S (length (sw_events w) + 1 + length mid) (health_check c)"
      if r: "r = ret ()"
    proof -
      from run r obtain u v where act: "run_stack_action S c Stack_Up False False ?w1 = (ret (), u)"
        and chk: "check_vllm S c False u = (ret (), v)" and v: "sw_events w' = sw_events v"
        by (auto simp: run_simps tell_def)
      from act obtain mid where mid: "sw_events u = sw_events ?w1 @ mid" by (rule action_adds)
      from chk show ?thesis
      proof (cases rule: check_run [of S c u])
        case healthy
        with chk v mid rest e show ?thesis by (intro exI [of _ mid]) auto
      qed simp
    qed
    with rest healthy(2) e show ?thesis by auto
  qed
qed

text \<open>With the check turned off, the deployment is the action on both hosts and nothing else.\<close>

lemma deploy_unchecked:
  assumes "g_confirm a = CONFIRMATION" and "\<not> g_dry_run a" and "load_config_for S a True w = (ret (vs, c), w0)"
    and "map_of vs ''OBS_SKIP_VLLM_CHECK'' = Some ''1''" and "cmd_deploy S a w = (r, w')"
  shows "r = fst (run_stack_action S c Stack_Up False False w0) \<and> sw_events w' = sw_events (snd (run_stack_action S c Stack_Up False False w0))"
proof -
  have l: "seq (load_config_for S a True) f w = f (vs, c) w0" for f :: "_ \<Rightarrow> unit stk"
    by (simp add: seq_returns assms(3))
  have g: "seq (give ()) f s = f () s" for f :: "unit \<Rightarrow> unit stk" and s by (simp add: seq_def give_def ret_def)
  obtain q t where q: "run_stack_action S c Stack_Up False False w0 = (q, t)" by force
  have "seq (run_stack_action S c Stack_Up False False) (\<lambda>_. tell ''observability stack deployed on DGX hosts; production vLLM health remained intact'') w0
      = (r, w')"
    using assms(5) unfolding cmd_deploy_def
    by (simp add: assms(1,2,4) calc_stk_def lift_def require_def assert_def l g seq_returns [of _ _ "()"] ret_def)
      (simp add: seq_def give_def ret_def)
  then show ?thesis
    using q by (cases q rule: comp_cases) (auto simp: seq_def tell_def change_def ret_def raise_def)
qed

subsection \<open>The image archive\<close>

definition remove_process :: "stack_config \<Rightarrow> string \<Rightarrow> process" where
  "remove_process c role = script_process c role (''set -eu'' @ [LF] @ ''rm -f '' @ shlex_quote ARCHIVE @ [LF])"

definition pull_process :: "stack_config \<Rightarrow> (string \<times> string) list \<Rightarrow> process" where
  "pull_process c refs = script_process c ''head'' (pull_script c refs)"

lemma no_crash: "fst (start_process S args input content w) \<noteq> raise StackCrash"
  by (auto simp: start_process_def seq_def asks_def change_def throw_def give_def ret_def raise_def split: stack_answer.split)

lemma remove_one:
  assumes "\<forall>n args i. ss_answer S n args i \<noteq> Not_Started"
  shows "catch (seq (on_host S c role (''set -eu'' @ [LF] @ ''rm -f '' @ shlex_quote ARCHIVE @ [LF]) False) (\<lambda>_. give ()))
      (\<lambda>e. if e = ObservabilityError then give () else throw e) w = (ret (), with_events w [remove_process c role])"
  using host_runs [of S w c role "''set -eu'' @ [LF] @ ''rm -f '' @ shlex_quote ARCHIVE @ [LF]"]
proof (cases rule: runs_cases)
  case (ok out)
  then show ?thesis by (simp add: catch_def seq_returns give_def ret_def remove_process_def)
next
  case (bad e)
  then have "e \<noteq> StackCrash"
    using no_crash [of S "ssh_args c role @ [''bash'', ''-s'']" "Some (''set -eu'' @ [LF] @ ''rm -f '' @ shlex_quote ARCHIVE @ [LF])" None w]
    by (auto simp: on_host_def stack_local_def)
  with bad assms have "e = ObservabilityError" by blast
  with bad(1) show ?thesis by (simp add: catch_def seq_raises give_def raise_def remove_process_def)
qed

lemma remove_both:
  assumes "\<forall>n args i. ss_answer S n args i \<noteq> Not_Started"
  shows "remove_archive S c w = (ret (), with_events w [remove_process c ''head'', remove_process c ''worker''])"
  unfolding remove_archive_def each_def fold_io.simps seq_returns [OF remove_one [OF assms]]
  by (simp add: with_events_def give_def)

lemma finally_ends:
  assumes "\<And>t. n t = (ret (), g t)" and "m s = (q, t)" and "q \<noteq> None"
  shows "finally_io m n s = (q, g t)"
  using assms by (cases q rule: comp_cases) (auto simp: finally_io_def catch_def seq_def throw_def give_def ret_def raise_def)

text \<open>The images for the worker, each with its immutable reference; the three processes that carry their archive.\<close>

definition worker_refs :: "stack_config \<Rightarrow> (string \<times> string) list \<Rightarrow> bool" where
  "worker_refs c refs \<longleftrightarrow> map fst refs = [''promtail'', ''node_exporter'', ''fabric_exporter'']
     \<and> (\<forall>(k, ref)\<in>set refs. map_of (sk_images c) k = Some ref \<and> digest_ref ref)"

lemma gather_refs:
  "gather (\<lambda>key. bind (locked_image c key) (\<lambda>ref. ret [(key, ref)])) ks = ret refs \<longleftrightarrow>
     map fst refs = ks \<and> (\<forall>(k, ref)\<in>set refs. map_of (sk_images c) k = Some ref \<and> digest_ref ref)"
proof (induction ks arbitrary: refs)
  case (Cons k ks)
  have "locked_image c k = ret ref \<longleftrightarrow> map_of (sk_images c) k = Some ref \<and> digest_ref ref" for ref
    by (auto simp: locked_image_def bind_eq_ret split: option.split)
  with Cons show ?case by (cases refs) (auto simp: bind_eq_ret)
qed auto

definition copy_processes :: "stack_config \<Rightarrow> string \<Rightarrow> process list" where
  "copy_processes c tmp =
     [Process (butlast (scp_args c ''head'') @ [host_target c ''head'' @ '':'' @ ARCHIVE, tmp]) None None,
      Process (butlast (scp_args c ''worker'') @ [tmp, host_target c ''worker'' @ '':'' @ ARCHIVE]) None None,
      script_process c ''worker'' (''set -eu'' @ [LF] @ ''docker load --input '' @ shlex_quote ARCHIVE @ '' >/dev/null'' @ [LF]
        @ ''rm -f '' @ shlex_quote ARCHIVE @ [LF])]"

text \<open>How far a list of processes got that are run one after the other until one fails.\<close>

definition got_to :: "stack_site \<Rightarrow> nat \<Rightarrow> process list \<Rightarrow> nat \<Rightarrow> bool \<Rightarrow> bool" where
  "got_to S n ps k ok \<longleftrightarrow> 0 < k \<and> k \<le> length ps \<and> (\<forall>i. Suc i < k \<longrightarrow> succeeded S (n + i) (ps ! i))
     \<and> (ok \<longleftrightarrow> k = length ps \<and> succeeded S (n + (k - 1)) (ps ! (k - 1))) \<and> (k < length ps \<longrightarrow> \<not> succeeded S (n + (k - 1)) (ps ! (k - 1)))"

lemma copy_runs:
  fixes S c tmp u
  defines "copy \<equiv> seq (start_process S (butlast (scp_args c ''head'') @ [host_target c ''head'' @ '':'' @ ARCHIVE, tmp]) None None) (\<lambda>_.
          seq (start_process S (butlast (scp_args c ''worker'') @ [tmp, host_target c ''worker'' @ '':'' @ ARCHIVE]) None None) (\<lambda>_.
          seq (on_host S c ''worker'' (''set -eu'' @ [LF] @ ''docker load --input '' @ shlex_quote ARCHIVE @ '' >/dev/null'' @ [LF] @ ''rm -f ''
            @ shlex_quote ARCHIVE @ [LF]) False) (\<lambda>_. give ())))"
  shows "\<exists>k q. copy u = (q, with_events u (take k (copy_processes c tmp))) \<and> q \<noteq> None
    \<and> got_to S (length (sw_events u)) (copy_processes c tmp) k (q = ret ())"
proof -
  define A where "A = butlast (scp_args c ''head'') @ [host_target c ''head'' @ '':'' @ ARCHIVE, tmp]"
  define B where "B = butlast (scp_args c ''worker'') @ [tmp, host_target c ''worker'' @ '':'' @ ARCHIVE]"
  define T where "T = ''set -eu'' @ [LF] @ ''docker load --input '' @ shlex_quote ARCHIVE @ '' >/dev/null'' @ [LF] @ ''rm -f ''
            @ shlex_quote ARCHIVE @ [LF]"
  let ?p1 = "Process A None None" and ?p2 = "Process B None None" and ?p3 = "script_process c ''worker'' T"
  let ?n = "length (sw_events u)"
  have p: "copy_processes c tmp = [?p1, ?p2, ?p3]" by (simp add: copy_processes_def A_def B_def T_def)
  have copy: "copy = seq (start_process S A None None) (\<lambda>_. seq (start_process S B None None) (\<lambda>_.
      seq (on_host S c ''worker'' T False) (\<lambda>_. give ())))" by (simp add: copy_def A_def B_def T_def)
  have w: "with_events (with_events w a) b = with_events w (a @ b)" for w a b by (simp add: with_events_def)
  have less: "i < 2 \<longleftrightarrow> i = 0 \<or> i = Suc 0" for i :: nat by auto
  have n: "raise x \<noteq> (ret () :: (stack_error, unit) comp)" "raise x \<noteq> (None :: (stack_error, unit) comp)" "ret () \<noteq> (None :: (stack_error, unit) comp)"
    for x by (simp_all add: raise_def ret_def)
  show ?thesis
    unfolding p using start_runs [of S u A None None]
  proof (cases rule: runs_cases)
    case (bad e)
    have "copy u = (raise e, with_events u [?p1])" unfolding copy by (rule seq_raises) (rule bad(1))
    with bad(2) n show "\<exists>k q. copy u = (q, with_events u (take k [?p1, ?p2, ?p3])) \<and> q \<noteq> None \<and> got_to S ?n [?p1, ?p2, ?p3] k (q = ret ())"
      by (intro exI [of _ 1] exI [of _ "raise e"]) (simp add: got_to_def)
  next
    case 1: (ok o1)
    show "\<exists>k q. copy u = (q, with_events u (take k [?p1, ?p2, ?p3])) \<and> q \<noteq> None \<and> got_to S ?n [?p1, ?p2, ?p3] k (q = ret ())"
      using start_runs [of S "with_events u [?p1]" B None None]
    proof (cases rule: runs_cases)
      case (bad e)
      have "copy u = (raise e, with_events (with_events u [?p1]) [?p2])"
        unfolding copy seq_returns [where m = "start_process S A None None", OF 1(1)] by (rule seq_raises) (rule bad(1))
      with bad(2) 1(2) n show ?thesis
        by (intro exI [of _ 2] exI [of _ "raise e"]) (simp add: got_to_def w less)
    next
      case 2: (ok o2)
      note step = seq_returns [where m = "start_process S A None None", OF 1(1)] seq_returns [where m = "start_process S B None None", OF 2(1)]
      have s: "succeeded S ?n ?p1" "succeeded S (Suc ?n) ?p2" using 1(2) 2(2) by simp_all
      show ?thesis
        using host_runs [of S "with_events (with_events u [?p1]) [?p2]" c "''worker''" T]
      proof (cases rule: runs_cases)
        case (bad e)
        have "copy u = (raise e, with_events (with_events (with_events u [?p1]) [?p2]) [?p3])"
          unfolding copy step by (rule seq_raises) (rule bad(1))
        with bad(2) s n show ?thesis
          by (intro exI [of _ 3] exI [of _ "raise e"]) (auto simp: got_to_def w less)
      next
        case (ok o3)
        have "copy u = (ret (), with_events (with_events (with_events u [?p1]) [?p2]) [?p3])"
          unfolding copy step seq_returns [where m = "on_host S c ''worker'' T False", OF ok(1)] by (simp add: give_def)
        with ok(2) s n show ?thesis
          by (intro exI [of _ 3] exI [of _ "ret ()"]) (auto simp: got_to_def w less)
      qed
    qed
  qed
qed

lemma archive_cleanup:
  fixes S c w
  defines "n \<equiv> length (sw_events w)"
  assumes "\<forall>n args i. ss_answer S n args i \<noteq> Not_Started" and "stage_worker_images S c False w = (r, w')"
  shows "(\<nexists>refs. worker_refs c refs) \<Longrightarrow> r \<noteq> ret () \<and> sw_events w' = sw_events w"
    and "worker_refs c refs \<Longrightarrow> \<not> succeeded S n (pull_process c refs) \<Longrightarrow> r \<noteq> ret () \<and> sw_events w' = sw_events w @ [pull_process c refs]"
    and "worker_refs c refs \<Longrightarrow> succeeded S n (pull_process c refs) \<Longrightarrow>
      \<exists>k. got_to S (Suc n) (copy_processes c (ss_tmp S (Suc n))) k (r = ret ())
        \<and> sw_events w' = sw_events w @ pull_process c refs # take k (copy_processes c (ss_tmp S (Suc n)))
            @ [remove_process c ''head'', remove_process c ''worker'']"
proof -
  let ?m = "gather (\<lambda>key. bind (locked_image c key) (\<lambda>ref. ret [(key, ref)])) WORKER_IMAGES"
  have m: "?m = ret refs \<longleftrightarrow> worker_refs c refs" for refs
    unfolding gather_refs worker_refs_def WORKER_IMAGES_def ..
  have raises: "seq (calc_stk ?m) f w = (x, w) \<and> x \<noteq> ret ()" if "\<nexists>refs. ?m = ret refs" "x = (case ?m of Some (Inl e) \<Rightarrow> Some (Inl e) | _ \<Rightarrow> None)"
    for f and x :: "(stack_error, unit) comp"
    using that by (cases ?m rule: comp_cases) (auto simp: seq_def calc_stk_def lift_def raise_def ret_def)
  show "r \<noteq> ret () \<and> sw_events w' = sw_events w" if "\<nexists>refs. worker_refs c refs"
    using raises [OF _ refl] that assms(3) unfolding m [symmetric] stage_worker_images_def by auto
  have start: "seq (calc_stk ?m) f w = f refs w" if "worker_refs c refs" for f :: "_ \<Rightarrow> unit stk" and refs
    using that unfolding m [symmetric] by (simp add: seq_def calc_stk_def lift_def ret_def)
  show "r \<noteq> ret () \<and> sw_events w' = sw_events w @ [pull_process c refs]"
    if "worker_refs c refs" "\<not> succeeded S n (pull_process c refs)"
    using host_runs [of S w c "''head''" "pull_script c refs"]
  proof (cases rule: runs_cases)
    case (bad e)
    have "(raise e, with_events w [pull_process c refs]) = (r, w')"
      using assms(3) unfolding stage_worker_images_def start [OF that(1)] pull_process_def by (simp add: seq_def bad(1)) (simp add: raise_def)
    then show ?thesis by (auto simp: ret_def raise_def)
  qed (use that in \<open>simp add: n_def pull_process_def\<close>)
  show "\<exists>k. got_to S (Suc n) (copy_processes c (ss_tmp S (Suc n))) k (r = ret ())
        \<and> sw_events w' = sw_events w @ pull_process c refs # take k (copy_processes c (ss_tmp S (Suc n)))
            @ [remove_process c ''head'', remove_process c ''worker'']"
    if "worker_refs c refs" "succeeded S n (pull_process c refs)"
    using host_runs [of S w c "''head''" "pull_script c refs"]
  proof (cases rule: runs_cases)
    case (ok out)
    define u where "u = with_events w [pull_process c refs]"
    have u: "length (sw_events u) = Suc n" by (simp add: u_def n_def)
    let ?tmp = "ss_tmp S (Suc n)"
    define copy where "copy =
        seq (start_process S (butlast (scp_args c ''head'') @ [host_target c ''head'' @ '':'' @ ARCHIVE, ?tmp]) None None) (\<lambda>_.
        seq (start_process S (butlast (scp_args c ''worker'') @ [?tmp, host_target c ''worker'' @ '':'' @ ARCHIVE]) None None) (\<lambda>_.
        seq (on_host S c ''worker'' (''set -eu'' @ [LF] @ ''docker load --input '' @ shlex_quote ARCHIVE @ '' >/dev/null'' @ [LF] @ ''rm -f ''
          @ shlex_quote ARCHIVE @ [LF]) False) (\<lambda>_. give ())))"
    have run: "finally_io copy (remove_archive S c) u = (r, w')"
      using assms(3) ok(1) unfolding stage_worker_images_def copy_def u [symmetric] start [OF that(1)] u_def pull_process_def
      by (simp add: seq_returns asks_def ret_def del: append.simps)
    from copy_runs [of S c ?tmp u, folded copy_def, unfolded u] obtain k q where
      q: "copy u = (q, with_events u (take k (copy_processes c ?tmp)))" "q \<noteq> None"
        "got_to S (Suc n) (copy_processes c ?tmp) k (q = ret ())" by blast
    from finally_ends [where m = copy and s = u and n = "remove_archive S c"
        and g = "\<lambda>t. with_events t [remove_process c ''head'', remove_process c ''worker'']", OF remove_both [OF assms(2)] q(1,2)] run q(3)
    show ?thesis by (intro exI [of _ k]) (auto simp: u_def)
  qed (use that in \<open>simp add: n_def pull_process_def\<close>)
qed

end
