(* ===== verification/Stack_Props.thy ===== *)
theory Stack_Props
  imports Stack_Secret Stack_Accepted Stack_Order
begin

text \<open>
  The properties of the observability tool: dry runs, the password, the scripts of an accepted configuration, the order
  of a deployment, the image archive, and the lock that the resolver writes.
\<close>

subsection \<open>The lock that is written\<close>

lemma map_of_sort_key: "map_of (sort_key fst es) k = map_of es k" for es :: "(string \<times> 'a) list"
proof -
  have *: "map_of es k = (case filter (\<lambda>e. fst e = k) es of [] \<Rightarrow> None | e # _ \<Rightarrow> Some (snd e))" for es :: "(string \<times> 'a) list"
    by (induction es) auto
  have "filter (\<lambda>e. fst e = k) (sort_key fst es) = filter (\<lambda>e. fst e = k) es" by (rule sort_key_stable)
  then show ?thesis by (simp add: *)
qed

lemma item_sorted: "item (sort_key fst (map (\<lambda>(k, v). (k, sorted_keys v)) es)) k = sorted_keys (item es k)"
proof -
  have "map_of (map (\<lambda>(k, v). (k, sorted_keys v)) es) k = map_option sorted_keys (map_of es k)"
    by (induction es) auto
  then show ?thesis by (simp add: item_def map_of_sort_key split: option.split)
qed

lemma sorted_leaf: "sorted_keys v = JStr s \<longleftrightarrow> v = JStr s" "sorted_keys v = JNull \<longleftrightarrow> v = JNull"
  by (cases v; simp)+

lemma locked_ref_sorted: "locked_ref (sort_key fst (map (\<lambda>(k, v). (k, sorted_keys v)) es)) k = locked_ref es k"
proof (cases "item es k")
  case (JObj e)
  then show ?thesis
    by (cases "item e ''reference''"; cases "item e ''digest''") (simp_all add: locked_ref_def item_sorted)
qed (simp_all add: locked_ref_def item_sorted)

lemma locked_refs_sorted: "locked_refs (sort_key fst (map (\<lambda>(k, v). (k, sorted_keys v)) es)) ks = locked_refs es ks"
  by (induction ks) (simp_all add: locked_ref_sorted)

lemma locked_refs_cong: "(\<And>k. item es k = item fs k) \<Longrightarrow> locked_refs es ks = locked_refs fs ks"
  by (induction ks) (simp_all add: locked_ref_def)

lemma written_lock_checks:
  "check_stack_lock (sorted_keys (JObj (lock_document images))) =
     locked_refs (map (\<lambda>(k, e). (k, JObj e)) images) (map fst DEFAULT_IMAGE_TAGS)"
proof -
  have i: "item (lock_document images) k = (if k = ''schema_version'' then JInt 1 else if k = ''status'' then JStr ''ready''
      else if k = ''architecture'' then JStr ARCHITECTURE
      else if k = ''images'' then JObj (map (\<lambda>(k, e). (k, JObj e)) (sort_key fst images)) else JNull)" for k
    by (simp add: lock_document_def item_def)
  have "map_of (map (\<lambda>(k, e). (k, JObj e)) es) k = map_option JObj (map_of es k)" for es :: "(string \<times> dict) list" and k
    by (induction es) auto
  then have m: "item (map (\<lambda>(k, e). (k, JObj e)) (sort_key fst images)) k = item (map (\<lambda>(k, e). (k, JObj e)) images) k" for k
    by (simp add: item_def map_of_sort_key)
  show ?thesis
    unfolding check_stack_lock_def sorted_keys.simps
    by (simp add: item_sorted i locked_refs_sorted locked_refs_cong [OF m] del: list.map map_map)
qed

text \<open>
  A reference pins an image when it is a repository with a SHA-256 digest.  The entry that the resolver printed for a key
  resolves it to such a reference when it names it and its digest, where it has one, is the same.
\<close>

definition pinned :: "string \<Rightarrow> string \<Rightarrow> bool" where
  "pinned ref d \<longleftrightarrow> length d = 64 \<and> (\<forall>x\<in>set d. is_lhex x) \<and> (\<exists>c r. ref = c # r @ ''@sha256:'' @ d \<and> is_alnum c
     \<and> (\<forall>x\<in>set r. is_alnum x \<or> x \<in> {CHR ''.'', CHR ''_'', CHR ''/'', CHR ''-''}))"

definition resolved_to :: "dict \<Rightarrow> string \<Rightarrow> string \<Rightarrow> bool" where
  "resolved_to es k ref \<longleftrightarrow> (\<exists>v e d. map_of es k = Some v \<and> py_dict v = ret e \<and> map_of e ''reference'' = Some (JStr ref)
     \<and> pinned ref d \<and> map_of e ''digest'' \<in> {None, Some JNull, Some (JStr d)})"

lemma digest_ref_pinned: "digest_ref ref \<longleftrightarrow> (\<exists>d. pinned ref d)"
proof
  assume d: "digest_ref ref"
  then obtain c r e where s: "split_on CHR ''@'' ref = [c # r, e]" and c: "is_alnum c"
    "\<forall>x\<in>set r. is_alnum x \<or> x \<in> {CHR ''.'', CHR ''_'', CHR ''/'', CHR ''-''}" and e: "bare_digest e"
    unfolding digest_ref_def by (auto split: list.splits)
  have "ref = (c # r) @ CHR ''@'' # e"
  proof (cases "CHR ''@'' \<in> set ref")
    case True
    then obtain a b where ab: "ref = a @ CHR ''@'' # b" "CHR ''@'' \<notin> set a" by (meson split_list_first)
    with s have "a = c # r" "split_on CHR ''@'' b = [e]" by (simp_all add: split_on_append)
    moreover have "b = e"
    proof (cases "CHR ''@'' \<in> set b")
      case True
      then obtain x y where "b = x @ CHR ''@'' # y" "CHR ''@'' \<notin> set x" by (meson split_list_first)
      with \<open>split_on CHR ''@'' b = [e]\<close> show ?thesis by (simp add: split_on_append)
    qed (use \<open>split_on CHR ''@'' b = [e]\<close> in \<open>simp add: split_on_no\<close>)
    ultimately show ?thesis using ab by simp
  qed (use s in \<open>simp add: split_on_no\<close>)
  moreover from e obtain h where "e = ''sha256:'' @ h" "length h = 64" "\<forall>x\<in>set h. is_lhex x"
    by (auto simp: bare_digest_def starts_with_iff is_sha256_def)
  ultimately show "\<exists>d. pinned ref d" using c by (auto simp: pinned_def)
next
  assume "\<exists>d. pinned ref d"
  then obtain c r d where p: "ref = (c # r) @ CHR ''@'' # (''sha256:'' @ d)" "is_alnum c"
    "\<forall>x\<in>set r. is_alnum x \<or> x \<in> {CHR ''.'', CHR ''_'', CHR ''/'', CHR ''-''}" "length d = 64" "\<forall>x\<in>set d. is_lhex x"
    by (auto simp: pinned_def)
  have at: "\<not> is_alnum CHR ''@''" "\<not> is_lhex CHR ''@''" by code_simp+
  have a: "CHR ''@'' \<notin> set (c # r)" using p(2,3) at by auto
  have b: "CHR ''@'' \<notin> set (''sha256:'' @ d)" using p(5) at by auto
  have "split_on CHR ''@'' ref = [c # r, ''sha256:'' @ d]" unfolding p(1) split_on_append [OF a] split_on_no [OF b] ..
  with p(2-5) show "digest_ref ref" by (simp add: digest_ref_def bare_digest_def is_sha256_def starts_with_iff)
qed

lemma suffix_drop: "ref = a @ b \<Longrightarrow> length b = n \<Longrightarrow> b = drop (length ref - n) ref"
  by simp

lemma pinned_digest: "pinned ref d \<Longrightarrow> is_sha256 h \<Longrightarrow> starts_with (rev (''@sha256:'' @ h)) (rev ref) \<longleftrightarrow> h = d"
  unfolding starts_with_iff
proof
  assume p: "pinned ref d" and h: "is_sha256 h"
  {
    assume "\<exists>x. rev ref = rev (''@sha256:'' @ h) @ x"
    then obtain x where "rev ref = rev (''@sha256:'' @ h) @ x" ..
    then have "ref = rev x @ ''@sha256:'' @ h" by (metis rev_append rev_rev_ident append_assoc)
    moreover obtain c r where "ref = (c # r) @ ''@sha256:'' @ d" "length d = 64" using p by (auto simp: pinned_def)
    moreover have "length h = 64" using h by (simp add: is_sha256_def)
    ultimately have "h = drop (length ref - 64) ref" "d = drop (length ref - 64) ref"
      by (metis suffix_drop append_assoc)+
    then show "h = d" by simp
  next
    assume "h = d"
    with p show "\<exists>x. rev ref = rev (''@sha256:'' @ h) @ x" by (auto simp: pinned_def)
  }
qed

lemma pinned_unique: "pinned ref d \<Longrightarrow> pinned ref d' \<Longrightarrow> d = d'"
  using pinned_digest [of ref d d'] pinned_digest [of ref d' d'] by (auto simp: pinned_def is_sha256_def)

lemma entry_dicts_map:
  assumes "entry_dicts es = ret images"
  shows "map_of images k = Some e \<longleftrightarrow> (\<exists>v. map_of es k = Some v \<and> py_dict v = ret e)"
proof -
  have *: "gather (\<lambda>(k, v). bind (py_dict v) (\<lambda>d. ret [(k, d)])) xs = ret images \<Longrightarrow>
      map_of images k = Some e \<longleftrightarrow> (\<exists>v. map_of xs k = Some v \<and> py_dict v = ret e)" for xs images
    by (induction xs arbitrary: images) (auto simp: bind_eq_ret)
  from * [OF assms [unfolded entry_dicts_def]] show ?thesis by (simp add: map_of_sort_key)
qed

lemma locked_ref_resolved:
  assumes "entry_dicts es = ret images"
  shows "locked_ref (map (\<lambda>(k, e). (k, JObj e)) images) k = ret ref \<longleftrightarrow> resolved_to es k ref"
proof -
  have m: "map_of (map (\<lambda>(k, e). (k, JObj e)) images) k = map_option JObj (map_of images k)"
    by (induction images) auto
  have "locked_ref (map (\<lambda>(k, e). (k, JObj e)) images) k = ret ref \<longleftrightarrow> (\<exists>e. map_of images k = Some e \<and> map_of e ''reference'' = Some (JStr ref)
      \<and> (\<exists>d. pinned ref d \<and> map_of e ''digest'' \<in> {None, Some JNull, Some (JStr d)}))"
  proof (cases "map_of images k")
    case (Some e)
    have d: "(case item e ''digest'' of JNull \<Rightarrow> True | JStr d \<Rightarrow> is_sha256 d \<and> starts_with (rev (''@sha256:'' @ d)) (rev ref) | _ \<Rightarrow> False)
        \<longleftrightarrow> map_of e ''digest'' \<in> {None, Some JNull, Some (JStr d)}" if "pinned ref d" for ref d
    proof -
      have "is_sha256 d" using that by (simp add: pinned_def is_sha256_def)
      with pinned_digest [OF that] show ?thesis
        by (cases "map_of e ''digest''"; cases "the (map_of e ''digest'')") (auto simp: item_def)
    qed
    have "locked_ref (map (\<lambda>(k, e). (k, JObj e)) images) k = ret ref \<longleftrightarrow> item e ''reference'' = JStr ref \<and> digest_ref ref
        \<and> (case item e ''digest'' of JNull \<Rightarrow> True | JStr d \<Rightarrow> is_sha256 d \<and> starts_with (rev (''@sha256:'' @ d)) (rev ref) | _ \<Rightarrow> False)"
      by (cases "item e ''reference''") (auto simp: locked_ref_def item_def m Some bind_eq_ret)
    also have "\<dots> \<longleftrightarrow> map_of e ''reference'' = Some (JStr ref) \<and> (\<exists>d. pinned ref d \<and> map_of e ''digest'' \<in> {None, Some JNull, Some (JStr d)})"
      using d by (auto simp: digest_ref_pinned item_def split: option.splits)
    finally show ?thesis using Some by simp
  qed (simp add: locked_ref_def item_def m)
  then show ?thesis by (auto simp: resolved_to_def entry_dicts_map [OF assms])
qed

lemma locked_refs_resolved:
  assumes "entry_dicts es = ret images"
  shows "locked_refs (map (\<lambda>(k, e). (k, JObj e)) images) ks = ret l \<longleftrightarrow> map fst l = ks \<and> (\<forall>(k, ref)\<in>set l. resolved_to es k ref)"
proof (induction ks arbitrary: l)
  case (Cons k ks)
  show ?case by (cases l) (auto simp: bind_eq_ret locked_ref_resolved [OF assms] Cons.IH)
qed auto

lemma locked_refs_outcome: "(\<exists>l. locked_refs es ks = ret l) \<or> locked_refs es ks = raise ObservabilityError"
proof (induction ks)
  case (Cons k ks)
  have "(\<exists>ref. locked_ref es k = ret ref) \<or> locked_ref es k = raise ObservabilityError"
    by (auto simp: locked_ref_def require_def assert_def split: json.split)
  with Cons show ?case by auto
qed simp

subsection \<open>The properties\<close>

text \<open>
  C19. A dry run, a rendering and a deployment without the exact confirmation start no process, and none of them but
  the rendering writes a file.
\<close>

theorem dry_run_changes_nothing:
  assumes "cmd = Render \<or> g_dry_run a \<or> cmd = Deploy \<and> g_confirm a \<noteq> CONFIRMATION"
  shows "sw_events (snd (stack_main S a cmd w)) = sw_events w \<and> (cmd \<noteq> Render \<longrightarrow> sw_disk (snd (stack_main S a cmd w)) = sw_disk w)"
proof (cases "cmd = Render")
  case True
  then have "frame unsent (stack_main S a cmd)" by (intro frame_main pre_unsent) (simp add: unsent_render)
  with True show ?thesis by (simp add: frame_def unsent_def)
next
  case False
  with assms have "frame inert (stack_dispatch S a cmd)" using inert_command inert_unconfirmed by fastforce
  then have "frame inert (stack_main S a cmd)" by (intro frame_main pre_inert)
  then show ?thesis by (simp add: frame_def inert_def)
qed

text \<open>
  C18. The password of Grafana reaches nothing but the bytes of the one file copied to the head: two runs of any action
  that differ in the password print the same, write the same files, end the same way and start the same processes with the
  same input, up to the content of that copy.
\<close>

theorem password_only_to_head:
  assumes "p = [] \<longleftrightarrow> sk_admin_password c = []"
  shows "fst (run_stack_action S (c\<lparr>sk_admin_password := p\<rparr>) act d purge w) = fst (run_stack_action S c act d purge w)
    \<and> alike (host_target c ''head'' @ '':'' @ sk_remote_root c @ ''/grafana.env'')
        (snd (run_stack_action S c act d purge w)) (snd (run_stack_action S (c\<lparr>sk_admin_password := p\<rparr>) act d purge w))"
  using agree_action [OF assms] by (simp add: agree_def secret_file_def alike_def)

text \<open>
  C16. A profile, a lock and a configuration that are accepted have all that the scripts need: for either host and
  every action the script is made without an error.
\<close>

theorem accepted_stack_runs:
  assumes "load_stack_profile P profile_text = ret prof" and "load_stack_lock P lock_text = ret l"
    and "stack_config_of P repo vs prof (Some l) True = ret c"
  shows "\<exists>t. remote_script P c role act purge = ret t"
proof (rule scripts_ret)
  show "full_stack c"
    using accepted_stack_ready [OF loaded_profile_complete [OF assms(1)] assms(3)] loaded_lock_complete [OF assms(2)]
    by (simp add: full_stack_def)
qed


text \<open>
  C17. A confirmed deployment that is no dry run and whose configuration loads starts with the health check of the served
  model; nothing follows unless it succeeded, and a deployment that returns ends with a second check that succeeded.  Only
  \<^verbatim>\<open>OBS_SKIP_VLLM_CHECK=1\<close> turns this off: then it is the action on both hosts, without a health check.
\<close>

theorem deployment_guarded:
  assumes "g_confirm a = CONFIRMATION" and "\<not> g_dry_run a" and "load_config_for S a True w = (ret (vs, c), w0)"
    and "cmd_deploy S a w = (r, w')"
  shows "(map_of vs ''OBS_SKIP_VLLM_CHECK'' \<noteq> Some ''1'' \<longrightarrow> (\<exists>rest. sw_events w' = sw_events w @ health_check c # rest
      \<and> (rest \<noteq> [] \<or> r = ret () \<longrightarrow> succeeded S (length (sw_events w)) (health_check c))
      \<and> (r = ret () \<longrightarrow> (\<exists>mid. rest = mid @ [health_check c] \<and> succeeded S (length (sw_events w) + 1 + length mid) (health_check c)))))
    \<and> (map_of vs ''OBS_SKIP_VLLM_CHECK'' = Some ''1'' \<longrightarrow> r = fst (run_stack_action S c Stack_Up False False w0)
      \<and> sw_events w' = sw_events (snd (run_stack_action S c Stack_Up False False w0)))"
  using deploy_guarded [OF assms(1-3) _ assms(4)] deploy_unchecked [OF assms(1-3) _ assms(4)] by blast

text \<open>
  C20. Carrying the images to the worker.  When one of the three images has no immutable reference, no process is started and
  the call fails; when pulling fails, that is the only process and the call fails.  Otherwise the three processes that
  carry the archive are started up to the first that fails, and after them, however they ended, one on each host that
  removes the archive; the call returns exactly if all three succeeded.  This supposes that the programs that
  start the processes are not refused by the operating system.
\<close>

theorem archive_removed:
  assumes "\<forall>n args i. ss_answer S n args i \<noteq> Not_Started"
    and "stage_worker_images S c False w = (r, w')"
  shows "((\<nexists>refs. worker_refs c refs) \<longrightarrow> r \<noteq> ret () \<and> sw_events w' = sw_events w)
    \<and> (\<forall>refs. worker_refs c refs \<longrightarrow>
        (\<not> succeeded S (length (sw_events w)) (pull_process c refs) \<longrightarrow> r \<noteq> ret () \<and> sw_events w' = sw_events w @ [pull_process c refs])
        \<and> (succeeded S (length (sw_events w)) (pull_process c refs) \<longrightarrow>
          (\<exists>k. got_to S (Suc (length (sw_events w))) (copy_processes c (ss_tmp S (Suc (length (sw_events w))))) k (r = ret ())
            \<and> sw_events w' = sw_events w @ pull_process c refs
              # take k (copy_processes c (ss_tmp S (Suc (length (sw_events w))))) @ [remove_process c ''head'', remove_process c ''worker''])))"
  using archive_cleanup [OF assms] by blast

text \<open>
  C22. The lock that the resolver writes, if it is read back as it was written: it loads exactly when the entry of each image
  names a repository with a digest, and a digest of its own agrees with it; then the loaded references are those,
  in order.  Otherwise loading fails with the error of the tool.
\<close>

theorem resolved_lock_loads:
  assumes "resolved_lock P out = ret lock"
    and "py_loads P (pretty_json P 0 (sorted_keys lock) @ [LF]) = Some (sorted_keys lock)"
  defines "loaded \<equiv> load_stack_lock P (Some (pretty_json P 0 (sorted_keys lock) @ [LF]))"
  shows "\<exists>es. py_loads P out = Some (JObj es) \<and> fst ` set es = fst ` set DEFAULT_IMAGE_TAGS
    \<and> (\<forall>l. loaded = ret l \<longleftrightarrow> map fst l = map fst DEFAULT_IMAGE_TAGS \<and> (\<forall>(k, ref)\<in>set l. resolved_to es k ref))
    \<and> ((\<nexists>l. loaded = ret l) \<longrightarrow> loaded = raise ObservabilityError)"
proof -
  from assms(1) obtain es images where e: "py_loads P out = Some (JObj es)" "fst ` set es = fst ` set DEFAULT_IMAGE_TAGS"
    "entry_dicts es = ret images" "lock = JObj (lock_document images)"
    unfolding resolved_lock_def
    by (cases "py_loads P out"; cases "the (py_loads P out)") (auto simp: if_raise_ret)
  have "loaded = locked_refs (map (\<lambda>(k, e). (k, JObj e)) images) (map fst DEFAULT_IMAGE_TAGS)"
    using assms(2) e(4) by (simp add: loaded_def load_stack_lock_def written_lock_checks del: sorted_keys.simps pretty_json.simps)
  with e(1,2) locked_refs_resolved [OF e(3)] locked_refs_outcome show ?thesis by (intro exI [of _ es]) metis
qed

text \<open>
  The refused characters of a log path include two letters that occur in the directory of Docker's own logs: no such path
  is ever accepted.
\<close>

lemma docker_log_path_refused:
  assumes "first_value vs [''OBS_VLLM_LOG_PATH_HEAD''] [] = ''/var/lib/docker/containers/'' @ rest"
  shows "stack_config_of P repo vs prof lock b \<noteq> ret c"
proof
  assume "stack_config_of P repo vs prof lock b = ret c"
  then obtain c1 c2 where "stack_containers P prof vs c1 = ret c2" unfolding stack_config_of_def by blast
  then have "log_path_ok (''/var/lib/docker/containers/'' @ rest)"
    unfolding stack_containers_def Let_def by (auto simp: assms split: if_splits)
  then show False by (simp add: log_path_ok_def LOG_PATH_REFUSED_def)
qed

end
