(* ===== verification/Stack_Demo.thy ===== *)
theory Stack_Demo
  imports Stack_Props
begin

text \<open>The properties of the observability tool at concrete inputs: a small profile, lock and env file.\<close>

definition tool_profile :: dict where
  "tool_profile = [(''architecture'', JStr ARCHITECTURE), (''profile_id'', JStr ''p''),
     (''network'', JObj [(''ports'', JObj (map (\<lambda>(k, n). (k, JInt n)) STACK_PORTS)), (''head_addr'', JStr ''10.0.0.1''), (''worker_addr'', JStr ''10.0.0.2'')]),
     (''service'', JObj [(''api_port'', JInt 8101), (''metrics_path'', JStr ''/metrics'')]),
     (''components'', JObj (map (\<lambda>k. (k, JObj [(''role'', JStr ''head''), (''container'', JStr ''dgx-observe-a'')])) STACK_COMPONENTS)),
     (''volumes'', JObj (map (\<lambda>k. (k, JStr ''dgx-observe-v'')) STACK_VOLUMES))]"

definition tool_ref :: string where
  "tool_ref = ''r@sha256:'' @ replicate 64 CHR ''0''"

definition tool_images :: dict where
  "tool_images = map (\<lambda>(k, _). (k, JObj [(''reference'', JStr tool_ref)])) DEFAULT_IMAGE_TAGS"

definition tool_lock :: json where
  "tool_lock = JObj [(''schema_version'', JInt 1), (''status'', JStr ''ready''), (''architecture'', JStr ARCHITECTURE), (''images'', JObj tool_images)]"

definition tool_python :: python where
  "tool_python = \<lparr>py_str_other = (\<lambda>_. []), py_float = (\<lambda>_. []),
     py_loads = (\<lambda>t. if t = ''profile'' then Some (JObj tool_profile) else if t = ''lock'' then Some tool_lock
       else if t = ''images'' then Some (JObj tool_images)
       else Some (sorted_keys (JObj (lock_document (map (\<lambda>(k, _). (k, [(''reference'', JStr tool_ref)])) DEFAULT_IMAGE_TAGS))))),
     py_sha256 = (\<lambda>_. [])\<rparr>"

definition tool_env :: env where
  "tool_env = [(''OBS_SSH_USER'', ''u''), (''OBS_REMOTE_ROOT'', ''/r'')]"

definition tool_refs :: env where
  "tool_refs = map (\<lambda>(k, _). (k, tool_ref)) DEFAULT_IMAGE_TAGS"

definition tool_config :: stack_config where
  "tool_config = (case stack_config_of tool_python (''/'', [''repo'']) tool_env tool_profile (Some tool_refs) True of
     Some (Inr c) \<Rightarrow> c | _ \<Rightarrow> no_stack)"

definition tool_site :: stack_site where
  "tool_site = \<lparr>ss_python = tool_python, ss_repo = (''/'', [''repo'']), ss_source = [], ss_profile = ''/p'',
     ss_answer = (\<lambda>_ _ _. Exited 0 []), ss_tmp = (\<lambda>_. ''/tmp/t''), ss_writable = (\<lambda>_. True)\<rparr>"

definition tool_args :: stack_args where
  "tool_args = \<lparr>g_env_file = ''/e'', g_profile = [], g_image_lock = ''/l'', g_output = [], g_confirm = CONFIRMATION,
     g_dry_run = False, g_purge = False, g_allow_mutable = False, g_smoke = False\<rparr>"

definition tool_world :: stack_world where
  "tool_world = \<lparr>sw_out = [], sw_disk = [''/p'' \<mapsto> ''profile'', ''/l'' \<mapsto> ''lock'', ''/e'' \<mapsto> ''OBS_SSH_USER=u'' @ [LF] @ ''OBS_REMOTE_ROOT=/r''],
     sw_events = []\<rparr>"

subsection \<open>What the inputs are read as\<close>

lemma tool_profile_loads: "load_stack_profile tool_python (Some ''profile'') = ret tool_profile"
  by code_simp

lemma tool_lock_loads: "load_stack_lock tool_python (Some ''lock'') = ret tool_refs"
  by code_simp

lemma tool_accepts: "stack_config_of tool_python (''/'', [''repo'']) tool_env tool_profile (Some tool_refs) True = ret tool_config"
proof -
  have "case stack_config_of tool_python (''/'', [''repo'']) tool_env tool_profile (Some tool_refs) True of Some (Inr c) \<Rightarrow> True | _ \<Rightarrow> False"
    by code_simp
  then show ?thesis unfolding tool_config_def ret_def by (auto split: option.splits sum.splits)
qed

lemma tool_texts:
  "path_str (path_of ''/e'') = ''/e''" "path_str (path_of ''/p'') = ''/p''" "path_str (path_of ''/l'') = ''/l''"
  "stack_env (Some (''OBS_SSH_USER=u'' @ [LF] @ ''OBS_REMOTE_ROOT=/r'')) = ret tool_env"
  "vget tool_env ''OBS_PROFILE_FILE'' = []"
  by code_simp+

lemma tool_inputs: "load_inputs tool_site tool_args True tool_world = (ret (tool_env, tool_profile, Some tool_refs), tool_world)"
proof -
  have f: "read_file ''/e'' tool_world = (ret (Some (''OBS_SSH_USER=u'' @ [LF] @ ''OBS_REMOTE_ROOT=/r'')), tool_world)"
    "read_file ''/p'' tool_world = (ret (Some ''profile''), tool_world)" "read_file ''/l'' tool_world = (ret (Some ''lock''), tool_world)"
    unfolding read_file_def asks_def tool_texts by (simp_all add: tool_world_def)
  have c: "calc_stk (ret x) w = (ret x, w)" for x :: 'a and w by (simp add: calc_stk_def lift_def ret_def)
  have g: "give x tool_world = (ret x, tool_world)" for x :: 'a by (simp add: give_def)
  have a: "g_env_file tool_args = ''/e''" "g_profile tool_args = []" "g_image_lock tool_args = ''/l''" "ss_profile tool_site = ''/p''"
    "ss_python tool_site = tool_python"
    by (simp_all add: tool_args_def tool_site_def)
  have e: "seq (read_file ''/e'') (\<lambda>t. calc_stk (stack_env t)) tool_world = (ret tool_env, tool_world)"
    by (simp only: seq_returns [where m = "read_file ''/e''", OF f(1)] tool_texts c)
  have l: "seq (read_file ''/l'') (\<lambda>t. seq (calc_stk (load_stack_lock tool_python t)) (\<lambda>l. give (Some l))) tool_world = (ret (Some tool_refs), tool_world)"
    by (simp only: seq_returns [where m = "read_file ''/l''", OF f(3)] tool_lock_loads seq_returns [where m = "calc_stk (ret _)", OF c] give_def)
  show ?thesis
    unfolding load_inputs_def a Let_def
    by (simp add: seq_returns [where m = "seq (read_file ''/e'') _", OF e] seq_returns [where m = "read_file ''/p''", OF f(2)] tool_texts
      tool_profile_loads seq_returns [where m = "calc_stk (ret _)", OF c] seq_returns [where m = "seq (read_file ''/l'') _", OF l]
      require_def assert_def g)
qed

lemma tool_loads: "load_config_for tool_site tool_args True tool_world = (ret (tool_env, tool_config), tool_world)"
proof -
  have s: "ss_python tool_site = tool_python" "ss_repo tool_site = (''/'', [''repo''])" by (simp_all add: tool_site_def)
  show ?thesis
    unfolding load_config_for_def s seq_returns [where m = "load_inputs tool_site tool_args True" and s = tool_world, OF tool_inputs]
    by (simp add: tool_accepts seq_def calc_stk_def lift_def give_def ret_def)
qed

subsection \<open>The properties at these inputs\<close>

lemma dry_run_changes_nothing_witness:
  "sw_events (snd (stack_main tool_site (tool_args\<lparr>g_dry_run := True\<rparr>) Deploy tool_world)) = []
    \<and> sw_disk (snd (stack_main tool_site (tool_args\<lparr>g_dry_run := True\<rparr>) Deploy tool_world)) ''/l'' = Some ''lock''"
proof -
  have "Deploy = Render \<or> g_dry_run (tool_args\<lparr>g_dry_run := True\<rparr>) \<or> Deploy = Deploy \<and> g_confirm (tool_args\<lparr>g_dry_run := True\<rparr>) \<noteq> CONFIRMATION"
    by simp
  from dry_run_changes_nothing [OF this, of tool_site tool_world] show ?thesis by (simp add: tool_world_def)
qed

lemma password_only_to_head_witness:
  "sk_admin_password tool_config = DEFAULT_PASSWORD
    \<and> alike (host_target tool_config ''head'' @ '':'' @ sk_remote_root tool_config @ ''/grafana.env'')
        (snd (run_stack_action tool_site tool_config Stack_Up False False tool_world))
        (snd (run_stack_action tool_site (tool_config\<lparr>sk_admin_password := ''secret''\<rparr>) Stack_Up False False tool_world))"
proof -
  have p: "sk_admin_password tool_config = DEFAULT_PASSWORD" by code_simp
  then have "''secret'' = [] \<longleftrightarrow> sk_admin_password tool_config = []" by (simp add: DEFAULT_PASSWORD_def)
  from password_only_to_head [OF this, of tool_site Stack_Up False False tool_world] p show ?thesis by blast
qed

lemma accepted_stack_runs_witness: "\<exists>t. remote_script tool_python tool_config ''head'' Stack_Up False = ret t"
  by (rule accepted_stack_runs [OF tool_profile_loads tool_lock_loads tool_accepts])


lemma deployment_guarded_witness:
  "\<exists>rest. sw_events (snd (cmd_deploy tool_site tool_args tool_world)) = health_check tool_config # rest"
proof -
  have "g_confirm tool_args = CONFIRMATION" "\<not> g_dry_run tool_args" by (simp_all add: tool_args_def)
  moreover have "map_of tool_env ''OBS_SKIP_VLLM_CHECK'' \<noteq> Some ''1''" by code_simp
  moreover obtain r w' where "cmd_deploy tool_site tool_args tool_world = (r, w')" by force
  ultimately show ?thesis
    using deployment_guarded [of tool_args tool_site tool_world tool_env tool_config tool_world r w'] tool_loads by (auto simp: tool_world_def)
qed

lemma archive_removed_witness:
  "\<exists>refs k. sw_events (snd (stage_worker_images tool_site tool_config False tool_world)) = pull_process tool_config refs
     # take k (copy_processes tool_config ''/tmp/t'') @ [remove_process tool_config ''head'', remove_process tool_config ''worker'']"
proof -
  have n: "\<forall>n args i. ss_answer tool_site n args i \<noteq> Not_Started" by (simp add: tool_site_def)
  obtain r w' where w': "stage_worker_images tool_site tool_config False tool_world = (r, w')" by force
  have s: "succeeded tool_site n p" "sw_events tool_world = []" "ss_tmp tool_site n = ''/tmp/t''" for n p
    by (simp_all add: succeeded_def tool_site_def tool_world_def)
  have "worker_refs tool_config (map (\<lambda>k. (k, tool_ref)) [''promtail'', ''node_exporter'', ''fabric_exporter''])" by code_simp
  with archive_removed [OF n w'] w' s show ?thesis by auto
qed

lemma resolved_lock_loads_witness:
  "\<exists>lock l. resolved_lock tool_python ''images'' = ret lock
    \<and> load_stack_lock tool_python (Some (pretty_json tool_python 0 (sorted_keys lock) @ [LF])) = ret l"
proof -
  let ?lock = "JObj (lock_document (map (\<lambda>(k, _). (k, [(''reference'', JStr tool_ref)])) DEFAULT_IMAGE_TAGS))"
  have r: "resolved_lock tool_python ''images'' = ret ?lock" by code_simp
  have p: "py_loads tool_python (pretty_json tool_python 0 (sorted_keys ?lock) @ [LF]) = Some (sorted_keys ?lock)"
    by code_simp
  have i: "py_loads tool_python ''images'' = Some (JObj tool_images)" by code_simp
  let ?d = "replicate 64 CHR ''0''"
  have "tool_ref = CHR ''r'' # [] @ ''@sha256:'' @ ?d" by (simp add: tool_ref_def)
  moreover have "is_alnum CHR ''r''" "\<forall>x\<in>set ?d. is_lhex x" by code_simp+
  ultimately have "pinned tool_ref ?d" unfolding pinned_def by (intro conjI exI [of _ "CHR ''r''"] exI [of _ "[]"]) simp_all
  then have "resolved_to tool_images k tool_ref" if "k \<in> fst ` set DEFAULT_IMAGE_TAGS" for k
  proof -
    have "map_of tool_images k = Some (JObj [(''reference'', JStr tool_ref)])"
      using that by (auto simp: tool_images_def DEFAULT_IMAGE_TAGS_def)
    with \<open>pinned tool_ref ?d\<close> show ?thesis by (auto simp: resolved_to_def py_dict_def intro!: exI [of _ ?d])
  qed
  then have "\<forall>(k, ref)\<in>set tool_refs. resolved_to tool_images k ref" by (force simp: tool_refs_def)
  moreover have "map fst tool_refs = map fst DEFAULT_IMAGE_TAGS" by (simp add: tool_refs_def comp_def case_prod_beta)
  ultimately show ?thesis using resolved_lock_loads [OF r p] r i by auto
qed

end
