(* ===== verification/Stack_Exporter.thy ===== *)
theory Stack_Exporter
  imports Stack_Run
begin

text \<open>
  \<^verbatim>\<open>scripts/observability/fabric_exporter.py\<close>: the metrics of the fabric, computed from the files below \<^verbatim>\<open>/sys\<close>.
  A file has a text, or nothing when it cannot be read.  What the answer to a request is is modelled, the HTTP server is
  not.
\<close>

record exporter =
  fx_root :: path
  fx_hca :: string
  fx_port :: string
  fx_ndev :: string
  fx_gid_index :: string
  fx_hostname :: string

subsection \<open>Metrics\<close>

definition fx_label :: "string \<Rightarrow> string" where
  "fx_label v = [DQ] @ concat (map (\<lambda>x. if x = BS then [BS, BS] else if x = DQ then [BS, DQ] else if x = LF then [] else [x]) v) @ [DQ]"

definition fx_metric :: "string \<Rightarrow> string \<Rightarrow> (string \<times> string) list \<Rightarrow> string" where
  "fx_metric m v labels =
     m @ (if labels = [] then [] else ''{'' @ join '','' (map (\<lambda>(k, l). k @ ''='' @ fx_label l) (sort_key fst labels)) @ ''}'') @ '' '' @ v @ [LF]"

definition flag :: "bool \<Rightarrow> string" where
  "flag b = (if b then ''1'' else ''0'')"

text \<open>\<^verbatim>\<open>str.isdigit\<close>, which superscripts satisfy; \<^verbatim>\<open>int\<close> refuses them.\<close>

definition isdigit :: "string \<Rightarrow> bool" where
  "isdigit s \<longleftrightarrow> s \<noteq> [] \<and> (\<forall>x\<in>set s. is_digit x \<or> code x \<in> {178, 179, 185})"

definition fx_int :: "string \<Rightarrow> (stack_error, int) comp" where
  "fx_int s = (if isdigit s then (case py_int s of None \<Rightarrow> raise StackCrash | Some i \<Rightarrow> ret i) else ret 0)"

subsection \<open>Reading\<close>

definition fx_read :: "exporter \<Rightarrow> (path \<Rightarrow> string option) \<Rightarrow> string list \<Rightarrow> string" where
  "fx_read X sys parts = (case sys (foldl path_join (fx_root X) parts) of None \<Rightarrow> [] | Some t \<Rightarrow> strip t)"

definition rdma_file :: "exporter \<Rightarrow> (path \<Rightarrow> string option) \<Rightarrow> string list \<Rightarrow> string" where
  "rdma_file X sys parts = fx_read X sys ([''class'', ''infiniband'', fx_hca X, ''ports'', fx_port X] @ parts)"

definition net_file :: "exporter \<Rightarrow> (path \<Rightarrow> string option) \<Rightarrow> string \<Rightarrow> string" where
  "net_file X sys f = fx_read X sys [''class'', ''net'', fx_ndev X, f]"

definition FX_HEADER :: "string list" where
  "FX_HEADER =
     [''# HELP dgx_fabric_gid_valid Whether the selected GID is non-zero.'',
      ''# TYPE dgx_fabric_gid_valid gauge'',
      ''# HELP dgx_fabric_gid_ipv4_mapped Whether the selected GID is IPv4-mapped.'',
      ''# TYPE dgx_fabric_gid_ipv4_mapped gauge'',
      ''# HELP dgx_fabric_gid_type_info Selected GID type.'',
      ''# TYPE dgx_fabric_gid_type_info gauge'',
      ''# HELP dgx_fabric_link_up Whether the reviewed netdev carrier is up.'',
      ''# TYPE dgx_fabric_link_up gauge'',
      ''# HELP dgx_fabric_mtu Reviewed netdev MTU.'',
      ''# TYPE dgx_fabric_mtu gauge'',
      ''# HELP dgx_fabric_rdma_link_up Whether the reviewed RDMA port is active.'',
      ''# TYPE dgx_fabric_rdma_link_up gauge'',
      ''# HELP dgx_fabric_rocev2_gid Whether the selected GID is RoCE v2.'',
      ''# TYPE dgx_fabric_rocev2_gid gauge'',
      ''# HELP dgx_fabric_link_flaps Number of carrier changes reported by sysfs.'',
      ''# TYPE dgx_fabric_link_flaps counter'',
      ''# HELP dgx_fabric_exporter_build_info Exporter build and host identity.'',
      ''# TYPE dgx_fabric_exporter_build_info gauge'']"

text \<open>The header lines have no line breaks, and the code joins them with the metrics without any.\<close>

definition gid_metrics :: "exporter \<Rightarrow> string \<Rightarrow> string \<Rightarrow> string \<Rightarrow> string list" where
  "gid_metrics X gid gid_type ndev =
     (let labels = [(''device'', fx_hca X), (''port'', fx_port X), (''index'', fx_gid_index X)];
          nonzero = (gid \<noteq> [] \<and> gid \<noteq> ''0000:0000:0000:0000:0000:0000:0000:0000'');
          ndev_match = (ndev = fx_ndev X)
      in [fx_metric ''dgx_fabric_gid_valid'' (flag nonzero) labels,
          fx_metric ''dgx_fabric_gid_ipv4_mapped'' (flag (starts_with ''0000:0000:0000:0000:0000:ffff:'' gid)) labels,
          fx_metric ''dgx_fabric_gid_type_info'' ''1'' (labels @ [(''gid_type'', if gid_type = [] then ''unknown'' else gid_type)]),
          fx_metric ''dgx_fabric_ndev_match'' (flag ndev_match) (labels @ [(''ndev'', if ndev = [] then ''unknown'' else ndev)]),
          fx_metric ''dgx_fabric_rocev2_gid'' (flag (lower gid_type = ''roce v2'' \<and> nonzero \<and> ndev_match)) labels])"

definition exposition :: "exporter \<Rightarrow> (path \<Rightarrow> string option) \<Rightarrow> (stack_error, string) comp" where
  "exposition X sys =
     (let gid = lower (rdma_file X sys [''gids'', fx_gid_index X]);
          gid_type = rdma_file X sys [''gid_attrs'', ''types'', fx_gid_index X];
          ndev = rdma_file X sys [''gid_attrs'', ''ndevs'', fx_gid_index X];
          carrier = net_file X sys ''carrier''; flaps = net_file X sys ''carrier_changes''; mtu = net_file X sys ''mtu'';
          rdma_state = lower (rdma_file X sys [''state''])
      in bind (fx_int mtu) (\<lambda>m.
           ret (concat (FX_HEADER
             @ [fx_metric ''dgx_fabric_exporter_build_info'' ''1'' [(''hostname'', fx_hostname X), (''interface'', fx_ndev X)]]
             @ gid_metrics X gid gid_type ndev
             @ [fx_metric ''dgx_fabric_link_up'' (flag (carrier = ''1'')) [(''ndev'', fx_ndev X)],
                fx_metric ''dgx_fabric_mtu'' (show_int m) [(''ndev'', fx_ndev X)],
                fx_metric ''dgx_fabric_rdma_link_up'' (flag (rdma_state \<in> {''active'', ''port_active''} \<or> contains ''active'' rdma_state))
                  [(''device'', fx_hca X), (''port'', fx_port X)]]
             @ (if isdigit flaps then [fx_metric ''dgx_fabric_link_flaps'' flaps [(''ndev'', fx_ndev X)]] else [])))))"

subsection \<open>A request\<close>

datatype fx_reply = Not_Found_404 | Page string

definition do_get :: "exporter \<Rightarrow> (path \<Rightarrow> string option) \<Rightarrow> string \<Rightarrow> (stack_error, fx_reply) comp" where
  "do_get X sys p =
     (if takeWhile (\<lambda>x. x \<noteq> CHR ''?'') p \<notin> {''/metrics'', ''/health''} then ret Not_Found_404
      else if starts_with ''/metrics'' p then bind (exposition X sys) (\<lambda>t. ret (Page (utf8 t)))
      else ret (Page (''ok'' @ [LF])))"

subsection \<open>The lines of a page\<close>

definition sample :: "string \<Rightarrow> string \<Rightarrow> (string \<times> string) list \<Rightarrow> string" where
  "sample m v labels = butlast (fx_metric m v labels)"

lemma fx_metric_sample: "fx_metric m v labels = sample m v labels @ [LF]"
  by (simp add: sample_def fx_metric_def butlast_append)

lemma sample_starts: "\<exists>r. sample m v labels = m @ r"
  by (simp add: sample_def fx_metric_def butlast_append)

lemma join_lines: "LF \<notin> set (join '','' ts) \<longleftrightarrow> (\<forall>t\<in>set ts. LF \<notin> set t)"
  by (induction "'',''" ts rule: join.induct) (auto simp: LF_def)

lemma label_line: "LF \<notin> set (fx_label v)"
  by (auto simp: fx_label_def LF_def BS_def DQ_def)

lemma sample_line:
  assumes "LF \<notin> set m" and "LF \<notin> set v" and "\<forall>k\<in>fst ` set labels. LF \<notin> set k"
  shows "LF \<notin> set (sample m v labels)"
proof -
  have "LF \<notin> set (k @ ''='' @ fx_label l)" if "(k, l) \<in> set labels" for k l
    using assms(3) that label_line [of l] by (force simp: LF_def)
  then have "LF \<notin> set (join '','' (map (\<lambda>(k, l). k @ ''='' @ fx_label l) (sort_key fst labels)))"
    unfolding join_lines by auto
  with assms show ?thesis by (auto simp: sample_def fx_metric_def butlast_append LF_def)
qed

lemma split_line: "x \<notin> set l \<Longrightarrow> split_on x (l @ x # s) = l # split_on x s"
  by (induction l) auto

lemma split_unlines: "\<forall>l\<in>set ls. LF \<notin> set l \<Longrightarrow> split_on LF (unlines ls) = ls @ [[]]"
  by (induction ls) (auto simp: unlines_def split_line)

lemma flag_line: "LF \<notin> set (flag b)"
  by (simp add: flag_def LF_def)

lemma digits_line: "isdigit s \<Longrightarrow> LF \<notin> set s"
  by (auto simp: isdigit_def LF_def is_digit_def code_def)

lemma header_line: "LF \<notin> set (concat FX_HEADER)"
  by code_simp

text \<open>A page as the samples it is made of: name, value and labels.\<close>

type_synonym sample_of = "string \<times> string \<times> (string \<times> string) list"

definition line_of :: "sample_of \<Rightarrow> string" where
  "line_of = (\<lambda>(m, v, labels). sample m v labels)"

definition breakless :: "sample_of \<Rightarrow> bool" where
  "breakless = (\<lambda>(m, v, labels). LF \<notin> set m \<and> LF \<notin> set v \<and> (\<forall>k\<in>fst ` set labels. LF \<notin> set k))"

definition gid_samples :: "exporter \<Rightarrow> string \<Rightarrow> string \<Rightarrow> string \<Rightarrow> sample_of list" where
  "gid_samples X gid gid_type ndev =
     (let labels = [(''device'', fx_hca X), (''port'', fx_port X), (''index'', fx_gid_index X)];
          nonzero = (gid \<noteq> [] \<and> gid \<noteq> ''0000:0000:0000:0000:0000:0000:0000:0000'');
          ndev_match = (ndev = fx_ndev X)
      in [(''dgx_fabric_gid_valid'', flag nonzero, labels),
          (''dgx_fabric_gid_ipv4_mapped'', flag (starts_with ''0000:0000:0000:0000:0000:ffff:'' gid), labels),
          (''dgx_fabric_gid_type_info'', ''1'', labels @ [(''gid_type'', if gid_type = [] then ''unknown'' else gid_type)]),
          (''dgx_fabric_ndev_match'', flag ndev_match, labels @ [(''ndev'', if ndev = [] then ''unknown'' else ndev)]),
          (''dgx_fabric_rocev2_gid'', flag (lower gid_type = ''roce v2'' \<and> nonzero \<and> ndev_match), labels)])"

definition net_samples :: "exporter \<Rightarrow> string \<Rightarrow> int \<Rightarrow> string \<Rightarrow> string \<Rightarrow> sample_of list" where
  "net_samples X carrier m rdma_state flaps =
     [(''dgx_fabric_link_up'', flag (carrier = ''1''), [(''ndev'', fx_ndev X)]), (''dgx_fabric_mtu'', show_int m, [(''ndev'', fx_ndev X)]),
      (''dgx_fabric_rdma_link_up'', flag (rdma_state \<in> {''active'', ''port_active''} \<or> contains ''active'' rdma_state),
        [(''device'', fx_hca X), (''port'', fx_port X)])]
     @ (if isdigit flaps then [(''dgx_fabric_link_flaps'', flaps, [(''ndev'', fx_ndev X)])] else [])"

definition build_sample :: "exporter \<Rightarrow> string" where
  "build_sample X = sample ''dgx_fabric_exporter_build_info'' ''1'' [(''hostname'', fx_hostname X), (''interface'', fx_ndev X)]"

lemma gid_metrics_samples: "gid_metrics X gid gid_type ndev = map (\<lambda>x. line_of x @ [LF]) (gid_samples X gid gid_type ndev)"
  by (simp add: gid_metrics_def gid_samples_def Let_def line_of_def fx_metric_sample)

lemma exposition_lines:
  assumes "exposition X sys = ret t"
  obtains gid gid_type ndev carrier m rdma_state flaps where "t = unlines ((concat FX_HEADER @ build_sample X)
    # map line_of (gid_samples X gid gid_type ndev @ net_samples X carrier m rdma_state flaps))"
proof -
  have u: "concat (map (\<lambda>x. line_of x @ [LF]) xs) = unlines (map line_of xs)" for xs by (simp add: unlines_def comp_def)
  have n: "[fx_metric ''dgx_fabric_link_up'' (flag (carrier = ''1'')) [(''ndev'', fx_ndev X)],
        fx_metric ''dgx_fabric_mtu'' (show_int m) [(''ndev'', fx_ndev X)],
        fx_metric ''dgx_fabric_rdma_link_up'' (flag (rdma_state \<in> {''active'', ''port_active''} \<or> contains ''active'' rdma_state))
          [(''device'', fx_hca X), (''port'', fx_port X)]]
      @ (if isdigit flaps then [fx_metric ''dgx_fabric_link_flaps'' flaps [(''ndev'', fx_ndev X)]] else [])
    = map (\<lambda>x. line_of x @ [LF]) (net_samples X carrier m rdma_state flaps)" for carrier m rdma_state flaps
    by (simp add: net_samples_def line_of_def fx_metric_sample)
  from assms obtain m where "t = concat (FX_HEADER
      @ [fx_metric ''dgx_fabric_exporter_build_info'' ''1'' [(''hostname'', fx_hostname X), (''interface'', fx_ndev X)]]
      @ map (\<lambda>x. line_of x @ [LF]) (gid_samples X (lower (rdma_file X sys [''gids'', fx_gid_index X]))
          (rdma_file X sys [''gid_attrs'', ''types'', fx_gid_index X]) (rdma_file X sys [''gid_attrs'', ''ndevs'', fx_gid_index X]))
      @ map (\<lambda>x. line_of x @ [LF]) (net_samples X (net_file X sys ''carrier'') m (lower (rdma_file X sys [''state''])) (net_file X sys ''carrier_changes'')))"
    unfolding exposition_def Let_def n gid_metrics_samples by auto
  then have "t = unlines ((concat FX_HEADER @ build_sample X)
      # map line_of (gid_samples X (lower (rdma_file X sys [''gids'', fx_gid_index X]))
          (rdma_file X sys [''gid_attrs'', ''types'', fx_gid_index X]) (rdma_file X sys [''gid_attrs'', ''ndevs'', fx_gid_index X])
        @ net_samples X (net_file X sys ''carrier'') m (lower (rdma_file X sys [''state''])) (net_file X sys ''carrier_changes'')))"
    by (simp add: u fx_metric_sample build_sample_def) (simp add: unlines_def)
  then show thesis by (rule that)
qed

lemma show_line: "LF \<notin> set (show_int i)"
proof -
  have "LF \<notin> set (digits n)" for n
    using isdecimal_digits [of n] by (auto simp: isdecimal_def is_digit_def LF_def code_def)
  then show ?thesis by (simp add: show_int_def LF_def)
qed

lemma line_of_breakless: "breakless x \<Longrightarrow> LF \<notin> set (line_of x)"
  by (cases x) (simp add: breakless_def line_of_def sample_line)

lemma samples_breakless:
  "\<forall>x\<in>set (gid_samples X gid gid_type ndev). breakless x" "\<forall>x\<in>set (net_samples X carrier m rdma_state flaps). breakless x"
  using flag_line show_line [of m] digits_line [of flaps]
  by (simp_all add: gid_samples_def net_samples_def breakless_def Let_def LF_def)

lemma build_breakless: "LF \<notin> set (build_sample X)"
  unfolding build_sample_def by (rule sample_line) (simp_all add: LF_def)

lemma line_starts: "starts_with (fst x) (line_of x)"
  using sample_starts [of "fst x"] by (cases x) (auto simp: line_of_def starts_with_iff)

lemma line_starts_iff:
  assumes "length (fst x) \<le> length n" and "\<not> starts_with (fst x) n"
  shows "\<not> starts_with n (line_of x)"
proof
  assume "starts_with n (line_of x)"
  with line_starts [of x] obtain r r' where "fst x @ r = n @ r'" unfolding starts_with_iff by metis
  with assms show False by (auto simp: append_eq_append_conv2 starts_with_iff)
qed

lemma samples_names:
  "map fst (gid_samples X gid gid_type ndev) = [''dgx_fabric_gid_valid'', ''dgx_fabric_gid_ipv4_mapped'', ''dgx_fabric_gid_type_info'',
     ''dgx_fabric_ndev_match'', ''dgx_fabric_rocev2_gid'']"
  "map fst (net_samples X carrier m rdma_state flaps) = [''dgx_fabric_link_up'', ''dgx_fabric_mtu'', ''dgx_fabric_rdma_link_up'']
     @ (if isdigit flaps then [''dgx_fabric_link_flaps''] else [])"
  by (simp_all add: gid_samples_def net_samples_def Let_def)

subsection \<open>What the page says\<close>

definition BUILD_INFO :: string where
  "BUILD_INFO = ''dgx_fabric_exporter_build_info''"

lemma other_names:
  assumes "x \<in> set (gid_samples X gid gid_type ndev @ net_samples X carrier m rdma_state flaps)"
  shows "length (fst x) \<le> length BUILD_INFO \<and> \<not> starts_with (fst x) BUILD_INFO"
proof -
  have "fst x \<in> set (map fst (gid_samples X gid gid_type ndev @ net_samples X carrier m rdma_state flaps))" using assms by auto
  also have "\<dots> \<subseteq> {''dgx_fabric_gid_valid'', ''dgx_fabric_gid_ipv4_mapped'', ''dgx_fabric_gid_type_info'',
     ''dgx_fabric_ndev_match'', ''dgx_fabric_rocev2_gid'', ''dgx_fabric_link_up'', ''dgx_fabric_mtu'', ''dgx_fabric_rdma_link_up'', ''dgx_fabric_link_flaps''}"
    unfolding map_append samples_names by auto
  finally show ?thesis by (elim insertE) (simp_all add: BUILD_INFO_def)
qed

lemma header_comment: "\<not> starts_with BUILD_INFO (concat FX_HEADER @ r)"
proof -
  have "concat FX_HEADER \<noteq> [] \<and> hd (concat FX_HEADER) = CHR ''#''" by code_simp
  then show ?thesis by (cases "concat FX_HEADER") (auto simp: BUILD_INFO_def)
qed

text \<open>
  C23. Whatever the files say, a page has for each metric that the verification of the stack asks for a line that
  starts with its name.  No line starts with the name of the build information: no line break ends the header, which is one
  comment that this metric is part of.
\<close>

theorem exporter_samples:
  assumes "exposition X sys = ret t"
  shows "(\<forall>m\<in>set FABRIC_METRICS. \<exists>l\<in>set (split_on LF t). starts_with m l)
    \<and> \<not> (\<exists>l\<in>set (split_on LF t). starts_with BUILD_INFO l)"
proof -
  from assms obtain gid gid_type ndev carrier m rdma_state flaps where t: "t = unlines ((concat FX_HEADER @ build_sample X)
      # map line_of (gid_samples X gid gid_type ndev @ net_samples X carrier m rdma_state flaps))" by (rule exposition_lines)
  let ?xs = "gid_samples X gid gid_type ndev @ net_samples X carrier m rdma_state flaps"
  have b: "\<forall>x\<in>set ?xs. breakless x" using samples_breakless by auto
  have l: "split_on LF t = (concat FX_HEADER @ build_sample X) # map line_of ?xs @ [[]]"
    unfolding t by (subst split_unlines) (use b header_line build_breakless line_of_breakless in auto)
  have "set FABRIC_METRICS \<subseteq> set (map fst ?xs)"
    unfolding map_append samples_names FABRIC_METRICS_def by auto
  then have "\<exists>l\<in>set (split_on LF t). starts_with n l" if "n \<in> set FABRIC_METRICS" for n
  proof -
    from that obtain x where "x \<in> set ?xs" "fst x = n"
      using \<open>set FABRIC_METRICS \<subseteq> _\<close> unfolding set_map by blast
    moreover from this have "line_of x \<in> set (split_on LF t)" unfolding l by auto
    ultimately show ?thesis using line_starts [of x] by auto
  qed
  moreover have "\<not> starts_with BUILD_INFO l" if "l \<in> set (split_on LF t)" for l
  proof -
    from that consider "l = concat FX_HEADER @ build_sample X" | x where "x \<in> set ?xs" "l = line_of x" | "l = []"
      unfolding l by auto
    then show ?thesis
    proof cases
      case 2
      with line_starts_iff other_names show ?thesis by blast
    qed (use header_comment in \<open>simp_all add: BUILD_INFO_def\<close>)
  qed
  ultimately show ?thesis by blast
qed

lemma exporter_samples_witness:
  "let X = \<lparr>fx_root = (''/'', [''host'', ''sys'']), fx_hca = ''h'', fx_port = ''1'', fx_ndev = ''n'', fx_gid_index = ''4'', fx_hostname = ''d''\<rparr>
   in \<exists>t. exposition X (\<lambda>_. None) = ret t \<and> (\<exists>l\<in>set (split_on LF t). starts_with ''dgx_fabric_ndev_match'' l)
     \<and> \<not> (\<exists>l\<in>set (split_on LF t). starts_with BUILD_INFO l)"
proof -
  let ?X = "\<lparr>fx_root = (''/'', [''host'', ''sys'']), fx_hca = ''h'', fx_port = ''1'', fx_ndev = ''n'', fx_gid_index = ''4'', fx_hostname = ''d''\<rparr>"
  have "fx_int (net_file ?X (\<lambda>_. None) ''mtu'') = ret 0" by code_simp
  then obtain t where t: "exposition ?X (\<lambda>_. None) = ret t" unfolding exposition_def Let_def by simp
  have "''dgx_fabric_ndev_match'' \<in> set FABRIC_METRICS" by code_simp
  with exporter_samples [OF t] t show ?thesis unfolding Let_def by blast
qed

end
