(* ===== verification/Spec2Isabelle.thy ===== *)
theory Spec2Isabelle
  imports KV_Hash KV_Pool_Props L2_Scan Json Deploy_Demo Engine_Again Model_Demo Stack_Demo Stack_Exporter
begin

text \<open>
  A two-node deployment of a DeepSeek V4 inference service on DGX Spark machines, and the parts of the
  serving stack that the repository patches.

  \<^bold>\<open>The program.\<close>  The tool \<^verbatim>\<open>dgx_deploy/\<close> reads an env file and a reviewed service profile
  (\<^verbatim>\<open>config.py\<close>), loads a deployment lock that pins the image of each node (\<^verbatim>\<open>locks.py\<close>), derives the
  network specification of each role (\<^verbatim>\<open>fabric.py\<close>), renders environments, command lines and contracts
  (\<^verbatim>\<open>render.py\<close>, \<^verbatim>\<open>contract.py\<close>), shows them redacted (\<^verbatim>\<open>redact.py\<close>, \<^verbatim>\<open>manifest.py\<close>) and drives the two hosts
  (\<^verbatim>\<open>lifecycle.py\<close>, \<^verbatim>\<open>remote.py\<close>, \<^verbatim>\<open>cli.py\<close>).  The scripts fetch and verify the model
  (\<^verbatim>\<open>scripts/model/\<close>) and run a monitoring stack beside the service (\<^verbatim>\<open>scripts/observability/\<close>).  On the nodes a sidecar bounds the cache directory of the
  second cache level (\<^verbatim>\<open>lmcache_lifecycle.py\<close>), and an overlay under \<^verbatim>\<open>artifacts/\<close> replaces files of vLLM and
  LMCache; of these the prefix cache of vLLM carries the logic: block hashes and the free list in
  \<^verbatim>\<open>kv_cache_utils.py\<close>, the block pool in \<^verbatim>\<open>block_pool.py\<close>, the requests that own hashes in \<^verbatim>\<open>request.py\<close>
  and the session protection that \<^verbatim>\<open>scheduler.py\<close> stamps on blocks.

  \<^bold>\<open>Effects.\<close>  A call of the source is a value of type \<open>('e, 'a) comp\<close> of \<open>Prelude\<close>: it never returns, raises
  or returns.  State is a record that operations take and return.  The exceptions of a group of
  modules are a datatype (\<open>qexn\<close>, \<open>config_error\<close>, \<open>exn\<close>); messages are not modelled.  Text is a list of
  characters, each standing for its code point below 256; on them the character classes, \<^verbatim>\<open>strip\<close>, \<^verbatim>\<open>lower\<close>,
  \<^verbatim>\<open>splitlines\<close> and \<^verbatim>\<open>int\<close> of \<open>Py_Text\<close> are those of Python, except that \<^verbatim>\<open>int\<close> has no limit on the number
  of digits; characters above 255, with their digits, cases and blanks, and the constants \<^verbatim>\<open>NaN\<close> and \<^verbatim>\<open>Infinity\<close> of
  Python's JSON are outside the model.

  \<^bold>\<open>Prefix cache.\<close>  \<open>KV_Queue\<close> models \<^verbatim>\<open>FreeKVCacheBlockQueue\<close> as a heap of next and previous pointers with two
  sentinels; \<open>dll\<close> says that it represents a list, and every operation is shown to act on that list as
  its name says (locale \<open>free_queue\<close>, interpreted on the model).  The loops that follow pointers are
  partial functions, so not returning is a possible outcome and returning is proved.  \<open>KV_Index\<close> has the
  group keys and \<^verbatim>\<open>BlockHashToBlockMap\<close> with its one-or-many slots (locale \<open>hash_index\<close>).  \<open>KV_Request\<close>
  has the extra keys, the incremental hasher and the coarse views; the hash function is a
  parameter.  \<open>KV_Hash\<close> has what the hashes mean: equal hashes of two requests stand for equal prefixes with
  equal extra keys, multimodal inputs included, hashing as tokens arrive is hashing at once for requests
  without multimodal inputs, and is not when two inputs overlap a partial block.  \<open>KV_Pool\<close> defines \<^verbatim>\<open>BlockPool\<close> operation by operation; \<open>KV_Pool_Inv\<close> states its invariant
  \<open>pool_inv p xs\<close> (the free list \<open>xs\<close> is the unreferenced blocks, the index and the hashes of blocks agree,
  the recorded next expiry is never too late), \<open>KV_Pool_Ops\<close>, \<open>KV_Pool_Idle\<close> and \<open>KV_Pool_Cache\<close> prove that
  each operation keeps it and what else it does, and \<open>KV_Pool_Props\<close> has the properties, among them the
  invariant of every pool reachable through \<open>pool_step\<close>.

  \<^bold>\<open>Second cache level.\<close>  \<open>L2_Cache\<close> models \<^verbatim>\<open>L2Lifecycle\<close>.  The file system is a map from paths to what
  \<^verbatim>\<open>stat\<close> returns; before every system call an arbitrary interference of the world's schedule changes
  it, so that the races with the cache server are part of the model.  Directory trees are data, and the
  recursion of \<^verbatim>\<open>_iter_files\<close> terminates by their size.  The trim ratio, a float in the source, is an exact
  rational.  \<open>L2_Scan\<close> has the exact effect of an undisturbed
  scan, with the numbers and bytes that it reports, and what holds of disturbed ones.

  \<^bold>\<open>Configuration.\<close>  \<open>Config_Env\<close> has the env file and the checks of single values, \<open>Config_Check\<close> the groups of
  checks of \<^verbatim>\<open>validate\<close> in the order of the code and the deployment record it builds, \<open>Config_Profile\<close> the
  profile tables and \<^verbatim>\<open>load_config\<close>.  \<open>Json\<close> has JSON values, Python's equality on them (which takes \<^verbatim>\<open>true\<close>
  for 1) and the canonical text.  A float is the exact value of its double.  \<open>Config_Props\<close> has what an
  accepted configuration guarantees, and \<open>Config_Demo\<close> evaluates the model on the committed profile and on
  a production and a candidate env file.

  \<^bold>\<open>Rendering and locking.\<close>  \<open>Fabric\<close>, \<open>Redact\<close>, \<open>Manifest\<close>, \<open>Render\<close>, \<open>Contract\<close> and \<open>Locks\<close> follow the modules of
  these names on the typed configuration that \<^verbatim>\<open>load_config\<close> returns; \<open>Redact\<close> has a backtracking matcher for
  the regular expressions of the source.  \<open>Contract_Props\<close>, \<open>Locks_Props\<close> and \<open>Fabric_Props\<close> have the
  properties, \<open>Deploy_Demo\<close> their instances.  The contract that the render command writes and the one that it renders carry
  the digests of two different texts; the labels and the image of a rendered container are those of the role's entry in
  the lock's text.

  \<^bold>\<open>Engine.\<close>  \<open>Effects\<close> has computations with a state that failing runs keep as well, triples for them and
  frames (relations that every run respects, however it ends).  The state \<open>engine\<close> of \<^verbatim>\<open>DeploymentEngine\<close> is the log
  of what left the process (commands run on a host, files copied, the state file written, pauses), the
  discovered GID indexes, the contracts and the local files; the answer of a host to a command is an
  arbitrary function of the log so far, so hosts may change between any two commands.  \<open>Remote\<close> models
  \<^verbatim>\<open>remote.py\<close>, \<open>Inspect\<close> the checks of what \<^verbatim>\<open>docker inspect\<close> reports, \<open>Engine\<close> the constructor, the commands and
  the preflight, \<open>Engine_State\<close> the captured state and the network restoration, \<open>Engine_Ops\<close> staging, the
  operations on the pair and the first half of the rollback, \<open>Engine_Apply\<close> the rest of it and the
  deployment with its recovery.  \<open>Engine_Log\<close> and \<open>Engine_Runs\<close> classify events and take successful runs apart;
  \<open>Engine_Order\<close> (capture first, checks of a rollback), \<open>Engine_Deploy\<close> (what a successful deployment did),
  \<open>Engine_Own\<close> and \<open>Engine_Law\<close> (nothing is removed without authority), \<open>Engine_Restore\<close> (what a rollback has
  restored, stated on what Docker reports and not through the code's own checks, and what a failed first deployment has
  removed; \<open>Engine_Again\<close> has instances) and \<open>Engine_Live\<close>, \<open>Engine_Created\<close> and
  \<open>Engine_Complete\<close> (a deployment on healthy hosts comes to its end; for fabric profile f0, as the changes of
  an f1 link would need a model of NetworkManager) have the properties.  \<open>Engine_Demo\<close> is a
  pair of hosts that answers as containers do, \<open>Engine_Cases\<close> the instances on it.

  \<^bold>\<open>Command line.\<close>  \<open>Cli\<close> follows \<^verbatim>\<open>cli.py\<close> from the parsed arguments on: loading, the confirmation gate,
  the dispatch, rendering to a directory and the exit statuses; \<open>Cli_Props\<close> has what an unconfirmed run can
  do, the statuses, and the command that does nothing.

  \<^bold>\<open>Model.\<close>  \<open>Model_Lock\<close> follows \<^verbatim>\<open>validate_lock\<close> of \<^verbatim>\<open>scripts/model/verify.py\<close>, \<open>Model_Verify\<close> the verification of an
  installed tree and \<open>Model_Fetch\<close> the fetch, staging and installation of \<^verbatim>\<open>fetch.py\<close>.  A directory tree is a
  value, opening a special file may never return, and what other processes do to the parent directory
  between two steps is a parameter, as are the download, what \<^verbatim>\<open>flock\<close> does (it grants the lock, raises or waits
  for ever), whether its release raises, and what \<^verbatim>\<open>rmtree\<close> leaves.  \<open>Model_Props\<close> shows that the verification accepts
  exactly the locked tree, metadata included (\<open>metadata_agrees\<close>), and always ends, \<open>Model_Install\<close> that an installation is
  verified and goes over nothing but an empty directory, and that a fetch that raises leaves the parent directory as it
  was, apart from the lock file, what \<^verbatim>\<open>rmtree\<close> left, and an installation whose lock could not be released;
  \<open>Model_Demo\<close> has their instances.

  \<^bold>\<open>Observability.\<close>  \<^verbatim>\<open>scripts/observability/stack.py\<close>: \<open>Stack_Config\<close> has the env file, the profile, the image lock and
  \<^verbatim>\<open>_config\<close>, a group of values at a time; \<open>Stack_Render\<close> the files that are uploaded, dashboard included, \<open>Stack_Script\<close>
  the scripts for the two hosts, \<open>Stack_Run\<close> the commands.  The state of a run is its output, the local files and the
  processes it started; the answer of a process is an arbitrary function of its position, arguments and
  input.  \<open>Stack_Exporter\<close> is \<^verbatim>\<open>fabric_exporter.py\<close> over an arbitrary \<^verbatim>\<open>/sys\<close>.  \<open>Stack_Frames\<close> (what dry runs
  leave alone), \<open>Stack_Secret\<close> (runs that differ in the password agree), \<open>Stack_Accepted\<close> (what an accepted
  configuration has) and \<open>Stack_Order\<close> (order of the processes, removal of the archive) carry \<open>Stack_Props\<close>;
  \<open>Stack_Demo\<close> has the instances.

  \<^bold>\<open>Parameters.\<close>  \<^verbatim>\<open>sha256\<close>, the block hash, \<^verbatim>\<open>json.loads\<close>, \<^verbatim>\<open>Path.resolve\<close>, reading a file and Python's text
  of floats and containers are arguments of the definitions that use them.

  \<^bold>\<open>Bounds and fuel.\<close>  Only the substitution of regular expressions is bounded, by the length of the text,
  which it cannot exceed because every match and every step consumes.  The retries of the engine, 12 for a GID
  and 36 for readiness, are those of the source.

  \<^bold>\<open>Not modelled.\<close>  The argument parsers and the creation and deletion of temporary files; the HTTP
  transfer of the download and the HTTP server of the exporter; the scheduler and connectors, whose classes rest
  on vLLM and LMCache code that is not in the repository; the environment table \<^verbatim>\<open>envs.py\<close>; the wrapper that
  starts the cache server and the validation wrappers.
\<close>

end
